(* ===== verification/Prelude.thy ===== *)
theory Prelude
  imports
    Complex_Main
    "HOL-Library.Word"
    "HOL-Library.AList"
    "HOL-Library.List_Lexorder"
    "HOL-Library.Char_ord"
begin

text \<open>
  Shared vocabulary of the development: the machine types of the Rust sources, the
  representation of the standard containers, and the generic lemmas on them.

  \<^item> \<open>MmNumber\<close> and \<open>BigRational\<close> (\<open>mm2_number\<close>) are exact rationals: type \<open>rat\<close>.
  \<^item> \<open>u64\<close> and \<open>u32\<close> are words; both build profiles of the workspace switch
    \<open>debug-assertions\<close> off, so their arithmetic wraps around.
  \<^item> A \<open>HashMap\<close> is an association list with distinct keys; the list order stands for the
    unspecified iteration order.
  \<^item> A \<open>HashSet\<close> is a distinct list, a \<open>BTreeSet\<close> a sorted distinct list.
  \<^item> \<open>Result<T, E>\<close> is the sum \<open>E + T\<close>; a panic is a value of its own.
\<close>

section \<open>Machine types\<close>

type_synonym u8 = "8 word"
type_synonym u16 = "16 word"
type_synonym u32 = "32 word"
type_synonym u64 = "64 word"
type_synonym mm_number = rat
type_synonym uuid = nat
type_synonym ticker = string
type_synonym pubkey = string
type_synonym bytes = "8 word list"
type_synonym h256 = "8 word list"

named_theorems hm_simps \<open>lookup equations of the container operations\<close>
named_theorems wf_intros \<open>preservation of the container invariants\<close>

section \<open>Results\<close>

definition bind_res :: "'e + 'a \<Rightarrow> ('a \<Rightarrow> 'e + 'b) \<Rightarrow> 'e + 'b" where
  "bind_res r f = (case r of Inl e \<Rightarrow> Inl e | Inr a \<Rightarrow> f a)"

lemma bind_res_simps [simp]:
  "bind_res (Inl e) f = Inl e"
  "bind_res (Inr a) f = f a"
  by (simp_all add: bind_res_def)

lemma bind_res_Inr_iff:
  "bind_res r f = Inr b \<longleftrightarrow> (\<exists>a. r = Inr a \<and> f a = Inr b)"
  by (cases r) simp_all

lemma bind_res_assoc: "bind_res (bind_res r f) g = bind_res r (\<lambda>a. bind_res (f a) g)"
  by (cases r) simp_all

section \<open>Hash maps as association lists\<close>

type_synonym ('k, 'v) hash_map = "('k \<times> 'v) list"

definition hm_get :: "('k, 'v) hash_map \<Rightarrow> 'k \<Rightarrow> 'v option" where
  "hm_get m k = map_of m k"

definition hm_insert :: "'k \<Rightarrow> 'v \<Rightarrow> ('k, 'v) hash_map \<Rightarrow> ('k, 'v) hash_map" where
  "hm_insert k v m = AList.update k v m"

definition hm_remove :: "'k \<Rightarrow> ('k, 'v) hash_map \<Rightarrow> ('k, 'v) hash_map" where
  "hm_remove k m = AList.delete k m"

text \<open>\<open>entry(k).or_default()\<close> followed by a mutation of the borrowed value.\<close>

definition hm_entry :: "'k \<Rightarrow> 'v \<Rightarrow> ('v \<Rightarrow> 'v) \<Rightarrow> ('k, 'v) hash_map \<Rightarrow> ('k, 'v) hash_map" where
  "hm_entry k d f m = hm_insert k (f (case hm_get m k of Some v \<Rightarrow> v | None \<Rightarrow> d)) m"

definition hm_ok :: "('k, 'v) hash_map \<Rightarrow> bool" where
  "hm_ok m = distinct (map fst m)"

lemma hm_get_Nil [hm_simps]: "hm_get [] k = None"
  by (simp add: hm_get_def)

lemma hm_get_insert [hm_simps]: "hm_get (hm_insert k v m) k' = (if k' = k then Some v else hm_get m k')"
  by (simp add: hm_get_def hm_insert_def update_conv')

lemma hm_get_remove [hm_simps]: "hm_get (hm_remove k m) k' = (if k' = k then None else hm_get m k')"
  by (simp add: hm_get_def hm_remove_def delete_conv')

lemma hm_get_entry [hm_simps]:
  "hm_get (hm_entry k d f m) k' =
    (if k' = k then Some (f (case hm_get m k of Some v \<Rightarrow> v | None \<Rightarrow> d)) else hm_get m k')"
  by (simp add: hm_entry_def hm_get_insert)

lemma hm_ok_Nil [wf_intros]: "hm_ok []"
  by (simp add: hm_ok_def)

lemma hm_ok_insert [wf_intros]: "hm_ok m \<Longrightarrow> hm_ok (hm_insert k v m)"
  by (simp add: hm_ok_def hm_insert_def distinct_update)

lemma hm_ok_remove [wf_intros]: "hm_ok m \<Longrightarrow> hm_ok (hm_remove k m)"
  by (simp add: hm_ok_def hm_remove_def distinct_delete)

lemma hm_ok_entry [wf_intros]: "hm_ok m \<Longrightarrow> hm_ok (hm_entry k d f m)"
  by (simp add: hm_entry_def hm_ok_insert)

lemma hm_get_SomeD: "hm_get m k = Some v \<Longrightarrow> (k, v) \<in> set m"
  by (simp add: hm_get_def map_of_SomeD)

lemma hm_ok_get_iff: "hm_ok m \<Longrightarrow> hm_get m k = Some v \<longleftrightarrow> (k, v) \<in> set m"
  by (auto simp: hm_ok_def hm_get_def)

text \<open>
  The pattern \<open>if let Some(s) = m.get_mut(k) { f s; if s.is_empty() { m.remove(k) } }\<close>, and
  the set stored under a key (empty when there is none).
\<close>

definition hm_prune :: "'k \<Rightarrow> ('a list \<Rightarrow> 'a list) \<Rightarrow> ('k, 'a list) hash_map \<Rightarrow> ('k, 'a list) hash_map" where
  "hm_prune k f m =
     (case hm_get m k of
        None \<Rightarrow> m
      | Some s \<Rightarrow> (let s' = f s in if s' = [] then hm_remove k m else hm_insert k s' m))"

definition hm_members :: "('k, 'a list) hash_map \<Rightarrow> 'k \<Rightarrow> 'a list" where
  "hm_members m k = (case hm_get m k of Some s \<Rightarrow> s | None \<Rightarrow> [])"

lemma hm_members_entry [hm_simps]:
  "hm_members (hm_entry k [] f m) k' = (if k' = k then f (hm_members m k) else hm_members m k')"
  by (simp add: hm_members_def hm_get_entry)

lemma hm_members_prune [hm_simps]:
  "f [] = [] \<Longrightarrow>
    hm_members (hm_prune k f m) k' = (if k' = k then f (hm_members m k) else hm_members m k')"
  by (auto simp: hm_members_def hm_prune_def Let_def hm_get_insert hm_get_remove split: option.splits)

lemma hm_ok_prune [wf_intros]: "hm_ok m \<Longrightarrow> hm_ok (hm_prune k f m)"
  by (simp add: hm_prune_def Let_def hm_ok_insert hm_ok_remove split: option.splits)

lemma hm_all_insert:
  "list_all P m \<Longrightarrow> P (k, v) \<Longrightarrow> list_all P (hm_insert k v m)"
  by (induction m) (auto simp: hm_insert_def)

lemma hm_all_remove: "list_all P m \<Longrightarrow> list_all P (hm_remove k m)"
  by (auto simp: hm_remove_def list_all_iff AList.delete_eq)

lemma hm_all_get: "list_all P m \<Longrightarrow> hm_get m k = Some v \<Longrightarrow> P (k, v)"
  by (auto simp: list_all_iff dest: hm_get_SomeD)

text \<open>A property of every entry of a map, the form of the invariants on the stores of orders.\<close>

definition hm_forall :: "('k \<Rightarrow> 'v \<Rightarrow> bool) \<Rightarrow> ('k, 'v) hash_map \<Rightarrow> bool" where
  "hm_forall P m = (hm_ok m \<and> list_all (\<lambda>(k, v). P k v) m)"

lemma hm_forall_Nil [wf_intros]: "hm_forall P []"
  by (simp add: hm_forall_def hm_ok_Nil)

lemma hm_forall_insert [wf_intros]: "hm_forall P m \<Longrightarrow> P k v \<Longrightarrow> hm_forall P (hm_insert k v m)"
  by (simp add: hm_forall_def hm_ok_insert hm_all_insert)

lemma hm_forall_remove [wf_intros]: "hm_forall P m \<Longrightarrow> hm_forall P (hm_remove k m)"
  by (simp add: hm_forall_def hm_ok_remove hm_all_remove)

lemma hm_forall_get: "hm_forall P m \<Longrightarrow> hm_get m k = Some v \<Longrightarrow> P k v"
  by (auto simp: hm_forall_def dest: hm_all_get)

lemma hm_forall_mem: "hm_forall P m \<Longrightarrow> (k, v) \<in> set m \<Longrightarrow> P k v"
  by (auto simp: hm_forall_def list_all_iff)

lemma hm_ok_filter [wf_intros]: "hm_ok m \<Longrightarrow> hm_ok (filter Q m)"
  by (simp add: hm_ok_def distinct_map_filter)

lemma hm_forall_filter [wf_intros]: "hm_forall P m \<Longrightarrow> hm_forall P (filter Q m)"
  by (auto simp: hm_forall_def hm_ok_filter list_all_iff)

lemma hm_forall_map_values:
  "hm_forall P m \<Longrightarrow> (\<And>k v. (k, v) \<in> set m \<Longrightarrow> P k v \<Longrightarrow> Q k (f v)) \<Longrightarrow> hm_forall Q (map (\<lambda>(k, v). (k, f v)) m)"
  by (auto simp: hm_forall_def hm_ok_def list_all_iff comp_def split_beta)

lemma hm_get_filter:
  "hm_ok m \<Longrightarrow> hm_get (filter (\<lambda>(k, v). Q k v) m) k = (case hm_get m k of Some v \<Rightarrow> if Q k v then Some v else None | None \<Rightarrow> None)"
  by (induction m) (auto simp: hm_get_def hm_ok_def map_of_eq_None_iff split: option.splits)

lemma hm_get_map_values: "hm_get (map (\<lambda>(k, v). (k, f v)) m) k = map_option f (hm_get m k)"
  by (induction m) (auto simp: hm_get_def)

lemma hm_insert_fresh: "hm_get m k = None \<Longrightarrow> hm_insert k v m = m @ [(k, v)]"
  by (induction m) (auto simp: hm_get_def hm_insert_def split: if_splits)

lemma hm_sum_insert:
  fixes f :: "'k \<Rightarrow> 'v \<Rightarrow> 'a::comm_monoid_add"
  assumes "hm_get m k = Some w" "f k v = f k w"
  shows "(\<Sum>(k, v)\<leftarrow>hm_insert k v m. f k v) = (\<Sum>(k, v)\<leftarrow>m. f k v)"
  using assms by (induction m) (auto simp: hm_get_def hm_insert_def split: if_splits)

lemma hm_get_fold_remove: "hm_get (fold hm_remove ks m) k = (if k \<in> set ks then None else hm_get m k)"
  by (induction ks arbitrary: m) (auto simp: hm_get_remove)

lemma hm_ok_fold_remove: "hm_ok m \<Longrightarrow> hm_ok (fold hm_remove ks m)"
  by (induction ks arbitrary: m) (auto simp: hm_ok_remove)

lemma hm_sum_remove:
  fixes f :: "'k \<Rightarrow> 'v \<Rightarrow> 'a::comm_monoid_add"
  assumes "hm_ok m" "hm_get m k = Some w"
  shows "(\<Sum>(k, v)\<leftarrow>m. f k v) = f k w + (\<Sum>(k, v)\<leftarrow>hm_remove k m. f k v)"
proof -
  have "AList.delete k m = m" if "k \<notin> fst ` set m" for m :: "('k, 'v) hash_map"
    using that by (induction m) auto
  then show ?thesis
    using assms by (induction m) (auto simp: hm_get_def hm_remove_def hm_ok_def add.left_commute split: if_splits)
qed

text \<open>
  A sum over the values of a hash map does not depend on the order in which the map is
  iterated: two lists with distinct keys and the same lookups are permutations.
\<close>

lemma hm_sum_list_cong:
  fixes f :: "'k \<times> 'v \<Rightarrow> 'a::comm_monoid_add"
  assumes "hm_ok m" "hm_ok m'" "hm_get m = hm_get m'"
  shows "(\<Sum>x\<leftarrow>m. f x) = (\<Sum>x\<leftarrow>m'. f x)"
proof -
  have "distinct m" "distinct m'"
    using assms(1,2) by (simp_all add: hm_ok_def distinct_map)
  moreover have "set m = set m'"
    using hm_ok_get_iff[OF assms(1)] hm_ok_get_iff[OF assms(2)] assms(3)
    by (auto simp: set_eq_iff)
  ultimately show ?thesis
    by (simp add: sum_list_distinct_conv_sum_set)
qed

section \<open>The map interface\<close>

text \<open>
  What the components use of a map: the operations they call and the laws that relate them.
  The laws of a keyed store of sets are derived from it once, and used by every index of
  the order book.
\<close>

locale keyed_store =
  fixes get :: "'m \<Rightarrow> 'k \<Rightarrow> 'v option"
    and put :: "'k \<Rightarrow> 'v \<Rightarrow> 'm \<Rightarrow> 'm"
    and del :: "'k \<Rightarrow> 'm \<Rightarrow> 'm"
    and ok :: "'m \<Rightarrow> bool"
  assumes get_put: "get (put k v m) k' = (if k' = k then Some v else get m k')"
    and get_del: "get (del k m) k' = (if k' = k then None else get m k')"
    and ok_put: "ok m \<Longrightarrow> ok (put k v m)"
    and ok_del: "ok m \<Longrightarrow> ok (del k m)"
begin

lemma put_put: "get (put k v (put k w m)) = get (put k v m)"
  by (rule ext) (simp add: get_put)

lemma del_put: "get (del k (put k v m)) = get (del k m)"
  by (rule ext) (simp add: get_put get_del)

lemma put_frame: "k' \<noteq> k \<Longrightarrow> get (put k v m) k' = get m k'"
  by (simp add: get_put)

lemma del_frame: "k' \<noteq> k \<Longrightarrow> get (del k m) k' = get m k'"
  by (simp add: get_del)

end

interpretation hm: keyed_store hm_get hm_insert hm_remove hm_ok
  by unfold_locales (auto simp: hm_simps intro: wf_intros)

section \<open>The set interface and the keyed sets of the order book\<close>

text \<open>
  \<open>HashSet\<close> (distinct list) and \<open>BTreeSet\<close> (sorted distinct list) as the order book uses
  them: insertion, removal, emptiness.
\<close>

definition hs_insert :: "'a \<Rightarrow> 'a list \<Rightarrow> 'a list" where
  "hs_insert x xs = List.insert x xs"

definition hs_remove :: "'a \<Rightarrow> 'a list \<Rightarrow> 'a list" where
  "hs_remove x xs = removeAll x xs"

definition bs_insert :: "'a::linorder \<Rightarrow> 'a list \<Rightarrow> 'a list" where
  "bs_insert x xs = insort_insert x xs"

definition bs_ok :: "'a::linorder list \<Rightarrow> bool" where
  "bs_ok xs = (sorted xs \<and> distinct xs)"

lemma hs_insert_set [simp]: "set (hs_insert x xs) = insert x (set xs)"
  by (simp add: hs_insert_def)

lemma hs_remove_set [simp]: "set (hs_remove x xs) = set xs - {x}"
  by (simp add: hs_remove_def)

lemma bs_insert_set [simp]: "set (bs_insert x xs) = insert x (set xs)"
  by (auto simp: bs_insert_def set_insort_insert)

lemma hs_insert_distinct [wf_intros]: "distinct xs \<Longrightarrow> distinct (hs_insert x xs)"
  by (simp add: hs_insert_def)

lemma hs_remove_distinct [wf_intros]: "distinct xs \<Longrightarrow> distinct (hs_remove x xs)"
  by (simp add: hs_remove_def distinct_removeAll)

lemma sorted_removeAll: "sorted xs \<Longrightarrow> sorted (removeAll x xs)"
  by (simp add: removeAll_filter_not_eq sorted_filter[where f = "\<lambda>x. x", simplified])

lemma bs_ok_insert [wf_intros]: "bs_ok xs \<Longrightarrow> bs_ok (bs_insert x xs)"
  by (simp add: bs_ok_def bs_insert_def sorted_insort_insert distinct_insort_insert)

lemma bs_ok_remove [wf_intros]: "bs_ok xs \<Longrightarrow> bs_ok (hs_remove x xs)"
  by (simp add: bs_ok_def hs_remove_def distinct_removeAll sorted_removeAll)

lemma bs_ok_Nil [wf_intros]: "bs_ok []"
  by (simp add: bs_ok_def)

locale set_store =
  fixes add :: "'a \<Rightarrow> 'a list \<Rightarrow> 'a list"
    and rem :: "'a \<Rightarrow> 'a list \<Rightarrow> 'a list"
    and sok :: "'a list \<Rightarrow> bool"
  assumes add_set: "set (add x s) = insert x (set s)"
    and rem_set: "set (rem x s) = set s - {x}"
    and sok_add: "sok s \<Longrightarrow> sok (add x s)"
    and sok_rem: "sok s \<Longrightarrow> sok (rem x s)"
    and sok_Nil: "sok []"
begin

text \<open>
  The two update patterns of the indices: \<open>entry(k).or_default().insert(x)\<close>, and removal of
  an element followed by dropping the key once its set is empty.
\<close>

lemma rem_Nil: "rem x [] = []"
  using rem_set[of x "[]"] by simp

lemma keyed_add_members:
  "set (hm_members (hm_entry k [] (add x) m) k') =
    (if k' = k then insert x (set (hm_members m k)) else set (hm_members m k'))"
  by (simp add: hm_members_entry add_set)

lemma keyed_remove_members:
  "set (hm_members (hm_prune k (rem x) m) k') =
    (if k' = k then set (hm_members m k) - {x} else set (hm_members m k'))"
  by (simp add: hm_members_prune rem_Nil rem_set)

lemma keyed_add_ok:
  "list_all (\<lambda>(k, s). sok s) m \<Longrightarrow> list_all (\<lambda>(k, s). sok s) (hm_entry k [] (add x) m)"
  by (auto simp: hm_entry_def intro!: hm_all_insert sok_add sok_Nil
      dest: hm_all_get split: option.splits)

lemma keyed_remove_ok:
  "list_all (\<lambda>(k, s). sok s) m \<Longrightarrow> list_all (\<lambda>(k, s). sok s) (hm_prune k (rem x) m)"
  by (auto simp: hm_prune_def Let_def intro!: hm_all_insert hm_all_remove sok_rem
      dest: hm_all_get split: option.splits)

end

interpretation hs: set_store hs_insert hs_remove distinct
  by unfold_locales (auto intro: wf_intros)

interpretation bs: set_store bs_insert hs_remove bs_ok
  by unfold_locales (auto intro: wf_intros)

end
