(* ===== verification/TimeCache.thy ===== *)
theory TimeCache
  imports Prelude
begin

text \<open>
  The time-based cache of \<open>mm2src/common/time_cache.rs\<close>: a map from keys to values with an
  expiration instant, and a queue of keys in the order of their expiration that drives a lazy
  purge. The clock \<open>Instant::now()\<close> is an argument of each operation; instants and the time to
  live are natural numbers. The invariant ties the queue to the map, and the operations are
  related to a specification on the map of entries that are alive at the current instant.
\<close>

section \<open>State and operations\<close>

record 'a expiring_element =
  ee_element :: 'a
  ee_expires :: nat

record ('k, 'v) time_cache =
  tc_map :: "('k, 'v expiring_element) hash_map"
  tc_list :: "'k expiring_element list"
  tc_ttl :: nat

definition tc_new :: "nat \<Rightarrow> ('k, 'v) time_cache" where
  "tc_new ttl = \<lparr>tc_map = [], tc_list = [], tc_ttl = ttl\<rparr>"

text \<open>The body of the \<open>while let Some(element) = self.list.pop_front()\<close> loop.\<close>

fun remove_expired_loop ::
  "nat \<Rightarrow> 'k expiring_element list \<Rightarrow> ('k, 'v expiring_element) hash_map \<Rightarrow>
    'k expiring_element list \<times> ('k, 'v expiring_element) hash_map" where
  "remove_expired_loop now [] m = ([], m)"
| "remove_expired_loop now (e # es) m =
     (if now < ee_expires e then (e # es, m)
      else remove_expired_loop now es
        (case hm_get m (ee_element e) of
           Some x \<Rightarrow> if ee_expires x \<le> now then hm_remove (ee_element e) m else m
         | None \<Rightarrow> m))"

definition remove_expired_keys :: "nat \<Rightarrow> ('k, 'v) time_cache \<Rightarrow> ('k, 'v) time_cache" where
  "remove_expired_keys now c =
     (let (l, m) = remove_expired_loop now (tc_list c) (tc_map c) in c\<lparr>tc_list := l, tc_map := m\<rparr>)"

text \<open>
  \<open>entry\<close> purges and then looks the key up; the two entry types carry the expiration
  \<open>now + ttl\<close> and borrow the map slot and the queue.
\<close>

datatype (plugins only: code size) tc_entry = Occupied | Vacant

definition tc_entry_of :: "nat \<Rightarrow> 'k \<Rightarrow> ('k, 'v) time_cache \<Rightarrow> tc_entry \<times> ('k, 'v) time_cache" where
  "tc_entry_of now k c =
     (let c' = remove_expired_keys now c in
      (case hm_get (tc_map c') k of Some _ \<Rightarrow> Occupied | None \<Rightarrow> Vacant, c'))"

definition vacant_insert :: "nat \<Rightarrow> 'k \<Rightarrow> 'v \<Rightarrow> ('k, 'v) time_cache \<Rightarrow> ('k, 'v) time_cache" where
  "vacant_insert now k v c =
     (let ex = now + tc_ttl c in
      c\<lparr>tc_list := tc_list c @ [\<lparr>ee_element = k, ee_expires = ex\<rparr>],
        tc_map := hm_insert k \<lparr>ee_element = v, ee_expires = ex\<rparr> (tc_map c)\<rparr>)"

definition insert_without_updating_expiration ::
  "'k \<Rightarrow> 'v \<Rightarrow> ('k, 'v) time_cache \<Rightarrow> ('k, 'v) time_cache" where
  "insert_without_updating_expiration k v c =
     (case hm_get (tc_map c) k of
        None \<Rightarrow> c
      | Some x \<Rightarrow> c\<lparr>tc_map := hm_insert k (x\<lparr>ee_element := v\<rparr>) (tc_map c)\<rparr>)"

definition insert_and_update_expiration ::
  "nat \<Rightarrow> 'k \<Rightarrow> 'v \<Rightarrow> ('k, 'v) time_cache \<Rightarrow> ('k, 'v) time_cache" where
  "insert_and_update_expiration now k v c = vacant_insert now k v c"

definition into_mut_with_update_expiration ::
  "nat \<Rightarrow> 'k \<Rightarrow> ('v \<Rightarrow> 'v) \<Rightarrow> ('k, 'v) time_cache \<Rightarrow> ('k, 'v) time_cache" where
  "into_mut_with_update_expiration now k f c =
     (case hm_get (tc_map c) k of
        None \<Rightarrow> c
      | Some x \<Rightarrow>
          (let ex = now + tc_ttl c in
           c\<lparr>tc_list := tc_list c @ [\<lparr>ee_element = k, ee_expires = ex\<rparr>],
             tc_map := hm_insert k \<lparr>ee_element = f (ee_element x), ee_expires = ex\<rparr> (tc_map c)\<rparr>))"

text \<open>
  \<open>or_insert_with\<close> returns a mutable reference: \<open>f\<close> is what the caller does with it.
\<close>

definition or_insert_with ::
  "nat \<Rightarrow> 'k \<Rightarrow> 'v \<Rightarrow> ('v \<Rightarrow> 'v) \<Rightarrow> ('k, 'v) time_cache \<Rightarrow> ('k, 'v) time_cache" where
  "or_insert_with now k d f c =
     (let (e, c') = tc_entry_of now k c in
      case e of
        Occupied \<Rightarrow>
          (case hm_get (tc_map c') k of
             None \<Rightarrow> c'
           | Some x \<Rightarrow> insert_without_updating_expiration k (f (ee_element x)) c')
      | Vacant \<Rightarrow> vacant_insert now k (f d) c')"

definition or_insert_with_update_expiration ::
  "nat \<Rightarrow> 'k \<Rightarrow> 'v \<Rightarrow> ('v \<Rightarrow> 'v) \<Rightarrow> ('k, 'v) time_cache \<Rightarrow> ('k, 'v) time_cache" where
  "or_insert_with_update_expiration now k d f c =
     (let (e, c') = tc_entry_of now k c in
      case e of
        Occupied \<Rightarrow> into_mut_with_update_expiration now k f c'
      | Vacant \<Rightarrow> vacant_insert now k (f d) c')"

definition tc_insert :: "nat \<Rightarrow> 'k \<Rightarrow> 'v \<Rightarrow> ('k, 'v) time_cache \<Rightarrow> bool \<times> ('k, 'v) time_cache" where
  "tc_insert now k v c =
     (let (e, c') = tc_entry_of now k c in
      case e of Vacant \<Rightarrow> (True, vacant_insert now k v c') | Occupied \<Rightarrow> (False, c'))"

definition tc_remove :: "nat \<Rightarrow> 'k \<Rightarrow> ('k, 'v) time_cache \<Rightarrow> 'v option \<times> ('k, 'v) time_cache" where
  "tc_remove now k c =
     (map_option ee_element (hm_get (tc_map c) k),
      remove_expired_keys now (c\<lparr>tc_map := hm_remove k (tc_map c)\<rparr>))"

definition tc_clear :: "('k, 'v) time_cache \<Rightarrow> ('k, 'v) time_cache" where
  "tc_clear c = c\<lparr>tc_map := [], tc_list := []\<rparr>"

definition tc_get :: "('k, 'v) time_cache \<Rightarrow> 'k \<Rightarrow> 'v option" where
  "tc_get c k = map_option ee_element (hm_get (tc_map c) k)"

definition tc_contains_key :: "('k, 'v) time_cache \<Rightarrow> 'k \<Rightarrow> bool" where
  "tc_contains_key c k = (hm_get (tc_map c) k \<noteq> None)"

definition tc_len :: "('k, 'v) time_cache \<Rightarrow> nat" where
  "tc_len c = length (tc_map c)"

definition as_hash_map :: "('k, 'v) time_cache \<Rightarrow> ('k, 'v) hash_map" where
  "as_hash_map c = map (\<lambda>(k, x). (k, ee_element x)) (tc_map c)"

definition duplicate_insert :: "nat \<Rightarrow> 'k \<Rightarrow> ('k, unit) time_cache \<Rightarrow> bool \<times> ('k, unit) time_cache" where
  "duplicate_insert now k c = tc_insert now k () c"

section \<open>Invariant\<close>

text \<open>
  At time \<open>t\<close> (the instant of the last operation) the queue is sorted by expiration and ends
  no later than \<open>t + ttl\<close>, and every map entry is announced in the queue under its own key
  with its current expiration. Queue elements without a map entry are allowed: \<open>remove\<close> and
  the refreshing operations leave them behind.
\<close>

definition tc_inv :: "nat \<Rightarrow> ('k, 'v) time_cache \<Rightarrow> bool" where
  "tc_inv t c =
     (hm_ok (tc_map c)
      \<and> sorted (map ee_expires (tc_list c))
      \<and> list_all (\<lambda>e. ee_expires e \<le> t + tc_ttl c) (tc_list c)
      \<and> list_all (\<lambda>(k, x). \<lparr>ee_element = k, ee_expires = ee_expires x\<rparr> \<in> set (tc_list c)) (tc_map c))"

definition tc_live :: "nat \<Rightarrow> ('k, 'v) time_cache \<Rightarrow> 'k \<Rightarrow> 'v expiring_element option" where
  "tc_live now c k =
     (case hm_get (tc_map c) k of
        None \<Rightarrow> None
      | Some x \<Rightarrow> if now < ee_expires x then Some x else None)"

text \<open>What the loop does: it drops the expired prefix of the queue and the map entries it names.\<close>

lemma remove_expired_loop_list:
  "fst (remove_expired_loop now l m) = dropWhile (\<lambda>e. ee_expires e \<le> now) l"
  by (induction now l m rule: remove_expired_loop.induct) auto

lemma remove_expired_loop_ok: "hm_ok m \<Longrightarrow> hm_ok (snd (remove_expired_loop now l m))"
  by (induction now l m rule: remove_expired_loop.induct) (auto simp: hm_ok_remove split: option.splits)

lemma remove_expired_loop_get:
  "hm_get (snd (remove_expired_loop now l m)) k =
     (case hm_get m k of
        None \<Rightarrow> None
      | Some x \<Rightarrow>
          if ee_expires x \<le> now \<and> k \<in> ee_element ` set (takeWhile (\<lambda>e. ee_expires e \<le> now) l)
          then None else Some x)"
  by (induction now l m rule: remove_expired_loop.induct)
    (auto simp: hm_simps image_iff split: option.splits if_splits)

lemma takeWhile_sorted_mem:
  "sorted (map ee_expires l) \<Longrightarrow> e \<in> set l \<Longrightarrow> ee_expires e \<le> now \<Longrightarrow>
    e \<in> set (takeWhile (\<lambda>e. ee_expires e \<le> now) l)"
  by (induction l) (auto dest: order_trans)

lemma dropWhile_sorted_mem:
  "e \<in> set l \<Longrightarrow> now < ee_expires e \<Longrightarrow> e \<in> set (dropWhile (\<lambda>e. ee_expires e \<le> now) l)"
  by (induction l) auto

lemma sorted_dropWhile_expires:
  "sorted (map ee_expires l) \<Longrightarrow> sorted (map ee_expires (dropWhile P l))"
  by (induction l) auto

lemma dropWhile_all_expired: "list_all Q l \<Longrightarrow> list_all Q (dropWhile P l)"
  by (induction l) auto

lemma tc_inv_announced:
  "tc_inv t c \<Longrightarrow> hm_get (tc_map c) k = Some x \<Longrightarrow>
    \<lparr>ee_element = k, ee_expires = ee_expires x\<rparr> \<in> set (tc_list c)"
  by (auto simp: tc_inv_def dest: hm_all_get)

lemma hm_allI:
  assumes "hm_ok m" "\<And>k v. hm_get m k = Some v \<Longrightarrow> P (k, v)"
  shows "list_all P m"
  using assms by (auto simp: list_all_iff hm_ok_get_iff)

lemma remove_expired_keys_fields:
  "tc_list (remove_expired_keys now c) = dropWhile (\<lambda>e. ee_expires e \<le> now) (tc_list c)"
  "tc_ttl (remove_expired_keys now c) = tc_ttl c"
  "tc_map (remove_expired_keys now c) = snd (remove_expired_loop now (tc_list c) (tc_map c))"
  by (simp_all add: remove_expired_keys_def split_beta remove_expired_loop_list)

text \<open>Under the invariant the lazy purge of the prefix is the full purge.\<close>

lemma remove_expired_keys_get:
  assumes "tc_inv t c"
  shows "hm_get (tc_map (remove_expired_keys now c)) k = tc_live now c k"
proof (cases "hm_get (tc_map c) k")
  case (Some x)
  let ?e = "\<lparr>ee_element = k, ee_expires = ee_expires x\<rparr>"
  have "sorted (map ee_expires (tc_list c))"
    using assms by (simp add: tc_inv_def)
  then have "ee_expires x \<le> now \<Longrightarrow> ?e \<in> set (takeWhile (\<lambda>e. ee_expires e \<le> now) (tc_list c))"
    using tc_inv_announced[OF assms Some] by (simp add: takeWhile_sorted_mem)
  then have "ee_expires x \<le> now \<Longrightarrow>
      k \<in> ee_element ` set (takeWhile (\<lambda>e. ee_expires e \<le> now) (tc_list c))"
    by (metis imageI expiring_element.select_convs(1))
  with Some show ?thesis
    by (auto simp: remove_expired_keys_fields remove_expired_loop_get tc_live_def)
qed (simp add: remove_expired_keys_fields remove_expired_loop_get tc_live_def)

lemma tc_inv_remove_expired:
  assumes "tc_inv t c" "t \<le> now"
  shows "tc_inv now (remove_expired_keys now c)"
proof -
  have ok: "hm_ok (tc_map (remove_expired_keys now c))"
    using assms by (simp add: tc_inv_def remove_expired_keys_fields remove_expired_loop_ok)
  have "list_all (\<lambda>(k, x). \<lparr>ee_element = k, ee_expires = ee_expires x\<rparr>
      \<in> set (tc_list (remove_expired_keys now c))) (tc_map (remove_expired_keys now c))"
  proof (rule hm_allI[OF ok], clarsimp)
    fix k x assume "hm_get (tc_map (remove_expired_keys now c)) k = Some x"
    then have "hm_get (tc_map c) k = Some x" "now < ee_expires x"
      by (auto simp: remove_expired_keys_get[OF assms(1)] tc_live_def split: option.splits if_splits)
    then show "\<lparr>ee_element = k, ee_expires = ee_expires x\<rparr> \<in> set (tc_list (remove_expired_keys now c))"
      using tc_inv_announced[OF assms(1)] by (simp add: remove_expired_keys_fields dropWhile_sorted_mem)
  qed
  moreover have "list_all (\<lambda>e. ee_expires e \<le> now + tc_ttl c) (tc_list c)"
    using assms by (auto simp: tc_inv_def list_all_iff)
  ultimately show ?thesis
    using assms ok
    by (simp add: tc_inv_def remove_expired_keys_fields sorted_dropWhile_expires dropWhile_all_expired)
qed

text \<open>Appending an announcement for the key that is written at the same time keeps the invariant.\<close>

lemma tc_inv_announce:
  assumes "tc_inv now c"
  shows "tc_inv now (c\<lparr>tc_list := tc_list c @ [\<lparr>ee_element = k, ee_expires = now + tc_ttl c\<rparr>],
    tc_map := hm_insert k \<lparr>ee_element = v, ee_expires = now + tc_ttl c\<rparr> (tc_map c)\<rparr>)"
proof -
  let ?l = "tc_list c @ [\<lparr>ee_element = k, ee_expires = now + tc_ttl c\<rparr>]"
  have "list_all (\<lambda>(k, x). \<lparr>ee_element = k, ee_expires = ee_expires x\<rparr> \<in> set ?l) (tc_map c)"
    using assms by (auto simp: tc_inv_def list_all_iff)
  then have "list_all (\<lambda>(k, x). \<lparr>ee_element = k, ee_expires = ee_expires x\<rparr> \<in> set ?l)
      (hm_insert k \<lparr>ee_element = v, ee_expires = now + tc_ttl c\<rparr> (tc_map c))"
    by (rule hm_all_insert) simp
  moreover have "sorted (map ee_expires ?l)"
    using assms by (auto simp: tc_inv_def sorted_append list_all_iff)
  ultimately show ?thesis
    using assms by (simp add: tc_inv_def hm_ok_insert)
qed

lemma tc_inv_remove_key: "tc_inv t c \<Longrightarrow> tc_inv t (c\<lparr>tc_map := hm_remove k (tc_map c)\<rparr>)"
  by (simp add: tc_inv_def hm_ok_remove hm_all_remove)

lemma tc_inv_set_value:
  "tc_inv t c \<Longrightarrow> hm_get (tc_map c) k = Some x \<Longrightarrow>
    tc_inv t (c\<lparr>tc_map := hm_insert k (x\<lparr>ee_element := v\<rparr>) (tc_map c)\<rparr>)"
  by (auto simp: tc_inv_def intro!: hm_ok_insert hm_all_insert dest: hm_all_get)

section \<open>Refinement of the live map\<close>

text \<open>
  The operations of the cache as values, and their meaning on the map of live entries: each
  operation first forgets what has expired and then acts on one key.
\<close>

datatype (plugins only: code size) ('k, 'v) tc_op =
    TcInsert 'k 'v
  | TcRemove 'k
  | TcOrInsert 'k 'v "'v \<Rightarrow> 'v"
  | TcOrInsertRefresh 'k 'v "'v \<Rightarrow> 'v"
  | TcClear

fun tc_exec :: "nat \<Rightarrow> ('k, 'v) tc_op \<Rightarrow> ('k, 'v) time_cache \<Rightarrow> ('k, 'v) time_cache" where
  "tc_exec now (TcInsert k v) c = snd (tc_insert now k v c)"
| "tc_exec now (TcRemove k) c = snd (tc_remove now k c)"
| "tc_exec now (TcOrInsert k d f) c = or_insert_with now k d f c"
| "tc_exec now (TcOrInsertRefresh k d f) c = or_insert_with_update_expiration now k d f c"
| "tc_exec now TcClear c = tc_clear c"

definition alive_at :: "nat \<Rightarrow> ('k \<Rightarrow> 'v expiring_element option) \<Rightarrow> 'k \<Rightarrow> 'v expiring_element option" where
  "alive_at now M k =
     (case M k of None \<Rightarrow> None | Some x \<Rightarrow> if now < ee_expires x then Some x else None)"

fun spec_exec ::
  "nat \<Rightarrow> nat \<Rightarrow> ('k, 'v) tc_op \<Rightarrow> ('k \<Rightarrow> 'v expiring_element option) \<Rightarrow>
    'k \<Rightarrow> 'v expiring_element option" where
  "spec_exec ttl now (TcInsert k v) M =
     (if M k = None then M(k \<mapsto> \<lparr>ee_element = v, ee_expires = now + ttl\<rparr>) else M)"
| "spec_exec ttl now (TcRemove k) M = M(k := None)"
| "spec_exec ttl now (TcOrInsert k d f) M =
     (case M k of
        None \<Rightarrow> M(k \<mapsto> \<lparr>ee_element = f d, ee_expires = now + ttl\<rparr>)
      | Some x \<Rightarrow> M(k \<mapsto> x\<lparr>ee_element := f (ee_element x)\<rparr>))"
| "spec_exec ttl now (TcOrInsertRefresh k d f) M =
     M(k \<mapsto> \<lparr>ee_element = f (case M k of None \<Rightarrow> d | Some x \<Rightarrow> ee_element x), ee_expires = now + ttl\<rparr>)"
| "spec_exec ttl now TcClear M = Map.empty"

lemma alive_at_live: "alive_at now (hm_get (tc_map c)) = tc_live now c"
  by (rule ext) (simp add: alive_at_def tc_live_def)

lemma purge_get: "tc_inv t c \<Longrightarrow> hm_get (tc_map (remove_expired_keys now c)) = tc_live now c"
  by (rule ext) (rule remove_expired_keys_get)

lemma alive_at_later:
  "now \<le> now' \<Longrightarrow> alive_at now' (alive_at now M) = alive_at now' M"
  by (rule ext) (auto simp: alive_at_def split: option.splits)

lemmas tc_op_defs = tc_insert_def tc_remove_def or_insert_with_def
  or_insert_with_update_expiration_def tc_entry_of_def vacant_insert_def
  into_mut_with_update_expiration_def insert_without_updating_expiration_def tc_clear_def Let_def

lemma tc_exec_ttl: "tc_ttl (tc_exec now op c) = tc_ttl c"
  by (cases op) (simp_all add: tc_op_defs remove_expired_keys_fields split: option.splits)

lemma tc_exec_inv:
  assumes "tc_inv t c" "t \<le> now"
  shows "tc_inv now (tc_exec now op c)"
proof -
  note purged = tc_inv_remove_expired[OF assms]
  have ttl: "tc_ttl c = tc_ttl (remove_expired_keys now c)"
    by (simp add: remove_expired_keys_fields)
  show ?thesis
  proof (cases op)
    case (TcRemove k)
    then show ?thesis
      using tc_inv_remove_expired[OF tc_inv_remove_key[OF assms(1)] assms(2)]
      by (simp add: tc_op_defs)
  next
    case TcClear
    then show ?thesis by (simp add: tc_op_defs tc_inv_def hm_ok_Nil)
  qed (use purged in \<open>auto simp: tc_op_defs ttl intro: tc_inv_announce tc_inv_set_value
        split: option.splits\<close>)
qed

text \<open>One step: the stored map after the operation is the specification applied to the live map.\<close>

lemma tc_exec_get:
  assumes "tc_inv t c"
  shows "alive_at now (hm_get (tc_map (tc_exec now op c))) =
    alive_at now (spec_exec (tc_ttl c) now op (tc_live now c))"
proof (cases op)
  case (TcRemove k)
  have "hm_get (tc_map (tc_exec now op c)) = tc_live now (c\<lparr>tc_map := hm_remove k (tc_map c)\<rparr>)"
    using TcRemove purge_get[OF tc_inv_remove_key[OF assms]] by (simp add: tc_op_defs)
  then show ?thesis
    by (intro ext) (simp add: TcRemove alive_at_def tc_live_def hm_simps)
next
  case TcClear
  then show ?thesis by (intro ext) (simp add: tc_op_defs hm_simps alive_at_def)
qed (intro ext, auto simp: tc_op_defs purge_get[OF assms] alive_at_def hm_simps
    remove_expired_keys_fields(2) split: option.splits)+

fun tc_run :: "(nat \<times> ('k, 'v) tc_op) list \<Rightarrow> ('k, 'v) time_cache \<Rightarrow> ('k, 'v) time_cache" where
  "tc_run [] c = c"
| "tc_run ((now, op) # ops) c = tc_run ops (tc_exec now op c)"

fun spec_run ::
  "nat \<Rightarrow> (nat \<times> ('k, 'v) tc_op) list \<Rightarrow> ('k \<Rightarrow> 'v expiring_element option) \<Rightarrow>
    'k \<Rightarrow> 'v expiring_element option" where
  "spec_run ttl [] M = M"
| "spec_run ttl ((now, op) # ops) M = spec_run ttl ops (spec_exec ttl now op (alive_at now M))"

lemma tc_run_refines_from:
  assumes "tc_inv t c" "sorted (t # map fst ops)" "\<And>now. t \<le> now \<Longrightarrow> tc_live now c = alive_at now M"
    and "t \<le> now" "list_all (\<lambda>(s, _). s \<le> now) ops"
  shows "tc_live now (tc_run ops c) = alive_at now (spec_run (tc_ttl c) ops M)
    \<and> tc_inv (last (t # map fst ops)) (tc_run ops c)"
  using assms
proof (induction ops arbitrary: t c M)
  case (Cons x ops)
  obtain s op where x: "x = (s, op)" by (cases x)
  have ts: "t \<le> s" "s \<le> now" using Cons.prems x by auto
  have inv: "tc_inv s (tc_exec s op c)"
    using tc_exec_inv[OF Cons.prems(1) ts(1)] .
  have step: "tc_live n (tc_exec s op c) = alive_at n (spec_exec (tc_ttl c) s op (alive_at s M))"
    if "s \<le> n" for n
    using tc_exec_get[OF Cons.prems(1), of s op] Cons.prems(3)[OF ts(1)] alive_at_later[OF that]
    by (metis alive_at_live)
  show ?case
    using Cons.IH[OF inv _ step ts(2)] Cons.prems(2,5) by (simp add: x tc_exec_ttl)
qed auto

text \<open>
  Starting from the empty cache, any sequence of cache operations at non-decreasing instants
  leaves exactly the live entries that the specification leaves: the lazy purge of a queue prefix
  never keeps a dead entry alive for a later operation and never loses a live one, also when
  refreshed and removed keys have left outdated announcements in the queue.
\<close>

theorem time_cache_refines_live_map:
  assumes "sorted (map fst ops)" "list_all (\<lambda>(s, _). s \<le> now) ops"
  shows "tc_live now (tc_run ops (tc_new ttl)) = alive_at now (spec_run ttl ops Map.empty)"
proof -
  have inv: "tc_inv 0 (tc_new ttl)" and ttl: "tc_ttl (tc_new ttl) = ttl"
    by (simp_all add: tc_new_def tc_inv_def hm_ok_Nil)
  have live: "tc_live n (tc_new ttl) = alive_at n Map.empty" for n
    by (rule ext) (simp add: tc_live_def tc_new_def hm_simps alive_at_def)
  have "sorted (0 # map fst ops)"
    using assms(1) by simp
  from tc_run_refines_from[OF inv this live _ assms(2)] show ?thesis
    by (simp add: ttl)
qed

theorem time_cache_refines_live_map_witness:
  "tc_live 6 (tc_run [(0, TcInsert ''a'' (1::nat)), (4, TcOrInsertRefresh ''a'' 0 Suc)] (tc_new 5)) ''a''
     = Some \<lparr>ee_element = 2, ee_expires = 9\<rparr>"
  using time_cache_refines_live_map
    [of "[(0, TcInsert ''a'' (1::nat)), (4, TcOrInsertRefresh ''a'' 0 Suc)]" 6 5]
  by (simp add: alive_at_def)

text \<open>
  The lookups \<open>get\<close> and \<open>contains_key\<close> do not purge: an entry past its expiration is still
  returned until the next mutating operation.
\<close>

lemma tc_get_returns_expired:
  "tc_get (snd (tc_insert 0 k v (tc_new ttl))) k = Some v"
  "tc_live (ttl + d) (snd (tc_insert 0 k v (tc_new ttl))) k = None"
  by (simp_all add: tc_op_defs tc_new_def tc_get_def tc_live_def remove_expired_keys_def hm_simps)

end
