(* ===== verification/Coins.thy ===== *)
theory Coins
  imports Prelude
begin

text \<open>
  What the exchange asks of a coin. The trait objects \<open>MmCoinEnum\<close> / \<open>dyn MmCoin\<close> are
  implemented by the coin backends, which talk to their networks; here a coin is a record of the
  answers it gives, an argument of every definition that queries it. Amounts that the code
  converts with \<open>to_decimal\<close> before a query or inside an error keep their exact value.
\<close>

section \<open>The coin as the swap code sees it\<close>

datatype (plugins only: code size) fee_approx_stage = WithoutApprox | StartSwap | OrderIssue | TradePreimage

datatype (plugins only: code size) trade_preimage_value = Exact mm_number | UpperBound mm_number

record trade_fee =
  tf_coin :: ticker
  tf_amount :: mm_number
  tf_paid_from_trading_vol :: bool

datatype (plugins only: code size) balance_error =
    BeTransport string
  | BeInvalidResponse string
  | BeUnexpectedDerivationMethod string
  | BeWalletStorageError string
  | BeInternal string

datatype (plugins only: code size) trade_preimage_error =
    TpNotSufficientBalance ticker mm_number mm_number
  | TpAmountIsTooSmall mm_number mm_number
  | TpTransport string
  | TpInternalError string

record mm_coin =
  coin_ticker :: ticker
  coin_is_privacy :: bool
  coin_protocol_info :: bytes
  coin_protocol_supported :: "bytes option \<Rightarrow> bool"
  coin_required_confirmations :: u64
  coin_requires_notarization :: bool
  coin_min_trading_vol :: mm_number
  coin_min_tx_amount :: mm_number
  coin_should_burn_dex_fee :: bool
  coin_should_burn_directly :: bool
  coin_burn_pubkey :: bytes
  coin_spendable_balance :: "balance_error + mm_number"
  coin_base_balance :: "balance_error + mm_number"
  coin_sender_trade_fee :: "trade_preimage_value \<Rightarrow> fee_approx_stage \<Rightarrow> trade_preimage_error + trade_fee"
  coin_receiver_trade_fee :: "fee_approx_stage \<Rightarrow> trade_preimage_error + trade_fee"
  coin_fee_to_send_taker_fee :: "mm_number \<Rightarrow> fee_approx_stage \<Rightarrow> trade_preimage_error + trade_fee"

text \<open>A coin whose fee queries answer a constant, for concrete instances.\<close>

definition flat_fee_coin :: "ticker \<Rightarrow> mm_number \<Rightarrow> mm_number \<Rightarrow> mm_coin" where
  "flat_fee_coin t balance fee =
     (let f = \<lparr>tf_coin = t, tf_amount = fee, tf_paid_from_trading_vol = False\<rparr> in
      \<lparr>coin_ticker = t, coin_is_privacy = False, coin_protocol_info = [],
       coin_protocol_supported = (\<lambda>_. True), coin_required_confirmations = 1,
       coin_requires_notarization = False, coin_min_trading_vol = 1 / 1000,
       coin_min_tx_amount = 1 / 100000, coin_should_burn_dex_fee = False,
       coin_should_burn_directly = False, coin_burn_pubkey = [],
       coin_spendable_balance = Inr balance, coin_base_balance = Inr balance,
       coin_sender_trade_fee = (\<lambda>_ _. Inr f),
       coin_receiver_trade_fee = (\<lambda>_. Inr (f\<lparr>tf_paid_from_trading_vol := True\<rparr>)),
       coin_fee_to_send_taker_fee = (\<lambda>_ _. Inr f)\<rparr>)"

end
