(* ===== verification/OrderTypes.thy ===== *)
theory OrderTypes
  imports Coins
begin

text \<open>
  Orders, requests and the messages of the matching handshake:
  \<open>mm2_main/src/lp_ordermatch/ordermatch_types.rs\<close>, the wire messages of \<open>new_protocol.rs\<close>, the
  match records of \<open>ordermatch_trading.rs\<close> and \<open>swap_versioning.rs\<close>. An \<open>H256Json\<close> is its list of
  bytes; the secp256k1 key pair of a privacy order is opaque bytes. The clock, fresh identifiers
  and random keys are arguments. A builder returns \<open>None\<close> where the code panics (division of
  \<open>BigRational\<close> by zero), and otherwise an error or the order.
\<close>

section \<open>Data\<close>

datatype (plugins only: code size) taker_action = Buy | Sell

datatype (plugins only: code size) order_match_result = Matched mm_number mm_number | NotMatched

datatype (plugins only: code size) match_reserved_result = ReservedMatched | ReservedNotMatched

record order_confirmations_settings =
  oc_base_confs :: u64
  oc_base_nota :: bool
  oc_rel_confs :: u64
  oc_rel_nota :: bool

definition reversed :: "order_confirmations_settings \<Rightarrow> order_confirmations_settings" where
  "reversed s = \<lparr>oc_base_confs = oc_rel_confs s, oc_base_nota = oc_rel_nota s,
                 oc_rel_confs = oc_base_confs s, oc_rel_nota = oc_base_nota s\<rparr>"

datatype (plugins only: code size) match_by = MatchAny | MatchOrders "uuid list" | MatchPubkeys "h256 list"

datatype (plugins only: code size) order_type = FillOrKill | GoodTillCancelled

record swap_version =
  sv_version :: u8

definition default_swap_version :: swap_version where
  "default_swap_version = \<lparr>sv_version = 1\<rparr>"

definition is_legacy :: "swap_version \<Rightarrow> bool" where
  "is_legacy v = (sv_version v = 1)"

definition is_v2_or_higher :: "swap_version \<Rightarrow> bool" where
  "is_v2_or_higher v = (2 \<le> sv_version v)"

definition negotiate :: "swap_version \<Rightarrow> swap_version \<Rightarrow> swap_version" where
  "negotiate maker taker = \<lparr>sv_version = min (sv_version maker) (sv_version taker)\<rparr>"

record taker_request =
  tr_base :: ticker
  tr_rel :: ticker
  tr_base_amount :: mm_number
  tr_rel_amount :: mm_number
  tr_action :: taker_action
  tr_uuid :: uuid
  tr_sender_pubkey :: h256
  tr_dest_pub_key :: h256
  tr_match_by :: match_by
  tr_conf_settings :: "order_confirmations_settings option"
  tr_base_protocol_info :: "bytes option"
  tr_rel_protocol_info :: "bytes option"
  tr_swap_version :: swap_version

record maker_reserved =
  mr_base :: ticker
  mr_rel :: ticker
  mr_base_amount :: mm_number
  mr_rel_amount :: mm_number
  mr_taker_order_uuid :: uuid
  mr_maker_order_uuid :: uuid
  mr_sender_pubkey :: h256
  mr_dest_pub_key :: h256
  mr_conf_settings :: "order_confirmations_settings option"
  mr_base_protocol_info :: "bytes option"
  mr_rel_protocol_info :: "bytes option"
  mr_swap_version :: swap_version

record taker_connect =
  tcn_taker_order_uuid :: uuid
  tcn_maker_order_uuid :: uuid
  tcn_sender_pubkey :: h256
  tcn_dest_pub_key :: h256

record maker_connected =
  mcd_taker_order_uuid :: uuid
  mcd_maker_order_uuid :: uuid
  mcd_method :: string
  mcd_sender_pubkey :: h256
  mcd_dest_pub_key :: h256

record maker_match =
  mm_request :: taker_request
  mm_reserved :: maker_reserved
  mm_connect :: "taker_connect option"
  mm_connected :: "maker_connected option"
  mm_last_updated :: u64

record taker_match =
  tm_reserved :: maker_reserved
  tm_connect :: taker_connect
  tm_connected :: "maker_connected option"
  tm_last_updated :: u64

record taker_order =
  to_created_at :: u64
  to_request :: taker_request
  to_matches :: "(uuid, taker_match) hash_map"
  to_min_volume :: mm_number
  to_order_type :: order_type
  to_timeout :: u64
  to_save_in_history :: bool
  to_base_orderbook_ticker :: "ticker option"
  to_rel_orderbook_ticker :: "ticker option"
  to_p2p_privkey :: "bytes option"

record historical_order =
  ho_max_base_vol :: "mm_number option"
  ho_min_base_vol :: "mm_number option"
  ho_price :: "mm_number option"
  ho_updated_at :: "u64 option"
  ho_conf_settings :: "order_confirmations_settings option"

record maker_order =
  mo_max_base_vol :: mm_number
  mo_min_base_vol :: mm_number
  mo_price :: mm_number
  mo_created_at :: u64
  mo_updated_at :: "u64 option"
  mo_base :: ticker
  mo_rel :: ticker
  mo_matches :: "(uuid, maker_match) hash_map"
  mo_started_swaps :: "uuid list"
  mo_uuid :: uuid
  mo_conf_settings :: "order_confirmations_settings option"
  mo_changes_history :: "historical_order list option"
  mo_save_in_history :: bool
  mo_base_orderbook_ticker :: "ticker option"
  mo_rel_orderbook_ticker :: "ticker option"
  mo_p2p_privkey :: "bytes option"
  mo_timeout_in_minutes :: "u16 option"
  mo_swap_version :: swap_version

section \<open>Wire messages\<close>

text \<open>
  A \<open>CompactUuid\<close> wraps a \<open>Uuid\<close>, so the identifiers and the \<open>MatchBy\<close> sets of the two modules
  are the same data here; the wire form of the confirmation settings is not optional.
\<close>

record np_taker_request =
  ntr_base :: ticker
  ntr_rel :: ticker
  ntr_base_amount :: mm_number
  ntr_rel_amount :: mm_number
  ntr_action :: taker_action
  ntr_uuid :: uuid
  ntr_match_by :: match_by
  ntr_conf_settings :: order_confirmations_settings
  ntr_base_protocol_info :: "bytes option"
  ntr_rel_protocol_info :: "bytes option"
  ntr_swap_version :: swap_version

record np_maker_reserved =
  nmr_base :: ticker
  nmr_rel :: ticker
  nmr_base_amount :: mm_number
  nmr_rel_amount :: mm_number
  nmr_taker_order_uuid :: uuid
  nmr_maker_order_uuid :: uuid
  nmr_conf_settings :: order_confirmations_settings
  nmr_base_protocol_info :: "bytes option"
  nmr_rel_protocol_info :: "bytes option"
  nmr_swap_version :: swap_version

record np_handshake =
  nh_taker_order_uuid :: uuid
  nh_maker_order_uuid :: uuid

record maker_order_updated_body =
  mu_uuid :: uuid
  mu_new_price :: "mm_number option"
  mu_new_max_volume :: "mm_number option"
  mu_new_min_volume :: "mm_number option"
  mu_timestamp :: u64
  mu_pair_trie_root :: u64

text \<open>The second version of the update message adds the confirmation settings to the fields of the first.\<close>

datatype (plugins only: code size) maker_order_updated =
    UpdatedV1 maker_order_updated_body
  | UpdatedV2 maker_order_updated_body "order_confirmations_settings option"

fun updated_body :: "maker_order_updated \<Rightarrow> maker_order_updated_body" where
  "updated_body (UpdatedV1 b) = b"
| "updated_body (UpdatedV2 b _) = b"

fun map_updated_body ::
  "(maker_order_updated_body \<Rightarrow> maker_order_updated_body) \<Rightarrow> maker_order_updated \<Rightarrow> maker_order_updated" where
  "map_updated_body f (UpdatedV1 b) = UpdatedV1 (f b)"
| "map_updated_body f (UpdatedV2 b c) = UpdatedV2 (f b) c"

definition updated_new :: "uuid \<Rightarrow> u64 \<Rightarrow> maker_order_updated" where
  "updated_new uuid now_ms =
     UpdatedV2 \<lparr>mu_uuid = uuid, mu_new_price = None, mu_new_max_volume = None, mu_new_min_volume = None,
                mu_timestamp = now_ms div 1000, mu_pair_trie_root = 0\<rparr> None"

definition with_new_price :: "mm_number \<Rightarrow> maker_order_updated \<Rightarrow> maker_order_updated" where
  "with_new_price p = map_updated_body (\<lambda>b. b\<lparr>mu_new_price := Some p\<rparr>)"

definition with_new_max_volume :: "mm_number \<Rightarrow> maker_order_updated \<Rightarrow> maker_order_updated" where
  "with_new_max_volume v = map_updated_body (\<lambda>b. b\<lparr>mu_new_max_volume := Some v\<rparr>)"

definition with_new_min_volume :: "mm_number \<Rightarrow> maker_order_updated \<Rightarrow> maker_order_updated" where
  "with_new_min_volume v = map_updated_body (\<lambda>b. b\<lparr>mu_new_min_volume := Some v\<rparr>)"

fun with_new_conf_settings :: "order_confirmations_settings \<Rightarrow> maker_order_updated \<Rightarrow> maker_order_updated" where
  "with_new_conf_settings s (UpdatedV1 b) = UpdatedV1 b"
| "with_new_conf_settings s (UpdatedV2 b _) = UpdatedV2 b (Some s)"

fun new_conf_settings :: "maker_order_updated \<Rightarrow> order_confirmations_settings option" where
  "new_conf_settings (UpdatedV1 _) = None"
| "new_conf_settings (UpdatedV2 _ c) = c"

end
