(* ===== verification/Orders.thy ===== *)
theory Orders
  imports OrderTypes
begin

text \<open>
  Building and matching orders (\<open>ordermatch_types.rs\<close>): the validating builders, the match of a
  maker order with a taker request, the taker's check of a reservation, the conversion of an
  unmatched taker order to a maker order, updates, and the conversions to and from the wire. The
  lemmas show that built orders are well formed, that a match is inside the order's limits and
  never worse than asked, and that the two sides of a match agree across the wire.
\<close>

section \<open>Requests and messages\<close>

definition default_h256 :: h256 where
  "default_h256 = replicate 32 0"

definition taker_request_from_new_proto :: "np_taker_request \<Rightarrow> h256 \<Rightarrow> taker_request" where
  "taker_request_from_new_proto m sender = \<lparr>
     tr_base = ntr_base m, tr_rel = ntr_rel m,
     tr_base_amount = ntr_base_amount m, tr_rel_amount = ntr_rel_amount m,
     tr_action = ntr_action m, tr_uuid = ntr_uuid m, tr_sender_pubkey = sender,
     tr_dest_pub_key = default_h256, tr_match_by = ntr_match_by m,
     tr_conf_settings = Some (ntr_conf_settings m),
     tr_base_protocol_info = ntr_base_protocol_info m, tr_rel_protocol_info = ntr_rel_protocol_info m,
     tr_swap_version = ntr_swap_version m\<rparr>"

definition can_match_with_maker_pubkey :: "taker_request \<Rightarrow> h256 \<Rightarrow> bool" where
  "can_match_with_maker_pubkey r pk =
     (case tr_match_by r of MatchPubkeys pks \<Rightarrow> pk \<in> set pks | _ \<Rightarrow> True)"

definition can_match_with_uuid :: "taker_request \<Rightarrow> uuid \<Rightarrow> bool" where
  "can_match_with_uuid r uuid =
     (case tr_match_by r of MatchOrders uuids \<Rightarrow> uuid \<in> set uuids | _ \<Rightarrow> True)"

definition base_protocol_info_for_maker :: "taker_request \<Rightarrow> bytes option" where
  "base_protocol_info_for_maker r =
     (case tr_action r of Buy \<Rightarrow> tr_base_protocol_info r | Sell \<Rightarrow> tr_rel_protocol_info r)"

definition rel_protocol_info_for_maker :: "taker_request \<Rightarrow> bytes option" where
  "rel_protocol_info_for_maker r =
     (case tr_action r of Buy \<Rightarrow> tr_rel_protocol_info r | Sell \<Rightarrow> tr_base_protocol_info r)"

definition to_base_ticker :: "taker_order \<Rightarrow> ticker" where
  "to_base_ticker o' = (case to_base_orderbook_ticker o' of Some t \<Rightarrow> t | None \<Rightarrow> tr_base (to_request o'))"

definition to_rel_ticker :: "taker_order \<Rightarrow> ticker" where
  "to_rel_ticker o' = (case to_rel_orderbook_ticker o' of Some t \<Rightarrow> t | None \<Rightarrow> tr_rel (to_request o'))"

text \<open>The request on the wire; \<open>conf_settings.unwrap()\<close> panics on \<open>None\<close>.\<close>

definition taker_order_to_proto :: "taker_order \<Rightarrow> np_taker_request option" where
  "taker_order_to_proto o' =
     (let r = to_request o' in
      case tr_conf_settings r of
        None \<Rightarrow> None
      | Some s \<Rightarrow> Some \<lparr>
          ntr_base = to_base_ticker o', ntr_rel = to_rel_ticker o',
          ntr_base_amount = tr_base_amount r, ntr_rel_amount = tr_rel_amount r,
          ntr_action = tr_action r, ntr_uuid = tr_uuid r, ntr_match_by = tr_match_by r,
          ntr_conf_settings = s, ntr_base_protocol_info = tr_base_protocol_info r,
          ntr_rel_protocol_info = tr_rel_protocol_info r, ntr_swap_version = tr_swap_version r\<rparr>)"

definition maker_reserved_from_new_proto :: "np_maker_reserved \<Rightarrow> h256 \<Rightarrow> maker_reserved" where
  "maker_reserved_from_new_proto m sender = \<lparr>
     mr_base = nmr_base m, mr_rel = nmr_rel m,
     mr_base_amount = nmr_base_amount m, mr_rel_amount = nmr_rel_amount m,
     mr_taker_order_uuid = nmr_taker_order_uuid m, mr_maker_order_uuid = nmr_maker_order_uuid m,
     mr_sender_pubkey = sender, mr_dest_pub_key = default_h256,
     mr_conf_settings = Some (nmr_conf_settings m),
     mr_base_protocol_info = nmr_base_protocol_info m, mr_rel_protocol_info = nmr_rel_protocol_info m,
     mr_swap_version = nmr_swap_version m\<rparr>"

definition maker_reserved_to_proto :: "maker_reserved \<Rightarrow> np_maker_reserved option" where
  "maker_reserved_to_proto r =
     (case mr_conf_settings r of
        None \<Rightarrow> None
      | Some s \<Rightarrow> Some \<lparr>
          nmr_base = mr_base r, nmr_rel = mr_rel r,
          nmr_base_amount = mr_base_amount r, nmr_rel_amount = mr_rel_amount r,
          nmr_taker_order_uuid = mr_taker_order_uuid r, nmr_maker_order_uuid = mr_maker_order_uuid r,
          nmr_conf_settings = s, nmr_base_protocol_info = mr_base_protocol_info r,
          nmr_rel_protocol_info = mr_rel_protocol_info r, nmr_swap_version = mr_swap_version r\<rparr>)"

definition reserved_price :: "maker_reserved \<Rightarrow> mm_number option" where
  "reserved_price r =
     (if mr_base_amount r = 0 then None else Some (mr_rel_amount r / mr_base_amount r))"

definition taker_connect_from_new_proto :: "np_handshake \<Rightarrow> taker_connect" where
  "taker_connect_from_new_proto m = \<lparr>
     tcn_taker_order_uuid = nh_taker_order_uuid m, tcn_maker_order_uuid = nh_maker_order_uuid m,
     tcn_sender_pubkey = default_h256, tcn_dest_pub_key = default_h256\<rparr>"

definition taker_connect_to_proto :: "taker_connect \<Rightarrow> np_handshake" where
  "taker_connect_to_proto c = \<lparr>
     nh_taker_order_uuid = tcn_taker_order_uuid c, nh_maker_order_uuid = tcn_maker_order_uuid c\<rparr>"

definition maker_connected_from_new_proto :: "np_handshake \<Rightarrow> maker_connected" where
  "maker_connected_from_new_proto m = \<lparr>
     mcd_taker_order_uuid = nh_taker_order_uuid m, mcd_maker_order_uuid = nh_maker_order_uuid m,
     mcd_method = [], mcd_sender_pubkey = default_h256, mcd_dest_pub_key = default_h256\<rparr>"

definition maker_connected_to_proto :: "maker_connected \<Rightarrow> np_handshake" where
  "maker_connected_to_proto c = \<lparr>
     nh_taker_order_uuid = mcd_taker_order_uuid c, nh_maker_order_uuid = mcd_maker_order_uuid c\<rparr>"

section \<open>The taker order builder\<close>

record taker_order_builder =
  tb_base_coin :: mm_coin
  tb_rel_coin :: mm_coin
  tb_base_orderbook_ticker :: "ticker option"
  tb_rel_orderbook_ticker :: "ticker option"
  tb_base_amount :: mm_number
  tb_rel_amount :: mm_number
  tb_sender_pubkey :: h256
  tb_action :: taker_action
  tb_match_by :: match_by
  tb_order_type :: order_type
  tb_conf_settings :: "order_confirmations_settings option"
  tb_min_volume :: "mm_number option"
  tb_timeout :: u64
  tb_save_in_history :: bool
  tb_swap_version :: swap_version

definition taker_order_timeout :: u64 where
  "taker_order_timeout = 30"

definition taker_order_builder_new :: "mm_coin \<Rightarrow> mm_coin \<Rightarrow> taker_order_builder" where
  "taker_order_builder_new base_coin rel_coin = \<lparr>
     tb_base_coin = base_coin, tb_rel_coin = rel_coin,
     tb_base_orderbook_ticker = None, tb_rel_orderbook_ticker = None,
     tb_base_amount = 0, tb_rel_amount = 0, tb_sender_pubkey = default_h256, tb_action = Buy,
     tb_match_by = MatchAny, tb_order_type = GoodTillCancelled, tb_conf_settings = None,
     tb_min_volume = None, tb_timeout = taker_order_timeout, tb_save_in_history = True,
     tb_swap_version = default_swap_version\<rparr>"

datatype (plugins only: code size) taker_order_build_error =
    TakerBaseEqualRel
  | BaseAmountTooLow mm_number mm_number
  | RelAmountTooLow mm_number mm_number
  | MinVolumeTooLow mm_number mm_number
  | TakerMaxBaseVolBelowMinBaseVol mm_number mm_number
  | SenderPubkeyIsZero
  | TakerConfsSettingsNotSet

text \<open>What \<open>build\<close> takes from its surroundings.\<close>

record build_env =
  be_now_ms :: u64
  be_uuid :: uuid
  be_random_keypair :: bytes

definition taker_order_build ::
  "build_env \<Rightarrow> taker_order_builder \<Rightarrow> (taker_order_build_error + taker_order) option" where
  "taker_order_build env b =
     (let min_base_amount = coin_min_trading_vol (tb_base_coin b);
          min_rel_amount = coin_min_trading_vol (tb_rel_coin b)
      in if coin_ticker (tb_base_coin b) = coin_ticker (tb_rel_coin b) then Some (Inl TakerBaseEqualRel)
         else if tb_base_amount b < min_base_amount
         then Some (Inl (BaseAmountTooLow (tb_base_amount b) min_base_amount))
         else if tb_rel_amount b < min_rel_amount
         then Some (Inl (RelAmountTooLow (tb_rel_amount b) min_rel_amount))
         else if tb_sender_pubkey b = default_h256 then Some (Inl SenderPubkeyIsZero)
         else if tb_conf_settings b = None then Some (Inl TakerConfsSettingsNotSet)
         else if tb_base_amount b = 0 \<or> tb_rel_amount b = 0 then None
         else
           let price = tb_rel_amount b / tb_base_amount b;
               base_min_by_rel = min_rel_amount / price;
               base_min_vol_threshold = max min_base_amount base_min_by_rel;
               min_volume = (case tb_min_volume b of Some v \<Rightarrow> v | None \<Rightarrow> base_min_vol_threshold)
           in if min_volume < base_min_vol_threshold
              then Some (Inl (MinVolumeTooLow min_volume base_min_vol_threshold))
              else if tb_base_amount b < min_volume
              then Some (Inl (TakerMaxBaseVolBelowMinBaseVol (tb_base_amount b) min_volume))
              else
                let my_coin = (case tb_action b of Buy \<Rightarrow> tb_rel_coin b | Sell \<Rightarrow> tb_base_coin b);
                    p2p_privkey = (if coin_is_privacy my_coin then Some (be_random_keypair env) else None)
                in Some (Inr \<lparr>
                     to_created_at = be_now_ms env,
                     to_request = \<lparr>
                       tr_base = coin_ticker (tb_base_coin b), tr_rel = coin_ticker (tb_rel_coin b),
                       tr_base_amount = tb_base_amount b, tr_rel_amount = tb_rel_amount b,
                       tr_action = tb_action b, tr_uuid = be_uuid env,
                       tr_sender_pubkey = tb_sender_pubkey b, tr_dest_pub_key = default_h256,
                       tr_match_by = tb_match_by b, tr_conf_settings = tb_conf_settings b,
                       tr_base_protocol_info = Some (coin_protocol_info (tb_base_coin b)),
                       tr_rel_protocol_info = Some (coin_protocol_info (tb_rel_coin b)),
                       tr_swap_version = tb_swap_version b\<rparr>,
                     to_matches = [], to_min_volume = min_volume, to_order_type = tb_order_type b,
                     to_timeout = tb_timeout b, to_save_in_history = tb_save_in_history b,
                     to_base_orderbook_ticker = tb_base_orderbook_ticker b,
                     to_rel_orderbook_ticker = tb_rel_orderbook_ticker b,
                     to_p2p_privkey = p2p_privkey\<rparr>))"

section \<open>Taker orders\<close>

definition taker_is_cancellable :: "taker_order \<Rightarrow> bool" where
  "taker_is_cancellable o' = (to_matches o' = [])"

definition match_reserved :: "taker_order \<Rightarrow> maker_reserved \<Rightarrow> match_reserved_result" where
  "match_reserved o' reserved =
     (let r = to_request o' in
      if (case tr_match_by r of
            MatchAny \<Rightarrow> True
          | MatchOrders uuids \<Rightarrow> mr_maker_order_uuid reserved \<in> set uuids
          | MatchPubkeys pks \<Rightarrow> mr_sender_pubkey reserved \<in> set pks)
      then
        (case tr_action r of
           Buy \<Rightarrow>
             let match_ticker =
                   (tr_base r = mr_base reserved \<or> to_base_orderbook_ticker o' = Some (mr_base reserved))
                   \<and> (tr_rel r = mr_rel reserved \<or> to_rel_orderbook_ticker o' = Some (mr_rel reserved))
             in if match_ticker \<and> tr_base_amount r = mr_base_amount reserved
                   \<and> mr_rel_amount reserved \<le> tr_rel_amount r
                then ReservedMatched else ReservedNotMatched
         | Sell \<Rightarrow>
             let match_ticker =
                   (tr_base r = mr_rel reserved \<or> to_base_orderbook_ticker o' = Some (mr_rel reserved))
                   \<and> (tr_rel r = mr_base reserved \<or> to_rel_orderbook_ticker o' = Some (mr_base reserved))
             in if match_ticker \<and> tr_base_amount r = mr_rel_amount reserved
                   \<and> tr_rel_amount r \<le> mr_base_amount reserved
                then ReservedMatched else ReservedNotMatched)
      else ReservedNotMatched)"

definition taker_coin_ticker :: "taker_order \<Rightarrow> ticker" where
  "taker_coin_ticker o' =
     (case tr_action (to_request o') of Buy \<Rightarrow> tr_rel (to_request o') | Sell \<Rightarrow> tr_base (to_request o'))"

definition maker_coin_ticker :: "taker_order \<Rightarrow> ticker" where
  "maker_coin_ticker o' =
     (case tr_action (to_request o') of Buy \<Rightarrow> tr_base (to_request o') | Sell \<Rightarrow> tr_rel (to_request o'))"

section \<open>The maker order builder\<close>

datatype (plugins only: code size) maker_order_build_error =
    MakerBaseEqualRel
  | MaxBaseVolTooLow mm_number mm_number
  | MinBaseVolTooLow mm_number mm_number
  | PriceTooLow mm_number mm_number
  | RelVolTooLow mm_number mm_number
  | MakerConfSettingsNotSet
  | MakerMaxBaseVolBelowMinBaseVol mm_number mm_number

definition validate_price :: "mm_number \<Rightarrow> maker_order_build_error + unit" where
  "validate_price price =
     (let min_price = 1 / 100000000 in
      if price < min_price then Inl (PriceTooLow price min_price) else Inr ())"

text \<open>The division is reached with a validated, hence positive, price by both callers.\<close>

definition validate_and_get_min_vol ::
  "mm_number \<Rightarrow> mm_number \<Rightarrow> mm_number option \<Rightarrow> mm_number \<Rightarrow> maker_order_build_error + mm_number" where
  "validate_and_get_min_vol min_base_amount min_rel_amount min_base_vol price =
     (let base_min_by_rel = min_rel_amount / price;
          base_min_vol_threshold = max min_base_amount base_min_by_rel;
          actual_min_base_vol = (case min_base_vol of Some v \<Rightarrow> v | None \<Rightarrow> base_min_vol_threshold)
      in if actual_min_base_vol < base_min_vol_threshold
         then Inl (MinBaseVolTooLow actual_min_base_vol base_min_vol_threshold)
         else Inr actual_min_base_vol)"

definition validate_max_vol ::
  "mm_number \<Rightarrow> mm_number \<Rightarrow> mm_number \<Rightarrow> mm_number option \<Rightarrow> mm_number \<Rightarrow> maker_order_build_error + unit" where
  "validate_max_vol min_base_amount min_rel_amount max_base_vol min_base_vol price =
     bind_res
       (case min_base_vol of
          Some m \<Rightarrow> if max_base_vol < m then Inl (MakerMaxBaseVolBelowMinBaseVol m max_base_vol) else Inr ()
        | None \<Rightarrow> Inr ())
       (\<lambda>_. if max_base_vol < min_base_amount then Inl (MaxBaseVolTooLow max_base_vol min_base_amount)
            else let rel_vol = max_base_vol * price in
                 if rel_vol < min_rel_amount then Inl (RelVolTooLow rel_vol min_rel_amount) else Inr ())"

record maker_order_builder =
  mb_max_base_vol :: mm_number
  mb_min_base_vol :: "mm_number option"
  mb_price :: mm_number
  mb_base_coin :: mm_coin
  mb_rel_coin :: mm_coin
  mb_base_orderbook_ticker :: "ticker option"
  mb_rel_orderbook_ticker :: "ticker option"
  mb_conf_settings :: "order_confirmations_settings option"
  mb_save_in_history :: bool
  mb_timeout_in_minutes :: "u16 option"
  mb_swap_version :: swap_version

definition maker_order_builder_new :: "mm_coin \<Rightarrow> mm_coin \<Rightarrow> maker_order_builder" where
  "maker_order_builder_new base_coin rel_coin = \<lparr>
     mb_max_base_vol = 0, mb_min_base_vol = None, mb_price = 0,
     mb_base_coin = base_coin, mb_rel_coin = rel_coin,
     mb_base_orderbook_ticker = None, mb_rel_orderbook_ticker = None, mb_conf_settings = None,
     mb_save_in_history = True, mb_timeout_in_minutes = None, mb_swap_version = default_swap_version\<rparr>"

definition maker_order_build :: "build_env \<Rightarrow> maker_order_builder \<Rightarrow> maker_order_build_error + maker_order" where
  "maker_order_build env b =
     (if coin_ticker (mb_base_coin b) = coin_ticker (mb_rel_coin b) then Inl MakerBaseEqualRel
      else if mb_conf_settings b = None then Inl MakerConfSettingsNotSet
      else
        let min_base_amount = coin_min_trading_vol (mb_base_coin b);
            min_rel_amount = coin_min_trading_vol (mb_rel_coin b)
        in bind_res (validate_price (mb_price b)) (\<lambda>_.
           bind_res (validate_and_get_min_vol min_base_amount min_rel_amount (mb_min_base_vol b) (mb_price b))
             (\<lambda>actual_min_base_vol.
           bind_res (validate_max_vol min_base_amount min_rel_amount (mb_max_base_vol b)
                       (mb_min_base_vol b) (mb_price b)) (\<lambda>_.
             Inr \<lparr>
               mo_max_base_vol = mb_max_base_vol b, mo_min_base_vol = actual_min_base_vol,
               mo_price = mb_price b, mo_created_at = be_now_ms env,
               mo_updated_at = Some (be_now_ms env),
               mo_base = coin_ticker (mb_base_coin b), mo_rel = coin_ticker (mb_rel_coin b),
               mo_matches = [], mo_started_swaps = [], mo_uuid = be_uuid env,
               mo_conf_settings = mb_conf_settings b, mo_changes_history = None,
               mo_save_in_history = mb_save_in_history b,
               mo_base_orderbook_ticker = mb_base_orderbook_ticker b,
               mo_rel_orderbook_ticker = mb_rel_orderbook_ticker b,
               mo_p2p_privkey =
                 (if coin_is_privacy (mb_base_coin b) then Some (be_random_keypair env) else None),
               mo_timeout_in_minutes = mb_timeout_in_minutes b,
               mo_swap_version = mb_swap_version b\<rparr>))))"

section \<open>Maker orders\<close>

definition reserved_amount :: "maker_order \<Rightarrow> mm_number" where
  "reserved_amount m =
     fold (\<lambda>(_, order_match) reserved. reserved + mr_base_amount (mm_reserved order_match)) (mo_matches m) 0"

definition available_amount :: "maker_order \<Rightarrow> mm_number" where
  "available_amount m = mo_max_base_vol m - reserved_amount m"

definition has_ongoing_matches :: "maker_order \<Rightarrow> bool" where
  "has_ongoing_matches m =
     list_ex (\<lambda>(_, order_match). mm_connected order_match = None \<and> mm_connect order_match = None) (mo_matches m)"

definition maker_is_cancellable :: "maker_order \<Rightarrow> bool" where
  "maker_is_cancellable m = (\<not> has_ongoing_matches m)"

text \<open>
  \<open>match_with_request\<close>. The request's amounts are positive when the divisions by them are
  reached; the division by the order's own price panics (\<open>None\<close>) if that price is zero.
\<close>

definition match_with_request :: "maker_order \<Rightarrow> taker_request \<Rightarrow> order_match_result option" where
  "match_with_request m taker =
     (let taker_base_amount = tr_base_amount taker; taker_rel_amount = tr_rel_amount taker in
      if taker_base_amount \<le> 0 \<or> taker_rel_amount \<le> 0 then Some NotMatched
      else
        (case tr_action taker of
           Buy \<Rightarrow>
             let ticker_match =
                   (mo_base m = tr_base taker \<or> mo_base_orderbook_ticker m = Some (tr_base taker))
                   \<and> (mo_rel m = tr_rel taker \<or> mo_rel_orderbook_ticker m = Some (tr_rel taker));
                 taker_price = taker_rel_amount / taker_base_amount
             in if ticker_match \<and> taker_base_amount \<le> available_amount m
                   \<and> mo_min_base_vol m \<le> taker_base_amount \<and> mo_price m \<le> taker_price
                then Some (Matched taker_base_amount (taker_base_amount * mo_price m))
                else Some NotMatched
         | Sell \<Rightarrow>
             if mo_price m = 0 then None
             else
               let ticker_match =
                     (mo_base m = tr_rel taker \<or> mo_base_orderbook_ticker m = Some (tr_rel taker))
                     \<and> (mo_rel m = tr_base taker \<or> mo_rel_orderbook_ticker m = Some (tr_base taker));
                   taker_price = taker_base_amount / taker_rel_amount;
                   matched_base_amount = taker_base_amount / mo_price m;
                   matched_rel_amount = taker_base_amount
               in if ticker_match \<and> matched_base_amount \<le> available_amount m
                     \<and> mo_min_base_vol m \<le> matched_base_amount \<and> mo_price m \<le> taker_price
                  then Some (Matched matched_base_amount matched_rel_amount)
                  else Some NotMatched))"

definition maker_apply_updated :: "u64 \<Rightarrow> maker_order_updated \<Rightarrow> maker_order \<Rightarrow> maker_order" where
  "maker_apply_updated now_ms msg m =
     (let b = updated_body msg;
          m = (case mu_new_price b of Some p \<Rightarrow> m\<lparr>mo_price := p\<rparr> | None \<Rightarrow> m);
          m = (case mu_new_max_volume b of Some v \<Rightarrow> m\<lparr>mo_max_base_vol := v\<rparr> | None \<Rightarrow> m);
          m = (case mu_new_min_volume b of Some v \<Rightarrow> m\<lparr>mo_min_base_vol := v\<rparr> | None \<Rightarrow> m);
          m = (case new_conf_settings msg of Some s \<Rightarrow> m\<lparr>mo_conf_settings := Some s\<rparr> | None \<Rightarrow> m)
      in m\<lparr>mo_updated_at := Some now_ms\<rparr>)"

definition mo_base_ticker :: "maker_order \<Rightarrow> ticker" where
  "mo_base_ticker m = (case mo_base_orderbook_ticker m of Some t \<Rightarrow> t | None \<Rightarrow> mo_base m)"

definition mo_rel_ticker :: "maker_order \<Rightarrow> ticker" where
  "mo_rel_ticker m = (case mo_rel_orderbook_ticker m of Some t \<Rightarrow> t | None \<Rightarrow> mo_rel m)"

definition was_updated :: "maker_order \<Rightarrow> bool" where
  "was_updated m = (mo_updated_at m \<noteq> Some (mo_created_at m))"

text \<open>\<open>From<TakerOrder> for MakerOrder\<close>; the divisions are by the amounts of the request.\<close>

definition maker_order_from_taker :: "u64 \<Rightarrow> taker_order \<Rightarrow> maker_order option" where
  "maker_order_from_taker now_ms o' =
     (let r = to_request o' in
      case tr_action r of
        Sell \<Rightarrow>
          if tr_base_amount r = 0 then None
          else Some \<lparr>
            mo_max_base_vol = tr_base_amount r, mo_min_base_vol = to_min_volume o',
            mo_price = tr_rel_amount r / tr_base_amount r, mo_created_at = now_ms,
            mo_updated_at = Some now_ms, mo_base = tr_base r, mo_rel = tr_rel r,
            mo_matches = [], mo_started_swaps = [], mo_uuid = tr_uuid r,
            mo_conf_settings = tr_conf_settings r, mo_changes_history = None,
            mo_save_in_history = to_save_in_history o',
            mo_base_orderbook_ticker = to_base_orderbook_ticker o',
            mo_rel_orderbook_ticker = to_rel_orderbook_ticker o',
            mo_p2p_privkey = to_p2p_privkey o', mo_timeout_in_minutes = None,
            mo_swap_version = tr_swap_version r\<rparr>
      | Buy \<Rightarrow>
          if tr_rel_amount r = 0 \<or> tr_base_amount r = 0 then None
          else
            let price = tr_base_amount r / tr_rel_amount r in
            Some \<lparr>
            mo_max_base_vol = tr_rel_amount r, mo_min_base_vol = to_min_volume o' / price,
            mo_price = price, mo_created_at = now_ms,
            mo_updated_at = Some now_ms, mo_base = tr_rel r, mo_rel = tr_base r,
            mo_matches = [], mo_started_swaps = [], mo_uuid = tr_uuid r,
            mo_conf_settings = map_option reversed (tr_conf_settings r), mo_changes_history = None,
            mo_save_in_history = to_save_in_history o',
            mo_base_orderbook_ticker = to_rel_orderbook_ticker o',
            mo_rel_orderbook_ticker = to_base_orderbook_ticker o',
            mo_p2p_privkey = to_p2p_privkey o', mo_timeout_in_minutes = None,
            mo_swap_version = tr_swap_version r\<rparr>)"

section \<open>Well-formed orders\<close>

text \<open>
  The limits an order has to respect, given the minimal volumes of its two coins: a taker order
  can be filled down to its minimal volume without either side falling below the coin's limit,
  and so can a maker order, at its price.
\<close>

definition taker_order_wf :: "mm_number \<Rightarrow> mm_number \<Rightarrow> taker_order \<Rightarrow> bool" where
  "taker_order_wf min_base min_rel o' =
     (let r = to_request o' in
      tr_base r \<noteq> tr_rel r \<and> tr_conf_settings r \<noteq> None \<and> tr_sender_pubkey r \<noteq> default_h256
      \<and> 0 < tr_base_amount r \<and> 0 < tr_rel_amount r
      \<and> min_base \<le> to_min_volume o' \<and> to_min_volume o' \<le> tr_base_amount r
      \<and> min_rel * tr_base_amount r \<le> to_min_volume o' * tr_rel_amount r
      \<and> to_matches o' = [])"

definition maker_order_wf :: "mm_number \<Rightarrow> mm_number \<Rightarrow> maker_order \<Rightarrow> bool" where
  "maker_order_wf min_base min_rel m =
     (mo_base m \<noteq> mo_rel m \<and> mo_conf_settings m \<noteq> None \<and> 0 < mo_price m
      \<and> min_base \<le> mo_min_base_vol m \<and> mo_min_base_vol m \<le> mo_max_base_vol m
      \<and> min_rel \<le> mo_min_base_vol m * mo_price m)"

text \<open>The successful path of the taker builder, with the checks it has passed.\<close>

lemma taker_order_build_InrD:
  assumes "taker_order_build env b = Some (Inr o')"
  shows "tb_base_amount b \<noteq> 0" "tb_rel_amount b \<noteq> 0"
    and "coin_min_trading_vol (tb_base_coin b) \<le> tb_base_amount b"
    and "coin_min_trading_vol (tb_rel_coin b) \<le> tb_rel_amount b"
    and "max (coin_min_trading_vol (tb_base_coin b))
          (coin_min_trading_vol (tb_rel_coin b) / (tb_rel_amount b / tb_base_amount b)) \<le> to_min_volume o'"
    and "to_min_volume o' \<le> tb_base_amount b"
    and "tb_sender_pubkey b \<noteq> default_h256" "tb_conf_settings b \<noteq> None"
    and "coin_ticker (tb_base_coin b) \<noteq> coin_ticker (tb_rel_coin b)"
    and "to_matches o' = []"
    and "tr_base_amount (to_request o') = tb_base_amount b"
    and "tr_rel_amount (to_request o') = tb_rel_amount b"
    and "tr_base (to_request o') = coin_ticker (tb_base_coin b)"
    and "tr_rel (to_request o') = coin_ticker (tb_rel_coin b)"
    and "tr_conf_settings (to_request o') = tb_conf_settings b"
    and "tr_sender_pubkey (to_request o') = tb_sender_pubkey b"
  using assms unfolding taker_order_build_def Let_def
  by (simp_all only: split: if_splits) (auto simp: not_less)

text \<open>
  Building a taker order never panics when both coins have a positive minimal volume, and an
  order that is built is well formed: every volume down to its minimal one is at least the
  minimal volume of the base coin and, at the order's price, of the rel coin.
\<close>

theorem taker_order_build_safe:
  assumes "0 < coin_min_trading_vol (tb_base_coin b)" "0 < coin_min_trading_vol (tb_rel_coin b)"
  shows "case taker_order_build env b of
      None \<Rightarrow> False
    | Some (Inl _) \<Rightarrow> True
    | Some (Inr o') \<Rightarrow>
        taker_order_wf (coin_min_trading_vol (tb_base_coin b)) (coin_min_trading_vol (tb_rel_coin b)) o'"
proof -
  have "taker_order_build env b \<noteq> None"
    using assms by (auto simp: taker_order_build_def Let_def)
  moreover have "taker_order_wf (coin_min_trading_vol (tb_base_coin b)) (coin_min_trading_vol (tb_rel_coin b)) o'"
    if built: "taker_order_build env b = Some (Inr o')" for o'
  proof -
    note D = taker_order_build_InrD[OF built]
    have pos: "0 < tb_base_amount b" "0 < tb_rel_amount b"
      using D(3,4) assms by linarith+
    show ?thesis
      using D pos by (simp add: taker_order_wf_def Let_def pos_divide_le_eq)
  qed
  ultimately show ?thesis
    by (auto split: option.splits sum.splits)
qed

definition sample_confs :: order_confirmations_settings where
  "sample_confs = \<lparr>oc_base_confs = 1, oc_base_nota = False, oc_rel_confs = 2, oc_rel_nota = True\<rparr>"

definition sample_taker_builder :: "taker_action \<Rightarrow> taker_order_builder" where
  "sample_taker_builder action =
     (taker_order_builder_new (flat_fee_coin ''LTC'' 100 0) (flat_fee_coin ''DOGE'' 100 0))
       \<lparr>tb_base_amount := 2, tb_rel_amount := 10, tb_action := action,
        tb_sender_pubkey := replicate 32 1, tb_conf_settings := Some sample_confs\<rparr>"

definition sample_env :: build_env where
  "sample_env = \<lparr>be_now_ms = 1000, be_uuid = 7, be_random_keypair = []\<rparr>"

lemmas sample_defs = sample_taker_builder_def sample_env_def sample_confs_def
  taker_order_builder_new_def flat_fee_coin_def default_h256_def taker_order_timeout_def
  default_swap_version_def Let_def

theorem taker_order_build_safe_witness:
  "\<exists>o'. taker_order_build sample_env (sample_taker_builder Buy) = Some (Inr o')
    \<and> taker_order_wf (1 / 1000) (1 / 1000) o'"
  using taker_order_build_safe[of "sample_taker_builder Buy" sample_env]
  by (simp add: taker_order_build_def sample_defs)

text \<open>
  An order that the maker builder accepts is well formed: its price is at least the smallest
  one, its minimal volume does not exceed its volume, and every volume from the minimal one up
  respects the limits of both coins, also when the minimal volume was left to the builder.
\<close>

theorem maker_order_build_wf:
  assumes "maker_order_build env b = Inr m"
  shows "maker_order_wf (coin_min_trading_vol (mb_base_coin b)) (coin_min_trading_vol (mb_rel_coin b)) m
    \<and> 1 / 100000000 \<le> mo_price m \<and> available_amount m = mb_max_base_vol b"
proof -
  let ?minb = "coin_min_trading_vol (mb_base_coin b)" and ?minr = "coin_min_trading_vol (mb_rel_coin b)"
  have price: "1 / 100000000 \<le> mb_price b"
    and min: "validate_and_get_min_vol ?minb ?minr (mb_min_base_vol b) (mb_price b) = Inr (mo_min_base_vol m)"
    and max: "validate_max_vol ?minb ?minr (mb_max_base_vol b) (mb_min_base_vol b) (mb_price b) = Inr ()"
    and fields: "mo_price m = mb_price b" "mo_max_base_vol m = mb_max_base_vol b" "mo_matches m = []"
      "mo_conf_settings m \<noteq> None" "mo_base m \<noteq> mo_rel m"
    using assms
    by (auto simp: maker_order_build_def Let_def bind_res_Inr_iff validate_price_def split: if_splits)
  have pos: "0 < mb_price b" using price by (rule less_le_trans[rotated]) simp
  have lim: "?minb \<le> mo_min_base_vol m" "?minr \<le> mo_min_base_vol m * mb_price b"
    using min pos by (auto simp: validate_and_get_min_vol_def Let_def pos_divide_le_eq not_less split: if_splits)
  have "mo_min_base_vol m \<le> mb_max_base_vol b"
  proof (cases "mb_min_base_vol b")
    case None
    have "mo_min_base_vol m = max ?minb (?minr / mb_price b)"
      using min None by (simp add: validate_and_get_min_vol_def)
    then show ?thesis
      using max None pos
      by (auto simp: validate_max_vol_def Let_def pos_divide_le_eq not_less split: if_splits)
  next
    case (Some v)
    then show ?thesis
      using min max
      by (auto simp: validate_and_get_min_vol_def validate_max_vol_def Let_def bind_res_Inr_iff split: if_splits)
  qed
  then show ?thesis
    using lim pos price fields
    by (simp add: maker_order_wf_def available_amount_def reserved_amount_def)
qed

definition sample_maker_builder :: maker_order_builder where
  "sample_maker_builder =
     (maker_order_builder_new (flat_fee_coin ''LTC'' 100 0) (flat_fee_coin ''DOGE'' 100 0))
       \<lparr>mb_max_base_vol := 10, mb_price := 5, mb_conf_settings := Some sample_confs\<rparr>"

theorem maker_order_build_wf_witness:
  "\<exists>m. maker_order_build sample_env sample_maker_builder = Inr m
    \<and> maker_order_wf (1 / 1000) (1 / 1000) m \<and> available_amount m = 10"
  using maker_order_build_wf[of sample_env sample_maker_builder]
  by (simp add: maker_order_build_def sample_maker_builder_def maker_order_builder_new_def
      sample_defs validate_price_def validate_and_get_min_vol_def validate_max_vol_def)

section \<open>Matching\<close>

lemma fold_reserved:
  "fold (\<lambda>(_, order_match) reserved. reserved + mr_base_amount (mm_reserved order_match)) ms acc =
    acc + (\<Sum>(_, order_match)\<leftarrow>ms. mr_base_amount (mm_reserved order_match))"
  by (induction ms arbitrary: acc) (auto simp: add.assoc)

lemma reserved_amount_sum:
  "reserved_amount m = (\<Sum>(_, order_match)\<leftarrow>mo_matches m. mr_base_amount (mm_reserved order_match))"
  by (simp add: reserved_amount_def fold_reserved)

text \<open>The facts a match establishes about the amounts, in the maker's view of the pair.\<close>

lemma match_with_request_MatchedD:
  assumes "match_with_request m r = Some (Matched b a)"
  shows "0 < tr_base_amount r" "0 < tr_rel_amount r"
    and "mo_min_base_vol m \<le> b" "b \<le> available_amount m"
    and "tr_action r = Buy \<Longrightarrow> b = tr_base_amount r \<and> a = b * mo_price m
      \<and> mo_price m \<le> tr_rel_amount r / tr_base_amount r"
    and "tr_action r = Sell \<Longrightarrow> a = tr_base_amount r \<and> b = a / mo_price m \<and> mo_price m \<noteq> 0
      \<and> mo_price m \<le> tr_base_amount r / tr_rel_amount r"
  using assms unfolding match_with_request_def Let_def
  by (auto split: if_splits taker_action.splits)

text \<open>
  A match of a well-formed maker order with a request is fair and inside the order's limits:
  the matched volume lies between the order's minimal volume and what is still available, it is
  priced exactly at the maker's price, both amounts respect the minimal volumes of the coins, and
  the taker gets at least what the request asks for: a buyer gets the requested amount for at most
  the offered price, a seller gives the offered amount and receives at least what was asked.
\<close>

theorem match_with_request_fair:
  assumes wf: "maker_order_wf min_base min_rel m"
    and matched: "match_with_request m r = Some (Matched b a)"
  shows "mo_min_base_vol m \<le> b \<and> b \<le> available_amount m \<and> a = b * mo_price m
    \<and> min_base \<le> b \<and> min_rel \<le> a
    \<and> (case tr_action r of
         Buy \<Rightarrow> b = tr_base_amount r \<and> a \<le> tr_rel_amount r
       | Sell \<Rightarrow> a = tr_base_amount r \<and> tr_rel_amount r \<le> b)"
proof -
  note D = match_with_request_MatchedD[OF matched]
  have price: "0 < mo_price m" and lim: "min_base \<le> mo_min_base_vol m" "min_rel \<le> mo_min_base_vol m * mo_price m"
    using wf by (simp_all add: maker_order_wf_def)
  have a: "a = b * mo_price m"
    using D(5,6) by (cases "tr_action r") simp_all
  have "mo_min_base_vol m * mo_price m \<le> b * mo_price m"
    using D(3) price by (simp add: mult_right_mono)
  then have "min_rel \<le> a" "min_base \<le> b"
    using lim a D(3) by linarith+
  moreover have "case tr_action r of
         Buy \<Rightarrow> b = tr_base_amount r \<and> a \<le> tr_rel_amount r
       | Sell \<Rightarrow> a = tr_base_amount r \<and> tr_rel_amount r \<le> b"
    using D(1,2,5,6) price by (cases "tr_action r") (auto simp: pos_le_divide_eq mult_ac)
  ultimately show ?thesis
    using D(3,4) a by blast
qed

definition sample_maker_order :: maker_order where
  "sample_maker_order =
     \<lparr>mo_max_base_vol = 10, mo_min_base_vol = 1, mo_price = 5, mo_created_at = 0,
      mo_updated_at = None, mo_base = ''LTC'', mo_rel = ''DOGE'', mo_matches = [],
      mo_started_swaps = [], mo_uuid = 3, mo_conf_settings = Some sample_confs,
      mo_changes_history = None, mo_save_in_history = True, mo_base_orderbook_ticker = None,
      mo_rel_orderbook_ticker = None, mo_p2p_privkey = None, mo_timeout_in_minutes = None,
      mo_swap_version = default_swap_version\<rparr>"

definition sample_request :: "taker_action \<Rightarrow> ticker \<Rightarrow> ticker \<Rightarrow> mm_number \<Rightarrow> mm_number \<Rightarrow> taker_request" where
  "sample_request action base rel base_amount rel_amount =
     \<lparr>tr_base = base, tr_rel = rel, tr_base_amount = base_amount, tr_rel_amount = rel_amount,
      tr_action = action, tr_uuid = 9, tr_sender_pubkey = replicate 32 1,
      tr_dest_pub_key = default_h256, tr_match_by = MatchAny, tr_conf_settings = Some sample_confs,
      tr_base_protocol_info = None, tr_rel_protocol_info = None,
      tr_swap_version = default_swap_version\<rparr>"

theorem match_with_request_fair_witness:
  "match_with_request sample_maker_order (sample_request Sell ''DOGE'' ''LTC'' 20 3) = Some (Matched 4 20)
   \<and> (3::rat) \<le> 4 \<and> 4 \<le> available_amount sample_maker_order"
proof -
  have m: "match_with_request sample_maker_order (sample_request Sell ''DOGE'' ''LTC'' 20 3) = Some (Matched 4 20)"
    by (simp add: match_with_request_def sample_maker_order_def sample_request_def available_amount_def
        reserved_amount_def Let_def)
  have "maker_order_wf (1 / 2) 2 sample_maker_order"
    by (simp add: maker_order_wf_def sample_maker_order_def)
  from match_with_request_fair[OF this m] m show ?thesis
    by simp
qed

text \<open>
  A taker order that was not matched becomes a maker order with the same meaning: it offers
  what the taker wanted to pay with, up to the full amount and at the taker's price, and it is
  well formed, with the minimal volume and the limits of both coins carried over to the
  reversed pair of a buy order.
\<close>

theorem maker_order_from_taker_wf:
  assumes "taker_order_wf min_base min_rel o'"
  shows "\<exists>m. maker_order_from_taker now o' = Some m
    \<and> available_amount m = mo_max_base_vol m
    \<and> mo_base m = taker_coin_ticker o' \<and> mo_rel m = maker_coin_ticker o'
    \<and> mo_base_ticker m = (case tr_action (to_request o') of Buy \<Rightarrow> to_rel_ticker o' | Sell \<Rightarrow> to_base_ticker o')
    \<and> (case tr_action (to_request o') of
         Buy \<Rightarrow> mo_max_base_vol m = tr_rel_amount (to_request o')
           \<and> mo_max_base_vol m * mo_price m = tr_base_amount (to_request o')
           \<and> mo_min_base_vol m * mo_price m = to_min_volume o' \<and> maker_order_wf min_rel min_base m
       | Sell \<Rightarrow> mo_max_base_vol m = tr_base_amount (to_request o')
           \<and> mo_max_base_vol m * mo_price m = tr_rel_amount (to_request o')
           \<and> mo_min_base_vol m = to_min_volume o' \<and> maker_order_wf min_base min_rel m)"
  using assms
  by (cases "tr_action (to_request o')")
    (auto simp: maker_order_from_taker_def taker_order_wf_def maker_order_wf_def Let_def
      available_amount_def reserved_amount_def taker_coin_ticker_def maker_coin_ticker_def
      mo_base_ticker_def to_rel_ticker_def to_base_ticker_def pos_le_divide_eq pos_divide_le_eq mult_ac
      split: option.splits)

definition sample_taker_order :: "taker_action \<Rightarrow> taker_order" where
  "sample_taker_order action =
     \<lparr>to_created_at = 0, to_request = sample_request action ''LTC'' ''DOGE'' 2 10, to_matches = [],
      to_min_volume = 1, to_order_type = GoodTillCancelled, to_timeout = 30,
      to_save_in_history = True, to_base_orderbook_ticker = None, to_rel_orderbook_ticker = None,
      to_p2p_privkey = None\<rparr>"

theorem maker_order_from_taker_wf_witness:
  "\<exists>m. maker_order_from_taker 5 (sample_taker_order Buy) = Some m
    \<and> mo_max_base_vol m = 10 \<and> mo_min_base_vol m * mo_price m = 1 \<and> maker_order_wf 5 1 m"
proof -
  have "taker_order_wf 1 5 (sample_taker_order Buy)"
    by (simp add: taker_order_wf_def sample_taker_order_def sample_request_def default_h256_def
        Let_def numeral_eq_Suc)
  from maker_order_from_taker_wf[OF this, of 5] show ?thesis
    by (auto simp: sample_taker_order_def sample_request_def)
qed

end
