(* ===== verification/DexFee.thy ===== *)
theory DexFee
  imports Coins
begin

text \<open>
  The fee of the exchange: the compiled-in network parameters (\<open>mm2_net_config\<close>), the fee rate,
  floor and amount (\<open>mm2_main/src/lp_swap/dex_fee.rs\<close>), the split between the fee address and
  the burn output (\<open>DexFee\<close> in \<open>coins/lp_coins_types.rs\<close>), and the inversion of the fee in
  \<open>max_taker_vol_from_available\<close> (\<open>taker_swap.rs\<close>).
\<close>

section \<open>Network parameters\<close>

record net_config =
  nc_netid :: u16
  nc_network_name :: string
  nc_dex_fee_addr_pubkey :: string
  nc_dex_fee_rate :: mm_number
  nc_fee_discount_tickers :: "ticker list"
  nc_dex_fee_rate_discounted :: mm_number
  nc_dex_fee_min_threshold :: mm_number
  nc_burn_enabled :: bool
  nc_dex_fee_share :: mm_number
  nc_burn_addr_raw_pubkey :: bytes

definition netid_8762 :: net_config where
  "netid_8762 = \<lparr>
     nc_netid = 8762,
     nc_network_name = ''AtomicDEX'',
     nc_dex_fee_addr_pubkey = ''03bc2c7ba671bae4a6fc835244c9762b41647b9827d4780a89a949b984a8ddcc06'',
     nc_dex_fee_rate = 1 / 777,
     nc_fee_discount_tickers = [''KMD''],
     nc_dex_fee_rate_discounted = 9 / 7770,
     nc_dex_fee_min_threshold = 1 / 10000,
     nc_burn_enabled = False,
     nc_dex_fee_share = 1,
     nc_burn_addr_raw_pubkey = []\<rparr>"

definition netid_6133 :: net_config where
  "netid_6133 = \<lparr>
     nc_netid = 6133,
     nc_network_name = ''GLEEC'',
     nc_dex_fee_addr_pubkey = ''03a778d9bd346fa704cf3e2508cd074d93a1bbc1e504fbecbb0a8d48e7cccbbf5c'',
     nc_dex_fee_rate = 2 / 100,
     nc_fee_discount_tickers = [''GLEEC''],
     nc_dex_fee_rate_discounted = 1 / 100,
     nc_dex_fee_min_threshold = 1 / 10000,
     nc_burn_enabled = True,
     nc_dex_fee_share = 3 / 4,
     nc_burn_addr_raw_pubkey =
       [0x03, 0xA7, 0x78, 0xD9, 0xBD, 0x34, 0x6F, 0xA7, 0x04, 0xCF, 0x3E, 0x25, 0x08, 0xCD, 0x07,
        0x4D, 0x93, 0xA1, 0xBB, 0xC1, 0xE5, 0x04, 0xFB, 0xEC, 0xBB, 0x0A, 0x8D, 0x48, 0xE7, 0xCC,
        0xCB, 0xBF, 0x5C]\<rparr>"

definition net_config_for :: "u16 \<Rightarrow> net_config option" where
  "net_config_for netid =
     (if netid = 8762 then Some netid_8762
      else if netid = 6133 then Some netid_6133
      else None)"

definition supported_netids :: "u16 list" where
  "supported_netids = [8762, 6133]"

section \<open>Rate, floor and amount\<close>

definition dex_fee_threshold :: "net_config \<Rightarrow> mm_number \<Rightarrow> mm_number" where
  "dex_fee_threshold cfg min_tx_amount =
     (let min_fee = nc_dex_fee_min_threshold cfg in
      if min_fee < min_tx_amount then min_tx_amount else min_fee)"

definition dex_fee_rate :: "net_config \<Rightarrow> ticker \<Rightarrow> ticker \<Rightarrow> mm_number" where
  "dex_fee_rate cfg base rel =
     (if base \<in> set (nc_fee_discount_tickers cfg) \<or> rel \<in> set (nc_fee_discount_tickers cfg)
      then nc_dex_fee_rate_discounted cfg else nc_dex_fee_rate cfg)"

definition dex_fee_amount :: "net_config \<Rightarrow> ticker \<Rightarrow> ticker \<Rightarrow> mm_number \<Rightarrow> mm_number \<Rightarrow> mm_number" where
  "dex_fee_amount cfg base rel trade_amount threshold =
     (let rate = dex_fee_rate cfg base rel; fee_amount = trade_amount * rate in
      if fee_amount < threshold then threshold else fee_amount)"

definition dex_fee_amount_from_taker_coin :: "net_config \<Rightarrow> mm_coin \<Rightarrow> ticker \<Rightarrow> mm_number \<Rightarrow> mm_number" where
  "dex_fee_amount_from_taker_coin cfg taker_coin maker_coin trade_amount =
     (let threshold = dex_fee_threshold cfg (coin_min_tx_amount taker_coin) in
      dex_fee_amount cfg (coin_ticker taker_coin) maker_coin trade_amount threshold)"

section \<open>The fee with its burn split\<close>

datatype (plugins only: code size) dex_fee_burn_destination = KmdOpReturn | PreBurnAccount bytes

datatype (plugins only: code size) dex_fee =
    NoFee
  | Standard mm_number
  | WithBurn mm_number mm_number dex_fee_burn_destination

fun total_spend_amount :: "dex_fee \<Rightarrow> mm_number" where
  "total_spend_amount NoFee = 0"
| "total_spend_amount (Standard amount) = amount"
| "total_spend_amount (WithBurn fee burn _) = fee + burn"

fun fee_amount :: "dex_fee \<Rightarrow> mm_number" where
  "fee_amount NoFee = 0"
| "fee_amount (Standard amount) = amount"
| "fee_amount (WithBurn fee _ _) = fee"

fun burn_amount :: "dex_fee \<Rightarrow> mm_number" where
  "burn_amount NoFee = 0"
| "burn_amount (Standard _) = 0"
| "burn_amount (WithBurn _ burn _) = burn"

definition calc_dex_fee_for_op_return :: "mm_number \<Rightarrow> mm_number \<Rightarrow> dex_fee" where
  "calc_dex_fee_for_op_return fee min_tx_amount =
     (if fee < min_tx_amount then Standard fee else WithBurn 0 fee KmdOpReturn)"

definition calc_dex_fee_for_burn_account :: "mm_number \<Rightarrow> mm_number \<Rightarrow> mm_number \<Rightarrow> bytes \<Rightarrow> dex_fee" where
  "calc_dex_fee_for_burn_account fee min_tx_amount fee_share burn_pubkey =
     (let fee_part = fee * fee_share; burn_part = fee - fee_part in
      if burn_part < min_tx_amount \<or> fee_part < min_tx_amount then Standard fee
      else WithBurn fee_part burn_part (PreBurnAccount burn_pubkey))"

text \<open>The burn key: the coin's own one, or the network's when the coin has none.\<close>

definition burn_pubkey_of :: "mm_coin \<Rightarrow> net_config \<Rightarrow> bytes" where
  "burn_pubkey_of coin cfg =
     (if coin_burn_pubkey coin \<noteq> [] then coin_burn_pubkey coin else nc_burn_addr_raw_pubkey cfg)"

definition new_from_taker_coin :: "mm_coin \<Rightarrow> net_config \<Rightarrow> mm_number \<Rightarrow> dex_fee" where
  "new_from_taker_coin coin cfg base_fee =
     (if \<not> nc_burn_enabled cfg \<or> \<not> coin_should_burn_dex_fee coin then Standard base_fee
      else if coin_should_burn_directly coin
      then calc_dex_fee_for_op_return base_fee (coin_min_tx_amount coin)
      else calc_dex_fee_for_burn_account base_fee (coin_min_tx_amount coin)
             (nc_dex_fee_share cfg) (burn_pubkey_of coin cfg))"

definition new_with_taker_pubkey :: "mm_coin \<Rightarrow> net_config \<Rightarrow> mm_number \<Rightarrow> bytes \<Rightarrow> dex_fee" where
  "new_with_taker_pubkey coin cfg base_fee taker_pubkey =
     (let burn_pubkey = burn_pubkey_of coin cfg in
      if burn_pubkey \<noteq> [] \<and> burn_pubkey = taker_pubkey then NoFee
      else new_from_taker_coin coin cfg base_fee)"

definition compute_dex_fee :: "net_config \<Rightarrow> mm_coin \<Rightarrow> ticker \<Rightarrow> mm_number \<Rightarrow> dex_fee" where
  "compute_dex_fee cfg taker_coin maker_coin trade_amount =
     new_from_taker_coin taker_coin cfg
       (dex_fee_amount_from_taker_coin cfg taker_coin maker_coin trade_amount)"

definition compute_dex_fee_with_taker_pubkey ::
  "net_config \<Rightarrow> mm_coin \<Rightarrow> ticker \<Rightarrow> mm_number \<Rightarrow> bytes \<Rightarrow> dex_fee" where
  "compute_dex_fee_with_taker_pubkey cfg taker_coin maker_coin trade_amount taker_pubkey =
     new_with_taker_pubkey taker_coin cfg
       (dex_fee_amount_from_taker_coin cfg taker_coin maker_coin trade_amount) taker_pubkey"

section \<open>The largest volume a taker can trade\<close>

record max_taker_volume_less_than_dust =
  mv_max_vol :: mm_number
  mv_min_tx_amount :: mm_number

definition max_taker_vol_from_available ::
  "net_config \<Rightarrow> mm_number \<Rightarrow> ticker \<Rightarrow> ticker \<Rightarrow> mm_number \<Rightarrow>
    max_taker_volume_less_than_dust + mm_number" where
  "max_taker_vol_from_available cfg available base rel min_tx_amount =
     (let fee_threshold = dex_fee_threshold cfg min_tx_amount;
          rate = dex_fee_rate cfg base rel;
          threshold_coef = (1 + rate) / rate;
          max_vol = (if available > fee_threshold * threshold_coef
                     then available / (1 + rate) else available - fee_threshold)
      in if max_vol \<le> min_tx_amount
         then Inl \<lparr>mv_max_vol = max_vol, mv_min_tx_amount = min_tx_amount\<rparr>
         else Inr max_vol)"

section \<open>Properties\<close>

text \<open>What the compiled configurations guarantee, and the two facts about the fee that follow.\<close>

lemma net_config_for_sane:
  assumes "net_config_for n = Some cfg"
  shows "0 < nc_dex_fee_rate_discounted cfg"
    and "nc_dex_fee_rate_discounted cfg \<le> nc_dex_fee_rate cfg"
    and "0 < nc_dex_fee_min_threshold cfg"
    and "0 < nc_dex_fee_share cfg" "nc_dex_fee_share cfg \<le> 1"
    and "nc_burn_enabled cfg \<Longrightarrow> nc_burn_addr_raw_pubkey cfg \<noteq> []"
    and "nc_netid cfg = n"
  using assms
  by (auto simp: net_config_for_def netid_8762_def netid_6133_def split: if_splits)

lemma dex_fee_rate_pos: "net_config_for n = Some cfg \<Longrightarrow> 0 < dex_fee_rate cfg base rel"
  using net_config_for_sane(1,2) by (fastforce simp: dex_fee_rate_def)

lemma dex_fee_threshold_bounds:
  "nc_dex_fee_min_threshold cfg \<le> dex_fee_threshold cfg m" "m \<le> dex_fee_threshold cfg m"
  by (auto simp: dex_fee_threshold_def Let_def)

lemma dex_fee_amount_max: "dex_fee_amount cfg base rel v t = max t (v * dex_fee_rate cfg base rel)"
  by (simp add: dex_fee_amount_def Let_def max_def)

lemma dex_fee_amount_mono:
  "net_config_for n = Some cfg \<Longrightarrow> v \<le> w \<Longrightarrow>
    dex_fee_amount cfg base rel v t \<le> dex_fee_amount cfg base rel w t"
  using dex_fee_rate_pos[of n cfg base rel]
  by (simp add: dex_fee_amount_max max.coboundedI2 mult_right_mono)

text \<open>The arithmetic of the inversion, for a rate \<open>r\<close> and a floor \<open>t\<close>.\<close>

lemma fee_inversion:
  fixes a r t :: rat
  assumes "0 < r"
  defines "v \<equiv> (if a > t * ((1 + r) / r) then a / (1 + r) else a - t)"
  shows "v + max t (v * r) = a"
proof (cases "a > t * ((1 + r) / r)")
  case True
  then have "t * (1 + r) < a * r"
    using assms(1) by (simp add: field_simps)
  then have "t \<le> a / (1 + r) * r"
    using assms(1) by (simp add: field_simps)
  moreover have "a / (1 + r) + a / (1 + r) * r = a / (1 + r) * (1 + r)"
    by (simp add: distrib_left)
  moreover have "a / (1 + r) * (1 + r) = a"
    using assms(1) by simp
  ultimately show ?thesis
    using True by (simp add: v_def max_def)
next
  case False
  then have "a * r \<le> t * (1 + r)"
    using assms(1) by (simp add: field_simps)
  then have "(a - t) * r \<le> t"
    by (simp add: algebra_simps)
  with False show ?thesis
    by (simp add: v_def max_def)
qed

lemma fee_inversion_maximal:
  fixes v w r t :: rat
  assumes "0 < r" "w + max t (w * r) \<le> v + max t (v * r)"
  shows "w \<le> v"
proof (rule ccontr)
  assume "\<not> w \<le> v"
  then have "v * r < w * r" "v < w" using assms(1) by simp_all
  then show False using assms(2) by (auto simp: max_def split: if_splits)
qed

text \<open>The equation that \<open>max_taker_vol_from_available\<close> solves, shared by the properties about it.\<close>

lemma max_taker_vol_equation:
  assumes "net_config_for n = Some cfg"
    and "max_taker_vol_from_available cfg available base rel min_tx = Inr v"
  shows "v + dex_fee_amount cfg base rel v (dex_fee_threshold cfg min_tx) = available"
proof -
  let ?r = "dex_fee_rate cfg base rel" and ?t = "dex_fee_threshold cfg min_tx"
  have "v = (if available > ?t * ((1 + ?r) / ?r) then available / (1 + ?r) else available - ?t)"
    using assms(2) by (auto simp: max_taker_vol_from_available_def Let_def split: if_splits)
  then show ?thesis
    using fee_inversion[OF dex_fee_rate_pos[OF assms(1), of base rel], where a = available and t = ?t]
    by (simp only: dex_fee_amount_max)
qed

text \<open>
  C39: On every supported network, the volume that \<open>max_taker_vol_from_available\<close> returns leaves
  nothing over: together with the fee charged on it (floor included) it adds up to exactly the
  available amount, it exceeds the dust limit, and no larger volume is affordable.
\<close>

theorem max_taker_vol_exact_and_maximal:
  assumes "net_config_for n = Some cfg"
    and "max_taker_vol_from_available cfg available base rel min_tx = Inr v"
  shows "v + dex_fee_amount cfg base rel v (dex_fee_threshold cfg min_tx) = available
    \<and> min_tx < v
    \<and> (\<forall>w. w + dex_fee_amount cfg base rel w (dex_fee_threshold cfg min_tx) \<le> available \<longrightarrow> w \<le> v)"
proof -
  let ?r = "dex_fee_rate cfg base rel" and ?t = "dex_fee_threshold cfg min_tx"
  have exact: "v + max ?t (v * ?r) = available"
    using max_taker_vol_equation[OF assms] by (simp add: dex_fee_amount_max)
  have "min_tx < v"
    using assms(2) by (auto simp: max_taker_vol_from_available_def Let_def split: if_splits)
  moreover have "w \<le> v" if "w + max ?t (w * ?r) \<le> available" for w
    using that exact fee_inversion_maximal[OF dex_fee_rate_pos[OF assms(1)], of w ?t base rel v] by simp
  ultimately show ?thesis
    using exact by (simp add: dex_fee_amount_max)
qed

theorem max_taker_vol_exact_and_maximal_witness:
  "(777::rat) + dex_fee_amount netid_8762 ''BTC'' ''LTC'' 777 (dex_fee_threshold netid_8762 0) = 778
   \<and> \<not> 778 + dex_fee_amount netid_8762 ''BTC'' ''LTC'' 778 (dex_fee_threshold netid_8762 0) \<le> 778"
  using max_taker_vol_exact_and_maximal[of 8762 netid_8762 778 "''BTC''" "''LTC''" 0 777]
  by (simp add: net_config_for_def max_taker_vol_from_available_def Let_def netid_8762_def
      dex_fee_threshold_def dex_fee_rate_def dex_fee_amount_def)

text \<open>
  The fee function answers an error only when no volume above the dust limit is affordable:
  whenever some volume above it fits together with its fee, a volume is returned.
\<close>

theorem max_taker_vol_complete:
  assumes "net_config_for n = Some cfg" "min_tx < w"
    and "w + dex_fee_amount cfg base rel w (dex_fee_threshold cfg min_tx) \<le> available"
  shows "\<exists>v. max_taker_vol_from_available cfg available base rel min_tx = Inr v \<and> w \<le> v"
proof -
  let ?r = "dex_fee_rate cfg base rel" and ?t = "dex_fee_threshold cfg min_tx"
  define v where "v = (if available > ?t * ((1 + ?r) / ?r) then available / (1 + ?r) else available - ?t)"
  have r: "0 < ?r" by (rule dex_fee_rate_pos[OF assms(1)])
  have "v + max ?t (v * ?r) = available"
    unfolding v_def by (rule fee_inversion[OF r])
  then have "w \<le> v"
    using assms(3) by (intro fee_inversion_maximal[OF r, of w ?t v]) (simp add: dex_fee_amount_max)
  moreover have "max_taker_vol_from_available cfg available base rel min_tx = Inr v" if "min_tx < v"
    using that unfolding max_taker_vol_from_available_def v_def Let_def by simp
  ultimately show ?thesis
    using assms(2) by force
qed

theorem max_taker_vol_complete_witness:
  "\<exists>v. max_taker_vol_from_available netid_6133 11 ''BTC'' ''LTC'' 1 = Inr v \<and> 10 \<le> v"
  using max_taker_vol_complete[of 6133 netid_6133 1 10 "''BTC''" "''LTC''" 11]
  by (simp add: net_config_for_def Let_def netid_6133_def dex_fee_threshold_def dex_fee_rate_def
      dex_fee_amount_def)

text \<open>
  Splitting the fee between the fee address and the burn output neither creates nor loses
  value. For every coin and network the two legs add up to the fee charged, unless the taker is
  the burn key itself, which pays nothing; and when there are two outputs neither of them is
  below the dust limit of the coin, the whole-fee burn of the direct path apart.
\<close>

theorem dex_fee_split_preserves_total:
  "let fee = compute_dex_fee_with_taker_pubkey cfg taker_coin mc amt pk in
     total_spend_amount fee =
       (if burn_pubkey_of taker_coin cfg \<noteq> [] \<and> pk = burn_pubkey_of taker_coin cfg then 0
        else dex_fee_amount_from_taker_coin cfg taker_coin mc amt)
     \<and> fee_amount fee + burn_amount fee = total_spend_amount fee
     \<and> (case fee of
          WithBurn f b dest \<Rightarrow>
            coin_min_tx_amount taker_coin \<le> b
            \<and> (case dest of KmdOpReturn \<Rightarrow> f = 0 | PreBurnAccount _ \<Rightarrow> coin_min_tx_amount taker_coin \<le> f)
        | _ \<Rightarrow> True)"
  by (auto simp: compute_dex_fee_with_taker_pubkey_def new_with_taker_pubkey_def
      new_from_taker_coin_def calc_dex_fee_for_op_return_def calc_dex_fee_for_burn_account_def Let_def)

end
