(* ===== verification/SwapFunds.thy ===== *)
theory SwapFunds
  imports DexFee
begin

text \<open>
  Funds bookkeeping of the swaps: the amounts locked by running swaps (\<open>lp_swap.rs\<close>), the balance
  checks before a swap (\<open>check_balance.rs\<close>, \<open>check_balance_for_maker_swap\<close>,
  \<open>check_balance_for_taker_swap\<close>) and the volume limits (\<open>calc_max_maker_vol\<close>,
  \<open>calc_max_taker_vol\<close>). The error payloads carry the exact amounts; the messages of the internal
  errors are kept only by their kind.
\<close>

section \<open>Locked amounts\<close>

record locked_amount =
  la_coin :: ticker
  la_amount :: mm_number
  la_trade_fee :: "trade_fee option"

text \<open>What the trait \<open>AtomicSwap\<close> shows of a running swap; a dead weak reference is \<open>None\<close>.\<close>

record atomic_swap =
  as_uuid :: uuid
  as_locked_amount :: "locked_amount list"
  as_maker_coin :: ticker
  as_taker_coin :: ticker

record locked_amount_v2_info =
  lv_swap_uuid :: uuid
  lv_locked_amount :: locked_amount

record active_swap_v2_info =
  av_uuid :: uuid
  av_maker_coin :: ticker
  av_taker_coin :: ticker
  av_swap_type :: u8

record swaps_context =
  sc_running_swaps :: "atomic_swap option list"
  sc_active_swaps_v2 :: "active_swap_v2_info list"
  sc_locked_amounts_v2 :: "(ticker, locked_amount_v2_info list) hash_map"

definition alive_swaps :: "swaps_context \<Rightarrow> atomic_swap list" where
  "alive_swaps ctx = List.map_filter id (sc_running_swaps ctx)"

text \<open>The closure both folds run for each locked amount.\<close>

definition add_locked :: "ticker \<Rightarrow> locked_amount \<Rightarrow> mm_number \<Rightarrow> mm_number" where
  "add_locked coin locked acc =
     (let acc = (if la_coin locked = coin then acc + la_amount locked else acc) in
      case la_trade_fee locked of
        None \<Rightarrow> acc
      | Some fee \<Rightarrow>
          if tf_coin fee = coin \<and> \<not> tf_paid_from_trading_vol fee then acc + tf_amount fee else acc)"

definition add_locked_v2 :: "ticker \<Rightarrow> locked_amount_v2_info \<Rightarrow> mm_number \<Rightarrow> mm_number" where
  "add_locked_v2 coin info acc =
     (let acc = acc + la_amount (lv_locked_amount info) in
      case la_trade_fee (lv_locked_amount info) of
        None \<Rightarrow> acc
      | Some fee \<Rightarrow>
          if tf_coin fee = coin \<and> \<not> tf_paid_from_trading_vol fee then acc + tf_amount fee else acc)"

definition get_locked_amount :: "swaps_context \<Rightarrow> ticker \<Rightarrow> mm_number" where
  "get_locked_amount ctx coin =
     (let v1_total = fold (add_locked coin) (concat (map as_locked_amount (alive_swaps ctx))) 0;
          v2_total = (case hm_get (sc_locked_amounts_v2 ctx) coin of
                        None \<Rightarrow> 0
                      | Some entries \<Rightarrow> fold (add_locked_v2 coin) entries 0)
      in v1_total + v2_total)"

definition get_locked_amount_by_other_swaps :: "swaps_context \<Rightarrow> uuid \<Rightarrow> ticker \<Rightarrow> mm_number" where
  "get_locked_amount_by_other_swaps ctx except_uuid coin =
     fold (add_locked coin)
       (concat (map as_locked_amount (filter (\<lambda>s. as_uuid s \<noteq> except_uuid) (alive_swaps ctx)))) 0"

definition running_swaps_num :: "swaps_context \<Rightarrow> u64" where
  "running_swaps_num ctx =
     fold (\<lambda>s n. case s of Some _ \<Rightarrow> n + 1 | None \<Rightarrow> n) (sc_running_swaps ctx) 0"

definition active_swaps_using_coin :: "swaps_context \<Rightarrow> ticker \<Rightarrow> uuid list" where
  "active_swaps_using_coin ctx coin =
     map as_uuid (filter (\<lambda>s. as_maker_coin s = coin \<or> as_taker_coin s = coin) (alive_swaps ctx))
     @ map av_uuid (filter (\<lambda>s. av_maker_coin s = coin \<or> av_taker_coin s = coin) (sc_active_swaps_v2 ctx))"

definition active_swaps :: "swaps_context \<Rightarrow> (uuid \<times> u8) list" where
  "active_swaps ctx =
     map (\<lambda>s. (as_uuid s, 0)) (alive_swaps ctx)
     @ map (\<lambda>s. (av_uuid s, av_swap_type s)) (sc_active_swaps_v2 ctx)"

definition add_active_swap_v2 :: "active_swap_v2_info \<Rightarrow> swaps_context \<Rightarrow> swaps_context" where
  "add_active_swap_v2 info ctx = ctx\<lparr>sc_active_swaps_v2 := sc_active_swaps_v2 ctx @ [info]\<rparr>"

definition remove_active_swap_v2 :: "uuid \<Rightarrow> swaps_context \<Rightarrow> swaps_context" where
  "remove_active_swap_v2 uuid ctx =
     ctx\<lparr>sc_active_swaps_v2 := filter (\<lambda>s. av_uuid s \<noteq> uuid) (sc_active_swaps_v2 ctx)\<rparr>"

section \<open>Balance checks\<close>

datatype (plugins only: code size) check_balance_error =
    NotSufficientBalance ticker mm_number mm_number "mm_number option"
  | NotSufficientBaseCoinBalance ticker mm_number mm_number "mm_number option"
  | VolumeTooLow ticker mm_number mm_number
  | CbTransport string
  | CbInternalError string

fun not_sufficient_balance :: "check_balance_error \<Rightarrow> bool" where
  "not_sufficient_balance (NotSufficientBalance _ _ _ _) = True"
| "not_sufficient_balance (NotSufficientBaseCoinBalance _ _ _ _) = True"
| "not_sufficient_balance _ = False"

fun from_balance_error :: "balance_error \<Rightarrow> check_balance_error" where
  "from_balance_error (BeTransport t) = CbTransport t"
| "from_balance_error (BeInvalidResponse t) = CbTransport t"
| "from_balance_error (BeUnexpectedDerivationMethod e) = CbInternalError e"
| "from_balance_error (BeWalletStorageError e) = CbInternalError e"
| "from_balance_error (BeInternal e) = CbInternalError e"

fun from_trade_preimage_error :: "ticker \<Rightarrow> trade_preimage_error \<Rightarrow> check_balance_error" where
  "from_trade_preimage_error ticker (TpNotSufficientBalance coin available required) =
     (if coin = ticker then NotSufficientBalance coin available required None
      else NotSufficientBaseCoinBalance coin available required None)"
| "from_trade_preimage_error ticker (TpAmountIsTooSmall amount threshold) =
     VolumeTooLow ticker amount threshold"
| "from_trade_preimage_error ticker (TpTransport t) = CbTransport t"
| "from_trade_preimage_error ticker (TpInternalError e) = CbInternalError e"

definition from_max_taker_vol_error ::
  "max_taker_volume_less_than_dust \<Rightarrow> ticker \<Rightarrow> mm_number \<Rightarrow> check_balance_error" where
  "from_max_taker_vol_error err coin locked =
     NotSufficientBalance coin (mv_max_vol err) (mv_min_tx_amount err) (Some locked)"

definition map_err :: "('e \<Rightarrow> 'f) \<Rightarrow> 'e + 'a \<Rightarrow> 'f + 'a" where
  "map_err f r = map_sum f (\<lambda>a. a) r"

record taker_fee_additional_info =
  ti_dex_fee :: mm_number
  ti_fee_to_send_dex_fee :: trade_fee

definition locked_for :: "swaps_context \<Rightarrow> uuid option \<Rightarrow> ticker \<Rightarrow> mm_number" where
  "locked_for ctx swap_uuid ticker =
     (case swap_uuid of
        Some u \<Rightarrow> get_locked_amount_by_other_swaps ctx u ticker
      | None \<Rightarrow> get_locked_amount ctx ticker)"

definition check_base_coin_balance_for_swap ::
  "swaps_context \<Rightarrow> mm_number \<Rightarrow> trade_fee \<Rightarrow> uuid option \<Rightarrow> check_balance_error + unit" where
  "check_base_coin_balance_for_swap ctx balance fee swap_uuid =
     (let ticker = tf_coin fee; required = tf_amount fee;
          locked = locked_for ctx swap_uuid ticker; available = balance - locked
      in if available < required
         then Inl (NotSufficientBaseCoinBalance ticker available required (Some locked))
         else Inr ())"

text \<open>
  The first part of \<open>check_my_coin_balance_for_swap\<close>: the extra fee of the taker is added to the
  trade fee, and both must be paid in the same coin.
\<close>

definition merge_taker_fee ::
  "trade_fee \<Rightarrow> taker_fee_additional_info option \<Rightarrow> check_balance_error + (trade_fee \<times> mm_number)" where
  "merge_taker_fee fee taker_fee =
     (case taker_fee of
        None \<Rightarrow> Inr (fee, 0)
      | Some ti \<Rightarrow>
          if tf_coin (ti_fee_to_send_dex_fee ti) \<noteq> tf_coin fee
          then Inl (CbInternalError ''trade_fee and fee_to_send_dex_fee coins are expected to be the same'')
          else Inr (fee\<lparr>tf_amount := tf_amount fee + tf_amount (ti_fee_to_send_dex_fee ti)\<rparr>, ti_dex_fee ti))"

definition check_my_coin_balance_for_swap ::
  "swaps_context \<Rightarrow> mm_coin \<Rightarrow> uuid option \<Rightarrow> mm_number \<Rightarrow> trade_fee \<Rightarrow>
    taker_fee_additional_info option \<Rightarrow> check_balance_error + unit" where
  "check_my_coin_balance_for_swap ctx coin swap_uuid volume fee taker_fee =
     bind_res (map_err from_balance_error (coin_spendable_balance coin)) (\<lambda>balance.
       let ticker = coin_ticker coin; locked = locked_for ctx swap_uuid ticker in
       bind_res (merge_taker_fee fee taker_fee) (\<lambda>(fee, dex_fee).
         bind_res
           (if ticker = tf_coin fee then Inr (tf_amount fee)
            else bind_res (map_err from_balance_error (coin_base_balance coin)) (\<lambda>base_balance.
                   bind_res (check_base_coin_balance_for_swap ctx base_balance fee swap_uuid) (\<lambda>_. Inr 0)))
           (\<lambda>total_trade_fee.
             let required = volume + total_trade_fee + dex_fee; available = balance - locked in
             if available < required
             then Inl (NotSufficientBalance ticker available required (Some locked))
             else Inr ())))"

definition check_other_coin_balance_for_swap ::
  "swaps_context \<Rightarrow> mm_coin \<Rightarrow> uuid option \<Rightarrow> trade_fee \<Rightarrow> check_balance_error + unit" where
  "check_other_coin_balance_for_swap ctx coin swap_uuid fee =
     (if tf_paid_from_trading_vol fee then Inr ()
      else bind_res (map_err from_balance_error (coin_spendable_balance coin)) (\<lambda>balance.
        let ticker = coin_ticker coin; locked = locked_for ctx swap_uuid ticker in
        if ticker = tf_coin fee
        then (let available = balance - locked; required = tf_amount fee in
              if available < required
              then Inl (NotSufficientBalance ticker available required (Some locked))
              else Inr ())
        else bind_res (map_err from_balance_error (coin_base_balance coin)) (\<lambda>base_balance.
               check_base_coin_balance_for_swap ctx base_balance fee swap_uuid)))"

record maker_swap_prepared_params =
  mp_maker_payment_trade_fee :: trade_fee
  mp_taker_payment_spend_trade_fee :: trade_fee

definition check_balance_for_maker_swap ::
  "swaps_context \<Rightarrow> mm_coin \<Rightarrow> mm_coin \<Rightarrow> mm_number \<Rightarrow> uuid option \<Rightarrow>
    maker_swap_prepared_params option \<Rightarrow> fee_approx_stage \<Rightarrow> check_balance_error + unit" where
  "check_balance_for_maker_swap ctx my_coin other_coin volume swap_uuid prepared stage =
     bind_res
       (case prepared of
          Some p \<Rightarrow> Inr p
        | None \<Rightarrow>
            bind_res (map_err (from_trade_preimage_error (coin_ticker my_coin))
                       (coin_sender_trade_fee my_coin (Exact volume) stage)) (\<lambda>pay_fee.
            bind_res (map_err (from_trade_preimage_error (coin_ticker other_coin))
                       (coin_receiver_trade_fee other_coin stage)) (\<lambda>spend_fee.
              Inr \<lparr>mp_maker_payment_trade_fee = pay_fee, mp_taker_payment_spend_trade_fee = spend_fee\<rparr>)))
       (\<lambda>p. bind_res (check_my_coin_balance_for_swap ctx my_coin swap_uuid volume
                        (mp_maker_payment_trade_fee p) None)
              (\<lambda>_. check_other_coin_balance_for_swap ctx other_coin swap_uuid
                     (mp_taker_payment_spend_trade_fee p)))"

record taker_swap_prepared_params =
  tp_dex_fee :: mm_number
  tp_fee_to_send_dex_fee :: trade_fee
  tp_taker_payment_trade_fee :: trade_fee
  tp_maker_payment_spend_trade_fee :: trade_fee

definition taker_swap_params ::
  "net_config \<Rightarrow> mm_coin \<Rightarrow> mm_coin \<Rightarrow> mm_number \<Rightarrow> fee_approx_stage \<Rightarrow>
    check_balance_error + taker_swap_prepared_params" where
  "taker_swap_params cfg my_coin other_coin volume stage =
     (let dex_fee = dex_fee_amount_from_taker_coin cfg my_coin (coin_ticker other_coin) volume in
      bind_res (map_err (from_trade_preimage_error (coin_ticker my_coin))
                 (coin_fee_to_send_taker_fee my_coin dex_fee stage)) (\<lambda>send_fee.
      bind_res (map_err (from_trade_preimage_error (coin_ticker my_coin))
                 (coin_sender_trade_fee my_coin (Exact volume) stage)) (\<lambda>pay_fee.
      bind_res (map_err (from_trade_preimage_error (coin_ticker other_coin))
                 (coin_receiver_trade_fee other_coin stage)) (\<lambda>spend_fee.
        Inr \<lparr>tp_dex_fee = dex_fee, tp_fee_to_send_dex_fee = send_fee,
             tp_taker_payment_trade_fee = pay_fee, tp_maker_payment_spend_trade_fee = spend_fee\<rparr>))))"

definition check_balance_for_taker_swap ::
  "net_config \<Rightarrow> swaps_context \<Rightarrow> mm_coin \<Rightarrow> mm_coin \<Rightarrow> mm_number \<Rightarrow> uuid option \<Rightarrow>
    taker_swap_prepared_params option \<Rightarrow> fee_approx_stage \<Rightarrow> check_balance_error + unit" where
  "check_balance_for_taker_swap cfg ctx my_coin other_coin volume swap_uuid prepared stage =
     bind_res
       (case prepared of
          Some p \<Rightarrow> Inr p
        | None \<Rightarrow> taker_swap_params cfg my_coin other_coin volume stage)
       (\<lambda>p. bind_res
          (check_my_coin_balance_for_swap ctx my_coin swap_uuid volume (tp_taker_payment_trade_fee p)
             (Some \<lparr>ti_dex_fee = tp_dex_fee p, ti_fee_to_send_dex_fee = tp_fee_to_send_dex_fee p\<rparr>))
          (\<lambda>_. if \<not> tf_paid_from_trading_vol (tp_maker_payment_spend_trade_fee p)
               then check_other_coin_balance_for_swap ctx other_coin swap_uuid
                      (tp_maker_payment_spend_trade_fee p)
               else Inr ()))"

section \<open>Volume limits\<close>

record coin_volume_info =
  cv_volume :: mm_number
  cv_balance :: mm_number
  cv_locked_by_swaps :: mm_number

definition calc_max_maker_vol ::
  "swaps_context \<Rightarrow> mm_coin \<Rightarrow> mm_number \<Rightarrow> fee_approx_stage \<Rightarrow> check_balance_error + coin_volume_info" where
  "calc_max_maker_vol ctx coin balance stage =
     (let ticker = coin_ticker coin;
          locked = get_locked_amount ctx ticker;
          available = balance - locked
      in bind_res (map_err (from_trade_preimage_error ticker)
                    (coin_sender_trade_fee coin (UpperBound available) stage)) (\<lambda>fee.
         bind_res
           (if tf_coin fee = ticker then Inr (available - tf_amount fee, tf_amount fee)
            else bind_res (map_err from_balance_error (coin_base_balance coin)) (\<lambda>base_balance.
                   bind_res (check_base_coin_balance_for_swap ctx base_balance fee None)
                     (\<lambda>_. Inr (available, 0))))
           (\<lambda>(vol, required_to_pay_fee).
             if vol < coin_min_tx_amount coin
             then Inl (NotSufficientBalance ticker available
                         (coin_min_tx_amount coin + required_to_pay_fee) (Some locked))
             else Inr \<lparr>cv_volume = vol, cv_balance = balance, cv_locked_by_swaps = locked\<rparr>)))"

definition get_max_maker_vol :: "swaps_context \<Rightarrow> mm_coin \<Rightarrow> check_balance_error + coin_volume_info" where
  "get_max_maker_vol ctx coin =
     bind_res (map_err from_balance_error (coin_spendable_balance coin))
       (\<lambda>balance. calc_max_maker_vol ctx coin balance OrderIssue)"

definition calc_max_taker_vol ::
  "net_config \<Rightarrow> swaps_context \<Rightarrow> mm_coin \<Rightarrow> ticker \<Rightarrow> fee_approx_stage \<Rightarrow> check_balance_error + mm_number" where
  "calc_max_taker_vol cfg ctx coin other_coin stage =
     bind_res (map_err from_balance_error (coin_spendable_balance coin)) (\<lambda>balance.
       let my_coin = coin_ticker coin;
           locked = get_locked_amount ctx my_coin;
           min_tx_amount = coin_min_tx_amount coin;
           max_possible = balance - locked
       in bind_res (map_err (from_trade_preimage_error my_coin)
                     (coin_sender_trade_fee coin (UpperBound max_possible) stage)) (\<lambda>max_trade_fee.
          if my_coin = tf_coin max_trade_fee
          then (let max_possible_2 = max_possible - tf_amount max_trade_fee;
                    max_dex_fee = dex_fee_amount_from_taker_coin cfg coin other_coin max_possible_2
                in bind_res (map_err (from_trade_preimage_error my_coin)
                              (coin_fee_to_send_taker_fee coin max_dex_fee stage)) (\<lambda>send_fee.
                   map_err (\<lambda>e. from_max_taker_vol_error e my_coin locked)
                     (max_taker_vol_from_available cfg (max_possible_2 - tf_amount send_fee)
                        my_coin other_coin min_tx_amount)))
          else map_err (\<lambda>e. from_max_taker_vol_error e my_coin locked)
                 (max_taker_vol_from_available cfg max_possible my_coin other_coin min_tx_amount)))"

section \<open>Properties\<close>

subsection \<open>Sums of locked amounts\<close>

definition locked_contrib :: "ticker \<Rightarrow> locked_amount \<Rightarrow> mm_number" where
  "locked_contrib coin locked = add_locked coin locked 0"

lemma add_locked_contrib: "add_locked coin locked acc = acc + locked_contrib coin locked"
  by (auto simp: locked_contrib_def add_locked_def Let_def split: option.splits)

lemma fold_add_locked: "fold (add_locked coin) ls acc = acc + (\<Sum>l\<leftarrow>ls. locked_contrib coin l)"
  by (induction ls arbitrary: acc) (simp_all add: add_locked_contrib add.assoc)

definition register_swap :: "atomic_swap \<Rightarrow> swaps_context \<Rightarrow> swaps_context" where
  "register_swap s ctx = ctx\<lparr>sc_running_swaps := sc_running_swaps ctx @ [Some s]\<rparr>"

lemma get_locked_register:
  "get_locked_amount (register_swap s ctx) coin =
    get_locked_amount ctx coin + (\<Sum>l\<leftarrow>as_locked_amount s. locked_contrib coin l)"
  by (simp add: get_locked_amount_def register_swap_def alive_swaps_def fold_add_locked
      map_filter_def Let_def)

text \<open>A swap that is alone under its identifier locks exactly what the others do not.\<close>

lemma get_locked_split:
  assumes "sc_locked_amounts_v2 ctx = []"
  shows "get_locked_amount ctx coin =
    get_locked_amount_by_other_swaps ctx u coin
    + (\<Sum>l\<leftarrow>concat (map as_locked_amount (filter (\<lambda>s. as_uuid s = u) (alive_swaps ctx))). locked_contrib coin l)"
proof -
  have "(\<Sum>l\<leftarrow>concat (map as_locked_amount ss). locked_contrib coin l) =
      (\<Sum>l\<leftarrow>concat (map as_locked_amount (filter (\<lambda>s. as_uuid s \<noteq> u) ss)). locked_contrib coin l)
      + (\<Sum>l\<leftarrow>concat (map as_locked_amount (filter (\<lambda>s. as_uuid s = u) ss)). locked_contrib coin l)" for ss
    by (induction ss) auto
  then show ?thesis
    by (simp add: get_locked_amount_def get_locked_amount_by_other_swaps_def fold_add_locked
        Let_def assms hm_simps)
qed

subsection \<open>The largest taker volume passes the check\<close>

lemma map_err_Inr_iff: "map_err f r = Inr a \<longleftrightarrow> r = Inr a"
  by (cases r) (simp_all add: map_err_def)

lemma map_err_simps [simp]: "map_err f (Inr a) = Inr a" "map_err f (Inl e) = Inl (f e)"
  by (simp_all add: map_err_def)

text \<open>
  What the documentation of \<open>calc_max_taker_vol\<close> relies on: the fee for the upper bound is the
  largest one, and the fee for sending the taker fee does not shrink with the amount sent; both
  are paid in one coin.
\<close>

definition fees_bounded :: "mm_coin \<Rightarrow> fee_approx_stage \<Rightarrow> bool" where
  "fees_bounded coin stage \<longleftrightarrow>
     (\<forall>v w b. v \<le> w \<longrightarrow> coin_sender_trade_fee coin (UpperBound w) stage = Inr b \<longrightarrow>
        (\<exists>a. coin_sender_trade_fee coin (Exact v) stage = Inr a \<and> tf_coin a = tf_coin b \<and> tf_amount a \<le> tf_amount b))
     \<and> (\<forall>v w b. v \<le> w \<longrightarrow> coin_fee_to_send_taker_fee coin w stage = Inr b \<longrightarrow>
        (\<exists>a. coin_fee_to_send_taker_fee coin v stage = Inr a \<and> tf_coin a = tf_coin b \<and> tf_amount a \<le> tf_amount b))
     \<and> (\<forall>v w a b. coin_sender_trade_fee coin v stage = Inr a \<longrightarrow>
          coin_fee_to_send_taker_fee coin w stage = Inr b \<longrightarrow> tf_coin a = tf_coin b \<and> 0 \<le> tf_amount a \<and> 0 \<le> tf_amount b)"

lemma fees_boundedD:
  assumes "fees_bounded coin stage"
  shows "v \<le> w \<Longrightarrow> coin_sender_trade_fee coin (UpperBound w) stage = Inr b \<Longrightarrow>
      \<exists>a. coin_sender_trade_fee coin (Exact v) stage = Inr a \<and> tf_coin a = tf_coin b \<and> tf_amount a \<le> tf_amount b"
    and "v \<le> w \<Longrightarrow> coin_fee_to_send_taker_fee coin w stage = Inr b \<Longrightarrow>
      \<exists>a. coin_fee_to_send_taker_fee coin v stage = Inr a \<and> tf_coin a = tf_coin b \<and> tf_amount a \<le> tf_amount b"
    and "coin_sender_trade_fee coin x stage = Inr a \<Longrightarrow> coin_fee_to_send_taker_fee coin w stage = Inr b \<Longrightarrow>
      tf_coin a = tf_coin b \<and> 0 \<le> tf_amount a \<and> 0 \<le> tf_amount b"
  using assms unfolding fees_bounded_def by blast+

definition fees_in_own_coin :: "mm_coin \<Rightarrow> fee_approx_stage \<Rightarrow> bool" where
  "fees_in_own_coin coin stage \<longleftrightarrow>
     (\<forall>x f. coin_sender_trade_fee coin x stage = Inr f \<longrightarrow> tf_coin f = coin_ticker coin)"

lemma dex_fee_amount_from_taker_coin_mono:
  "net_config_for n = Some cfg \<Longrightarrow> v \<le> w \<Longrightarrow>
    dex_fee_amount_from_taker_coin cfg coin rel v \<le> dex_fee_amount_from_taker_coin cfg coin rel w"
  by (simp add: dex_fee_amount_from_taker_coin_def Let_def dex_fee_amount_mono)

lemma dex_fee_amount_from_taker_coin_pos:
  assumes "net_config_for n = Some cfg"
  shows "0 < dex_fee_amount_from_taker_coin cfg coin rel v"
  using net_config_for_sane(3)[OF assms] dex_fee_threshold_bounds(1)[of cfg "coin_min_tx_amount coin"]
  by (auto simp: dex_fee_amount_from_taker_coin_def Let_def dex_fee_amount_max less_max_iff_disj)

text \<open>What a successful \<open>calc_max_taker_vol\<close> has computed when the fees are paid in the coin itself.\<close>

lemma calc_max_taker_volD:
  assumes "calc_max_taker_vol cfg ctx coin rel stage = Inr v" "fees_in_own_coin coin stage"
  obtains balance pay send where
    "coin_spendable_balance coin = Inr balance"
    "coin_sender_trade_fee coin (UpperBound (balance - get_locked_amount ctx (coin_ticker coin))) stage = Inr pay"
    "coin_fee_to_send_taker_fee coin
       (dex_fee_amount_from_taker_coin cfg coin rel
          (balance - get_locked_amount ctx (coin_ticker coin) - tf_amount pay)) stage = Inr send"
    "max_taker_vol_from_available cfg
       (balance - get_locked_amount ctx (coin_ticker coin) - tf_amount pay - tf_amount send)
       (coin_ticker coin) rel (coin_min_tx_amount coin) = Inr v"
proof -
  let ?t = "coin_ticker coin"
  from assms(1) obtain balance pay where bal: "coin_spendable_balance coin = Inr balance"
    and pay: "coin_sender_trade_fee coin (UpperBound (balance - get_locked_amount ctx ?t)) stage = Inr pay"
    by (auto simp: calc_max_taker_vol_def Let_def bind_res_Inr_iff map_err_Inr_iff)
  have "tf_coin pay = ?t"
    using assms(2) pay by (simp add: fees_in_own_coin_def)
  with assms(1) bal pay that show ?thesis
    by (auto simp: calc_max_taker_vol_def Let_def bind_res_Inr_iff map_err_Inr_iff)
qed

text \<open>
  A volume computed by \<open>calc_max_taker_vol\<close> passes the balance check that precedes the swap:
  if the fee queries behave as the function's documentation assumes and are paid in the coin
  itself, the taker can spend that volume, the exchange fee on it, the fee of the payment and the
  fee for sending the exchange fee, on top of everything locked by the running swaps.
\<close>

theorem max_taker_vol_passes_check:
  assumes cfg: "net_config_for n = Some cfg" and bounded: "fees_bounded coin stage"
    and own: "fees_in_own_coin coin stage"
    and recv: "coin_receiver_trade_fee other stage = Inr recv" "tf_paid_from_trading_vol recv"
    and vol: "calc_max_taker_vol cfg ctx coin (coin_ticker other) stage = Inr v"
  shows "check_balance_for_taker_swap cfg ctx coin other v None None stage = Inr ()"
proof -
  let ?dex = "dex_fee_amount_from_taker_coin cfg coin (coin_ticker other)"
  from vol own obtain balance pay send where
    bal: "coin_spendable_balance coin = Inr balance" and
    pay: "coin_sender_trade_fee coin (UpperBound (balance - get_locked_amount ctx (coin_ticker coin))) stage = Inr pay" and
    send: "coin_fee_to_send_taker_fee coin
      (?dex (balance - get_locked_amount ctx (coin_ticker coin) - tf_amount pay)) stage = Inr send" and
    mv: "max_taker_vol_from_available cfg
      (balance - get_locked_amount ctx (coin_ticker coin) - tf_amount pay - tf_amount send)
      (coin_ticker coin) (coin_ticker other) (coin_min_tx_amount coin) = Inr v"
    by (rule calc_max_taker_volD) blast
  let ?avail = "balance - get_locked_amount ctx (coin_ticker coin)"
  have eq: "v + ?dex v = ?avail - tf_amount pay - tf_amount send"
    using max_taker_vol_equation[OF cfg mv] by (simp add: dex_fee_amount_from_taker_coin_def Let_def)
  have nonneg: "0 \<le> tf_amount pay" "0 \<le> tf_amount send" "tf_coin send = tf_coin pay"
    using fees_boundedD(3)[OF bounded pay send] by simp_all
  have "v \<le> ?avail - tf_amount pay" "v \<le> ?avail"
    using eq nonneg dex_fee_amount_from_taker_coin_pos[OF cfg, of coin "coin_ticker other" v] by linarith+
  then have "?dex v \<le> ?dex (?avail - tf_amount pay)"
    using dex_fee_amount_from_taker_coin_mono[OF cfg] by blast
  obtain pay' where pay': "coin_sender_trade_fee coin (Exact v) stage = Inr pay'"
      "tf_coin pay' = tf_coin pay" "tf_amount pay' \<le> tf_amount pay"
    using fees_boundedD(1)[OF bounded \<open>v \<le> ?avail\<close> pay] by blast
  obtain send' where send': "coin_fee_to_send_taker_fee coin (?dex v) stage = Inr send'"
      "tf_coin send' = tf_coin send" "tf_amount send' \<le> tf_amount send"
    using fees_boundedD(2)[OF bounded \<open>?dex v \<le> ?dex (?avail - tf_amount pay)\<close> send] by blast
  have tick: "tf_coin pay' = coin_ticker coin"
    using own pay'(1) by (simp add: fees_in_own_coin_def)
  have "v + (tf_amount pay' + tf_amount send') + ?dex v \<le> ?avail"
    using eq pay'(3) send'(3) by linarith
  then show ?thesis
    using bal pay' send' nonneg tick recv
    by (simp add: check_balance_for_taker_swap_def taker_swap_params_def Let_def
        check_my_coin_balance_for_swap_def merge_taker_fee_def locked_for_def)
qed

definition no_swaps :: swaps_context where
  "no_swaps = \<lparr>sc_running_swaps = [], sc_active_swaps_v2 = [], sc_locked_amounts_v2 = []\<rparr>"

lemma flat_fee_coin_bounded:
  "0 \<le> fee \<Longrightarrow> fees_bounded (flat_fee_coin t b fee) stage"
  "fees_in_own_coin (flat_fee_coin t b fee) stage"
  by (simp_all add: fees_bounded_def fees_in_own_coin_def flat_fee_coin_def Let_def)

theorem max_taker_vol_passes_check_witness:
  "calc_max_taker_vol netid_8762 no_swaps (flat_fee_coin ''LTC'' 100 (1 / 100)) ''DOGE'' StartSwap
     = Inr (3884223 / 38900)
   \<and> check_balance_for_taker_swap netid_8762 no_swaps (flat_fee_coin ''LTC'' 100 (1 / 100))
       (flat_fee_coin ''DOGE'' 0 1) (3884223 / 38900) None None StartSwap = Inr ()"
proof -
  let ?c = "flat_fee_coin ''LTC'' 100 (1 / 100)" and ?o = "flat_fee_coin ''DOGE'' 0 1"
  have v: "calc_max_taker_vol netid_8762 no_swaps ?c ''DOGE'' StartSwap = Inr (3884223 / 38900)"
    by (simp add: calc_max_taker_vol_def flat_fee_coin_def Let_def get_locked_amount_def no_swaps_def
        alive_swaps_def map_filter_def hm_simps dex_fee_amount_from_taker_coin_def dex_fee_amount_def
        dex_fee_threshold_def dex_fee_rate_def netid_8762_def max_taker_vol_from_available_def)
  have "coin_receiver_trade_fee ?o StartSwap =
      Inr \<lparr>tf_coin = ''DOGE'', tf_amount = 1, tf_paid_from_trading_vol = True\<rparr>" "coin_ticker ?o = ''DOGE''"
    by (simp_all add: flat_fee_coin_def Let_def)
  then show ?thesis
    using max_taker_vol_passes_check[of 8762 netid_8762 ?c StartSwap ?o _ no_swaps] v flat_fee_coin_bounded
    by (simp add: net_config_for_def)
qed

text \<open>
  The check of a swap that is already running looks only at the other running swaps of the first
  protocol version: what swaps of the second version have locked does not enter.
\<close>

lemma check_running_swap_ignores_v2:
  "check_my_coin_balance_for_swap (ctx\<lparr>sc_locked_amounts_v2 := v2\<rparr>) coin (Some u) volume fee taker_fee =
   check_my_coin_balance_for_swap ctx coin (Some u) volume fee taker_fee"
proof -
  have locked: "locked_for (ctx\<lparr>sc_locked_amounts_v2 := v2\<rparr>) (Some u) t = locked_for ctx (Some u) t" for t
    by (simp add: locked_for_def get_locked_amount_by_other_swaps_def alive_swaps_def)
  then have "check_base_coin_balance_for_swap (ctx\<lparr>sc_locked_amounts_v2 := v2\<rparr>) b f (Some u) =
      check_base_coin_balance_for_swap ctx b f (Some u)" for b f
    by (simp add: check_base_coin_balance_for_swap_def)
  with locked show ?thesis
    by (simp add: check_my_coin_balance_for_swap_def cong: if_cong)
qed

text \<open>
  The volume that \<open>calc_max_maker_vol\<close> reports passes the maker's own check: with the fee of the
  payment, and in its own coin on top of everything locked, it fits into the balance.
\<close>

theorem max_maker_vol_passes_check:
  assumes bounded: "fees_bounded coin stage" and own: "fees_in_own_coin coin stage"
    and bal: "coin_spendable_balance coin = Inr balance"
    and vol: "calc_max_maker_vol ctx coin balance stage = Inr info"
    and nonneg: "\<And>x f. coin_sender_trade_fee coin x stage = Inr f \<Longrightarrow> 0 \<le> tf_amount f"
    and pay: "coin_sender_trade_fee coin (Exact (cv_volume info)) stage = Inr pay"
  shows "check_my_coin_balance_for_swap ctx coin None (cv_volume info) pay None = Inr ()
    \<and> coin_min_tx_amount coin \<le> cv_volume info"
proof -
  let ?avail = "balance - get_locked_amount ctx (coin_ticker coin)"
  from vol obtain fee where fee: "coin_sender_trade_fee coin (UpperBound ?avail) stage = Inr fee"
    by (auto simp: calc_max_maker_vol_def Let_def bind_res_Inr_iff map_err_Inr_iff)
  moreover have tick: "tf_coin fee = coin_ticker coin" "tf_coin pay = coin_ticker coin"
    using own fee pay by (simp_all add: fees_in_own_coin_def)
  ultimately have info: "cv_volume info = ?avail - tf_amount fee" "coin_min_tx_amount coin \<le> cv_volume info"
    using vol by (auto simp: calc_max_maker_vol_def Let_def split: if_splits)
  have "tf_amount pay \<le> tf_amount fee"
    using fees_boundedD(1)[OF bounded _ fee, of "cv_volume info"] info(1) nonneg[OF fee] pay by auto
  then show ?thesis
    using info bal tick
    by (simp add: check_my_coin_balance_for_swap_def merge_taker_fee_def locked_for_def Let_def)
qed

theorem max_maker_vol_passes_check_witness:
  "check_my_coin_balance_for_swap no_swaps (flat_fee_coin ''LTC'' 100 (1 / 100)) None (9999 / 100)
     \<lparr>tf_coin = ''LTC'', tf_amount = 1 / 100, tf_paid_from_trading_vol = False\<rparr> None = Inr ()"
proof -
  let ?c = "flat_fee_coin ''LTC'' 100 (1 / 100)"
  let ?i = "\<lparr>cv_volume = 9999 / 100, cv_balance = 100, cv_locked_by_swaps = 0\<rparr>"
  have vol: "calc_max_maker_vol no_swaps ?c 100 OrderIssue = Inr ?i"
    by (simp add: calc_max_maker_vol_def flat_fee_coin_def Let_def get_locked_amount_def no_swaps_def
        alive_swaps_def map_filter_def hm_simps)
  have bal: "coin_spendable_balance ?c = Inr 100"
    and fee: "\<And>x. coin_sender_trade_fee ?c x OrderIssue =
      Inr \<lparr>tf_coin = ''LTC'', tf_amount = 1 / 100, tf_paid_from_trading_vol = False\<rparr>"
    by (simp_all add: flat_fee_coin_def Let_def)
  show ?thesis
    using max_maker_vol_passes_check[OF flat_fee_coin_bounded(1) flat_fee_coin_bounded(2) bal vol] fee
    by simp
qed

end
