(* ===== verification/OrderTrading.thy ===== *)
theory OrderTrading
  imports Orders SwapFunds
begin

text \<open>
  The matching engine of a node (\<open>ordermatch_trading.rs\<close> and \<open>MakerOrdersContext\<close> of
  \<open>lp_ordermatch.rs\<close>): the store of own maker and taker orders, the handlers of the four
  handshake messages, the periodic clean-up of timed out matches and orders, balance updates,
  cancellation and updates of orders.

  A handler maps the context to the new context and the list of its effects in order: messages
  broadcast, swaps started, orders reported as cancelled, files deleted. \<open>None\<close> is a panic. Each
  handler is one atomic step, as it holds the lock of the order it changes;
  \<open>process_maker_reserved\<close> sleeps between its two halves and is therefore two steps. Coins are
  looked up by the argument \<open>find_pair\<close>; the clock and our public key are arguments. The expiry
  of the third-party \<open>TimedMap\<close> appears as the list of identifiers its
  \<open>drop_expired_entries\<close> returns.
\<close>

section \<open>The store of maker orders\<close>

record maker_orders_context =
  mc_orders :: "(uuid, maker_order) hash_map"
  mc_order_tickers :: "(uuid, ticker) hash_map"
  mc_count_by_tickers :: "(ticker, nat) hash_map"

definition maker_orders_new :: maker_orders_context where
  "maker_orders_new = \<lparr>mc_orders = [], mc_order_tickers = [], mc_count_by_tickers = []\<rparr>"

definition add_order :: "maker_order \<Rightarrow> maker_orders_context \<Rightarrow> maker_orders_context" where
  "add_order order c = c\<lparr>
     mc_orders := hm_insert (mo_uuid order) order (mc_orders c),
     mc_order_tickers := hm_insert (mo_uuid order) (mo_base order) (mc_order_tickers c),
     mc_count_by_tickers := hm_entry (mo_base order) 0 (\<lambda>n. n + 1) (mc_count_by_tickers c)\<rparr>"

text \<open>The bookkeeping that \<open>remove_order\<close> and \<open>drop_expired\<close> share; \<open>saturating_sub\<close> is \<open>-\<close> on \<open>nat\<close>.\<close>

definition forget_ticker :: "uuid \<Rightarrow> maker_orders_context \<Rightarrow> maker_orders_context" where
  "forget_ticker uuid c =
     (case hm_get (mc_order_tickers c) uuid of
        None \<Rightarrow> c
      | Some ticker \<Rightarrow>
          (let c = c\<lparr>mc_order_tickers := hm_remove uuid (mc_order_tickers c)\<rparr> in
           case hm_get (mc_count_by_tickers c) ticker of
             None \<Rightarrow> c
           | Some count \<Rightarrow>
               c\<lparr>mc_count_by_tickers := hm_insert ticker (count - 1) (mc_count_by_tickers c)\<rparr>))"

definition remove_order :: "uuid \<Rightarrow> maker_orders_context \<Rightarrow> maker_order option \<times> maker_orders_context" where
  "remove_order uuid c =
     (case hm_get (mc_orders c) uuid of
        None \<Rightarrow> (None, c)
      | Some order \<Rightarrow>
          (Some order, forget_ticker uuid (c\<lparr>mc_orders := hm_remove uuid (mc_orders c)\<rparr>)))"

definition get_order :: "maker_orders_context \<Rightarrow> uuid \<Rightarrow> maker_order option" where
  "get_order c uuid = hm_get (mc_orders c) uuid"

definition coin_has_active_maker_orders :: "maker_orders_context \<Rightarrow> ticker \<Rightarrow> bool" where
  "coin_has_active_maker_orders c ticker =
     (case hm_get (mc_count_by_tickers c) ticker of Some n \<Rightarrow> 0 < n | None \<Rightarrow> False)"

definition drop_expired :: "uuid list \<Rightarrow> maker_orders_context \<Rightarrow> (uuid \<times> maker_order) list \<times> maker_orders_context" where
  "drop_expired expired_uuids c =
     (let expired = filter (\<lambda>(u, _). u \<in> set expired_uuids) (mc_orders c);
          c' = c\<lparr>mc_orders := filter (\<lambda>(u, _). u \<notin> set expired_uuids) (mc_orders c)\<rparr>
      in (expired, fold (\<lambda>(u, _) c. forget_ticker u c) expired c'))"

text \<open>Writing back an order that a handler has changed under its lock.\<close>

definition put_order :: "uuid \<Rightarrow> maker_order \<Rightarrow> maker_orders_context \<Rightarrow> maker_orders_context" where
  "put_order uuid order c = c\<lparr>mc_orders := hm_insert uuid order (mc_orders c)\<rparr>"

section \<open>Context, environment and effects\<close>

record ordermatch_context =
  om_maker :: maker_orders_context
  om_taker_orders :: "(uuid, taker_order) hash_map"
  om_pending_maker_reserved :: "(uuid, maker_reserved list) hash_map"

record om_env =
  oe_now_ms :: u64
  oe_our_public_id :: h256
  oe_find_pair :: "ticker \<Rightarrow> ticker \<Rightarrow> (mm_coin \<times> mm_coin) option"

datatype (plugins only: code size) maker_cancellation_reason = MakerFulfilled | MakerInsufficientBalance | MakerCancelled | MakerExpired

datatype (plugins only: code size) taker_cancellation_reason = TakerFulfilled | TakerToMaker | TakerTimedOut | TakerCancelled

datatype (plugins only: code size) om_action =
    BroadcastRequest np_taker_request
  | BroadcastReserved maker_reserved
  | BroadcastConnect taker_connect
  | BroadcastConnected maker_connected
  | StartMakerSwap maker_match maker_order
  | StartTakerSwap taker_order taker_match
  | NotifyCreated maker_order
  | NotifyUpdated maker_order_updated
  | NotifyCancelled maker_order
  | DeleteMakerOrder maker_order maker_cancellation_reason
  | DeleteTakerOrder taker_order taker_cancellation_reason

type_synonym om_result = "(ordermatch_context \<times> om_action list) option"

definition order_match_timeout :: u64 where
  "order_match_timeout = 30"

section \<open>The maker's side of the handshake\<close>

definition make_reserved ::
  "om_env \<Rightarrow> mm_coin \<Rightarrow> mm_coin \<Rightarrow> uuid \<Rightarrow> maker_order \<Rightarrow> taker_request \<Rightarrow> mm_number \<Rightarrow> mm_number \<Rightarrow>
    maker_reserved" where
  "make_reserved env base_coin rel_coin uuid order request base_amount rel_amount = \<lparr>
     mr_base = mo_base_ticker order, mr_rel = mo_rel_ticker order,
     mr_base_amount = base_amount, mr_rel_amount = rel_amount,
     mr_taker_order_uuid = tr_uuid request, mr_maker_order_uuid = uuid,
     mr_sender_pubkey = oe_our_public_id env, mr_dest_pub_key = tr_sender_pubkey request,
     mr_conf_settings =
       (case mo_conf_settings order of
          Some s \<Rightarrow> Some s
        | None \<Rightarrow> Some \<lparr>
            oc_base_confs = coin_required_confirmations base_coin,
            oc_base_nota = coin_requires_notarization base_coin,
            oc_rel_confs = coin_required_confirmations rel_coin,
            oc_rel_nota = coin_requires_notarization rel_coin\<rparr>),
     mr_base_protocol_info = Some (coin_protocol_info base_coin),
     mr_rel_protocol_info = Some (coin_protocol_info rel_coin),
     mr_swap_version = mo_swap_version order\<rparr>"

text \<open>
  The loop over the orders the request may match: the first order that matches decides, whether
  or not a reservation is sent.
\<close>

fun taker_request_loop ::
  "om_env \<Rightarrow> taker_request \<Rightarrow> (uuid \<times> maker_order) list \<Rightarrow> ordermatch_context \<Rightarrow> om_result" where
  "taker_request_loop env request [] ctx = Some (ctx, [])"
| "taker_request_loop env request ((uuid, order) # orders) ctx =
     (case match_with_request order request of
        None \<Rightarrow> None
      | Some NotMatched \<Rightarrow> taker_request_loop env request orders ctx
      | Some (Matched base_amount rel_amount) \<Rightarrow>
          (case oe_find_pair env (mo_base order) (mo_rel order) of
             None \<Rightarrow> Some (ctx, [])
           | Some (base_coin, rel_coin) \<Rightarrow>
               if hm_get (mo_matches order) (tr_uuid request) = None
                  \<and> coin_protocol_supported base_coin (base_protocol_info_for_maker request)
                  \<and> coin_protocol_supported rel_coin (rel_protocol_info_for_maker request)
               then
                 let reserved = make_reserved env base_coin rel_coin uuid order request base_amount rel_amount;
                     order_match = \<lparr>mm_request = request, mm_reserved = reserved, mm_connect = None,
                                   mm_connected = None, mm_last_updated = oe_now_ms env\<rparr>;
                     order' = order\<lparr>mo_matches := hm_insert (tr_uuid request) order_match (mo_matches order)\<rparr>
                 in Some (ctx\<lparr>om_maker := put_order uuid order' (om_maker ctx)\<rparr>, [BroadcastReserved reserved])
               else Some (ctx, [])))"

definition process_taker_request ::
  "om_env \<Rightarrow> h256 \<Rightarrow> taker_request \<Rightarrow> ordermatch_context \<Rightarrow> om_result" where
  "process_taker_request env from_pubkey request ctx =
     (if oe_our_public_id env = from_pubkey then Some (ctx, [])
      else if \<not> can_match_with_maker_pubkey request (oe_our_public_id env) then Some (ctx, [])
      else taker_request_loop env request
             (filter (\<lambda>(uuid, _). can_match_with_uuid request uuid) (mc_orders (om_maker ctx))) ctx)"

definition process_taker_connect ::
  "om_env \<Rightarrow> h256 \<Rightarrow> taker_connect \<Rightarrow> ordermatch_context \<Rightarrow> om_result" where
  "process_taker_connect env sender msg ctx =
     (if oe_our_public_id env = sender then Some (ctx, [])
      else
        case get_order (om_maker ctx) (tcn_maker_order_uuid msg) of
          None \<Rightarrow> Some (ctx, [])
        | Some my_order \<Rightarrow>
            (case hm_get (mo_matches my_order) (tcn_taker_order_uuid msg) of
               None \<Rightarrow> Some (ctx, [])
             | Some order_match \<Rightarrow>
                 if tr_sender_pubkey (mm_request order_match) \<noteq> sender then Some (ctx, [])
                 else if mm_connected order_match = None \<and> mm_connect order_match = None
                 then
                   let connected = \<lparr>
                         mcd_taker_order_uuid = tcn_taker_order_uuid msg,
                         mcd_maker_order_uuid = tcn_maker_order_uuid msg,
                         mcd_method = ''connected'', mcd_sender_pubkey = oe_our_public_id env,
                         mcd_dest_pub_key = tcn_sender_pubkey msg\<rparr>;
                       order_match' = order_match\<lparr>mm_connect := Some msg, mm_connected := Some connected\<rparr>;
                       my_order' = my_order\<lparr>
                         mo_matches := hm_insert (tcn_taker_order_uuid msg) order_match' (mo_matches my_order),
                         mo_started_swaps := mo_started_swaps my_order @ [tr_uuid (mm_request order_match')]\<rparr>;
                       updates =
                         (if mo_min_base_vol my_order' \<le> available_amount my_order'
                          then [NotifyUpdated (with_new_max_volume (available_amount my_order')
                                  (updated_new (mo_uuid my_order') (oe_now_ms env)))]
                          else [])
                   in Some (ctx\<lparr>om_maker := put_order (tcn_maker_order_uuid msg) my_order' (om_maker ctx)\<rparr>,
                            [StartMakerSwap order_match' my_order', BroadcastConnected connected] @ updates)
                 else Some (ctx, [])))"

section \<open>The taker's side of the handshake\<close>

text \<open>
  The part of \<open>process_maker_reserved\<close> before the sleep. The boolean tells whether this handler
  is the one that will process the pending messages.
\<close>

definition process_maker_reserved_recv ::
  "om_env \<Rightarrow> h256 \<Rightarrow> maker_reserved \<Rightarrow> ordermatch_context \<Rightarrow> ordermatch_context \<times> bool" where
  "process_maker_reserved_recv env from_pubkey msg ctx =
     (if hm_get (om_taker_orders ctx) (mr_taker_order_uuid msg) = None then (ctx, False)
      else if oe_our_public_id env = from_pubkey then (ctx, False)
      else
        let pending = hm_entry (mr_taker_order_uuid msg) [] (\<lambda>ms. ms @ [msg]) (om_pending_maker_reserved ctx)
        in (ctx\<lparr>om_pending_maker_reserved := pending\<rparr>,
            length (hm_members pending (mr_taker_order_uuid msg)) \<le> 1))"

text \<open>
  Sorting by price: for fewer than two messages no key is computed, otherwise each price is, and
  a message with base amount zero makes the division panic. The order of equal prices is
  unspecified in the code; here it is that of arrival.
\<close>

definition sort_by_price :: "maker_reserved list \<Rightarrow> maker_reserved list option" where
  "sort_by_price msgs =
     (if 2 \<le> length msgs \<and> (\<exists>r \<in> set msgs. reserved_price r = None) then None
      else Some (sort_key (\<lambda>r. mr_rel_amount r / mr_base_amount r) msgs))"

definition reserved_acceptable :: "taker_order \<Rightarrow> mm_coin \<Rightarrow> mm_coin \<Rightarrow> maker_reserved \<Rightarrow> bool" where
  "reserved_acceptable my_order base_coin rel_coin msg =
     (match_reserved my_order msg = ReservedMatched \<and> to_matches my_order = []
      \<and> coin_protocol_supported base_coin (mr_base_protocol_info msg)
      \<and> coin_protocol_supported rel_coin (mr_rel_protocol_info msg))"

definition connect_to :: "om_env \<Rightarrow> maker_reserved \<Rightarrow> taker_connect" where
  "connect_to env msg = \<lparr>
     tcn_taker_order_uuid = mr_taker_order_uuid msg, tcn_maker_order_uuid = mr_maker_order_uuid msg,
     tcn_sender_pubkey = oe_our_public_id env, tcn_dest_pub_key = mr_sender_pubkey msg\<rparr>"

definition process_maker_reserved_fire :: "om_env \<Rightarrow> uuid \<Rightarrow> ordermatch_context \<Rightarrow> om_result" where
  "process_maker_reserved_fire env uuid ctx =
     (case hm_get (om_taker_orders ctx) uuid of
        None \<Rightarrow> Some (ctx, [])
      | Some my_order \<Rightarrow>
          (case oe_find_pair env (maker_coin_ticker my_order) (taker_coin_ticker my_order) of
             None \<Rightarrow> Some (ctx, [])
           | Some (base_coin, rel_coin) \<Rightarrow>
               (case hm_get (om_pending_maker_reserved ctx) uuid of
                  None \<Rightarrow> Some (ctx, [])
                | Some msgs \<Rightarrow>
                    let ctx = ctx\<lparr>om_pending_maker_reserved := hm_remove uuid (om_pending_maker_reserved ctx)\<rparr> in
                    case sort_by_price msgs of
                      None \<Rightarrow> None
                    | Some sorted_msgs \<Rightarrow>
                        (case find (reserved_acceptable my_order base_coin rel_coin) sorted_msgs of
                           None \<Rightarrow> Some (ctx, [])
                         | Some msg \<Rightarrow>
                             let order_match = \<lparr>tm_reserved = msg, tm_connect = connect_to env msg,
                                   tm_connected = None, tm_last_updated = oe_now_ms env\<rparr>;
                                 my_order' = my_order\<lparr>to_matches :=
                                   hm_insert (mr_maker_order_uuid msg) order_match (to_matches my_order)\<rparr>
                             in Some (ctx\<lparr>om_taker_orders := hm_insert uuid my_order' (om_taker_orders ctx)\<rparr>,
                                      [BroadcastConnect (connect_to env msg)])))))"

definition process_maker_connected ::
  "om_env \<Rightarrow> h256 \<Rightarrow> maker_connected \<Rightarrow> ordermatch_context \<Rightarrow> om_result" where
  "process_maker_connected env from_pubkey msg ctx =
     (if oe_our_public_id env = from_pubkey then Some (ctx, [])
      else
        case hm_get (om_taker_orders ctx) (mcd_taker_order_uuid msg) of
          None \<Rightarrow> Some (ctx, [])
        | Some my_order \<Rightarrow>
            (case hm_get (to_matches my_order) (mcd_maker_order_uuid msg) of
               None \<Rightarrow> Some (ctx, [])
             | Some order_match \<Rightarrow>
                 if mr_sender_pubkey (tm_reserved order_match) \<noteq> from_pubkey then Some (ctx, [])
                 else Some (ctx\<lparr>om_taker_orders := hm_remove (mcd_taker_order_uuid msg) (om_taker_orders ctx)\<rparr>,
                            [StartTakerSwap my_order order_match, DeleteTakerOrder my_order TakerFulfilled])))"

end
