(* ===== verification/SwapTypes.thy ===== *)
theory SwapTypes
  imports SwapFunds
begin

text \<open>
  The data both sides of an atomic swap share (\<open>lp_swap.rs\<close>, \<open>swap_rpc.rs\<close>, \<open>swap_msg.rs\<close>) and
  the operations a swap asks of its two coins (the traits \<open>SwapOps\<close> and \<open>WatcherOps\<close>). The coins
  live behind a network, so their answers are fields of a record that is an argument of every
  step; the arguments of each call are written out, because they say which transaction is built.

  A transaction is what its methods \<open>tx_hex\<close> and \<open>tx_hash\<close> return. The texts of swap errors
  keep the label of the source and drop the rendering of the inner error.
\<close>

section \<open>Keys, hashes and transactions\<close>

record key_pair =
  kp_private :: bytes
  kp_public :: bytes

text \<open>
  The conversion of a byte slice into a fixed-size hash copies the first bytes and panics if
  there are too few.
\<close>

definition hash_from_slice :: "nat \<Rightarrow> bytes \<Rightarrow> bytes option" where
  "hash_from_slice n bs = (if length bs < n then None else Some (take n bs))"

definition h160_from :: "bytes \<Rightarrow> bytes option" where
  "h160_from = hash_from_slice 20"

definition h256_from :: "bytes \<Rightarrow> bytes option" where
  "h256_from = hash_from_slice 32"

definition h264_from :: "bytes \<Rightarrow> bytes option" where
  "h264_from = hash_from_slice 33"

definition h264_default :: bytes where
  "h264_default = replicate 33 0"

record transaction_identifier =
  tx_hex :: bytes
  tx_hash :: bytes

datatype (plugins only: code size) transaction_err = TxRecoverable transaction_identifier string | TxPlain string

fun get_tx :: "transaction_err \<Rightarrow> transaction_identifier option" where
  "get_tx (TxRecoverable tx _) = Some tx"
| "get_tx (TxPlain _) = None"

fun get_plain_text_format :: "transaction_err \<Rightarrow> string" where
  "get_plain_text_format (TxRecoverable _ err) = err"
| "get_plain_text_format (TxPlain err) = err"

datatype (plugins only: code size) found_swap_tx_spend = Spent transaction_identifier | Refunded transaction_identifier

datatype (plugins only: code size) can_refund_htlc = CanRefundNow | HaveToWait u64

section \<open>Swap settings and negotiation data\<close>

record swap_confirmations_settings =
  cs_maker_coin_confs :: u64
  cs_maker_coin_nota :: bool
  cs_taker_coin_confs :: u64
  cs_taker_coin_nota :: bool

definition settings_require_notarization :: "swap_confirmations_settings \<Rightarrow> bool" where
  "settings_require_notarization s = (cs_maker_coin_nota s \<or> cs_taker_coin_nota s)"

record saved_trade_fee =
  sf_coin :: ticker
  sf_amount :: mm_number
  sf_paid_from_trading_vol :: bool

definition saved_trade_fee_from :: "trade_fee \<Rightarrow> saved_trade_fee" where
  "saved_trade_fee_from f =
     \<lparr>sf_coin = tf_coin f, sf_amount = tf_amount f, sf_paid_from_trading_vol = tf_paid_from_trading_vol f\<rparr>"

definition trade_fee_from_saved :: "saved_trade_fee \<Rightarrow> trade_fee" where
  "trade_fee_from_saved f =
     \<lparr>tf_coin = sf_coin f, tf_amount = sf_amount f, tf_paid_from_trading_vol = sf_paid_from_trading_vol f\<rparr>"

lemma trade_fee_from_saved_inverse [simp]: "trade_fee_from_saved (saved_trade_fee_from f) = f"
  by (simp add: trade_fee_from_saved_def saved_trade_fee_from_def)

datatype (plugins only: code size) negotiation_data_msg =
    NegotiationDataV1 (nd_started_at: u64) (nd_payment_locktime: u64) (nd_secret_hash: bytes)
      (nd_persistent_pubkey: bytes)
  | NegotiationDataV2 (nd_started_at: u64) (nd_payment_locktime: u64) (nd_secret_hash: bytes)
      (nd_persistent_pubkey: bytes) (nd_maker_contract: bytes) (nd_taker_contract: bytes)
  | NegotiationDataV3 (nd_started_at: u64) (nd_payment_locktime: u64) (nd_secret_hash: bytes)
      (nd_maker_contract: bytes) (nd_taker_contract: bytes) (nd_maker_htlc: bytes) (nd_taker_htlc: bytes)

fun nd_maker_coin_htlc_pub :: "negotiation_data_msg \<Rightarrow> bytes" where
  "nd_maker_coin_htlc_pub (NegotiationDataV1 _ _ _ pk) = pk"
| "nd_maker_coin_htlc_pub (NegotiationDataV2 _ _ _ pk _ _) = pk"
| "nd_maker_coin_htlc_pub (NegotiationDataV3 _ _ _ _ _ mpk _) = mpk"

fun nd_taker_coin_htlc_pub :: "negotiation_data_msg \<Rightarrow> bytes" where
  "nd_taker_coin_htlc_pub (NegotiationDataV1 _ _ _ pk) = pk"
| "nd_taker_coin_htlc_pub (NegotiationDataV2 _ _ _ pk _ _) = pk"
| "nd_taker_coin_htlc_pub (NegotiationDataV3 _ _ _ _ _ _ tpk) = tpk"

fun nd_maker_coin_swap_contract :: "negotiation_data_msg \<Rightarrow> bytes option" where
  "nd_maker_coin_swap_contract (NegotiationDataV1 _ _ _ _) = None"
| "nd_maker_coin_swap_contract (NegotiationDataV2 _ _ _ _ c _) = Some c"
| "nd_maker_coin_swap_contract (NegotiationDataV3 _ _ _ c _ _ _) = Some c"

fun nd_taker_coin_swap_contract :: "negotiation_data_msg \<Rightarrow> bytes option" where
  "nd_taker_coin_swap_contract (NegotiationDataV1 _ _ _ _) = None"
| "nd_taker_coin_swap_contract (NegotiationDataV2 _ _ _ _ _ c) = Some c"
| "nd_taker_coin_swap_contract (NegotiationDataV3 _ _ _ _ c _ _) = Some c"

text \<open>Public keys that are too short to be converted.\<close>

definition short_pubkeys :: "negotiation_data_msg \<Rightarrow> bool" where
  "short_pubkeys d = (length (nd_maker_coin_htlc_pub d) < 33 \<or> length (nd_taker_coin_htlc_pub d) < 33)"

text \<open>
  The comparison of the two starting times in signed 64-bit arithmetic: the difference wraps
  around, and so does its absolute value, which leaves the smallest integer negative.
\<close>

definition started_at_time_dif :: "u64 \<Rightarrow> u64 \<Rightarrow> 64 word" where
  "started_at_time_dif mine other = (let d = mine - other in if sint d < 0 then - d else d)"

definition started_too_far_apart :: "u64 \<Rightarrow> u64 \<Rightarrow> bool" where
  "started_too_far_apart mine other = (60 < sint (started_at_time_dif mine other))"

datatype (plugins only: code size) swap_msg =
    Negotiation negotiation_data_msg
  | NegotiationReply negotiation_data_msg
  | Negotiated bool
  | TakerFee bytes
  | MakerPayment bytes
  | TakerPayment bytes

section \<open>The operations of a coin\<close>

record payment_args =
  pa_time_lock :: u32
  pa_my_pub :: bytes
  pa_other_pub :: bytes
  pa_secret_hash :: bytes
  pa_amount :: mm_number
  pa_swap_contract_address :: "bytes option"

record payment_query =
  pq_time_lock :: u32
  pq_my_pub :: bytes
  pq_other_pub :: bytes
  pq_secret_hash :: bytes
  pq_search_from_block :: u64
  pq_swap_contract_address :: "bytes option"

record spend_args =
  sp_payment_tx :: bytes
  sp_time_lock :: u32
  sp_other_pub :: bytes
  sp_secret :: bytes
  sp_htlc_privkey :: bytes
  sp_swap_contract_address :: "bytes option"

record refund_args =
  rf_payment_tx :: bytes
  rf_time_lock :: u32
  rf_other_pub :: bytes
  rf_secret_hash :: bytes
  rf_htlc_privkey :: bytes
  rf_swap_contract_address :: "bytes option"

record validate_payment_input =
  vp_payment_tx :: bytes
  vp_time_lock :: u32
  vp_taker_pub :: bytes
  vp_maker_pub :: bytes
  vp_secret_hash :: bytes
  vp_amount :: mm_number
  vp_swap_contract_address :: "bytes option"
  vp_try_spv_proof_until :: u64
  vp_confirmations :: u64

record validate_fee_args =
  vf_fee_tx :: transaction_identifier
  vf_expected_sender :: bytes
  vf_fee_addr :: string
  vf_dex_fee :: dex_fee
  vf_min_block_number :: u64
  vf_uuid :: uuid

record confirm_args =
  ca_tx :: bytes
  ca_confirmations :: u64
  ca_requires_nota :: bool
  ca_wait_until :: u64

record search_args =
  sa_time_lock :: u32
  sa_other_pub :: bytes
  sa_secret_hash :: bytes
  sa_tx :: bytes
  sa_search_from_block :: u64
  sa_swap_contract_address :: "bytes option"

record htlc_coin =
  hc_swap_contract_address :: "bytes option"
  hc_negotiate_swap_contract_addr :: "bytes option \<Rightarrow> string + bytes option"
  hc_htlc_key_pair :: "key_pair option"
  hc_current_block :: "string + u64"
  hc_tx_enum_from_bytes :: "bytes \<Rightarrow> string + transaction_identifier"
  hc_send_taker_fee :: "dex_fee \<Rightarrow> string \<Rightarrow> uuid \<Rightarrow> transaction_err + transaction_identifier"
  hc_validate_fee :: "nat \<Rightarrow> validate_fee_args \<Rightarrow> string + unit"
  hc_check_if_my_payment_sent :: "payment_query \<Rightarrow> string + transaction_identifier option"
  hc_send_maker_payment :: "payment_args \<Rightarrow> transaction_err + transaction_identifier"
  hc_send_taker_payment :: "payment_args \<Rightarrow> transaction_err + transaction_identifier"
  hc_wait_for_confirmations :: "confirm_args \<Rightarrow> string + unit"
  hc_validate_maker_payment :: "validate_payment_input \<Rightarrow> string + unit"
  hc_validate_taker_payment :: "validate_payment_input \<Rightarrow> string + unit"
  hc_send_maker_spends_taker_payment :: "spend_args \<Rightarrow> transaction_err + transaction_identifier"
  hc_send_taker_spends_maker_payment :: "spend_args \<Rightarrow> transaction_err + transaction_identifier"
  hc_send_maker_refunds_payment :: "refund_args \<Rightarrow> transaction_err + transaction_identifier"
  hc_send_taker_refunds_payment :: "refund_args \<Rightarrow> transaction_err + transaction_identifier"
  hc_can_refund_htlc :: "nat \<Rightarrow> u64 \<Rightarrow> string + can_refund_htlc"
  hc_wait_for_tx_spend :: "bytes \<Rightarrow> u64 \<Rightarrow> u64 \<Rightarrow> bytes option \<Rightarrow> transaction_err + transaction_identifier"
  hc_search_for_swap_tx_spend_my :: "search_args \<Rightarrow> string + found_swap_tx_spend option"
  hc_search_for_swap_tx_spend_other :: "search_args \<Rightarrow> string + found_swap_tx_spend option"
  hc_extract_secret :: "bytes \<Rightarrow> bytes \<Rightarrow> string + bytes"
  hc_is_supported_by_watchers :: bool
  hc_create_maker_payment_spend_preimage ::
    "bytes \<Rightarrow> u32 \<Rightarrow> bytes \<Rightarrow> bytes \<Rightarrow> transaction_err + transaction_identifier"
  hc_create_taker_payment_refund_preimage ::
    "bytes \<Rightarrow> u32 \<Rightarrow> bytes \<Rightarrow> bytes \<Rightarrow> transaction_err + transaction_identifier"

text \<open>
  What one step of a swap meets: the time, the node's key and network, the two coins, the funds
  locked by all swaps, the messages \<open>recv_swap_msg\<close> delivers, a fresh secret, the hash
  \<open>dhash160\<close> and the decimal approximation \<open>to_decimal\<close> of a rational.
\<close>

record swap_env =
  se_now_ms :: u64
  se_key_pair :: key_pair
  se_net :: net_config
  se_swaps :: swaps_context
  se_maker_coin :: mm_coin
  se_taker_coin :: mm_coin
  se_maker_htlc :: htlc_coin
  se_taker_htlc :: htlc_coin
  se_fresh_secret :: bytes
  se_dhash160 :: "bytes \<Rightarrow> bytes"
  se_to_decimal :: "mm_number \<Rightarrow> mm_number"
  se_negotiation :: "string + negotiation_data_msg"
  se_negotiation_reply :: "string + negotiation_data_msg"
  se_negotiated :: "string + bool"
  se_taker_fee :: "string + bytes"
  se_maker_payment :: "string + bytes"
  se_taker_payment :: "string + bytes"

definition se_now :: "swap_env \<Rightarrow> u64" where
  "se_now env = se_now_ms env div 1000"

record taker_swap_watcher_data =
  wd_uuid :: uuid
  wd_secret_hash :: bytes
  wd_maker_payment_spend_preimage :: bytes
  wd_taker_payment_refund_preimage :: bytes
  wd_swap_started_at :: u64
  wd_lock_duration :: u64
  wd_taker_coin :: ticker
  wd_taker_fee_hash :: bytes
  wd_taker_payment_hash :: bytes
  wd_taker_coin_start_block :: u64
  wd_taker_payment_confirmations :: u64
  wd_taker_payment_requires_nota :: "bool option"
  wd_maker_coin :: ticker
  wd_maker_pub :: bytes
  wd_maker_payment_hash :: bytes
  wd_maker_coin_start_block :: u64

text \<open>The calls and messages by which a step acts on the world.\<close>

datatype (plugins only: code size) swap_effect =
    SwapMessage swap_msg
  | SendTakerFeeTx dex_fee string
  | SendPaymentTx payment_args
  | SpendPaymentTx spend_args
  | RefundPaymentTx refund_args
  | BroadcastTx ticker bytes
  | WatcherMessage ticker taker_swap_watcher_data

text \<open>The wait for the moment a payment becomes refundable; it may never end.\<close>

partial_function (option) can_refund_loop :: "(nat \<Rightarrow> string + can_refund_htlc) \<Rightarrow> nat \<Rightarrow> nat option" where
  "can_refund_loop answer n =
     (case answer n of
        Inl _ \<Rightarrow> can_refund_loop answer (Suc n)
      | Inr CanRefundNow \<Rightarrow> Some n
      | Inr (HaveToWait _) \<Rightarrow> can_refund_loop answer (Suc n))"

declare can_refund_loop.simps [code]

lemma can_refund_loop_returns:
  assumes "answer k = Inr CanRefundNow" "n \<le> k"
  shows "\<exists>j. can_refund_loop answer n = Some j"
  using assms(2)
proof (induction "k - n" arbitrary: n)
  case 0
  then show ?case using assms(1) by (subst can_refund_loop.simps) simp
next
  case (Suc d)
  then have "\<exists>j. can_refund_loop answer (Suc n) = Some j" by simp
  then show ?case
    by (subst can_refund_loop.simps) (auto split: sum.splits can_refund_htlc.splits)
qed

lemma can_refund_loop_SomeD: "can_refund_loop answer n = Some j \<Longrightarrow> answer j = Inr CanRefundNow"
  by (rule can_refund_loop.raw_induct[of "\<lambda>answer n j. answer j = Inr CanRefundNow" answer n j])
    (auto split: sum.splits can_refund_htlc.splits)

text \<open>The broadcast of a transaction that a failed or a successful call returned.\<close>

definition tx_helper :: "ticker \<Rightarrow> transaction_err + transaction_identifier \<Rightarrow> swap_effect list" where
  "tx_helper coin r =
     (case r of
        Inl err \<Rightarrow> (case get_tx err of Some tx \<Rightarrow> [BroadcastTx coin (tx_hex tx)] | None \<Rightarrow> [])
      | Inr tx \<Rightarrow> [BroadcastTx coin (tx_hex tx)])"

text \<open>The node, its coins, its key and its arithmetic are the same before and after a restart.\<close>

definition same_node :: "swap_env \<Rightarrow> swap_env \<Rightarrow> bool" where
  "same_node base env =
     (se_key_pair env = se_key_pair base
      \<and> coin_ticker (se_maker_coin env) = coin_ticker (se_maker_coin base)
      \<and> coin_ticker (se_taker_coin env) = coin_ticker (se_taker_coin base)
      \<and> hc_swap_contract_address (se_maker_htlc env) = hc_swap_contract_address (se_maker_htlc base)
      \<and> hc_swap_contract_address (se_taker_htlc env) = hc_swap_contract_address (se_taker_htlc base)
      \<and> se_dhash160 env = se_dhash160 base \<and> se_to_decimal env = se_to_decimal base)"

section \<open>Recovered swaps and running swaps\<close>

datatype (plugins only: code size) recovered_swap_action = RefundedMyPayment | SpentOtherPayment

record recovered_swap =
  rs_action :: recovered_swap_action
  rs_coin :: ticker
  rs_transaction :: transaction_identifier

end
