(* ===== verification/MakerSwapTypes.thy ===== *)
theory MakerSwapTypes
  imports SwapTypes
begin

text \<open>
  The data of the maker's side of a swap (\<open>maker_swap.rs\<close>): the negotiated data, the journalled
  start data, the swap itself, its commands and its events. The mutable part of \<open>MakerSwap\<close>
  (\<open>MakerSwapMut\<close> and the atomics) and its constant part are one record here; the coin objects it
  holds are named by their tickers and answer through the environment of each step.
\<close>

section \<open>Data\<close>

record taker_negotiation_data =
  tnd_taker_payment_locktime :: u64
  tnd_taker_pubkey :: bytes
  tnd_maker_coin_swap_contract_addr :: "bytes option"
  tnd_taker_coin_swap_contract_addr :: "bytes option"
  tnd_maker_coin_htlc_pubkey :: "bytes option"
  tnd_taker_coin_htlc_pubkey :: "bytes option"

definition tnd_other_maker_coin_htlc_pub :: "taker_negotiation_data \<Rightarrow> bytes" where
  "tnd_other_maker_coin_htlc_pub d =
     (case tnd_maker_coin_htlc_pubkey d of Some pk \<Rightarrow> pk | None \<Rightarrow> tnd_taker_pubkey d)"

definition tnd_other_taker_coin_htlc_pub :: "taker_negotiation_data \<Rightarrow> bytes" where
  "tnd_other_taker_coin_htlc_pub d =
     (case tnd_taker_coin_htlc_pubkey d of Some pk \<Rightarrow> pk | None \<Rightarrow> tnd_taker_pubkey d)"

record maker_swap_data =
  msd_taker_coin :: ticker
  msd_maker_coin :: ticker
  msd_taker :: h256
  msd_secret :: h256
  msd_secret_hash :: "bytes option"
  msd_my_persistent_pub :: bytes
  msd_lock_duration :: u64
  msd_maker_amount :: mm_number
  msd_taker_amount :: mm_number
  msd_maker_payment_confirmations :: u64
  msd_maker_payment_requires_nota :: "bool option"
  msd_taker_payment_confirmations :: u64
  msd_taker_payment_requires_nota :: "bool option"
  msd_maker_payment_lock :: u64
  msd_uuid :: uuid
  msd_started_at :: u64
  msd_maker_coin_start_block :: u64
  msd_taker_coin_start_block :: u64
  msd_maker_payment_trade_fee :: "saved_trade_fee option"
  msd_taker_payment_spend_trade_fee :: "saved_trade_fee option"
  msd_maker_coin_swap_contract_address :: "bytes option"
  msd_taker_coin_swap_contract_address :: "bytes option"
  msd_maker_coin_htlc_privkey :: "key_pair option"
  msd_maker_coin_htlc_pubkey :: "bytes option"
  msd_taker_coin_htlc_privkey :: "key_pair option"
  msd_taker_coin_htlc_pubkey :: "bytes option"
  msd_p2p_privkey :: "key_pair option"

definition maker_swap_data_default :: maker_swap_data where
  "maker_swap_data_default =
     \<lparr>msd_taker_coin = '''', msd_maker_coin = '''', msd_taker = replicate 32 0,
      msd_secret = replicate 32 0, msd_secret_hash = None, msd_my_persistent_pub = h264_default,
      msd_lock_duration = 0, msd_maker_amount = 0, msd_taker_amount = 0,
      msd_maker_payment_confirmations = 0, msd_maker_payment_requires_nota = None,
      msd_taker_payment_confirmations = 0, msd_taker_payment_requires_nota = None,
      msd_maker_payment_lock = 0, msd_uuid = 0, msd_started_at = 0, msd_maker_coin_start_block = 0,
      msd_taker_coin_start_block = 0, msd_maker_payment_trade_fee = None,
      msd_taker_payment_spend_trade_fee = None, msd_maker_coin_swap_contract_address = None,
      msd_taker_coin_swap_contract_address = None, msd_maker_coin_htlc_privkey = None,
      msd_maker_coin_htlc_pubkey = None, msd_taker_coin_htlc_privkey = None,
      msd_taker_coin_htlc_pubkey = None, msd_p2p_privkey = None\<rparr>"

record maker_swap =
  ms_maker_coin :: ticker
  ms_taker_coin :: ticker
  ms_maker_amount :: mm_number
  ms_taker_amount :: mm_number
  ms_my_persistent_pub :: bytes
  ms_taker :: h256
  ms_uuid :: uuid
  ms_my_order_uuid :: "uuid option"
  ms_taker_payment_lock :: u64
  ms_taker_payment_confirmed :: bool
  ms_errors :: "string list"
  ms_finished_at :: u64
  ms_conf_settings :: swap_confirmations_settings
  ms_payment_locktime :: u64
  ms_p2p_privkey :: "key_pair option"
  ms_data :: maker_swap_data
  ms_other_maker_coin_htlc_pub :: bytes
  ms_other_taker_coin_htlc_pub :: bytes
  ms_taker_fee :: "transaction_identifier option"
  ms_maker_payment :: "transaction_identifier option"
  ms_taker_payment :: "transaction_identifier option"
  ms_taker_payment_spend :: "transaction_identifier option"
  ms_taker_payment_spend_confirmed :: bool
  ms_maker_payment_refund :: "transaction_identifier option"
  ms_my_maker_coin_htlc_keypair :: key_pair
  ms_my_taker_coin_htlc_keypair :: key_pair

definition maker_swap_new ::
  "swap_env \<Rightarrow> h256 \<Rightarrow> mm_number \<Rightarrow> mm_number \<Rightarrow> bytes \<Rightarrow> uuid \<Rightarrow> uuid option \<Rightarrow>
    swap_confirmations_settings \<Rightarrow> u64 \<Rightarrow> key_pair option \<Rightarrow> maker_swap" where
  "maker_swap_new env taker maker_amount taker_amount my_persistent_pub uuid my_order_uuid
     conf_settings payment_locktime p2p_privkey =
     \<lparr>ms_maker_coin = coin_ticker (se_maker_coin env), ms_taker_coin = coin_ticker (se_taker_coin env),
      ms_maker_amount = maker_amount, ms_taker_amount = taker_amount,
      ms_my_persistent_pub = my_persistent_pub, ms_taker = taker, ms_uuid = uuid,
      ms_my_order_uuid = my_order_uuid, ms_taker_payment_lock = 0,
      ms_taker_payment_confirmed = False, ms_errors = [], ms_finished_at = 0,
      ms_conf_settings = conf_settings, ms_payment_locktime = payment_locktime,
      ms_p2p_privkey = p2p_privkey, ms_data = maker_swap_data_default,
      ms_other_maker_coin_htlc_pub = h264_default, ms_other_taker_coin_htlc_pub = h264_default,
      ms_taker_fee = None, ms_maker_payment = None, ms_taker_payment = None,
      ms_taker_payment_spend = None, ms_taker_payment_spend_confirmed = False,
      ms_maker_payment_refund = None, ms_my_maker_coin_htlc_keypair = se_key_pair env,
      ms_my_taker_coin_htlc_keypair = se_key_pair env\<rparr>"

datatype (plugins only: code size) maker_swap_command =
    MStart | MNegotiate | MWaitForTakerFee | MSendPayment | MWaitForTakerPayment
  | MValidateTakerPayment | MSpendTakerPayment | MConfirmTakerPaymentSpend | MRefundMakerPayment | MFinish

datatype (plugins only: code size) maker_swap_event =
    MStarted maker_swap_data
  | MStartFailed string
  | MNegotiated taker_negotiation_data
  | MNegotiateFailed string
  | MMakerPaymentInstructionsReceived
  | MTakerFeeValidated transaction_identifier
  | MTakerFeeValidateFailed string
  | MMakerPaymentSent transaction_identifier
  | MMakerPaymentTransactionFailed string
  | MMakerPaymentDataSendFailed string
  | MMakerPaymentWaitConfirmFailed string
  | MTakerPaymentReceived transaction_identifier
  | MTakerPaymentWaitConfirmStarted
  | MTakerPaymentValidatedAndConfirmed
  | MTakerPaymentValidateFailed string
  | MTakerPaymentWaitConfirmFailed string
  | MTakerPaymentSpent transaction_identifier
  | MTakerPaymentSpendFailed string
  | MTakerPaymentSpendConfirmStarted
  | MTakerPaymentSpendConfirmed
  | MTakerPaymentSpendConfirmFailed string
  | MMakerPaymentWaitRefundStarted u64
  | MMakerPaymentRefunded transaction_identifier
  | MMakerPaymentRefundFailed string
  | MFinished

end
