(* ===== verification/MakerSwap.thy ===== *)
theory MakerSwap
  imports MakerSwapTypes
begin

text \<open>
  The maker's side of a swap (\<open>maker_swap.rs\<close>) as a state machine: a command is handled in some
  state of the world and yields events and the next command; every event is saved in the journal
  and applied to the swap. A handler that panics or waits forever yields \<open>None\<close>.
\<close>

section \<open>Events\<close>

definition ms_add_error :: "string \<Rightarrow> maker_swap \<Rightarrow> maker_swap" where
  "ms_add_error err s = s\<lparr>ms_errors := ms_errors s @ [err]\<rparr>"

fun maker_apply_event :: "u64 \<Rightarrow> maker_swap_event \<Rightarrow> maker_swap \<Rightarrow> maker_swap" where
  "maker_apply_event now (MStarted data) s =
     s\<lparr>ms_my_maker_coin_htlc_keypair :=
          (case msd_maker_coin_htlc_privkey data of Some k \<Rightarrow> k | None \<Rightarrow> ms_my_maker_coin_htlc_keypair s),
       ms_my_taker_coin_htlc_keypair :=
          (case msd_taker_coin_htlc_privkey data of Some k \<Rightarrow> k | None \<Rightarrow> ms_my_taker_coin_htlc_keypair s),
       ms_data := data\<rparr>"
| "maker_apply_event now (MStartFailed err) s = ms_add_error err s"
| "maker_apply_event now (MNegotiated d) s =
     s\<lparr>ms_taker_payment_lock := tnd_taker_payment_locktime d,
       ms_other_maker_coin_htlc_pub := tnd_other_maker_coin_htlc_pub d,
       ms_other_taker_coin_htlc_pub := tnd_other_taker_coin_htlc_pub d,
       ms_data := (ms_data s)\<lparr>
         msd_maker_coin_swap_contract_address :=
           (case tnd_maker_coin_swap_contract_addr d of
              Some a \<Rightarrow> Some a | None \<Rightarrow> msd_maker_coin_swap_contract_address (ms_data s)),
         msd_taker_coin_swap_contract_address :=
           (case tnd_taker_coin_swap_contract_addr d of
              Some a \<Rightarrow> Some a | None \<Rightarrow> msd_taker_coin_swap_contract_address (ms_data s))\<rparr>\<rparr>"
| "maker_apply_event now (MNegotiateFailed err) s = ms_add_error err s"
| "maker_apply_event now MMakerPaymentInstructionsReceived s = s"
| "maker_apply_event now (MTakerFeeValidated tx) s = s\<lparr>ms_taker_fee := Some tx\<rparr>"
| "maker_apply_event now (MTakerFeeValidateFailed err) s = ms_add_error err s"
| "maker_apply_event now (MMakerPaymentSent tx) s = s\<lparr>ms_maker_payment := Some tx\<rparr>"
| "maker_apply_event now (MMakerPaymentTransactionFailed err) s = ms_add_error err s"
| "maker_apply_event now (MMakerPaymentDataSendFailed err) s = ms_add_error err s"
| "maker_apply_event now (MMakerPaymentWaitConfirmFailed err) s = ms_add_error err s"
| "maker_apply_event now (MTakerPaymentReceived tx) s = s\<lparr>ms_taker_payment := Some tx\<rparr>"
| "maker_apply_event now MTakerPaymentWaitConfirmStarted s = s"
| "maker_apply_event now MTakerPaymentValidatedAndConfirmed s = s\<lparr>ms_taker_payment_confirmed := True\<rparr>"
| "maker_apply_event now (MTakerPaymentValidateFailed err) s = ms_add_error err s"
| "maker_apply_event now (MTakerPaymentWaitConfirmFailed err) s = ms_add_error err s"
| "maker_apply_event now (MTakerPaymentSpent tx) s = s\<lparr>ms_taker_payment_spend := Some tx\<rparr>"
| "maker_apply_event now (MTakerPaymentSpendFailed err) s = ms_add_error err s"
| "maker_apply_event now MTakerPaymentSpendConfirmStarted s = s"
| "maker_apply_event now MTakerPaymentSpendConfirmed s = s\<lparr>ms_taker_payment_spend_confirmed := True\<rparr>"
| "maker_apply_event now (MTakerPaymentSpendConfirmFailed err) s = ms_add_error err s"
| "maker_apply_event now (MMakerPaymentWaitRefundStarted _) s = s"
| "maker_apply_event now (MMakerPaymentRefunded tx) s = s\<lparr>ms_maker_payment_refund := Some tx\<rparr>"
| "maker_apply_event now (MMakerPaymentRefundFailed err) s = ms_add_error err s"
| "maker_apply_event now MFinished s = s\<lparr>ms_finished_at := now\<rparr>"

fun maker_should_ban_taker :: "maker_swap_event \<Rightarrow> bool" where
  "maker_should_ban_taker (MTakerFeeValidateFailed _) = True"
| "maker_should_ban_taker (MTakerPaymentValidateFailed _) = True"
| "maker_should_ban_taker _ = False"

fun maker_event_is_success :: "maker_swap_event \<Rightarrow> bool" where
  "maker_event_is_success (MStarted _) = True"
| "maker_event_is_success (MNegotiated _) = True"
| "maker_event_is_success MMakerPaymentInstructionsReceived = True"
| "maker_event_is_success (MTakerFeeValidated _) = True"
| "maker_event_is_success (MMakerPaymentSent _) = True"
| "maker_event_is_success (MTakerPaymentReceived _) = True"
| "maker_event_is_success MTakerPaymentWaitConfirmStarted = True"
| "maker_event_is_success MTakerPaymentValidatedAndConfirmed = True"
| "maker_event_is_success (MTakerPaymentSpent _) = True"
| "maker_event_is_success MTakerPaymentSpendConfirmStarted = True"
| "maker_event_is_success MTakerPaymentSpendConfirmed = True"
| "maker_event_is_success MFinished = True"
| "maker_event_is_success _ = False"

text \<open>The command a restored swap continues with.\<close>

fun maker_get_command :: "maker_swap_event \<Rightarrow> maker_swap_command option" where
  "maker_get_command (MStarted _) = Some MNegotiate"
| "maker_get_command (MStartFailed _) = Some MFinish"
| "maker_get_command (MNegotiated _) = Some MWaitForTakerFee"
| "maker_get_command (MNegotiateFailed _) = Some MFinish"
| "maker_get_command MMakerPaymentInstructionsReceived = Some MWaitForTakerFee"
| "maker_get_command (MTakerFeeValidated _) = Some MSendPayment"
| "maker_get_command (MTakerFeeValidateFailed _) = Some MFinish"
| "maker_get_command (MMakerPaymentSent _) = Some MWaitForTakerPayment"
| "maker_get_command (MMakerPaymentTransactionFailed _) = Some MFinish"
| "maker_get_command (MMakerPaymentDataSendFailed _) = Some MRefundMakerPayment"
| "maker_get_command (MMakerPaymentWaitConfirmFailed _) = Some MRefundMakerPayment"
| "maker_get_command (MTakerPaymentReceived _) = Some MValidateTakerPayment"
| "maker_get_command MTakerPaymentWaitConfirmStarted = Some MValidateTakerPayment"
| "maker_get_command MTakerPaymentValidatedAndConfirmed = Some MSpendTakerPayment"
| "maker_get_command (MTakerPaymentValidateFailed _) = Some MRefundMakerPayment"
| "maker_get_command (MTakerPaymentWaitConfirmFailed _) = Some MRefundMakerPayment"
| "maker_get_command (MTakerPaymentSpent _) = Some MConfirmTakerPaymentSpend"
| "maker_get_command (MTakerPaymentSpendFailed _) = Some MRefundMakerPayment"
| "maker_get_command MTakerPaymentSpendConfirmStarted = Some MConfirmTakerPaymentSpend"
| "maker_get_command MTakerPaymentSpendConfirmed = Some MFinish"
| "maker_get_command (MTakerPaymentSpendConfirmFailed _) = Some MRefundMakerPayment"
| "maker_get_command (MMakerPaymentWaitRefundStarted _) = Some MRefundMakerPayment"
| "maker_get_command (MMakerPaymentRefunded _) = Some MFinish"
| "maker_get_command (MMakerPaymentRefundFailed _) = Some MFinish"
| "maker_get_command MFinished = None"

section \<open>Handlers\<close>

type_synonym maker_step = "(maker_swap_command option \<times> maker_swap_event list \<times> swap_effect list) option"

definition maker_wait_refund_until :: "maker_swap \<Rightarrow> u64" where
  "maker_wait_refund_until s = msd_maker_payment_lock (ms_data s) + 3700"

definition maker_start_data ::
  "swap_env \<Rightarrow> maker_swap \<Rightarrow> trade_fee \<Rightarrow> trade_fee \<Rightarrow> u64 \<Rightarrow> u64 \<Rightarrow> maker_swap_data" where
  "maker_start_data env s pay_fee spend_fee maker_block taker_block =
     (let htlc_pub = (\<lambda>k. case k of Some k \<Rightarrow> kp_public k | None \<Rightarrow> kp_public (se_key_pair env)) in
      \<lparr>msd_taker_coin = coin_ticker (se_taker_coin env), msd_maker_coin = coin_ticker (se_maker_coin env),
       msd_taker = ms_taker s, msd_secret = se_fresh_secret env,
       msd_secret_hash = Some (se_dhash160 env (se_fresh_secret env)),
       msd_my_persistent_pub = ms_my_persistent_pub s, msd_lock_duration = ms_payment_locktime s,
       msd_maker_amount = ms_maker_amount s, msd_taker_amount = ms_taker_amount s,
       msd_maker_payment_confirmations = cs_maker_coin_confs (ms_conf_settings s),
       msd_maker_payment_requires_nota = Some (cs_maker_coin_nota (ms_conf_settings s)),
       msd_taker_payment_confirmations = cs_taker_coin_confs (ms_conf_settings s),
       msd_taker_payment_requires_nota = Some (cs_taker_coin_nota (ms_conf_settings s)),
       msd_maker_payment_lock = se_now env + ms_payment_locktime s * 2,
       msd_uuid = ms_uuid s, msd_started_at = se_now env,
       msd_maker_coin_start_block = maker_block, msd_taker_coin_start_block = taker_block,
       msd_maker_payment_trade_fee = Some (saved_trade_fee_from pay_fee),
       msd_taker_payment_spend_trade_fee = Some (saved_trade_fee_from spend_fee),
       msd_maker_coin_swap_contract_address = hc_swap_contract_address (se_maker_htlc env),
       msd_taker_coin_swap_contract_address = hc_swap_contract_address (se_taker_htlc env),
       msd_maker_coin_htlc_privkey = hc_htlc_key_pair (se_maker_htlc env),
       msd_maker_coin_htlc_pubkey = Some (htlc_pub (hc_htlc_key_pair (se_maker_htlc env))),
       msd_taker_coin_htlc_privkey = hc_htlc_key_pair (se_taker_htlc env),
       msd_taker_coin_htlc_pubkey = Some (htlc_pub (hc_htlc_key_pair (se_taker_htlc env))),
       msd_p2p_privkey = ms_p2p_privkey s\<rparr>)"

definition maker_start :: "swap_env \<Rightarrow> maker_swap \<Rightarrow> maker_step" where
  "maker_start env s =
     (case
        bind_res (map_err (\<lambda>_. ''!maker_coin.get_sender_trade_fee'')
          (coin_sender_trade_fee (se_maker_coin env) (Exact (ms_maker_amount s)) StartSwap)) (\<lambda>pay_fee.
        bind_res (map_err (\<lambda>_. ''!taker_coin.get_receiver_trade_fee'')
          (coin_receiver_trade_fee (se_taker_coin env) StartSwap)) (\<lambda>spend_fee.
        bind_res (map_err (\<lambda>_. ''!check_balance_for_maker_swap'')
          (check_balance_for_maker_swap (se_swaps env) (se_maker_coin env) (se_taker_coin env)
             (ms_maker_amount s) (Some (ms_uuid s))
             (Some \<lparr>mp_maker_payment_trade_fee = pay_fee, mp_taker_payment_spend_trade_fee = spend_fee\<rparr>)
             StartSwap)) (\<lambda>_.
        bind_res (map_err (\<lambda>_. ''!maker_coin.current_block'') (hc_current_block (se_maker_htlc env))) (\<lambda>mb.
        bind_res (map_err (\<lambda>_. ''!taker_coin.current_block'') (hc_current_block (se_taker_htlc env))) (\<lambda>tb.
          Inr (maker_start_data env s pay_fee spend_fee mb tb))))))
      of
        Inl err \<Rightarrow> Some (Some MFinish, [MStartFailed err], [])
      | Inr data \<Rightarrow> Some (Some MNegotiate, [MStarted data], []))"

definition maker_get_my_negotiation_data :: "swap_env \<Rightarrow> maker_swap \<Rightarrow> negotiation_data_msg" where
  "maker_get_my_negotiation_data env s =
     (let secret_hash = se_dhash160 env (msd_secret (ms_data s));
          addr = (\<lambda>h. case hc_swap_contract_address h of Some a \<Rightarrow> a | None \<Rightarrow> []);
          started = msd_started_at (ms_data s);
          lock = msd_maker_payment_lock (ms_data s)
      in if ms_my_maker_coin_htlc_keypair s \<noteq> ms_my_taker_coin_htlc_keypair s
         then NegotiationDataV3 started lock secret_hash (addr (se_maker_htlc env)) (addr (se_taker_htlc env))
                (kp_public (ms_my_maker_coin_htlc_keypair s)) (kp_public (ms_my_taker_coin_htlc_keypair s))
         else NegotiationDataV2 started lock secret_hash (kp_public (ms_my_maker_coin_htlc_keypair s))
                (addr (se_maker_htlc env)) (addr (se_taker_htlc env)))"

definition maker_check_negotiation ::
  "swap_env \<Rightarrow> maker_swap \<Rightarrow> string + (negotiation_data_msg \<times> bytes option \<times> bytes option)" where
  "maker_check_negotiation env s =
     bind_res (se_negotiation_reply env) (\<lambda>d.
       if started_too_far_apart (msd_started_at (ms_data s)) (nd_started_at d)
       then Inl ''Started_at time_dif over 60''
       else if nd_payment_locktime d \<noteq> nd_started_at d + msd_lock_duration (ms_data s)
       then Inl ''taker_data.payment_locktime not equal to expected''
       else bind_res (map_err (\<lambda>_. ''!maker_coin.negotiate_swap_contract_addr'')
              (hc_negotiate_swap_contract_addr (se_maker_htlc env) (nd_maker_coin_swap_contract d))) (\<lambda>ma.
            bind_res (map_err (\<lambda>_. ''!taker_coin.negotiate_swap_contract_addr'')
              (hc_negotiate_swap_contract_addr (se_taker_htlc env) (nd_taker_coin_swap_contract d))) (\<lambda>ta.
              Inr (d, ma, ta))))"

definition maker_negotiate :: "swap_env \<Rightarrow> maker_swap \<Rightarrow> maker_step" where
  "maker_negotiate env s =
     (let sent = [SwapMessage (Negotiation (maker_get_my_negotiation_data env s))] in
      case maker_check_negotiation env s of
        Inl err \<Rightarrow> Some (Some MFinish, [MNegotiateFailed err], sent)
      | Inr (d, ma, ta) \<Rightarrow>
          (case (h264_from (nd_maker_coin_htlc_pub d), h264_from (nd_taker_coin_htlc_pub d)) of
             (Some mpk, Some tpk) \<Rightarrow>
               Some (Some MWaitForTakerFee,
                 [MNegotiated
                    \<lparr>tnd_taker_payment_locktime = nd_payment_locktime d, tnd_taker_pubkey = h264_default,
                     tnd_maker_coin_swap_contract_addr = ma, tnd_taker_coin_swap_contract_addr = ta,
                     tnd_maker_coin_htlc_pubkey = Some mpk, tnd_taker_coin_htlc_pubkey = Some tpk\<rparr>], sent)
           | _ \<Rightarrow> None))"

function validate_fee_attempts :: "(nat \<Rightarrow> string + unit) \<Rightarrow> nat \<Rightarrow> string + unit" where
  "validate_fee_attempts validate attempts =
     (case validate attempts of
        Inr _ \<Rightarrow> Inr ()
      | Inl err \<Rightarrow> if 3 \<le> attempts then Inl err else validate_fee_attempts validate (Suc attempts))"
  by pat_completeness auto

termination validate_fee_attempts
  by (relation "measure (\<lambda>(_, attempts). 4 - attempts)") auto

definition maker_fee_args :: "swap_env \<Rightarrow> maker_swap \<Rightarrow> transaction_identifier \<Rightarrow> validate_fee_args" where
  "maker_fee_args env s fee_tx =
     \<lparr>vf_fee_tx = fee_tx, vf_expected_sender = ms_other_taker_coin_htlc_pub s,
      vf_fee_addr = nc_dex_fee_addr_pubkey (se_net env),
      vf_dex_fee = compute_dex_fee_with_taker_pubkey (se_net env) (se_taker_coin env)
        (msd_maker_coin (ms_data s)) (ms_taker_amount s) (ms_other_taker_coin_htlc_pub s),
      vf_min_block_number = msd_taker_coin_start_block (ms_data s), vf_uuid = ms_uuid s\<rparr>"

definition maker_wait_taker_fee :: "swap_env \<Rightarrow> maker_swap \<Rightarrow> maker_step" where
  "maker_wait_taker_fee env s =
     (let sent = [SwapMessage (Negotiated True)] in
      case
        bind_res (se_taker_fee env) (\<lambda>payload.
        bind_res (hc_tx_enum_from_bytes (se_taker_htlc env) payload) (\<lambda>fee_tx.
        bind_res (validate_fee_attempts
          (\<lambda>attempt. hc_validate_fee (se_taker_htlc env) attempt (maker_fee_args env s fee_tx)) 0) (\<lambda>_.
          Inr fee_tx)))
      of
        Inl err \<Rightarrow> Some (Some MFinish, [MTakerFeeValidateFailed err], sent)
      | Inr fee_tx \<Rightarrow> Some (Some MSendPayment, [MTakerFeeValidated fee_tx], sent))"

definition maker_payment_query :: "swap_env \<Rightarrow> maker_swap \<Rightarrow> payment_query" where
  "maker_payment_query env s =
     \<lparr>pq_time_lock = ucast (msd_maker_payment_lock (ms_data s)),
      pq_my_pub = kp_public (ms_my_maker_coin_htlc_keypair s),
      pq_other_pub = ms_other_maker_coin_htlc_pub s,
      pq_secret_hash = se_dhash160 env (msd_secret (ms_data s)),
      pq_search_from_block = msd_maker_coin_start_block (ms_data s),
      pq_swap_contract_address = msd_maker_coin_swap_contract_address (ms_data s)\<rparr>"

definition maker_payment_args :: "swap_env \<Rightarrow> maker_swap \<Rightarrow> payment_args" where
  "maker_payment_args env s =
     \<lparr>pa_time_lock = ucast (msd_maker_payment_lock (ms_data s)),
      pa_my_pub = kp_public (ms_my_maker_coin_htlc_keypair s),
      pa_other_pub = ms_other_maker_coin_htlc_pub s,
      pa_secret_hash = se_dhash160 env (msd_secret (ms_data s)),
      pa_amount = ms_maker_amount s,
      pa_swap_contract_address = msd_maker_coin_swap_contract_address (ms_data s)\<rparr>"

definition maker_send_payment :: "swap_env \<Rightarrow> maker_swap \<Rightarrow> maker_step" where
  "maker_send_payment env s =
     (let timeout = msd_started_at (ms_data s) + msd_lock_duration (ms_data s) div 3;
          failed = (\<lambda>err effs. Some (Some MFinish, [MMakerPaymentTransactionFailed err], effs));
          sent = (\<lambda>tx effs. Some (Some MWaitForTakerPayment, [MMakerPaymentSent tx], effs))
      in if timeout < se_now env then failed ''Timeout'' []
         else case hc_check_if_my_payment_sent (se_maker_htlc env) (maker_payment_query env s) of
             Inl err \<Rightarrow> failed err []
           | Inr (Some tx) \<Rightarrow> sent tx []
           | Inr None \<Rightarrow>
               (case hc_send_maker_payment (se_maker_htlc env) (maker_payment_args env s) of
                  Inl err \<Rightarrow> failed (get_plain_text_format err) [SendPaymentTx (maker_payment_args env s)]
                | Inr tx \<Rightarrow> sent tx [SendPaymentTx (maker_payment_args env s)]))"

definition maker_refund_after :: "maker_swap \<Rightarrow> maker_swap_event \<Rightarrow> swap_effect list \<Rightarrow> maker_step" where
  "maker_refund_after s e effs =
     Some (Some MRefundMakerPayment, [e, MMakerPaymentWaitRefundStarted (maker_wait_refund_until s)], effs)"

definition maker_wait_for_taker_payment :: "swap_env \<Rightarrow> maker_swap \<Rightarrow> maker_step" where
  "maker_wait_for_taker_payment env s =
     (case ms_maker_payment s of
        None \<Rightarrow> None
      | Some payment \<Rightarrow>
          let sent = [SwapMessage (MakerPayment (tx_hex payment))];
              data = ms_data s;
              wait = msd_started_at data + msd_lock_duration data * 2 div 5
          in case hc_wait_for_confirmations (se_maker_htlc env)
                    \<lparr>ca_tx = tx_hex payment, ca_confirmations = msd_maker_payment_confirmations data,
                     ca_requires_nota = (msd_maker_payment_requires_nota data = Some True),
                     ca_wait_until = wait\<rparr> of
               Inl err \<Rightarrow> maker_refund_after s
                 (MMakerPaymentWaitConfirmFailed ''!wait for maker payment confirmations'') sent
             | Inr _ \<Rightarrow>
                 (case bind_res (se_taker_payment env) (hc_tx_enum_from_bytes (se_taker_htlc env)) of
                    Inl err \<Rightarrow> maker_refund_after s (MTakerPaymentValidateFailed err) sent
                  | Inr tx \<Rightarrow> Some (Some MValidateTakerPayment,
                      [MTakerPaymentReceived tx, MTakerPaymentWaitConfirmStarted], sent)))"

definition maker_validate_input :: "swap_env \<Rightarrow> maker_swap \<Rightarrow> transaction_identifier \<Rightarrow> validate_payment_input" where
  "maker_validate_input env s payment =
     \<lparr>vp_payment_tx = tx_hex payment, vp_time_lock = ucast (ms_taker_payment_lock s),
      vp_taker_pub = ms_other_taker_coin_htlc_pub s,
      vp_maker_pub = kp_public (ms_my_taker_coin_htlc_keypair s),
      vp_secret_hash = se_dhash160 env (msd_secret (ms_data s)), vp_amount = ms_taker_amount s,
      vp_swap_contract_address = msd_taker_coin_swap_contract_address (ms_data s),
      vp_try_spv_proof_until = msd_started_at (ms_data s) + msd_lock_duration (ms_data s) * 4 div 5,
      vp_confirmations = msd_taker_payment_confirmations (ms_data s)\<rparr>"

definition maker_validate_taker_payment :: "swap_env \<Rightarrow> maker_swap \<Rightarrow> maker_step" where
  "maker_validate_taker_payment env s =
     (case ms_taker_payment s of
        None \<Rightarrow> None
      | Some payment \<Rightarrow>
          let data = ms_data s in
          case hc_wait_for_confirmations (se_taker_htlc env)
                 \<lparr>ca_tx = tx_hex payment, ca_confirmations = msd_taker_payment_confirmations data,
                  ca_requires_nota = (msd_taker_payment_requires_nota data = Some True),
                  ca_wait_until = msd_started_at data + msd_lock_duration data * 4 div 5\<rparr> of
            Inl err \<Rightarrow> maker_refund_after s
              (MTakerPaymentWaitConfirmFailed ''!taker_coin.wait_for_confirmations'') []
          | Inr _ \<Rightarrow>
              (case hc_validate_taker_payment (se_taker_htlc env) (maker_validate_input env s payment) of
                 Inl err \<Rightarrow> maker_refund_after s
                   (MTakerPaymentValidateFailed ''!taker_coin.validate_taker_payment'') []
               | Inr _ \<Rightarrow> Some (Some MSpendTakerPayment, [MTakerPaymentValidatedAndConfirmed], [])))"

definition maker_spend_args :: "maker_swap \<Rightarrow> transaction_identifier \<Rightarrow> spend_args" where
  "maker_spend_args s payment =
     \<lparr>sp_payment_tx = tx_hex payment, sp_time_lock = ucast (ms_taker_payment_lock s),
      sp_other_pub = ms_other_taker_coin_htlc_pub s, sp_secret = msd_secret (ms_data s),
      sp_htlc_privkey = kp_private (ms_my_taker_coin_htlc_keypair s),
      sp_swap_contract_address = msd_taker_coin_swap_contract_address (ms_data s)\<rparr>"

definition maker_spend_taker_payment :: "swap_env \<Rightarrow> maker_swap \<Rightarrow> maker_step" where
  "maker_spend_taker_payment env s =
     (let timeout = msd_started_at (ms_data s) + msd_lock_duration (ms_data s) * 4 div 5 in
      if timeout < se_now env then maker_refund_after s (MTakerPaymentSpendFailed ''Timeout'') []
      else case ms_taker_payment s of
          None \<Rightarrow> None
        | Some payment \<Rightarrow>
            let args = maker_spend_args s payment;
                r = hc_send_maker_spends_taker_payment (se_taker_htlc env) args;
                effs = SpendPaymentTx args # tx_helper (ms_taker_coin s) r
            in case r of
                 Inl err \<Rightarrow> maker_refund_after s
                   (MTakerPaymentSpendFailed ''!taker_coin.send_maker_spends_taker_payment'') effs
               | Inr tx \<Rightarrow> Some (Some MConfirmTakerPaymentSpend,
                   [MTakerPaymentSpent tx, MTakerPaymentSpendConfirmStarted], effs))"

definition maker_confirm_taker_payment_spend :: "swap_env \<Rightarrow> maker_swap \<Rightarrow> maker_step" where
  "maker_confirm_taker_payment_spend env s =
     (case ms_taker_payment_spend s of
        None \<Rightarrow> None
      | Some spend \<Rightarrow>
          (case hc_wait_for_confirmations (se_taker_htlc env)
                  \<lparr>ca_tx = tx_hex spend,
                   ca_confirmations = min 1 (msd_taker_payment_confirmations (ms_data s)),
                   ca_requires_nota = False, ca_wait_until = maker_wait_refund_until s\<rparr> of
             Inl err \<Rightarrow> maker_refund_after s
               (MTakerPaymentSpendConfirmFailed ''!wait for taker payment spend confirmations'') []
           | Inr _ \<Rightarrow> Some (Some MFinish, [MTakerPaymentSpendConfirmed], [])))"

definition maker_refund_args :: "bytes \<Rightarrow> bytes \<Rightarrow> maker_swap \<Rightarrow> refund_args" where
  "maker_refund_args payment_tx secret_hash s =
     \<lparr>rf_payment_tx = payment_tx, rf_time_lock = ucast (msd_maker_payment_lock (ms_data s)),
      rf_other_pub = ms_other_maker_coin_htlc_pub s, rf_secret_hash = secret_hash,
      rf_htlc_privkey = kp_private (ms_my_maker_coin_htlc_keypair s),
      rf_swap_contract_address = msd_maker_coin_swap_contract_address (ms_data s)\<rparr>"

definition maker_refund_maker_payment :: "swap_env \<Rightarrow> maker_swap \<Rightarrow> maker_step" where
  "maker_refund_maker_payment env s =
     (case can_refund_loop
             (\<lambda>n. hc_can_refund_htlc (se_maker_htlc env) n (msd_maker_payment_lock (ms_data s))) 0 of
        None \<Rightarrow> None
      | Some _ \<Rightarrow>
          (case ms_maker_payment s of
             None \<Rightarrow> None
           | Some payment \<Rightarrow>
               let args = maker_refund_args (tx_hex payment) (se_dhash160 env (msd_secret (ms_data s))) s;
                   r = hc_send_maker_refunds_payment (se_maker_htlc env) args;
                   effs = RefundPaymentTx args # tx_helper (ms_maker_coin s) r
               in case r of
                    Inl err \<Rightarrow> Some (Some MFinish,
                      [MMakerPaymentRefundFailed ''!maker_coin.send_maker_refunds_payment''], effs)
                  | Inr tx \<Rightarrow> Some (Some MFinish, [MMakerPaymentRefunded tx], effs)))"

fun maker_handle_command :: "swap_env \<Rightarrow> maker_swap_command \<Rightarrow> maker_swap \<Rightarrow> maker_step" where
  "maker_handle_command env MStart s = maker_start env s"
| "maker_handle_command env MNegotiate s = maker_negotiate env s"
| "maker_handle_command env MWaitForTakerFee s = maker_wait_taker_fee env s"
| "maker_handle_command env MSendPayment s = maker_send_payment env s"
| "maker_handle_command env MWaitForTakerPayment s = maker_wait_for_taker_payment env s"
| "maker_handle_command env MValidateTakerPayment s = maker_validate_taker_payment env s"
| "maker_handle_command env MSpendTakerPayment s = maker_spend_taker_payment env s"
| "maker_handle_command env MConfirmTakerPaymentSpend s = maker_confirm_taker_payment_spend env s"
| "maker_handle_command env MRefundMakerPayment s = maker_refund_maker_payment env s"
| "maker_handle_command env MFinish s = Some (None, [MFinished], [])"

end
