(* ===== verification/SwapRun.thy ===== *)
theory SwapRun
  imports SwapTypes
begin

text \<open>
  The loop that drives a swap. \<open>run_maker_swap\<close> and \<open>run_taker_swap\<close> are the same loop over
  different handlers, so the loop is one definition over a record of what differs: the handler
  of a command, the application, saving and judgement of an event, and the restoration of a swap
  from its journal. The process may be stopped and kick-started at any point. The file lock that
  keeps a second process from running the same swap and the status broadcasts are left out.

  The locale \<open>journalled_swap\<close> states what a swap promises to this loop, and derives once what
  the loop then keeps: the journal replays to the swap, the last event determines the command,
  and each command finds what it relies on.
\<close>

section \<open>The loop\<close>

record ('s, 'c, 'e, 'j) swap_machine =
  sm_handle_command :: "swap_env \<Rightarrow> 'c \<Rightarrow> 's \<Rightarrow> ('c option \<times> 'e list \<times> swap_effect list) option"
  sm_apply_event :: "u64 \<Rightarrow> 'e \<Rightarrow> 's \<Rightarrow> 's"
  sm_save_event :: "u64 \<Rightarrow> 'e \<Rightarrow> 'j \<Rightarrow> 'j"
  sm_should_ban :: "'e \<Rightarrow> bool"
  sm_counterparty :: "'s \<Rightarrow> h256"
  sm_load_from_saved :: "swap_env \<Rightarrow> 'j \<Rightarrow> string + ('s \<times> 'c option)"

text \<open>
  The variables of the loop: the swap, the command, the result of the handler whose events are
  being saved, the journal, the pubkeys reported for a ban, and every call and message so far.
\<close>

record ('s, 'c, 'e, 'j) swap_run =
  run_swap :: 's
  run_command :: "'c option"
  run_result :: "('c option \<times> 'e list) option"
  run_saved :: 'j
  run_bans :: "(h256 \<times> 'e) list"
  run_effects :: "swap_effect list"

definition swap_run_new :: "'c \<Rightarrow> 'j \<Rightarrow> 's \<Rightarrow> ('s, 'c, 'e, 'j) swap_run" where
  "swap_run_new start saved s =
     \<lparr>run_swap = s, run_command = Some start, run_result = None, run_saved = saved,
      run_bans = [], run_effects = []\<rparr>"

definition swap_run_event ::
  "('s, 'c, 'e, 'j) swap_machine \<Rightarrow> swap_env \<Rightarrow> 'e \<Rightarrow> ('s, 'c, 'e, 'j) swap_run \<Rightarrow> ('s, 'c, 'e, 'j) swap_run" where
  "swap_run_event M env e r =
     r\<lparr>run_saved := sm_save_event M (se_now_ms env) e (run_saved r),
       run_bans := run_bans r @ (if sm_should_ban M e then [(sm_counterparty M (run_swap r), e)] else []),
       run_swap := sm_apply_event M (se_now env) e (run_swap r)\<rparr>"

inductive swap_run_step ::
  "('s, 'c, 'e, 'j) swap_machine \<Rightarrow> swap_env \<Rightarrow> ('s, 'c, 'e, 'j) swap_run \<Rightarrow> ('s, 'c, 'e, 'j) swap_run \<Rightarrow> bool"
  for M base where
  handle: "same_node base env \<Longrightarrow> run_result r = None \<Longrightarrow> run_command r = Some c \<Longrightarrow>
    sm_handle_command M env c (run_swap r) = Some (nxt, evs, effs) \<Longrightarrow>
    swap_run_step M base r (r\<lparr>run_result := Some (nxt, evs), run_effects := run_effects r @ effs\<rparr>)"
| event: "same_node base env \<Longrightarrow> run_result r = Some (nxt, e # evs) \<Longrightarrow>
    swap_run_step M base r ((swap_run_event M env e r)\<lparr>run_result := Some (nxt, evs)\<rparr>)"
| proceed: "run_result r = Some (nxt, []) \<Longrightarrow>
    swap_run_step M base r (r\<lparr>run_command := nxt, run_result := None\<rparr>)"
| kick_start: "same_node base env \<Longrightarrow> sm_load_from_saved M env (run_saved r) = Inr (s, Some c) \<Longrightarrow>
    swap_run_step M base r (r\<lparr>run_swap := s, run_command := Some c, run_result := None\<rparr>)"

inductive swap_reach ::
  "('s, 'c, 'e, 'j) swap_machine \<Rightarrow> swap_env \<Rightarrow> ('s, 'c, 'e, 'j) swap_run \<Rightarrow> ('s, 'c, 'e, 'j) swap_run \<Rightarrow> bool"
  for M base r0 where
  init: "swap_reach M base r0 r0"
| step: "swap_reach M base r0 r \<Longrightarrow> swap_run_step M base r r' \<Longrightarrow> swap_reach M base r0 r'"

text \<open>
  The same runs with the history of what the handlers did: the environment that answered, the command
  and the swap of every handler that returned, in order.
\<close>

type_synonym ('s, 'c) handler_log = "(swap_env \<times> 'c \<times> 's) list"

inductive swap_trace ::
  "('s, 'c, 'e, 'j) swap_machine \<Rightarrow> swap_env \<Rightarrow> ('s, 'c, 'e, 'j) swap_run \<Rightarrow> ('s, 'c) handler_log \<Rightarrow>
    ('s, 'c, 'e, 'j) swap_run \<Rightarrow> bool"
  for M base r0 where
  trace_init: "swap_trace M base r0 [] r0"
| trace_handle: "swap_trace M base r0 hist r \<Longrightarrow> same_node base env \<Longrightarrow> run_result r = None \<Longrightarrow> run_command r = Some c \<Longrightarrow>
    sm_handle_command M env c (run_swap r) = Some (nxt, evs, effs) \<Longrightarrow>
    swap_trace M base r0 (hist @ [(env, c, run_swap r)])
      (r\<lparr>run_result := Some (nxt, evs), run_effects := run_effects r @ effs\<rparr>)"
| trace_event: "swap_trace M base r0 hist r \<Longrightarrow> same_node base env \<Longrightarrow> run_result r = Some (nxt, e # evs) \<Longrightarrow>
    swap_trace M base r0 hist ((swap_run_event M env e r)\<lparr>run_result := Some (nxt, evs)\<rparr>)"
| trace_proceed: "swap_trace M base r0 hist r \<Longrightarrow> run_result r = Some (nxt, []) \<Longrightarrow>
    swap_trace M base r0 hist (r\<lparr>run_command := nxt, run_result := None\<rparr>)"
| trace_kick_start: "swap_trace M base r0 hist r \<Longrightarrow> same_node base env \<Longrightarrow>
    sm_load_from_saved M env (run_saved r) = Inr (s, Some c) \<Longrightarrow>
    swap_trace M base r0 hist (r\<lparr>run_swap := s, run_command := Some c, run_result := None\<rparr>)"

lemma swap_trace_reach: "swap_trace M base r0 hist r \<Longrightarrow> swap_reach M base r0 r"
  by (induction rule: swap_trace.induct) (blast intro: swap_reach.intros swap_run_step.intros)+

lemma swap_reach_trace: "swap_reach M base r0 r \<Longrightarrow> \<exists>hist. swap_trace M base r0 hist r"
proof (induction rule: swap_reach.induct)
  case init
  show ?case using trace_init by blast
next
  case (step r r')
  from step.IH obtain hist where h: "swap_trace M base r0 hist r" ..
  from step.hyps(2) show ?case
    by cases (use h trace_handle trace_event trace_proceed trace_kick_start in metis)+
qed

lemma swap_trace_logged:
  "swap_trace M base r0 hist r \<Longrightarrow> (env, c, s) \<in> set hist \<Longrightarrow>
    same_node base env \<and> (\<exists>r'. swap_reach M base r0 r' \<and> run_command r' = Some c \<and> run_swap r' = s)"
  by (induction rule: swap_trace.induct) (auto dest: swap_trace_reach)

text \<open>One iteration and the whole loop, without interruptions.\<close>

definition swap_iterate ::
  "('s, 'c, 'e, 'j) swap_machine \<Rightarrow> swap_env \<Rightarrow> ('s, 'c, 'e, 'j) swap_run \<Rightarrow> ('s, 'c, 'e, 'j) swap_run option" where
  "swap_iterate M env r =
     (case run_command r of
        None \<Rightarrow> Some r
      | Some c \<Rightarrow>
          (case sm_handle_command M env c (run_swap r) of
             None \<Rightarrow> None
           | Some (nxt, evs, effs) \<Rightarrow>
               Some (fold (swap_run_event M env) evs
                 (r\<lparr>run_effects := run_effects r @ effs\<rparr>)\<lparr>run_command := nxt\<rparr>)))"

partial_function (option) swap_drive ::
  "('s, 'c, 'e, 'j) swap_machine \<Rightarrow> (nat \<Rightarrow> swap_env) \<Rightarrow> nat \<Rightarrow> ('s, 'c, 'e, 'j) swap_run \<Rightarrow>
    ('s, 'c, 'e, 'j) swap_run option" where
  "swap_drive M envs n r =
     (if run_command r = None then Some r
      else case swap_iterate M (envs n) r of
          None \<Rightarrow> None
        | Some r' \<Rightarrow> swap_drive M envs (Suc n) r')"

declare swap_drive.simps [code]

lemma swap_run_event_commute:
  "swap_run_event M env e (r\<lparr>run_result := x\<rparr>) = (swap_run_event M env e r)\<lparr>run_result := x\<rparr>"
  "run_result (swap_run_event M env e r) = run_result r"
  by (simp_all add: swap_run_event_def)

lemma fold_swap_run_event:
  "fold (swap_run_event M env) evs (r\<lparr>run_result := x\<rparr>) = (fold (swap_run_event M env) evs r)\<lparr>run_result := x\<rparr>"
  "run_result (fold (swap_run_event M env) evs r) = run_result r"
  by (induction evs arbitrary: r) (simp_all add: swap_run_event_commute)

lemma swap_reach_events:
  assumes "swap_reach M base r0 r" "same_node base env" "run_result r = Some (nxt, evs)"
  shows "swap_reach M base r0 ((fold (swap_run_event M env) evs r)\<lparr>run_command := nxt, run_result := None\<rparr>)"
  using assms
proof (induction evs arbitrary: r)
  case Nil
  then show ?case using swap_reach.step[OF Nil(1) swap_run_step.proceed] by simp
next
  case (Cons e evs)
  have "swap_reach M base r0 ((swap_run_event M env e r)\<lparr>run_result := Some (nxt, evs)\<rparr>)"
    by (rule swap_reach.step[OF Cons.prems(1) swap_run_step.event[OF Cons.prems(2,3)]])
  from Cons.IH[OF this Cons.prems(2)] show ?case by (simp add: fold_swap_run_event)
qed

lemma run_result_same: "run_result r = x \<Longrightarrow> r\<lparr>run_result := x\<rparr> = r"
  by (cases r) simp

lemma swap_iterateE:
  assumes "swap_iterate M env r = Some r'" "run_command r = Some c"
  obtains nxt evs effs where "sm_handle_command M env c (run_swap r) = Some (nxt, evs, effs)"
    "r' = (fold (swap_run_event M env) evs (r\<lparr>run_effects := run_effects r @ effs\<rparr>))\<lparr>run_command := nxt\<rparr>"
  using assms by (auto simp: swap_iterate_def split: option.splits)

lemma swap_reach_iterate:
  assumes "swap_reach M base r0 r" "same_node base env" "run_result r = None" "swap_iterate M env r = Some r'"
  shows "swap_reach M base r0 r' \<and> run_result r' = None"
proof (cases "run_command r")
  case (Some c)
  obtain nxt evs effs where h: "sm_handle_command M env c (run_swap r) = Some (nxt, evs, effs)"
    "r' = (fold (swap_run_event M env) evs (r\<lparr>run_effects := run_effects r @ effs\<rparr>))\<lparr>run_command := nxt\<rparr>"
    by (rule swap_iterateE[OF assms(4) Some])
  let ?q = "r\<lparr>run_effects := run_effects r @ effs\<rparr>"
  have "swap_reach M base r0 (?q\<lparr>run_result := Some (nxt, evs)\<rparr>)"
  proof -
    have "?q\<lparr>run_result := Some (nxt, evs)\<rparr> = r\<lparr>run_result := Some (nxt, evs), run_effects := run_effects r @ effs\<rparr>"
      by simp
    then show ?thesis using swap_reach.step[OF assms(1) swap_run_step.handle[OF assms(2,3) Some h(1)]] by metis
  qed
  from swap_reach_events[OF this assms(2)]
  have "swap_reach M base r0 ((fold (swap_run_event M env) evs ?q)\<lparr>run_command := nxt, run_result := None\<rparr>)"
    by (simp add: fold_swap_run_event(1)[of M env evs _ ?q])
  moreover have "run_result (fold (swap_run_event M env) evs ?q) = None"
    using assms(3) by (simp add: fold_swap_run_event)
  ultimately show ?thesis
    using run_result_same[of "(fold (swap_run_event M env) evs ?q)\<lparr>run_command := nxt\<rparr>" None] unfolding h(2) by simp
qed (use assms in \<open>auto simp: swap_iterate_def\<close>)

lemma can_refund_loop_None_iff:
  "can_refund_loop answer 0 = None \<longleftrightarrow> (\<forall>n. answer n \<noteq> Inr CanRefundNow)"
proof -
  have "\<exists>n. answer n = Inr CanRefundNow" if "can_refund_loop answer 0 = Some j" for j
    using can_refund_loop_SomeD[OF that] by blast
  moreover have "\<exists>j. can_refund_loop answer 0 = Some j" if "answer n = Inr CanRefundNow" for n
    using can_refund_loop_returns[of answer n 0, OF that] by simp
  ultimately show ?thesis by (metis not_None_eq)
qed

section \<open>Replay of a journal\<close>

definition replay :: "('s, 'c, 'e, 'j) swap_machine \<Rightarrow> u64 \<Rightarrow> 'e list \<Rightarrow> 's \<Rightarrow> 's" where
  "replay M now evs s = fold (sm_apply_event M now) evs s"

lemma replay_simps [simp]:
  "replay M now [] s = s"
  "replay M now (e # evs) s = replay M now evs (sm_apply_event M now e s)"
  "replay M now (evs @ [e]) s = sm_apply_event M now e (replay M now evs s)"
  by (simp_all add: replay_def)

lemma replay_flag:
  assumes "\<And>e s. P (sm_apply_event M now e s) \<longleftrightarrow> Q e \<or> P s"
  shows "P (replay M now evs s) \<longleftrightarrow> (\<exists>e \<in> set evs. Q e) \<or> P s"
  by (induction evs arbitrary: s) (auto simp: assms)

lemma replay_field:
  assumes "\<And>e s. F (sm_apply_event M now e s) = Some x \<Longrightarrow> e = K x \<or> F s = Some x"
  shows "F (replay M now evs s) = Some x \<Longrightarrow> K x \<in> set evs \<or> F s = Some x"
  by (induction evs arbitrary: s) (auto dest: assms)

lemma replay_static:
  assumes "\<And>e s. F (sm_apply_event M now e s) = F s"
  shows "F (replay M now evs s) = F s"
  by (induction evs arbitrary: s) (simp_all add: assms)

section \<open>What a swap promises to the loop\<close>

text \<open>
  The events a handler returns are acceptable if each of them, once saved, leads a restored swap
  to the command the handler returned (or is a last event marked as diverging), and leaves both
  commands with what they rely on.
\<close>

fun batch_ok ::
  "('s, 'c, 'e, 'j) swap_machine \<Rightarrow> ('e \<Rightarrow> 'c option) \<Rightarrow> ('c option \<Rightarrow> 's \<Rightarrow> bool) \<Rightarrow> 'c \<Rightarrow> ('e \<Rightarrow> bool) \<Rightarrow>
    'c option \<Rightarrow> 's \<Rightarrow> 'e list \<Rightarrow> bool" where
  "batch_ok M get pre finish diverges nxt s [] = True"
| "batch_ok M get pre finish diverges nxt s (e # es) =
     ((get e = nxt \<or> diverges e \<and> nxt = Some finish) \<and> (nxt = Some finish \<longrightarrow> es = [])
      \<and> (\<forall>now. pre (get e) (sm_apply_event M now e s) \<and> pre nxt (sm_apply_event M now e s)
           \<and> batch_ok M get pre finish diverges nxt (sm_apply_event M now e s) es))"

lemma batch_ok_ConsD:
  assumes "batch_ok M get pre finish diverges nxt s (e # es)"
  shows "get e = nxt \<or> diverges e \<and> nxt = Some finish" "nxt = Some finish \<Longrightarrow> es = []"
    "pre (get e) (sm_apply_event M now e s)"
    "batch_ok M get pre finish diverges nxt (sm_apply_event M now e s) es"
  using assms unfolding batch_ok.simps by blast+

definition no_payment :: "swap_effect list \<Rightarrow> bool" where
  "no_payment effs = (\<forall>a. SendPaymentTx a \<notin> set effs)"

locale journalled_swap =
  fixes M :: "('s, 'c, 'e, 'j) swap_machine" and journal :: "'j \<Rightarrow> 'e list" and get_command :: "'e \<Rightarrow> 'c option"
    and start finish pay :: 'c and finished :: 'e and base :: swap_env and s0 :: 's and j0 :: 'j
    and saved_ok :: "'j \<Rightarrow> bool" and restored :: "'s \<Rightarrow> 's" and pre :: "'c option \<Rightarrow> 's \<Rightarrow> bool"
    and early :: "'c option \<Rightarrow> bool" and started start_ok abort diverges :: "'e \<Rightarrow> bool"
  assumes apply_now: "e \<noteq> finished \<Longrightarrow> sm_apply_event M now e s = sm_apply_event M now' e s"
    and apply_restored: "sm_apply_event M now e (restored s) = restored (sm_apply_event M now e s)"
    and restored_restored: "restored (restored s) = restored s"
    and pre_restored: "pre nxt (restored s) = pre nxt s"
    and pre_trivial: "pre (Some start) s" "pre (Some finish) s" "pre None s"
    and get_None: "get_command e = None \<longleftrightarrow> e = finished"
    and get_start: "get_command e \<noteq> Some start"
    and kinds: "early (Some start)" "\<not> early (Some finish)" "\<not> early (Some pay)" "pay \<noteq> finish" "start \<noteq> finish"
    and abort_get: "abort e \<Longrightarrow> get_command e = Some finish"
    and diverges_get: "diverges e \<Longrightarrow> e \<noteq> finished \<and> \<not> early (get_command e)"
    and new_saved: "journal j0 = []" "saved_ok j0"
    and save: "journal (sm_save_event M t e j) = journal j @ [e]" "saved_ok j \<Longrightarrow> saved_ok (sm_save_event M t e j)"
    and load: "same_node base env \<Longrightarrow> saved_ok j \<Longrightarrow> list_all start_ok (journal j) \<Longrightarrow> journal j = e # es \<Longrightarrow>
      started e \<Longrightarrow>
      sm_load_from_saved M env j = Inr (restored (replay M (se_now env) (journal j) s0), get_command (last (journal j)))"
    and load_started: "sm_load_from_saved M env j = Inr r \<Longrightarrow> \<exists>e es. journal j = e # es \<and> started e"
    and handle_batch: "sm_handle_command M env c s = Some (nxt, evs, effs) \<Longrightarrow> pre (Some c) s \<Longrightarrow>
      evs \<noteq> [] \<and> batch_ok M get_command pre finish diverges nxt s evs"
    and handle_pays: "sm_handle_command M env c s = Some (nxt, evs, effs) \<Longrightarrow> SendPaymentTx a \<in> set effs \<Longrightarrow> c = pay"
    and handle_aborts: "sm_handle_command M env c s = Some (nxt, evs, effs) \<Longrightarrow> list_ex abort evs \<Longrightarrow>
      early (Some c) \<and> nxt = Some finish"
    and handle_early: "sm_handle_command M env c s = Some (nxt, evs, effs) \<Longrightarrow> early nxt \<Longrightarrow> early (Some c)"
    and handle_finished: "sm_handle_command M env c s = Some (nxt, evs, effs) \<Longrightarrow> finished \<in> set evs \<Longrightarrow>
      c = finish \<and> evs = [finished]"
    and handle_finish: "sm_handle_command M env finish s = Some (nxt, evs, effs) \<Longrightarrow> nxt = None"
    and handle_start_ok: "sm_handle_command M env c s = Some (nxt, evs, effs) \<Longrightarrow> same_node base env \<Longrightarrow>
      (c = start \<Longrightarrow> s = s0) \<Longrightarrow> list_all start_ok evs"
begin

definition resume :: "'e list \<Rightarrow> 'c option" where
  "resume evs = (if evs = [] then Some start else get_command (last evs))"

text \<open>The command a run is at agrees with its journal, unless the last event diverges.\<close>

definition agrees :: "'e list \<Rightarrow> 'c option \<Rightarrow> bool" where
  "agrees evs c = (c = resume evs \<or> c = Some finish \<and> evs \<noteq> [] \<and> diverges (last evs))"

definition closing :: "'e \<Rightarrow> bool" where
  "closing e = (get_command e = Some finish)"

definition result_ok :: "('s, 'c, 'e, 'j) swap_run \<Rightarrow> bool" where
  "result_ok r =
     (let J = journal (run_saved r) in
      case run_result r of
        None \<Rightarrow> agrees J (run_command r)
      | Some (nxt, evs) \<Rightarrow>
          (agrees J (run_command r) \<or> agrees J nxt)
          \<and> (evs = [] \<longrightarrow> agrees J nxt)
          \<and> batch_ok M get_command pre finish diverges nxt (run_swap r) evs
          \<and> list_all start_ok evs
          \<and> (finished \<in> set evs \<longrightarrow> evs = [finished])
          \<and> (evs \<noteq> [] \<longrightarrow> finished \<notin> set J)
          \<and> (early nxt \<longrightarrow> no_payment (run_effects r))
          \<and> (list_ex abort evs \<longrightarrow> no_payment (run_effects r) \<and> nxt = Some finish)
          \<and> (list_ex closing J \<longrightarrow> nxt = None \<or> nxt = Some finish \<and> evs = []))"

definition run_inv :: "('s, 'c, 'e, 'j) swap_run \<Rightarrow> bool" where
  "run_inv r =
     (let J = journal (run_saved r) in
      saved_ok (run_saved r)
      \<and> list_all start_ok J
      \<and> (\<exists>now. run_swap r = replay M now J s0 \<or> J \<noteq> [] \<and> run_swap r = restored (replay M now J s0))
      \<and> pre (resume J) (run_swap r)
      \<and> (finished \<in> set J \<longrightarrow> resume J = None)
      \<and> (early (resume J) \<longrightarrow> no_payment (run_effects r))
      \<and> (list_ex abort J \<longrightarrow> no_payment (run_effects r))
      \<and> (list_ex closing J \<longrightarrow> resume J \<in> {Some finish, None})
      \<and> result_ok r)"

lemma resume_simps:
  "resume evs = Some start \<longleftrightarrow> evs = []"
  "resume evs = None \<longleftrightarrow> evs \<noteq> [] \<and> last evs = finished"
  "resume (evs @ [e]) = get_command e"
  by (auto simp: resume_def get_None get_start)

lemma agrees_None: "agrees J None \<longleftrightarrow> J \<noteq> [] \<and> last J = finished"
  by (simp add: agrees_def resume_simps eq_commute[of None])

lemma replay_now: "finished \<notin> set evs \<Longrightarrow> replay M now evs s = replay M now' evs s"
  by (induction evs arbitrary: s) (auto simp: apply_now[of _ now _ now'])

lemma abort_closing: "list_ex abort evs \<Longrightarrow> list_ex closing evs"
  unfolding list_ex_iff closing_def using abort_get by blast

lemma inv_swap:
  assumes "run_inv r" "finished \<notin> set (journal (run_saved r))"
  shows "run_swap r = replay M now (journal (run_saved r)) s0
    \<or> journal (run_saved r) \<noteq> [] \<and> run_swap r = restored (replay M now (journal (run_saved r)) s0)"
proof -
  obtain t where t: "run_swap r = replay M t (journal (run_saved r)) s0
      \<or> journal (run_saved r) \<noteq> [] \<and> run_swap r = restored (replay M t (journal (run_saved r)) s0)"
    using assms(1) by (auto simp: run_inv_def Let_def)
  then show ?thesis by (subst (asm) (1 2) replay_now[OF assms(2), of t s0 now]) 
qed

lemma inv_command:
  assumes "run_inv r" "run_result r = None" "run_command r = Some c"
  shows "pre (Some c) (run_swap r)"
    "finished \<notin> set (journal (run_saved r))"
    "list_ex closing (journal (run_saved r)) \<Longrightarrow> c = finish"
    "early (Some c) \<Longrightarrow> no_payment (run_effects r)"
    "c = start \<Longrightarrow> run_swap r = s0"
proof -
  let ?J = "journal (run_saved r)"
  have a: "agrees ?J (Some c)" and inv: "pre (resume ?J) (run_swap r)" "finished \<in> set ?J \<longrightarrow> resume ?J = None"
    "list_ex closing ?J \<longrightarrow> resume ?J \<in> {Some finish, None}" "early (resume ?J) \<longrightarrow> no_payment (run_effects r)"
    using assms by (auto simp: run_inv_def result_ok_def Let_def)
  show "pre (Some c) (run_swap r)" using a inv(1) pre_trivial by (auto simp: agrees_def)
  show "finished \<notin> set ?J"
    using a inv(2) diverges_get resume_simps(2)[of ?J] by (auto simp: agrees_def)
  show "list_ex closing ?J \<Longrightarrow> c = finish" using a inv(3) by (auto simp: agrees_def)
  show "early (Some c) \<Longrightarrow> no_payment (run_effects r)" using a inv(4) kinds by (auto simp: agrees_def)
  show "c = start \<Longrightarrow> run_swap r = s0"
    using a kinds resume_simps(1)[of ?J] assms(1) by (auto simp: agrees_def run_inv_def Let_def)
qed

lemma inv_init: "run_inv (swap_run_new start j0 s0)"
  by (simp add: run_inv_def result_ok_def swap_run_new_def new_saved resume_def agrees_def no_payment_def
      pre_trivial)

lemma inv_handle:
  assumes inv: "run_inv r" and env: "same_node base env"
    and r: "run_result r = None" "run_command r = Some c"
    and h: "sm_handle_command M env c (run_swap r) = Some (nxt, evs, effs)"
  shows "run_inv (r\<lparr>run_result := Some (nxt, evs), run_effects := run_effects r @ effs\<rparr>)"
proof -
  let ?J = "journal (run_saved r)" and ?r = "r\<lparr>run_result := Some (nxt, evs), run_effects := run_effects r @ effs\<rparr>"
  note C = inv_command[OF inv r]
  have early: "no_payment (run_effects r @ effs)" if "early (Some c)"
    using C(4)[OF that] handle_pays[OF h] that kinds(3) by (auto simp: no_payment_def)
  have close: "no_payment (run_effects r @ effs)" if "list_ex closing ?J" "no_payment (run_effects r)"
    using that C(3) handle_pays[OF h] kinds(4) by (auto simp: no_payment_def)
  have agr: "agrees ?J (Some c)" using inv r by (auto simp: run_inv_def result_ok_def Let_def)
  have fin: "nxt = None" if "list_ex closing ?J" using that C(3) handle_finish h by blast
  have "result_ok ?r"
    using handle_batch[OF h C(1)] handle_start_ok[OF h env C(5)] C(2) agr early fin handle_finished[OF h]
      handle_early[OF h] handle_aborts[OF h] r
    by (auto simp: result_ok_def Let_def)
  moreover have "no_payment (run_effects r @ effs)" if "early (resume ?J)"
    using that agr early diverges_get[of "last ?J"] by (cases "?J = []") (auto simp: agrees_def resume_def)
  ultimately show ?thesis
    using inv close abort_closing by (auto simp: run_inv_def Let_def)
qed

lemma inv_event:
  assumes inv: "run_inv r" and r: "run_result r = Some (nxt, e # evs)"
  shows "run_inv ((swap_run_event M env e r)\<lparr>run_result := Some (nxt, evs)\<rparr>)"
proof -
  let ?J = "journal (run_saved r)" and ?r = "(swap_run_event M env e r)\<lparr>run_result := Some (nxt, evs)\<rparr>"
  let ?s = "sm_apply_event M (se_now env) e (run_swap r)"
  have R: "get_command e = nxt \<or> diverges e \<and> nxt = Some finish" "start_ok e" "finished \<notin> set ?J"
    "pre (get_command e) ?s" "batch_ok M get_command pre finish diverges nxt ?s evs"
    "e = finished \<Longrightarrow> evs = []" "finished \<in> set evs \<Longrightarrow> evs = []"
    "list_all start_ok evs" "early nxt \<Longrightarrow> no_payment (run_effects r)"
    "abort e \<or> list_ex abort evs \<Longrightarrow> no_payment (run_effects r) \<and> nxt = Some finish"
    "list_ex closing ?J \<Longrightarrow> nxt = None" "nxt = Some finish \<Longrightarrow> evs = []"
  proof -
    have "result_ok r" using inv by (simp add: run_inv_def Let_def)
    note res = this[unfolded result_ok_def Let_def r option.case prod.case]
    then have b: "batch_ok M get_command pre finish diverges nxt (run_swap r) (e # evs)" by blast
    show "get_command e = nxt \<or> diverges e \<and> nxt = Some finish" "pre (get_command e) ?s"
      "batch_ok M get_command pre finish diverges nxt ?s evs" "nxt = Some finish \<Longrightarrow> evs = []"
      by (fact batch_ok_ConsD[OF b])+
    from res have "list_all start_ok (e # evs)" "finished \<in> set (e # evs) \<longrightarrow> e # evs = [finished]"
      "finished \<notin> set ?J" "early nxt \<longrightarrow> no_payment (run_effects r)"
      "list_ex abort (e # evs) \<longrightarrow> no_payment (run_effects r) \<and> nxt = Some finish"
      "list_ex closing ?J \<longrightarrow> nxt = None" by blast+
    then show "start_ok e" "finished \<notin> set ?J" "e = finished \<Longrightarrow> evs = []" "finished \<in> set evs \<Longrightarrow> evs = []"
      "list_all start_ok evs" "early nxt \<Longrightarrow> no_payment (run_effects r)"
      "abort e \<or> list_ex abort evs \<Longrightarrow> no_payment (run_effects r) \<and> nxt = Some finish"
      "list_ex closing ?J \<Longrightarrow> nxt = None"
      by auto
  qed
  have I: "saved_ok (run_saved r)" "list_all start_ok ?J" "list_ex abort ?J \<Longrightarrow> no_payment (run_effects r)"
    using inv by (auto simp: run_inv_def Let_def)
  have F: "run_swap ?r = ?s" "run_effects ?r = run_effects r" "run_result ?r = Some (nxt, evs)"
    "journal (run_saved ?r) = ?J @ [e]" "saved_ok (run_saved ?r)" "run_command ?r = run_command r"
    using save(2)[OF I(1)] by (simp_all add: swap_run_event_def save(1))
  have X: "\<exists>now. ?s = replay M now (?J @ [e]) s0 \<or> ?J @ [e] \<noteq> [] \<and> ?s = restored (replay M now (?J @ [e]) s0)"
    using inv_swap[OF inv R(3), of "se_now env"] by (auto simp: apply_restored)
  have agr: "agrees (?J @ [e]) nxt"
    using R(1) by (auto simp: agrees_def resume_simps)
  have N: "finished \<in> set (?J @ [e]) \<Longrightarrow> get_command e = None" using R(3) get_None by auto
  have E: "early (get_command e) \<Longrightarrow> no_payment (run_effects r)" using R(1,9) diverges_get by blast
  have A: "list_ex abort (?J @ [e]) \<Longrightarrow> no_payment (run_effects r)" using R(10) I(3) by auto
  have Cl: "list_ex closing (?J @ [e]) \<Longrightarrow> get_command e \<in> {Some finish, None}"
    using R(1,11) by (auto simp: closing_def)
  have nf: "finished \<notin> set evs" using R(7) by (cases evs) auto
  have "result_ok ?r"
    unfolding result_ok_def Let_def F option.case prod.case
  proof (intro conjI)
    show "list_ex closing (?J @ [e]) \<longrightarrow> nxt = None \<or> nxt = Some finish \<and> evs = []"
      using R(1,11,12) by (auto simp: closing_def)
    show "evs \<noteq> [] \<longrightarrow> finished \<notin> set (?J @ [e])" using R(3,6) by auto
  qed (use agr nf R(5,8-10) in simp_all)
  then show ?thesis
    unfolding run_inv_def Let_def F resume_simps(3)
    using F(5) I(2) R(2,4) X N E A Cl by simp
qed

lemma inv_load:
  assumes inv: "run_inv r" and env: "same_node base env"
    and load': "sm_load_from_saved M env (run_saved r) = Inr (s, c)"
  shows "s = restored (replay M (se_now env) (journal (run_saved r)) s0)" "c = resume (journal (run_saved r))"
    "journal (run_saved r) \<noteq> []"
proof -
  obtain e es where J: "journal (run_saved r) = e # es" "started e" using load_started[OF load'] by blast
  have "saved_ok (run_saved r)" "list_all start_ok (journal (run_saved r))"
    using inv by (auto simp: run_inv_def Let_def)
  from load[OF env this J] load' J(1)
  show "s = restored (replay M (se_now env) (journal (run_saved r)) s0)" "c = resume (journal (run_saved r))"
    "journal (run_saved r) \<noteq> []"
    by (auto simp: resume_def)
qed

lemma inv_kick_start:
  assumes inv: "run_inv r" and env: "same_node base env"
    and l: "sm_load_from_saved M env (run_saved r) = Inr (s, Some c)"
  shows "run_inv (r\<lparr>run_swap := s, run_command := Some c, run_result := None\<rparr>)"
proof -
  let ?J = "journal (run_saved r)"
  note L = inv_load[OF inv env l]
  have "finished \<notin> set ?J" using inv L(2) by (auto simp: run_inv_def Let_def)
  from inv_swap[OF inv this, of "se_now env"] have "pre (Some c) s"
    using inv L pre_restored by (auto simp: run_inv_def Let_def)
  then show ?thesis
    using inv L by (auto simp: run_inv_def result_ok_def agrees_def Let_def)
qed

lemma reach_inv: "swap_reach M base (swap_run_new start j0 s0) r \<Longrightarrow> run_inv r"
proof (induction rule: swap_reach.induct)
  case init
  show ?case by (rule inv_init)
next
  case (step r r')
  from step.hyps(2) step.IH show ?case
  proof cases
    case (proceed nxt)
    then show ?thesis using step.IH by (auto simp: run_inv_def result_ok_def Let_def)
  next
    case (handle env c nxt evs effs)
    then show ?thesis using inv_handle[OF step.IH] by simp
  next
    case (event env nxt e evs)
    then show ?thesis using inv_event[OF step.IH] by simp
  next
    case (kick_start env s c)
    then show ?thesis using inv_kick_start[OF step.IH] by simp
  qed
qed

lemma restart:
  assumes "swap_reach M base (swap_run_new start j0 s0) r" "same_node base env"
    and J: "journal (run_saved r) = e # es" "started e" "finished \<notin> set (e # es)"
  shows "\<exists>s c. sm_load_from_saved M env (run_saved r) = Inr (s, Some c)
    \<and> s = restored (run_swap r)
    \<and> (run_command r = Some c \<or> (\<exists>evs. run_result r = Some (Some c, evs)) 
      \<or> diverges (last (e # es)) \<and> get_command (last (e # es)) = Some c)"
proof -
  have inv: "run_inv r" by (rule reach_inv[OF assms(1)])
  have "saved_ok (run_saved r)" "list_all start_ok (journal (run_saved r))"
    using inv by (auto simp: run_inv_def Let_def)
  note L = load[OF assms(2) this J(1,2)]
  have "get_command (last (e # es)) \<noteq> None"
    unfolding get_None using J(3) last_in_set by (metis list.distinct(1))
  then obtain c where c: "get_command (last (e # es)) = Some c" by auto
  have "run_command r = Some c \<or> (\<exists>evs. run_result r = Some (Some c, evs))
      \<or> diverges (last (e # es)) \<and> get_command (last (e # es)) = Some c"
  proof -
    have "result_ok r" using inv by (simp add: run_inv_def Let_def)
    then have "agrees (e # es) (run_command r) \<or> (\<exists>nxt evs. run_result r = Some (nxt, evs) \<and> agrees (e # es) nxt)"
      using J(1) by (cases "run_result r") (auto simp: result_ok_def Let_def)
    then show ?thesis using c by (auto simp: agrees_def resume_def simp del: last.simps)
  qed
  moreover have "restored (run_swap r) = restored (replay M (se_now env) (e # es) s0)"
    using inv_swap[OF inv, of "se_now env"] J restored_restored by auto
  ultimately show ?thesis using L c J(1) by auto
qed

lemma aborted_without_payment:
  assumes "swap_reach M base (swap_run_new start j0 s0) r" "SendPaymentTx a \<in> set (run_effects r)"
  shows "\<not> list_ex abort (journal (run_saved r))"
  using reach_inv[OF assms(1)] assms(2) by (auto simp: run_inv_def no_payment_def Let_def)

lemma journal_start_ok:
  "swap_reach M base (swap_run_new start j0 s0) r \<Longrightarrow> list_all start_ok (journal (run_saved r))"
  using reach_inv by (auto simp: run_inv_def Let_def)

lemma reach_swap:
  "swap_reach M base (swap_run_new start j0 s0) r \<Longrightarrow>
    \<exists>now. run_swap r = replay M now (journal (run_saved r)) s0
      \<or> run_swap r = restored (replay M now (journal (run_saved r)) s0)"
  using reach_inv by (fastforce simp: run_inv_def Let_def)

text \<open>
  Where a state of a run comes from: a handler of the history returned the events \<open>evs0 @ rest\<close>, and the
  swap is the one the handler was called on after the events \<open>evs0\<close>.
\<close>

definition produced :: "('s, 'c) handler_log \<Rightarrow> 'e list \<Rightarrow> 'c option \<Rightarrow> 'e list \<Rightarrow> 's \<Rightarrow> bool" where
  "produced hist evs nxt rest s =
     (\<exists>env c s1 effs now. (env, c, s1) \<in> set hist \<and> same_node base env
        \<and> sm_handle_command M env c s1 = Some (nxt, evs @ rest, effs)
        \<and> (s = replay M now evs s1 \<or> s = restored (replay M now evs s1)))"

definition trace_inv :: "('s, 'c) handler_log \<Rightarrow> ('s, 'c, 'e, 'j) swap_run \<Rightarrow> bool" where
  "trace_inv hist r =
     (let J = journal (run_saved r) in finished \<notin> set J \<longrightarrow>
        (J \<noteq> [] \<longrightarrow> (\<exists>evs nxt rest. evs \<noteq> [] \<and> last evs = last J \<and> produced hist evs nxt rest (run_swap r)))
        \<and> (\<forall>nxt rest. run_result r = Some (nxt, rest) \<longrightarrow> (\<exists>evs. produced hist evs nxt rest (run_swap r))))"

lemma produced_mono: "produced hist evs nxt rest s \<Longrightarrow> produced (hist @ [x]) evs nxt rest s"
  unfolding produced_def by auto

lemma produced_event:
  assumes "produced hist evs nxt (e # rest) s" "e \<noteq> finished"
  shows "produced hist (evs @ [e]) nxt rest (sm_apply_event M now e s)"
proof -
  obtain env c s1 effs now' where p: "(env, c, s1) \<in> set hist" "same_node base env"
      "sm_handle_command M env c s1 = Some (nxt, evs @ e # rest, effs)"
      "s = replay M now' evs s1 \<or> s = restored (replay M now' evs s1)"
    using assms(1) unfolding produced_def by blast
  then show ?thesis
    unfolding produced_def apply_now[OF assms(2), of now s now']
    by (intro exI[of _ env] exI[of _ c] exI[of _ s1] exI[of _ effs] exI[of _ now']) (auto simp: apply_restored)
qed

lemma produced_restored: "produced hist evs nxt rest s \<Longrightarrow> produced hist evs nxt rest (restored s)"
  unfolding produced_def using restored_restored by metis

lemma trace_reach_inv: "swap_trace M base (swap_run_new start j0 s0) hist r \<Longrightarrow> trace_inv hist r"
proof (induction rule: swap_trace.induct)
  case trace_init
  then show ?case by (simp add: trace_inv_def swap_run_new_def new_saved)
next
  case (trace_handle hist r env c nxt evs effs)
  have now: "produced (hist @ [(env, c, run_swap r)]) [] nxt evs (run_swap r)"
    using trace_handle.hyps unfolding produced_def
    by (intro exI[of _ env] exI[of _ c] exI[of _ "run_swap r"] exI[of _ effs]) simp
  have "\<exists>evs nxt rest. evs \<noteq> [] \<and> last evs = last (journal (run_saved r))
      \<and> produced (hist @ [(env, c, run_swap r)]) evs nxt rest (run_swap r)"
    if "finished \<notin> set (journal (run_saved r))" "journal (run_saved r) \<noteq> []"
    using trace_handle.IH that produced_mono[of hist] unfolding trace_inv_def Let_def by blast
  with now show ?case by (auto simp: trace_inv_def Let_def)
next
  case (trace_event hist r env nxt e evs)
  show ?case
  proof (cases "finished \<in> set (journal (run_saved r) @ [e])")
    case False
    then obtain evs0 where "produced hist evs0 nxt (e # evs) (run_swap r)" "e \<noteq> finished"
      using trace_event.IH trace_event.hyps(3) by (auto simp: trace_inv_def Let_def)
    then have "produced hist (evs0 @ [e]) nxt evs (sm_apply_event M (se_now env) e (run_swap r))" by (rule produced_event)
    then show ?thesis
      unfolding trace_inv_def Let_def swap_run_event_def
      by (simp add: save(1)) (metis last_snoc snoc_eq_iff_butlast)
  qed (simp add: trace_inv_def swap_run_event_def save(1))
next
  case (trace_proceed hist r nxt)
  then show ?case by (simp add: trace_inv_def Let_def)
next
  case (trace_kick_start hist r env s c)
  show ?case
  proof (cases "finished \<in> set (journal (run_saved r))")
    case False
    have inv: "run_inv r" by (rule reach_inv[OF swap_trace_reach[OF trace_kick_start.hyps(1)]])
    have "s = restored (run_swap r)"
      using inv_load(1)[OF inv trace_kick_start.hyps(2,3)] inv_swap[OF inv False, of "se_now env"] restored_restored by auto
    moreover have "\<exists>evs nxt rest. evs \<noteq> [] \<and> last evs = last (journal (run_saved r))
        \<and> produced hist evs nxt rest (restored (run_swap r))" if "journal (run_saved r) \<noteq> []"
      using trace_kick_start.IH that False produced_restored[of hist] unfolding trace_inv_def Let_def by blast
    ultimately show ?thesis by (simp add: trace_inv_def)
  qed (simp add: trace_inv_def)
qed

lemma trace_command:
  assumes "swap_trace M base (swap_run_new start j0 s0) hist r" "run_result r = None" "run_command r = Some c"
    and "c \<noteq> start" "c \<noteq> finish"
  obtains env c1 s1 evs nxt rest effs now where "(env, c1, s1) \<in> set hist" "same_node base env"
    "sm_handle_command M env c1 s1 = Some (nxt, evs @ rest, effs)" "evs \<noteq> []" "get_command (last evs) = Some c"
    "run_swap r = replay M now evs s1 \<or> run_swap r = restored (replay M now evs s1)"
proof -
  let ?J = "journal (run_saved r)"
  note inv = reach_inv[OF swap_trace_reach[OF assms(1)]]
  have "Some c = resume ?J" using inv assms(2,3,5) by (auto simp: run_inv_def result_ok_def agrees_def Let_def)
  then have J: "?J \<noteq> []" "get_command (last ?J) = Some c" using assms(4) by (auto simp: resume_def split: if_splits)
  then obtain evs nxt rest where "evs \<noteq> []" "last evs = last ?J" "produced hist evs nxt rest (run_swap r)"
    using trace_reach_inv[OF assms(1)] inv_command(2)[OF inv assms(2,3)] by (auto simp: trace_inv_def Let_def)
  with J(2) show ?thesis using that unfolding produced_def by metis
qed

lemma drive_returns:
  fixes rank :: "'c option \<Rightarrow> nat"
  assumes rank: "\<And>env c s nxt evs effs. sm_handle_command M env c s = Some (nxt, evs, effs) \<Longrightarrow>
      rank (Some c) < rank nxt" "\<And>c. rank c \<le> bound"
    and env: "\<And>n. same_node base (envs n)"
    and returns: "\<And>n r c. swap_reach M base (swap_run_new start j0 s0) r \<Longrightarrow> run_result r = None \<Longrightarrow>
      run_command r = Some c \<Longrightarrow> sm_handle_command M (envs n) c (run_swap r) \<noteq> None"
  shows "\<exists>r. swap_drive M envs 0 (swap_run_new start j0 s0) = Some r
    \<and> swap_reach M base (swap_run_new start j0 s0) r \<and> run_command r = None
    \<and> journal (run_saved r) \<noteq> [] \<and> last (journal (run_saved r)) = finished"
proof -
  let ?r0 = "swap_run_new start j0 s0"
  have drive: "\<exists>r'. swap_drive M envs n r = Some r' \<and> swap_reach M base ?r0 r' \<and> run_command r' = None
      \<and> run_result r' = None"
    if "swap_reach M base ?r0 r" "run_result r = None" for n r
    using that
  proof (induction "bound - rank (run_command r)" arbitrary: n r rule: less_induct)
    case less
    show ?case
    proof (cases "run_command r")
      case None
      then show ?thesis using less.prems by (subst swap_drive.simps) simp
    next
      case (Some c)
      obtain r' where r': "swap_iterate M (envs n) r = Some r'"
        using returns[OF less.prems Some, of n] Some by (auto simp: swap_iterate_def)
      obtain nxt evs effs where h: "sm_handle_command M (envs n) c (run_swap r) = Some (nxt, evs, effs)"
          "run_command r' = nxt"
        by (rule swap_iterateE[OF r' Some]) auto
      have "rank (run_command r) < rank (run_command r')" using rank(1)[OF h(1)] h(2) Some by simp
      then have "bound - rank (run_command r') < bound - rank (run_command r)"
        using rank(2)[of "run_command r'"] by linarith
      from less.hyps[OF this] swap_reach_iterate[OF less.prems(1) env less.prems(2) r'] Some r'
      show ?thesis by (subst swap_drive.simps) simp
    qed
  qed
  have "run_result ?r0 = None" by (simp add: swap_run_new_def)
  from drive[OF swap_reach.init this, of 0]
  obtain r where r: "swap_drive M envs 0 ?r0 = Some r" "swap_reach M base ?r0 r" "run_command r = None"
      "run_result r = None" by blast
  have "result_ok r" using reach_inv[OF r(2)] by (simp add: run_inv_def Let_def)
  then have "agrees (journal (run_saved r)) None" using r(3,4) by (simp add: result_ok_def Let_def)
  then show ?thesis using r by (simp add: agrees_None)
qed

end

end
