(* ===== verification/MakerSwapRun.thy ===== *)
theory MakerSwapRun
  imports MakerSwap SwapRun
begin

text \<open>
  The journal of a maker swap, its restoration, the recovery of funds, the amounts a swap locks,
  and its instance of the loop that drives it (\<open>run_maker_swap\<close>). The fields of \<open>MakerSavedSwap\<close>
  that only describe the program (\<open>gui\<close>, \<open>mm_version\<close>, the names of events) are left out.
\<close>

section \<open>The journal\<close>

record maker_saved_event =
  mse_timestamp :: u64
  mse_event :: maker_swap_event

record maker_saved_swap =
  mss_uuid :: uuid
  mss_my_order_uuid :: "uuid option"
  mss_events :: "maker_saved_event list"
  mss_maker_amount :: "mm_number option"
  mss_maker_coin :: "ticker option"
  mss_taker_amount :: "mm_number option"
  mss_taker_coin :: "ticker option"

definition mss_journal :: "maker_saved_swap \<Rightarrow> maker_swap_event list" where
  "mss_journal saved = map mse_event (mss_events saved)"

definition maker_is_finished :: "maker_saved_swap \<Rightarrow> bool" where
  "maker_is_finished saved = (mss_journal saved \<noteq> [] \<and> last (mss_journal saved) = MFinished)"

fun maker_unrecoverable_event :: "maker_swap_event \<Rightarrow> bool" where
  "maker_unrecoverable_event (MStartFailed _) = True"
| "maker_unrecoverable_event (MNegotiateFailed _) = True"
| "maker_unrecoverable_event (MTakerFeeValidateFailed _) = True"
| "maker_unrecoverable_event MTakerPaymentSpendConfirmed = True"
| "maker_unrecoverable_event (MMakerPaymentRefunded _) = True"
| "maker_unrecoverable_event _ = False"

definition maker_is_recoverable :: "maker_saved_swap \<Rightarrow> bool" where
  "maker_is_recoverable saved =
     (maker_is_finished saved \<and> \<not> list_ex maker_unrecoverable_event (mss_journal saved))"

definition maker_is_success :: "maker_saved_swap \<Rightarrow> string + bool" where
  "maker_is_success saved =
     (if \<not> maker_is_finished saved then Inl ''Can not determine is_success state for not finished swap''
      else Inr (list_all maker_event_is_success (mss_journal saved)))"

definition save_my_maker_swap_event :: "maker_saved_event \<Rightarrow> maker_saved_swap \<Rightarrow> maker_saved_swap" where
  "save_my_maker_swap_event e saved = saved\<lparr>mss_events := mss_events saved @ [e]\<rparr>"

definition new_maker_saved_swap :: "maker_swap \<Rightarrow> maker_saved_swap" where
  "new_maker_saved_swap s =
     \<lparr>mss_uuid = ms_uuid s, mss_my_order_uuid = ms_my_order_uuid s, mss_events = [],
      mss_maker_amount = Some (ms_maker_amount s), mss_maker_coin = Some (ms_maker_coin s),
      mss_taker_amount = Some (ms_taker_amount s), mss_taker_coin = Some (ms_taker_coin s)\<rparr>"

text \<open>
  Restoring a swap: an out-dated journal without contract addresses gets those of the coins.
\<close>

definition refresh_contracts :: "swap_env \<Rightarrow> maker_swap_data \<Rightarrow> maker_swap_data" where
  "refresh_contracts env d =
     d\<lparr>msd_maker_coin_swap_contract_address :=
         (case msd_maker_coin_swap_contract_address d of
            Some a \<Rightarrow> Some a | None \<Rightarrow> hc_swap_contract_address (se_maker_htlc env)),
       msd_taker_coin_swap_contract_address :=
         (case msd_taker_coin_swap_contract_address d of
            Some a \<Rightarrow> Some a | None \<Rightarrow> hc_swap_contract_address (se_taker_htlc env))\<rparr>"

definition maker_swap_from_data :: "swap_env \<Rightarrow> maker_saved_swap \<Rightarrow> maker_swap_data \<Rightarrow> maker_swap" where
  "maker_swap_from_data env saved d =
     maker_swap_new env (msd_taker d) (msd_maker_amount d) (msd_taker_amount d)
       (kp_public (se_key_pair env)) (mss_uuid saved) (mss_my_order_uuid saved)
       \<lparr>cs_maker_coin_confs = msd_maker_payment_confirmations d,
        cs_maker_coin_nota = (case msd_maker_payment_requires_nota d of
           Some n \<Rightarrow> n | None \<Rightarrow> coin_requires_notarization (se_maker_coin env)),
        cs_taker_coin_confs = msd_taker_payment_confirmations d,
        cs_taker_coin_nota = (case msd_taker_payment_requires_nota d of
           Some n \<Rightarrow> n | None \<Rightarrow> coin_requires_notarization (se_taker_coin env))\<rparr>
       (msd_lock_duration d) (msd_p2p_privkey d)"

definition maker_load_from_saved ::
  "swap_env \<Rightarrow> maker_saved_swap \<Rightarrow> string + (maker_swap \<times> maker_swap_command option)" where
  "maker_load_from_saved env saved =
     (case mss_journal saved of
        [] \<Rightarrow> Inl ''Can't restore swap from empty events set''
      | MStarted d # rest \<Rightarrow>
          (let d = refresh_contracts env d in
           Inr (fold (maker_apply_event (se_now env)) (MStarted d # rest) (maker_swap_from_data env saved d),
                maker_get_command (last (MStarted d # rest))))
      | _ \<Rightarrow> Inl ''First swap event must be Started'')"

section \<open>Recovery of funds\<close>

definition maker_search_args :: "bool \<Rightarrow> bytes \<Rightarrow> bytes \<Rightarrow> maker_swap \<Rightarrow> search_args" where
  "maker_search_args mine payment secret_hash s =
     (if mine then
        \<lparr>sa_time_lock = ucast (msd_maker_payment_lock (ms_data s)),
         sa_other_pub = ms_other_maker_coin_htlc_pub s, sa_secret_hash = secret_hash, sa_tx = payment,
         sa_search_from_block = msd_maker_coin_start_block (ms_data s),
         sa_swap_contract_address = msd_maker_coin_swap_contract_address (ms_data s)\<rparr>
      else
        \<lparr>sa_time_lock = ucast (ms_taker_payment_lock s),
         sa_other_pub = ms_other_taker_coin_htlc_pub s, sa_secret_hash = secret_hash, sa_tx = payment,
         sa_search_from_block = msd_taker_coin_start_block (ms_data s),
         sa_swap_contract_address = msd_taker_coin_swap_contract_address (ms_data s)\<rparr>)"

definition maker_try_spend_taker_payment ::
  "swap_env \<Rightarrow> bytes \<Rightarrow> maker_swap \<Rightarrow> (string + transaction_identifier) \<times> swap_effect list" where
  "maker_try_spend_taker_payment env secret_hash s =
     (case ms_taker_payment s of
        None \<Rightarrow> (Inl ''No info about taker payment, swap is not recoverable'', [])
      | Some payment \<Rightarrow>
          (case hc_search_for_swap_tx_spend_other (se_taker_htlc env)
                  (maker_search_args False (tx_hex payment) secret_hash s) of
             Inl _ \<Rightarrow> (Inl ''Error when trying to find taker payment spend'', [])
           | Inr (Some (Spent _)) \<Rightarrow> (Inl ''Taker payment was already spent'', [])
           | Inr (Some (Refunded _)) \<Rightarrow> (Inl ''Taker payment was already refunded'', [])
           | Inr None \<Rightarrow>
               let args = maker_spend_args s payment in
               (map_err (\<lambda>e. get_plain_text_format e)
                  (hc_send_maker_spends_taker_payment (se_taker_htlc env) args), [SpendPaymentTx args])))"

definition maker_recover_refund ::
  "swap_env \<Rightarrow> bytes \<Rightarrow> bytes \<Rightarrow> maker_swap \<Rightarrow> (string + recovered_swap) \<times> swap_effect list" where
  "maker_recover_refund env payment secret_hash s =
     (if se_now env < msd_maker_payment_lock (ms_data s) + 3700
      then (Inl ''Too early to refund'', [])
      else
        let args = maker_refund_args payment secret_hash s;
            r = hc_send_maker_refunds_payment (se_maker_htlc env) args
        in case r of
             Inl err \<Rightarrow> (Inl (get_plain_text_format err),
               RefundPaymentTx args # tx_helper (ms_maker_coin s) r)
           | Inr tx \<Rightarrow> (Inr \<lparr>rs_action = RefundedMyPayment, rs_coin = ms_maker_coin s, rs_transaction = tx\<rparr>,
               [RefundPaymentTx args]))"

definition maker_recover_payment ::
  "swap_env \<Rightarrow> bytes \<Rightarrow> bytes \<Rightarrow> maker_swap \<Rightarrow> (string + recovered_swap) \<times> swap_effect list" where
  "maker_recover_payment env payment secret_hash s =
     (case hc_search_for_swap_tx_spend_my (se_maker_htlc env) (maker_search_args True payment secret_hash s) of
        Inl _ \<Rightarrow> (Inl ''Error when trying to find maker payment spend'', [])
      | Inr (Some (Spent _)) \<Rightarrow>
          (case maker_try_spend_taker_payment env secret_hash s of
             (Inl err, effs) \<Rightarrow> (Inl err, effs)
           | (Inr tx, effs) \<Rightarrow>
               (Inr \<lparr>rs_action = SpentOtherPayment, rs_coin = ms_taker_coin s, rs_transaction = tx\<rparr>, effs))
      | Inr (Some (Refunded _)) \<Rightarrow> (Inl ''Maker payment was already refunded'', [])
      | Inr None \<Rightarrow> maker_recover_refund env payment secret_hash s)"

definition maker_recover_funds ::
  "swap_env \<Rightarrow> maker_swap \<Rightarrow> (string + recovered_swap) \<times> swap_effect list" where
  "maker_recover_funds env s =
     (if ms_finished_at s = 0 then (Inl ''Swap must be finished before recover funds attempt'', [])
      else if ms_maker_payment_refund s \<noteq> None
      then (Inl ''Maker payment is refunded, swap is not recoverable'', [])
      else if ms_taker_payment_spend s \<noteq> None \<and> ms_taker_payment_spend_confirmed s
      then (Inl ''Taker payment spend transaction has been sent and confirmed'', [])
      else
        let secret_hash = (case msd_secret_hash (ms_data s) of
              Some h \<Rightarrow> h | None \<Rightarrow> se_dhash160 env (msd_secret (ms_data s)))
        in case ms_maker_payment s of
             Some tx \<Rightarrow> maker_recover_payment env (tx_hex tx) secret_hash s
           | None \<Rightarrow>
               (case hc_check_if_my_payment_sent (se_maker_htlc env)
                       ((maker_payment_query env s)\<lparr>pq_secret_hash := secret_hash\<rparr>) of
                  Inl err \<Rightarrow> (Inl err, [])
                | Inr None \<Rightarrow> (Inl ''Maker payment transaction was not found'', [])
                | Inr (Some tx) \<Rightarrow> maker_recover_payment env (tx_hex tx) secret_hash s))"

section \<open>Locked amounts\<close>

definition maker_locked_amount :: "maker_swap \<Rightarrow> locked_amount list" where
  "maker_locked_amount s =
     (if ms_maker_payment s = None
      then [\<lparr>la_coin = ms_maker_coin s, la_amount = ms_maker_amount s,
             la_trade_fee = map_option trade_fee_from_saved (msd_maker_payment_trade_fee (ms_data s))\<rparr>]
      else [])
     @ (if ms_taker_payment_spend s = None
        then [\<lparr>la_coin = ms_taker_coin s, la_amount = 0,
               la_trade_fee = map_option trade_fee_from_saved (msd_taker_payment_spend_trade_fee (ms_data s))\<rparr>]
        else [])"

definition maker_atomic_swap :: "maker_swap \<Rightarrow> atomic_swap" where
  "maker_atomic_swap s =
     \<lparr>as_uuid = ms_uuid s, as_locked_amount = maker_locked_amount s,
      as_maker_coin = ms_maker_coin s, as_taker_coin = ms_taker_coin s\<rparr>"

section \<open>The run of a swap\<close>

definition maker_machine ::
  "(maker_swap, maker_swap_command, maker_swap_event, maker_saved_swap) swap_machine" where
  "maker_machine =
     \<lparr>sm_handle_command = maker_handle_command, sm_apply_event = maker_apply_event,
      sm_save_event = (\<lambda>t e. save_my_maker_swap_event \<lparr>mse_timestamp = t, mse_event = e\<rparr>),
      sm_should_ban = maker_should_ban_taker, sm_counterparty = ms_taker,
      sm_load_from_saved = maker_load_from_saved\<rparr>"

lemma maker_machine_simps [simp]:
  "sm_handle_command maker_machine = maker_handle_command"
  "sm_apply_event maker_machine = maker_apply_event"
  "sm_save_event maker_machine = (\<lambda>t e. save_my_maker_swap_event \<lparr>mse_timestamp = t, mse_event = e\<rparr>)"
  "sm_load_from_saved maker_machine = maker_load_from_saved"
  by (simp_all add: maker_machine_def)

abbreviation maker_run_new ::
  "maker_swap \<Rightarrow> (maker_swap, maker_swap_command, maker_swap_event, maker_saved_swap) swap_run" where
  "maker_run_new s \<equiv> swap_run_new MStart (new_maker_saved_swap s) s"

abbreviation maker_reach ::
  "swap_env \<Rightarrow> maker_swap \<Rightarrow> (maker_swap, maker_swap_command, maker_swap_event, maker_saved_swap) swap_run \<Rightarrow> bool" where
  "maker_reach base s \<equiv> swap_reach maker_machine base (maker_run_new s)"

abbreviation maker_trace ::
  "swap_env \<Rightarrow> maker_swap \<Rightarrow> (maker_swap, maker_swap_command) handler_log \<Rightarrow>
    (maker_swap, maker_swap_command, maker_swap_event, maker_saved_swap) swap_run \<Rightarrow> bool" where
  "maker_trace base s \<equiv> swap_trace maker_machine base (maker_run_new s)"

end
