(* ===== verification/TakerSwapTypes.thy ===== *)
theory TakerSwapTypes
  imports SwapTypes
begin

text \<open>
  The data of the taker's side of a swap (\<open>taker_swap.rs\<close>): the negotiated data, the journalled
  start data, the swap itself, its commands and its events. As on the maker's side the mutable
  and the constant part of \<open>TakerSwap\<close> are one record.
\<close>

record maker_negotiation_data =
  mnd_maker_payment_locktime :: u64
  mnd_maker_pubkey :: bytes
  mnd_secret_hash :: bytes
  mnd_maker_coin_swap_contract_addr :: "bytes option"
  mnd_taker_coin_swap_contract_addr :: "bytes option"
  mnd_maker_coin_htlc_pubkey :: "bytes option"
  mnd_taker_coin_htlc_pubkey :: "bytes option"

definition mnd_other_maker_coin_htlc_pub :: "maker_negotiation_data \<Rightarrow> bytes" where
  "mnd_other_maker_coin_htlc_pub d =
     (case mnd_maker_coin_htlc_pubkey d of Some pk \<Rightarrow> pk | None \<Rightarrow> mnd_maker_pubkey d)"

definition mnd_other_taker_coin_htlc_pub :: "maker_negotiation_data \<Rightarrow> bytes" where
  "mnd_other_taker_coin_htlc_pub d =
     (case mnd_taker_coin_htlc_pubkey d of Some pk \<Rightarrow> pk | None \<Rightarrow> mnd_maker_pubkey d)"

record taker_payment_spent_data =
  tps_transaction :: transaction_identifier
  tps_secret :: h256

record taker_swap_data =
  tsd_taker_coin :: ticker
  tsd_maker_coin :: ticker
  tsd_maker :: h256
  tsd_my_persistent_pub :: bytes
  tsd_lock_duration :: u64
  tsd_maker_amount :: mm_number
  tsd_taker_amount :: mm_number
  tsd_maker_payment_confirmations :: u64
  tsd_maker_payment_requires_nota :: "bool option"
  tsd_taker_payment_confirmations :: u64
  tsd_taker_payment_requires_nota :: "bool option"
  tsd_taker_payment_lock :: u64
  tsd_uuid :: uuid
  tsd_started_at :: u64
  tsd_maker_payment_wait :: u64
  tsd_maker_coin_start_block :: u64
  tsd_taker_coin_start_block :: u64
  tsd_fee_to_send_taker_fee :: "saved_trade_fee option"
  tsd_taker_payment_trade_fee :: "saved_trade_fee option"
  tsd_maker_payment_spend_trade_fee :: "saved_trade_fee option"
  tsd_maker_coin_swap_contract_address :: "bytes option"
  tsd_taker_coin_swap_contract_address :: "bytes option"
  tsd_maker_coin_htlc_privkey :: "key_pair option"
  tsd_maker_coin_htlc_pubkey :: "bytes option"
  tsd_taker_coin_htlc_privkey :: "key_pair option"
  tsd_taker_coin_htlc_pubkey :: "bytes option"
  tsd_p2p_privkey :: "key_pair option"

definition taker_swap_data_default :: taker_swap_data where
  "taker_swap_data_default =
     \<lparr>tsd_taker_coin = '''', tsd_maker_coin = '''', tsd_maker = replicate 32 0,
      tsd_my_persistent_pub = h264_default, tsd_lock_duration = 0, tsd_maker_amount = 0,
      tsd_taker_amount = 0, tsd_maker_payment_confirmations = 0, tsd_maker_payment_requires_nota = None,
      tsd_taker_payment_confirmations = 0, tsd_taker_payment_requires_nota = None,
      tsd_taker_payment_lock = 0, tsd_uuid = 0, tsd_started_at = 0, tsd_maker_payment_wait = 0,
      tsd_maker_coin_start_block = 0, tsd_taker_coin_start_block = 0,
      tsd_fee_to_send_taker_fee = None, tsd_taker_payment_trade_fee = None,
      tsd_maker_payment_spend_trade_fee = None, tsd_maker_coin_swap_contract_address = None,
      tsd_taker_coin_swap_contract_address = None, tsd_maker_coin_htlc_privkey = None,
      tsd_maker_coin_htlc_pubkey = None, tsd_taker_coin_htlc_privkey = None,
      tsd_taker_coin_htlc_pubkey = None, tsd_p2p_privkey = None\<rparr>"

record taker_swap =
  ts_maker_coin :: ticker
  ts_taker_coin :: ticker
  ts_maker_amount :: mm_number
  ts_taker_amount :: mm_number
  ts_my_persistent_pub :: bytes
  ts_maker :: h256
  ts_uuid :: uuid
  ts_my_order_uuid :: "uuid option"
  ts_maker_payment_lock :: u64
  ts_maker_payment_confirmed :: bool
  ts_errors :: "string list"
  ts_finished_at :: u64
  ts_conf_settings :: swap_confirmations_settings
  ts_payment_locktime :: u64
  ts_p2p_privkey :: "key_pair option"
  ts_data :: taker_swap_data
  ts_other_maker_coin_htlc_pub :: bytes
  ts_other_taker_coin_htlc_pub :: bytes
  ts_taker_fee :: "transaction_identifier option"
  ts_maker_payment :: "transaction_identifier option"
  ts_taker_payment :: "transaction_identifier option"
  ts_maker_payment_spend :: "transaction_identifier option"
  ts_taker_payment_spend :: "transaction_identifier option"
  ts_taker_payment_refund :: "transaction_identifier option"
  ts_secret_hash :: bytes
  ts_secret :: bytes
  ts_my_maker_coin_htlc_keypair :: key_pair
  ts_my_taker_coin_htlc_keypair :: key_pair

definition taker_swap_new ::
  "swap_env \<Rightarrow> h256 \<Rightarrow> mm_number \<Rightarrow> mm_number \<Rightarrow> bytes \<Rightarrow> uuid \<Rightarrow> uuid option \<Rightarrow>
    swap_confirmations_settings \<Rightarrow> u64 \<Rightarrow> key_pair option \<Rightarrow> taker_swap" where
  "taker_swap_new env maker maker_amount taker_amount my_persistent_pub uuid my_order_uuid
     conf_settings payment_locktime p2p_privkey =
     \<lparr>ts_maker_coin = coin_ticker (se_maker_coin env), ts_taker_coin = coin_ticker (se_taker_coin env),
      ts_maker_amount = maker_amount, ts_taker_amount = taker_amount,
      ts_my_persistent_pub = my_persistent_pub, ts_maker = maker, ts_uuid = uuid,
      ts_my_order_uuid = my_order_uuid, ts_maker_payment_lock = 0,
      ts_maker_payment_confirmed = False, ts_errors = [], ts_finished_at = 0,
      ts_conf_settings = conf_settings, ts_payment_locktime = payment_locktime,
      ts_p2p_privkey = p2p_privkey, ts_data = taker_swap_data_default,
      ts_other_maker_coin_htlc_pub = h264_default, ts_other_taker_coin_htlc_pub = h264_default,
      ts_taker_fee = None, ts_maker_payment = None, ts_taker_payment = None,
      ts_maker_payment_spend = None, ts_taker_payment_spend = None, ts_taker_payment_refund = None,
      ts_secret_hash = replicate 20 0, ts_secret = replicate 32 0,
      ts_my_maker_coin_htlc_keypair = se_key_pair env, ts_my_taker_coin_htlc_keypair = se_key_pair env\<rparr>"

datatype (plugins only: code size) taker_swap_command =
    TStart | TNegotiate | TSendTakerFee | TWaitForMakerPayment | TValidateMakerPayment
  | TSendTakerPayment | TWaitForTakerPaymentSpend | TSpendMakerPayment | TRefundTakerPayment | TFinish

datatype (plugins only: code size) taker_swap_event =
    TStarted taker_swap_data
  | TStartFailed string
  | TNegotiated maker_negotiation_data
  | TNegotiateFailed string
  | TTakerFeeSent transaction_identifier
  | TTakerFeeSendFailed string
  | TTakerPaymentInstructionsReceived
  | TMakerPaymentReceived transaction_identifier
  | TMakerPaymentWaitConfirmStarted
  | TMakerPaymentValidatedAndConfirmed
  | TMakerPaymentValidateFailed string
  | TMakerPaymentWaitConfirmFailed string
  | TTakerPaymentSent transaction_identifier
  | TWatcherMessageSent
  | TTakerPaymentTransactionFailed string
  | TTakerPaymentDataSendFailed string
  | TTakerPaymentWaitConfirmFailed string
  | TTakerPaymentSpent taker_payment_spent_data
  | TTakerPaymentWaitForSpendFailed string
  | TMakerPaymentSpent transaction_identifier
  | TMakerPaymentSpendConfirmed
  | TMakerPaymentSpendConfirmFailed string
  | TMakerPaymentSpentByWatcher transaction_identifier
  | TMakerPaymentSpendFailed string
  | TTakerPaymentWaitRefundStarted u64
  | TTakerPaymentRefundStarted
  | TTakerPaymentRefunded transaction_identifier
  | TTakerPaymentRefundFinished
  | TTakerPaymentRefundedByWatcher transaction_identifier
  | TTakerPaymentRefundFailed string
  | TFinished

end
