(* ===== verification/TakerSwap.thy ===== *)
theory TakerSwap
  imports TakerSwapTypes
begin

text \<open>
  The taker's side of a swap (\<open>taker_swap.rs\<close>) as a state machine. A handler that panics or
  waits forever yields \<open>None\<close>.
\<close>

section \<open>Events\<close>

definition ts_add_error :: "string \<Rightarrow> taker_swap \<Rightarrow> taker_swap" where
  "ts_add_error err s = s\<lparr>ts_errors := ts_errors s @ [err]\<rparr>"

fun taker_apply_event :: "u64 \<Rightarrow> taker_swap_event \<Rightarrow> taker_swap \<Rightarrow> taker_swap" where
  "taker_apply_event now (TStarted data) s =
     s\<lparr>ts_my_maker_coin_htlc_keypair :=
          (case tsd_maker_coin_htlc_privkey data of Some k \<Rightarrow> k | None \<Rightarrow> ts_my_maker_coin_htlc_keypair s),
       ts_my_taker_coin_htlc_keypair :=
          (case tsd_taker_coin_htlc_privkey data of Some k \<Rightarrow> k | None \<Rightarrow> ts_my_taker_coin_htlc_keypair s),
       ts_data := data\<rparr>"
| "taker_apply_event now (TStartFailed err) s = ts_add_error err s"
| "taker_apply_event now (TNegotiated d) s =
     s\<lparr>ts_maker_payment_lock := mnd_maker_payment_locktime d,
       ts_other_maker_coin_htlc_pub := mnd_other_maker_coin_htlc_pub d,
       ts_other_taker_coin_htlc_pub := mnd_other_taker_coin_htlc_pub d,
       ts_secret_hash := mnd_secret_hash d,
       ts_data := (ts_data s)\<lparr>
         tsd_maker_coin_swap_contract_address :=
           (case mnd_maker_coin_swap_contract_addr d of
              Some a \<Rightarrow> Some a | None \<Rightarrow> tsd_maker_coin_swap_contract_address (ts_data s)),
         tsd_taker_coin_swap_contract_address :=
           (case mnd_taker_coin_swap_contract_addr d of
              Some a \<Rightarrow> Some a | None \<Rightarrow> tsd_taker_coin_swap_contract_address (ts_data s))\<rparr>\<rparr>"
| "taker_apply_event now (TNegotiateFailed err) s = ts_add_error err s"
| "taker_apply_event now (TTakerFeeSent tx) s = s\<lparr>ts_taker_fee := Some tx\<rparr>"
| "taker_apply_event now (TTakerFeeSendFailed err) s = ts_add_error err s"
| "taker_apply_event now TTakerPaymentInstructionsReceived s = s"
| "taker_apply_event now (TMakerPaymentReceived tx) s = s\<lparr>ts_maker_payment := Some tx\<rparr>"
| "taker_apply_event now TMakerPaymentWaitConfirmStarted s = s"
| "taker_apply_event now TMakerPaymentValidatedAndConfirmed s = s\<lparr>ts_maker_payment_confirmed := True\<rparr>"
| "taker_apply_event now (TMakerPaymentValidateFailed err) s = ts_add_error err s"
| "taker_apply_event now (TMakerPaymentWaitConfirmFailed err) s = ts_add_error err s"
| "taker_apply_event now (TTakerPaymentSent tx) s = s\<lparr>ts_taker_payment := Some tx\<rparr>"
| "taker_apply_event now TWatcherMessageSent s = s"
| "taker_apply_event now (TTakerPaymentTransactionFailed err) s = ts_add_error err s"
| "taker_apply_event now (TTakerPaymentDataSendFailed err) s = ts_add_error err s"
| "taker_apply_event now (TTakerPaymentWaitConfirmFailed err) s = ts_add_error err s"
| "taker_apply_event now (TTakerPaymentSpent d) s =
     s\<lparr>ts_taker_payment_spend := Some (tps_transaction d), ts_secret := tps_secret d\<rparr>"
| "taker_apply_event now (TTakerPaymentWaitForSpendFailed err) s = ts_add_error err s"
| "taker_apply_event now (TMakerPaymentSpent tx) s = s\<lparr>ts_maker_payment_spend := Some tx\<rparr>"
| "taker_apply_event now TMakerPaymentSpendConfirmed s = s"
| "taker_apply_event now (TMakerPaymentSpendConfirmFailed err) s = ts_add_error err s"
| "taker_apply_event now (TMakerPaymentSpentByWatcher tx) s = s\<lparr>ts_maker_payment_spend := Some tx\<rparr>"
| "taker_apply_event now (TMakerPaymentSpendFailed err) s = ts_add_error err s"
| "taker_apply_event now (TTakerPaymentWaitRefundStarted _) s = s"
| "taker_apply_event now TTakerPaymentRefundStarted s = s"
| "taker_apply_event now (TTakerPaymentRefunded tx) s = s\<lparr>ts_taker_payment_refund := Some tx\<rparr>"
| "taker_apply_event now TTakerPaymentRefundFinished s = s"
| "taker_apply_event now (TTakerPaymentRefundedByWatcher tx) s = s\<lparr>ts_taker_payment_refund := Some tx\<rparr>"
| "taker_apply_event now (TTakerPaymentRefundFailed err) s = ts_add_error err s"
| "taker_apply_event now TFinished s = s\<lparr>ts_finished_at := now\<rparr>"

fun taker_should_ban_maker :: "taker_swap_event \<Rightarrow> bool" where
  "taker_should_ban_maker (TMakerPaymentValidateFailed _) = True"
| "taker_should_ban_maker (TTakerPaymentWaitForSpendFailed _) = True"
| "taker_should_ban_maker _ = False"

fun taker_event_is_success :: "taker_swap_event \<Rightarrow> bool" where
  "taker_event_is_success (TStarted _) = True"
| "taker_event_is_success (TNegotiated _) = True"
| "taker_event_is_success (TTakerFeeSent _) = True"
| "taker_event_is_success TTakerPaymentInstructionsReceived = True"
| "taker_event_is_success (TMakerPaymentReceived _) = True"
| "taker_event_is_success TMakerPaymentWaitConfirmStarted = True"
| "taker_event_is_success TMakerPaymentValidatedAndConfirmed = True"
| "taker_event_is_success (TTakerPaymentSent _) = True"
| "taker_event_is_success TWatcherMessageSent = True"
| "taker_event_is_success (TTakerPaymentSpent _) = True"
| "taker_event_is_success (TMakerPaymentSpent _) = True"
| "taker_event_is_success TMakerPaymentSpendConfirmed = True"
| "taker_event_is_success (TMakerPaymentSpentByWatcher _) = True"
| "taker_event_is_success TTakerPaymentRefundStarted = True"
| "taker_event_is_success TTakerPaymentRefundFinished = True"
| "taker_event_is_success (TTakerPaymentRefundedByWatcher _) = True"
| "taker_event_is_success TFinished = True"
| "taker_event_is_success _ = False"

text \<open>The command a restored swap continues with.\<close>

fun taker_get_command :: "taker_swap_event \<Rightarrow> taker_swap_command option" where
  "taker_get_command (TStarted _) = Some TNegotiate"
| "taker_get_command (TStartFailed _) = Some TFinish"
| "taker_get_command (TNegotiated _) = Some TSendTakerFee"
| "taker_get_command (TNegotiateFailed _) = Some TFinish"
| "taker_get_command (TTakerFeeSent _) = Some TWaitForMakerPayment"
| "taker_get_command (TTakerFeeSendFailed _) = Some TFinish"
| "taker_get_command TTakerPaymentInstructionsReceived = Some TValidateMakerPayment"
| "taker_get_command (TMakerPaymentReceived _) = Some TValidateMakerPayment"
| "taker_get_command TMakerPaymentWaitConfirmStarted = Some TValidateMakerPayment"
| "taker_get_command TMakerPaymentValidatedAndConfirmed = Some TSendTakerPayment"
| "taker_get_command (TMakerPaymentValidateFailed _) = Some TFinish"
| "taker_get_command (TMakerPaymentWaitConfirmFailed _) = Some TFinish"
| "taker_get_command (TTakerPaymentSent _) = Some TWaitForTakerPaymentSpend"
| "taker_get_command TWatcherMessageSent = Some TWaitForTakerPaymentSpend"
| "taker_get_command (TTakerPaymentTransactionFailed _) = Some TFinish"
| "taker_get_command (TTakerPaymentDataSendFailed _) = Some TRefundTakerPayment"
| "taker_get_command (TTakerPaymentSpent _) = Some TSpendMakerPayment"
| "taker_get_command (TTakerPaymentWaitForSpendFailed _) = Some TRefundTakerPayment"
| "taker_get_command (TTakerPaymentWaitConfirmFailed _) = Some TRefundTakerPayment"
| "taker_get_command (TMakerPaymentSpent _) = Some TFinish"
| "taker_get_command TMakerPaymentSpendConfirmed = Some TFinish"
| "taker_get_command (TMakerPaymentSpendConfirmFailed _) = Some TFinish"
| "taker_get_command (TMakerPaymentSpentByWatcher _) = Some TFinish"
| "taker_get_command (TMakerPaymentSpendFailed _) = Some TRefundTakerPayment"
| "taker_get_command (TTakerPaymentWaitRefundStarted _) = Some TRefundTakerPayment"
| "taker_get_command TTakerPaymentRefundStarted = Some TRefundTakerPayment"
| "taker_get_command (TTakerPaymentRefunded _) = Some TFinish"
| "taker_get_command TTakerPaymentRefundFinished = Some TFinish"
| "taker_get_command (TTakerPaymentRefundedByWatcher _) = Some TFinish"
| "taker_get_command (TTakerPaymentRefundFailed _) = Some TFinish"
| "taker_get_command TFinished = None"

section \<open>Handlers\<close>

type_synonym taker_step = "(taker_swap_command option \<times> taker_swap_event list \<times> swap_effect list) option"

definition taker_wait_refund_until :: "taker_swap \<Rightarrow> u64" where
  "taker_wait_refund_until s = tsd_taker_payment_lock (ts_data s) + 3700"

definition maker_payment_wait :: "u64 \<Rightarrow> u64 \<Rightarrow> u64" where
  "maker_payment_wait swap_started_at payment_locktime = swap_started_at + payment_locktime * 2 div 5"

definition taker_start_data ::
  "swap_env \<Rightarrow> taker_swap \<Rightarrow> trade_fee \<Rightarrow> trade_fee \<Rightarrow> trade_fee \<Rightarrow> u64 \<Rightarrow> u64 \<Rightarrow> taker_swap_data" where
  "taker_start_data env s fee_fee pay_fee spend_fee maker_block taker_block =
     (let htlc_pub = (\<lambda>k. case k of Some k \<Rightarrow> kp_public k | None \<Rightarrow> kp_public (se_key_pair env)) in
      \<lparr>tsd_taker_coin = coin_ticker (se_taker_coin env), tsd_maker_coin = coin_ticker (se_maker_coin env),
       tsd_maker = ts_maker s, tsd_my_persistent_pub = ts_my_persistent_pub s,
       tsd_lock_duration = ts_payment_locktime s,
       tsd_maker_amount = se_to_decimal env (ts_maker_amount s),
       tsd_taker_amount = se_to_decimal env (ts_taker_amount s),
       tsd_maker_payment_confirmations = cs_maker_coin_confs (ts_conf_settings s),
       tsd_maker_payment_requires_nota = Some (cs_maker_coin_nota (ts_conf_settings s)),
       tsd_taker_payment_confirmations = cs_taker_coin_confs (ts_conf_settings s),
       tsd_taker_payment_requires_nota = Some (cs_taker_coin_nota (ts_conf_settings s)),
       tsd_taker_payment_lock = se_now env + ts_payment_locktime s,
       tsd_uuid = ts_uuid s, tsd_started_at = se_now env,
       tsd_maker_payment_wait = maker_payment_wait (se_now env) (ts_payment_locktime s),
       tsd_maker_coin_start_block = maker_block, tsd_taker_coin_start_block = taker_block,
       tsd_fee_to_send_taker_fee = Some (saved_trade_fee_from fee_fee),
       tsd_taker_payment_trade_fee = Some (saved_trade_fee_from pay_fee),
       tsd_maker_payment_spend_trade_fee = Some (saved_trade_fee_from spend_fee),
       tsd_maker_coin_swap_contract_address = hc_swap_contract_address (se_maker_htlc env),
       tsd_taker_coin_swap_contract_address = hc_swap_contract_address (se_taker_htlc env),
       tsd_maker_coin_htlc_privkey = hc_htlc_key_pair (se_maker_htlc env),
       tsd_maker_coin_htlc_pubkey = Some (htlc_pub (hc_htlc_key_pair (se_maker_htlc env))),
       tsd_taker_coin_htlc_privkey = hc_htlc_key_pair (se_taker_htlc env),
       tsd_taker_coin_htlc_pubkey = Some (htlc_pub (hc_htlc_key_pair (se_taker_htlc env))),
       tsd_p2p_privkey = ts_p2p_privkey s\<rparr>)"

definition taker_start :: "swap_env \<Rightarrow> taker_swap \<Rightarrow> taker_step" where
  "taker_start env s =
     (let dex_fee = total_spend_amount (compute_dex_fee_with_taker_pubkey (se_net env) (se_taker_coin env)
            (coin_ticker (se_maker_coin env)) (ts_taker_amount s) (kp_public (ts_my_taker_coin_htlc_keypair s)))
      in case
        bind_res (map_err (\<lambda>_. ''!taker_coin.get_fee_to_send_taker_fee'')
          (coin_fee_to_send_taker_fee (se_taker_coin env) (se_to_decimal env dex_fee) StartSwap)) (\<lambda>fee_fee.
        bind_res (map_err (\<lambda>_. ''!taker_coin.get_sender_trade_fee'')
          (coin_sender_trade_fee (se_taker_coin env) (Exact (se_to_decimal env (ts_taker_amount s))) StartSwap)) (\<lambda>pay_fee.
        bind_res (map_err (\<lambda>_. ''!maker_coin.get_receiver_trade_fee'')
          (coin_receiver_trade_fee (se_maker_coin env) StartSwap)) (\<lambda>spend_fee.
        bind_res (map_err (\<lambda>_. ''!check_balance_for_taker_swap'')
          (check_balance_for_taker_swap (se_net env) (se_swaps env) (se_taker_coin env) (se_maker_coin env)
             (ts_taker_amount s) (Some (ts_uuid s))
             (Some \<lparr>tp_dex_fee = dex_fee, tp_fee_to_send_dex_fee = fee_fee,
                    tp_taker_payment_trade_fee = pay_fee, tp_maker_payment_spend_trade_fee = spend_fee\<rparr>)
             StartSwap)) (\<lambda>_.
        bind_res (map_err (\<lambda>_. ''!maker_coin.current_block'') (hc_current_block (se_maker_htlc env))) (\<lambda>mb.
        bind_res (map_err (\<lambda>_. ''!taker_coin.current_block'') (hc_current_block (se_taker_htlc env))) (\<lambda>tb.
          Inr (taker_start_data env s fee_fee pay_fee spend_fee mb tb)))))))
      of
        Inl err \<Rightarrow> Some (Some TFinish, [TStartFailed err], [])
      | Inr data \<Rightarrow> Some (Some TNegotiate, [TStarted data], []))"

definition taker_get_my_negotiation_data :: "bytes \<Rightarrow> bytes \<Rightarrow> bytes \<Rightarrow> taker_swap \<Rightarrow> negotiation_data_msg" where
  "taker_get_my_negotiation_data secret_hash maker_contract taker_contract s =
     (let started = tsd_started_at (ts_data s);
          lock = tsd_taker_payment_lock (ts_data s)
      in if ts_my_maker_coin_htlc_keypair s \<noteq> ts_my_taker_coin_htlc_keypair s
         then NegotiationDataV3 started lock secret_hash maker_contract taker_contract
                (kp_public (ts_my_maker_coin_htlc_keypair s)) (kp_public (ts_my_taker_coin_htlc_keypair s))
         else NegotiationDataV2 started lock secret_hash (kp_public (ts_my_maker_coin_htlc_keypair s))
                maker_contract taker_contract)"

definition taker_check_negotiation ::
  "swap_env \<Rightarrow> taker_swap \<Rightarrow> string + (negotiation_data_msg \<times> bytes option \<times> bytes option)" where
  "taker_check_negotiation env s =
     bind_res (se_negotiation env) (\<lambda>d.
       if started_too_far_apart (tsd_started_at (ts_data s)) (nd_started_at d)
       then Inl ''Started_at time_dif over 60''
       else if nd_payment_locktime d \<noteq> nd_started_at d + tsd_lock_duration (ts_data s) * 2
       then Inl ''maker_data.payment_locktime not equal to expected''
       else bind_res (map_err (\<lambda>_. ''!maker_coin.negotiate_swap_contract_addr'')
              (hc_negotiate_swap_contract_addr (se_maker_htlc env) (nd_maker_coin_swap_contract d))) (\<lambda>ma.
            bind_res (map_err (\<lambda>_. ''!taker_coin.negotiate_swap_contract_addr'')
              (hc_negotiate_swap_contract_addr (se_taker_htlc env) (nd_taker_coin_swap_contract d))) (\<lambda>ta.
              Inr (d, ma, ta))))"

definition taker_negotiate :: "swap_env \<Rightarrow> taker_swap \<Rightarrow> taker_step" where
  "taker_negotiate env s =
     (case taker_check_negotiation env s of
        Inl err \<Rightarrow> Some (Some TFinish, [TNegotiateFailed err], [])
      | Inr (d, ma, ta) \<Rightarrow>
          let addr = (\<lambda>a. case a of Some bs \<Rightarrow> bs | None \<Rightarrow> []);
              sent = [SwapMessage (NegotiationReply
                (taker_get_my_negotiation_data (nd_secret_hash d) (addr ma) (addr ta) s))]
          in case se_negotiated env of
               Inl err \<Rightarrow> Some (Some TFinish, [TNegotiateFailed err], sent)
             | Inr False \<Rightarrow> Some (Some TFinish, [TNegotiateFailed ''Maker sent negotiated = false''], sent)
             | Inr True \<Rightarrow>
                 (case (h160_from (nd_secret_hash d), h264_from (nd_maker_coin_htlc_pub d),
                        h264_from (nd_taker_coin_htlc_pub d)) of
                    (Some sh, Some mpk, Some tpk) \<Rightarrow>
                      Some (Some TSendTakerFee,
                        [TNegotiated
                           \<lparr>mnd_maker_payment_locktime = nd_payment_locktime d, mnd_maker_pubkey = h264_default,
                            mnd_secret_hash = sh, mnd_maker_coin_swap_contract_addr = ma,
                            mnd_taker_coin_swap_contract_addr = ta, mnd_maker_coin_htlc_pubkey = Some mpk,
                            mnd_taker_coin_htlc_pubkey = Some tpk\<rparr>], sent)
                  | _ \<Rightarrow> None))"

definition taker_dex_fee :: "swap_env \<Rightarrow> taker_swap \<Rightarrow> dex_fee" where
  "taker_dex_fee env s =
     compute_dex_fee_with_taker_pubkey (se_net env) (se_taker_coin env) (tsd_maker_coin (ts_data s))
       (ts_taker_amount s) (kp_public (ts_my_taker_coin_htlc_keypair s))"

definition taker_send_taker_fee :: "swap_env \<Rightarrow> taker_swap \<Rightarrow> taker_step" where
  "taker_send_taker_fee env s =
     (let timeout = tsd_started_at (ts_data s) + tsd_lock_duration (ts_data s) div 3;
          addr = nc_dex_fee_addr_pubkey (se_net env);
          sent = [SendTakerFeeTx (taker_dex_fee env s) addr]
      in if timeout < se_now env then Some (Some TFinish, [TTakerFeeSendFailed ''Timeout''], [])
         else case hc_send_taker_fee (se_taker_htlc env) (taker_dex_fee env s) addr (ts_uuid s) of
             Inl err \<Rightarrow> Some (Some TFinish, [TTakerFeeSendFailed (get_plain_text_format err)], sent)
           | Inr tx \<Rightarrow> Some (Some TWaitForMakerPayment, [TTakerFeeSent tx], sent))"

definition taker_wait_for_maker_payment :: "swap_env \<Rightarrow> taker_swap \<Rightarrow> taker_step" where
  "taker_wait_for_maker_payment env s =
     (case ts_taker_fee s of
        None \<Rightarrow> None
      | Some fee \<Rightarrow>
          let sent = [SwapMessage (TakerFee (tx_hex fee))] in
          case bind_res (se_maker_payment env) (hc_tx_enum_from_bytes (se_maker_htlc env)) of
            Inl err \<Rightarrow> Some (Some TFinish, [TMakerPaymentValidateFailed err], sent)
          | Inr tx \<Rightarrow> Some (Some TValidateMakerPayment,
              [TMakerPaymentReceived tx, TMakerPaymentWaitConfirmStarted], sent))"

definition taker_validate_input :: "swap_env \<Rightarrow> taker_swap \<Rightarrow> transaction_identifier \<Rightarrow> validate_payment_input" where
  "taker_validate_input env s payment =
     \<lparr>vp_payment_tx = tx_hex payment, vp_time_lock = ucast (ts_maker_payment_lock s),
      vp_taker_pub = kp_public (ts_my_maker_coin_htlc_keypair s),
      vp_maker_pub = ts_other_maker_coin_htlc_pub s,
      vp_secret_hash = ts_secret_hash s, vp_amount = se_to_decimal env (ts_maker_amount s),
      vp_swap_contract_address = tsd_maker_coin_swap_contract_address (ts_data s),
      vp_try_spv_proof_until = tsd_maker_payment_wait (ts_data s),
      vp_confirmations = tsd_maker_payment_confirmations (ts_data s)\<rparr>"

definition taker_validate_maker_payment :: "swap_env \<Rightarrow> taker_swap \<Rightarrow> taker_step" where
  "taker_validate_maker_payment env s =
     (case ts_maker_payment s of
        None \<Rightarrow> None
      | Some payment \<Rightarrow>
          (case hc_wait_for_confirmations (se_maker_htlc env)
                  \<lparr>ca_tx = tx_hex payment, ca_confirmations = tsd_maker_payment_confirmations (ts_data s),
                   ca_requires_nota = (tsd_maker_payment_requires_nota (ts_data s) = Some True),
                   ca_wait_until = tsd_maker_payment_wait (ts_data s)\<rparr> of
             Inl err \<Rightarrow> Some (Some TFinish,
               [TMakerPaymentWaitConfirmFailed ''!wait for maker payment confirmations''], [])
           | Inr _ \<Rightarrow>
               (case hc_validate_maker_payment (se_maker_htlc env) (taker_validate_input env s payment) of
                  Inl err \<Rightarrow> Some (Some TFinish, [TMakerPaymentValidateFailed ''!validate maker payment''], [])
                | Inr _ \<Rightarrow> Some (Some TSendTakerPayment, [TMakerPaymentValidatedAndConfirmed], []))))"

definition taker_payment_query :: "taker_swap \<Rightarrow> payment_query" where
  "taker_payment_query s =
     \<lparr>pq_time_lock = ucast (tsd_taker_payment_lock (ts_data s)),
      pq_my_pub = kp_public (ts_my_taker_coin_htlc_keypair s),
      pq_other_pub = ts_other_taker_coin_htlc_pub s, pq_secret_hash = ts_secret_hash s,
      pq_search_from_block = tsd_taker_coin_start_block (ts_data s),
      pq_swap_contract_address = tsd_taker_coin_swap_contract_address (ts_data s)\<rparr>"

definition taker_payment_args :: "swap_env \<Rightarrow> taker_swap \<Rightarrow> payment_args" where
  "taker_payment_args env s =
     \<lparr>pa_time_lock = ucast (tsd_taker_payment_lock (ts_data s)),
      pa_my_pub = kp_public (ts_my_taker_coin_htlc_keypair s),
      pa_other_pub = ts_other_taker_coin_htlc_pub s, pa_secret_hash = ts_secret_hash s,
      pa_amount = se_to_decimal env (ts_taker_amount s),
      pa_swap_contract_address = tsd_taker_coin_swap_contract_address (ts_data s)\<rparr>"

definition taker_send_taker_payment :: "swap_env \<Rightarrow> taker_swap \<Rightarrow> taker_step" where
  "taker_send_taker_payment env s =
     (let timeout = tsd_started_at (ts_data s) + tsd_lock_duration (ts_data s) div 3;
          failed = (\<lambda>err effs. Some (Some TFinish, [TTakerPaymentTransactionFailed err], effs));
          sent = (\<lambda>tx effs. Some (Some TWaitForTakerPaymentSpend, [TTakerPaymentSent tx], effs))
      in if timeout < se_now env then failed ''Timeout'' []
         else case hc_check_if_my_payment_sent (se_taker_htlc env) (taker_payment_query s) of
             Inl err \<Rightarrow> failed err []
           | Inr (Some tx) \<Rightarrow> sent tx []
           | Inr None \<Rightarrow>
               (case hc_send_taker_payment (se_taker_htlc env) (taker_payment_args env s) of
                  Inl err \<Rightarrow> failed (get_plain_text_format err) [SendPaymentTx (taker_payment_args env s)]
                | Inr tx \<Rightarrow> sent tx [SendPaymentTx (taker_payment_args env s)]))"

text \<open>
  The data a watcher needs is broadcast if both coins support watchers and both preimages can
  be made; both are asked of the taker coin, with the lock time of the taker payment.
\<close>

definition taker_watcher_message :: "swap_env \<Rightarrow> bytes \<Rightarrow> taker_swap \<Rightarrow> swap_effect list" where
  "taker_watcher_message env payment_hex s =
     (if \<not> hc_is_supported_by_watchers (se_taker_htlc env) \<or> \<not> hc_is_supported_by_watchers (se_maker_htlc env)
      then []
      else case (ts_taker_fee s, ts_maker_payment s) of
          (Some fee, Some mp) \<Rightarrow>
            (let data = ts_data s; lock = ucast (tsd_taker_payment_lock data) in
             case (hc_create_maker_payment_spend_preimage (se_taker_htlc env) (tx_hex mp) lock
                     (ts_other_maker_coin_htlc_pub s) (ts_secret_hash s),
                   hc_create_taker_payment_refund_preimage (se_taker_htlc env) payment_hex lock
                     (kp_public (ts_my_taker_coin_htlc_keypair s)) (ts_secret_hash s)) of
               (Inr spend, Inr refund) \<Rightarrow>
                 [WatcherMessage (ts_taker_coin s)
                    \<lparr>wd_uuid = ts_uuid s, wd_secret_hash = ts_secret_hash s,
                     wd_maker_payment_spend_preimage = tx_hex spend,
                     wd_taker_payment_refund_preimage = tx_hex refund,
                     wd_swap_started_at = tsd_started_at data, wd_lock_duration = tsd_lock_duration data,
                     wd_taker_coin = ts_taker_coin s, wd_taker_fee_hash = tx_hex fee,
                     wd_taker_payment_hash = payment_hex,
                     wd_taker_coin_start_block = tsd_taker_coin_start_block data,
                     wd_taker_payment_confirmations = tsd_taker_payment_confirmations data,
                     wd_taker_payment_requires_nota = tsd_taker_payment_requires_nota data,
                     wd_maker_coin = ts_maker_coin s, wd_maker_pub = ts_other_maker_coin_htlc_pub s,
                     wd_maker_payment_hash = tx_hex mp,
                     wd_maker_coin_start_block = tsd_maker_coin_start_block data\<rparr>]
             | _ \<Rightarrow> [])
        | _ \<Rightarrow> [])"

definition taker_refund_after :: "taker_swap \<Rightarrow> taker_swap_event \<Rightarrow> swap_effect list \<Rightarrow> taker_step" where
  "taker_refund_after s e effs =
     Some (Some TRefundTakerPayment, [e, TTakerPaymentWaitRefundStarted (taker_wait_refund_until s)], effs)"

definition taker_wait_for_taker_payment_spend :: "swap_env \<Rightarrow> taker_swap \<Rightarrow> taker_step" where
  "taker_wait_for_taker_payment_spend env s =
     (case ts_taker_payment s of
        None \<Rightarrow> None
      | Some payment \<Rightarrow>
          let data = ts_data s;
              sent = SwapMessage (TakerPayment (tx_hex payment)) # taker_watcher_message env (tx_hex payment) s
          in case hc_wait_for_confirmations (se_taker_htlc env)
                    \<lparr>ca_tx = tx_hex payment, ca_confirmations = tsd_taker_payment_confirmations data,
                     ca_requires_nota = (tsd_taker_payment_requires_nota data = Some True),
                     ca_wait_until = tsd_started_at data + tsd_lock_duration data * 4 div 5\<rparr> of
               Inl err \<Rightarrow> taker_refund_after s
                 (TTakerPaymentWaitConfirmFailed ''!taker_coin.wait_for_confirmations'') sent
             | Inr _ \<Rightarrow>
                 (case hc_wait_for_tx_spend (se_taker_htlc env) (tx_hex payment) (tsd_taker_payment_lock data)
                         (tsd_taker_coin_start_block data) (tsd_taker_coin_swap_contract_address data) of
                    Inl err \<Rightarrow> taker_refund_after s
                      (TTakerPaymentWaitForSpendFailed (get_plain_text_format err)) sent
                  | Inr tx \<Rightarrow>
                      (case hc_extract_secret (se_taker_htlc env) (ts_secret_hash s) (tx_hex tx) of
                         Inl err \<Rightarrow> Some (Some TFinish, [TTakerPaymentWaitForSpendFailed err], sent)
                       | Inr bs \<Rightarrow>
                           (case h256_from bs of
                              None \<Rightarrow> None
                            | Some secret \<Rightarrow> Some (Some TSpendMakerPayment,
                                [TTakerPaymentSpent \<lparr>tps_transaction = tx, tps_secret = secret\<rparr>], sent)))))"

definition taker_spend_args :: "bytes \<Rightarrow> bytes \<Rightarrow> taker_swap \<Rightarrow> spend_args" where
  "taker_spend_args payment_tx secret s =
     \<lparr>sp_payment_tx = payment_tx, sp_time_lock = ucast (ts_maker_payment_lock s),
      sp_other_pub = ts_other_maker_coin_htlc_pub s, sp_secret = secret,
      sp_htlc_privkey = kp_private (ts_my_maker_coin_htlc_keypair s),
      sp_swap_contract_address = tsd_maker_coin_swap_contract_address (ts_data s)\<rparr>"

definition taker_spend_maker_payment :: "swap_env \<Rightarrow> taker_swap \<Rightarrow> taker_step" where
  "taker_spend_maker_payment env s =
     (case ts_maker_payment s of
        None \<Rightarrow> None
      | Some payment \<Rightarrow>
          let args = taker_spend_args (tx_hex payment) (ts_secret s) s;
              r = hc_send_taker_spends_maker_payment (se_maker_htlc env) args;
              effs = SpendPaymentTx args # tx_helper (ts_maker_coin s) r
          in case r of
               Inl err \<Rightarrow> Some (Some TFinish, [TMakerPaymentSpendFailed (get_plain_text_format err)], effs)
             | Inr tx \<Rightarrow> Some (Some TFinish, [TMakerPaymentSpent tx], effs))"

definition taker_refund_args :: "bytes \<Rightarrow> taker_swap \<Rightarrow> refund_args" where
  "taker_refund_args payment_tx s =
     \<lparr>rf_payment_tx = payment_tx, rf_time_lock = ucast (tsd_taker_payment_lock (ts_data s)),
      rf_other_pub = ts_other_taker_coin_htlc_pub s, rf_secret_hash = ts_secret_hash s,
      rf_htlc_privkey = kp_private (ts_my_taker_coin_htlc_keypair s),
      rf_swap_contract_address = tsd_taker_coin_swap_contract_address (ts_data s)\<rparr>"

definition taker_refund_taker_payment :: "swap_env \<Rightarrow> taker_swap \<Rightarrow> taker_step" where
  "taker_refund_taker_payment env s =
     (case can_refund_loop
             (\<lambda>n. hc_can_refund_htlc (se_taker_htlc env) n (tsd_taker_payment_lock (ts_data s))) 0 of
        None \<Rightarrow> None
      | Some _ \<Rightarrow>
          (case ts_taker_payment s of
             None \<Rightarrow> None
           | Some payment \<Rightarrow>
               let args = taker_refund_args (tx_hex payment) s;
                   r = hc_send_taker_refunds_payment (se_taker_htlc env) args;
                   effs = RefundPaymentTx args # tx_helper (ts_taker_coin s) r
               in case r of
                    Inl err \<Rightarrow> Some (Some TFinish,
                      [TTakerPaymentRefundFailed (get_plain_text_format err)], effs)
                  | Inr tx \<Rightarrow> Some (Some TFinish, [TTakerPaymentRefunded tx], effs)))"

fun taker_handle_command :: "swap_env \<Rightarrow> taker_swap_command \<Rightarrow> taker_swap \<Rightarrow> taker_step" where
  "taker_handle_command env TStart s = taker_start env s"
| "taker_handle_command env TNegotiate s = taker_negotiate env s"
| "taker_handle_command env TSendTakerFee s = taker_send_taker_fee env s"
| "taker_handle_command env TWaitForMakerPayment s = taker_wait_for_maker_payment env s"
| "taker_handle_command env TValidateMakerPayment s = taker_validate_maker_payment env s"
| "taker_handle_command env TSendTakerPayment s = taker_send_taker_payment env s"
| "taker_handle_command env TWaitForTakerPaymentSpend s = taker_wait_for_taker_payment_spend env s"
| "taker_handle_command env TSpendMakerPayment s = taker_spend_maker_payment env s"
| "taker_handle_command env TRefundTakerPayment s = taker_refund_taker_payment env s"
| "taker_handle_command env TFinish s = Some (None, [TFinished], [])"

end
