(* ===== verification/TakerSwapRun.thy ===== *)
theory TakerSwapRun
  imports TakerSwap SwapRun
begin

text \<open>
  The journal of a taker swap, its restoration, the recovery of funds, the amounts a swap locks,
  and its instance of the loop that drives it (\<open>run_taker_swap\<close>). As on the maker's side the
  fields of \<open>TakerSavedSwap\<close> that only describe the program are left out.
\<close>

section \<open>The journal\<close>

record taker_saved_event =
  tse_timestamp :: u64
  tse_event :: taker_swap_event

record taker_saved_swap =
  tss_uuid :: uuid
  tss_my_order_uuid :: "uuid option"
  tss_events :: "taker_saved_event list"
  tss_maker_amount :: "mm_number option"
  tss_maker_coin :: "ticker option"
  tss_taker_amount :: "mm_number option"
  tss_taker_coin :: "ticker option"

definition tss_journal :: "taker_saved_swap \<Rightarrow> taker_swap_event list" where
  "tss_journal saved = map tse_event (tss_events saved)"

definition taker_is_finished :: "taker_saved_swap \<Rightarrow> bool" where
  "taker_is_finished saved = (tss_journal saved \<noteq> [] \<and> last (tss_journal saved) = TFinished)"

fun taker_unrecoverable_event :: "taker_swap_event \<Rightarrow> bool" where
  "taker_unrecoverable_event (TStartFailed _) = True"
| "taker_unrecoverable_event (TNegotiateFailed _) = True"
| "taker_unrecoverable_event (TTakerFeeSendFailed _) = True"
| "taker_unrecoverable_event (TMakerPaymentValidateFailed _) = True"
| "taker_unrecoverable_event (TTakerPaymentRefunded _) = True"
| "taker_unrecoverable_event (TMakerPaymentSpent _) = True"
| "taker_unrecoverable_event TMakerPaymentSpendConfirmed = True"
| "taker_unrecoverable_event (TMakerPaymentSpentByWatcher _) = True"
| "taker_unrecoverable_event (TTakerPaymentRefundedByWatcher _) = True"
| "taker_unrecoverable_event (TMakerPaymentWaitConfirmFailed _) = True"
| "taker_unrecoverable_event _ = False"

definition taker_is_recoverable :: "taker_saved_swap \<Rightarrow> bool" where
  "taker_is_recoverable saved =
     (taker_is_finished saved \<and> \<not> list_ex taker_unrecoverable_event (tss_journal saved))"

definition taker_is_success :: "taker_saved_swap \<Rightarrow> string + bool" where
  "taker_is_success saved =
     (if \<not> taker_is_finished saved then Inl ''Can not determine is_success state for not finished swap''
      else Inr (list_all taker_event_is_success (tss_journal saved)))"

definition save_my_taker_swap_event :: "taker_saved_event \<Rightarrow> taker_saved_swap \<Rightarrow> taker_saved_swap" where
  "save_my_taker_swap_event e saved = saved\<lparr>tss_events := tss_events saved @ [e]\<rparr>"

definition new_taker_saved_swap :: "swap_env \<Rightarrow> taker_swap \<Rightarrow> taker_saved_swap" where
  "new_taker_saved_swap env s =
     \<lparr>tss_uuid = ts_uuid s, tss_my_order_uuid = ts_my_order_uuid s, tss_events = [],
      tss_maker_amount = Some (se_to_decimal env (ts_maker_amount s)), tss_maker_coin = Some (ts_maker_coin s),
      tss_taker_amount = Some (se_to_decimal env (ts_taker_amount s)), tss_taker_coin = Some (ts_taker_coin s)\<rparr>"

definition taker_refresh_contracts :: "swap_env \<Rightarrow> taker_swap_data \<Rightarrow> taker_swap_data" where
  "taker_refresh_contracts env d =
     d\<lparr>tsd_maker_coin_swap_contract_address :=
         (case tsd_maker_coin_swap_contract_address d of
            Some a \<Rightarrow> Some a | None \<Rightarrow> hc_swap_contract_address (se_maker_htlc env)),
       tsd_taker_coin_swap_contract_address :=
         (case tsd_taker_coin_swap_contract_address d of
            Some a \<Rightarrow> Some a | None \<Rightarrow> hc_swap_contract_address (se_taker_htlc env))\<rparr>"

definition taker_swap_from_data :: "swap_env \<Rightarrow> taker_saved_swap \<Rightarrow> taker_swap_data \<Rightarrow> taker_swap" where
  "taker_swap_from_data env saved d =
     taker_swap_new env (tsd_maker d) (tsd_maker_amount d) (tsd_taker_amount d)
       (kp_public (se_key_pair env)) (tss_uuid saved) (Some (tss_uuid saved))
       \<lparr>cs_maker_coin_confs = tsd_maker_payment_confirmations d,
        cs_maker_coin_nota = (case tsd_maker_payment_requires_nota d of
           Some n \<Rightarrow> n | None \<Rightarrow> coin_requires_notarization (se_maker_coin env)),
        cs_taker_coin_confs = tsd_taker_payment_confirmations d,
        cs_taker_coin_nota = (case tsd_taker_payment_requires_nota d of
           Some n \<Rightarrow> n | None \<Rightarrow> coin_requires_notarization (se_taker_coin env))\<rparr>
       (tsd_lock_duration d) (tsd_p2p_privkey d)"

definition taker_load_from_saved ::
  "swap_env \<Rightarrow> taker_saved_swap \<Rightarrow> string + (taker_swap \<times> taker_swap_command option)" where
  "taker_load_from_saved env saved =
     (case tss_journal saved of
        [] \<Rightarrow> Inl ''Can't restore swap from empty events set''
      | TStarted d # rest \<Rightarrow>
          (let d = taker_refresh_contracts env d in
           Inr (fold (taker_apply_event (se_now env)) (TStarted d # rest) (taker_swap_from_data env saved d),
                taker_get_command (last (TStarted d # rest))))
      | _ \<Rightarrow> Inl ''First swap event must be Started'')"

section \<open>Recovery of funds\<close>

definition taker_search_args :: "bool \<Rightarrow> bytes \<Rightarrow> taker_swap \<Rightarrow> search_args" where
  "taker_search_args mine payment s =
     (if mine then
        \<lparr>sa_time_lock = ucast (tsd_taker_payment_lock (ts_data s)),
         sa_other_pub = ts_other_taker_coin_htlc_pub s, sa_secret_hash = ts_secret_hash s, sa_tx = payment,
         sa_search_from_block = tsd_taker_coin_start_block (ts_data s),
         sa_swap_contract_address = tsd_taker_coin_swap_contract_address (ts_data s)\<rparr>
      else
        \<lparr>sa_time_lock = ucast (ts_maker_payment_lock s),
         sa_other_pub = ts_other_maker_coin_htlc_pub s, sa_secret_hash = ts_secret_hash s, sa_tx = payment,
         sa_search_from_block = tsd_maker_coin_start_block (ts_data s),
         sa_swap_contract_address = tsd_maker_coin_swap_contract_address (ts_data s)\<rparr>)"

definition check_maker_payment_is_not_spent :: "swap_env \<Rightarrow> bytes \<Rightarrow> taker_swap \<Rightarrow> string + unit" where
  "check_maker_payment_is_not_spent env payment s =
     (case hc_search_for_swap_tx_spend_other (se_maker_htlc env) (taker_search_args False payment s) of
        Inl _ \<Rightarrow> Inl ''Error when trying to find maker payment spend''
      | Inr (Some (Spent _)) \<Rightarrow> Inl ''Maker payment was already spent''
      | Inr (Some (Refunded _)) \<Rightarrow> Inl ''Maker payment was already refunded''
      | Inr None \<Rightarrow> Inr ())"

definition taker_recover_spend ::
  "swap_env \<Rightarrow> bytes \<Rightarrow> bytes \<Rightarrow> taker_swap \<Rightarrow> (string + recovered_swap) \<times> swap_effect list" where
  "taker_recover_spend env payment secret s =
     (let args = taker_spend_args payment secret s;
          r = hc_send_taker_spends_maker_payment (se_maker_htlc env) args
      in case r of
           Inl err \<Rightarrow> (Inl (get_plain_text_format err), SpendPaymentTx args # tx_helper (ts_maker_coin s) r)
         | Inr tx \<Rightarrow> (Inr \<lparr>rs_action = SpentOtherPayment, rs_coin = ts_maker_coin s, rs_transaction = tx\<rparr>,
             [SpendPaymentTx args]))"

definition taker_recover_refund ::
  "swap_env \<Rightarrow> bytes \<Rightarrow> taker_swap \<Rightarrow> (string + recovered_swap) \<times> swap_effect list" where
  "taker_recover_refund env payment s =
     (if se_now env < tsd_taker_payment_lock (ts_data s) + 3700
      then (Inl ''Too early to refund'', [])
      else
        let args = taker_refund_args payment s;
            r = hc_send_taker_refunds_payment (se_taker_htlc env) args
        in case r of
             Inl err \<Rightarrow> (Inl (get_plain_text_format err),
               RefundPaymentTx args # tx_helper (ts_taker_coin s) r)
           | Inr tx \<Rightarrow> (Inr \<lparr>rs_action = RefundedMyPayment, rs_coin = ts_taker_coin s, rs_transaction = tx\<rparr>,
               [RefundPaymentTx args]))"

definition taker_recover_payment ::
  "swap_env \<Rightarrow> bytes \<Rightarrow> bytes \<Rightarrow> taker_swap \<Rightarrow> (string + recovered_swap) \<times> swap_effect list" where
  "taker_recover_payment env maker_payment taker_payment s =
     (if ts_taker_payment_spend s \<noteq> None then
        (case check_maker_payment_is_not_spent env maker_payment s of
           Inl err \<Rightarrow> (Inl err, [])
         | Inr _ \<Rightarrow> taker_recover_spend env maker_payment (ts_secret s) s)
      else
        case hc_search_for_swap_tx_spend_my (se_taker_htlc env) (taker_search_args True taker_payment s) of
          Inl err \<Rightarrow> (Inl err, [])
        | Inr (Some (Spent tx)) \<Rightarrow>
            (case check_maker_payment_is_not_spent env maker_payment s of
               Inl err \<Rightarrow> (Inl err, [])
             | Inr _ \<Rightarrow>
                 (case hc_extract_secret (se_taker_htlc env) (ts_secret_hash s) (tx_hex tx) of
                    Inl err \<Rightarrow> (Inl err, [])
                  | Inr secret \<Rightarrow> taker_recover_spend env maker_payment secret s))
        | Inr (Some (Refunded _)) \<Rightarrow> (Inl ''Taker payment has been refunded already'', [])
        | Inr None \<Rightarrow> taker_recover_refund env taker_payment s)"

definition taker_recover_funds ::
  "swap_env \<Rightarrow> taker_swap \<Rightarrow> (string + recovered_swap) \<times> swap_effect list" where
  "taker_recover_funds env s =
     (if ts_finished_at s = 0 then (Inl ''Swap must be finished before recover funds attempt'', [])
      else if ts_taker_payment_refund s \<noteq> None
      then (Inl ''Taker payment is refunded, swap is not recoverable'', [])
      else if ts_maker_payment_spend s \<noteq> None
      then (Inl ''Maker payment is spent, swap is not recoverable'', [])
      else case ts_maker_payment s of
          None \<Rightarrow> (Inl ''No info about maker payment, swap is not recoverable'', [])
        | Some mp \<Rightarrow>
            (case ts_taker_payment s of
               Some tp \<Rightarrow> taker_recover_payment env (tx_hex mp) (tx_hex tp) s
             | None \<Rightarrow>
                 (case hc_check_if_my_payment_sent (se_taker_htlc env) (taker_payment_query s) of
                    Inl err \<Rightarrow> (Inl err, [])
                  | Inr None \<Rightarrow> (Inl ''Taker payment is not found, swap is not recoverable'', [])
                  | Inr (Some tp) \<Rightarrow> taker_recover_payment env (tx_hex mp) (tx_hex tp) s)))"

section \<open>Locked amounts\<close>

definition taker_locked_amount :: "swap_env \<Rightarrow> taker_swap \<Rightarrow> locked_amount list" where
  "taker_locked_amount env s =
     (if ts_taker_fee s = None
      then [\<lparr>la_coin = ts_taker_coin s,
             la_amount = dex_fee_amount_from_taker_coin (se_net env) (se_taker_coin env)
               (tsd_maker_coin (ts_data s)) (ts_taker_amount s),
             la_trade_fee = map_option trade_fee_from_saved (tsd_fee_to_send_taker_fee (ts_data s))\<rparr>]
      else [])
     @ (if ts_taker_payment s = None
        then [\<lparr>la_coin = ts_taker_coin s, la_amount = ts_taker_amount s,
               la_trade_fee = map_option trade_fee_from_saved (tsd_taker_payment_trade_fee (ts_data s))\<rparr>]
        else [])
     @ (if ts_maker_payment_spend s = None
        then [\<lparr>la_coin = ts_maker_coin s, la_amount = 0,
               la_trade_fee = map_option trade_fee_from_saved (tsd_maker_payment_spend_trade_fee (ts_data s))\<rparr>]
        else [])"

definition taker_atomic_swap :: "swap_env \<Rightarrow> taker_swap \<Rightarrow> atomic_swap" where
  "taker_atomic_swap env s =
     \<lparr>as_uuid = ts_uuid s, as_locked_amount = taker_locked_amount env s,
      as_maker_coin = ts_maker_coin s, as_taker_coin = ts_taker_coin s\<rparr>"

section \<open>The run of a swap\<close>

definition taker_machine ::
  "(taker_swap, taker_swap_command, taker_swap_event, taker_saved_swap) swap_machine" where
  "taker_machine =
     \<lparr>sm_handle_command = taker_handle_command, sm_apply_event = taker_apply_event,
      sm_save_event = (\<lambda>t e. save_my_taker_swap_event \<lparr>tse_timestamp = t, tse_event = e\<rparr>),
      sm_should_ban = taker_should_ban_maker, sm_counterparty = ts_maker,
      sm_load_from_saved = taker_load_from_saved\<rparr>"

lemma taker_machine_simps [simp]:
  "sm_handle_command taker_machine = taker_handle_command"
  "sm_apply_event taker_machine = taker_apply_event"
  "sm_save_event taker_machine = (\<lambda>t e. save_my_taker_swap_event \<lparr>tse_timestamp = t, tse_event = e\<rparr>)"
  "sm_load_from_saved taker_machine = taker_load_from_saved"
  by (simp_all add: taker_machine_def)

abbreviation taker_run_new ::
  "swap_env \<Rightarrow> taker_swap \<Rightarrow> (taker_swap, taker_swap_command, taker_swap_event, taker_saved_swap) swap_run" where
  "taker_run_new env s \<equiv> swap_run_new TStart (new_taker_saved_swap env s) s"

abbreviation taker_reach ::
  "swap_env \<Rightarrow> taker_swap \<Rightarrow> (taker_swap, taker_swap_command, taker_swap_event, taker_saved_swap) swap_run \<Rightarrow> bool" where
  "taker_reach base s \<equiv> swap_reach taker_machine base (taker_run_new base s)"

abbreviation taker_trace ::
  "swap_env \<Rightarrow> taker_swap \<Rightarrow> (taker_swap, taker_swap_command) handler_log \<Rightarrow>
    (taker_swap, taker_swap_command, taker_swap_event, taker_saved_swap) swap_run \<Rightarrow> bool" where
  "taker_trace base s \<equiv> swap_trace taker_machine base (taker_run_new base s)"

end
