(* ===== verification/SwapStart.thy ===== *)
theory SwapStart
  imports OrderTrading MakerSwapRun TakerSwapRun
begin

text \<open>
  How a matched order becomes a swap: the confirmation settings both sides derive from the request
  and the reservation, the lock time (\<open>lp_atomic_locktime\<close> of \<open>lp_swap.rs\<close>), and the swaps that
  \<open>lp_connect_start_bob\<close> and \<open>lp_connected_alice\<close> (\<open>ordermatch_trading.rs\<close>) create. The key pair
  of a privacy order is kept as bytes by the order, so its reading is an argument.
\<close>

section \<open>Lock times\<close>

definition payment_locktime :: u64 where
  "payment_locktime = 3600 * 2 + 300 * 2"

definition coin_with_4x_locktime :: "ticker \<Rightarrow> bool" where
  "coin_with_4x_locktime t = (t \<in> {''BCH'', ''BTG'', ''SBTC''})"

datatype (plugins only: code size) atomic_locktime_version =
    LocktimeV1
  | LocktimeV2 swap_confirmations_settings swap_confirmations_settings

definition lp_atomic_locktime_v1 :: "ticker \<Rightarrow> ticker \<Rightarrow> u64" where
  "lp_atomic_locktime_v1 maker_coin taker_coin =
     (if maker_coin = ''BTC'' \<or> taker_coin = ''BTC'' then payment_locktime * 10
      else if coin_with_4x_locktime maker_coin \<or> coin_with_4x_locktime taker_coin then payment_locktime * 4
      else payment_locktime)"

definition lp_atomic_locktime_v2 ::
  "ticker \<Rightarrow> ticker \<Rightarrow> swap_confirmations_settings \<Rightarrow> swap_confirmations_settings \<Rightarrow> u64" where
  "lp_atomic_locktime_v2 maker_coin taker_coin mine other =
     (if maker_coin = ''BTC'' \<or> taker_coin = ''BTC'' \<or> coin_with_4x_locktime maker_coin
         \<or> coin_with_4x_locktime taker_coin \<or> settings_require_notarization mine \<or> settings_require_notarization other
      then payment_locktime * 4 else payment_locktime)"

fun lp_atomic_locktime :: "ticker \<Rightarrow> ticker \<Rightarrow> atomic_locktime_version \<Rightarrow> u64" where
  "lp_atomic_locktime maker_coin taker_coin LocktimeV1 = lp_atomic_locktime_v1 maker_coin taker_coin"
| "lp_atomic_locktime maker_coin taker_coin (LocktimeV2 mine other) =
     lp_atomic_locktime_v2 maker_coin taker_coin mine other"

section \<open>Confirmation settings\<close>

definition choose_maker_confs_and_notas ::
  "order_confirmations_settings option \<Rightarrow> taker_request \<Rightarrow> mm_coin \<Rightarrow> mm_coin \<Rightarrow> swap_confirmations_settings" where
  "choose_maker_confs_and_notas maker_confs req maker_coin taker_coin =
     (let ms = (case maker_confs of
          Some s \<Rightarrow> s
        | None \<Rightarrow> \<lparr>oc_base_confs = coin_required_confirmations maker_coin,
                   oc_base_nota = coin_requires_notarization maker_coin,
                   oc_rel_confs = coin_required_confirmations taker_coin,
                   oc_rel_nota = coin_requires_notarization taker_coin\<rparr>);
          (mc, mn) = (case tr_conf_settings req of
            None \<Rightarrow> (oc_base_confs ms, oc_base_nota ms)
          | Some ts \<Rightarrow>
              (case tr_action req of
                 Sell \<Rightarrow> (if oc_rel_confs ts < oc_base_confs ms then oc_rel_confs ts else oc_base_confs ms,
                          if \<not> oc_rel_nota ts then oc_rel_nota ts else oc_base_nota ms)
               | Buy \<Rightarrow> (if oc_base_confs ts < oc_base_confs ms then oc_base_confs ts else oc_base_confs ms,
                         if \<not> oc_base_nota ts then oc_base_nota ts else oc_base_nota ms)))
      in \<lparr>cs_maker_coin_confs = mc, cs_maker_coin_nota = mn,
          cs_taker_coin_confs = oc_rel_confs ms, cs_taker_coin_nota = oc_rel_nota ms\<rparr>)"

definition choose_taker_confs_and_notas ::
  "taker_request \<Rightarrow> maker_reserved \<Rightarrow> mm_coin \<Rightarrow> mm_coin \<Rightarrow> swap_confirmations_settings" where
  "choose_taker_confs_and_notas req reserved maker_coin taker_coin =
     (let (tc, tn, mc, mn) = (case tr_conf_settings req of
          Some s \<Rightarrow>
            (case tr_action req of
               Buy \<Rightarrow> (oc_rel_confs s, oc_rel_nota s, oc_base_confs s, oc_base_nota s)
             | Sell \<Rightarrow> (oc_base_confs s, oc_base_nota s, oc_rel_confs s, oc_rel_nota s))
        | None \<Rightarrow> (coin_required_confirmations taker_coin, coin_requires_notarization taker_coin,
                   coin_required_confirmations maker_coin, coin_requires_notarization maker_coin));
          (tc, tn) = (case mr_conf_settings reserved of
            None \<Rightarrow> (tc, tn)
          | Some ms \<Rightarrow> (if oc_rel_confs ms < tc then oc_rel_confs ms else tc,
                        if \<not> oc_rel_nota ms then oc_rel_nota ms else tn))
      in \<lparr>cs_maker_coin_confs = mc, cs_maker_coin_nota = mn, cs_taker_coin_confs = tc, cs_taker_coin_nota = tn\<rparr>)"

section \<open>The two swaps\<close>

definition lp_connect_start_bob ::
  "(ticker \<Rightarrow> mm_coin option) \<Rightarrow> (bytes \<Rightarrow> key_pair) \<Rightarrow> swap_env \<Rightarrow> maker_match \<Rightarrow> maker_order \<Rightarrow> maker_swap option" where
  "lp_connect_start_bob lookup key env m order =
     (case (lookup (mo_rel order), lookup (mo_base order)) of
        (Some taker_coin, Some maker_coin) \<Rightarrow>
          let req = mm_request m; reserved = mm_reserved m;
              mine = choose_maker_confs_and_notas (mo_conf_settings order) req maker_coin taker_coin;
              version = (case tr_conf_settings req of
                Some _ \<Rightarrow> LocktimeV2 mine (choose_taker_confs_and_notas req reserved maker_coin taker_coin)
              | None \<Rightarrow> LocktimeV1)
          in Some (maker_swap_new (env\<lparr>se_maker_coin := maker_coin, se_taker_coin := taker_coin\<rparr>)
               (tr_sender_pubkey req) (se_to_decimal env (mr_base_amount reserved))
               (se_to_decimal env (mr_rel_amount reserved)) (kp_public (se_key_pair env)) (tr_uuid req)
               (Some (mo_uuid order)) mine
               (lp_atomic_locktime (coin_ticker maker_coin) (coin_ticker taker_coin) version)
               (map_option key (mo_p2p_privkey order)))
      | _ \<Rightarrow> None)"

definition lp_connected_alice ::
  "(ticker \<Rightarrow> mm_coin option) \<Rightarrow> (bytes \<Rightarrow> key_pair) \<Rightarrow> swap_env \<Rightarrow> taker_order \<Rightarrow> taker_match \<Rightarrow> taker_swap option" where
  "lp_connected_alice lookup key env order m =
     (case (lookup (taker_coin_ticker order), lookup (maker_coin_ticker order)) of
        (Some taker_coin, Some maker_coin) \<Rightarrow>
          let req = to_request order; reserved = tm_reserved m; uuid = mr_taker_order_uuid reserved;
              mine = choose_taker_confs_and_notas req reserved maker_coin taker_coin;
              version = (case mr_conf_settings reserved of
                Some c \<Rightarrow> LocktimeV2 mine (choose_maker_confs_and_notas (Some c) req maker_coin taker_coin)
              | None \<Rightarrow> LocktimeV1)
          in Some (taker_swap_new (env\<lparr>se_maker_coin := maker_coin, se_taker_coin := taker_coin\<rparr>)
               (mr_sender_pubkey reserved) (mr_base_amount reserved) (mr_rel_amount reserved)
               (kp_public (se_key_pair env)) uuid (Some uuid) mine
               (lp_atomic_locktime (coin_ticker maker_coin) (coin_ticker taker_coin) version)
               (map_option key (to_p2p_privkey order)))
      | _ \<Rightarrow> None)"

section \<open>Both sides start the same swap\<close>

lemma settings_agree:
  assumes "tr_conf_settings r1 = Some ts" "tr_conf_settings r2 = Some ts" "tr_action r1 = tr_action r2"
  shows "choose_maker_confs_and_notas (Some c) r1 mc tc = choose_maker_confs_and_notas (Some c) r2 mc' tc'"
    "mr_conf_settings x1 = mr_conf_settings x2 \<Longrightarrow>
      choose_taker_confs_and_notas r1 x1 mc tc = choose_taker_confs_and_notas r2 x2 mc' tc'"
  using assms
  by (simp_all add: choose_maker_confs_and_notas_def choose_taker_confs_and_notas_def)

lemma choose_maker_confs_default:
  "choose_maker_confs_and_notas None r mc tc =
    choose_maker_confs_and_notas (Some \<lparr>oc_base_confs = coin_required_confirmations mc,
      oc_base_nota = coin_requires_notarization mc, oc_rel_confs = coin_required_confirmations tc,
      oc_rel_nota = coin_requires_notarization tc\<rparr>) r mc tc"
  by (simp add: choose_maker_confs_and_notas_def)

lemma lp_atomic_locktime_v2_commute:
  "lp_atomic_locktime_v2 mc tc a b = lp_atomic_locktime_v2 mc tc b a"
  by (auto simp: lp_atomic_locktime_v2_def)


end
