(* ===== verification/SwapClock.thy ===== *)
theory SwapClock
  imports SwapTypes
begin

text \<open>
  The comparison of the starting times of both sides in wrapping 64-bit arithmetic, and what it
  implies for the 32-bit lock times that end up in the payment scripts. The check also lets
  pass a time that differs by exactly \<open>2 ^ 63\<close>; the lock time in the script is the same then.
\<close>

lemma uint64_bounds: "0 \<le> uint (d :: 64 word)" "uint (d :: 64 word) < 18446744073709551616"
  using unsigned_less[of d] by simp_all

lemma sint_word64:
  fixes d :: "64 word"
  shows "sint d = (if uint d < 9223372036854775808 then uint d else uint d - 18446744073709551616)"
proof -
  have "sint d = (uint d + 9223372036854775808) mod 18446744073709551616 - 9223372036854775808"
    using int_word_sint[of "uint d", where 'a=64] by simp
  moreover have "(uint d + 9223372036854775808) mod 18446744073709551616 = uint d + 9223372036854775808"
    if "uint d < 9223372036854775808"
    using that uint64_bounds[of d] by (intro mod_pos_pos_trivial) linarith+
  moreover have "(uint d + 9223372036854775808) mod 18446744073709551616 = uint d - 9223372036854775808"
    if "\<not> uint d < 9223372036854775808"
  proof -
    have "(uint d - 9223372036854775808 + 18446744073709551616) mod 18446744073709551616 = uint d - 9223372036854775808"
      unfolding mod_add_self2 using that uint64_bounds[of d] by (intro mod_pos_pos_trivial) linarith+
    then show ?thesis by (simp add: add.commute)
  qed
  ultimately show ?thesis by simp
qed

lemma uint_uminus_word64: "uint (- d :: 64 word) = (if d = 0 then 0 else 18446744073709551616 - uint d)"
  using uint_word_ariths(4)[of d] uint64_bounds[of d]
  by (auto simp: zmod_zminus1_eq_if unsigned_eq_0_iff)

lemma abs_dif_word64:
  fixes d :: "64 word"
  assumes "\<not> 60 < sint (if sint d < 0 then - d else d)"
  shows "uint d \<le> 60 \<or> 18446744073709551616 - 60 \<le> uint d \<or> uint d = 9223372036854775808"
  using assms uint64_bounds[of d] by (auto simp: sint_word64 uint_uminus_word64 split: if_splits)

lemma started_close:
  assumes "\<not> started_too_far_apart mine other"
  shows "uint (mine - other) \<le> 60 \<or> 18446744073709551616 - 60 \<le> uint (mine - other)
    \<or> uint (mine - other) = 9223372036854775808"
  using assms by (intro abs_dif_word64) (simp only: started_too_far_apart_def started_at_time_dif_def Let_def simp_thms)

lemma uint_ucast32: "uint (ucast (x :: 64 word) :: 32 word) = uint x mod 4294967296"
  by (simp add: unsigned_ucast_eq take_bit_eq_mod)

lemma close_sum_mod:
  fixes m l D :: int
  assumes D: "0 \<le> D" "D < 18446744073709551616"
    and close: "D \<le> 60 \<or> 18446744073709551616 - 60 \<le> D \<or> D = 9223372036854775808"
    and m: "60 \<le> m" "0 \<le> l" "m + l + 60 < 4294967296"
  shows "\<exists>\<delta>. - 60 \<le> \<delta> \<and> \<delta> \<le> 60 \<and> ((m - D) mod 18446744073709551616 + l) mod 4294967296 = m + l + \<delta>"
proof -
  have wrap: "(m - D) mod 18446744073709551616 = (m - D + 18446744073709551616) mod 18446744073709551616"
    by (rule mod_add_self2[symmetric])
  consider "D \<le> 60" | "18446744073709551616 - 60 \<le> D" | "D = 9223372036854775808" using close by blast
  then show ?thesis
  proof cases
    case 1
    then have "(m - D) mod 18446744073709551616 = m - D" using D m by (intro mod_pos_pos_trivial) linarith+
    moreover have "(m - D + l) mod 4294967296 = m - D + l" using 1 D m by (intro mod_pos_pos_trivial) linarith+
    ultimately show ?thesis using 1 D by (intro exI[of _ "- D"]) simp
  next
    case 2
    then have "(m - D) mod 18446744073709551616 = m - D + 18446744073709551616"
      unfolding wrap using D m by (intro mod_pos_pos_trivial) linarith+
    moreover have "(m - D + 18446744073709551616 + l) mod 4294967296 = m - D + 18446744073709551616 + l"
      using 2 D m by (intro mod_pos_pos_trivial) linarith+
    ultimately show ?thesis using 2 D by (intro exI[of _ "18446744073709551616 - D"]) simp
  next
    case 3
    have "(m - D) mod 18446744073709551616 = m - D + 18446744073709551616"
      unfolding wrap using 3 m by (intro mod_pos_pos_trivial) linarith+
    then have "(m - D) mod 18446744073709551616 = m + 9223372036854775808" using 3 by simp
    moreover have "(m + 9223372036854775808 + l) = (m + l) + 2147483648 * 4294967296" by simp
    moreover have "((m + l) + 2147483648 * 4294967296) mod 4294967296 = m + l"
      unfolding mod_mult_self1 using m by (intro mod_pos_pos_trivial) linarith+
    ultimately show ?thesis by (intro exI[of _ 0]) (simp add: ac_simps)
  qed
qed

lemma negotiated_lock:
  fixes mine other lock :: u64
  assumes "\<not> started_too_far_apart mine other"
    and "60 \<le> uint mine" "uint mine + uint lock + 60 < 4294967296"
  shows "\<exists>\<delta>. - 60 \<le> \<delta> \<and> \<delta> \<le> 60 \<and> uint (ucast (other + lock) :: u32) = uint mine + uint lock + \<delta>"
proof -
  have "other = mine - (mine - other)" by simp
  then have "uint other = (uint mine - uint (mine - other)) mod 18446744073709551616"
    using uint_word_ariths(2)[of mine "mine - other"] by simp
  moreover have "uint (ucast (other + lock) :: u32) = (uint other + uint lock) mod 4294967296"
    unfolding uint_ucast32 using uint_word_ariths(1)[of other lock] by (simp add: mod_mod_cancel)
  ultimately show ?thesis
    using close_sum_mod[OF uint64_bounds started_close[OF assms(1)] assms(2) uint64_bounds(1) assms(3)] by simp
qed

lemma uint_add_u64: "uint a + uint b < 18446744073709551616 \<Longrightarrow> uint (a + b :: u64) = uint a + uint b"
  using uint_add_lem[of a b] by simp

lemma uint_mult_u64: "uint a * uint b < 18446744073709551616 \<Longrightarrow> uint (a * b :: u64) = uint a * uint b"
  using uint_mult_lem[of a b] by simp

lemma mod_small: "0 \<le> (k :: int) \<Longrightarrow> k < n \<Longrightarrow> k mod n = k"
  by (rule mod_pos_pos_trivial)

lemma uint_four_fifths:
  fixes started lock :: u64
  assumes "uint started + 2 * uint lock + 60 < 4294967296"
  shows "uint (started + lock * 4 div 5) = uint started + 4 * uint lock div 5"
proof -
  have b: "0 \<le> uint started" "0 \<le> uint lock" by simp_all
  then have l: "uint lock < 4294967296" using assms by linarith
  have "uint (lock * 4) = uint lock * 4"
    using uint_mult_u64[of lock 4] l by simp
  then have q: "uint (lock * 4 div 5) = 4 * uint lock div 5"
    by (simp add: uint_div mult.commute)
  have "uint started + 4 * uint lock div 5 < 18446744073709551616" using assms b by linarith
  then show ?thesis using uint_add_u64[of started "lock * 4 div 5"] by (simp add: q)
qed

lemma uint_maker_lock:
  fixes started lock :: u64
  assumes "uint started + 2 * uint lock + 60 < 4294967296"
  shows "uint (ucast (started + lock * 2) :: u32) = uint started + 2 * uint lock"
proof -
  have b: "0 \<le> uint started" "0 \<le> uint lock" by simp_all
  then have l: "uint lock < 4294967296" using assms by linarith
  have q: "uint (lock * 2) = 2 * uint lock"
    using uint_mult_u64[of lock 2] l by (simp add: mult.commute)
  have "uint started + 2 * uint lock < 18446744073709551616" using assms by linarith
  then have "uint (started + lock * 2) = uint started + 2 * uint lock"
    using uint_add_u64[of started "lock * 2"] by (simp add: q)
  then show ?thesis using assms b unfolding uint_ucast32 by (simp add: mod_small)
qed

lemma uint_taker_lock:
  fixes started lock :: u64
  assumes "uint started + 2 * uint lock + 60 < 4294967296"
  shows "uint (ucast (started + lock) :: u32) = uint started + uint lock"
    "uint (started + lock div 3) = uint started + uint lock div 3"
    "uint (lock * 2) = 2 * uint lock"
proof -
  have b: "0 \<le> uint started" "0 \<le> uint lock" by simp_all
  then have l: "uint lock < 4294967296" "uint started + uint lock < 4294967296" using assms by linarith+
  then have "uint (started + lock) = uint started + uint lock" using uint_add_u64[of started lock] by simp
  then show "uint (ucast (started + lock) :: u32) = uint started + uint lock"
    using l b unfolding uint_ucast32 by (simp add: mod_small)
  have "uint lock div 3 \<le> uint lock" using b(2) by linarith
  then have "uint started + uint lock div 3 < 18446744073709551616" using l by linarith
  then show "uint (started + lock div 3) = uint started + uint lock div 3"
    using uint_add_u64[of started "lock div 3"] by (simp add: uint_div)
  show "uint (lock * 2) = 2 * uint lock"
    using uint_mult_u64[of lock 2] l by (simp add: mult.commute)
qed

end
