(* ===== verification/SwapDemo.thy ===== *)
theory SwapDemo
  imports SwapTypes
begin

text \<open>
  A concrete world for swaps: two coins whose calls succeed, a maker and a taker whose clocks
  differ by ten seconds, and the messages they exchange. It witnesses that the hypotheses of the
  theorems on swaps can hold.
\<close>

definition demo_tx :: "8 word \<Rightarrow> transaction_identifier" where
  "demo_tx b = \<lparr>tx_hex = [b], tx_hash = [b, b]\<rparr>"

definition demo_htlc :: htlc_coin where
  "demo_htlc =
     \<lparr>hc_swap_contract_address = None, hc_negotiate_swap_contract_addr = (\<lambda>_. Inr None),
      hc_htlc_key_pair = None, hc_current_block = Inr 100,
      hc_tx_enum_from_bytes = (\<lambda>bs. Inr \<lparr>tx_hex = bs, tx_hash = bs @ bs\<rparr>),
      hc_send_taker_fee = (\<lambda>_ _ _. Inr (demo_tx 1)), hc_validate_fee = (\<lambda>_ _. Inr ()),
      hc_check_if_my_payment_sent = (\<lambda>_. Inr None),
      hc_send_maker_payment = (\<lambda>_. Inr (demo_tx 2)), hc_send_taker_payment = (\<lambda>_. Inr (demo_tx 3)),
      hc_wait_for_confirmations = (\<lambda>_. Inr ()),
      hc_validate_maker_payment = (\<lambda>_. Inr ()), hc_validate_taker_payment = (\<lambda>_. Inr ()),
      hc_send_maker_spends_taker_payment = (\<lambda>_. Inr (demo_tx 4)),
      hc_send_taker_spends_maker_payment = (\<lambda>_. Inr (demo_tx 5)),
      hc_send_maker_refunds_payment = (\<lambda>_. Inr (demo_tx 6)),
      hc_send_taker_refunds_payment = (\<lambda>_. Inr (demo_tx 7)),
      hc_can_refund_htlc = (\<lambda>n _. if n = 0 then Inr (HaveToWait 5) else Inr CanRefundNow),
      hc_wait_for_tx_spend = (\<lambda>_ _ _ _. Inr (demo_tx 4)),
      hc_search_for_swap_tx_spend_my = (\<lambda>_. Inr None),
      hc_search_for_swap_tx_spend_other = (\<lambda>_. Inr None),
      hc_extract_secret = (\<lambda>_ _. Inr (replicate 32 9)), hc_is_supported_by_watchers = False,
      hc_create_maker_payment_spend_preimage = (\<lambda>_ _ _ _. Inl (TxPlain ''not supported'')),
      hc_create_taker_payment_refund_preimage = (\<lambda>_ _ _ _. Inl (TxPlain ''not supported''))\<rparr>"

definition demo_keys :: "8 word \<Rightarrow> key_pair" where
  "demo_keys b = \<lparr>kp_private = replicate 32 b, kp_public = 2 # replicate 32 b\<rparr>"

text \<open>The world as the maker or the taker meets it, some seconds after the start of the swap.\<close>

definition demo_swap_env :: "8 word \<Rightarrow> u64 \<Rightarrow> swap_env" where
  "demo_swap_env who seconds =
     \<lparr>se_now_ms = (1700000000 + seconds) * 1000, se_key_pair = demo_keys who, se_net = netid_8762,
      se_swaps = \<lparr>sc_running_swaps = [], sc_active_swaps_v2 = [], sc_locked_amounts_v2 = []\<rparr>,
      se_maker_coin = flat_fee_coin ''LTC'' 100 (1 / 100), se_taker_coin = flat_fee_coin ''DOGE'' 1000 1,
      se_maker_htlc = demo_htlc, se_taker_htlc = demo_htlc, se_fresh_secret = replicate 32 9,
      se_dhash160 = take 20, se_to_decimal = id,
      se_negotiation = Inr (NegotiationDataV2 1700000000 (1700000000 + 15600) (replicate 20 9)
        (kp_public (demo_keys 1)) [] []),
      se_negotiation_reply = Inr (NegotiationDataV2 1700000010 (1700000010 + 7800) (replicate 20 9)
        (kp_public (demo_keys 2)) [] []),
      se_negotiated = Inr True, se_taker_fee = Inr [1], se_maker_payment = Inr [2],
      se_taker_payment = Inr [3]\<rparr>"

definition demo_conf_settings :: swap_confirmations_settings where
  "demo_conf_settings =
     \<lparr>cs_maker_coin_confs = 1, cs_maker_coin_nota = False, cs_taker_coin_confs = 1, cs_taker_coin_nota = False\<rparr>"

fun spends_of :: "swap_effect list \<Rightarrow> spend_args list" where
  "spends_of [] = []"
| "spends_of (SpendPaymentTx a # effs) = a # spends_of effs"
| "spends_of (_ # effs) = spends_of effs"

fun payments_of :: "swap_effect list \<Rightarrow> payment_args list" where
  "payments_of [] = []"
| "payments_of (SendPaymentTx a # effs) = a # payments_of effs"
| "payments_of (_ # effs) = payments_of effs"

lemma set_spends_of: "a \<in> set (spends_of effs) \<Longrightarrow> SpendPaymentTx a \<in> set effs"
  by (induction effs rule: spends_of.induct) auto

lemma set_payments_of: "a \<in> set (payments_of effs) \<Longrightarrow> SendPaymentTx a \<in> set effs"
  by (induction effs rule: payments_of.induct) auto

end
