(* ===== verification/SwapAgreement.thy ===== *)
theory SwapAgreement
  imports SwapStart SwapClock SwapDemo
begin

text \<open>
  The two sides of a swap together: what an honest maker and an honest taker agree on by exchanging
  their negotiation messages, compared through the arguments each of them passes to its coins.
\<close>

definition payment_matches :: "payment_args \<Rightarrow> validate_payment_input \<Rightarrow> bool" where
  "payment_matches p v =
     (vp_time_lock v = pa_time_lock p \<and> vp_secret_hash v = pa_secret_hash p \<and> vp_amount v = pa_amount p
      \<and> vp_swap_contract_address v = pa_swap_contract_address p)"

definition spend_matches :: "payment_args \<Rightarrow> spend_args \<Rightarrow> bool" where
  "spend_matches p a =
     (sp_time_lock a = pa_time_lock p \<and> sp_other_pub a = pa_my_pub p
      \<and> sp_swap_contract_address a = pa_swap_contract_address p)"

definition negotiated_agree :: "swap_env \<Rightarrow> maker_swap \<Rightarrow> swap_env \<Rightarrow> taker_swap \<Rightarrow> bool" where
  "negotiated_agree me sm te st =
     (\<forall>tx hex secret.
        payment_matches (maker_payment_args me sm) (taker_validate_input te st tx)
      \<and> vp_maker_pub (taker_validate_input te st tx) = pa_my_pub (maker_payment_args me sm)
      \<and> vp_taker_pub (taker_validate_input te st tx) = pa_other_pub (maker_payment_args me sm)
      \<and> payment_matches (taker_payment_args te st) (maker_validate_input me sm tx)
      \<and> vp_taker_pub (maker_validate_input me sm tx) = pa_my_pub (taker_payment_args te st)
      \<and> vp_maker_pub (maker_validate_input me sm tx) = pa_other_pub (taker_payment_args te st)
      \<and> spend_matches (maker_payment_args me sm) (taker_spend_args hex secret st)
      \<and> spend_matches (taker_payment_args te st) (maker_spend_args sm tx)
      \<and> vf_expected_sender (maker_fee_args me sm tx) = kp_public (ts_my_taker_coin_htlc_keypair st))"

lemma close_clocks:
  assumes "\<bar>uint a - uint b\<bar> \<le> 60"
  shows "\<not> started_too_far_apart a b"
proof -
  have d: "uint (a - b) = (uint a - uint b) mod 18446744073709551616" by (simp add: uint_word_ariths)
  have "(uint a - uint b) mod 18446744073709551616 =
      (if uint b \<le> uint a then uint a - uint b else uint a - uint b + 18446744073709551616)"
  proof (cases "uint b \<le> uint a")
    case True
    then show ?thesis using assms uint64_bounds[of a] uint64_bounds[of b] by (simp add: mod_pos_pos_trivial)
  next
    case False
    have "(uint a - uint b) mod 18446744073709551616 = (uint a - uint b + 18446744073709551616) mod 18446744073709551616"
      by (rule mod_add_self2[symmetric])
    also have "\<dots> = uint a - uint b + 18446744073709551616"
      using False assms by (intro mod_pos_pos_trivial) linarith+
    finally show ?thesis using False by simp
  qed
  then have "uint (a - b) = (if uint b \<le> uint a then uint a - uint b else uint a - uint b + 18446744073709551616)"
    using d by simp
  then have "\<not> 60 < sint (if sint (a - b) < 0 then - (a - b) else a - b)"
    unfolding if_distrib[of sint] sint_word64[of "a - b"] sint_word64[of "- (a - b)"] uint_uminus_word64[of "a - b"]
    using assms uint64_bounds[of a] uint64_bounds[of b] by (simp split: if_splits)
  then show ?thesis unfolding started_too_far_apart_def started_at_time_dif_def Let_def .
qed

lemma maker_start_ok:
  assumes "maker_start env s = Some (Some MNegotiate, [MStarted d], effs)"
  shows "\<exists>f1 f2 b1 b2. d = maker_start_data env s f1 f2 b1 b2"
  using assms by (auto simp: maker_start_def bind_res_Inr_iff split: sum.splits)

lemma taker_start_ok:
  assumes "taker_start env s = Some (Some TNegotiate, [TStarted d], effs)"
  shows "\<exists>f1 f2 f3 b1 b2. d = taker_start_data env s f1 f2 f3 b1 b2"
  using assms by (auto simp: taker_start_def Let_def bind_res_Inr_iff split: sum.splits) blast


end
