(* ===== verification/OrderManagement.thy ===== *)
theory OrderManagement
  imports OrderTrading
begin

text \<open>
  The other operations on the own orders (\<open>ordermatch_trading.rs\<close>): the periodic clean-up
  (\<open>handle_timed_out_maker_matches\<close>, \<open>handle_timed_out_taker_orders\<close>,
  \<open>check_balance_for_maker_orders\<close>, expiry), the reaction to a changed balance, and the calls of
  the user: \<open>lp_auto_buy\<close>, \<open>create_maker_order\<close>, \<open>update_maker_order\<close>, \<open>cancel_order\<close>,
  \<open>cancel_orders_by\<close> and the start-up from saved orders. A call returns the context and the
  effects also when it fails, because some of them cancel orders before they fail.
\<close>

section \<open>Periodic clean-up\<close>

definition retain_match :: "u64 \<Rightarrow> maker_match \<Rightarrow> bool" where
  "retain_match now order_match =
     (now < mm_last_updated order_match + order_match_timeout * 1000 \<or> mm_connected order_match \<noteq> None)"

definition handle_timed_out_maker_matches :: "om_env \<Rightarrow> ordermatch_context \<Rightarrow> ordermatch_context" where
  "handle_timed_out_maker_matches env ctx =
     (let orders = map (\<lambda>(u, order). (u, order\<lparr>mo_matches :=
                      filter (\<lambda>(_, order_match). retain_match (oe_now_ms env) order_match) (mo_matches order)\<rparr>))
                    (mc_orders (om_maker ctx))
      in ctx\<lparr>om_maker := (om_maker ctx)\<lparr>mc_orders := orders\<rparr>\<rparr>)"

fun timed_out_taker_loop ::
  "om_env \<Rightarrow> (uuid \<times> taker_order) list \<Rightarrow> maker_orders_context \<Rightarrow>
    ((uuid, taker_order) hash_map \<times> maker_orders_context \<times> om_action list) option" where
  "timed_out_taker_loop env [] mc = Some ([], mc, [])"
| "timed_out_taker_loop env ((uuid, order) # orders) mc =
     (if oe_now_ms env \<le> to_created_at order + to_timeout order * 1000
      then (case timed_out_taker_loop env orders mc of
              None \<Rightarrow> None
            | Some (kept, mc, acts) \<Rightarrow> Some ((uuid, order) # kept, mc, acts))
      else if to_matches order \<noteq> [] \<or> to_order_type order \<noteq> GoodTillCancelled
      then (case timed_out_taker_loop env orders mc of
              None \<Rightarrow> None
            | Some (kept, mc, acts) \<Rightarrow> Some (kept, mc, DeleteTakerOrder order TakerTimedOut # acts))
      else
        (case maker_order_from_taker (oe_now_ms env) order of
           None \<Rightarrow> None
         | Some maker_order \<Rightarrow>
             (case timed_out_taker_loop env orders (add_order maker_order mc) of
                None \<Rightarrow> None
              | Some (kept, mc, acts) \<Rightarrow>
                  Some (kept, mc,
                    DeleteTakerOrder order TakerToMaker
                    # (if oe_find_pair env (mo_base maker_order) (mo_rel maker_order) \<noteq> None
                       then [NotifyCreated maker_order] else [])
                    @ acts))))"

definition handle_timed_out_taker_orders :: "om_env \<Rightarrow> ordermatch_context \<Rightarrow> om_result" where
  "handle_timed_out_taker_orders env ctx =
     (case timed_out_taker_loop env (om_taker_orders ctx) (om_maker ctx) of
        None \<Rightarrow> None
      | Some (kept, mc, acts) \<Rightarrow> Some (ctx\<lparr>om_taker_orders := kept, om_maker := mc\<rparr>, acts))"

text \<open>Removal of an order by its identifier together with the notifications that follow it.\<close>

definition cancel_maker_order ::
  "uuid \<Rightarrow> maker_order \<Rightarrow> maker_cancellation_reason \<Rightarrow> ordermatch_context \<Rightarrow>
    ordermatch_context \<times> om_action list" where
  "cancel_maker_order uuid order reason ctx =
     (case remove_order uuid (om_maker ctx) of
        (None, _) \<Rightarrow> (ctx, [])
      | (Some _, mc) \<Rightarrow> (ctx\<lparr>om_maker := mc\<rparr>, [NotifyCancelled order, DeleteMakerOrder order reason]))"

fun for_orders ::
  "(uuid \<Rightarrow> maker_order \<Rightarrow> ordermatch_context \<Rightarrow> ordermatch_context \<times> om_action list) \<Rightarrow>
    (uuid \<times> maker_order) list \<Rightarrow> ordermatch_context \<Rightarrow> ordermatch_context \<times> om_action list" where
  "for_orders f [] ctx = (ctx, [])"
| "for_orders f ((uuid, order) # orders) ctx =
     (let (ctx1, acts1) = f uuid order ctx; (ctx2, acts2) = for_orders f orders ctx1
      in (ctx2, acts1 @ acts2))"

definition check_balance_for_maker_orders :: "ordermatch_context \<Rightarrow> ordermatch_context \<times> om_action list" where
  "check_balance_for_maker_orders ctx =
     for_orders (\<lambda>uuid order ctx.
       if mo_min_base_vol order \<le> available_amount order \<or> has_ongoing_matches order then (ctx, [])
       else cancel_maker_order uuid order
              (if mo_matches order = [] then MakerInsufficientBalance else MakerFulfilled) ctx)
       (mc_orders (om_maker ctx)) ctx"

definition cancel_expired_orders :: "uuid list \<Rightarrow> ordermatch_context \<Rightarrow> ordermatch_context \<times> om_action list" where
  "cancel_expired_orders expired_uuids ctx =
     (let (expired, mc) = drop_expired expired_uuids (om_maker ctx)
      in (ctx\<lparr>om_maker := mc\<rparr>,
          concat (map (\<lambda>(_, order). [NotifyCancelled order, DeleteMakerOrder order MakerExpired]) expired)))"

section \<open>Balance updates\<close>

definition shrink_order ::
  "om_env \<Rightarrow> mm_number \<Rightarrow> uuid \<Rightarrow> maker_order \<Rightarrow> ordermatch_context \<Rightarrow> ordermatch_context \<times> om_action list" where
  "shrink_order env new_volume uuid order ctx =
     (if new_volume < available_amount order
      then
        let order' = order\<lparr>mo_max_base_vol := reserved_amount order + new_volume\<rparr>
        in (ctx\<lparr>om_maker := put_order uuid order' (om_maker ctx)\<rparr>,
            [NotifyUpdated (with_new_max_volume (available_amount order') (updated_new (mo_uuid order') (oe_now_ms env)))])
      else (ctx, []))"

definition balance_updated_order ::
  "om_env \<Rightarrow> mm_coin \<Rightarrow> mm_number \<Rightarrow> uuid \<Rightarrow> maker_order \<Rightarrow> ordermatch_context \<Rightarrow>
    ordermatch_context \<times> om_action list" where
  "balance_updated_order env coin new_volume uuid order ctx =
     (if mo_base order \<noteq> coin_ticker coin then (ctx, [])
      else if new_volume < mo_min_base_vol order
      then
        (case cancel_maker_order uuid order MakerInsufficientBalance ctx of
           (ctx, []) \<Rightarrow> shrink_order env new_volume uuid order ctx
         | (ctx, acts) \<Rightarrow> (ctx, acts))
      else shrink_order env new_volume uuid order ctx)"

definition balance_updated ::
  "om_env \<Rightarrow> swaps_context \<Rightarrow> mm_coin \<Rightarrow> bool \<Rightarrow> mm_number \<Rightarrow> ordermatch_context \<Rightarrow>
    ordermatch_context \<times> om_action list" where
  "balance_updated env sctx coin wallet_only new_balance ctx =
     (if wallet_only then (ctx, [])
      else
        case (case calc_max_maker_vol sctx coin new_balance OrderIssue of
                Inr info \<Rightarrow> Some (cv_volume info)
              | Inl e \<Rightarrow> if not_sufficient_balance e then Some 0 else None) of
          None \<Rightarrow> (ctx, [])
        | Some new_volume \<Rightarrow>
            for_orders (balance_updated_order env coin new_volume) (mc_orders (om_maker ctx)) ctx)"

section \<open>Calls of the user\<close>

datatype (plugins only: code size) om_error =
    CoinNotFound ticker
  | CoinWalletOnly ticker
  | PriceIsTooLow
  | UnknownMethod string
  | TakerBuildFailed taker_order_build_error
  | MakerBuildFailed maker_order_build_error
  | BalanceCheckFailed check_balance_error
  | FeeQueryFailed trade_preimage_error
  | BalanceQueryFailed balance_error
  | SubscribeFailed
  | SaveFailed
  | NoSuchOrder uuid
  | OrderHasOngoingMatches
  | CoinsNotActivated ticker ticker
  | VolumeNotPositive mm_number
  | VolumeNotAboveReserved mm_number mm_number
  | OrderBeingMatched uuid
  | UuidNotFound uuid

text \<open>What the calls ask of the node beside the matching environment.\<close>

record rpc_env =
  re_env :: om_env
  re_build :: build_env
  re_swaps :: swaps_context
  re_net :: net_config
  re_wallet_only :: "ticker \<Rightarrow> bool"
  re_orderbook_ticker :: "ticker \<Rightarrow> ticker option"
  re_subscribe_ok :: bool
  re_save_ok :: bool

type_synonym 'a om_call = "(ordermatch_context \<times> om_action list \<times> (om_error + 'a)) option"

record auto_buy_input =
  ab_price :: mm_number
  ab_volume :: mm_number
  ab_timeout :: "u64 option"
  ab_method :: string
  ab_match_by :: match_by
  ab_order_type :: order_type
  ab_base_confs :: "u64 option"
  ab_base_nota :: "bool option"
  ab_rel_confs :: "u64 option"
  ab_rel_nota :: "bool option"
  ab_min_volume :: "mm_number option"
  ab_save_in_history :: bool

definition unwrap_or :: "'a option \<Rightarrow> 'a \<Rightarrow> 'a" where
  "unwrap_or x d = (case x of Some v \<Rightarrow> v | None \<Rightarrow> d)"

definition confs_for ::
  "u64 option \<Rightarrow> bool option \<Rightarrow> u64 option \<Rightarrow> bool option \<Rightarrow> mm_coin \<Rightarrow> mm_coin \<Rightarrow>
    order_confirmations_settings" where
  "confs_for bc bn rc rn base_coin rel_coin = \<lparr>
     oc_base_confs = unwrap_or bc (coin_required_confirmations base_coin),
     oc_base_nota = unwrap_or bn (coin_requires_notarization base_coin),
     oc_rel_confs = unwrap_or rc (coin_required_confirmations rel_coin),
     oc_rel_nota = unwrap_or rn (coin_requires_notarization rel_coin)\<rparr>"

definition auto_buy_builder ::
  "rpc_env \<Rightarrow> mm_coin \<Rightarrow> mm_coin \<Rightarrow> auto_buy_input \<Rightarrow> taker_action \<Rightarrow> taker_order_builder" where
  "auto_buy_builder env base_coin rel_coin input action =
     (taker_order_builder_new base_coin rel_coin)\<lparr>
       tb_base_amount := ab_volume input,
       tb_rel_amount := ab_volume input * ab_price input,
       tb_action := action,
       tb_match_by := ab_match_by input,
       tb_min_volume := ab_min_volume input,
       tb_order_type := ab_order_type input,
       tb_conf_settings := Some (confs_for (ab_base_confs input) (ab_base_nota input)
                                   (ab_rel_confs input) (ab_rel_nota input) base_coin rel_coin),
       tb_sender_pubkey := oe_our_public_id (re_env env),
       tb_save_in_history := ab_save_in_history input,
       tb_base_orderbook_ticker := re_orderbook_ticker env (coin_ticker base_coin),
       tb_rel_orderbook_ticker := re_orderbook_ticker env (coin_ticker rel_coin),
       tb_timeout := unwrap_or (ab_timeout input) taker_order_timeout\<rparr>"

definition lp_auto_buy ::
  "rpc_env \<Rightarrow> mm_coin \<Rightarrow> mm_coin \<Rightarrow> auto_buy_input \<Rightarrow> ordermatch_context \<Rightarrow> taker_order om_call" where
  "lp_auto_buy env base_coin rel_coin input ctx =
     (if ab_price input < 1 / 100000000 then Some (ctx, [], Inl PriceIsTooLow)
      else if ab_method input \<noteq> ''buy'' \<and> ab_method input \<noteq> ''sell''
      then Some (ctx, [], Inl (UnknownMethod (ab_method input)))
      else
        let action = (if ab_method input = ''buy'' then Buy else Sell) in
        case taker_order_build (re_build env) (auto_buy_builder env base_coin rel_coin input action) of
          None \<Rightarrow> None
        | Some (Inl e) \<Rightarrow> Some (ctx, [], Inl (TakerBuildFailed e))
        | Some (Inr order) \<Rightarrow>
            if \<not> re_subscribe_ok env then Some (ctx, [], Inl SubscribeFailed)
            else
              (case taker_order_to_proto order of
                 None \<Rightarrow> None
               | Some msg \<Rightarrow>
                   if \<not> re_save_ok env then Some (ctx, [BroadcastRequest msg], Inl SaveFailed)
                   else Some (ctx\<lparr>om_taker_orders :=
                                hm_insert (tr_uuid (to_request order)) order (om_taker_orders ctx)\<rparr>,
                              [BroadcastRequest msg], Inr order)))"

definition cancel_previous_maker_orders ::
  "ticker \<Rightarrow> ticker \<Rightarrow> ordermatch_context \<Rightarrow> ordermatch_context \<times> om_action list" where
  "cancel_previous_maker_orders base rel ctx =
     for_orders (\<lambda>uuid order ctx.
       if mo_base order = base \<and> mo_rel order = rel then cancel_maker_order uuid order MakerCancelled ctx
       else (ctx, []))
       (mc_orders (om_maker ctx)) ctx"

definition get_max_volume :: "swaps_context \<Rightarrow> mm_coin \<Rightarrow> mm_coin \<Rightarrow> om_error + mm_number" where
  "get_max_volume sctx my_coin other_coin =
     bind_res (map_err BalanceQueryFailed (coin_spendable_balance my_coin)) (\<lambda>my_balance.
     bind_res (map_err FeeQueryFailed (coin_receiver_trade_fee other_coin OrderIssue)) (\<lambda>fee.
     bind_res (map_err BalanceCheckFailed (check_other_coin_balance_for_swap sctx other_coin None fee)) (\<lambda>_.
     bind_res (map_err BalanceCheckFailed (calc_max_maker_vol sctx my_coin my_balance OrderIssue)) (\<lambda>info.
       Inr (cv_volume info)))))"

record set_price_req =
  sp_base :: ticker
  sp_rel :: ticker
  sp_price :: mm_number
  sp_max :: bool
  sp_volume :: mm_number
  sp_min_volume :: "mm_number option"
  sp_cancel_previous :: bool
  sp_base_confs :: "u64 option"
  sp_base_nota :: "bool option"
  sp_rel_confs :: "u64 option"
  sp_rel_nota :: "bool option"
  sp_save_in_history :: bool
  sp_timeout_in_minutes :: "u16 option"

definition set_price_volume :: "rpc_env \<Rightarrow> mm_coin \<Rightarrow> mm_coin \<Rightarrow> set_price_req \<Rightarrow> om_error + mm_number" where
  "set_price_volume env base_coin rel_coin req =
     (if sp_max req then get_max_volume (re_swaps env) base_coin rel_coin
      else bind_res (map_err BalanceCheckFailed
             (check_balance_for_maker_swap (re_swaps env) base_coin rel_coin (sp_volume req) None None OrderIssue))
             (\<lambda>_. Inr (sp_volume req)))"

definition set_price_builder ::
  "rpc_env \<Rightarrow> mm_coin \<Rightarrow> mm_coin \<Rightarrow> set_price_req \<Rightarrow> mm_number \<Rightarrow> maker_order_builder" where
  "set_price_builder env base_coin rel_coin req volume =
     (maker_order_builder_new base_coin rel_coin)\<lparr>
       mb_max_base_vol := volume,
       mb_min_base_vol := sp_min_volume req,
       mb_price := sp_price req,
       mb_conf_settings := Some (confs_for (sp_base_confs req) (sp_base_nota req)
                                   (sp_rel_confs req) (sp_rel_nota req) base_coin rel_coin),
       mb_save_in_history := sp_save_in_history req,
       mb_base_orderbook_ticker := re_orderbook_ticker env (coin_ticker base_coin),
       mb_rel_orderbook_ticker := re_orderbook_ticker env (coin_ticker rel_coin),
       mb_timeout_in_minutes := sp_timeout_in_minutes req\<rparr>"

text \<open>
  \<open>create_maker_order\<close>: previous orders of the pair are cancelled when \<open>cancel_previous\<close> is set,
  both when the balance check fails and before the new order is validated.
\<close>

definition create_maker_order ::
  "rpc_env \<Rightarrow> (ticker \<Rightarrow> mm_coin option) \<Rightarrow> set_price_req \<Rightarrow> ordermatch_context \<Rightarrow> maker_order om_call" where
  "create_maker_order env coinfind req ctx =
     (case coinfind (sp_base req) of
        None \<Rightarrow> Some (ctx, [], Inl (CoinNotFound (sp_base req)))
      | Some base_coin \<Rightarrow>
        (case coinfind (sp_rel req) of
           None \<Rightarrow> Some (ctx, [], Inl (CoinNotFound (sp_rel req)))
         | Some rel_coin \<Rightarrow>
           if re_wallet_only env (sp_base req) then Some (ctx, [], Inl (CoinWalletOnly (sp_base req)))
           else if re_wallet_only env (sp_rel req) then Some (ctx, [], Inl (CoinWalletOnly (sp_rel req)))
           else
             let (ctx1, acts) = (if sp_cancel_previous req
                   then cancel_previous_maker_orders (sp_base req) (sp_rel req) ctx else (ctx, []))
             in case set_price_volume env base_coin rel_coin req of
                  Inl e \<Rightarrow> Some (ctx1, acts, Inl e)
                | Inr volume \<Rightarrow>
                    (case maker_order_build (re_build env) (set_price_builder env base_coin rel_coin req volume) of
                       Inl e \<Rightarrow> Some (ctx1, acts, Inl (MakerBuildFailed e))
                     | Inr order \<Rightarrow>
                         if \<not> re_subscribe_ok env then Some (ctx1, acts, Inl SubscribeFailed)
                         else if \<not> re_save_ok env then Some (ctx1, acts, Inl SaveFailed)
                         else Some (ctx1\<lparr>om_maker := add_order order (om_maker ctx1)\<rparr>,
                                    acts @ [NotifyCreated order], Inr order))))"

record maker_order_update_req =
  ur_uuid :: uuid
  ur_new_price :: "mm_number option"
  ur_max :: "bool option"
  ur_volume_delta :: "mm_number option"
  ur_min_volume :: "mm_number option"
  ur_base_confs :: "u64 option"
  ur_base_nota :: "bool option"
  ur_rel_confs :: "u64 option"
  ur_rel_nota :: "bool option"

definition update_new_volume ::
  "rpc_env \<Rightarrow> mm_coin \<Rightarrow> mm_coin \<Rightarrow> maker_order_update_req \<Rightarrow> maker_order \<Rightarrow> maker_order_updated \<Rightarrow>
    om_error + (mm_number \<times> maker_order_updated)" where
  "update_new_volume env base_coin rel_coin req order msg =
     (if unwrap_or (ur_max req) False
      then bind_res (get_max_volume (re_swaps env) base_coin rel_coin) (\<lambda>v.
             let max_volume = v + reserved_amount order in
             Inr (max_volume, with_new_max_volume max_volume msg))
      else
        case ur_volume_delta req of
          Some delta \<Rightarrow>
            let volume = mo_max_base_vol order + delta in
            if volume \<le> 0 then Inl (VolumeNotPositive volume)
            else bind_res (map_err BalanceCheckFailed
                   (check_balance_for_maker_swap (re_swaps env) base_coin rel_coin volume None None OrderIssue))
                   (\<lambda>_. Inr (volume, with_new_max_volume volume msg))
        | None \<Rightarrow> Inr (mo_max_base_vol order, msg))"

text \<open>The validation part of \<open>update_maker_order\<close>: the new volume and the update to apply.\<close>

definition update_maker_order_msg ::
  "rpc_env \<Rightarrow> mm_coin \<Rightarrow> mm_coin \<Rightarrow> maker_order_update_req \<Rightarrow> maker_order \<Rightarrow>
    order_confirmations_settings \<Rightarrow> om_error + (mm_number \<times> maker_order_updated)" where
  "update_maker_order_msg env base_coin rel_coin req order original_conf_settings =
     (let updated_conf_settings = \<lparr>
            oc_base_confs = unwrap_or (ur_base_confs req) (oc_base_confs original_conf_settings),
            oc_base_nota = unwrap_or (ur_base_nota req) (oc_base_nota original_conf_settings),
            oc_rel_confs = unwrap_or (ur_rel_confs req) (oc_rel_confs original_conf_settings),
            oc_rel_nota = unwrap_or (ur_rel_nota req) (oc_rel_nota original_conf_settings)\<rparr>;
          reserved = reserved_amount order;
          msg = with_new_conf_settings updated_conf_settings (updated_new (ur_uuid req) (oe_now_ms (re_env env)));
          min_base_amount = coin_min_trading_vol base_coin;
          min_rel_amount = coin_min_trading_vol rel_coin
      in bind_res
           (case ur_new_price req of
              Some p \<Rightarrow> bind_res (map_err MakerBuildFailed (validate_price p)) (\<lambda>_. Inr (p, with_new_price p msg))
            | None \<Rightarrow> Inr (mo_price order, msg))
           (\<lambda>(new_price, msg).
         bind_res
           (case ur_min_volume req of
              Some min_volume \<Rightarrow>
                bind_res (map_err MakerBuildFailed
                  (validate_and_get_min_vol min_base_amount min_rel_amount (Some min_volume) new_price))
                  (\<lambda>v. Inr (with_new_min_volume v msg))
            | None \<Rightarrow> Inr msg)
           (\<lambda>msg.
         bind_res (update_new_volume env base_coin rel_coin req order msg) (\<lambda>(new_volume, msg).
           if new_volume \<le> reserved then Inl (VolumeNotAboveReserved new_volume reserved)
           else bind_res (map_err MakerBuildFailed
                  (validate_max_vol min_base_amount min_rel_amount (new_volume - reserved)
                     (ur_min_volume req) new_price))
                  (\<lambda>_. Inr (new_volume, msg))))))"

text \<open>
  \<open>update_maker_order\<close>. The comparison of the order with its state before the checks always
  succeeds in an atomic step; \<open>conf_settings.unwrap()\<close> panics on an order without settings.
\<close>

definition update_maker_order ::
  "rpc_env \<Rightarrow> maker_order_update_req \<Rightarrow> ordermatch_context \<Rightarrow> maker_order om_call" where
  "update_maker_order env req ctx =
     (case get_order (om_maker ctx) (ur_uuid req) of
        None \<Rightarrow> Some (ctx, [], Inl (NoSuchOrder (ur_uuid req)))
      | Some order \<Rightarrow>
          if has_ongoing_matches order then Some (ctx, [], Inl OrderHasOngoingMatches)
          else
            (case oe_find_pair (re_env env) (mo_base order) (mo_rel order) of
               None \<Rightarrow> Some (ctx, [], Inl (CoinsNotActivated (mo_base order) (mo_rel order)))
             | Some (base_coin, rel_coin) \<Rightarrow>
                 (case mo_conf_settings order of
                    None \<Rightarrow> None
                  | Some confs \<Rightarrow>
                      (case update_maker_order_msg env base_coin rel_coin req order confs of
                         Inl e \<Rightarrow> Some (ctx, [], Inl e)
                       | Inr (new_volume, msg) \<Rightarrow>
                           if \<not> re_save_ok env then Some (ctx, [], Inl SaveFailed)
                           else
                             let order' = maker_apply_updated (oe_now_ms (re_env env)) msg order
                             in Some (ctx\<lparr>om_maker := put_order (ur_uuid req) order' (om_maker ctx)\<rparr>,
                                      [NotifyUpdated (with_new_max_volume (new_volume - reserved_amount order) msg)],
                                      Inr order')))))"

definition cancel_order :: "uuid \<Rightarrow> ordermatch_context \<Rightarrow> ordermatch_context \<times> om_action list \<times> (om_error + unit)" where
  "cancel_order uuid ctx =
     (case get_order (om_maker ctx) uuid of
        Some order \<Rightarrow>
          if \<not> maker_is_cancellable order then (ctx, [], Inl (OrderBeingMatched uuid))
          else (case cancel_maker_order uuid order MakerCancelled ctx of (ctx', acts) \<Rightarrow> (ctx', acts, Inr ()))
      | None \<Rightarrow>
          (case hm_get (om_taker_orders ctx) uuid of
             None \<Rightarrow> (ctx, [], Inl (UuidNotFound uuid))
           | Some order \<Rightarrow>
               if \<not> taker_is_cancellable order then (ctx, [], Inl (UuidNotFound uuid))
               else (ctx\<lparr>om_taker_orders := hm_remove uuid (om_taker_orders ctx)\<rparr>,
                     [DeleteTakerOrder order TakerCancelled], Inr ())))"

datatype (plugins only: code size) cancel_by = CancelAll | CancelPair ticker ticker | CancelCoin ticker

fun cancel_by_pair :: "cancel_by \<Rightarrow> ticker \<Rightarrow> ticker \<Rightarrow> bool" where
  "cancel_by_pair CancelAll base rel = True"
| "cancel_by_pair (CancelPair b r) base rel = (base = b \<and> rel = r)"
| "cancel_by_pair (CancelCoin t) base rel = (base = t \<or> rel = t)"

text \<open>
  The three branches of \<open>cancel_orders_by\<close> differ only in the condition: selected maker orders
  and then taker orders are sorted into cancelled and currently matching ones.
\<close>

definition cancel_orders_by ::
  "cancel_by \<Rightarrow> ordermatch_context \<Rightarrow> ordermatch_context \<times> om_action list \<times> uuid list \<times> uuid list" where
  "cancel_orders_by by_what ctx =
     (let msel = filter (\<lambda>(_, m). cancel_by_pair by_what (mo_base m) (mo_rel m)) (mc_orders (om_maker ctx));
          mcancel = filter (\<lambda>(_, m). maker_is_cancellable m) msel;
          mbusy = filter (\<lambda>(_, m). \<not> maker_is_cancellable m) msel;
          tsel = filter (\<lambda>(_, t). cancel_by_pair by_what (tr_base (to_request t)) (tr_rel (to_request t)))
                   (om_taker_orders ctx);
          tcancel = filter (\<lambda>(_, t). taker_is_cancellable t) tsel;
          tbusy = filter (\<lambda>(_, t). \<not> taker_is_cancellable t) tsel;
          mc = fold (\<lambda>(u, _) mc. snd (remove_order u mc)) mcancel (om_maker ctx);
          kept = filter (\<lambda>(_, t). \<not> (cancel_by_pair by_what (tr_base (to_request t)) (tr_rel (to_request t))
                                     \<and> taker_is_cancellable t)) (om_taker_orders ctx)
      in (ctx\<lparr>om_maker := mc, om_taker_orders := kept\<rparr>,
          concat (map (\<lambda>(_, m). [NotifyCancelled m, DeleteMakerOrder m MakerCancelled]) mcancel)
            @ map (\<lambda>(_, t). DeleteTakerOrder t TakerCancelled) tcancel,
          map fst mcancel @ map fst tcancel,
          map fst mbusy @ map fst tbusy))"

definition orders_kick_start ::
  "maker_order list \<Rightarrow> taker_order list \<Rightarrow> ordermatch_context \<Rightarrow> ordermatch_context" where
  "orders_kick_start saved_maker_orders saved_taker_orders ctx =
     ctx\<lparr>om_maker := fold add_order saved_maker_orders (om_maker ctx),
         om_taker_orders := fold (\<lambda>t. hm_insert (tr_uuid (to_request t)) t) saved_taker_orders (om_taker_orders ctx)\<rparr>"

end
