(* ===== verification/OrderInvariant.thy ===== *)
theory OrderInvariant
  imports OrderSafety
begin

text \<open>
  The invariant of a single own order and its preservation by what the handlers do to it:
  adding a reservation, connecting a match, pruning timed out matches, shrinking or updating the
  volume.
\<close>

section \<open>Maker orders\<close>

lemma hm_forall_iff: "hm_forall P m \<longleftrightarrow> hm_ok m \<and> (\<forall>k v. hm_get m k = Some v \<longrightarrow> P k v)"
  by (auto simp: hm_forall_def list_all_iff hm_ok_get_iff)

definition match_ok :: "uuid list \<Rightarrow> uuid \<Rightarrow> maker_match \<Rightarrow> bool" where
  "match_ok started k mm =
     (tr_uuid (mm_request mm) = k \<and> mr_taker_order_uuid (mm_reserved mm) = k
      \<and> 0 < mr_base_amount (mm_reserved mm)
      \<and> (mm_connect mm = None) = (mm_connected mm = None)
      \<and> (mm_connected mm \<noteq> None) = (k \<in> set started))"

definition maker_inv :: "uuid \<Rightarrow> maker_order \<Rightarrow> bool" where
  "maker_inv u m =
     (mo_uuid m = u \<and> 0 < mo_price m \<and> mo_conf_settings m \<noteq> None
      \<and> hm_forall (match_ok (mo_started_swaps m)) (mo_matches m)
      \<and> reserved_amount m \<le> mo_max_base_vol m
      \<and> distinct (mo_started_swaps m)
      \<and> list_all (\<lambda>k. hm_get (mo_matches m) k \<noteq> None) (mo_started_swaps m))"

lemma reserved_amount_fresh:
  "hm_get (mo_matches m) k = None \<Longrightarrow>
    reserved_amount (m\<lparr>mo_matches := hm_insert k mm (mo_matches m)\<rparr>) =
    reserved_amount m + mr_base_amount (mm_reserved mm)"
  by (simp add: reserved_amount_sum hm_insert_fresh)

lemma reserved_amount_same:
  "hm_get (mo_matches m) k = Some mm \<Longrightarrow> mm_reserved mm' = mm_reserved mm \<Longrightarrow>
    reserved_amount (m\<lparr>mo_matches := hm_insert k mm' (mo_matches m), mo_started_swaps := s\<rparr>) = reserved_amount m"
  using hm_sum_insert[of "mo_matches m" k mm "\<lambda>_ mm. mr_base_amount (mm_reserved mm)" mm']
  by (simp add: reserved_amount_sum)

lemma sum_list_filter_le:
  fixes f :: "'a \<Rightarrow> 'b::linordered_field"
  shows "\<forall>x \<in> set xs. 0 \<le> f x \<Longrightarrow> (\<Sum>x\<leftarrow>filter P xs. f x) \<le> (\<Sum>x\<leftarrow>xs. f x)"
  by (induction xs) auto

lemma reserved_amount_nonneg:
  "hm_forall (match_ok s) (mo_matches m) \<Longrightarrow> 0 \<le> reserved_amount m"
  by (force simp: reserved_amount_sum hm_forall_def list_all_iff match_ok_def intro!: sum_list_nonneg)

lemma maker_inv_reserve:
  assumes inv: "maker_inv u m" and fresh: "hm_get (mo_matches m) (tr_uuid r) = None"
    and matched: "match_with_request m r = Some (Matched b a)"
    and mm: "mm_request mm = r" "mm_connect mm = None" "mm_connected mm = None"
      "mr_base_amount (mm_reserved mm) = b" "mr_taker_order_uuid (mm_reserved mm) = tr_uuid r"
  shows "maker_inv u (m\<lparr>mo_matches := hm_insert (tr_uuid r) mm (mo_matches m)\<rparr>)"
proof -
  note D = match_with_request_MatchedD[OF matched]
  have price: "0 < mo_price m" using inv by (simp add: maker_inv_def)
  have "0 < b" using D(1,5,6) price by (cases "tr_action r") auto
  moreover have "tr_uuid r \<notin> set (mo_started_swaps m)"
    using inv fresh by (auto simp: maker_inv_def list_all_iff)
  ultimately have "match_ok (mo_started_swaps m) (tr_uuid r) mm"
    using mm by (simp add: match_ok_def)
  then show ?thesis
    using inv D(4) mm
    by (auto simp: maker_inv_def reserved_amount_fresh[OF fresh] available_amount_def hm_forall_insert
        list_all_iff hm_simps)
qed

lemma maker_inv_connect:
  assumes inv: "maker_inv u m" and get: "hm_get (mo_matches m) k = Some mm"
    and unconnected: "mm_connected mm = None"
  shows "maker_inv u (m\<lparr>
    mo_matches := hm_insert k (mm\<lparr>mm_connect := Some c, mm_connected := Some d\<rparr>) (mo_matches m),
    mo_started_swaps := mo_started_swaps m @ [k]\<rparr>)"
proof -
  have all: "hm_forall (match_ok (mo_started_swaps m)) (mo_matches m)"
    using inv by (simp add: maker_inv_def)
  have k: "match_ok (mo_started_swaps m) k mm"
    using hm_forall_get[OF all get] .
  then have new: "k \<notin> set (mo_started_swaps m)"
    using unconnected by (simp add: match_ok_def)
  let ?s = "mo_started_swaps m @ [k]"
  have "hm_forall (match_ok ?s) (hm_insert k (mm\<lparr>mm_connect := Some c, mm_connected := Some d\<rparr>) (mo_matches m))"
    using all k by (auto simp: hm_forall_iff hm_ok_insert match_ok_def hm_simps)
  then show ?thesis
    using inv new reserved_amount_same[OF get, of "mm\<lparr>mm_connect := Some c, mm_connected := Some d\<rparr>"]
    by (auto simp: maker_inv_def list_all_iff hm_simps)
qed

lemma maker_inv_prune:
  assumes "maker_inv u m" "\<And>mm. mm_connected mm \<noteq> None \<Longrightarrow> Q mm"
  shows "maker_inv u (m\<lparr>mo_matches := filter (\<lambda>(_, mm). Q mm) (mo_matches m)\<rparr>)"
proof -
  let ?ms = "filter (\<lambda>(_, mm). Q mm) (mo_matches m)"
  have all: "hm_forall (match_ok (mo_started_swaps m)) (mo_matches m)" and ok: "hm_ok (mo_matches m)"
    using assms(1) by (simp_all add: maker_inv_def hm_forall_def)
  have "reserved_amount (m\<lparr>mo_matches := ?ms\<rparr>) \<le> reserved_amount m"
    unfolding reserved_amount_sum using all
    by (auto simp: hm_forall_def list_all_iff match_ok_def split: prod.splits
        intro!: sum_list_filter_le)
  moreover have "hm_get ?ms k \<noteq> None" if "k \<in> set (mo_started_swaps m)" for k
  proof -
    obtain mm where "hm_get (mo_matches m) k = Some mm"
      using assms(1) \<open>k \<in> _\<close> by (auto simp: maker_inv_def list_all_iff)
    moreover from hm_forall_get[OF all this] have "mm_connected mm \<noteq> None"
      using \<open>k \<in> _\<close> by (simp add: match_ok_def)
    ultimately show ?thesis
      using assms(2) by (simp add: hm_get_filter[OF ok, of "\<lambda>_. Q"])
  qed
  ultimately show ?thesis
    using assms(1) all by (auto simp: maker_inv_def list_all_iff hm_forall_filter)
qed

lemma maker_inv_shrink:
  "maker_inv u m \<Longrightarrow> 0 \<le> v \<Longrightarrow> maker_inv u (m\<lparr>mo_max_base_vol := reserved_amount m + v\<rparr>)"
  by (auto simp: maker_inv_def reserved_amount_sum)

text \<open>The fields an update message leaves alone, and the invariant after a validated one.\<close>

lemma maker_apply_updated_fields:
  "mo_matches (maker_apply_updated now msg m) = mo_matches m"
  "mo_started_swaps (maker_apply_updated now msg m) = mo_started_swaps m"
  "mo_uuid (maker_apply_updated now msg m) = mo_uuid m"
  "mo_base (maker_apply_updated now msg m) = mo_base m"
  "mo_rel (maker_apply_updated now msg m) = mo_rel m"
  "mo_price (maker_apply_updated now msg m) = unwrap_or (mu_new_price (updated_body msg)) (mo_price m)"
  "mo_max_base_vol (maker_apply_updated now msg m) =
     unwrap_or (mu_new_max_volume (updated_body msg)) (mo_max_base_vol m)"
  "mo_min_base_vol (maker_apply_updated now msg m) =
     unwrap_or (mu_new_min_volume (updated_body msg)) (mo_min_base_vol m)"
  "mo_conf_settings (maker_apply_updated now msg m) =
     (case new_conf_settings msg of Some s \<Rightarrow> Some s | None \<Rightarrow> mo_conf_settings m)"
  by (simp_all add: maker_apply_updated_def Let_def unwrap_or_def split: option.splits)

lemma reserved_amount_cong: "mo_matches m = mo_matches m' \<Longrightarrow> reserved_amount m = reserved_amount m'"
  by (simp add: reserved_amount_sum)

lemma maker_inv_update:
  assumes "maker_inv u m"
    and "0 < unwrap_or (mu_new_price (updated_body msg)) (mo_price m)"
    and "reserved_amount m \<le> unwrap_or (mu_new_max_volume (updated_body msg)) (mo_max_base_vol m)"
  shows "maker_inv u (maker_apply_updated now msg m)"
  using assms reserved_amount_cong[OF maker_apply_updated_fields(1)]
  by (auto simp: maker_inv_def maker_apply_updated_fields split: option.splits)

lemma maker_inv_new:
  "mo_uuid m = u \<Longrightarrow> 0 < mo_price m \<Longrightarrow> mo_conf_settings m \<noteq> None \<Longrightarrow> mo_matches m = [] \<Longrightarrow>
    mo_started_swaps m = [] \<Longrightarrow> 0 \<le> mo_max_base_vol m \<Longrightarrow> maker_inv u m"
  by (simp add: maker_inv_def hm_forall_Nil reserved_amount_sum)

section \<open>Taker orders\<close>

definition taker_inv :: "uuid \<Rightarrow> taker_order \<Rightarrow> bool" where
  "taker_inv u t =
     (tr_uuid (to_request t) = u \<and> 0 < tr_base_amount (to_request t) \<and> 0 < tr_rel_amount (to_request t)
      \<and> tr_conf_settings (to_request t) \<noteq> None \<and> length (to_matches t) \<le> 1
      \<and> list_all (\<lambda>(k, tm). mr_maker_order_uuid (tm_reserved tm) = k
           \<and> match_reserved t (tm_reserved tm) = ReservedMatched) (to_matches t))"

lemma match_reserved_matches [simp]: "match_reserved (t\<lparr>to_matches := ms\<rparr>) r = match_reserved t r"
  by (simp add: match_reserved_def Let_def split: taker_action.splits)

lemma taker_inv_connect:
  assumes "taker_inv u t" "reserved_acceptable t base_coin rel_coin msg"
    and "tm_reserved tm = msg"
  shows "taker_inv u (t\<lparr>to_matches := hm_insert (mr_maker_order_uuid msg) tm (to_matches t)\<rparr>)"
  using assms by (auto simp: taker_inv_def reserved_acceptable_def hm_insert_def)

lemma maker_inv_from_taker:
  assumes "taker_inv u t"
  obtains m where "maker_order_from_taker now t = Some m" "maker_inv u m"
proof -
  have "\<exists>m. maker_order_from_taker now t = Some m \<and> maker_inv u m"
    using assms
    by (cases "tr_action (to_request t)")
      (auto simp: taker_inv_def maker_order_from_taker_def Let_def intro!: maker_inv_new)
  then show ?thesis using that by blast
qed

section \<open>The context\<close>

definition om_inv :: "ordermatch_context \<Rightarrow> bool" where
  "om_inv ctx =
     (hm_forall maker_inv (mc_orders (om_maker ctx)) \<and> store_inv (om_maker ctx)
      \<and> hm_forall taker_inv (om_taker_orders ctx)
      \<and> list_all (\<lambda>(u, _). hm_get (mc_orders (om_maker ctx)) u = None) (om_taker_orders ctx))"

definition om_empty :: ordermatch_context where
  "om_empty = \<lparr>om_maker = maker_orders_new, om_taker_orders = [], om_pending_maker_reserved = []\<rparr>"

lemma om_inv_empty: "om_inv om_empty"
  by (simp add: om_inv_def om_empty_def store_inv_new)
    (simp add: maker_orders_new_def hm_forall_Nil)

lemma om_invD:
  assumes "om_inv ctx"
  shows "hm_get (mc_orders (om_maker ctx)) u = Some m \<Longrightarrow> maker_inv u m"
    and "hm_get (om_taker_orders ctx) u = Some t \<Longrightarrow> taker_inv u t"
    and "hm_get (om_taker_orders ctx) u = Some t \<Longrightarrow> hm_get (mc_orders (om_maker ctx)) u = None"
    and "hm_ok (mc_orders (om_maker ctx))" "hm_ok (om_taker_orders ctx)"
  using assms
  by (auto simp: om_inv_def hm_forall_def dest: hm_all_get)

lemma om_inv_pending [simp]: "om_inv (ctx\<lparr>om_pending_maker_reserved := p\<rparr>) = om_inv ctx"
  by (simp add: om_inv_def)

text \<open>
  The four ways in which the handlers change the stores: an order is written back, added,
  removed, or a taker order is written back or removed.
\<close>

lemma om_inv_put:
  assumes "om_inv ctx" "hm_get (mc_orders (om_maker ctx)) u = Some w" "mo_base m = mo_base w" "maker_inv u m"
  shows "om_inv (ctx\<lparr>om_maker := put_order u m (om_maker ctx)\<rparr>)"
  using assms store_inv_put[of "om_maker ctx" u w m]
  by (fastforce simp: om_inv_def put_order_def hm_forall_insert hm_simps list_all_iff)

lemma om_inv_add:
  assumes "om_inv ctx" "maker_inv (mo_uuid m) m"
    "hm_get (mc_orders (om_maker ctx)) (mo_uuid m) = None" "hm_get (om_taker_orders ctx) (mo_uuid m) = None"
  shows "om_inv (ctx\<lparr>om_maker := add_order m (om_maker ctx)\<rparr>)"
proof -
  have "list_all (\<lambda>(u, _). u \<noteq> mo_uuid m) (om_taker_orders ctx)"
    using assms(4) om_invD(5)[OF assms(1)] by (auto simp: list_all_iff hm_ok_get_iff[symmetric])
  then show ?thesis
    using assms store_inv_add[of "om_maker ctx" m]
    by (fastforce simp: om_inv_def add_order_def hm_forall_insert hm_simps list_all_iff)
qed

lemma remove_order_get:
  "hm_get (mc_orders (snd (remove_order u mc))) k = (if k = u then None else hm_get (mc_orders mc) k)"
  by (auto simp: remove_order_def forget_ticker_fields hm_simps split: option.splits)

lemma remove_order_forall:
  "hm_forall P (mc_orders mc) \<Longrightarrow> hm_forall P (mc_orders (snd (remove_order u mc)))"
  by (auto simp: remove_order_def forget_ticker_fields hm_forall_remove split: option.splits)

lemma om_inv_remove:
  "om_inv ctx \<Longrightarrow> om_inv (ctx\<lparr>om_maker := snd (remove_order u (om_maker ctx))\<rparr>)"
  by (fastforce simp: om_inv_def store_inv_remove remove_order_forall remove_order_get list_all_iff)

lemma om_inv_taker_put:
  "om_inv ctx \<Longrightarrow> taker_inv u t \<Longrightarrow> hm_get (mc_orders (om_maker ctx)) u = None \<Longrightarrow>
    om_inv (ctx\<lparr>om_taker_orders := hm_insert u t (om_taker_orders ctx)\<rparr>)"
  by (auto simp: om_inv_def hm_forall_insert intro: hm_all_insert)

lemma om_inv_taker_remove:
  "om_inv ctx \<Longrightarrow> om_inv (ctx\<lparr>om_taker_orders := hm_remove u (om_taker_orders ctx)\<rparr>)"
  by (auto simp: om_inv_def hm_forall_remove intro: hm_all_remove)

section \<open>Preservation by the handshake\<close>

text \<open>Inversion of the loop over the candidate orders.\<close>

lemma taker_request_loop_cases:
  assumes "taker_request_loop env r orders ctx = Some (ctx', acts)"
  shows "ctx' = ctx \<and> acts = []
    \<or> (\<exists>u m b a bc rc mm. (u, m) \<in> set orders \<and> match_with_request m r = Some (Matched b a)
        \<and> hm_get (mo_matches m) (tr_uuid r) = None
        \<and> mm = \<lparr>mm_request = r, mm_reserved = make_reserved env bc rc u m r b a, mm_connect = None,
                mm_connected = None, mm_last_updated = oe_now_ms env\<rparr>
        \<and> ctx' = ctx\<lparr>om_maker := put_order u (m\<lparr>mo_matches := hm_insert (tr_uuid r) mm (mo_matches m)\<rparr>) (om_maker ctx)\<rparr>
        \<and> acts = [BroadcastReserved (make_reserved env bc rc u m r b a)])"
  using assms
  by (induction env r orders ctx rule: taker_request_loop.induct)
    (fastforce split: option.splits order_match_result.splits prod.splits if_splits simp: Let_def)+

lemma om_inv_taker_request:
  assumes inv: "om_inv ctx" and step: "process_taker_request env from r ctx = Some (ctx', acts)"
  shows "om_inv ctx'"
proof -
  let ?orders = "filter (\<lambda>(uuid, _). can_match_with_uuid r uuid) (mc_orders (om_maker ctx))"
  have sub: "(u, m) \<in> set ?orders \<Longrightarrow> hm_get (mc_orders (om_maker ctx)) u = Some m" for u m
    by (auto simp: hm_ok_get_iff[OF om_invD(4)[OF inv]])
  consider "ctx' = ctx" | "taker_request_loop env r ?orders ctx = Some (ctx', acts)"
    using step by (auto simp: process_taker_request_def split: if_splits)
  then show ?thesis
  proof cases
    case 2
    from taker_request_loop_cases[OF this] show ?thesis
    proof (elim disjE conjE exE)
      fix u m b a bc rc mm
      assume "(u, m) \<in> set ?orders" and matched: "match_with_request m r = Some (Matched b a)"
        and fresh: "hm_get (mo_matches m) (tr_uuid r) = None"
        and mm: "mm = \<lparr>mm_request = r, mm_reserved = make_reserved env bc rc u m r b a, mm_connect = None,
                mm_connected = None, mm_last_updated = oe_now_ms env\<rparr>"
        and ctx': "ctx' = ctx\<lparr>om_maker := put_order u (m\<lparr>mo_matches := hm_insert (tr_uuid r) mm (mo_matches m)\<rparr>) (om_maker ctx)\<rparr>"
      note get = sub[OF \<open>(u, m) \<in> set ?orders\<close>]
      have "maker_inv u (m\<lparr>mo_matches := hm_insert (tr_uuid r) mm (mo_matches m)\<rparr>)"
        by (rule maker_inv_reserve[OF om_invD(1)[OF inv get] fresh matched]) (simp_all add: mm make_reserved_def)
      then show "om_inv ctx'"
        unfolding ctx' by (intro om_inv_put[OF inv get]) simp_all
    qed (simp add: inv)
  qed (simp add: inv)
qed

lemma om_inv_taker_connect:
  assumes inv: "om_inv ctx" and step: "process_taker_connect env sender msg ctx = Some (ctx', acts)"
  shows "om_inv ctx'"
proof (cases "ctx' = ctx")
  case False
  then obtain m mm where get: "hm_get (mc_orders (om_maker ctx)) (tcn_maker_order_uuid msg) = Some m"
    and mm: "hm_get (mo_matches m) (tcn_taker_order_uuid msg) = Some mm" "mm_connected mm = None"
    and ctx': "\<exists>d. ctx' = ctx\<lparr>om_maker := put_order (tcn_maker_order_uuid msg)
      (m\<lparr>mo_matches := hm_insert (tcn_taker_order_uuid msg)
           (mm\<lparr>mm_connect := Some msg, mm_connected := Some d\<rparr>) (mo_matches m),
         mo_started_swaps := mo_started_swaps m @ [tr_uuid (mm_request mm)]\<rparr>) (om_maker ctx)\<rparr>"
    using step by (auto simp: process_taker_connect_def get_order_def Let_def split: if_splits option.splits)
  note m = om_invD(1)[OF inv get]
  have "tr_uuid (mm_request mm) = tcn_taker_order_uuid msg"
    using m hm_forall_get[of "match_ok (mo_started_swaps m)", OF _ mm(1)]
    by (simp add: maker_inv_def match_ok_def)
  then show ?thesis
    using ctx' om_inv_put[OF inv get _ maker_inv_connect[OF m mm]] by auto
qed (simp add: inv)

lemma om_inv_maker_reserved_recv:
  "om_inv ctx \<Longrightarrow> om_inv (fst (process_maker_reserved_recv env from msg ctx))"
  by (simp add: process_maker_reserved_recv_def Let_def)

text \<open>What a successful second half of \<open>process_maker_reserved\<close> has done.\<close>

lemma process_maker_reserved_fire_cases:
  assumes "process_maker_reserved_fire env u ctx = Some (ctx', acts)"
  shows "(\<exists>p. ctx' = ctx\<lparr>om_pending_maker_reserved := p\<rparr>) \<and> acts = []
    \<or> (\<exists>t bc rc msgs ms msg. hm_get (om_taker_orders ctx) u = Some t
        \<and> oe_find_pair env (maker_coin_ticker t) (taker_coin_ticker t) = Some (bc, rc)
        \<and> hm_get (om_pending_maker_reserved ctx) u = Some msgs
        \<and> sort_by_price msgs = Some ms
        \<and> find (reserved_acceptable t bc rc) ms = Some msg
        \<and> ctx' = ctx\<lparr>om_pending_maker_reserved := hm_remove u (om_pending_maker_reserved ctx),
             om_taker_orders := hm_insert u (t\<lparr>to_matches := hm_insert (mr_maker_order_uuid msg)
               \<lparr>tm_reserved = msg, tm_connect = connect_to env msg, tm_connected = None,
                tm_last_updated = oe_now_ms env\<rparr> (to_matches t)\<rparr>) (om_taker_orders ctx)\<rparr>
        \<and> acts = [BroadcastConnect (connect_to env msg)])"
proof -
  have id: "\<exists>p. ctx = ctx\<lparr>om_pending_maker_reserved := p\<rparr>"
    by (rule exI[of _ "om_pending_maker_reserved ctx"]) simp
  show ?thesis
    using assms id
    by (auto simp: process_maker_reserved_fire_def Let_def split: option.splits prod.splits)
qed

lemma om_inv_maker_reserved_fire:
  assumes inv: "om_inv ctx" and step: "process_maker_reserved_fire env u ctx = Some (ctx', acts)"
  shows "om_inv ctx'"
  using process_maker_reserved_fire_cases[OF step]
proof (elim disjE conjE exE)
  fix t bc rc msgs ms msg
  assume get: "hm_get (om_taker_orders ctx) u = Some t"
    and found: "find (reserved_acceptable t bc rc) ms = Some msg"
    and ctx': "ctx' = ctx\<lparr>om_pending_maker_reserved := hm_remove u (om_pending_maker_reserved ctx),
             om_taker_orders := hm_insert u (t\<lparr>to_matches := hm_insert (mr_maker_order_uuid msg)
               \<lparr>tm_reserved = msg, tm_connect = connect_to env msg, tm_connected = None,
                tm_last_updated = oe_now_ms env\<rparr> (to_matches t)\<rparr>) (om_taker_orders ctx)\<rparr>"
  have "reserved_acceptable t bc rc msg"
    using found by (auto simp: find_Some_iff)
  note t = taker_inv_connect[OF om_invD(2)[OF inv get] this]
  show "om_inv ctx'"
    unfolding ctx'
    using om_inv_taker_put[of "ctx\<lparr>om_pending_maker_reserved := hm_remove u (om_pending_maker_reserved ctx)\<rparr>", OF _ t]
      inv om_invD(3)[OF inv get] by simp
qed (auto simp: inv)

lemma om_inv_maker_connected:
  "om_inv ctx \<Longrightarrow> process_maker_connected env from msg ctx = Some (ctx', acts) \<Longrightarrow> om_inv ctx'"
  by (auto simp: process_maker_connected_def om_inv_taker_remove split: if_splits option.splits)

section \<open>Preservation by the clean-up\<close>

lemma om_inv_timed_out_maker_matches:
  assumes "om_inv ctx"
  shows "om_inv (handle_timed_out_maker_matches env ctx)"
proof -
  let ?f = "\<lambda>m. m\<lparr>mo_matches := filter (\<lambda>(_, mm). retain_match (oe_now_ms env) mm) (mo_matches m)\<rparr>"
  let ?orders = "mc_orders (om_maker ctx)"
  have all: "hm_forall maker_inv ?orders"
    using assms by (simp add: om_inv_def)
  then have "hm_forall maker_inv (map (\<lambda>(u, m). (u, ?f m)) ?orders)"
    by (rule hm_forall_map_values) (auto intro: maker_inv_prune simp: retain_match_def)
  moreover have "ticker_count t (map (\<lambda>(u, m). (u, ?f m)) ?orders) = ticker_count t ?orders" for t
    unfolding ticker_count_def by (simp add: comp_def) (simp add: case_prod_unfold)
  ultimately show ?thesis
    using assms
    by (auto simp: om_inv_def handle_timed_out_maker_matches_def Let_def store_inv_def tickers_match_def
        counted_def hm_get_map_values option.map_comp comp_def hm_forall_def)
qed

lemma cancel_maker_order_snd:
  "fst (cancel_maker_order u m r ctx) = ctx \<or>
   fst (cancel_maker_order u m r ctx) = ctx\<lparr>om_maker := snd (remove_order u (om_maker ctx))\<rparr>"
  by (auto simp: cancel_maker_order_def split: prod.splits option.splits)

lemma om_inv_cancel_maker_order: "om_inv ctx \<Longrightarrow> om_inv (fst (cancel_maker_order u m r ctx))"
  using cancel_maker_order_snd[of u m r ctx] om_inv_remove by auto

text \<open>
  The loops over a snapshot of the orders: each body sees its own order as it is in the context,
  because the keys of the snapshot are distinct and a body touches only its own key.
\<close>

lemma for_orders_inv:
  assumes "om_inv ctx" "distinct (map fst orders)"
    "\<And>u m. (u, m) \<in> set orders \<Longrightarrow> hm_get (mc_orders (om_maker ctx)) u = Some m"
    "\<And>u m ctx. om_inv ctx \<Longrightarrow> hm_get (mc_orders (om_maker ctx)) u = Some m \<Longrightarrow> om_inv (fst (f u m ctx))
       \<and> (\<forall>k. k \<noteq> u \<longrightarrow> hm_get (mc_orders (om_maker (fst (f u m ctx)))) k = hm_get (mc_orders (om_maker ctx)) k)"
  shows "om_inv (fst (for_orders f orders ctx))"
  using assms(1-3)
proof (induction orders arbitrary: ctx)
  case (Cons x orders)
  obtain u m where x: "x = (u, m)" by (cases x)
  note step = assms(4)[OF Cons.prems(1), of u m]
  have get: "hm_get (mc_orders (om_maker ctx)) u = Some m"
    using Cons.prems(3) x by simp
  have "(k, v) \<in> set orders \<Longrightarrow> hm_get (mc_orders (om_maker (fst (f u m ctx)))) k = Some v" for k v
    using step[OF get] Cons.prems(2,3) x by (force simp: image_iff)
  then show ?case
    using Cons.IH[of "fst (f u m ctx)"] step[OF get] Cons.prems(2) x by (simp add: split_beta)
qed simp

lemma om_inv_snapshot:
  assumes "om_inv ctx"
  shows "distinct (map fst (mc_orders (om_maker ctx)))"
    "(u, m) \<in> set (mc_orders (om_maker ctx)) \<Longrightarrow> hm_get (mc_orders (om_maker ctx)) u = Some m"
  using om_invD(4)[OF assms] by (auto simp: hm_ok_def hm_ok_get_iff)

lemma cancel_maker_order_frame:
  "k \<noteq> u \<Longrightarrow> hm_get (mc_orders (om_maker (fst (cancel_maker_order u m r ctx)))) k = hm_get (mc_orders (om_maker ctx)) k"
  using cancel_maker_order_snd[of u m r ctx] by (auto simp: remove_order_get)

lemma om_inv_check_balance_for_maker_orders:
  "om_inv ctx \<Longrightarrow> om_inv (fst (check_balance_for_maker_orders ctx))"
  unfolding check_balance_for_maker_orders_def
  by (rule for_orders_inv) (auto simp: om_inv_snapshot om_inv_cancel_maker_order cancel_maker_order_frame)

lemma om_inv_cancel_previous:
  "om_inv ctx \<Longrightarrow> om_inv (fst (cancel_previous_maker_orders base rel ctx))"
  unfolding cancel_previous_maker_orders_def
  by (rule for_orders_inv) (auto simp: om_inv_snapshot om_inv_cancel_maker_order cancel_maker_order_frame)

lemma cancel_maker_order_keeps_none:
  "hm_get (mc_orders (om_maker ctx)) k = None \<Longrightarrow>
    hm_get (mc_orders (om_maker (fst (cancel_maker_order u m r ctx)))) k = None"
  "om_taker_orders (fst (cancel_maker_order u m r ctx)) = om_taker_orders ctx"
  using cancel_maker_order_snd[of u m r ctx] by (auto simp: remove_order_get)

lemma cancel_previous_frame:
  "hm_get (mc_orders (om_maker ctx)) k = None \<Longrightarrow>
    hm_get (mc_orders (om_maker (fst (cancel_previous_maker_orders base rel ctx)))) k = None"
  "om_taker_orders (fst (cancel_previous_maker_orders base rel ctx)) = om_taker_orders ctx"
proof -
  let ?f = "\<lambda>uuid order ctx. if mo_base order = base \<and> mo_rel order = rel
      then cancel_maker_order uuid order MakerCancelled ctx else (ctx, [])"
  have "(hm_get (mc_orders (om_maker ctx)) k = None \<longrightarrow>
      hm_get (mc_orders (om_maker (fst (for_orders ?f orders ctx)))) k = None)
    \<and> om_taker_orders (fst (for_orders ?f orders ctx)) = om_taker_orders ctx" for orders
    by (induction orders arbitrary: ctx) (auto simp: split_beta cancel_maker_order_keeps_none)
  then show "hm_get (mc_orders (om_maker ctx)) k = None \<Longrightarrow>
    hm_get (mc_orders (om_maker (fst (cancel_previous_maker_orders base rel ctx)))) k = None"
    "om_taker_orders (fst (cancel_previous_maker_orders base rel ctx)) = om_taker_orders ctx"
    by (simp_all add: cancel_previous_maker_orders_def)
qed

lemma om_inv_cancel_expired:
  assumes "om_inv ctx"
  shows "om_inv (fst (cancel_expired_orders us ctx))"
proof -
  have "mc_orders (snd (drop_expired us (om_maker ctx))) =
      filter (\<lambda>(u, _). u \<notin> set us) (mc_orders (om_maker ctx))"
    by (simp add: drop_expired_def Let_def fold_forget_orders)
  then show ?thesis
    using assms store_inv_drop_expired[of "om_maker ctx" us]
    by (auto simp: om_inv_def cancel_expired_orders_def split_beta hm_forall_filter list_all_iff
        hm_get_filter[OF om_invD(4)[OF assms], of "\<lambda>u _. u \<notin> set us"] split: option.splits)
qed

text \<open>A taker order that timed out becomes a maker order under the identifier it gives up.\<close>

lemma timed_out_taker_loop_inv:
  assumes "hm_forall maker_inv (mc_orders mc)" "store_inv mc" "hm_forall taker_inv orders"
    "list_all (\<lambda>(u, _). hm_get (mc_orders mc) u = None) orders"
  shows "\<exists>kept mc' acts. timed_out_taker_loop env orders mc = Some (kept, mc', acts)
    \<and> hm_forall maker_inv (mc_orders mc') \<and> store_inv mc' \<and> hm_forall taker_inv kept
    \<and> set kept \<subseteq> set orders
    \<and> (\<forall>u. u \<notin> fst ` set orders \<or> u \<in> fst ` set kept \<longrightarrow> hm_get (mc_orders mc') u = hm_get (mc_orders mc) u)"
  using assms
proof (induction env orders mc rule: timed_out_taker_loop.induct)
  case (2 env uuid order orders mc)
  have rest: "hm_forall taker_inv orders" "list_all (\<lambda>(u, _). hm_get (mc_orders mc) u = None) orders"
    and t: "taker_inv uuid order" "hm_get (mc_orders mc) uuid = None" "uuid \<notin> fst ` set orders"
    using 2(6,7) by (auto simp: hm_forall_def hm_ok_def)
  consider (keep) "oe_now_ms env \<le> to_created_at order + to_timeout order * 1000"
    | (drop) "\<not> oe_now_ms env \<le> to_created_at order + to_timeout order * 1000"
        "to_matches order \<noteq> [] \<or> to_order_type order \<noteq> GoodTillCancelled"
    | (conv) "\<not> oe_now_ms env \<le> to_created_at order + to_timeout order * 1000"
        "\<not> (to_matches order \<noteq> [] \<or> to_order_type order \<noteq> GoodTillCancelled)"
    by blast
  then show ?case
  proof cases
    case keep
    from 2(1)[OF keep 2(4,5) rest] obtain kept mc' acts where
      r: "timed_out_taker_loop env orders mc = Some (kept, mc', acts)"
        "hm_forall maker_inv (mc_orders mc')" "store_inv mc'" "hm_forall taker_inv kept" "set kept \<subseteq> set orders"
        "\<forall>u. u \<notin> fst ` set orders \<or> u \<in> fst ` set kept \<longrightarrow> hm_get (mc_orders mc') u = hm_get (mc_orders mc) u"
      by blast
    then have "hm_forall taker_inv ((uuid, order) # kept)"
      using t by (auto simp: hm_forall_def hm_ok_def)
    with r t(3) keep show ?thesis by auto
  next
    case drop
    from 2(2)[OF drop 2(4,5) rest] drop t show ?thesis by fastforce
  next
    case conv
    obtain m where m: "maker_order_from_taker (oe_now_ms env) order = Some m" "maker_inv uuid m"
      using maker_inv_from_taker[OF t(1)] by blast
    then have u: "mo_uuid m = uuid" by (simp add: maker_inv_def)
    have "hm_forall maker_inv (mc_orders (add_order m mc))" "store_inv (add_order m mc)"
      "list_all (\<lambda>(u, _). hm_get (mc_orders (add_order m mc)) u = None) orders"
      using m u t 2(4,5) rest(2) store_inv_add[of mc m]
      by (auto simp: add_order_def hm_forall_insert hm_simps list_all_iff image_iff split: prod.splits)
    from 2(3)[OF conv m(1) this(1,2) rest(1) this(3)] obtain kept mc' acts where
      r: "timed_out_taker_loop env orders (add_order m mc) = Some (kept, mc', acts)"
        "hm_forall maker_inv (mc_orders mc')" "store_inv mc'" "hm_forall taker_inv kept" "set kept \<subseteq> set orders"
        "\<forall>u. u \<notin> fst ` set orders \<or> u \<in> fst ` set kept \<longrightarrow>
          hm_get (mc_orders mc') u = hm_get (mc_orders (add_order m mc)) u"
      by blast
    have "hm_get (mc_orders (add_order m mc)) k = hm_get (mc_orders mc) k" if "k \<noteq> uuid" for k
      using that u by (simp add: add_order_def hm_simps)
    with r conv m(1) t(3) show ?thesis by (fastforce simp: subset_iff)
  qed
qed (simp add: hm_forall_Nil)

lemma om_inv_timed_out_taker_orders:
  assumes "om_inv ctx"
  shows "\<exists>ctx' acts. handle_timed_out_taker_orders env ctx = Some (ctx', acts) \<and> om_inv ctx'"
proof -
  have inv: "hm_forall maker_inv (mc_orders (om_maker ctx))" "store_inv (om_maker ctx)"
    "hm_forall taker_inv (om_taker_orders ctx)"
    "list_all (\<lambda>(u, _). hm_get (mc_orders (om_maker ctx)) u = None) (om_taker_orders ctx)"
    using assms by (simp_all add: om_inv_def)
  from timed_out_taker_loop_inv[OF this, of env] inv(4) show ?thesis
    by (fastforce simp: handle_timed_out_taker_orders_def om_inv_def list_all_iff image_iff subset_iff)
qed

section \<open>Preservation by balance updates and by the calls of the user\<close>

lemma balance_updated_order_inv:
  assumes "om_inv ctx" "hm_get (mc_orders (om_maker ctx)) u = Some m" "0 \<le> v"
  shows "om_inv (fst (balance_updated_order env coin v u m ctx))
    \<and> (\<forall>k. k \<noteq> u \<longrightarrow> hm_get (mc_orders (om_maker (fst (balance_updated_order env coin v u m ctx)))) k
         = hm_get (mc_orders (om_maker ctx)) k)"
proof -
  have shrink: "om_inv (fst (shrink_order env v u m ctx))
      \<and> (\<forall>k. k \<noteq> u \<longrightarrow> hm_get (mc_orders (om_maker (fst (shrink_order env v u m ctx)))) k
           = hm_get (mc_orders (om_maker ctx)) k)"
    using om_inv_put[OF assms(1,2) _ maker_inv_shrink[OF om_invD(1)[OF assms(1,2)] assms(3)]] assms(1)
    by (auto simp: shrink_order_def Let_def put_order_def hm_simps)
  have cancel: "om_inv (fst (cancel_maker_order u m r ctx))
      \<and> (\<forall>k. k \<noteq> u \<longrightarrow> hm_get (mc_orders (om_maker (fst (cancel_maker_order u m r ctx)))) k
           = hm_get (mc_orders (om_maker ctx)) k)" for r
    using om_inv_cancel_maker_order[OF assms(1)] cancel_maker_order_frame by blast
  have "snd (cancel_maker_order u m r ctx) \<noteq> []" for r
    using assms(2) by (simp add: cancel_maker_order_def remove_order_def)
  then show ?thesis
    using shrink cancel[of MakerInsufficientBalance] assms(1)
    by (auto simp: balance_updated_order_def split: prod.splits list.splits)
       (metis fst_conv snd_conv)+
qed

lemma om_inv_balance_updated:
  assumes "om_inv ctx" "0 \<le> coin_min_tx_amount coin"
  shows "om_inv (fst (balance_updated env sctx coin wallet_only new_balance ctx))"
proof -
  have vol: "0 \<le> cv_volume info" if "calc_max_maker_vol sctx coin new_balance OrderIssue = Inr info" for info
    using that assms(2)
    by (auto simp: calc_max_maker_vol_def Let_def bind_res_Inr_iff split: if_splits)
  have "om_inv (fst (for_orders (balance_updated_order env coin v) (mc_orders (om_maker ctx)) ctx))" if "0 \<le> v" for v
    by (rule for_orders_inv[OF assms(1)])
      (use om_inv_snapshot[OF assms(1)] balance_updated_order_inv that in \<open>simp_all\<close>)
  then show ?thesis
    using vol assms(1) by (auto simp: balance_updated_def split: sum.splits)
qed

lemma om_inv_cancel_order: "om_inv ctx \<Longrightarrow> om_inv (fst (cancel_order u ctx))"
  using om_inv_cancel_maker_order[of ctx u]
  by (auto simp: cancel_order_def om_inv_taker_remove split: option.splits prod.splits)
    (metis fst_conv)+

lemma om_inv_fold_remove:
  "om_inv ctx \<Longrightarrow> om_inv (ctx\<lparr>om_maker := fold (\<lambda>(u, _) mc. snd (remove_order u mc)) es (om_maker ctx)\<rparr>)"
proof (induction es arbitrary: ctx)
  case (Cons e es)
  then show ?case
    using Cons.IH[OF om_inv_remove[OF Cons.prems, of "fst e"]] by (cases e) simp
qed simp

lemma om_inv_taker_filter:
  "om_inv ctx \<Longrightarrow> om_inv (ctx\<lparr>om_taker_orders := filter Q (om_taker_orders ctx)\<rparr>)"
  by (auto simp: om_inv_def hm_forall_filter list_all_iff)

lemma om_inv_cancel_orders_by: "om_inv ctx \<Longrightarrow> om_inv (fst (cancel_orders_by by_what ctx))"
  using om_inv_taker_filter[OF om_inv_fold_remove[of ctx]]
  by (simp add: cancel_orders_by_def Let_def)

lemma taker_inv_built:
  assumes "taker_order_build env b = Some (Inr t)"
    and "0 \<le> coin_min_trading_vol (tb_base_coin b)" "0 \<le> coin_min_trading_vol (tb_rel_coin b)"
  shows "taker_inv (be_uuid env) t"
proof -
  note D = taker_order_build_InrD[OF assms(1)]
  have "tr_uuid (to_request t) = be_uuid env"
    using assms(1) by (auto simp: taker_order_build_def Let_def split: if_splits)
  then show ?thesis
    using D assms(2,3) by (simp add: taker_inv_def)
qed

lemma taker_inv_uuid: "taker_inv u t \<Longrightarrow> tr_uuid (to_request t) = u"
  by (simp add: taker_inv_def)

lemma om_inv_taker_put_own:
  "om_inv ctx \<Longrightarrow> taker_inv u t \<Longrightarrow> hm_get (mc_orders (om_maker ctx)) u = None \<Longrightarrow>
    om_inv (ctx\<lparr>om_taker_orders := hm_insert (tr_uuid (to_request t)) t (om_taker_orders ctx)\<rparr>)"
  using om_inv_taker_put taker_inv_uuid by metis

lemma om_inv_auto_buy:
  assumes "om_inv ctx" "lp_auto_buy env base_coin rel_coin input ctx = Some (ctx', acts, res)"
    and "0 \<le> coin_min_trading_vol base_coin" "0 \<le> coin_min_trading_vol rel_coin"
    and "hm_get (mc_orders (om_maker ctx)) (be_uuid (re_build env)) = None"
  shows "om_inv ctx'"
  using assms
  by (auto simp: lp_auto_buy_def Let_def auto_buy_builder_def taker_order_builder_new_def
      dest!: taker_inv_built
      intro: om_inv_taker_put_own split: if_splits option.splits sum.splits)

lemma maker_inv_built:
  assumes "maker_order_build env b = Inr m" "0 \<le> coin_min_trading_vol (mb_base_coin b)"
  shows "maker_inv (be_uuid env) m" "mo_uuid m = be_uuid env"
proof -
  have *: "mo_uuid m = be_uuid env \<and> 0 < mo_price m \<and> mo_conf_settings m \<noteq> None \<and> mo_matches m = []
      \<and> mo_started_swaps m = [] \<and> 0 \<le> mo_max_base_vol m"
    using assms
    by (auto simp: maker_order_build_def Let_def bind_res_Inr_iff validate_price_def validate_max_vol_def
        split: if_splits)
  then show "maker_inv (be_uuid env) m" "mo_uuid m = be_uuid env"
    by (auto intro: maker_inv_new)
qed

lemma om_inv_create:
  assumes inv: "om_inv ctx" and step: "create_maker_order env coinfind req ctx = Some (ctx', acts, res)"
    and min: "\<And>t c. coinfind t = Some c \<Longrightarrow> 0 \<le> coin_min_trading_vol c"
    and fresh: "hm_get (mc_orders (om_maker ctx)) (be_uuid (re_build env)) = None"
      "hm_get (om_taker_orders ctx) (be_uuid (re_build env)) = None"
  shows "om_inv ctx'"
proof -
  let ?prev = "if sp_cancel_previous req then cancel_previous_maker_orders (sp_base req) (sp_rel req) ctx else (ctx, [])"
  have prev: "om_inv (fst ?prev)"
    using inv om_inv_cancel_previous by simp
  have frame: "hm_get (mc_orders (om_maker (fst ?prev))) (be_uuid (re_build env)) = None"
    "om_taker_orders (fst ?prev) = om_taker_orders ctx"
    using fresh(1) cancel_previous_frame[where ctx = ctx] by auto
  have add: "om_inv ((fst ?prev)\<lparr>om_maker := add_order m (om_maker (fst ?prev))\<rparr>)"
    if "maker_order_build (re_build env) (set_price_builder env bc rc req v) = Inr m" "coinfind (sp_base req) = Some bc"
    for m bc rc v
  proof -
    have "mb_base_coin (set_price_builder env bc rc req v) = bc"
      by (simp add: set_price_builder_def maker_order_builder_new_def)
    then have "maker_inv (be_uuid (re_build env)) m" "mo_uuid m = be_uuid (re_build env)"
      using maker_inv_built[OF that(1)] min[OF that(2)] by simp_all
    then show ?thesis
      using prev frame fresh(2) by (intro om_inv_add) simp_all
  qed
  show ?thesis
    using step prev add inv
    by (auto simp: create_maker_order_def Let_def split_beta split: if_splits option.splits sum.splits)
qed

text \<open>
  A validated update: the price in the message is positive, and the volume it sets exceeds what
  is reserved; without a volume in the message the old one is known to exceed it.
\<close>

lemma updated_body_with:
  "updated_body (with_new_price p msg) = (updated_body msg)\<lparr>mu_new_price := Some p\<rparr>"
  "updated_body (with_new_max_volume v msg) = (updated_body msg)\<lparr>mu_new_max_volume := Some v\<rparr>"
  "updated_body (with_new_min_volume v msg) = (updated_body msg)\<lparr>mu_new_min_volume := Some v\<rparr>"
  "updated_body (with_new_conf_settings s msg) = updated_body msg"
  "updated_body (updated_new u now) = \<lparr>mu_uuid = u, mu_new_price = None, mu_new_max_volume = None,
     mu_new_min_volume = None, mu_timestamp = now div 1000, mu_pair_trie_root = 0\<rparr>"
  by (cases msg; simp add: with_new_price_def with_new_max_volume_def with_new_min_volume_def updated_new_def)+

lemma update_new_volumeD:
  assumes "update_new_volume env bc rc req m msg = Inr (v, msg')" "mu_new_max_volume (updated_body msg) = None"
  shows "unwrap_or (mu_new_max_volume (updated_body msg')) (mo_max_base_vol m) = v
    \<and> mu_new_price (updated_body msg') = mu_new_price (updated_body msg)
    \<and> mu_new_min_volume (updated_body msg') = mu_new_min_volume (updated_body msg)"
proof (cases "unwrap_or (ur_max req) False")
  case True
  then show ?thesis
    using assms by (auto simp: update_new_volume_def bind_res_Inr_iff Let_def updated_body_with unwrap_or_def)
next
  case False
  then show ?thesis
    using assms
    by (cases "ur_volume_delta req")
      (auto simp: update_new_volume_def bind_res_Inr_iff Let_def updated_body_with unwrap_or_def split: if_splits)
qed

lemma update_maker_order_msgD:
  assumes "update_maker_order_msg env bc rc req m confs = Inr (v, msg)" "0 < mo_price m"
  shows "0 < unwrap_or (mu_new_price (updated_body msg)) (mo_price m)
    \<and> reserved_amount m < v
    \<and> unwrap_or (mu_new_max_volume (updated_body msg)) (mo_max_base_vol m) = v
    \<and> mu_new_min_volume (updated_body msg) = ur_min_volume req"
proof -
  let ?none = "\<lambda>msg. mu_new_max_volume (updated_body msg) = None"
  define init where "init = with_new_conf_settings \<lparr>
            oc_base_confs = unwrap_or (ur_base_confs req) (oc_base_confs confs),
            oc_base_nota = unwrap_or (ur_base_nota req) (oc_base_nota confs),
            oc_rel_confs = unwrap_or (ur_rel_confs req) (oc_rel_confs confs),
            oc_rel_nota = unwrap_or (ur_rel_nota req) (oc_rel_nota confs)\<rparr>
          (updated_new (ur_uuid req) (oe_now_ms (re_env env)))"
  have init: "mu_new_price (updated_body init) = None" "mu_new_min_volume (updated_body init) = None" "?none init"
    by (simp_all add: init_def updated_body_with)
  from assms(1) obtain p msg1 msg2 where
    s1: "(case ur_new_price req of
              Some p \<Rightarrow> bind_res (map_err MakerBuildFailed (validate_price p)) (\<lambda>_. Inr (p, with_new_price p init))
            | None \<Rightarrow> Inr (mo_price m, init)) = Inr (p, msg1)" and
    s2: "(case ur_min_volume req of
              Some min_volume \<Rightarrow>
                bind_res (map_err MakerBuildFailed
                  (validate_and_get_min_vol (coin_min_trading_vol bc) (coin_min_trading_vol rc) (Some min_volume) p))
                  (\<lambda>v. Inr (with_new_min_volume v msg1))
            | None \<Rightarrow> Inr msg1) = Inr msg2" and
    s3: "update_new_volume env bc rc req m msg2 = Inr (v, msg)" "reserved_amount m < v"
    unfolding update_maker_order_msg_def Let_def init_def[symmetric]
    by (auto simp only: bind_res_Inr_iff split_paired_Ex prod.case not_le split: if_splits) fastforce?
  have 1: "0 < unwrap_or (mu_new_price (updated_body msg1)) (mo_price m)" "?none msg1"
      "mu_new_min_volume (updated_body msg1) = None"
    using s1 init assms(2)
    by (cases "ur_new_price req"; auto simp: bind_res_Inr_iff map_err_Inr_iff validate_price_def Let_def
        updated_body_with unwrap_or_def split: if_splits)+
  have 2: "mu_new_price (updated_body msg2) = mu_new_price (updated_body msg1)" "?none msg2"
      "mu_new_min_volume (updated_body msg2) = ur_min_volume req"
    using s2 1
    by (cases "ur_min_volume req"; auto simp: bind_res_Inr_iff map_err_Inr_iff validate_and_get_min_vol_def Let_def
        updated_body_with split: if_splits)+
  show ?thesis
    using update_new_volumeD[OF s3(1) 2(2)] s3(2) 1 2 by simp
qed

lemma om_inv_update:
  assumes inv: "om_inv ctx" and step: "update_maker_order env req ctx = Some (ctx', acts, res)"
  shows "om_inv ctx'"
proof (cases "ctx' = ctx")
  case False
  then obtain m bc rc confs v msg where get: "hm_get (mc_orders (om_maker ctx)) (ur_uuid req) = Some m"
    and msg: "update_maker_order_msg env bc rc req m confs = Inr (v, msg)"
    and ctx': "ctx' = ctx\<lparr>om_maker := put_order (ur_uuid req)
      (maker_apply_updated (oe_now_ms (re_env env)) msg m) (om_maker ctx)\<rparr>"
    using step
    by (auto simp: update_maker_order_def get_order_def Let_def split: if_splits option.splits sum.splits)
  note m = om_invD(1)[OF inv get]
  have "0 < mo_price m" using m by (simp add: maker_inv_def)
  note D = update_maker_order_msgD[OF msg this]
  show ?thesis
    unfolding ctx'
    by (rule om_inv_put[OF inv get]) (use D m in \<open>simp_all add: maker_apply_updated_fields maker_inv_update\<close>)
qed (simp add: inv)

text \<open>A restart: the saved orders must be sound and have distinct identifiers.\<close>

definition saved_ok :: "maker_order list \<Rightarrow> taker_order list \<Rightarrow> bool" where
  "saved_ok ms ts =
     (list_all (\<lambda>m. maker_inv (mo_uuid m) m) ms \<and> list_all (\<lambda>t. taker_inv (tr_uuid (to_request t)) t) ts
      \<and> distinct (map mo_uuid ms @ map (\<lambda>t. tr_uuid (to_request t)) ts))"

lemma kick_start_makers:
  assumes "om_inv ctx" "list_all (\<lambda>m. maker_inv (mo_uuid m) m) ms" "distinct (map mo_uuid ms)"
    "list_all (\<lambda>m. hm_get (mc_orders (om_maker ctx)) (mo_uuid m) = None \<and> hm_get (om_taker_orders ctx) (mo_uuid m) = None) ms"
  shows "om_inv (ctx\<lparr>om_maker := fold add_order ms (om_maker ctx)\<rparr>)
    \<and> (\<forall>u. u \<notin> mo_uuid ` set ms \<longrightarrow>
        hm_get (mc_orders (fold add_order ms (om_maker ctx))) u = hm_get (mc_orders (om_maker ctx)) u)"
  using assms
proof (induction ms arbitrary: ctx)
  case (Cons m ms)
  let ?ctx = "ctx\<lparr>om_maker := add_order m (om_maker ctx)\<rparr>"
  have add: "hm_get (mc_orders (add_order m mc)) u = (if u = mo_uuid m then Some m else hm_get (mc_orders mc) u)" for mc u
    by (simp add: add_order_def hm_simps)
  have "om_inv ?ctx"
    using Cons.prems by (intro om_inv_add) simp_all
  moreover have "list_all (\<lambda>m. hm_get (mc_orders (om_maker ?ctx)) (mo_uuid m) = None
      \<and> hm_get (om_taker_orders ?ctx) (mo_uuid m) = None) ms"
    using Cons.prems by (force simp: add list_all_iff image_iff)
  ultimately show ?case
    using Cons.IH[of ?ctx] Cons.prems by (auto simp: add)
qed simp

lemma kick_start_takers:
  assumes "om_inv ctx" "list_all (\<lambda>t. taker_inv (tr_uuid (to_request t)) t
      \<and> hm_get (mc_orders (om_maker ctx)) (tr_uuid (to_request t)) = None) ts"
  shows "om_inv (ctx\<lparr>om_taker_orders :=
    fold (\<lambda>t. hm_insert (tr_uuid (to_request t)) t) ts (om_taker_orders ctx)\<rparr>)"
  using assms
proof (induction ts arbitrary: ctx)
  case (Cons t ts)
  then show ?case
    using Cons.IH[OF om_inv_taker_put, of ctx "tr_uuid (to_request t)" t] by simp
qed simp

lemma om_inv_kick_start:
  assumes "saved_ok ms ts"
  shows "om_inv (orders_kick_start ms ts om_empty)"
proof -
  have none: "hm_get (mc_orders (om_maker om_empty)) u = None" "hm_get (om_taker_orders om_empty) u = None" for u
    by (simp_all add: om_empty_def maker_orders_new_def hm_simps)
  let ?ctx = "om_empty\<lparr>om_maker := fold add_order ms (om_maker om_empty)\<rparr>"
  have makers: "om_inv ?ctx" "\<And>u. u \<notin> mo_uuid ` set ms \<Longrightarrow> hm_get (mc_orders (om_maker ?ctx)) u = None"
    using kick_start_makers[OF om_inv_empty, of ms] assms none by (auto simp: saved_ok_def list_all_iff)
  moreover have "list_all (\<lambda>t. taker_inv (tr_uuid (to_request t)) t
      \<and> hm_get (mc_orders (om_maker ?ctx)) (tr_uuid (to_request t)) = None) ts"
    using assms makers(2) by (force simp: saved_ok_def list_all_iff)
  ultimately show ?thesis
    using kick_start_takers[of ?ctx ts] by (simp add: orders_kick_start_def)
qed

end
