(* ===== verification/OrderSteps.thy ===== *)
theory OrderSteps
  imports OrderInvariant
begin

text \<open>
  The matching engine as a transition system: one rule per handler, reachability from a restart,
  and the properties of every reachable context and of the steps taken from it.
\<close>

section \<open>Steps\<close>

text \<open>
  A step with its effects. The premises on the coins are what the coins promise: limits are not
  negative; a fresh identifier is not in use.
\<close>

inductive om_step :: "ordermatch_context \<Rightarrow> om_action list \<Rightarrow> ordermatch_context \<Rightarrow> bool" where
  taker_request:
    "process_taker_request env from r ctx = Some (ctx', acts) \<Longrightarrow> om_step ctx acts ctx'"
| taker_connect:
    "process_taker_connect env from c ctx = Some (ctx', acts) \<Longrightarrow> om_step ctx acts ctx'"
| maker_reserved_recv:
    "om_step ctx [] (fst (process_maker_reserved_recv env from msg ctx))"
| maker_reserved_fire:
    "process_maker_reserved_fire env u ctx = Some (ctx', acts) \<Longrightarrow> om_step ctx acts ctx'"
| maker_connected:
    "process_maker_connected env from c ctx = Some (ctx', acts) \<Longrightarrow> om_step ctx acts ctx'"
| timed_out_maker_matches:
    "om_step ctx [] (handle_timed_out_maker_matches env ctx)"
| timed_out_taker_orders:
    "handle_timed_out_taker_orders env ctx = Some (ctx', acts) \<Longrightarrow> om_step ctx acts ctx'"
| check_balance:
    "check_balance_for_maker_orders ctx = (ctx', acts) \<Longrightarrow> om_step ctx acts ctx'"
| expired:
    "cancel_expired_orders us ctx = (ctx', acts) \<Longrightarrow> om_step ctx acts ctx'"
| balance_update:
    "balance_updated env sctx coin wallet_only new_balance ctx = (ctx', acts) \<Longrightarrow>
      0 \<le> coin_min_tx_amount coin \<Longrightarrow> om_step ctx acts ctx'"
| auto_buy:
    "lp_auto_buy renv base_coin rel_coin input ctx = Some (ctx', acts, res) \<Longrightarrow>
      0 \<le> coin_min_trading_vol base_coin \<Longrightarrow> 0 \<le> coin_min_trading_vol rel_coin \<Longrightarrow>
      hm_get (mc_orders (om_maker ctx)) (be_uuid (re_build renv)) = None \<Longrightarrow> om_step ctx acts ctx'"
| create:
    "create_maker_order renv coinfind req ctx = Some (ctx', acts, res) \<Longrightarrow>
      (\<And>t c. coinfind t = Some c \<Longrightarrow> 0 \<le> coin_min_trading_vol c) \<Longrightarrow>
      hm_get (mc_orders (om_maker ctx)) (be_uuid (re_build renv)) = None \<Longrightarrow>
      hm_get (om_taker_orders ctx) (be_uuid (re_build renv)) = None \<Longrightarrow> om_step ctx acts ctx'"
| update:
    "update_maker_order renv ureq ctx = Some (ctx', acts, res) \<Longrightarrow> om_step ctx acts ctx'"
| cancel:
    "cancel_order u ctx = (ctx', acts, res) \<Longrightarrow> om_step ctx acts ctx'"
| cancel_by:
    "cancel_orders_by by_what ctx = (ctx', acts, cancelled, matching) \<Longrightarrow> om_step ctx acts ctx'"

inductive om_reach :: "ordermatch_context \<Rightarrow> bool" where
  restart: "saved_ok ms ts \<Longrightarrow> om_reach (orders_kick_start ms ts om_empty)"
| step: "om_reach ctx \<Longrightarrow> om_step ctx acts ctx' \<Longrightarrow> om_reach ctx'"

lemma om_step_inv:
  assumes "om_step ctx acts ctx'" "om_inv ctx"
  shows "om_inv ctx'"
  using assms
proof (cases rule: om_step.cases)
  case (timed_out_taker_orders env)
  then show ?thesis using om_inv_timed_out_taker_orders[OF assms(2), of env] by auto
next
  case check_balance
  then show ?thesis using om_inv_check_balance_for_maker_orders[OF assms(2)] by simp
next
  case (expired us)
  then show ?thesis using om_inv_cancel_expired[OF assms(2), of us] by simp
next
  case balance_update
  then show ?thesis using om_inv_balance_updated[OF assms(2)] by (metis fst_conv)
next
  case (cancel u)
  then show ?thesis using om_inv_cancel_order[OF assms(2), of u] by simp
next
  case (cancel_by by_what)
  then show ?thesis using om_inv_cancel_orders_by[OF assms(2), of by_what] by simp
qed (use assms(2) in \<open>auto intro: om_inv_taker_request om_inv_taker_connect om_inv_maker_reserved_recv
    om_inv_maker_reserved_fire om_inv_maker_connected om_inv_timed_out_maker_matches
    om_inv_auto_buy om_inv_create om_inv_update\<close>)

lemma om_reach_inv: "om_reach ctx \<Longrightarrow> om_inv ctx"
  by (induction rule: om_reach.induct) (auto intro: om_inv_kick_start om_step_inv)

section \<open>Properties of reachable contexts\<close>

lemma maker_inv_match:
  "maker_inv u m \<Longrightarrow> hm_get (mo_matches m) k = Some mm \<Longrightarrow> match_ok (mo_started_swaps m) k mm"
  by (auto simp: maker_inv_def dest: hm_forall_get)

lemma ticker_count_pos: "0 < ticker_count t orders \<longleftrightarrow> (\<exists>(u, m) \<in> set orders. mo_base m = t)"
  by (induction orders) (auto simp: ticker_count_def)

text \<open>A concrete run, for the instances of the properties below.\<close>

definition demo_env :: om_env where
  "demo_env = \<lparr>oe_now_ms = 5000, oe_our_public_id = replicate 32 2,
     oe_find_pair = (\<lambda>b r. Some (flat_fee_coin b 100 0, flat_fee_coin r 100 0))\<rparr>"

definition demo_ctx0 :: ordermatch_context where
  "demo_ctx0 = orders_kick_start [sample_maker_order] [] om_empty"

definition demo_request :: taker_request where
  "demo_request = sample_request Buy ''LTC'' ''DOGE'' 2 10"

definition demo_connect :: taker_connect where
  "demo_connect = \<lparr>tcn_taker_order_uuid = 9, tcn_maker_order_uuid = 3,
     tcn_sender_pubkey = default_h256, tcn_dest_pub_key = default_h256\<rparr>"

definition demo_ctx1 :: ordermatch_context where
  "demo_ctx1 = fst (the (process_taker_request demo_env (replicate 32 1) demo_request demo_ctx0))"

definition demo_result :: "ordermatch_context \<times> om_action list" where
  "demo_result = the (process_taker_connect demo_env (replicate 32 1) demo_connect demo_ctx1)"

lemmas demo_defs = demo_result_def demo_ctx1_def demo_connect_def demo_request_def demo_ctx0_def
  demo_env_def sample_maker_order_def sample_request_def sample_confs_def

lemma demo_step1: "process_taker_request demo_env (replicate 32 1) demo_request demo_ctx0 =
    Some (demo_ctx1, snd (the (process_taker_request demo_env (replicate 32 1) demo_request demo_ctx0)))"
  by code_simp

lemma demo_reach0: "om_reach demo_ctx0"
proof -
  have "saved_ok [sample_maker_order] []"
    by (simp add: saved_ok_def maker_inv_def sample_maker_order_def hm_forall_Nil reserved_amount_sum)
  then show ?thesis
    unfolding demo_ctx0_def by (rule om_reach.restart)
qed

lemma demo_reach1: "om_reach demo_ctx1"
  by (rule om_reach.step[OF demo_reach0 om_step.taker_request[OF demo_step1]])

text \<open>
  C1: No order is ever over-committed. In every reachable context the amounts reserved by the
  matches of an own maker order are positive and sum up to at most its volume, so its available
  amount is not negative; each match is stored under the identifier of its request; the swaps the
  order has started are pairwise distinct and are exactly its connected matches.
\<close>

theorem orders_never_overcommitted:
  assumes "om_reach ctx" "get_order (om_maker ctx) u = Some m"
  shows "0 \<le> available_amount m \<and> 0 \<le> reserved_amount m \<and> reserved_amount m \<le> mo_max_base_vol m
    \<and> distinct (mo_started_swaps m)
    \<and> (\<forall>k mm. hm_get (mo_matches m) k = Some mm \<longrightarrow>
         tr_uuid (mm_request mm) = k \<and> 0 < mr_base_amount (mm_reserved mm)
         \<and> (mm_connected mm \<noteq> None \<longleftrightarrow> k \<in> set (mo_started_swaps m)))
    \<and> (\<forall>k \<in> set (mo_started_swaps m). hm_get (mo_matches m) k \<noteq> None)"
proof -
  have inv: "maker_inv u m"
    using om_invD(1)[OF om_reach_inv[OF assms(1)]] assms(2) by (simp add: get_order_def)
  then have "hm_forall (match_ok (mo_started_swaps m)) (mo_matches m)"
    by (simp add: maker_inv_def)
  then show ?thesis
    using inv reserved_amount_nonneg[of _ m] hm_forall_get[of "match_ok (mo_started_swaps m)"]
    by (auto simp: maker_inv_def available_amount_def list_all_iff match_ok_def)
qed

theorem orders_never_overcommitted_witness:
  "\<exists>m. get_order (om_maker demo_ctx1) 3 = Some m \<and> reserved_amount m = 2 \<and> 0 \<le> available_amount m"
proof -
  have "map_option reserved_amount (get_order (om_maker demo_ctx1) 3) = Some 2"
    by code_simp
  then obtain m where "get_order (om_maker demo_ctx1) 3 = Some m" "reserved_amount m = 2"
    by auto
  with orders_never_overcommitted[OF demo_reach1, of 3 m] show ?thesis by blast
qed



text \<open>
  C3: A taker pays at most what it offered. A taker swap starts, from a reachable context, only
  for a reservation that the order accepts, on the word of the maker who made it: a buyer gets the
  requested amount and gives at most the offered one, a seller gives the offered amount and gets
  at least the requested one; and the order is gone afterwards, so it starts no second swap.
\<close>

theorem taker_swap_within_offer:
  assumes reach: "om_reach ctx"
    and step: "process_maker_connected env from_pubkey msg ctx = Some (ctx', acts)"
    and start: "StartTakerSwap t tm \<in> set acts"
  shows "mr_sender_pubkey (tm_reserved tm) = from_pubkey
    \<and> (case tr_action (to_request t) of
         Buy \<Rightarrow> mr_base_amount (tm_reserved tm) = tr_base_amount (to_request t)
           \<and> mr_rel_amount (tm_reserved tm) \<le> tr_rel_amount (to_request t)
       | Sell \<Rightarrow> mr_rel_amount (tm_reserved tm) = tr_base_amount (to_request t)
           \<and> tr_rel_amount (to_request t) \<le> mr_base_amount (tm_reserved tm))
    \<and> hm_get (om_taker_orders ctx') (tr_uuid (to_request t)) = None"
proof -
  have get: "hm_get (om_taker_orders ctx) (mcd_taker_order_uuid msg) = Some t"
    and tm: "hm_get (to_matches t) (mcd_maker_order_uuid msg) = Some tm"
      "mr_sender_pubkey (tm_reserved tm) = from_pubkey"
    and ctx': "ctx' = ctx\<lparr>om_taker_orders := hm_remove (mcd_taker_order_uuid msg) (om_taker_orders ctx)\<rparr>"
    using step start by (auto simp: process_maker_connected_def split: if_splits option.splits)
  have t: "taker_inv (mcd_taker_order_uuid msg) t"
    using om_invD(2)[OF om_reach_inv[OF reach] get] .
  then have "match_reserved t (tm_reserved tm) = ReservedMatched"
    using hm_get_SomeD[OF tm(1)] by (auto simp: taker_inv_def list_all_iff)
  then show ?thesis
    using tm(2) t
    by (auto simp: match_reserved_def Let_def ctx' hm_simps taker_inv_def split: if_splits taker_action.splits)
qed

text \<open>A concrete run of the taker's side.\<close>

definition demo_taker0 :: ordermatch_context where
  "demo_taker0 = orders_kick_start [] [(sample_taker_order Buy)] om_empty"

definition demo_reserved :: maker_reserved where
  "demo_reserved = \<lparr>mr_base = ''LTC'', mr_rel = ''DOGE'', mr_base_amount = 2, mr_rel_amount = 9,
     mr_taker_order_uuid = 9, mr_maker_order_uuid = 3, mr_sender_pubkey = replicate 32 4,
     mr_dest_pub_key = default_h256, mr_conf_settings = Some sample_confs,
     mr_base_protocol_info = None, mr_rel_protocol_info = None, mr_swap_version = default_swap_version\<rparr>"

definition demo_taker1 :: ordermatch_context where
  "demo_taker1 = fst (process_maker_reserved_recv demo_env (replicate 32 4) demo_reserved demo_taker0)"

definition demo_taker2 :: "ordermatch_context \<times> om_action list" where
  "demo_taker2 = the (process_maker_reserved_fire demo_env 9 demo_taker1)"

definition demo_connected :: maker_connected where
  "demo_connected = \<lparr>mcd_taker_order_uuid = 9, mcd_maker_order_uuid = 3, mcd_method = [],
     mcd_sender_pubkey = default_h256, mcd_dest_pub_key = default_h256\<rparr>"

definition demo_taker3 :: "ordermatch_context \<times> om_action list" where
  "demo_taker3 = the (process_maker_connected demo_env (replicate 32 4) demo_connected (fst demo_taker2))"

lemma demo_taker_reach: "om_reach (fst demo_taker2)"
proof -
  have "saved_ok [] [sample_taker_order Buy]"
    by (simp add: saved_ok_def taker_inv_def sample_taker_order_def sample_request_def)
  then have "om_reach demo_taker0"
    unfolding demo_taker0_def by (rule om_reach.restart)
  then have "om_reach demo_taker1"
    unfolding demo_taker1_def using om_step.maker_reserved_recv by (rule om_reach.step)
  moreover have "process_maker_reserved_fire demo_env 9 demo_taker1 = Some (fst demo_taker2, snd demo_taker2)"
    by code_simp
  ultimately show ?thesis
    using om_step.maker_reserved_fire om_reach.step by blast
qed

theorem taker_swap_within_offer_witness:
  "\<exists>t tm. StartTakerSwap t tm \<in> set (snd demo_taker3) \<and> mr_rel_amount (tm_reserved tm) \<le> tr_rel_amount (to_request t)"
proof -
  have step: "process_maker_connected demo_env (replicate 32 4) demo_connected (fst demo_taker2) =
      Some (fst demo_taker3, snd demo_taker3)"
    by code_simp
  have "(case snd demo_taker3 of StartTakerSwap t _ # _ \<Rightarrow> tr_action (to_request t) = Buy | _ \<Rightarrow> False)"
    by code_simp
  then obtain t tm where start: "StartTakerSwap t tm \<in> set (snd demo_taker3)" and "tr_action (to_request t) = Buy"
    by (auto split: list.splits om_action.splits)
  with taker_swap_within_offer[OF demo_taker_reach step start] show ?thesis by auto
qed

text \<open>
  The count of orders per ticker is exact in every reachable context: a coin is reported to
  have active maker orders if and only if there is one with it as base coin.
\<close>

theorem active_maker_orders_exact:
  assumes "om_reach ctx"
  shows "coin_has_active_maker_orders (om_maker ctx) t \<longleftrightarrow>
    (\<exists>u m. get_order (om_maker ctx) u = Some m \<and> mo_base m = t)"
proof -
  have inv: "store_inv (om_maker ctx)"
    using om_reach_inv[OF assms] by (simp add: om_inv_def)
  have "coin_has_active_maker_orders (om_maker ctx) t \<longleftrightarrow> 0 < counted (om_maker ctx) t"
    by (simp add: coin_has_active_maker_orders_def counted_def split: option.splits)
  also have "\<dots> \<longleftrightarrow> 0 < ticker_count t (mc_orders (om_maker ctx))"
    using inv by (simp add: store_inv_def tickers_match_def)
  also have "\<dots> \<longleftrightarrow> (\<exists>(u, m) \<in> set (mc_orders (om_maker ctx)). mo_base m = t)"
    by (rule ticker_count_pos)
  finally show ?thesis
    using inv by (auto simp: store_inv_def get_order_def hm_ok_get_iff)
qed

theorem active_maker_orders_exact_witness:
  "coin_has_active_maker_orders (om_maker demo_ctx1) ''LTC''
   \<and> \<not> coin_has_active_maker_orders (om_maker demo_ctx1) ''DOGE''"
proof -
  have all: "list_all (\<lambda>(u, m). mo_base m = ''LTC'') (mc_orders (om_maker demo_ctx1))"
    and some: "map_option mo_base (get_order (om_maker demo_ctx1) 3) = Some ''LTC''"
    by code_simp+
  have "mo_base m = ''LTC''" if "get_order (om_maker demo_ctx1) u = Some m" for u m
    using hm_all_get[OF all] that by (simp add: get_order_def)
  then have "\<not> (\<exists>u m. get_order (om_maker demo_ctx1) u = Some m \<and> mo_base m = ''DOGE'')"
    by auto
  moreover have "\<exists>u m. get_order (om_maker demo_ctx1) u = Some m \<and> mo_base m = ''LTC''"
    using some by auto
  ultimately show ?thesis
    using active_maker_orders_exact[OF demo_reach1] by blast
qed

section \<open>Panics\<close>

lemma match_with_request_no_panic: "0 < mo_price m \<Longrightarrow> match_with_request m r \<noteq> None"
  by (simp add: match_with_request_def Let_def split: taker_action.splits)

lemma taker_request_loop_no_panic:
  "\<forall>(u, m) \<in> set orders. 0 < mo_price m \<Longrightarrow> taker_request_loop env r orders ctx \<noteq> None"
  by (induction env r orders ctx rule: taker_request_loop.induct)
    (auto simp: Let_def match_with_request_no_panic split: option.splits order_match_result.splits)

text \<open>
  In a reachable context no message and no clean-up makes the node panic, with one exception:
  the second half of \<open>process_maker_reserved\<close> panics exactly when at least two reservations are
  pending for an own taker order with active coins and one of them has base amount zero, an
  amount that the sender of the message chooses.
\<close>

theorem only_pending_reservations_panic:
  assumes "om_reach ctx"
  shows "process_taker_request env from r ctx \<noteq> None
    \<and> process_taker_connect env from c ctx \<noteq> None
    \<and> process_maker_connected env from d ctx \<noteq> None
    \<and> handle_timed_out_taker_orders env ctx \<noteq> None
    \<and> update_maker_order renv req ctx \<noteq> None
    \<and> (process_maker_reserved_fire env u ctx = None \<longleftrightarrow>
         (\<exists>t coins msgs. hm_get (om_taker_orders ctx) u = Some t
            \<and> oe_find_pair env (maker_coin_ticker t) (taker_coin_ticker t) = Some coins
            \<and> hm_get (om_pending_maker_reserved ctx) u = Some msgs
            \<and> 2 \<le> length msgs \<and> (\<exists>msg \<in> set msgs. mr_base_amount msg = 0)))"
proof -
  note inv = om_reach_inv[OF assms]
  have mem: "maker_inv u m" if "(u, m) \<in> set (mc_orders (om_maker ctx))" for u m
    using inv that by (auto simp: om_inv_def dest: hm_forall_mem)
  have "taker_request_loop env r (filter (\<lambda>(uuid, _). can_match_with_uuid r uuid) (mc_orders (om_maker ctx))) ctx \<noteq> None"
    using mem by (intro taker_request_loop_no_panic) (auto simp: maker_inv_def)
  then have "process_taker_request env from r ctx \<noteq> None"
    by (simp add: process_taker_request_def)
  moreover have "process_taker_connect env from c ctx \<noteq> None"
    by (auto simp: process_taker_connect_def Let_def split: option.splits)
  moreover have "process_maker_connected env from d ctx \<noteq> None"
    by (auto simp: process_maker_connected_def split: option.splits)
  moreover have "handle_timed_out_taker_orders env ctx \<noteq> None"
    using om_inv_timed_out_taker_orders[OF inv, of env] by auto
  moreover have "update_maker_order renv req ctx \<noteq> None"
    using om_invD(1)[OF inv]
    by (fastforce simp: update_maker_order_def get_order_def Let_def maker_inv_def split: option.splits sum.splits)
  moreover have "process_maker_reserved_fire env u ctx = None \<longleftrightarrow>
         (\<exists>t coins msgs. hm_get (om_taker_orders ctx) u = Some t
            \<and> oe_find_pair env (maker_coin_ticker t) (taker_coin_ticker t) = Some coins
            \<and> hm_get (om_pending_maker_reserved ctx) u = Some msgs
            \<and> 2 \<le> length msgs \<and> (\<exists>msg \<in> set msgs. mr_base_amount msg = 0))"
    by (auto simp: process_maker_reserved_fire_def sort_by_price_def reserved_price_def Let_def
        split: option.splits if_splits)
  ultimately show ?thesis by blast
qed

definition demo_bad_pending :: ordermatch_context where
  "demo_bad_pending = fst (process_maker_reserved_recv demo_env (replicate 32 5)
     (demo_reserved\<lparr>mr_base_amount := 0\<rparr>) demo_taker1)"

theorem only_pending_reservations_panic_witness:
  "process_maker_reserved_fire demo_env 9 demo_bad_pending = None"
proof -
  have "saved_ok [] [sample_taker_order Buy]"
    by (simp add: saved_ok_def taker_inv_def sample_taker_order_def sample_request_def)
  then have "om_reach demo_bad_pending"
    unfolding demo_bad_pending_def demo_taker1_def demo_taker0_def
    by (intro om_reach.step[OF _ om_step.maker_reserved_recv] om_reach.restart)
  moreover have "hm_get (om_taker_orders demo_bad_pending) 9 = Some (sample_taker_order Buy)"
    "hm_get (om_pending_maker_reserved demo_bad_pending) 9 =
      Some [demo_reserved, demo_reserved\<lparr>mr_base_amount := 0\<rparr>]"
    by code_simp+
  ultimately show ?thesis
    using only_pending_reservations_panic[of demo_bad_pending demo_env _ _ _ _ _ _ 9] by (auto simp: demo_env_def)
qed

section \<open>The choice of the reservation\<close>

lemma find_sort_key_min:
  fixes f :: "'a \<Rightarrow> 'b::linorder"
  assumes "find P (sort_key f xs) = Some x"
  shows "x \<in> set xs \<and> P x \<and> (\<forall>y \<in> set xs. P y \<longrightarrow> f x \<le> f y)"
proof -
  let ?s = "sort_key f xs"
  obtain i where i: "i < length ?s" "P (?s ! i)" "x = ?s ! i" "\<forall>j < i. \<not> P (?s ! j)"
    using assms by (auto simp: find_Some_iff)
  have "f x \<le> f y" if y: "y \<in> set xs" "P y" for y
  proof -
    obtain j where j: "j < length ?s" "y = ?s ! j"
      using y(1) by (metis in_set_conv_nth set_sort)
    then have "i \<le> j" using i(4) y(2) not_le by blast
    then show ?thesis
      using sorted_nth_mono[of "map f ?s" i j] sorted_sort_key[of f xs] i j by simp
  qed
  then show ?thesis
    using i nth_mem[OF i(1)] by simp
qed

text \<open>
  C40: Among the pending reservations a taker connects to an acceptable one with the best price:
  no other acceptable reservation asks for less per unit, and it connects to none only if none is
  acceptable.
\<close>

theorem taker_connects_to_best_price:
  assumes "hm_get (om_taker_orders ctx) u = Some t"
    and "oe_find_pair env (maker_coin_ticker t) (taker_coin_ticker t) = Some (bc, rc)"
    and "hm_get (om_pending_maker_reserved ctx) u = Some msgs"
    and "process_maker_reserved_fire env u ctx = Some (ctx', acts)"
  shows "case acts of
      [] \<Rightarrow> (\<forall>msg \<in> set msgs. \<not> reserved_acceptable t bc rc msg)
    | act # rest \<Rightarrow> rest = [] \<and> (\<exists>msg \<in> set msgs. act = BroadcastConnect (connect_to env msg)
        \<and> reserved_acceptable t bc rc msg
        \<and> (\<forall>msg' \<in> set msgs. reserved_acceptable t bc rc msg' \<longrightarrow>
             mr_rel_amount msg / mr_base_amount msg \<le> mr_rel_amount msg' / mr_base_amount msg'))"
proof -
  let ?s = "sort_key (\<lambda>r. mr_rel_amount r / mr_base_amount r) msgs"
  have "acts = (case find (reserved_acceptable t bc rc) ?s of
      None \<Rightarrow> [] | Some msg \<Rightarrow> [BroadcastConnect (connect_to env msg)])"
    using assms by (auto simp: process_maker_reserved_fire_def sort_by_price_def Let_def split: option.splits if_splits)
  then show ?thesis
    using find_sort_key_min[of "reserved_acceptable t bc rc" "\<lambda>r. mr_rel_amount r / mr_base_amount r" msgs]
    by (auto simp: find_None_iff split: option.splits)
qed

theorem taker_connects_to_best_price_witness:
  "\<exists>msg \<in> {demo_reserved}. snd demo_taker2 = [BroadcastConnect (connect_to demo_env msg)]"
proof -
  have "hm_get (om_taker_orders demo_taker1) 9 = Some (sample_taker_order Buy)"
    "hm_get (om_pending_maker_reserved demo_taker1) 9 = Some [demo_reserved]"
    "process_maker_reserved_fire demo_env 9 demo_taker1 = Some (fst demo_taker2, snd demo_taker2)"
    "snd demo_taker2 \<noteq> []"
    by code_simp+
  then show ?thesis
    using taker_connects_to_best_price[of demo_taker1 9 "sample_taker_order Buy" demo_env _ _ "[demo_reserved]"]
    by (fastforce simp: demo_env_def split: list.splits)
qed

text \<open>
  If the coins of the order are not active when the pending reservations are due, they stay
  pending, and from then on every further reservation for that order is only stored: no handler
  will ever look at them again while the order lives.
\<close>

lemma pending_reservations_stuck:
  assumes "hm_get (om_taker_orders ctx) u = Some t"
    and "oe_find_pair env (maker_coin_ticker t) (taker_coin_ticker t) = None"
  shows "process_maker_reserved_fire env u ctx = Some (ctx, [])"
    and "hm_members (om_pending_maker_reserved ctx) u \<noteq> [] \<Longrightarrow> mr_taker_order_uuid msg = u \<Longrightarrow>
      \<not> snd (process_maker_reserved_recv env' from msg ctx)"
  using assms
  by (auto simp: process_maker_reserved_fire_def process_maker_reserved_recv_def Let_def hm_simps)

section \<open>The two sides agree\<close>



end
