(* ===== verification/MakerSwapSafety.thy ===== *)
theory MakerSwapSafety
  imports MakerSwapRun
begin

text \<open>
  Invariants of the maker's run, kept across crashes at any point: the journal replays to the
  swap, the last event determines the command, and each command finds the data it unwraps. From
  these follow that a restart resumes where the run was, that the handlers do not panic, that the
  payments are sent, spent and refunded only when they should be, that the loop ends, and that a
  finished swap is settled or recoverable.
\<close>

section \<open>What each command relies on\<close>

definition maker_started_ok :: "maker_swap \<Rightarrow> bool" where
  "maker_started_ok s =
     (msd_maker_payment_lock (ms_data s) = msd_started_at (ms_data s) + msd_lock_duration (ms_data s) * 2)"

definition maker_negotiated_ok :: "maker_swap \<Rightarrow> bool" where
  "maker_negotiated_ok s =
     (\<exists>other. \<not> started_too_far_apart (msd_started_at (ms_data s)) other
        \<and> ms_taker_payment_lock s = other + msd_lock_duration (ms_data s))"

fun maker_pre :: "maker_swap_command option \<Rightarrow> maker_swap \<Rightarrow> bool" where
  "maker_pre (Some MStart) s = True"
| "maker_pre (Some MNegotiate) s = maker_started_ok s"
| "maker_pre (Some MWaitForTakerFee) s = (maker_started_ok s \<and> maker_negotiated_ok s)"
| "maker_pre (Some MSendPayment) s =
     (maker_started_ok s \<and> maker_negotiated_ok s \<and> ms_taker_fee s \<noteq> None)"
| "maker_pre (Some MWaitForTakerPayment) s =
     (maker_started_ok s \<and> maker_negotiated_ok s \<and> ms_maker_payment s \<noteq> None)"
| "maker_pre (Some MValidateTakerPayment) s =
     (maker_started_ok s \<and> maker_negotiated_ok s \<and> ms_maker_payment s \<noteq> None \<and> ms_taker_payment s \<noteq> None)"
| "maker_pre (Some MSpendTakerPayment) s =
     (maker_started_ok s \<and> maker_negotiated_ok s \<and> ms_maker_payment s \<noteq> None
      \<and> ms_taker_payment s \<noteq> None \<and> ms_taker_payment_confirmed s)"
| "maker_pre (Some MConfirmTakerPaymentSpend) s =
     (maker_started_ok s \<and> maker_negotiated_ok s \<and> ms_maker_payment s \<noteq> None \<and> ms_taker_payment_spend s \<noteq> None)"
| "maker_pre (Some MRefundMakerPayment) s =
     (maker_started_ok s \<and> maker_negotiated_ok s \<and> ms_maker_payment s \<noteq> None)"
| "maker_pre (Some MFinish) s = True"
| "maker_pre None s = True"

abbreviation maker_batch_ok :: "maker_swap_command option \<Rightarrow> maker_swap \<Rightarrow> maker_swap_event list \<Rightarrow> bool" where
  "maker_batch_ok \<equiv> batch_ok maker_machine maker_get_command maker_pre MFinish (\<lambda>_. False)"

lemmas maker_handler_defs =
  maker_start_def maker_negotiate_def maker_wait_taker_fee_def maker_send_payment_def
  maker_wait_for_taker_payment_def maker_validate_taker_payment_def maker_spend_taker_payment_def
  maker_confirm_taker_payment_spend_def maker_refund_maker_payment_def maker_refund_after_def Let_def

lemmas maker_ok_defs = maker_started_ok_def maker_negotiated_ok_def ms_add_error_def

lemma maker_check_negotiation_Inr:
  "maker_check_negotiation env s = Inr (d, ma, ta) \<Longrightarrow>
    \<not> started_too_far_apart (msd_started_at (ms_data s)) (nd_started_at d)
    \<and> nd_payment_locktime d = nd_started_at d + msd_lock_duration (ms_data s)"
  by (auto simp: maker_check_negotiation_def bind_res_Inr_iff split: if_splits)

lemma maker_handle_batch_ok:
  assumes "maker_handle_command env c s = Some (nxt, evs, effs)" "maker_pre (Some c) s"
  shows "evs \<noteq> [] \<and> maker_batch_ok nxt s evs"
proof (cases c)
  case MStart
  then show ?thesis using assms
    by (auto simp: maker_handler_defs maker_ok_defs maker_start_data_def bind_res_Inr_iff split: sum.splits)
next
  case MNegotiate
  then show ?thesis using assms
    by (auto simp: maker_handler_defs maker_ok_defs split: sum.splits option.splits
        dest!: maker_check_negotiation_Inr)
next
  case MWaitForTakerFee
  then show ?thesis using assms
    by (auto simp: maker_handler_defs maker_ok_defs split: sum.splits)
next
  case MSendPayment
  then show ?thesis using assms
    by (auto simp: maker_handler_defs maker_ok_defs split: sum.splits option.splits if_splits)
next
  case MWaitForTakerPayment
  then show ?thesis using assms
    by (auto simp: maker_handler_defs maker_ok_defs split: sum.splits option.splits if_splits)
next
  case MValidateTakerPayment
  then show ?thesis using assms
    by (auto simp: maker_handler_defs maker_ok_defs split: sum.splits option.splits if_splits)
next
  case MSpendTakerPayment
  then show ?thesis using assms
    by (auto simp: maker_handler_defs maker_ok_defs split: sum.splits option.splits if_splits)
next
  case MConfirmTakerPaymentSpend
  then show ?thesis using assms
    by (auto simp: maker_handler_defs maker_ok_defs split: sum.splits option.splits if_splits)
next
  case MRefundMakerPayment
  then show ?thesis using assms
    by (auto simp: maker_handler_defs maker_ok_defs split: sum.splits option.splits if_splits)
next
  case MFinish
  then show ?thesis using assms by auto
qed

section \<open>Replay\<close>

lemma maker_replay_spend_confirmed:
  "ms_taker_payment_spend_confirmed (replay maker_machine now evs s) \<longleftrightarrow>
    (\<exists>e \<in> set evs. e = MTakerPaymentSpendConfirmed) \<or> ms_taker_payment_spend_confirmed s"
  by (rule replay_flag, case_tac e) (simp_all add: ms_add_error_def)

lemma maker_replay_confirmed:
  "ms_taker_payment_confirmed (replay maker_machine now evs s) \<longleftrightarrow>
    (\<exists>e \<in> set evs. e = MTakerPaymentValidatedAndConfirmed) \<or> ms_taker_payment_confirmed s"
  by (rule replay_flag, case_tac e) (simp_all add: ms_add_error_def)

lemma maker_replay_refund:
  "ms_maker_payment_refund (replay maker_machine now evs s) \<noteq> None \<longleftrightarrow>
    (\<exists>e \<in> set evs. \<exists>tx. e = MMakerPaymentRefunded tx) \<or> ms_maker_payment_refund s \<noteq> None"
  by (rule replay_flag, case_tac e) (simp_all add: ms_add_error_def)

lemma maker_replay_fee:
  "ms_taker_fee (replay maker_machine now evs s) = Some tx \<Longrightarrow>
    MTakerFeeValidated tx \<in> set evs \<or> ms_taker_fee s = Some tx"
  by (rule replay_field, case_tac e) (simp_all add: ms_add_error_def)

lemma maker_replay_taker_payment:
  "ms_taker_payment (replay maker_machine now evs s) = Some tx \<Longrightarrow>
    MTakerPaymentReceived tx \<in> set evs \<or> ms_taker_payment s = Some tx"
  by (rule replay_field, case_tac e) (simp_all add: ms_add_error_def)

lemma maker_replay_maker_payment:
  "ms_maker_payment (replay maker_machine now evs s) = Some tx \<Longrightarrow>
    MMakerPaymentSent tx \<in> set evs \<or> ms_maker_payment s = Some tx"
  by (rule replay_field, case_tac e) (simp_all add: ms_add_error_def)

lemma maker_replay_static:
  "ms_maker_coin (replay maker_machine now evs s) = ms_maker_coin s"
  "ms_taker_coin (replay maker_machine now evs s) = ms_taker_coin s"
  by (rule replay_static, case_tac e, simp_all add: ms_add_error_def)+

lemma maker_replay_finished_at:
  "evs \<noteq> [] \<Longrightarrow> last evs = MFinished \<Longrightarrow> ms_finished_at (replay maker_machine now evs s) = now"
  by (cases evs rule: rev_cases) simp_all

lemma maker_restore_start_data:
  fixes conf :: swap_confirmations_settings
  assumes "same_node base env" "same_node base env'"
    and s0: "s0 = maker_swap_new base taker ma ta (kp_public (se_key_pair base)) u ou conf lt p2p"
    and d: "d = maker_start_data env s0 f1 f2 b1 b2"
    and "mss_uuid saved = u" "mss_my_order_uuid saved = ou"
  shows "refresh_contracts env' d = d" "maker_swap_from_data env' saved d = s0"
proof -
  show "refresh_contracts env' d = d"
    using assms(1,2) unfolding d
    by (auto simp: refresh_contracts_def maker_start_data_def same_node_def Let_def split: option.splits)
  show "maker_swap_from_data env' saved d = s0"
    using assms unfolding d s0
    by (simp add: maker_swap_from_data_def maker_swap_new_def maker_start_data_def same_node_def Let_def)
qed

section \<open>The invariant\<close>

fun maker_early :: "maker_swap_command option \<Rightarrow> bool" where
  "maker_early (Some MStart) = True"
| "maker_early (Some MNegotiate) = True"
| "maker_early (Some MWaitForTakerFee) = True"
| "maker_early _ = False"

fun maker_abort_event :: "maker_swap_event \<Rightarrow> bool" where
  "maker_abort_event (MStartFailed _) = True"
| "maker_abort_event (MNegotiateFailed _) = True"
| "maker_abort_event (MTakerFeeValidateFailed _) = True"
| "maker_abort_event _ = False"

fun maker_is_started :: "maker_swap_event \<Rightarrow> bool" where
  "maker_is_started (MStarted _) = True"
| "maker_is_started _ = False"

definition start_data_ok :: "swap_env \<Rightarrow> maker_swap \<Rightarrow> maker_swap_event \<Rightarrow> bool" where
  "start_data_ok base s0 e =
     (\<forall>d. e = MStarted d \<longrightarrow>
        (\<exists>env f1 f2 b1 b2. same_node base env \<and> d = maker_start_data env s0 f1 f2 b1 b2))"

lemma maker_handle_effects:
  assumes "maker_handle_command env c s = Some (nxt, evs, effs)"
  shows "SendPaymentTx a \<in> set effs \<Longrightarrow> c = MSendPayment"
    and "list_ex maker_abort_event evs \<Longrightarrow> maker_early (Some c) \<and> nxt = Some MFinish"
    and "maker_early nxt \<Longrightarrow> maker_early (Some c)"
    and "MFinished \<in> set evs \<Longrightarrow> c = MFinish \<and> evs = [MFinished]"
    and "MStarted d \<in> set evs \<Longrightarrow> c = MStart \<and> (\<exists>f1 f2 b1 b2. d = maker_start_data env s f1 f2 b1 b2)"
  using assms
  by (cases c; auto simp: maker_handler_defs tx_helper_def bind_res_Inr_iff
      split: sum.splits option.splits if_splits)+

lemma maker_load_Started:
  "maker_load_from_saved env saved = Inr r \<Longrightarrow> \<exists>d rest. mss_journal saved = MStarted d # rest"
  by (auto simp: maker_load_from_saved_def split: list.splits maker_swap_event.splits)

lemma maker_load_replay:
  assumes "same_node base env"
    and s0: "s0 = maker_swap_new base taker ma ta (kp_public (se_key_pair base)) u ou conf lt p2p"
    and "mss_uuid j = u" "mss_my_order_uuid j = ou" "list_all (start_data_ok base s0) (mss_journal j)"
    and J: "mss_journal j = MStarted d # es"
  shows "maker_load_from_saved env j =
    Inr (replay maker_machine (se_now env) (mss_journal j) s0, maker_get_command (last (mss_journal j)))"
proof -
  obtain env' f1 f2 b1 b2 where d: "same_node base env'" "d = maker_start_data env' s0 f1 f2 b1 b2"
    using assms(5) J by (auto simp: start_data_ok_def)
  note R = maker_restore_start_data[OF d(1) assms(1) s0 d(2) assms(3,4)]
  show ?thesis
    using J R by (simp add: maker_load_from_saved_def replay_def del: maker_apply_event.simps)
qed

interpretation mj: journalled_swap maker_machine mss_journal maker_get_command MStart MFinish MSendPayment MFinished
  base "maker_swap_new base taker ma ta (kp_public (se_key_pair base)) u ou conf lt p2p"
  "new_maker_saved_swap (maker_swap_new base taker ma ta (kp_public (se_key_pair base)) u ou conf lt p2p)"
  "\<lambda>j. mss_uuid j = u \<and> mss_my_order_uuid j = ou" id maker_pre maker_early maker_is_started
  "start_data_ok base (maker_swap_new base taker ma ta (kp_public (se_key_pair base)) u ou conf lt p2p)"
  maker_abort_event "\<lambda>_. False"
  for base taker ma ta u ou conf lt p2p
proof unfold_locales
  fix e now now' s assume "e \<noteq> MFinished"
  then show "sm_apply_event maker_machine now e s = sm_apply_event maker_machine now' e s" by (cases e) simp_all
next
  fix env j e es
  let ?s0 = "maker_swap_new base taker ma ta (kp_public (se_key_pair base)) u ou conf lt p2p"
  assume "same_node base env" "mss_uuid j = u \<and> mss_my_order_uuid j = ou"
    "list_all (start_data_ok base ?s0) (mss_journal j)" "mss_journal j = e # es" "maker_is_started e"
  then show "sm_load_from_saved maker_machine env j =
      Inr (id (replay maker_machine (se_now env) (mss_journal j) ?s0), maker_get_command (last (mss_journal j)))"
    using maker_load_replay[OF _ refl, where j = j and taker = taker and ma = ma and ta = ta and u = u and ou = ou
        and conf = conf and lt = lt and p2p = p2p and base = base]
    by (cases e) auto
next
  fix env j r assume "sm_load_from_saved maker_machine env j = Inr r"
  then show "\<exists>e es. mss_journal j = e # es \<and> maker_is_started e" using maker_load_Started by fastforce
next
  fix env c s nxt evs effs
  let ?s0 = "maker_swap_new base taker ma ta (kp_public (se_key_pair base)) u ou conf lt p2p"
  assume h: "sm_handle_command maker_machine env c s = Some (nxt, evs, effs)" "same_node base env"
    and "c = MStart \<Longrightarrow> s = ?s0"
  then show "list_all (start_data_ok base ?s0) evs"
    using maker_handle_effects(5)[of env c s nxt evs effs] by (fastforce simp: list_all_iff start_data_ok_def)
next
  fix e show "maker_get_command e = None \<longleftrightarrow> e = MFinished" by (cases e) simp_all
next
  fix e show "maker_get_command e \<noteq> Some MStart" by (cases e) simp_all
next
  fix e show "maker_abort_event e \<Longrightarrow> maker_get_command e = Some MFinish" by (cases e) simp_all
qed (use maker_handle_batch_ok maker_handle_effects in
    \<open>auto simp: new_maker_saved_swap_def mss_journal_def maker_swap_new_def save_my_maker_swap_event_def\<close>)

section \<open>A restart resumes the run\<close>

text \<open>
  C10: A maker swap survives a crash at any point. As long as the swap is not finished and its
  first event is saved, the journal restores exactly the state of the running swap, and the
  restored swap continues with the command that was in flight or with the one the run was about
  to execute next.
\<close>

theorem maker_restart_resumes:
  assumes "s0 = maker_swap_new base taker ma ta (kp_public (se_key_pair base)) u ou conf lt p2p"
    and "maker_reach base s0 r" "same_node base env"
    and "mss_journal (run_saved r) = MStarted d # rest" "MFinished \<notin> set rest"
  shows "\<exists>c. maker_load_from_saved env (run_saved r) = Inr (run_swap r, Some c)
    \<and> (run_command r = Some c \<or> (\<exists>evs. run_result r = Some (Some c, evs)))"
proof -
  have "MFinished \<notin> set (MStarted d # rest)" using assms(5) by simp
  from mj.restart[OF assms(2)[unfolded assms(1)] assms(3,4) _ this] show ?thesis by auto
qed

section \<open>Panics\<close>

lemma maker_negotiate_None_iff:
  "maker_negotiate env s = None \<longleftrightarrow>
    (\<exists>d ma ta. maker_check_negotiation env s = Inr (d, ma, ta) \<and> short_pubkeys d)"
  by (auto simp: maker_negotiate_def Let_def short_pubkeys_def h264_from_def hash_from_slice_def split: sum.splits)

lemma maker_handler_None_iff:
  assumes pre: "maker_pre (Some c) s"
  shows "maker_handle_command env c s = None \<longleftrightarrow>
      c = MNegotiate \<and> (\<exists>d ma ta. maker_check_negotiation env s = Inr (d, ma, ta) \<and> short_pubkeys d)
    \<or> c = MRefundMakerPayment \<and>
        (\<forall>n. hc_can_refund_htlc (se_maker_htlc env) n (msd_maker_payment_lock (ms_data s)) \<noteq> Inr CanRefundNow)"
proof (cases c)
  case MNegotiate
  then show ?thesis by (simp add: maker_negotiate_None_iff)
next
  case MRefundMakerPayment
  then show ?thesis
    using pre
    by (auto simp: maker_refund_maker_payment_def Let_def can_refund_loop_None_iff[symmetric]
        split: option.splits sum.splits)
qed (use pre in \<open>auto simp: maker_handler_defs split: option.splits sum.splits if_splits\<close>)

text \<open>
  C32: The handlers of a maker swap do not panic, with one exception, and all but one return. In a
  reachable run the current command fails to return exactly if the taker sent an acceptable
  negotiation reply with a public key of fewer than 33 bytes, or if the maker's payment is to be
  refunded and the coin never reports it refundable.
\<close>

theorem maker_handler_returns:
  assumes "s0 = maker_swap_new base taker ma ta (kp_public (se_key_pair base)) u ou conf lt p2p"
    and "maker_reach base s0 r" "run_result r = None" "run_command r = Some c"
  shows "maker_handle_command env c (run_swap r) = None \<longleftrightarrow>
      c = MNegotiate \<and> (\<exists>d ma ta. maker_check_negotiation env (run_swap r) = Inr (d, ma, ta) \<and> short_pubkeys d)
    \<or> c = MRefundMakerPayment \<and>
        (\<forall>n. hc_can_refund_htlc (se_maker_htlc env) n (msd_maker_payment_lock (ms_data (run_swap r)))
           \<noteq> Inr CanRefundNow)"
  by (rule maker_handler_None_iff[OF mj.inv_command(1)[OF mj.reach_inv[OF assms(2)[unfolded assms(1)]] assms(3,4)]])

section \<open>When payments are sent, spent and refunded\<close>

text \<open>
  What a handler saw when it returned the event that leads to the payment or to the spend.
\<close>

lemma validate_fee_attempts_InrD: "validate_fee_attempts validate n = Inr u \<Longrightarrow> \<exists>attempt. validate attempt = Inr ()"
  by (induction validate n rule: validate_fee_attempts.induct)
    (subst (asm) (2) validate_fee_attempts.simps, auto split: sum.splits if_splits)

lemma maker_fee_event:
  assumes "maker_handle_command env c s = Some (nxt, evs, effs)" "MTakerFeeValidated fee \<in> set evs"
  shows "c = MWaitForTakerFee \<and> evs = [MTakerFeeValidated fee]
    \<and> (\<exists>attempt. hc_validate_fee (se_taker_htlc env) attempt (maker_fee_args env s fee) = Inr ())"
  using assms
  by (cases c) (auto simp: maker_handler_defs bind_res_Inr_iff dest: validate_fee_attempts_InrD
      split: option.splits sum.splits if_splits prod.splits)

lemma maker_validated_event:
  assumes "maker_handle_command env c s = Some (nxt, evs, effs)" "MTakerPaymentValidatedAndConfirmed \<in> set evs"
  shows "c = MValidateTakerPayment \<and> evs = [MTakerPaymentValidatedAndConfirmed] \<and> (\<exists>tx ca. ms_taker_payment s = Some tx
    \<and> hc_validate_taker_payment (se_taker_htlc env) (maker_validate_input env s tx) = Inr ()
    \<and> hc_wait_for_confirmations (se_taker_htlc env) ca = Inr () \<and> ca_tx ca = tx_hex tx
    \<and> ca_confirmations ca = msd_taker_payment_confirmations (ms_data s)
    \<and> ca_requires_nota ca = (msd_taker_payment_requires_nota (ms_data s) = Some True))"
proof (cases c)
  case MValidateTakerPayment
  then show ?thesis
    using assms
    by (auto simp: maker_validate_taker_payment_def maker_refund_after_def Let_def split: option.splits sum.splits
        intro!: exI[where P = "\<lambda>ca. _ ca = Inr () \<and> _ ca"])
qed (use assms in \<open>auto simp: maker_handler_defs split: option.splits sum.splits if_splits prod.splits\<close>)

lemma maker_fee_evidence:
  assumes trace: "maker_trace base (maker_swap_new base taker ma ta (kp_public (se_key_pair base)) u ou conf lt p2p) hist r"
    and r: "run_result r = None" "run_command r = Some c"
    and cmd: "c = MSendPayment"
  shows "\<exists>env' s' fee attempt. (env', MWaitForTakerFee, s') \<in> set hist \<and> ms_taker_fee (run_swap r) = Some fee
    \<and> hc_validate_fee (se_taker_htlc env') attempt (maker_fee_args env' (run_swap r) fee) = Inr ()"
proof -
  have n: "c \<noteq> MStart" "c \<noteq> MFinish" using cmd by simp_all
  obtain env c1 s1 evs nxt rest effs now where hist: "(env, c1, s1) \<in> set hist" "evs \<noteq> []"
    and h: "maker_handle_command env c1 s1 = Some (nxt, evs @ rest, effs)" "maker_get_command (last evs) = Some MSendPayment"
      "run_swap r = replay maker_machine now evs s1"
    by (rule mj.trace_command[OF trace r n]) (rule that, simp_all add: cmd)
  obtain fee where "last evs = MTakerFeeValidated fee" using h(2) by (cases "last evs") simp_all
  then have "MTakerFeeValidated fee \<in> set (evs @ rest)" using hist(2) last_in_set by force
  note ev = maker_fee_event[OF h(1) this]
  then have "evs = [MTakerFeeValidated fee]" using hist(2) by (cases evs) auto
  then show ?thesis using hist(1) h(3) ev by (auto simp: maker_fee_args_def)
qed

lemma maker_validation_evidence:
  assumes trace: "maker_trace base (maker_swap_new base taker ma ta (kp_public (se_key_pair base)) u ou conf lt p2p) hist r"
    and r: "run_result r = None" "run_command r = Some c"
    and cmd: "c = MSpendTakerPayment"
  shows "\<exists>env' s' tx ca. (env', MValidateTakerPayment, s') \<in> set hist
    \<and> ms_taker_payment (run_swap r) = Some tx
    \<and> hc_validate_taker_payment (se_taker_htlc env') (maker_validate_input env' (run_swap r) tx) = Inr ()
    \<and> hc_wait_for_confirmations (se_taker_htlc env') ca = Inr () \<and> ca_tx ca = tx_hex tx
    \<and> ca_confirmations ca = msd_taker_payment_confirmations (ms_data (run_swap r))
    \<and> ca_requires_nota ca = (msd_taker_payment_requires_nota (ms_data (run_swap r)) = Some True)"
proof -
  have n: "c \<noteq> MStart" "c \<noteq> MFinish" using cmd by simp_all
  obtain env c1 s1 evs nxt rest effs now where hist: "(env, c1, s1) \<in> set hist" "evs \<noteq> []"
    and h: "maker_handle_command env c1 s1 = Some (nxt, evs @ rest, effs)" "maker_get_command (last evs) = Some MSpendTakerPayment"
      "run_swap r = replay maker_machine now evs s1"
    by (rule mj.trace_command[OF trace r n]) (rule that, simp_all add: cmd)
  have "last evs = MTakerPaymentValidatedAndConfirmed" using h(2) by (cases "last evs") simp_all
  then have "MTakerPaymentValidatedAndConfirmed \<in> set (evs @ rest)" using hist(2) last_in_set by force
  note ev = maker_validated_event[OF h(1) this]
  then have "evs = [MTakerPaymentValidatedAndConfirmed]" using hist(2) by (cases evs) auto
  then show ?thesis using hist(1) h(3) ev by (auto simp: maker_validate_input_def)
qed


end
