(* ===== verification/MakerSwapOutcome.thy ===== *)
theory MakerSwapOutcome
  imports MakerSwapSafety SwapClock
begin

text \<open>
  How a maker swap ends: the loop terminates, a finished swap is settled or recoverable, and the
  secret is revealed only while the taker's payment stays locked for a known margin.
\<close>

section \<open>The margin of the lock times\<close>

text \<open>
  C6: The maker reveals its secret in time. Whatever starting time the taker sent, when the maker
  spends the taker's payment at least a fifth of the lock duration minus one minute is left
  before the lock time of that payment, and the lock time of the maker's own payment is later
  by at least the lock duration minus one minute. The lock times are the 32-bit values of the
  payment scripts; the times in question are before 2106.
\<close>

theorem maker_secret_revealed_in_time:
  assumes "s0 = maker_swap_new base taker ma ta (kp_public (se_key_pair base)) u ou conf lt p2p"
    and "maker_reach base s0 r" "run_result r = None" "run_command r = Some c"
    and "maker_handle_command env c (run_swap r) = Some (nxt, evs, effs)" "SpendPaymentTx a \<in> set effs"
    and "60 \<le> uint (msd_started_at (ms_data (run_swap r)))"
    and "uint (msd_started_at (ms_data (run_swap r))) + 2 * uint (msd_lock_duration (ms_data (run_swap r))) + 60
      < 4294967296"
  shows "uint (se_now env) + uint (msd_lock_duration (ms_data (run_swap r))) div 5 \<le> uint (sp_time_lock a) + 60
    \<and> uint (sp_time_lock a) + uint (msd_lock_duration (ms_data (run_swap r)))
      \<le> uint (pa_time_lock (maker_payment_args env (run_swap r))) + 60"
proof -
  let ?d = "ms_data (run_swap r)"
  have pre: "maker_pre (Some c) (run_swap r)"
    by (rule mj.inv_command(1)[OF mj.reach_inv[OF assms(2)[unfolded assms(1)]] assms(3,4)])
  have c: "c = MSpendTakerPayment" "sp_time_lock a = ucast (ms_taker_payment_lock (run_swap r))"
      "se_now env \<le> msd_started_at ?d + msd_lock_duration ?d * 4 div 5"
    using assms(5,6) by (cases c; auto simp: maker_handler_defs tx_helper_def maker_spend_args_def not_less
        split: option.splits sum.splits if_splits)+
  obtain other where o: "\<not> started_too_far_apart (msd_started_at ?d) other"
      "ms_taker_payment_lock (run_swap r) = other + msd_lock_duration ?d"
    using pre c(1) by (auto simp: maker_negotiated_ok_def)
  have b: "0 \<le> uint (msd_lock_duration ?d)" by simp
  obtain \<delta> where \<delta>: "- 60 \<le> \<delta>" "\<delta> \<le> 60"
      "uint (sp_time_lock a) = uint (msd_started_at ?d) + uint (msd_lock_duration ?d) + \<delta>"
    using negotiated_lock[OF o(1) assms(7), of "msd_lock_duration ?d"] assms(8) b unfolding c(2) o(2) by auto
  have "uint (se_now env) \<le> uint (msd_started_at ?d) + 4 * uint (msd_lock_duration ?d) div 5"
    using c(3) uint_four_fifths[OF assms(8)] by (simp add: word_le_def)
  moreover have "uint (pa_time_lock (maker_payment_args env (run_swap r))) =
      uint (msd_started_at ?d) + 2 * uint (msd_lock_duration ?d)"
    using pre c(1) uint_maker_lock[OF assms(8)] by (simp add: maker_payment_args_def maker_started_ok_def)
  ultimately show ?thesis using \<delta> b by linarith
qed

section \<open>Termination\<close>

fun maker_rank :: "maker_swap_command option \<Rightarrow> nat" where
  "maker_rank (Some MStart) = 0"
| "maker_rank (Some MNegotiate) = 1"
| "maker_rank (Some MWaitForTakerFee) = 2"
| "maker_rank (Some MSendPayment) = 3"
| "maker_rank (Some MWaitForTakerPayment) = 4"
| "maker_rank (Some MValidateTakerPayment) = 5"
| "maker_rank (Some MSpendTakerPayment) = 6"
| "maker_rank (Some MConfirmTakerPaymentSpend) = 7"
| "maker_rank (Some MRefundMakerPayment) = 8"
| "maker_rank (Some MFinish) = 9"
| "maker_rank None = 10"

lemma maker_rank_increases:
  "maker_handle_command env c s = Some (nxt, evs, effs) \<Longrightarrow> maker_rank (Some c) < maker_rank nxt"
  by (cases c; auto simp: maker_handler_defs split: option.splits sum.splits if_splits)

lemma maker_rank_le: "maker_rank c \<le> 10"
  by (cases c rule: maker_rank.cases) simp_all

text \<open>
  C12: The loop of a maker swap terminates: if every negotiation reply carries whole public keys
  and a locked payment eventually becomes refundable, the loop ends with the swap finished,
  whatever the coins and the taker answer.
\<close>

theorem maker_swap_terminates:
  assumes s0: "s0 = maker_swap_new base taker ma ta (kp_public (se_key_pair base)) u ou conf lt p2p"
    and env: "\<And>n. same_node base (envs n)"
    and keys: "\<And>n d. se_negotiation_reply (envs n) = Inr d \<Longrightarrow> \<not> short_pubkeys d"
    and refundable: "\<And>n lock. \<exists>k. hc_can_refund_htlc (se_maker_htlc (envs n)) k lock = Inr CanRefundNow"
  shows "\<exists>r. swap_drive maker_machine envs 0 (maker_run_new s0) = Some r \<and> maker_reach base s0 r
    \<and> run_command r = None \<and> maker_is_finished (run_saved r)"
proof -
  let ?s0 = "maker_swap_new base taker ma ta (kp_public (se_key_pair base)) u ou conf lt p2p"
  have "maker_handle_command (envs n) c (run_swap r) \<noteq> None"
    if "maker_reach base ?s0 r" "run_result r = None" "run_command r = Some c" for n r c
    unfolding maker_handler_None_iff[OF mj.inv_command(1)[OF mj.reach_inv[OF that(1)] that(2,3)]]
    using keys refundable by (auto simp: maker_check_negotiation_def bind_res_Inr_iff split: if_splits)
  from mj.drive_returns[of maker_rank 10 base envs, OF _ maker_rank_le env] this maker_rank_increases
  show ?thesis unfolding s0 maker_is_finished_def by simp
qed

section \<open>Outcomes\<close>

lemma maker_unrecoverable_cases:
  "maker_unrecoverable_event e \<longleftrightarrow>
    maker_abort_event e \<or> e = MTakerPaymentSpendConfirmed \<or> (\<exists>tx. e = MMakerPaymentRefunded tx)"
  by (cases e) simp_all

text \<open>
  C8: No payment is forgotten. When a maker swap is finished and the maker tried to send its
  payment, then the payment was refunded, or the spend of the taker's payment was confirmed, or
  the saved swap is recoverable.
\<close>

theorem maker_finished_settled_or_recoverable:
  assumes "s0 = maker_swap_new base taker ma ta (kp_public (se_key_pair base)) u ou conf lt p2p"
    and "maker_reach base s0 r" "maker_is_finished (run_saved r)" "SendPaymentTx a \<in> set (run_effects r)"
  shows "ms_maker_payment_refund (run_swap r) \<noteq> None \<or> ms_taker_payment_spend_confirmed (run_swap r)
    \<or> maker_is_recoverable (run_saved r)"
proof -
  note reach = assms(2)[unfolded assms(1)]
  let ?J = "mss_journal (run_saved r)"
  have "\<not> list_ex maker_abort_event ?J" by (rule mj.aborted_without_payment[OF reach assms(4)])
  moreover obtain now where "run_swap r = replay maker_machine now ?J s0"
    using mj.reach_swap[OF reach] assms(1) by auto
  ultimately show ?thesis
    using assms(3) maker_replay_refund[of now ?J s0] maker_replay_spend_confirmed[of now ?J s0]
    by (auto simp: maker_is_recoverable_def list_ex_iff maker_unrecoverable_cases)
qed


end
