(* ===== verification/MakerSwapExample.thy ===== *)
theory MakerSwapExample
  imports MakerSwapOutcome SwapDemo
begin

text \<open>
  A concrete maker swap run through all its commands, and the theorems on maker swaps applied to it.
\<close>

section \<open>A concrete run\<close>

definition demo_maker_env :: swap_env where
  "demo_maker_env = demo_swap_env 1 0"

definition demo_maker_swap :: maker_swap where
  "demo_maker_swap =
     maker_swap_new demo_maker_env (replicate 32 2) 2 10 (kp_public (se_key_pair demo_maker_env)) 9 (Some 3)
       demo_conf_settings 7800 None"

fun demo_maker_run :: "swap_env \<Rightarrow> nat \<Rightarrow> (maker_swap, maker_swap_command, maker_swap_event, maker_saved_swap) swap_run option" where
  "demo_maker_run env 0 = Some (maker_run_new demo_maker_swap)"
| "demo_maker_run env (Suc n) = Option.bind (demo_maker_run env n) (swap_iterate maker_machine env)"

definition demo_maker_at :: "swap_env \<Rightarrow> nat \<Rightarrow> (maker_swap, maker_swap_command, maker_swap_event, maker_saved_swap) swap_run" where
  "demo_maker_at env n = the (demo_maker_run env n)"

text \<open>
  A world in which the taker never pays and the refund fails at first, and the same world
  seventeen hours later.
\<close>

definition demo_stuck_env :: swap_env where
  "demo_stuck_env = demo_maker_env
     \<lparr>se_taker_payment := Inl ''Timeout'',
      se_maker_htlc := demo_htlc\<lparr>hc_send_maker_refunds_payment := (\<lambda>_. Inl (TxPlain ''no connection''))\<rparr>\<rparr>"

definition demo_later_env :: swap_env where
  "demo_later_env = demo_swap_env 1 61200"

lemma demo_maker_same:
  "same_node demo_maker_env demo_maker_env" "same_node demo_maker_env demo_stuck_env"
  "same_node demo_maker_env demo_later_env"
  by (simp_all add: same_node_def demo_stuck_env_def demo_later_env_def demo_maker_env_def demo_swap_env_def demo_htlc_def)

lemma demo_maker_reach:
  assumes "same_node demo_maker_env env" "demo_maker_run env n = Some r"
  shows "maker_reach demo_maker_env demo_maker_swap r \<and> run_result r = None"
  using assms(2)
proof (induction n arbitrary: r)
  case 0
  then show ?case using swap_reach.init by (auto simp: swap_run_new_def)
next
  case (Suc n)
  obtain q where q: "demo_maker_run env n = Some q" "swap_iterate maker_machine env q = Some r"
    using Suc.prems by (cases "demo_maker_run env n") auto
  show ?case using swap_reach_iterate[OF _ assms(1) _ q(2)] Suc.IH[OF q(1)] by blast
qed

lemma demo_maker_at_reach:
  assumes "same_node demo_maker_env env" "demo_maker_run env n \<noteq> None"
  shows "maker_reach demo_maker_env demo_maker_swap (demo_maker_at env n)" "run_result (demo_maker_at env n) = None"
  using assms demo_maker_reach[of env n] by (auto simp: demo_maker_at_def)

lemma demo_maker_4: "demo_maker_run demo_maker_env 4 \<noteq> None"
  "case mss_journal (run_saved (demo_maker_at demo_maker_env 4)) of
     MStarted d # rest \<Rightarrow> MFinished \<notin> set rest | _ \<Rightarrow> False"
  by code_simp+

definition demo_spend_effects :: "swap_effect list" where
  "demo_spend_effects =
     snd (snd (the (maker_handle_command demo_maker_env MSpendTakerPayment (run_swap (demo_maker_at demo_maker_env 6)))))"

lemma demo_maker_6: "demo_maker_run demo_maker_env 6 \<noteq> None"
  "run_command (demo_maker_at demo_maker_env 6) = Some MSpendTakerPayment"
  "maker_handle_command demo_maker_env MSpendTakerPayment (run_swap (demo_maker_at demo_maker_env 6)) \<noteq> None"
  "map (\<lambda>a. uint (sp_time_lock a)) (spends_of demo_spend_effects) = [1700007810]"
  "uint (msd_started_at (ms_data (run_swap (demo_maker_at demo_maker_env 6)))) = 1700000000"
  "uint (msd_lock_duration (ms_data (run_swap (demo_maker_at demo_maker_env 6)))) = 7800"
  by code_simp+

lemma demo_maker_6_spend:
  "\<exists>nxt evs a. maker_handle_command demo_maker_env MSpendTakerPayment (run_swap (demo_maker_at demo_maker_env 6))
      = Some (nxt, evs, demo_spend_effects)
    \<and> SpendPaymentTx a \<in> set demo_spend_effects \<and> uint (sp_time_lock a) = 1700007810"
proof -
  obtain a where "spends_of demo_spend_effects = [a]" "uint (sp_time_lock a) = 1700007810"
    using demo_maker_6(4) by (auto simp: map_eq_Cons_conv)
  moreover have "\<exists>nxt evs. maker_handle_command demo_maker_env MSpendTakerPayment (run_swap (demo_maker_at demo_maker_env 6))
      = Some (nxt, evs, demo_spend_effects)"
    using demo_maker_6(3) by (auto simp: demo_spend_effects_def)
  ultimately show ?thesis using set_spends_of[of a demo_spend_effects] by auto
qed

lemma demo_maker_9: "demo_maker_run demo_maker_env 9 \<noteq> None"
  "maker_is_finished (run_saved (demo_maker_at demo_maker_env 9))"
  "payments_of (run_effects (demo_maker_at demo_maker_env 9)) \<noteq> []"
  by code_simp+

lemma demo_stuck_7: "demo_maker_run demo_stuck_env 7 \<noteq> None"
  "maker_is_recoverable (run_saved (demo_maker_at demo_stuck_env 7))"
  by code_simp+

section \<open>The theorems at this run\<close>

theorem maker_restart_resumes_witness:
  "\<exists>c. maker_load_from_saved demo_maker_env (run_saved (demo_maker_at demo_maker_env 4)) =
    Inr (run_swap (demo_maker_at demo_maker_env 4), Some c)"
proof -
  obtain d rest where "mss_journal (run_saved (demo_maker_at demo_maker_env 4)) = MStarted d # rest" "MFinished \<notin> set rest"
    using demo_maker_4(2) by (auto split: list.splits maker_swap_event.splits)
  then show ?thesis
    using maker_restart_resumes[OF demo_maker_swap_def demo_maker_at_reach(1)[OF demo_maker_same(1) demo_maker_4(1)]
        demo_maker_same(1)] by blast
qed

theorem maker_handler_returns_witness:
  "maker_handle_command demo_maker_env MSpendTakerPayment (run_swap (demo_maker_at demo_maker_env 6)) \<noteq> None"
  using maker_handler_returns[OF demo_maker_swap_def demo_maker_at_reach[OF demo_maker_same(1) demo_maker_6(1)] demo_maker_6(2),
      of demo_maker_env]
  by simp


theorem maker_secret_revealed_in_time_witness:
  "uint (se_now demo_maker_env) + 7800 div 5 \<le> 1700007810 + 60"
proof -
  obtain nxt evs a where h: "maker_handle_command demo_maker_env MSpendTakerPayment (run_swap (demo_maker_at demo_maker_env 6))
      = Some (nxt, evs, demo_spend_effects)" "SpendPaymentTx a \<in> set demo_spend_effects"
    and a: "uint (sp_time_lock a) = 1700007810"
    using demo_maker_6_spend by blast
  show ?thesis
    using maker_secret_revealed_in_time[OF demo_maker_swap_def demo_maker_at_reach[OF demo_maker_same(1) demo_maker_6(1)]
        demo_maker_6(2) h] a demo_maker_6(5,6)
    by simp
qed

theorem maker_swap_terminates_witness:
  "\<exists>r. swap_drive maker_machine (\<lambda>_. demo_maker_env) 0 (maker_run_new demo_maker_swap) = Some r \<and> maker_is_finished (run_saved r)"
proof -
  have "\<exists>k. hc_can_refund_htlc (se_maker_htlc demo_maker_env) k lock = Inr CanRefundNow" for lock
    by (rule exI[of _ 1]) (simp add: demo_maker_env_def demo_swap_env_def demo_htlc_def)
  moreover have "se_negotiation_reply demo_maker_env = Inr d \<Longrightarrow> \<not> short_pubkeys d" for d
    by (auto simp: demo_maker_env_def demo_swap_env_def short_pubkeys_def demo_keys_def)
  ultimately show ?thesis
    using maker_swap_terminates[OF demo_maker_swap_def, of "\<lambda>_. demo_maker_env"] demo_maker_same(1) by blast
qed

theorem maker_finished_settled_or_recoverable_witness:
  "\<not> (ms_maker_payment_refund (run_swap (demo_maker_at demo_maker_env 9)) = None
    \<and> \<not> ms_taker_payment_spend_confirmed (run_swap (demo_maker_at demo_maker_env 9))
    \<and> \<not> maker_is_recoverable (run_saved (demo_maker_at demo_maker_env 9)))"
proof -
  show ?thesis
    using maker_finished_settled_or_recoverable[OF demo_maker_swap_def
        demo_maker_at_reach(1)[OF demo_maker_same(1) demo_maker_9(1)] demo_maker_9(2)
        set_payments_of[OF hd_in_set[OF demo_maker_9(3)]]] by blast
qed

definition demo_restored :: "string + (maker_swap \<times> maker_swap_command option)" where
  "demo_restored = maker_load_from_saved demo_later_env (run_saved (demo_maker_at demo_stuck_env 7))"

lemma demo_restored_facts:
  "case demo_restored of Inl _ \<Rightarrow> False
   | Inr (s, _) \<Rightarrow> map_option tx_hex (ms_maker_payment s) = Some [2]
       \<and> msd_maker_payment_lock (ms_data s) + 3700 \<le> se_now demo_later_env"
  by code_simp


end
