(* ===== verification/TakerSwapSafety.thy ===== *)
theory TakerSwapSafety
  imports TakerSwapRun
begin

text \<open>
  The taker's side keeps its promises to the loop, so that the invariant of journalled swaps
  holds for it across crashes. From it follow what a restart resumes, which handlers can panic,
  and when the taker pays, spends and refunds.
\<close>

section \<open>What each command relies on\<close>

definition taker_started_ok :: "taker_swap \<Rightarrow> bool" where
  "taker_started_ok s =
     (tsd_taker_payment_lock (ts_data s) = tsd_started_at (ts_data s) + tsd_lock_duration (ts_data s))"

definition taker_negotiated_ok :: "taker_swap \<Rightarrow> bool" where
  "taker_negotiated_ok s =
     (\<exists>other. \<not> started_too_far_apart (tsd_started_at (ts_data s)) other
        \<and> ts_maker_payment_lock s = other + tsd_lock_duration (ts_data s) * 2)"

definition taker_agreed :: "taker_swap \<Rightarrow> bool" where
  "taker_agreed s = (taker_started_ok s \<and> taker_negotiated_ok s)"

fun taker_pre :: "taker_swap_command option \<Rightarrow> taker_swap \<Rightarrow> bool" where
  "taker_pre (Some TStart) s = True"
| "taker_pre (Some TNegotiate) s = taker_started_ok s"
| "taker_pre (Some TSendTakerFee) s = taker_agreed s"
| "taker_pre (Some TWaitForMakerPayment) s = (taker_agreed s \<and> ts_taker_fee s \<noteq> None)"
| "taker_pre (Some TValidateMakerPayment) s = (taker_agreed s \<and> ts_maker_payment s \<noteq> None)"
| "taker_pre (Some TSendTakerPayment) s =
     (taker_agreed s \<and> ts_maker_payment s \<noteq> None \<and> ts_maker_payment_confirmed s)"
| "taker_pre (Some TWaitForTakerPaymentSpend) s =
     (taker_agreed s \<and> ts_maker_payment s \<noteq> None \<and> ts_taker_payment s \<noteq> None)"
| "taker_pre (Some TSpendMakerPayment) s =
     (taker_agreed s \<and> ts_maker_payment s \<noteq> None \<and> ts_taker_payment s \<noteq> None \<and> ts_taker_payment_spend s \<noteq> None)"
| "taker_pre (Some TRefundTakerPayment) s = (taker_agreed s \<and> ts_taker_payment s \<noteq> None)"
| "taker_pre (Some TFinish) s = True"
| "taker_pre None s = True"

text \<open>
  The two events after which the run finishes while a restored swap would refund.
\<close>

fun taker_diverges :: "taker_swap_event \<Rightarrow> bool" where
  "taker_diverges (TMakerPaymentSpendFailed _) = True"
| "taker_diverges (TTakerPaymentWaitForSpendFailed _) = True"
| "taker_diverges _ = False"

fun taker_early :: "taker_swap_command option \<Rightarrow> bool" where
  "taker_early (Some TStart) = True"
| "taker_early (Some TNegotiate) = True"
| "taker_early (Some TSendTakerFee) = True"
| "taker_early (Some TWaitForMakerPayment) = True"
| "taker_early (Some TValidateMakerPayment) = True"
| "taker_early _ = False"

fun taker_abort_event :: "taker_swap_event \<Rightarrow> bool" where
  "taker_abort_event (TStartFailed _) = True"
| "taker_abort_event (TNegotiateFailed _) = True"
| "taker_abort_event (TTakerFeeSendFailed _) = True"
| "taker_abort_event (TMakerPaymentValidateFailed _) = True"
| "taker_abort_event (TMakerPaymentWaitConfirmFailed _) = True"
| "taker_abort_event _ = False"

fun taker_is_started :: "taker_swap_event \<Rightarrow> bool" where
  "taker_is_started (TStarted _) = True"
| "taker_is_started _ = False"

definition taker_event_ok :: "swap_env \<Rightarrow> taker_swap \<Rightarrow> taker_swap_event \<Rightarrow> bool" where
  "taker_event_ok base s0 e =
     (e \<noteq> TMakerPaymentSpendConfirmed \<and>
      (\<forall>d. e = TStarted d \<longrightarrow>
        (\<exists>env f1 f2 f3 b1 b2. same_node base env \<and> d = taker_start_data env s0 f1 f2 f3 b1 b2)))"

abbreviation taker_batch_ok :: "taker_swap_command option \<Rightarrow> taker_swap \<Rightarrow> taker_swap_event list \<Rightarrow> bool" where
  "taker_batch_ok \<equiv> batch_ok taker_machine taker_get_command taker_pre TFinish taker_diverges"

lemmas taker_handler_defs =
  taker_start_def taker_negotiate_def taker_send_taker_fee_def taker_wait_for_maker_payment_def
  taker_validate_maker_payment_def taker_send_taker_payment_def taker_wait_for_taker_payment_spend_def
  taker_spend_maker_payment_def taker_refund_taker_payment_def taker_refund_after_def Let_def

lemmas taker_ok_defs = taker_agreed_def taker_started_ok_def taker_negotiated_ok_def ts_add_error_def

lemma taker_check_negotiation_Inr:
  "taker_check_negotiation env s = Inr (d, ma, ta) \<Longrightarrow>
    \<not> started_too_far_apart (tsd_started_at (ts_data s)) (nd_started_at d)
    \<and> nd_payment_locktime d = nd_started_at d + tsd_lock_duration (ts_data s) * 2"
  by (auto simp: taker_check_negotiation_def bind_res_Inr_iff split: if_splits)

lemma taker_handle_batch_ok:
  "taker_handle_command env c s = Some (nxt, evs, effs) \<Longrightarrow> taker_pre (Some c) s \<Longrightarrow>
    evs \<noteq> [] \<and> taker_batch_ok nxt s evs"
  by (cases c; auto simp: taker_handler_defs taker_ok_defs taker_start_data_def bind_res_Inr_iff
      split: sum.splits option.splits bool.splits if_splits dest!: taker_check_negotiation_Inr)

lemma taker_watcher_message_effects: "eff \<in> set (taker_watcher_message env hex s) \<Longrightarrow> \<exists>t d. eff = WatcherMessage t d"
  by (auto simp: taker_watcher_message_def Let_def split: if_splits option.splits sum.splits)

lemma taker_handle_effects:
  assumes "taker_handle_command env c s = Some (nxt, evs, effs)"
  shows "SendPaymentTx a \<in> set effs \<Longrightarrow> c = TSendTakerPayment"
    and "list_ex taker_abort_event evs \<Longrightarrow> taker_early (Some c) \<and> nxt = Some TFinish"
    and "taker_early nxt \<Longrightarrow> taker_early (Some c)"
    and "TFinished \<in> set evs \<Longrightarrow> c = TFinish \<and> evs = [TFinished]"
    and "TMakerPaymentSpendConfirmed \<notin> set evs"
  using assms
  by (cases c; auto simp: taker_handler_defs tx_helper_def bind_res_Inr_iff
      split: sum.splits option.splits if_splits bool.splits dest: taker_watcher_message_effects)+

lemma taker_handle_Started:
  assumes "taker_handle_command env c s = Some (nxt, evs, effs)" "TStarted d \<in> set evs"
  shows "c = TStart \<and> (\<exists>f1 f2 f3 b1 b2. d = taker_start_data env s f1 f2 f3 b1 b2)"
  using assms
  by (cases c; auto simp: taker_handler_defs bind_res_Inr_iff
      split: sum.splits option.splits if_splits bool.splits) blast

section \<open>Replay\<close>

lemma taker_replay_refund:
  "ts_taker_payment_refund (replay taker_machine now evs s) \<noteq> None \<longleftrightarrow>
    (\<exists>e \<in> set evs. \<exists>tx. e = TTakerPaymentRefunded tx \<or> e = TTakerPaymentRefundedByWatcher tx)
      \<or> ts_taker_payment_refund s \<noteq> None"
  by (rule replay_flag, case_tac e) (simp_all add: ts_add_error_def)

lemma taker_replay_maker_spend:
  "ts_maker_payment_spend (replay taker_machine now evs s) \<noteq> None \<longleftrightarrow>
    (\<exists>e \<in> set evs. \<exists>tx. e = TMakerPaymentSpent tx \<or> e = TMakerPaymentSpentByWatcher tx)
      \<or> ts_maker_payment_spend s \<noteq> None"
  by (rule replay_flag, case_tac e) (simp_all add: ts_add_error_def)

lemma taker_replay_confirmed:
  "ts_maker_payment_confirmed (replay taker_machine now evs s) \<longleftrightarrow>
    (\<exists>e \<in> set evs. e = TMakerPaymentValidatedAndConfirmed) \<or> ts_maker_payment_confirmed s"
  by (rule replay_flag, case_tac e) (simp_all add: ts_add_error_def)

lemma taker_replay_maker_payment:
  "ts_maker_payment (replay taker_machine now evs s) = Some tx \<Longrightarrow>
    TMakerPaymentReceived tx \<in> set evs \<or> ts_maker_payment s = Some tx"
  by (rule replay_field, case_tac e) (simp_all add: ts_add_error_def)

lemma taker_replay_taker_payment:
  "ts_taker_payment (replay taker_machine now evs s) = Some tx \<Longrightarrow>
    TTakerPaymentSent tx \<in> set evs \<or> ts_taker_payment s = Some tx"
  by (rule replay_field, case_tac e) (simp_all add: ts_add_error_def)

definition taker_payment_spent :: "taker_swap \<Rightarrow> taker_payment_spent_data option" where
  "taker_payment_spent s =
     map_option (\<lambda>tx. \<lparr>tps_transaction = tx, tps_secret = ts_secret s\<rparr>) (ts_taker_payment_spend s)"

lemma taker_replay_spent:
  "taker_payment_spent (replay taker_machine now evs s) = Some d \<Longrightarrow>
    TTakerPaymentSpent d \<in> set evs \<or> taker_payment_spent s = Some d"
  by (rule replay_field, case_tac e) (auto simp: ts_add_error_def taker_payment_spent_def)

lemma taker_replay_received:
  "ts_maker_payment (replay taker_machine now evs s) \<noteq> None \<longleftrightarrow>
    (\<exists>e \<in> set evs. \<exists>tx. e = TMakerPaymentReceived tx) \<or> ts_maker_payment s \<noteq> None"
  by (rule replay_flag, case_tac e) (simp_all add: ts_add_error_def)

lemma taker_replay_static:
  "ts_maker_coin (replay taker_machine now evs s) = ts_maker_coin s"
  "ts_taker_coin (replay taker_machine now evs s) = ts_taker_coin s"
  "ts_maker_amount (replay taker_machine now evs s) = ts_maker_amount s"
  by (rule replay_static, case_tac e, simp_all add: ts_add_error_def)+

lemma taker_replay_finished_at:
  "evs \<noteq> [] \<Longrightarrow> last evs = TFinished \<Longrightarrow> ts_finished_at (replay taker_machine now evs s) = now"
  by (cases evs rule: rev_cases) simp_all

text \<open>
  A restored swap trades the amounts of the journal, which are decimal approximations, and takes
  its own identifier for that of the order.
\<close>

definition taker_restored :: "swap_env \<Rightarrow> mm_number \<Rightarrow> mm_number \<Rightarrow> uuid \<Rightarrow> taker_swap \<Rightarrow> taker_swap" where
  "taker_restored base ma ta u s =
     s\<lparr>ts_maker_amount := se_to_decimal base ma, ts_taker_amount := se_to_decimal base ta,
       ts_my_order_uuid := Some u\<rparr>"

lemma taker_apply_restored:
  "taker_apply_event now e (taker_restored base ma ta u s) = taker_restored base ma ta u (taker_apply_event now e s)"
  by (cases e) (simp_all add: taker_restored_def ts_add_error_def split: option.split)

lemma taker_replay_restored:
  "replay taker_machine now evs (taker_restored base ma ta u s) = taker_restored base ma ta u (replay taker_machine now evs s)"
  by (induction evs arbitrary: s) (simp_all add: taker_apply_restored)

lemma taker_restore_start_data:
  fixes conf :: swap_confirmations_settings
  assumes "same_node base env" "same_node base env'"
    and s0: "s0 = taker_swap_new base maker ma ta (kp_public (se_key_pair base)) u ou conf lt p2p"
    and d: "d = taker_start_data env s0 f1 f2 f3 b1 b2" and "tss_uuid saved = u"
  shows "taker_refresh_contracts env' d = d" "taker_swap_from_data env' saved d = taker_restored base ma ta u s0"
proof -
  show "taker_refresh_contracts env' d = d"
    using assms(1,2) unfolding d
    by (auto simp: taker_refresh_contracts_def taker_start_data_def same_node_def Let_def split: option.splits)
  show "taker_swap_from_data env' saved d = taker_restored base ma ta u s0"
    using assms unfolding d s0
    by (simp add: taker_swap_from_data_def taker_swap_new_def taker_start_data_def same_node_def taker_restored_def Let_def)
qed

lemma taker_load_Started:
  "taker_load_from_saved env saved = Inr r \<Longrightarrow> \<exists>d rest. tss_journal saved = TStarted d # rest"
  by (auto simp: taker_load_from_saved_def split: list.splits taker_swap_event.splits)

lemma taker_load_replay:
  assumes "same_node base env"
    and s0: "s0 = taker_swap_new base maker ma ta (kp_public (se_key_pair base)) u ou conf lt p2p"
    and "tss_uuid j = u" "list_all (taker_event_ok base s0) (tss_journal j)"
    and J: "tss_journal j = TStarted d # es"
  shows "taker_load_from_saved env j =
    Inr (taker_restored base ma ta u (replay taker_machine (se_now env) (tss_journal j) s0),
      taker_get_command (last (tss_journal j)))"
proof -
  obtain env' f1 f2 f3 b1 b2 where d: "same_node base env'" "d = taker_start_data env' s0 f1 f2 f3 b1 b2"
    using assms(4) J by (auto simp: taker_event_ok_def)
  note R = taker_restore_start_data[OF d(1) assms(1) s0 d(2) assms(3)]
  show ?thesis
    using J R unfolding taker_replay_restored[symmetric]
    by (simp add: taker_load_from_saved_def replay_def del: taker_apply_event.simps)
qed

interpretation tj: journalled_swap taker_machine tss_journal taker_get_command TStart TFinish TSendTakerPayment TFinished
  base "taker_swap_new base maker ma ta (kp_public (se_key_pair base)) u ou conf lt p2p"
  "new_taker_saved_swap base (taker_swap_new base maker ma ta (kp_public (se_key_pair base)) u ou conf lt p2p)"
  "\<lambda>j. tss_uuid j = u" "taker_restored base ma ta u" taker_pre taker_early taker_is_started
  "taker_event_ok base (taker_swap_new base maker ma ta (kp_public (se_key_pair base)) u ou conf lt p2p)"
  taker_abort_event taker_diverges
  for base maker ma ta u ou conf lt p2p
proof unfold_locales
  fix e now now' s assume "e \<noteq> TFinished"
  then show "sm_apply_event taker_machine now e s = sm_apply_event taker_machine now' e s" by (cases e) simp_all
next
  fix now e s
  show "sm_apply_event taker_machine now e (taker_restored base ma ta u s) =
      taker_restored base ma ta u (sm_apply_event taker_machine now e s)"
    by (simp add: taker_apply_restored)
next
  fix nxt s show "taker_pre nxt (taker_restored base ma ta u s) = taker_pre nxt s"
    by (cases "(nxt, s)" rule: taker_pre.cases) (simp_all add: taker_restored_def taker_ok_defs)
next
  fix env j e es
  let ?s0 = "taker_swap_new base maker ma ta (kp_public (se_key_pair base)) u ou conf lt p2p"
  assume "same_node base env" "tss_uuid j = u"
    "list_all (taker_event_ok base ?s0) (tss_journal j)" "tss_journal j = e # es" "taker_is_started e"
  then show "sm_load_from_saved taker_machine env j =
      Inr (taker_restored base ma ta u (replay taker_machine (se_now env) (tss_journal j) ?s0),
        taker_get_command (last (tss_journal j)))"
    using taker_load_replay[OF _ refl, where j = j and maker = maker and ma = ma and ta = ta and u = u and ou = ou
        and conf = conf and lt = lt and p2p = p2p and base = base]
    by (cases e) auto
next
  fix env j r assume "sm_load_from_saved taker_machine env j = Inr r"
  then show "\<exists>e es. tss_journal j = e # es \<and> taker_is_started e" using taker_load_Started by fastforce
next
  fix env c s nxt evs effs
  let ?s0 = "taker_swap_new base maker ma ta (kp_public (se_key_pair base)) u ou conf lt p2p"
  assume h: "sm_handle_command taker_machine env c s = Some (nxt, evs, effs)" "same_node base env"
    and "c = TStart \<Longrightarrow> s = ?s0"
  then show "list_all (taker_event_ok base ?s0) evs"
    using taker_handle_effects(5)[of env c s nxt evs effs] taker_handle_Started[of env c s nxt evs effs]
    by (fastforce simp: list_all_iff taker_event_ok_def)
next
  fix e show "taker_get_command e = None \<longleftrightarrow> e = TFinished" by (cases e) simp_all
next
  fix e show "taker_get_command e \<noteq> Some TStart" by (cases e) simp_all
next
  fix e show "taker_abort_event e \<Longrightarrow> taker_get_command e = Some TFinish" by (cases e) simp_all
next
  fix e show "taker_diverges e \<Longrightarrow> e \<noteq> TFinished \<and> \<not> taker_early (taker_get_command e)" by (cases e) simp_all
qed (use taker_handle_batch_ok taker_handle_effects in
    \<open>auto simp: new_taker_saved_swap_def tss_journal_def taker_swap_new_def save_my_taker_swap_event_def
       taker_restored_def\<close>)

end
