(* ===== verification/TakerSwapOutcome.thy ===== *)
theory TakerSwapOutcome
  imports TakerSwapSafety SwapClock
begin

text \<open>
  What the invariant of the taker's run gives: what a restart resumes, which handlers can panic,
  when the taker pays, spends and refunds, the margins of the lock times, the end of the loop
  and the outcomes of a finished swap.
\<close>

section \<open>A restart resumes the run\<close>

text \<open>
  C11: A taker swap survives a crash at any point. As long as the swap is not finished and its
  first event is saved, the journal restores the state of the running swap, with the amounts
  replaced by their decimal approximations and the swap's identifier in place of the order's.
  The restored swap continues with the command that was in flight or was next, except after a
  failed spend of the maker's payment or a failed extraction of the secret: there the run was
  about to finish, and the restored swap refunds.
\<close>

theorem taker_restart_resumes:
  assumes "s0 = taker_swap_new base maker ma ta (kp_public (se_key_pair base)) u ou conf lt p2p"
    and "taker_reach base s0 r" "same_node base env"
    and "tss_journal (run_saved r) = TStarted d # rest" "TFinished \<notin> set rest"
  shows "\<exists>c. taker_load_from_saved env (run_saved r) =
      Inr ((run_swap r)\<lparr>ts_maker_amount := se_to_decimal base ma, ts_taker_amount := se_to_decimal base ta,
             ts_my_order_uuid := Some u\<rparr>, Some c)
    \<and> (run_command r = Some c \<or> (\<exists>evs. run_result r = Some (Some c, evs))
       \<or> c = TRefundTakerPayment \<and>
         (\<exists>err. last rest = TMakerPaymentSpendFailed err \<or> last rest = TTakerPaymentWaitForSpendFailed err))"
proof -
  have "TFinished \<notin> set (TStarted d # rest)" using assms(5) by simp
  from tj.restart[OF assms(2)[unfolded assms(1)] assms(3,4) _ this]
  obtain c where c: "taker_load_from_saved env (run_saved r) = Inr (taker_restored base ma ta u (run_swap r), Some c)"
    "run_command r = Some c \<or> (\<exists>evs. run_result r = Some (Some c, evs))
      \<or> taker_diverges (last (TStarted d # rest)) \<and> taker_get_command (last (TStarted d # rest)) = Some c"
    by auto
  moreover have "c = TRefundTakerPayment \<and>
      (\<exists>err. last rest = TMakerPaymentSpendFailed err \<or> last rest = TTakerPaymentWaitForSpendFailed err)"
    if "taker_diverges (last (TStarted d # rest)) \<and> taker_get_command (last (TStarted d # rest)) = Some c"
    using that by (cases "rest = []"; cases "last rest") auto
  ultimately show ?thesis unfolding taker_restored_def by blast
qed

section \<open>Panics\<close>

lemma taker_negotiate_None_iff:
  "taker_negotiate env s = None \<longleftrightarrow>
    (\<exists>d ma ta. taker_check_negotiation env s = Inr (d, ma, ta) \<and> se_negotiated env = Inr True
       \<and> (short_pubkeys d \<or> length (nd_secret_hash d) < 20))"
  by (auto simp: taker_negotiate_def Let_def short_pubkeys_def h264_from_def h160_from_def hash_from_slice_def
      split: sum.splits bool.splits)

definition short_secret_extracted :: "swap_env \<Rightarrow> taker_swap \<Rightarrow> bool" where
  "short_secret_extracted env s =
     (\<exists>payment tx secret. ts_taker_payment s = Some payment
        \<and> hc_wait_for_tx_spend (se_taker_htlc env) (tx_hex payment) (tsd_taker_payment_lock (ts_data s))
             (tsd_taker_coin_start_block (ts_data s)) (tsd_taker_coin_swap_contract_address (ts_data s)) = Inr tx
        \<and> hc_extract_secret (se_taker_htlc env) (ts_secret_hash s) (tx_hex tx) = Inr secret \<and> length secret < 32)"

lemma taker_handler_NoneD:
  assumes pre: "taker_pre (Some c) s" and "taker_handle_command env c s = None"
  shows "c = TNegotiate \<and> (\<exists>d ma ta. taker_check_negotiation env s = Inr (d, ma, ta)
        \<and> se_negotiated env = Inr True \<and> (short_pubkeys d \<or> length (nd_secret_hash d) < 20))
    \<or> c = TWaitForTakerPaymentSpend \<and> short_secret_extracted env s
    \<or> c = TRefundTakerPayment \<and>
        (\<forall>n. hc_can_refund_htlc (se_taker_htlc env) n (tsd_taker_payment_lock (ts_data s)) \<noteq> Inr CanRefundNow)"
proof (cases c)
  case TNegotiate
  then show ?thesis using assms(2) by (simp add: taker_negotiate_None_iff)
next
  case TWaitForTakerPaymentSpend
  then show ?thesis using assms
    by (auto simp: taker_wait_for_taker_payment_spend_def taker_refund_after_def short_secret_extracted_def Let_def
        h256_from_def hash_from_slice_def split: option.splits sum.splits if_splits)
next
  case TRefundTakerPayment
  then show ?thesis using assms
    by (auto simp: taker_refund_taker_payment_def Let_def can_refund_loop_None_iff split: option.splits sum.splits)
qed (use assms in \<open>auto simp: taker_handler_defs split: option.splits sum.splits if_splits\<close>)

text \<open>
  C33: The handlers of a taker swap panic only on malformed data of the maker or the coin. In a
  reachable run the current command fails to return only if the maker's negotiation data was
  confirmed and carries a public key of fewer than 33 bytes or a secret hash of fewer than 20,
  if the coin extracts a secret of fewer than 32 bytes from the transaction that spent the
  taker's payment, or if the payment is to be refunded and never becomes refundable.
\<close>

theorem taker_handler_returns:
  assumes "s0 = taker_swap_new base maker ma ta (kp_public (se_key_pair base)) u ou conf lt p2p"
    and "taker_reach base s0 r" "run_result r = None" "run_command r = Some c"
    and "taker_handle_command env c (run_swap r) = None"
  shows "c = TNegotiate \<and> (\<exists>d ma ta. taker_check_negotiation env (run_swap r) = Inr (d, ma, ta)
        \<and> se_negotiated env = Inr True \<and> (short_pubkeys d \<or> length (nd_secret_hash d) < 20))
    \<or> c = TWaitForTakerPaymentSpend \<and> short_secret_extracted env (run_swap r)
    \<or> c = TRefundTakerPayment \<and>
        (\<forall>n. hc_can_refund_htlc (se_taker_htlc env) n (tsd_taker_payment_lock (ts_data (run_swap r)))
           \<noteq> Inr CanRefundNow)"
  by (rule taker_handler_NoneD[OF tj.inv_command(1)[OF tj.reach_inv[OF assms(2)[unfolded assms(1)]] assms(3,4)] assms(5)])

section \<open>When payments are sent, spent and refunded\<close>

lemma taker_replayed_facts:
  assumes "s = replay taker_machine now J (taker_swap_new base maker ma ta my u' ou conf lt p2p)
    \<or> s = taker_restored base ma ta u (replay taker_machine now J (taker_swap_new base maker ma ta my u' ou conf lt p2p))"
  shows "ts_maker_payment s = Some tx \<Longrightarrow> TMakerPaymentReceived tx \<in> set J"
    "ts_taker_payment s = Some tx \<Longrightarrow> TTakerPaymentSent tx \<in> set J"
    "ts_maker_payment_confirmed s \<Longrightarrow>
      TMakerPaymentValidatedAndConfirmed \<in> set J"
    "ts_taker_payment_spend s \<noteq> None \<Longrightarrow>
      \<exists>d. TTakerPaymentSpent d \<in> set J \<and> ts_secret s = tps_secret d"
    "(\<exists>e \<in> set J. \<exists>tx. e = TTakerPaymentRefunded tx \<or> e = TTakerPaymentRefundedByWatcher tx)
      \<Longrightarrow> ts_taker_payment_refund s \<noteq> None"
    "(\<exists>e \<in> set J. \<exists>tx. e = TMakerPaymentSpent tx \<or> e = TMakerPaymentSpentByWatcher tx)
      \<Longrightarrow> ts_maker_payment_spend s \<noteq> None"
proof -
  let ?s0 = "taker_swap_new base maker ma ta my u' ou conf lt p2p"
  from assms have s: "ts_maker_payment s = ts_maker_payment (replay taker_machine now J ?s0)"
    "ts_taker_payment s = ts_taker_payment (replay taker_machine now J ?s0)"
    "ts_maker_payment_confirmed s = ts_maker_payment_confirmed (replay taker_machine now J ?s0)"
    "taker_payment_spent s = taker_payment_spent (replay taker_machine now J ?s0)"
    "ts_taker_payment_refund s = ts_taker_payment_refund (replay taker_machine now J ?s0)"
    "ts_maker_payment_spend s = ts_maker_payment_spend (replay taker_machine now J ?s0)"
    by (auto simp: taker_restored_def taker_payment_spent_def)
  have new: "ts_maker_payment ?s0 = None" "ts_taker_payment ?s0 = None" "\<not> ts_maker_payment_confirmed ?s0"
    "taker_payment_spent ?s0 = None"
    by (simp_all add: taker_swap_new_def taker_payment_spent_def)
  show "ts_maker_payment s = Some tx \<Longrightarrow> TMakerPaymentReceived tx \<in> set J"
    using taker_replay_maker_payment[of now J ?s0] new s by auto
  show "ts_taker_payment s = Some tx \<Longrightarrow> TTakerPaymentSent tx \<in> set J"
    using taker_replay_taker_payment[of now J ?s0] new s by auto
  show "ts_maker_payment_confirmed s \<Longrightarrow> TMakerPaymentValidatedAndConfirmed \<in> set J"
    using taker_replay_confirmed[of now J ?s0] new s by auto
  show "\<exists>d. TTakerPaymentSpent d \<in> set J \<and> ts_secret s = tps_secret d"
    if spent: "ts_taker_payment_spend s \<noteq> None"
  proof -
    obtain tx where "taker_payment_spent s = Some \<lparr>tps_transaction = tx, tps_secret = ts_secret s\<rparr>"
      using spent by (auto simp: taker_payment_spent_def)
    then show ?thesis using taker_replay_spent[of now J ?s0] new s by fastforce
  qed
  show "(\<exists>e \<in> set J. \<exists>tx. e = TTakerPaymentRefunded tx \<or> e = TTakerPaymentRefundedByWatcher tx) \<Longrightarrow>
      ts_taker_payment_refund s \<noteq> None"
    unfolding s taker_replay_refund by blast
  show "(\<exists>e \<in> set J. \<exists>tx. e = TMakerPaymentSpent tx \<or> e = TMakerPaymentSpentByWatcher tx) \<Longrightarrow>
      ts_maker_payment_spend s \<noteq> None"
    unfolding s taker_replay_maker_spend by blast
qed


lemma taker_run_facts:
  assumes "taker_reach base (taker_swap_new base maker ma ta (kp_public (se_key_pair base)) u ou conf lt p2p) r"
  shows "ts_maker_payment (run_swap r) = Some tx \<Longrightarrow> TMakerPaymentReceived tx \<in> set (tss_journal (run_saved r))"
    "ts_taker_payment (run_swap r) = Some tx \<Longrightarrow> TTakerPaymentSent tx \<in> set (tss_journal (run_saved r))"
    "ts_maker_payment_confirmed (run_swap r) \<Longrightarrow>
      TMakerPaymentValidatedAndConfirmed \<in> set (tss_journal (run_saved r))"
    "(\<exists>e \<in> set (tss_journal (run_saved r)). \<exists>tx. e = TTakerPaymentRefunded tx \<or> e = TTakerPaymentRefundedByWatcher tx)
      \<Longrightarrow> ts_taker_payment_refund (run_swap r) \<noteq> None"
    "(\<exists>e \<in> set (tss_journal (run_saved r)). \<exists>tx. e = TMakerPaymentSpent tx \<or> e = TMakerPaymentSpentByWatcher tx)
      \<Longrightarrow> ts_maker_payment_spend (run_swap r) \<noteq> None"
proof -
  note facts = exE[OF tj.reach_swap[OF assms]]
  show "ts_maker_payment (run_swap r) = Some tx \<Longrightarrow> TMakerPaymentReceived tx \<in> set (tss_journal (run_saved r))"
    "ts_taker_payment (run_swap r) = Some tx \<Longrightarrow> TTakerPaymentSent tx \<in> set (tss_journal (run_saved r))"
    "ts_maker_payment_confirmed (run_swap r) \<Longrightarrow>
      TMakerPaymentValidatedAndConfirmed \<in> set (tss_journal (run_saved r))"
    "(\<exists>e \<in> set (tss_journal (run_saved r)). \<exists>tx. e = TTakerPaymentRefunded tx \<or> e = TTakerPaymentRefundedByWatcher tx)
      \<Longrightarrow> ts_taker_payment_refund (run_swap r) \<noteq> None"
    "(\<exists>e \<in> set (tss_journal (run_saved r)). \<exists>tx. e = TMakerPaymentSpent tx \<or> e = TMakerPaymentSpentByWatcher tx)
      \<Longrightarrow> ts_maker_payment_spend (run_swap r) \<noteq> None"
    by (rule facts, erule taker_replayed_facts, assumption)+
qed

lemma taker_validated_event:
  assumes h: "taker_handle_command env c s = Some (nxt, evs, effs)"
    and e: "TMakerPaymentValidatedAndConfirmed \<in> set evs"
  shows "c = TValidateMakerPayment \<and> evs = [TMakerPaymentValidatedAndConfirmed] \<and>
    (\<exists>tx ca. ts_maker_payment s = Some tx
       \<and> hc_validate_maker_payment (se_maker_htlc env) (taker_validate_input env s tx) = Inr ()
       \<and> hc_wait_for_confirmations (se_maker_htlc env) ca = Inr () \<and> ca_tx ca = tx_hex tx
       \<and> ca_confirmations ca = tsd_maker_payment_confirmations (ts_data s)
       \<and> ca_requires_nota ca = (tsd_maker_payment_requires_nota (ts_data s) = Some True))"
proof (cases c)
  case TValidateMakerPayment
  then show ?thesis using h e
    by (auto simp: taker_validate_maker_payment_def split: option.splits sum.splits intro!: exI)
qed (use h e in \<open>auto simp: taker_handler_defs split: option.splits sum.splits if_splits bool.splits\<close>)

lemma taker_spent_event:
  assumes h: "taker_handle_command env c s = Some (nxt, evs, effs)"
    and e: "TTakerPaymentSpent d \<in> set evs"
  shows "c = TWaitForTakerPaymentSpend \<and> evs = [TTakerPaymentSpent d] \<and>
    (\<exists>tx bs. ts_taker_payment s = Some tx
       \<and> hc_wait_for_tx_spend (se_taker_htlc env) (tx_hex tx) (tsd_taker_payment_lock (ts_data s))
           (tsd_taker_coin_start_block (ts_data s)) (tsd_taker_coin_swap_contract_address (ts_data s))
         = Inr (tps_transaction d)
       \<and> hc_extract_secret (se_taker_htlc env) (ts_secret_hash s) (tx_hex (tps_transaction d)) = Inr bs
       \<and> h256_from bs = Some (tps_secret d))"
proof (cases c)
  case TWaitForTakerPaymentSpend
  then show ?thesis using h e
    by (auto simp: taker_wait_for_taker_payment_spend_def taker_refund_after_def Let_def
        split: option.splits sum.splits)
qed (use h e in \<open>auto simp: taker_handler_defs split: option.splits sum.splits if_splits bool.splits\<close>)

lemma taker_logged_amount:
  assumes "taker_trace base (taker_swap_new base maker ma ta (kp_public (se_key_pair base)) u ou conf lt p2p) hist r"
    and "(env, c, s) \<in> set hist"
  shows "ts_maker_amount s = ma \<or> ts_maker_amount s = se_to_decimal base ma"
proof -
  let ?s0 = "taker_swap_new base maker ma ta (kp_public (se_key_pair base)) u ou conf lt p2p"
  obtain r' where r': "taker_reach base ?s0 r'" "run_swap r' = s"
    using swap_trace_logged[OF assms] by blast
  obtain now where "s = replay taker_machine now (tss_journal (run_saved r')) ?s0
      \<or> s = taker_restored base ma ta u (replay taker_machine now (tss_journal (run_saved r')) ?s0)"
    using tj.reach_swap[OF r'(1)] unfolding r'(2) by blast
  moreover have "ts_maker_amount ?s0 = ma" by (simp add: taker_swap_new_def)
  ultimately show ?thesis by (auto simp: taker_restored_def taker_replay_static)
qed

lemma taker_validation_evidence:
  assumes trace: "taker_trace base (taker_swap_new base maker ma ta (kp_public (se_key_pair base)) u ou conf lt p2p) hist r"
    and r: "run_result r = None" "run_command r = Some c"
    and cmd: "c = TSendTakerPayment"
  shows "\<exists>env' s' tx m ca. (env', TValidateMakerPayment, s') \<in> set hist
    \<and> ts_maker_payment (run_swap r) = Some tx \<and> (m = ma \<or> m = se_to_decimal base ma)
    \<and> hc_validate_maker_payment (se_maker_htlc env')
        (taker_validate_input env' ((run_swap r)\<lparr>ts_maker_amount := m\<rparr>) tx) = Inr ()
    \<and> hc_wait_for_confirmations (se_maker_htlc env') ca = Inr () \<and> ca_tx ca = tx_hex tx
    \<and> ca_confirmations ca = tsd_maker_payment_confirmations (ts_data (run_swap r))
    \<and> ca_requires_nota ca = (tsd_maker_payment_requires_nota (ts_data (run_swap r)) = Some True)"
proof -
  have n: "c \<noteq> TStart" "c \<noteq> TFinish" using cmd by simp_all
  obtain env c1 s1 evs nxt rest effs now where hist: "(env, c1, s1) \<in> set hist" "evs \<noteq> []"
    and h: "taker_handle_command env c1 s1 = Some (nxt, evs @ rest, effs)" "taker_get_command (last evs) = Some TSendTakerPayment"
      "run_swap r = replay taker_machine now evs s1 \<or>
       run_swap r = taker_restored base ma ta u (replay taker_machine now evs s1)"
    by (rule tj.trace_command[OF trace r n]) (rule that, simp_all add: cmd)
  have "last evs = TMakerPaymentValidatedAndConfirmed" using h(2) by (cases "last evs") simp_all
  then have "TMakerPaymentValidatedAndConfirmed \<in> set (evs @ rest)" using hist(2) last_in_set by force
  note ev = taker_validated_event[OF h(1) this]
  then have "evs = [TMakerPaymentValidatedAndConfirmed]" using hist(2) by (cases evs) auto
  then have same: "taker_validate_input env ((run_swap r)\<lparr>ts_maker_amount := ts_maker_amount s1\<rparr>) tx =
      taker_validate_input env s1 tx" "ts_maker_payment (run_swap r) = ts_maker_payment s1"
      "ts_data (run_swap r) = ts_data s1" for tx
    using h(3) by (auto simp: taker_validate_input_def taker_restored_def)
  obtain tx ca where "ts_maker_payment s1 = Some tx"
      "hc_validate_maker_payment (se_maker_htlc env) (taker_validate_input env s1 tx) = Inr ()"
      "hc_wait_for_confirmations (se_maker_htlc env) ca = Inr ()" "ca_tx ca = tx_hex tx"
      "ca_confirmations ca = tsd_maker_payment_confirmations (ts_data s1)"
      "ca_requires_nota ca = (tsd_maker_payment_requires_nota (ts_data s1) = Some True)"
    using ev by blast
  then show ?thesis
    using hist(1) ev taker_logged_amount[OF trace hist(1)]
    by (intro exI[of _ env] exI[of _ s1] exI[of _ tx] exI[of _ "ts_maker_amount s1"] exI[of _ ca])
      (simp only: same simp_thms)
qed

lemma taker_spend_evidence:
  assumes trace: "taker_trace base (taker_swap_new base maker ma ta (kp_public (se_key_pair base)) u ou conf lt p2p) hist r"
    and r: "run_result r = None" "run_command r = Some c"
    and cmd: "c = TSpendMakerPayment"
  shows "\<exists>env' s' tx spend bs. (env', TWaitForTakerPaymentSpend, s') \<in> set hist
    \<and> ts_taker_payment (run_swap r) = Some tx
    \<and> hc_wait_for_tx_spend (se_taker_htlc env') (tx_hex tx) (tsd_taker_payment_lock (ts_data (run_swap r)))
        (tsd_taker_coin_start_block (ts_data (run_swap r)))
        (tsd_taker_coin_swap_contract_address (ts_data (run_swap r))) = Inr spend
    \<and> hc_extract_secret (se_taker_htlc env') (ts_secret_hash (run_swap r)) (tx_hex spend) = Inr bs
    \<and> h256_from bs = Some (ts_secret (run_swap r))"
proof -
  have n: "c \<noteq> TStart" "c \<noteq> TFinish" using cmd by simp_all
  obtain env c1 s1 evs nxt rest effs now where hist: "(env, c1, s1) \<in> set hist" "evs \<noteq> []"
    and h: "taker_handle_command env c1 s1 = Some (nxt, evs @ rest, effs)" "taker_get_command (last evs) = Some TSpendMakerPayment"
      "run_swap r = replay taker_machine now evs s1 \<or>
       run_swap r = taker_restored base ma ta u (replay taker_machine now evs s1)"
    by (rule tj.trace_command[OF trace r n]) (rule that, simp_all add: cmd)
  obtain d where "last evs = TTakerPaymentSpent d" using h(2) by (cases "last evs") simp_all
  then have "TTakerPaymentSpent d \<in> set (evs @ rest)" using hist(2) last_in_set by force
  note ev = taker_spent_event[OF h(1) this]
  then have "evs = [TTakerPaymentSpent d]" using hist(2) by (cases evs) auto
  then have "ts_taker_payment (run_swap r) = ts_taker_payment s1" "ts_data (run_swap r) = ts_data s1"
    "ts_secret_hash (run_swap r) = ts_secret_hash s1" "ts_secret (run_swap r) = tps_secret d"
    using h(3) by (auto simp: taker_restored_def)
  then show ?thesis using hist(1) ev by (intro exI[of _ env] exI[of _ s1]) auto
qed


section \<open>The margin of the lock times\<close>

text \<open>
  C7: The taker locks its funds only while its refund comes well before the maker's. When it
  sends its payment, two thirds of the lock duration are left before the lock time of that
  payment, and the lock time it validated for the maker's payment is later by at least the lock
  duration minus one minute, whatever starting time the maker sent. The lock times are the 32-bit
  values of the payment scripts; the times in question are before 2106.
\<close>

theorem taker_pays_in_time:
  assumes "s0 = taker_swap_new base maker ma ta (kp_public (se_key_pair base)) u ou conf lt p2p"
    and "taker_reach base s0 r" "run_result r = None" "run_command r = Some c"
    and "taker_handle_command env c (run_swap r) = Some (nxt, evs, effs)" "SendPaymentTx a \<in> set effs"
    and "60 \<le> uint (tsd_started_at (ts_data (run_swap r)))"
    and "uint (tsd_started_at (ts_data (run_swap r))) + 2 * uint (tsd_lock_duration (ts_data (run_swap r))) + 60
      < 4294967296"
  shows "uint (se_now env) + 2 * uint (tsd_lock_duration (ts_data (run_swap r))) div 3 \<le> uint (pa_time_lock a)
    \<and> uint (pa_time_lock a) + uint (tsd_lock_duration (ts_data (run_swap r)))
      \<le> uint (vp_time_lock (taker_validate_input env (run_swap r) tx)) + 60"
proof -
  let ?d = "ts_data (run_swap r)"
  have pre: "taker_pre (Some c) (run_swap r)"
    by (rule tj.inv_command(1)[OF tj.reach_inv[OF assms(2)[unfolded assms(1)]] assms(3,4)])
  have c: "c = TSendTakerPayment" by (rule taker_handle_effects(1)[OF assms(5,6)])
  then have a: "pa_time_lock a = ucast (tsd_taker_payment_lock ?d)"
      "se_now env \<le> tsd_started_at ?d + tsd_lock_duration ?d div 3"
    using assms(5,6) by (auto simp: taker_send_taker_payment_def taker_payment_args_def Let_def not_less
        split: option.splits sum.splits if_splits)
  obtain other where o: "\<not> started_too_far_apart (tsd_started_at ?d) other"
      "ts_maker_payment_lock (run_swap r) = other + tsd_lock_duration ?d * 2"
      "tsd_taker_payment_lock ?d = tsd_started_at ?d + tsd_lock_duration ?d"
    using pre c by (auto simp: taker_ok_defs)
  have b: "0 \<le> uint (tsd_lock_duration ?d)" "0 \<le> uint (tsd_started_at ?d)" by simp_all
  note U = uint_taker_lock[OF assms(8)]
  obtain \<delta> where \<delta>: "- 60 \<le> \<delta>"
      "uint (vp_time_lock (taker_validate_input env (run_swap r) tx)) =
        uint (tsd_started_at ?d) + 2 * uint (tsd_lock_duration ?d) + \<delta>"
    using negotiated_lock[OF o(1) assms(7), of "tsd_lock_duration ?d * 2"] assms(8)
    unfolding taker_validate_input_def o(2) U(3) by auto
  have pay: "uint (pa_time_lock a) = uint (tsd_started_at ?d) + uint (tsd_lock_duration ?d)"
    unfolding a(1) o(3) by (rule U(1))
  have "uint (se_now env) \<le> uint (tsd_started_at ?d) + uint (tsd_lock_duration ?d) div 3"
    using a(2) U(2) by (simp add: word_le_def)
  then show ?thesis using pay \<delta> b by linarith
qed

section \<open>Termination\<close>

fun taker_rank :: "taker_swap_command option \<Rightarrow> nat" where
  "taker_rank (Some TStart) = 0"
| "taker_rank (Some TNegotiate) = 1"
| "taker_rank (Some TSendTakerFee) = 2"
| "taker_rank (Some TWaitForMakerPayment) = 3"
| "taker_rank (Some TValidateMakerPayment) = 4"
| "taker_rank (Some TSendTakerPayment) = 5"
| "taker_rank (Some TWaitForTakerPaymentSpend) = 6"
| "taker_rank (Some TSpendMakerPayment) = 7"
| "taker_rank (Some TRefundTakerPayment) = 8"
| "taker_rank (Some TFinish) = 9"
| "taker_rank None = 10"

lemma taker_rank_increases:
  "taker_handle_command env c s = Some (nxt, evs, effs) \<Longrightarrow> taker_rank (Some c) < taker_rank nxt"
  by (cases c; auto simp: taker_handler_defs split: option.splits sum.splits if_splits bool.splits)

lemma taker_rank_le: "taker_rank c \<le> 10"
  by (cases c rule: taker_rank.cases) simp_all

text \<open>
  C13: The loop of a taker swap terminates: if every negotiation message carries whole public keys
  and a whole secret hash, extracted secrets are whole and a locked payment eventually becomes
  refundable, the loop ends with the swap finished, whatever else the coins and the maker answer.
\<close>

theorem taker_swap_terminates:
  assumes s0: "s0 = taker_swap_new base maker ma ta (kp_public (se_key_pair base)) u ou conf lt p2p"
    and env: "\<And>n. same_node base (envs n)"
    and keys: "\<And>n d. se_negotiation (envs n) = Inr d \<Longrightarrow> \<not> short_pubkeys d \<and> 20 \<le> length (nd_secret_hash d)"
    and secrets: "\<And>n h tx secret. hc_extract_secret (se_taker_htlc (envs n)) h tx = Inr secret \<Longrightarrow> 32 \<le> length secret"
    and refundable: "\<And>n lock. \<exists>k. hc_can_refund_htlc (se_taker_htlc (envs n)) k lock = Inr CanRefundNow"
  shows "\<exists>r. swap_drive taker_machine envs 0 (taker_run_new base s0) = Some r \<and> taker_reach base s0 r
    \<and> run_command r = None \<and> taker_is_finished (run_saved r)"
proof -
  let ?s0 = "taker_swap_new base maker ma ta (kp_public (se_key_pair base)) u ou conf lt p2p"
  have "taker_handle_command (envs n) c (run_swap r) \<noteq> None"
    if that: "taker_reach base ?s0 r" "run_result r = None" "run_command r = Some c" for n r c
  proof
    assume "taker_handle_command (envs n) c (run_swap r) = None"
    from taker_handler_NoneD[OF tj.inv_command(1)[OF tj.reach_inv[OF that(1)] that(2,3)] this]
    consider (neg) d ma' ta' where "taker_check_negotiation (envs n) (run_swap r) = Inr (d, ma', ta')"
        "short_pubkeys d \<or> length (nd_secret_hash d) < 20"
      | (secret) "short_secret_extracted (envs n) (run_swap r)"
      | (refund) "\<forall>k. hc_can_refund_htlc (se_taker_htlc (envs n)) k (tsd_taker_payment_lock (ts_data (run_swap r)))
          \<noteq> Inr CanRefundNow"
      by blast
    then show False
    proof cases
      case neg
      then show ?thesis
        using keys[of n d] by (auto simp: taker_check_negotiation_def bind_res_Inr_iff split: if_splits)
    next
      case secret
      then show ?thesis using secrets[of n] by (fastforce simp: short_secret_extracted_def)
    next
      case refund
      then show ?thesis using refundable[of n] by blast
    qed
  qed
  from tj.drive_returns[of taker_rank 10 base envs, OF _ taker_rank_le env] this taker_rank_increases
  show ?thesis unfolding s0 taker_is_finished_def by simp
qed

section \<open>Outcomes\<close>

lemma taker_unrecoverable_cases:
  "taker_unrecoverable_event e \<longleftrightarrow>
    taker_abort_event e \<or> e = TMakerPaymentSpendConfirmed
    \<or> (\<exists>tx. e = TTakerPaymentRefunded tx \<or> e = TTakerPaymentRefundedByWatcher tx)
    \<or> (\<exists>tx. e = TMakerPaymentSpent tx \<or> e = TMakerPaymentSpentByWatcher tx)"
  by (cases e) simp_all

text \<open>
  C9: No payment is forgotten. When a taker swap is finished and the taker tried to send its
  payment, then the payment was refunded, or the maker's payment was spent, or the saved swap is
  recoverable.
\<close>

theorem taker_finished_settled_or_recoverable:
  assumes "s0 = taker_swap_new base maker ma ta (kp_public (se_key_pair base)) u ou conf lt p2p"
    and "taker_reach base s0 r" "taker_is_finished (run_saved r)" "SendPaymentTx a \<in> set (run_effects r)"
  shows "ts_taker_payment_refund (run_swap r) \<noteq> None \<or> ts_maker_payment_spend (run_swap r) \<noteq> None
    \<or> taker_is_recoverable (run_saved r)"
proof -
  note reach = assms(2)[unfolded assms(1)]
  let ?J = "tss_journal (run_saved r)"
  have "\<not> list_ex taker_abort_event ?J" by (rule tj.aborted_without_payment[OF reach assms(4)])
  moreover have "TMakerPaymentSpendConfirmed \<notin> set ?J"
    using tj.journal_start_ok[OF reach] by (auto simp: list_all_iff taker_event_ok_def)
  ultimately show ?thesis
    using assms(3) taker_run_facts(4,5)[OF reach]
    unfolding taker_is_recoverable_def list_ex_iff taker_unrecoverable_cases by blast
qed

text \<open>
  A swap that ends without an abort event has received the maker's payment: until then each event
  leads to one of the first commands.
\<close>

definition taker_opening :: "taker_swap_event \<Rightarrow> bool" where
  "taker_opening e = (taker_get_command e \<in> {Some TNegotiate, Some TSendTakerFee, Some TWaitForMakerPayment})"

definition taker_received_first :: "taker_swap_event list \<Rightarrow> bool" where
  "taker_received_first evs =
     (case dropWhile taker_opening evs of
        [] \<Rightarrow> True
      | e # _ \<Rightarrow> taker_abort_event e \<or> (\<exists>tx. e = TMakerPaymentReceived tx))"

lemma taker_received_first_append:
  "taker_received_first (evs @ evs') \<longleftrightarrow>
    taker_received_first evs \<and> (list_all taker_opening evs \<longrightarrow> taker_received_first evs')"
  by (induction evs) (auto simp: taker_received_first_def)

lemma taker_handle_received_first:
  assumes "taker_handle_command env c s = Some (nxt, evs, effs)"
    and "c \<in> {TStart, TNegotiate, TSendTakerFee, TWaitForMakerPayment}"
  shows "taker_received_first evs"
  using assms
  by (auto simp: taker_received_first_def taker_opening_def taker_handler_defs bind_res_Inr_iff
      split: sum.splits option.splits if_splits bool.splits)

lemma taker_reach_received_first:
  assumes "taker_reach base (taker_swap_new base maker ma ta (kp_public (se_key_pair base)) u ou conf lt p2p) r"
  shows "taker_received_first (tss_journal (run_saved r) @ (case run_result r of None \<Rightarrow> [] | Some (_, evs) \<Rightarrow> evs))"
  using assms
proof (induction rule: swap_reach.induct)
  case init
  show ?case by (simp add: swap_run_new_def new_taker_saved_swap_def tss_journal_def taker_received_first_def)
next
  case (step r r')
  from step.hyps(2) step.IH show ?case
  proof cases
    case (handle env c nxt evs effs)
    let ?J = "tss_journal (run_saved r)"
    have "taker_received_first evs" if "list_all taker_opening ?J"
    proof (rule taker_handle_received_first)
      have "tj.agrees ?J (Some c)"
        using tj.reach_inv[OF step.hyps(1)] handle by (auto simp: tj.run_inv_def tj.result_ok_def Let_def)
      then show "c \<in> {TStart, TNegotiate, TSendTakerFee, TWaitForMakerPayment}"
        using that by (cases ?J rule: rev_cases) (auto simp: tj.agrees_def tj.resume_def taker_opening_def elim: taker_diverges.elims)
    qed (use handle in simp)
    then show ?thesis using step.IH handle by (simp add: taker_received_first_append)
  next
    case (event env nxt e evs)
    then show ?thesis
      using step.IH by (simp add: swap_run_event_def save_my_taker_swap_event_def tss_journal_def)
  qed (auto simp: taker_received_first_append)
qed

lemma taker_recoverable_received:
  assumes "taker_reach base (taker_swap_new base maker ma ta (kp_public (se_key_pair base)) u ou conf lt p2p) r"
    and "taker_is_recoverable (run_saved r)"
  shows "\<exists>tx. TMakerPaymentReceived tx \<in> set (tss_journal (run_saved r))"
proof -
  let ?J = "tss_journal (run_saved r)"
  have "taker_received_first ?J" using taker_reach_received_first[OF assms(1)] by (simp add: taker_received_first_append)
  moreover have "?J \<noteq> []" "last ?J = TFinished" "\<not> list_ex taker_unrecoverable_event ?J"
    using assms(2) tj.reach_inv[OF assms(1)] by (auto simp: taker_is_recoverable_def taker_is_finished_def)
  moreover from this have "dropWhile taker_opening ?J \<noteq> []"
    using last_in_set[of ?J] by (force simp: dropWhile_eq_Nil_conv taker_opening_def)
  moreover from this have "hd (dropWhile taker_opening ?J) \<in> set ?J" by (meson hd_in_set set_dropWhileD)
  ultimately show ?thesis
    unfolding taker_received_first_def list_ex_iff taker_unrecoverable_cases
    by (cases "dropWhile taker_opening ?J") auto
qed


end
