(* ===== verification/TakerSwapExample.thy ===== *)
theory TakerSwapExample
  imports TakerSwapOutcome SwapDemo
begin

text \<open>
  A concrete taker swap run through all its commands, the theorems on taker swaps applied to it,
  and a run that continues differently after a restart.
\<close>

section \<open>A concrete run\<close>

definition demo_taker_env :: swap_env where
  "demo_taker_env = demo_swap_env 2 10"

definition demo_taker_swap :: taker_swap where
  "demo_taker_swap =
     taker_swap_new demo_taker_env (replicate 32 1) 2 10 (kp_public (se_key_pair demo_taker_env)) 9 (Some 3)
       demo_conf_settings 7800 None"

fun demo_taker_run ::
  "swap_env \<Rightarrow> nat \<Rightarrow> (taker_swap, taker_swap_command, taker_swap_event, taker_saved_swap) swap_run option" where
  "demo_taker_run env 0 = Some (taker_run_new demo_taker_env demo_taker_swap)"
| "demo_taker_run env (Suc n) = Option.bind (demo_taker_run env n) (swap_iterate taker_machine env)"

definition demo_taker_at ::
  "swap_env \<Rightarrow> nat \<Rightarrow> (taker_swap, taker_swap_command, taker_swap_event, taker_saved_swap) swap_run" where
  "demo_taker_at env n = the (demo_taker_run env n)"

text \<open>
  Worlds in which the maker sends a short key, in which the maker never spends the taker's payment
  and the refund fails at first, in which the spend of the maker's payment fails, and the world
  fourteen hours later.
\<close>

definition demo_short_env :: swap_env where
  "demo_short_env = demo_taker_env
     \<lparr>se_negotiation := Inr (NegotiationDataV2 1700000000 (1700000000 + 15600) (replicate 20 9) [2] [] [])\<rparr>"

definition demo_unspent_env :: swap_env where
  "demo_unspent_env = demo_taker_env
     \<lparr>se_taker_htlc := demo_htlc
        \<lparr>hc_wait_for_tx_spend := (\<lambda>_ _ _ _. Inl (TxPlain ''timeout'')),
         hc_send_taker_refunds_payment := (\<lambda>_. Inl (TxPlain ''no connection''))\<rparr>\<rparr>"

definition demo_spend_fails_env :: swap_env where
  "demo_spend_fails_env = demo_taker_env
     \<lparr>se_maker_htlc := demo_htlc\<lparr>hc_send_taker_spends_maker_payment := (\<lambda>_. Inl (TxPlain ''no connection''))\<rparr>\<rparr>"

definition demo_taker_later_env :: swap_env where
  "demo_taker_later_env = demo_swap_env 2 50400"

lemma demo_taker_same:
  "same_node demo_taker_env demo_taker_env" "same_node demo_taker_env demo_short_env"
  "same_node demo_taker_env demo_unspent_env" "same_node demo_taker_env demo_spend_fails_env"
  "same_node demo_taker_env demo_taker_later_env"
  by (simp_all add: same_node_def demo_short_env_def demo_unspent_env_def demo_spend_fails_env_def
      demo_taker_later_env_def demo_taker_env_def demo_swap_env_def demo_htlc_def)

lemma demo_taker_run_reach:
  assumes "same_node demo_taker_env env" "demo_taker_run env n = Some r"
  shows "taker_reach demo_taker_env demo_taker_swap r \<and> run_result r = None"
  using assms(2)
proof (induction n arbitrary: r)
  case 0
  then show ?case using swap_reach.init by (auto simp: swap_run_new_def)
next
  case (Suc n)
  obtain q where q: "demo_taker_run env n = Some q" "swap_iterate taker_machine env q = Some r"
    using Suc.prems by (cases "demo_taker_run env n") auto
  show ?case using swap_reach_iterate[OF _ assms(1) _ q(2)] Suc.IH[OF q(1)] by blast
qed

lemma demo_taker_at_reach:
  assumes "same_node demo_taker_env env" "demo_taker_run env n \<noteq> None"
  shows "taker_reach demo_taker_env demo_taker_swap (demo_taker_at env n)" "run_result (demo_taker_at env n) = None"
  using assms demo_taker_run_reach[of env n] by (auto simp: demo_taker_at_def)

definition demo_pay_effects :: "swap_effect list" where
  "demo_pay_effects =
     snd (snd (the (taker_handle_command demo_taker_env TSendTakerPayment (run_swap (demo_taker_at demo_taker_env 5)))))"

lemma demo_taker_5: "demo_taker_run demo_taker_env 5 \<noteq> None"
  "run_command (demo_taker_at demo_taker_env 5) = Some TSendTakerPayment"
  "taker_handle_command demo_taker_env TSendTakerPayment (run_swap (demo_taker_at demo_taker_env 5)) \<noteq> None"
  "map (\<lambda>a. uint (pa_time_lock a)) (payments_of demo_pay_effects) = [1700007810]"
  "uint (tsd_started_at (ts_data (run_swap (demo_taker_at demo_taker_env 5)))) = 1700000010"
  "uint (tsd_lock_duration (ts_data (run_swap (demo_taker_at demo_taker_env 5)))) = 7800"
  "case tss_journal (run_saved (demo_taker_at demo_taker_env 5)) of
     TStarted d # rest \<Rightarrow> TFinished \<notin> set rest | _ \<Rightarrow> False"
  by code_simp+

lemma demo_taker_5_pay:
  "\<exists>nxt evs a. taker_handle_command demo_taker_env TSendTakerPayment (run_swap (demo_taker_at demo_taker_env 5))
      = Some (nxt, evs, demo_pay_effects)
    \<and> SendPaymentTx a \<in> set demo_pay_effects \<and> uint (pa_time_lock a) = 1700007810"
proof -
  obtain a where "payments_of demo_pay_effects = [a]" "uint (pa_time_lock a) = 1700007810"
    using demo_taker_5(4) by (auto simp: map_eq_Cons_conv)
  moreover have "\<exists>nxt evs. taker_handle_command demo_taker_env TSendTakerPayment (run_swap (demo_taker_at demo_taker_env 5))
      = Some (nxt, evs, demo_pay_effects)"
    using demo_taker_5(3) by (auto simp: demo_pay_effects_def)
  ultimately show ?thesis using set_payments_of[of a demo_pay_effects] by auto
qed

lemma demo_short_1: "demo_taker_run demo_short_env 1 \<noteq> None"
  "run_command (demo_taker_at demo_short_env 1) = Some TNegotiate"
  "taker_handle_command demo_short_env TNegotiate (run_swap (demo_taker_at demo_short_env 1)) = None"
  by code_simp+

lemma demo_taker_9: "demo_taker_run demo_taker_env 9 \<noteq> None"
  "taker_is_finished (run_saved (demo_taker_at demo_taker_env 9))"
  "payments_of (run_effects (demo_taker_at demo_taker_env 9)) \<noteq> []"
  by code_simp+

lemma demo_unspent_9: "demo_taker_run demo_unspent_env 9 \<noteq> None"
  "taker_is_recoverable (run_saved (demo_taker_at demo_unspent_env 9))"
  by code_simp+

section \<open>The theorems at this run\<close>

theorem taker_restart_resumes_witness:
  "\<exists>s c. taker_load_from_saved demo_taker_env (run_saved (demo_taker_at demo_taker_env 5)) = Inr (s, Some c)"
proof -
  obtain d rest where "tss_journal (run_saved (demo_taker_at demo_taker_env 5)) = TStarted d # rest" "TFinished \<notin> set rest"
    using demo_taker_5(7) by (auto split: list.splits taker_swap_event.splits)
  then show ?thesis
    using taker_restart_resumes[OF demo_taker_swap_def demo_taker_at_reach(1)[OF demo_taker_same(1) demo_taker_5(1)]
        demo_taker_same(1)] by blast
qed

theorem taker_handler_returns_witness:
  "\<exists>d ma ta. taker_check_negotiation demo_short_env (run_swap (demo_taker_at demo_short_env 1)) = Inr (d, ma, ta)
     \<and> (short_pubkeys d \<or> length (nd_secret_hash d) < 20)"
  using taker_handler_returns[OF demo_taker_swap_def demo_taker_at_reach[OF demo_taker_same(2) demo_short_1(1)]
      demo_short_1(2,3)] by auto


theorem taker_pays_in_time_witness:
  "uint (se_now demo_taker_env) + 2 * 7800 div 3 \<le> 1700007810"
proof -
  obtain nxt evs a where h: "taker_handle_command demo_taker_env TSendTakerPayment (run_swap (demo_taker_at demo_taker_env 5))
      = Some (nxt, evs, demo_pay_effects)" "SendPaymentTx a \<in> set demo_pay_effects"
    and a: "uint (pa_time_lock a) = 1700007810"
    using demo_taker_5_pay by blast
  show ?thesis
    using taker_pays_in_time[OF demo_taker_swap_def demo_taker_at_reach[OF demo_taker_same(1) demo_taker_5(1)]
        demo_taker_5(2) h] a demo_taker_5(5,6)
    by simp
qed

theorem taker_swap_terminates_witness:
  "\<exists>r. swap_drive taker_machine (\<lambda>_. demo_taker_env) 0 (taker_run_new demo_taker_env demo_taker_swap) = Some r
    \<and> taker_is_finished (run_saved r)"
proof -
  have "\<exists>k. hc_can_refund_htlc (se_taker_htlc demo_taker_env) k lock = Inr CanRefundNow" for lock
    by (rule exI[of _ 1]) (simp add: demo_taker_env_def demo_swap_env_def demo_htlc_def)
  moreover have "se_negotiation demo_taker_env = Inr d \<Longrightarrow> \<not> short_pubkeys d \<and> 20 \<le> length (nd_secret_hash d)" for d
    by (auto simp: demo_taker_env_def demo_swap_env_def short_pubkeys_def demo_keys_def)
  moreover have "hc_extract_secret (se_taker_htlc demo_taker_env) h tx = Inr secret \<Longrightarrow> 32 \<le> length secret" for h tx secret
    by (auto simp: demo_taker_env_def demo_swap_env_def demo_htlc_def)
  ultimately show ?thesis
    using taker_swap_terminates[OF demo_taker_swap_def, of "\<lambda>_. demo_taker_env"] demo_taker_same(1) by blast
qed

theorem taker_finished_settled_or_recoverable_witness:
  "\<not> (ts_taker_payment_refund (run_swap (demo_taker_at demo_taker_env 9)) = None
    \<and> ts_maker_payment_spend (run_swap (demo_taker_at demo_taker_env 9)) = None
    \<and> \<not> taker_is_recoverable (run_saved (demo_taker_at demo_taker_env 9)))"
  using taker_finished_settled_or_recoverable[OF demo_taker_swap_def
      demo_taker_at_reach(1)[OF demo_taker_same(1) demo_taker_9(1)] demo_taker_9(2)
      set_payments_of[OF hd_in_set[OF demo_taker_9(3)]]] by blast

definition demo_taker_restored :: "string + (taker_swap \<times> taker_swap_command option)" where
  "demo_taker_restored = taker_load_from_saved demo_taker_later_env (run_saved (demo_taker_at demo_unspent_env 9))"

lemma demo_taker_restored_facts:
  "case demo_taker_restored of Inl _ \<Rightarrow> False
   | Inr (s, _) \<Rightarrow> ts_taker_payment s \<noteq> None \<and> ts_taker_payment_spend s = None
       \<and> tsd_taker_payment_lock (ts_data s) + 3700 \<le> se_now demo_taker_later_env"
  by code_simp


section \<open>A run that a restart turns\<close>

text \<open>
  When the spend of the maker's payment fails, the running swap finishes, while a swap restored
  from the same journal tries to refund the taker's payment, which the maker has already spent.
\<close>

lemma taker_restart_diverges:
  "run_command (demo_taker_at demo_spend_fails_env 8) = Some TFinish"
  "map_option snd (case taker_load_from_saved demo_spend_fails_env (run_saved (demo_taker_at demo_spend_fails_env 8)) of
     Inl _ \<Rightarrow> None | Inr x \<Rightarrow> Some x) = Some (Some TRefundTakerPayment)"
  by code_simp+

end
