(* ===== verification/SwapStartExample.thy ===== *)
theory SwapStartExample
  imports SwapAgreement OrderSteps MakerSwapExample TakerSwapExample
begin

text \<open>
  The theorems on the start of a swap and on its negotiation, applied to a concrete match and to
  the two concrete swaps, and the lock times of coins that share an orderbook ticker.
\<close>

definition demo_wire_request :: taker_request where
  "demo_wire_request =
     taker_request_from_new_proto (the (taker_order_to_proto (sample_taker_order Buy))) (replicate 32 2)"

definition demo_wire_reserved :: maker_reserved where
  "demo_wire_reserved =
     make_reserved demo_env (flat_fee_coin ''LTC'' 100 0) (flat_fee_coin ''DOGE'' 100 0) (mo_uuid sample_maker_order)
       sample_maker_order demo_wire_request 2 10"

definition demo_find :: "ticker \<Rightarrow> mm_coin option" where
  "demo_find t = Some (flat_fee_coin t 100 0)"

definition demo_bob :: "maker_swap option" where
  "demo_bob = lp_connect_start_bob demo_find (\<lambda>_. demo_keys 1) demo_maker_env
     \<lparr>mm_request = demo_wire_request, mm_reserved = demo_wire_reserved, mm_connect = None, mm_connected = None,
      mm_last_updated = 0\<rparr> sample_maker_order"

definition demo_alice :: "taker_swap option" where
  "demo_alice = lp_connected_alice demo_find (\<lambda>_. demo_keys 2) demo_taker_env (sample_taker_order Buy)
     \<lparr>tm_reserved = maker_reserved_from_new_proto (the (maker_reserved_to_proto demo_wire_reserved)) (replicate 32 1),
      tm_connect = connect_to demo_env demo_reserved, tm_connected = None, tm_last_updated = 0\<rparr>"

lemma demo_wire:
  "taker_order_to_proto (sample_taker_order Buy) = Some (the (taker_order_to_proto (sample_taker_order Buy)))"
  "maker_reserved_to_proto demo_wire_reserved = Some (the (maker_reserved_to_proto demo_wire_reserved))"
  "demo_bob = Some (the demo_bob)" "demo_alice = Some (the demo_alice)"
  "mo_base sample_maker_order = ''LTC''" "mo_rel sample_maker_order = ''DOGE''"
  "maker_coin_ticker (sample_taker_order Buy) = ''LTC''" "taker_coin_ticker (sample_taker_order Buy) = ''DOGE''"
  by code_simp+


text \<open>
  Two coins with the same orderbook ticker have one order, but the lock duration depends on the
  ticker each side uses.
\<close>

lemma locktime_depends_on_ticker:
  "lp_atomic_locktime ''BTC'' ''DOGE'' (LocktimeV2 demo_conf_settings demo_conf_settings) = 31200"
  "lp_atomic_locktime ''BTC-segwit'' ''DOGE'' (LocktimeV2 demo_conf_settings demo_conf_settings) = 7800"
  by code_simp+

definition demo_maker_started :: maker_swap_data where
  "demo_maker_started = (case maker_start demo_maker_env demo_maker_swap of
     Some (_, [MStarted d], _) \<Rightarrow> d | _ \<Rightarrow> maker_swap_data_default)"

definition demo_taker_started :: taker_swap_data where
  "demo_taker_started = (case taker_start demo_taker_env demo_taker_swap of
     Some (_, [TStarted d], _) \<Rightarrow> d | _ \<Rightarrow> taker_swap_data_default)"

definition demo_maker_negotiating :: maker_swap where
  "demo_maker_negotiating = maker_apply_event 0 (MStarted demo_maker_started) demo_maker_swap"

definition demo_taker_negotiating :: taker_swap where
  "demo_taker_negotiating = taker_apply_event 0 (TStarted demo_taker_started) demo_taker_swap"

lemma demo_negotiation:
  "maker_start demo_maker_env demo_maker_swap = Some (Some MNegotiate, [MStarted demo_maker_started], [])"
  "taker_start demo_taker_env demo_taker_swap = Some (Some TNegotiate, [TStarted demo_taker_started], [])"
  "se_negotiation demo_taker_env = Inr (maker_get_my_negotiation_data demo_maker_env demo_maker_negotiating)"
  "se_negotiation_reply demo_maker_env = Inr (taker_get_my_negotiation_data
     (nd_secret_hash (maker_get_my_negotiation_data demo_maker_env demo_maker_negotiating)) [] [] demo_taker_negotiating)"
  "length (kp_public (ms_my_maker_coin_htlc_keypair demo_maker_negotiating)) = 33"
  "length (kp_public (ms_my_taker_coin_htlc_keypair demo_maker_negotiating)) = 33"
  "length (kp_public (ts_my_maker_coin_htlc_keypair demo_taker_negotiating)) = 33"
  "length (kp_public (ts_my_taker_coin_htlc_keypair demo_taker_negotiating)) = 33"
  "length (se_dhash160 demo_maker_env (msd_secret demo_maker_started)) = 20"
  "\<bar>uint (se_now demo_maker_env) - uint (se_now demo_taker_env)\<bar> \<le> 60"
  by code_simp+

lemma demo_parties:
  "ts_payment_locktime demo_taker_swap = ms_payment_locktime demo_maker_swap"
  "ms_maker_amount demo_maker_swap = se_to_decimal demo_taker_env (ts_maker_amount demo_taker_swap)"
  "ms_taker_amount demo_maker_swap = se_to_decimal demo_taker_env (ts_taker_amount demo_taker_swap)"
  "se_negotiated demo_taker_env = Inr True"
  "se_maker_htlc demo_taker_env = demo_htlc" "se_taker_htlc demo_taker_env = demo_htlc"
  "se_maker_htlc demo_maker_env = demo_htlc" "se_taker_htlc demo_maker_env = demo_htlc"
  "hc_negotiate_swap_contract_addr demo_htlc x = Inr None"
  by (simp_all add: demo_taker_swap_def demo_maker_swap_def maker_swap_new_def taker_swap_new_def demo_taker_env_def
      demo_maker_env_def demo_swap_env_def demo_htlc_def)


end
