(* ===== verification/SwapV2Types.thy ===== *)
theory SwapV2Types
  imports SwapTypes
begin

text \<open>
  The data of the second swap protocol (\<open>swap_v2_common.rs\<close>, \<open>mm2_swap_v2.pb.rs\<close>) and the
  operations it asks of its two coins (the traits \<open>ParseCoinAssocTypes\<close>, \<open>MakerCoinSwapOpsV2\<close>
  and \<open>TakerCoinSwapOpsV2\<close>).

  A coin has types of its own for transactions, public keys, preimages, signatures and addresses.
  The state machines only parse such values from bytes and pass them on, so a value stands here
  for what its conversion to bytes gives (\<open>tx_hex\<close>, \<open>to_bytes\<close>, \<open>Display\<close>), and a parser returns
  the value it accepts in this form. The texts of the reasons keep the label of the source and
  drop the rendering of the inner error.
\<close>

section \<open>Reasons, negotiation data and messages\<close>

datatype (plugins only: code size) abort_reason =
    NegotiationTimeout
  | NegotiationFailed string
  | FailedToSendTx string
  | FailedToValidateTx string
  | ConfirmationTimeout string
  | FundingSpendError string
  | TakerAborted string
  | MakerAborted string
  | InternalReason string
  | FailedToSendPayment string
  | DidNotReceiveMakerPayment string
  | FailedToParseMakerPayment string
  | FailedToParseFundingSpendPreimg string
  | FailedToParseFundingSpendSig string
  | MakerPaymentValidationFailed string
  | FundingSpendPreimageValidationFailed string
  | MakerPaymentNotConfirmedInTime string
  | FailedToGenerateSpendPreimage string
  | MakerDidNotSpendInTime string
  | CouldNotExtractSecret string
  | FailedToSpendMakerPayment string
  | MakerPaymentSpendNotConfirmedInTime string
  | TakerFundingRefundFailed string
  | TakerPaymentRefundFailed string

record stored_tx_preimage =
  stp_preimage :: bytes
  stp_signature :: bytes

record stored_maker_negotiation_data =
  smn_taker_secret_hash :: bytes
  smn_taker_coin_htlc_pub :: bytes
  smn_maker_coin_htlc_pub :: bytes
  smn_taker_coin_swap_contract :: "bytes option"
  smn_maker_coin_swap_contract :: "bytes option"
  smn_taker_payment_locktime :: u64
  smn_taker_funding_locktime :: u64

record stored_taker_negotiation_data =
  stn_maker_secret_hash :: bytes
  stn_maker_coin_htlc_pub :: bytes
  stn_taker_coin_htlc_pub :: bytes
  stn_maker_coin_swap_contract :: "bytes option"
  stn_taker_coin_swap_contract :: "bytes option"
  stn_maker_payment_locktime :: u64
  stn_taker_coin_address :: string

record maker_negotiation =
  mng_started_at :: u64
  mng_payment_locktime :: u64
  mng_secret_hash :: bytes
  mng_maker_coin_htlc_pub :: bytes
  mng_taker_coin_htlc_pub :: bytes
  mng_maker_coin_swap_contract :: "bytes option"
  mng_taker_coin_swap_contract :: "bytes option"
  mng_taker_coin_address :: string

record taker_negotiation_v2_data =
  tng_started_at :: u64
  tng_funding_locktime :: u64
  tng_payment_locktime :: u64
  tng_taker_secret_hash :: bytes
  tng_maker_coin_htlc_pub :: bytes
  tng_taker_coin_htlc_pub :: bytes
  tng_maker_coin_swap_contract :: "bytes option"
  tng_taker_coin_swap_contract :: "bytes option"

datatype (plugins only: code size) taker_negotiation_action = NegotiationContinue taker_negotiation_v2_data | NegotiationAbort string

record maker_negotiated =
  mgd_negotiated :: bool
  mgd_reason :: "string option"

record maker_payment_info =
  mpi_tx_bytes :: bytes
  mpi_funding_preimage_sig :: bytes
  mpi_funding_preimage_tx :: bytes

text \<open>The variants of \<open>swap_message::Inner\<close>; no side fills \<open>next_step_instructions\<close>.\<close>

datatype (plugins only: code size) swap_v2_message =
    MakerNegotiationMsg maker_negotiation
  | TakerNegotiationMsg "taker_negotiation_action option"
  | MakerNegotiatedMsg maker_negotiated
  | TakerFundingInfoMsg bytes
  | MakerPaymentInfoMsg maker_payment_info
  | TakerPaymentInfoMsg bytes
  | TakerPaymentSpendPreimageMsg bytes bytes

section \<open>The hash of a secret\<close>

datatype (plugins only: code size) secret_hash_algo = AlgoDHASH160 | AlgoSHA256

record secret_hashes =
  sh_dhash160 :: "bytes \<Rightarrow> bytes"
  sh_sha256 :: "bytes \<Rightarrow> bytes"

fun hash_secret :: "secret_hashes \<Rightarrow> secret_hash_algo \<Rightarrow> bytes \<Rightarrow> bytes" where
  "hash_secret h AlgoDHASH160 secret = sh_dhash160 h secret"
| "hash_secret h AlgoSHA256 secret = sh_sha256 h secret"

text \<open>The sixteen bytes of an identifier, most significant first.\<close>

definition uuid_bytes :: "uuid \<Rightarrow> bytes" where
  "uuid_bytes u = map (\<lambda>i. word_of_int (int u div 256 ^ (15 - i))) [0..<16]"

section \<open>Arguments of the coin operations\<close>

record send_maker_payment_args =
  smp_time_lock :: u64
  smp_taker_secret_hash :: bytes
  smp_maker_secret_hash :: bytes
  smp_amount :: mm_number
  smp_taker_pub :: bytes
  smp_swap_unique_data :: bytes

record validate_maker_payment_args =
  vmp_maker_payment_tx :: transaction_identifier
  vmp_time_lock :: u64
  vmp_taker_secret_hash :: bytes
  vmp_maker_secret_hash :: bytes
  vmp_amount :: mm_number
  vmp_maker_pub :: bytes
  vmp_swap_unique_data :: bytes

datatype (plugins only: code size) swap_tx_type =
    TakerOrMakerPaymentTx bytes
  | TakerFundingTx bytes
  | MakerPaymentV2Tx bytes bytes
  | TakerPaymentV2Tx bytes bytes

record refund_maker_payment_timelock_args =
  rmt_payment_tx :: bytes
  rmt_time_lock :: u64
  rmt_taker_pub :: bytes
  rmt_tx_type :: swap_tx_type
  rmt_swap_unique_data :: bytes
  rmt_amount :: mm_number

record spend_maker_payment_args =
  spm_maker_payment_tx :: transaction_identifier
  spm_time_lock :: u64
  spm_taker_secret_hash :: bytes
  spm_maker_secret_hash :: bytes
  spm_maker_secret :: bytes
  spm_maker_pub :: bytes
  spm_swap_unique_data :: bytes
  spm_amount :: mm_number

record send_taker_funding_args =
  stf_funding_time_lock :: u64
  stf_payment_time_lock :: u64
  stf_taker_secret_hash :: bytes
  stf_maker_secret_hash :: bytes
  stf_maker_pub :: bytes
  stf_dex_fee :: dex_fee
  stf_premium_amount :: mm_number
  stf_trading_amount :: mm_number
  stf_swap_unique_data :: bytes

record validate_taker_funding_args =
  vtf_funding_tx :: transaction_identifier
  vtf_funding_time_lock :: u64
  vtf_payment_time_lock :: u64
  vtf_taker_secret_hash :: bytes
  vtf_maker_secret_hash :: bytes
  vtf_taker_pub :: bytes
  vtf_dex_fee :: dex_fee
  vtf_premium_amount :: mm_number
  vtf_trading_amount :: mm_number
  vtf_swap_unique_data :: bytes

record refund_taker_payment_args =
  rtp_payment_tx :: bytes
  rtp_time_lock :: u64
  rtp_maker_pub :: bytes
  rtp_tx_type :: swap_tx_type
  rtp_swap_unique_data :: bytes
  rtp_dex_fee :: dex_fee
  rtp_premium_amount :: mm_number
  rtp_trading_amount :: mm_number

record refund_funding_secret_args =
  rfs_funding_tx :: transaction_identifier
  rfs_funding_time_lock :: u64
  rfs_payment_time_lock :: u64
  rfs_maker_pubkey :: bytes
  rfs_taker_secret :: bytes
  rfs_taker_secret_hash :: bytes
  rfs_maker_secret_hash :: bytes
  rfs_dex_fee :: dex_fee
  rfs_premium_amount :: mm_number
  rfs_trading_amount :: mm_number
  rfs_swap_unique_data :: bytes

record gen_taker_funding_spend_args =
  gfs_funding_tx :: transaction_identifier
  gfs_maker_pub :: bytes
  gfs_taker_pub :: bytes
  gfs_funding_time_lock :: u64
  gfs_taker_secret_hash :: bytes
  gfs_taker_payment_time_lock :: u64
  gfs_maker_secret_hash :: bytes

record gen_taker_payment_spend_args =
  gps_taker_tx :: transaction_identifier
  gps_time_lock :: u64
  gps_maker_secret_hash :: bytes
  gps_maker_pub :: bytes
  gps_maker_address :: string
  gps_taker_pub :: bytes
  gps_dex_fee :: dex_fee
  gps_premium_amount :: mm_number
  gps_trading_amount :: mm_number

record tx_preimage_with_sig =
  tps_preimage :: bytes
  tps_signature :: bytes

datatype (plugins only: code size) funding_tx_spend =
    RefundedTimelock transaction_identifier
  | RefundedSecret transaction_identifier bytes
  | TransferredToTakerPayment transaction_identifier

datatype (plugins only: code size) search_for_funding_spend_err = SearchRpc string | SearchInvalid string

section \<open>The operations of the two coins\<close>

record parse_ops_v2 =
  po_parse_pubkey :: "bytes \<Rightarrow> string + bytes"
  po_parse_tx :: "bytes \<Rightarrow> string + transaction_identifier"
  po_parse_preimage :: "bytes \<Rightarrow> string + bytes"
  po_parse_signature :: "bytes \<Rightarrow> string + bytes"
  po_derive_htlc_pubkey :: "bytes \<Rightarrow> string + bytes"
  po_my_addr :: "string + string"
  po_swap_contract_address :: "bytes option"
  po_current_block :: "string + u64"
  po_wait_for_confirmations :: "confirm_args \<Rightarrow> string + unit"
  po_can_refund_htlc :: "nat \<Rightarrow> u64 \<Rightarrow> string + can_refund_htlc"

record maker_ops_v2 = parse_ops_v2 +
  mo_send_maker_payment :: "send_maker_payment_args \<Rightarrow> string + transaction_identifier"
  mo_validate_maker_payment :: "validate_maker_payment_args \<Rightarrow> string + unit"
  mo_refund_maker_payment_timelock :: "refund_maker_payment_timelock_args \<Rightarrow> string + transaction_identifier"
  mo_spend_maker_payment :: "spend_maker_payment_args \<Rightarrow> string + transaction_identifier"

record taker_ops_v2 = parse_ops_v2 +
  to_send_taker_funding :: "send_taker_funding_args \<Rightarrow> string + transaction_identifier"
  to_validate_taker_funding :: "validate_taker_funding_args \<Rightarrow> string + unit"
  to_refund_taker_funding_secret :: "refund_funding_secret_args \<Rightarrow> string + transaction_identifier"
  to_search_for_taker_funding_spend ::
    "nat \<Rightarrow> transaction_identifier \<Rightarrow> u64 \<Rightarrow> bytes \<Rightarrow> search_for_funding_spend_err + funding_tx_spend option"
  to_gen_taker_funding_spend_preimage :: "gen_taker_funding_spend_args \<Rightarrow> bytes \<Rightarrow> string + tx_preimage_with_sig"
  to_validate_taker_funding_spend_preimage ::
    "gen_taker_funding_spend_args \<Rightarrow> tx_preimage_with_sig \<Rightarrow> string + unit"
  to_sign_and_send_taker_funding_spend ::
    "tx_preimage_with_sig \<Rightarrow> gen_taker_funding_spend_args \<Rightarrow> bytes \<Rightarrow> string + transaction_identifier"
  to_refund_combined_taker_payment :: "refund_taker_payment_args \<Rightarrow> string + transaction_identifier"
  to_skip_taker_payment_spend_preimage :: bool
  to_gen_taker_payment_spend_preimage :: "gen_taker_payment_spend_args \<Rightarrow> bytes \<Rightarrow> string + tx_preimage_with_sig"
  to_validate_taker_payment_spend_preimage ::
    "gen_taker_payment_spend_args \<Rightarrow> tx_preimage_with_sig \<Rightarrow> string + unit"
  to_sign_and_broadcast_taker_payment_spend ::
    "tx_preimage_with_sig option \<Rightarrow> gen_taker_payment_spend_args \<Rightarrow> bytes \<Rightarrow> bytes \<Rightarrow> string + transaction_identifier"
  to_find_taker_payment_spend_tx :: "transaction_identifier \<Rightarrow> u64 \<Rightarrow> u64 \<Rightarrow> string + transaction_identifier"
  to_extract_secret :: "bytes \<Rightarrow> transaction_identifier \<Rightarrow> string + bytes"

text \<open>
  What the handler of a state meets: the clock at each round of a polling loop, the network, the
  two coins, the hash functions, the decimal approximation of a rational, the messages that
  \<open>recv_swap_v2_msg\<close> returns for the slots of the store, and the answer of the storage to the
  event of the next state.
\<close>

record v2_env =
  ve_now_ms :: "nat \<Rightarrow> u64"
  ve_net :: net_config
  ve_maker_coin :: mm_coin
  ve_taker_coin :: mm_coin
  ve_maker_ops :: maker_ops_v2
  ve_taker_ops :: taker_ops_v2
  ve_hashes :: secret_hashes
  ve_to_decimal :: "mm_number \<Rightarrow> mm_number"
  ve_maker_negotiation :: "string + maker_negotiation"
  ve_taker_negotiation :: "string + taker_negotiation_action option"
  ve_maker_negotiated :: "string + maker_negotiated"
  ve_taker_funding :: "string + bytes"
  ve_maker_payment :: "string + maker_payment_info"
  ve_taker_payment_spend_preimage :: "string + bytes \<times> bytes"
  ve_store :: "string + unit"

text \<open>
  The calls of a handler that matter to the swap: what it checked with success, in the order of
  the code, and every transaction and message it tried to send, a transaction with the answer.
\<close>

type_synonym sent = "string + transaction_identifier"

datatype (plugins only: code size) v2_call =
    SentMessage swap_v2_message
  | ConfirmedTx ticker confirm_args
  | RefundAllowed ticker u64
  | ValidatedTakerFunding validate_taker_funding_args
  | ValidatedMakerPayment validate_maker_payment_args
  | ValidatedFundingSpend gen_taker_funding_spend_args tx_preimage_with_sig
  | ValidatedPaymentSpend gen_taker_payment_spend_args tx_preimage_with_sig
  | FoundFundingSpend transaction_identifier transaction_identifier
  | FoundPaymentSpend transaction_identifier transaction_identifier
  | ExtractedSecret bytes transaction_identifier bytes
  | SendMakerPaymentTx send_maker_payment_args sent
  | SendTakerFundingTx send_taker_funding_args sent
  | SendTakerPaymentTx tx_preimage_with_sig gen_taker_funding_spend_args sent
  | SpendTakerPaymentTx "tx_preimage_with_sig option" gen_taker_payment_spend_args bytes sent
  | SpendMakerPaymentTx spend_maker_payment_args sent
  | RefundMakerPaymentTx refund_maker_payment_timelock_args sent
  | RefundTakerFundingTx refund_funding_secret_args sent
  | RefundTakerPaymentTx refund_taker_payment_args sent

section \<open>Handlers as computations that log their calls\<close>

text \<open>
  The body of a handler up to its first failure: the calls made so far and the reason of the
  failure or the value. Every early return of a handler leads to one state that carries the
  reason, so a handler is such a computation followed by the choice of the next state.
\<close>

type_synonym 'a v2_try = "v2_call list \<times> (abort_reason + 'a)"

definition v2_bind :: "'a v2_try \<Rightarrow> ('a \<Rightarrow> 'b v2_try) \<Rightarrow> 'b v2_try" where
  "v2_bind m f =
     (case snd m of
        Inl e \<Rightarrow> (fst m, Inl e)
      | Inr x \<Rightarrow> (fst m @ fst (f x), snd (f x)))"

definition v2_return :: "'a \<Rightarrow> 'a v2_try" where
  "v2_return x = ([], Inr x)"

definition v2_ask :: "(string \<Rightarrow> abort_reason) \<Rightarrow> string + 'a \<Rightarrow> 'a v2_try" where
  "v2_ask reason r = ([], map_err reason r)"

definition v2_require :: "bool \<Rightarrow> abort_reason \<Rightarrow> unit v2_try" where
  "v2_require b reason = ([], if b then Inr () else Inl reason)"

definition v2_check :: "v2_call \<Rightarrow> (string \<Rightarrow> abort_reason) \<Rightarrow> string + 'a \<Rightarrow> 'a v2_try" where
  "v2_check call reason r = (case r of Inl e \<Rightarrow> ([], Inl (reason e)) | Inr x \<Rightarrow> ([call], Inr x))"

definition v2_send :: "(sent \<Rightarrow> v2_call) \<Rightarrow> (string \<Rightarrow> abort_reason) \<Rightarrow> sent \<Rightarrow> transaction_identifier v2_try" where
  "v2_send call reason r = ([call r], map_err reason r)"

text \<open>The outcome of a handler: the next state by its event, and the calls.\<close>

definition v2_next :: "(abort_reason \<Rightarrow> 'e) \<Rightarrow> 'e v2_try \<Rightarrow> 'e \<times> v2_call list" where
  "v2_next failed m = (case snd m of Inl reason \<Rightarrow> failed reason | Inr e \<Rightarrow> e, fst m)"

lemmas v2_try_defs = v2_bind_def v2_return_def v2_ask_def v2_require_def v2_check_def v2_send_def v2_next_def

text \<open>The states of either side: the initial one, and one for each event.\<close>

datatype (plugins only: code size) 'e v2_state = V2Initialize | V2Entered 'e

fun v2_get_event :: "'e v2_state \<Rightarrow> 'e option" where
  "v2_get_event V2Initialize = None"
| "v2_get_event (V2Entered e) = Some e"

text \<open>The limit on the difference of the two starting times and the confirmations of the gates.\<close>

definition max_started_at_diff :: u64 where
  "max_started_at_diff = 60"

definition confirmation_gate_confs :: "u64 \<Rightarrow> u64" where
  "confirmation_gate_confs configured = min configured 1"

definition u64_abs_diff :: "u64 \<Rightarrow> u64 \<Rightarrow> u64" where
  "u64_abs_diff a b = (if a < b then b - a else a - b)"

end
