(* ===== verification/SwapV2Messages.thy ===== *)
theory SwapV2Messages
  imports SwapV2Types
begin

text \<open>
  The messages of the second swap protocol between the network and the swap (\<open>swap_msg.rs\<close> and
  the message stores of \<open>lp_swap.rs\<close>): a message is signed with the key of its sender, accepted
  only from the counterparty of the swap it names, kept in the slot of its kind, and taken out of
  the slot by the handler that waits for it. The protobuf codec and ECDSA are external and enter
  through the record \<open>v2_wire\<close>.

  The main fact is that whatever a handler receives was signed by the counterparty for this swap.
\<close>

section \<open>Message stores\<close>

record swap_v2_msg_store =
  sv_maker_negotiation :: "maker_negotiation option"
  sv_taker_negotiation :: "taker_negotiation_action option option"
  sv_maker_negotiated :: "maker_negotiated option"
  sv_taker_funding :: "bytes option"
  sv_maker_payment :: "maker_payment_info option"
  sv_taker_payment :: "bytes option"
  sv_taker_payment_spend_preimage :: "(bytes \<times> bytes) option"
  sv_accept_only_from :: bytes

definition v2_msg_store_new :: "bytes \<Rightarrow> swap_v2_msg_store" where
  "v2_msg_store_new accept_only_from =
     \<lparr>sv_maker_negotiation = None, sv_taker_negotiation = None, sv_maker_negotiated = None,
      sv_taker_funding = None, sv_maker_payment = None, sv_taker_payment = None,
      sv_taker_payment_spend_preimage = None, sv_accept_only_from = accept_only_from\<rparr>"

text \<open>The part of \<open>SwapsContext\<close> that the second protocol works on.\<close>

record v2_context =
  vc_swaps :: swaps_context
  vc_swap_v2_msgs :: "(uuid, swap_v2_msg_store) hash_map"

definition init_v2_msg_store :: "uuid \<Rightarrow> bytes \<Rightarrow> v2_context \<Rightarrow> v2_context" where
  "init_v2_msg_store uuid accept_only_from ctx =
     ctx\<lparr>vc_swap_v2_msgs := hm_insert uuid (v2_msg_store_new accept_only_from) (vc_swap_v2_msgs ctx)\<rparr>"

definition remove_v2_msg_store :: "uuid \<Rightarrow> v2_context \<Rightarrow> v2_context" where
  "remove_v2_msg_store uuid ctx = ctx\<lparr>vc_swap_v2_msgs := hm_remove uuid (vc_swap_v2_msgs ctx)\<rparr>"

text \<open>The amounts that swaps of the second protocol keep out of the spendable balance of a coin.\<close>

definition push_locked_v2 :: "ticker \<Rightarrow> locked_amount_v2_info \<Rightarrow> v2_context \<Rightarrow> v2_context" where
  "push_locked_v2 coin info ctx =
     ctx\<lparr>vc_swaps := vc_swaps ctx
       \<lparr>sc_locked_amounts_v2 := hm_entry coin [] (\<lambda>l. l @ [info]) (sc_locked_amounts_v2 (vc_swaps ctx))\<rparr>\<rparr>"

definition retain_locked_v2 :: "ticker \<Rightarrow> uuid \<Rightarrow> v2_context \<Rightarrow> v2_context" where
  "retain_locked_v2 coin uuid ctx =
     (case hm_get (sc_locked_amounts_v2 (vc_swaps ctx)) coin of
        None \<Rightarrow> ctx
      | Some entries \<Rightarrow>
          ctx\<lparr>vc_swaps := vc_swaps ctx
            \<lparr>sc_locked_amounts_v2 := hm_insert coin (filter (\<lambda>info. lv_swap_uuid info \<noteq> uuid) entries)
               (sc_locked_amounts_v2 (vc_swaps ctx))\<rparr>\<rparr>)"

definition locked_v2_of :: "v2_context \<Rightarrow> ticker \<Rightarrow> uuid \<Rightarrow> locked_amount_v2_info list" where
  "locked_v2_of ctx coin uuid =
     filter (\<lambda>info. lv_swap_uuid info = uuid) (hm_members (sc_locked_amounts_v2 (vc_swaps ctx)) coin)"

lemma locked_v2_of_push [simp]:
  "locked_v2_of (push_locked_v2 coin info ctx) c u =
     locked_v2_of ctx c u @ (if c = coin \<and> u = lv_swap_uuid info then [info] else [])"
  by (auto simp: locked_v2_of_def push_locked_v2_def hm_simps)

lemma locked_v2_of_retain [simp]:
  "locked_v2_of (retain_locked_v2 coin uuid ctx) c u =
     (if c = coin \<and> u = uuid then [] else locked_v2_of ctx c u)"
  by (auto simp: locked_v2_of_def retain_locked_v2_def hm_simps hm_members_def filter_empty_conv
      filter_filter split: option.splits intro: filter_cong)

text \<open>What the entries of one swap add to the amount that is locked of a coin.\<close>

lemma fold_add_locked_v2:
  "fold (add_locked_v2 coin) xs acc = acc + sum_list (map (\<lambda>info. add_locked_v2 coin info 0) xs)"
  by (induction xs arbitrary: acc) (auto simp: add_locked_v2_def Let_def split: option.splits)

lemma get_locked_amount_split:
  "get_locked_amount (vc_swaps ctx) coin =
     get_locked_amount (vc_swaps (retain_locked_v2 coin uuid ctx)) coin
     + sum_list (map (\<lambda>info. add_locked_v2 coin info 0) (locked_v2_of ctx coin uuid))"
proof -
  have "sum_list (map f xs) = sum_list (map f (filter (\<lambda>info. lv_swap_uuid info \<noteq> uuid) xs))
      + sum_list (map f (filter (\<lambda>info. lv_swap_uuid info = uuid) xs))" for f :: "_ \<Rightarrow> mm_number" and xs
    by (induction xs) auto
  then show ?thesis
    by (auto simp: get_locked_amount_def Let_def retain_locked_v2_def locked_v2_of_def hm_members_def
        fold_add_locked_v2 hm_simps alive_swaps_def split: option.splits)
qed

section \<open>Sending and receiving\<close>

record signed_message =
  sgm_from :: bytes
  sgm_signature :: bytes
  sgm_payload :: bytes

record v2_wire =
  vw_uuid_from_str :: "string \<Rightarrow> string + uuid"
  vw_uuid_from_slice :: "bytes \<Rightarrow> string + uuid"
  vw_encode_signed :: "signed_message \<Rightarrow> bytes"
  vw_decode_signed :: "bytes \<Rightarrow> string + signed_message"
  vw_encode_message :: "bytes \<Rightarrow> swap_v2_message option \<Rightarrow> bytes"
  vw_decode_message :: "bytes \<Rightarrow> string + bytes \<times> swap_v2_message option"
  vw_pubkey_from_slice :: "bytes \<Rightarrow> string + bytes"
  vw_signature_from_compact :: "bytes \<Rightarrow> string + bytes"
  vw_sha256 :: "bytes \<Rightarrow> bytes"
  vw_sign :: "bytes \<Rightarrow> bytes \<Rightarrow> bytes"
  vw_public :: "bytes \<Rightarrow> bytes"
  vw_verify :: "bytes \<Rightarrow> bytes \<Rightarrow> bytes \<Rightarrow> bool"

definition broadcast_swap_v2_message :: "v2_wire \<Rightarrow> bytes \<Rightarrow> uuid \<Rightarrow> swap_v2_message \<Rightarrow> bytes" where
  "broadcast_swap_v2_message w private uuid msg =
     (let encoded_msg = vw_encode_message w (uuid_bytes uuid) (Some msg) in
      vw_encode_signed w
        \<lparr>sgm_from = vw_public w private, sgm_signature = vw_sign w private (vw_sha256 w encoded_msg),
         sgm_payload = encoded_msg\<rparr>)"

fun put_v2_msg :: "swap_v2_message \<Rightarrow> swap_v2_msg_store \<Rightarrow> swap_v2_msg_store" where
  "put_v2_msg (MakerNegotiationMsg d) s = s\<lparr>sv_maker_negotiation := Some d\<rparr>"
| "put_v2_msg (TakerNegotiationMsg d) s = s\<lparr>sv_taker_negotiation := Some d\<rparr>"
| "put_v2_msg (MakerNegotiatedMsg d) s = s\<lparr>sv_maker_negotiated := Some d\<rparr>"
| "put_v2_msg (TakerFundingInfoMsg d) s = s\<lparr>sv_taker_funding := Some d\<rparr>"
| "put_v2_msg (MakerPaymentInfoMsg d) s = s\<lparr>sv_maker_payment := Some d\<rparr>"
| "put_v2_msg (TakerPaymentInfoMsg d) s = s\<lparr>sv_taker_payment := Some d\<rparr>"
| "put_v2_msg (TakerPaymentSpendPreimageMsg sig pre) s = s\<lparr>sv_taker_payment_spend_preimage := Some (sig, pre)\<rparr>"

definition open_v2_msg :: "v2_wire \<Rightarrow> bytes \<Rightarrow> uuid \<Rightarrow> bytes \<Rightarrow> string + swap_v2_message" where
  "open_v2_msg w accept_only_from uuid msg =
     bind_res (vw_decode_signed w msg) (\<lambda>signed.
     bind_res (vw_pubkey_from_slice w (sgm_from signed)) (\<lambda>pubkey.
       if pubkey \<noteq> accept_only_from then Inl ''Unexpected sender''
       else bind_res (vw_signature_from_compact w (sgm_signature signed)) (\<lambda>signature.
         if \<not> vw_verify w (vw_sha256 w (sgm_payload signed)) signature pubkey
         then Inl ''Signature verification failed''
         else bind_res (vw_decode_message w (sgm_payload signed)) (\<lambda>(slice, inner).
           bind_res (vw_uuid_from_slice w slice) (\<lambda>uuid_from_message.
             if uuid_from_message \<noteq> uuid then Inl ''uuid from message does not match uuid from topic''
             else case inner of
                 None \<Rightarrow> Inl ''swap_message.inner is None''
               | Some m \<Rightarrow> Inr m)))))"

definition process_swap_v2_msg :: "v2_wire \<Rightarrow> string \<Rightarrow> bytes \<Rightarrow> v2_context \<Rightarrow> string + v2_context" where
  "process_swap_v2_msg w topic msg ctx =
     bind_res (vw_uuid_from_str w topic) (\<lambda>uuid.
       case hm_get (vc_swap_v2_msgs ctx) uuid of
         None \<Rightarrow> Inr ctx
       | Some msg_store \<Rightarrow>
           bind_res (open_v2_msg w (sv_accept_only_from msg_store) uuid msg) (\<lambda>m.
             Inr (ctx\<lparr>vc_swap_v2_msgs := hm_insert uuid (put_v2_msg m msg_store) (vc_swap_v2_msgs ctx)\<rparr>)))"

text \<open>The getters of the handlers: each takes the message out of one slot.\<close>

datatype (plugins only: code size) v2_slot =
    MakerNegotiationSlot | TakerNegotiationSlot | MakerNegotiatedSlot | TakerFundingSlot | MakerPaymentSlot
  | PaymentSpendPreimageSlot

fun take_v2_msg :: "v2_slot \<Rightarrow> swap_v2_msg_store \<Rightarrow> (swap_v2_message \<times> swap_v2_msg_store) option" where
  "take_v2_msg MakerNegotiationSlot s =
     map_option (\<lambda>d. (MakerNegotiationMsg d, s\<lparr>sv_maker_negotiation := None\<rparr>)) (sv_maker_negotiation s)"
| "take_v2_msg TakerNegotiationSlot s =
     map_option (\<lambda>d. (TakerNegotiationMsg d, s\<lparr>sv_taker_negotiation := None\<rparr>)) (sv_taker_negotiation s)"
| "take_v2_msg MakerNegotiatedSlot s =
     map_option (\<lambda>d. (MakerNegotiatedMsg d, s\<lparr>sv_maker_negotiated := None\<rparr>)) (sv_maker_negotiated s)"
| "take_v2_msg TakerFundingSlot s =
     map_option (\<lambda>d. (TakerFundingInfoMsg d, s\<lparr>sv_taker_funding := None\<rparr>)) (sv_taker_funding s)"
| "take_v2_msg MakerPaymentSlot s =
     map_option (\<lambda>d. (MakerPaymentInfoMsg d, s\<lparr>sv_maker_payment := None\<rparr>)) (sv_maker_payment s)"
| "take_v2_msg PaymentSpendPreimageSlot s =
     map_option (\<lambda>(sig, pre). (TakerPaymentSpendPreimageMsg sig pre, s\<lparr>sv_taker_payment_spend_preimage := None\<rparr>))
       (sv_taker_payment_spend_preimage s)"

text \<open>
  \<open>recv_swap_v2_msg\<close> looks into the store once a second. The round \<open>n\<close> meets the context and the
  time of its moment.
\<close>

partial_function (option) recv_v2_loop ::
  "v2_slot \<Rightarrow> uuid \<Rightarrow> u64 \<Rightarrow> (nat \<Rightarrow> v2_context \<times> u64) \<Rightarrow> nat
    \<Rightarrow> (string + swap_v2_message \<times> v2_context) option" where
  "recv_v2_loop slot uuid wait_until rounds n =
     (let ctx = fst (rounds n) in
      case Option.bind (hm_get (vc_swap_v2_msgs ctx) uuid) (take_v2_msg slot) of
        Some (m, store) \<Rightarrow>
          Some (Inr (m, ctx\<lparr>vc_swap_v2_msgs := hm_insert uuid store (vc_swap_v2_msgs ctx)\<rparr>))
      | None \<Rightarrow>
          if snd (rounds n) > wait_until then Some (Inl ''V2 swap msg timeout'')
          else recv_v2_loop slot uuid wait_until rounds (Suc n))"

definition recv_swap_v2_msg ::
  "v2_slot \<Rightarrow> uuid \<Rightarrow> u64 \<Rightarrow> u64 \<Rightarrow> (nat \<Rightarrow> v2_context \<times> u64)
    \<Rightarrow> (string + swap_v2_message \<times> v2_context) option" where
  "recv_swap_v2_msg slot uuid started timeout rounds =
     recv_v2_loop slot uuid (started + (90 + timeout)) rounds 0"

section \<open>Authenticity\<close>

text \<open>The messages a store holds, and the slots a context keeps for a swap.\<close>

fun store_holds :: "swap_v2_msg_store \<Rightarrow> swap_v2_message \<Rightarrow> bool" where
  "store_holds s (MakerNegotiationMsg d) = (sv_maker_negotiation s = Some d)"
| "store_holds s (TakerNegotiationMsg d) = (sv_taker_negotiation s = Some d)"
| "store_holds s (MakerNegotiatedMsg d) = (sv_maker_negotiated s = Some d)"
| "store_holds s (TakerFundingInfoMsg d) = (sv_taker_funding s = Some d)"
| "store_holds s (MakerPaymentInfoMsg d) = (sv_maker_payment s = Some d)"
| "store_holds s (TakerPaymentInfoMsg d) = (sv_taker_payment s = Some d)"
| "store_holds s (TakerPaymentSpendPreimageMsg sig pre) = (sv_taker_payment_spend_preimage s = Some (sig, pre))"

text \<open>The bytes of a message with a valid signature of the sender on this message for this swap.\<close>

definition signed_by :: "v2_wire \<Rightarrow> bytes \<Rightarrow> uuid \<Rightarrow> swap_v2_message \<Rightarrow> bytes \<Rightarrow> bool" where
  "signed_by w sender uuid m raw =
     (\<exists>signed signature slice.
        vw_decode_signed w raw = Inr signed \<and> vw_pubkey_from_slice w (sgm_from signed) = Inr sender
        \<and> vw_signature_from_compact w (sgm_signature signed) = Inr signature
        \<and> vw_verify w (vw_sha256 w (sgm_payload signed)) signature sender
        \<and> vw_decode_message w (sgm_payload signed) = Inr (slice, Some m)
        \<and> vw_uuid_from_slice w slice = Inr uuid)"

text \<open>
  The life of a message store: the network hands over raw messages on any topic, and the handlers
  take messages out. The list holds every raw message handed over so far.
\<close>

inductive v2_store_reach :: "v2_wire \<Rightarrow> uuid \<Rightarrow> bytes \<Rightarrow> bytes list \<Rightarrow> v2_context \<Rightarrow> bool"
  for w uuid sender where
  Init: "v2_store_reach w uuid sender [] (init_v2_msg_store uuid sender ctx)"
| Receive: "v2_store_reach w uuid sender (raws @ [raw]) ctx'"
    if "v2_store_reach w uuid sender raws ctx" "process_swap_v2_msg w topic raw ctx = Inr ctx'"
| Rejected: "v2_store_reach w uuid sender (raws @ [raw]) ctx"
    if "v2_store_reach w uuid sender raws ctx" "process_swap_v2_msg w topic raw ctx = Inl e"
| Take: "v2_store_reach w uuid sender raws (ctx\<lparr>vc_swap_v2_msgs := hm_insert uuid store (vc_swap_v2_msgs ctx)\<rparr>)"
    if "v2_store_reach w uuid sender raws ctx" "hm_get (vc_swap_v2_msgs ctx) uuid = Some s"
       "take_v2_msg slot s = Some (m, store)"

lemma open_v2_msg_signed: "open_v2_msg w sender uuid raw = Inr m \<Longrightarrow> signed_by w sender uuid m raw"
  by (auto simp: open_v2_msg_def signed_by_def bind_res_Inr_iff split: if_splits option.splits prod.splits)

lemma store_holds_put: "store_holds (put_v2_msg m s) m' \<Longrightarrow> m' = m \<or> store_holds s m'"
  by (cases m; cases m') auto

lemma put_v2_msg_sender [simp]: "sv_accept_only_from (put_v2_msg m s) = sv_accept_only_from s"
  by (cases m) simp_all

lemma take_v2_msg_holds:
  assumes "take_v2_msg slot s = Some (m, store)"
  shows "store_holds s m" "\<And>m'. store_holds store m' \<Longrightarrow> store_holds s m'"
    "sv_accept_only_from store = sv_accept_only_from s" "take_v2_msg slot store = None"
proof -
  show "store_holds s m" "sv_accept_only_from store = sv_accept_only_from s" "take_v2_msg slot store = None"
    using assms by (cases slot; auto)+
  show "store_holds s m'" if "store_holds store m'" for m'
    using assms that by (cases slot; cases m'; auto)
qed

lemma v2_store_inv:
  assumes "v2_store_reach w uuid sender raws ctx" "hm_get (vc_swap_v2_msgs ctx) uuid = Some s"
  shows "sv_accept_only_from s = sender \<and> (\<forall>m. store_holds s m \<longrightarrow> (\<exists>raw \<in> set raws. signed_by w sender uuid m raw))"
  using assms
proof (induction arbitrary: s rule: v2_store_reach.induct)
  case (Init ctx)
  have "\<not> store_holds (v2_msg_store_new sender) m" for m
    by (cases m) (simp_all add: v2_msg_store_new_def)
  with Init show ?case
    by (auto simp: init_v2_msg_store_def v2_msg_store_new_def hm_simps)
next
  case (Receive raws ctx topic raw ctx')
  show ?case
    using Receive.hyps(2) Receive.prems Receive.IH
    by (auto simp: process_swap_v2_msg_def bind_res_Inr_iff hm_simps split: option.splits if_splits
        dest!: store_holds_put open_v2_msg_signed) blast+
next
  case (Rejected raws ctx topic raw e)
  then show ?case by auto
next
  case (Take raws ctx s0 slot m store)
  then have "s = store" by (simp add: hm_simps)
  with Take take_v2_msg_holds[OF Take.hyps(3)] show ?case by auto
qed

lemma recv_v2_loop_taken:
  "recv_v2_loop slot uuid wait_until rounds n = Some r \<Longrightarrow> r = Inr (m, ctx') \<longrightarrow>
     (\<exists>k s store. hm_get (vc_swap_v2_msgs (fst (rounds k))) uuid = Some s \<and> take_v2_msg slot s = Some (m, store)
       \<and> ctx' = (fst (rounds k))\<lparr>vc_swap_v2_msgs := hm_insert uuid store (vc_swap_v2_msgs (fst (rounds k)))\<rparr>)"
  by (rule recv_v2_loop.raw_induct[of "\<lambda>slot uuid wait_until rounds n r. r = Inr (m, ctx') \<longrightarrow>
        (\<exists>k s store. hm_get (vc_swap_v2_msgs (fst (rounds k))) uuid = Some s \<and> take_v2_msg slot s = Some (m, store)
          \<and> ctx' = (fst (rounds k))\<lparr>vc_swap_v2_msgs := hm_insert uuid store (vc_swap_v2_msgs (fst (rounds k)))\<rparr>)"
        slot uuid wait_until rounds n r])
    (auto simp: Let_def bind_eq_Some_conv split: option.splits if_splits prod.splits)

text \<open>
  C24: Whatever a handler of the second protocol receives was signed by the counterparty. If a wait for a
  message of a swap returns a message, then among the raw messages that the network handed over
  by that time there is one with this content, for this swap, and with a valid signature of the
  counterparty the store was made for; the message is gone from its slot, and the store is one
  that the same holds for again.
\<close>

theorem v2_messages_authentic:
  assumes "\<And>n. v2_store_reach w uuid sender (raws n) (fst (rounds n))"
    and "recv_swap_v2_msg slot uuid started timeout rounds = Some (Inr (m, ctx'))"
  shows "\<exists>n. (\<exists>raw \<in> set (raws n). signed_by w sender uuid m raw)
    \<and> v2_store_reach w uuid sender (raws n) ctx'
    \<and> (\<exists>s'. hm_get (vc_swap_v2_msgs ctx') uuid = Some s' \<and> take_v2_msg slot s' = None)"
proof -
  obtain k s store where k: "hm_get (vc_swap_v2_msgs (fst (rounds k))) uuid = Some s"
    "take_v2_msg slot s = Some (m, store)"
    "ctx' = (fst (rounds k))\<lparr>vc_swap_v2_msgs := hm_insert uuid store (vc_swap_v2_msgs (fst (rounds k)))\<rparr>"
    using recv_v2_loop_taken assms(2) unfolding recv_swap_v2_msg_def by blast
  have "\<exists>raw \<in> set (raws k). signed_by w sender uuid m raw"
    using v2_store_inv[OF assms(1) k(1)] take_v2_msg_holds(1)[OF k(2)] by blast
  moreover have "v2_store_reach w uuid sender (raws k) ctx'"
    unfolding k(3) by (rule v2_store_reach.Take[OF assms(1) k(1,2)])
  moreover have "\<exists>s'. hm_get (vc_swap_v2_msgs ctx') uuid = Some s' \<and> take_v2_msg slot s' = None"
    by (simp add: k(3) hm_simps take_v2_msg_holds(4)[OF k(2)])
  ultimately show ?thesis by blast
qed

end
