(* ===== verification/SwapV2Storage.thy ===== *)
theory SwapV2Storage
  imports SwapV2Messages
begin

text \<open>
  The table \<open>my_swaps\<close> as the second swap protocol uses it (\<open>swap_v2_common.rs\<close>): a row is
  written once when a swap starts, events are appended to it, it is marked as finished, and it is
  read back when the swap is kick-started. SQLite and the JSON text of the events are external:
  a table is a map from identifiers to rows, a row has the events themselves, and a column that
  holds the text of a decimal number holds the number. The structures \<open>MakerSwapDbRepr\<close> and
  \<open>TakerSwapDbRepr\<close> differ in the names of two fields, and so they are one record here.
\<close>

record 'e swap_v2_db_repr =
  dr_maker_coin :: ticker
  dr_maker_volume :: mm_number
  dr_secret :: bytes
  dr_secret_hash :: bytes
  dr_secret_hash_algo :: secret_hash_algo
  dr_started_at :: u64
  dr_lock_duration :: u64
  dr_taker_coin :: ticker
  dr_taker_volume :: mm_number
  dr_taker_premium :: mm_number
  dr_dex_fee_amount :: mm_number
  dr_dex_fee_burn :: mm_number
  dr_conf_settings :: swap_confirmations_settings
  dr_uuid :: uuid
  dr_p2p_keypair :: "bytes option"
  dr_events :: "'e list"
  dr_other_p2p_pub :: bytes
  dr_swap_version :: u8

definition v2_add_event :: "'e \<Rightarrow> 'e swap_v2_db_repr \<Rightarrow> 'e swap_v2_db_repr" where
  "v2_add_event e repr = repr\<lparr>dr_events := dr_events repr @ [e]\<rparr>"

section \<open>Rows\<close>

text \<open>An \<open>i64\<close> column is a word of 64 bits; the casts from and to \<open>u64\<close> keep the bits.\<close>

record 'e swap_v2_row =
  sr_my_coin :: ticker
  sr_other_coin :: ticker
  sr_started_at :: "64 word"
  sr_swap_type :: "64 word"
  sr_is_finished :: bool
  sr_events :: "'e list"
  sr_maker_volume :: mm_number
  sr_taker_volume :: mm_number
  sr_premium :: mm_number
  sr_dex_fee :: mm_number
  sr_dex_fee_burn :: mm_number
  sr_secret :: bytes
  sr_secret_hash :: bytes
  sr_secret_hash_algo :: "64 word"
  sr_p2p_privkey :: bytes
  sr_lock_duration :: "64 word"
  sr_maker_coin_confs :: "64 word"
  sr_maker_coin_nota :: "64 word"
  sr_taker_coin_confs :: "64 word"
  sr_taker_coin_nota :: "64 word"
  sr_other_p2p_pub :: bytes
  sr_swap_version :: "64 word"

type_synonym 'e my_swaps = "(uuid, 'e swap_v2_row) hash_map"

fun secret_hash_algo_to_i64 :: "secret_hash_algo \<Rightarrow> 64 word" where
  "secret_hash_algo_to_i64 AlgoDHASH160 = 0"
| "secret_hash_algo_to_i64 AlgoSHA256 = 1"

definition bool_to_i64 :: "bool \<Rightarrow> 64 word" where
  "bool_to_i64 b = (if b then 1 else 0)"

definition maker_swap_v2_type :: u8 where
  "maker_swap_v2_type = 1"

definition taker_swap_v2_type :: u8 where
  "taker_swap_v2_type = 2"

definition new_swap_v2_row ::
  "(mm_number \<Rightarrow> mm_number) \<Rightarrow> u8 \<Rightarrow> ticker \<Rightarrow> ticker \<Rightarrow> 'e swap_v2_db_repr \<Rightarrow> 'e swap_v2_row" where
  "new_swap_v2_row to_decimal swap_type my_coin other_coin repr =
     \<lparr>sr_my_coin = my_coin, sr_other_coin = other_coin, sr_started_at = dr_started_at repr,
      sr_swap_type = ucast swap_type, sr_is_finished = False, sr_events = [],
      sr_maker_volume = to_decimal (dr_maker_volume repr),
      sr_taker_volume = to_decimal (dr_taker_volume repr),
      sr_premium = to_decimal (dr_taker_premium repr),
      sr_dex_fee = to_decimal (dr_dex_fee_amount repr),
      sr_dex_fee_burn = to_decimal (dr_dex_fee_burn repr),
      sr_secret = dr_secret repr, sr_secret_hash = dr_secret_hash repr,
      sr_secret_hash_algo = secret_hash_algo_to_i64 (dr_secret_hash_algo repr),
      sr_p2p_privkey = (case dr_p2p_keypair repr of Some k \<Rightarrow> k | None \<Rightarrow> []),
      sr_lock_duration = dr_lock_duration repr,
      sr_maker_coin_confs = cs_maker_coin_confs (dr_conf_settings repr),
      sr_maker_coin_nota = bool_to_i64 (cs_maker_coin_nota (dr_conf_settings repr)),
      sr_taker_coin_confs = cs_taker_coin_confs (dr_conf_settings repr),
      sr_taker_coin_nota = bool_to_i64 (cs_taker_coin_nota (dr_conf_settings repr)),
      sr_other_p2p_pub = dr_other_p2p_pub repr, sr_swap_version = ucast (dr_swap_version repr)\<rparr>"

definition insert_swap_v2_row :: "uuid \<Rightarrow> 'e swap_v2_row \<Rightarrow> 'e my_swaps \<Rightarrow> string + 'e my_swaps" where
  "insert_swap_v2_row uuid row db =
     (if hm_get db uuid \<noteq> None then Inl ''UNIQUE constraint failed'' else Inr (hm_insert uuid row db))"

definition insert_swap_v2_maker ::
  "(mm_number \<Rightarrow> mm_number) \<Rightarrow> uuid \<Rightarrow> 'e swap_v2_db_repr \<Rightarrow> 'e my_swaps \<Rightarrow> string + 'e my_swaps" where
  "insert_swap_v2_maker to_decimal uuid repr =
     insert_swap_v2_row uuid
       (new_swap_v2_row to_decimal maker_swap_v2_type (dr_maker_coin repr) (dr_taker_coin repr) repr)"

definition insert_swap_v2_taker ::
  "(mm_number \<Rightarrow> mm_number) \<Rightarrow> uuid \<Rightarrow> 'e swap_v2_db_repr \<Rightarrow> 'e my_swaps \<Rightarrow> string + 'e my_swaps" where
  "insert_swap_v2_taker to_decimal uuid repr =
     insert_swap_v2_row uuid
       (new_swap_v2_row to_decimal taker_swap_v2_type (dr_taker_coin repr) (dr_maker_coin repr) repr)"

definition has_swap_v2_record :: "uuid \<Rightarrow> 'e my_swaps \<Rightarrow> bool" where
  "has_swap_v2_record uuid db = (hm_get db uuid \<noteq> None)"

definition append_swap_v2_event :: "uuid \<Rightarrow> 'e \<Rightarrow> 'e my_swaps \<Rightarrow> string + 'e my_swaps" where
  "append_swap_v2_event uuid e db =
     (case hm_get db uuid of
        None \<Rightarrow> Inl ''Failed to read events''
      | Some row \<Rightarrow> Inr (hm_insert uuid (row\<lparr>sr_events := sr_events row @ [e]\<rparr>) db))"

definition mark_swap_v2_finished :: "uuid \<Rightarrow> 'e my_swaps \<Rightarrow> 'e my_swaps" where
  "mark_swap_v2_finished uuid db =
     (case hm_get db uuid of None \<Rightarrow> db | Some row \<Rightarrow> hm_insert uuid (row\<lparr>sr_is_finished := True\<rparr>) db)"

definition get_unfinished_swap_uuids :: "u8 \<Rightarrow> 'e my_swaps \<Rightarrow> uuid list" where
  "get_unfinished_swap_uuids swap_type db =
     map fst (filter (\<lambda>(_, row). \<not> sr_is_finished row \<and> sr_swap_type row = ucast swap_type) db)"

text \<open>The secret of a row fills the first bytes of an array of 32 zeros.\<close>

definition secret_arr :: "bytes \<Rightarrow> bytes" where
  "secret_arr s = take 32 s @ replicate (32 - length s) 0"

definition read_p2p_privkey :: "bytes \<Rightarrow> bytes option" where
  "read_p2p_privkey k = (if \<exists>b \<in> set k. b \<noteq> 0 then Some k else None)"

definition get_swap_repr :: "uuid \<Rightarrow> u8 \<Rightarrow> 'e my_swaps \<Rightarrow> string + 'e swap_v2_db_repr" where
  "get_swap_repr uuid swap_type db =
     (case hm_get db uuid of
        None \<Rightarrow> Inl ''Failed to read swap repr''
      | Some row \<Rightarrow> Inr
          \<lparr>dr_maker_coin = (if swap_type = maker_swap_v2_type then sr_my_coin row else sr_other_coin row),
           dr_maker_volume = sr_maker_volume row, dr_secret = secret_arr (sr_secret row),
           dr_secret_hash = sr_secret_hash row,
           dr_secret_hash_algo =
             (if (ucast (sr_secret_hash_algo row) :: u8) = 1 then AlgoSHA256 else AlgoDHASH160),
           dr_started_at = sr_started_at row, dr_lock_duration = sr_lock_duration row,
           dr_taker_coin = (if swap_type = maker_swap_v2_type then sr_other_coin row else sr_my_coin row),
           dr_taker_volume = sr_taker_volume row, dr_taker_premium = sr_premium row,
           dr_dex_fee_amount = sr_dex_fee row, dr_dex_fee_burn = sr_dex_fee_burn row,
           dr_conf_settings =
             \<lparr>cs_maker_coin_confs = sr_maker_coin_confs row,
              cs_maker_coin_nota = (sr_maker_coin_nota row \<noteq> 0),
              cs_taker_coin_confs = sr_taker_coin_confs row,
              cs_taker_coin_nota = (sr_taker_coin_nota row \<noteq> 0)\<rparr>,
           dr_uuid = uuid,
           dr_p2p_keypair = read_p2p_privkey (sr_p2p_privkey row),
           dr_events = sr_events row, dr_other_p2p_pub = sr_other_p2p_pub row,
           dr_swap_version = ucast (sr_swap_version row)\<rparr>)"

text \<open>
  The private key of a restored machine; \<open>valid_private\<close> stands for the success of
  \<open>KeyPair::from_private\<close>.
\<close>

definition restore_keypair :: "(bytes \<Rightarrow> bool) \<Rightarrow> bytes option \<Rightarrow> bytes option" where
  "restore_keypair valid_private k =
     (case k of
        None \<Rightarrow> None
      | Some b \<Rightarrow> if valid_private (secret_arr b) then Some (secret_arr b) else None)"

text \<open>What is left in the context when a swap ends.\<close>

definition v2_clean_up_context :: "v2_env \<Rightarrow> uuid \<Rightarrow> v2_context \<Rightarrow> v2_context" where
  "v2_clean_up_context env uuid ctx =
     (let ctx = ctx\<lparr>vc_swaps := remove_active_swap_v2 uuid (vc_swaps ctx)\<rparr>;
          ctx = remove_v2_msg_store uuid ctx;
          ctx = retain_locked_v2 (coin_ticker (ve_maker_coin env)) uuid ctx in
      retain_locked_v2 (coin_ticker (ve_taker_coin env)) uuid ctx)"

section \<open>Reading back what was written\<close>

text \<open>
  A representation survives the table when its secret has 32 bytes, its key (if any) is not all
  zeros and its amounts are decimal numbers.
\<close>

definition storable_repr :: "(mm_number \<Rightarrow> mm_number) \<Rightarrow> 'e swap_v2_db_repr \<Rightarrow> bool" where
  "storable_repr to_decimal repr \<longleftrightarrow>
     length (dr_secret repr) = 32
     \<and> (\<forall>k. dr_p2p_keypair repr = Some k \<longrightarrow> (\<exists>b \<in> set k. b \<noteq> 0))
     \<and> to_decimal (dr_maker_volume repr) = dr_maker_volume repr
     \<and> to_decimal (dr_taker_volume repr) = dr_taker_volume repr
     \<and> to_decimal (dr_taker_premium repr) = dr_taker_premium repr"

lemma length_secret_arr [simp]: "length (secret_arr s) = 32"
  by (simp add: secret_arr_def)

lemma secret_arr_id [simp]: "length s = 32 \<Longrightarrow> secret_arr s = s"
  by (simp add: secret_arr_def)

lemma ucast_u8_i64 [simp]: "(ucast (ucast (v :: u8) :: 64 word) :: u8) = v"
  by transfer (simp add: take_bit_take_bit)

lemma i64_algo_back [simp]:
  "((ucast (secret_hash_algo_to_i64 a) :: u8) = 1) = (a = AlgoSHA256)"
  by (cases a) simp_all

lemma algo_if [simp]: "(if a = AlgoSHA256 then AlgoSHA256 else AlgoDHASH160) = a"
  by (cases a) simp_all

lemma bool_to_i64_back [simp]: "bool_to_i64 b \<noteq> 0 \<longleftrightarrow> b"
  by (simp add: bool_to_i64_def)

lemma keypair_back:
  "(\<And>k. kp = Some k \<Longrightarrow> \<exists>b \<in> set k. b \<noteq> 0)
    \<Longrightarrow> read_p2p_privkey (case kp of Some k \<Rightarrow> k | None \<Rightarrow> []) = kp"
  by (cases kp) (auto simp: read_p2p_privkey_def)

text \<open>What is read is what was written, with the events since and the fees as decimals.\<close>

lemma get_swap_repr_row:
  assumes "storable_repr to_decimal repr"
    "hm_get db (dr_uuid repr) = Some (new_swap_v2_row to_decimal swap_type
       (if swap_type = maker_swap_v2_type then dr_maker_coin repr else dr_taker_coin repr)
       (if swap_type = maker_swap_v2_type then dr_taker_coin repr else dr_maker_coin repr) repr\<lparr>sr_events := es\<rparr>)"
  shows "get_swap_repr (dr_uuid repr) swap_type db =
    Inr (repr\<lparr>dr_events := es, dr_dex_fee_amount := to_decimal (dr_dex_fee_amount repr),
      dr_dex_fee_burn := to_decimal (dr_dex_fee_burn repr)\<rparr>)"
proof -
  have "read_p2p_privkey (case dr_p2p_keypair repr of Some k \<Rightarrow> k | None \<Rightarrow> []) = dr_p2p_keypair repr"
    by (rule keypair_back) (use assms(1) in \<open>simp add: storable_repr_def\<close>)
  then show ?thesis
    using assms(1) unfolding get_swap_repr_def assms(2)
    by (cases repr) (simp add: new_swap_v2_row_def storable_repr_def)
qed

text \<open>The events of a swap are appended to its row one after the other.\<close>

definition store_events :: "uuid \<Rightarrow> 'e list \<Rightarrow> 'e my_swaps \<Rightarrow> string + 'e my_swaps" where
  "store_events uuid es db = foldl (\<lambda>r e. bind_res r (append_swap_v2_event uuid e)) (Inr db) es"

lemma store_events_row:
  assumes "hm_get db uuid = Some row"
  shows "\<exists>db'. store_events uuid es db = Inr db' \<and> hm_get db' uuid = Some (row\<lparr>sr_events := sr_events row @ es\<rparr>)"
proof (induction es rule: rev_induct)
  case Nil
  then show ?case using assms by (simp add: store_events_def)
next
  case (snoc e es)
  then show ?case by (auto simp: store_events_def append_swap_v2_event_def hm_simps)
qed

end
