(* ===== verification/SwapV2Run.thy ===== *)
theory SwapV2Run
  imports SwapV2Storage
begin

text \<open>
  The driver of the state machines of the second swap protocol: the traits of
  \<open>mm2_state_machine\<close> (the run loop, \<open>on_start\<close>, \<open>on_finished\<close>, the change of a state with its
  event stored, the kick-start of a restored machine) over the storage and the context of one
  node. A step relation adds what may happen around the code: the answers of the network change
  from step to step, the storage may refuse an event, and the process may stop at any point of a
  handler and start again with an empty memory.

  The theory closes with the interface through which the two sides prove their safety: a logic
  for the calls of a handler, and the locale \<open>v2_side\<close>, whose laws speak of one handler at a
  time and whose theorem speaks of every run with its failures and restarts.
\<close>

section \<open>The driver\<close>

text \<open>What the trait \<open>StorableStateMachine\<close> asks of a machine of type \<open>'m\<close> with events \<open>'e\<close>.\<close>

record ('m, 'e) v2_machine_ops =
  vo_id :: "'m \<Rightarrow> uuid"
  vo_swap_type :: u8
  vo_insert :: "v2_env \<Rightarrow> 'm \<Rightarrow> 'e my_swaps \<Rightarrow> string + 'e my_swaps"
  vo_recreate :: "uuid \<Rightarrow> 'e swap_v2_db_repr \<Rightarrow> string + 'm \<times> 'e"
  vo_on_changed :: "v2_env \<Rightarrow> 'm \<Rightarrow> 'e v2_state \<Rightarrow> ('e option \<times> v2_call list) option"
  vo_init_additional_context :: "v2_env \<Rightarrow> 'm \<Rightarrow> v2_context \<Rightarrow> v2_context option"
  vo_on_event :: "v2_env \<Rightarrow> 'm \<Rightarrow> 'e \<Rightarrow> v2_context \<Rightarrow> v2_context"
  vo_on_kickstart_event :: "v2_env \<Rightarrow> 'm \<Rightarrow> 'e \<Rightarrow> v2_context \<Rightarrow> v2_context"

datatype (plugins only: code size) v2_run_error = ReentrancyLock string | V2Storage string | V2Panic

text \<open>
  \<open>lock\<close> is the answer of \<open>SwapLock::lock\<close>: an error, no lock because another instance has
  it, or the lock.
\<close>

definition v2_on_start ::
  "('m, 'e) v2_machine_ops \<Rightarrow> v2_env \<Rightarrow> string + bool \<Rightarrow> 'm \<Rightarrow> 'e my_swaps \<Rightarrow> v2_context
    \<Rightarrow> v2_run_error + 'e my_swaps \<times> v2_context" where
  "v2_on_start ops env lock m db ctx =
     bind_res (case lock of
         Inl e \<Rightarrow> Inl (ReentrancyLock e)
       | Inr b \<Rightarrow> if b then Inr () else Inl (ReentrancyLock ''Swap is already locked by another instance'')) (\<lambda>_.
     bind_res (if has_swap_v2_record (vo_id ops m) db then Inr db
               else map_err V2Storage (vo_insert ops env m db)) (\<lambda>db'.
     (case vo_init_additional_context ops env m ctx of
        None \<Rightarrow> Inl V2Panic
      | Some ctx' \<Rightarrow> Inr (db', ctx'))))"

text \<open>\<open>change_state\<close>: the machine reacts to the event first, then the event is stored.\<close>

definition v2_change_state ::
  "('m, 'e) v2_machine_ops \<Rightarrow> v2_env \<Rightarrow> 'm \<Rightarrow> 'e \<Rightarrow> 'e my_swaps \<Rightarrow> v2_context
    \<Rightarrow> v2_context \<times> (v2_run_error + 'e my_swaps)" where
  "v2_change_state ops env m e db ctx =
     (vo_on_event ops env m e ctx,
      bind_res (map_err V2Storage (ve_store env)) (\<lambda>_. map_err V2Storage (append_swap_v2_event (vo_id ops m) e db)))"

definition v2_on_finished ::
  "('m, 'e) v2_machine_ops \<Rightarrow> v2_env \<Rightarrow> 'm \<Rightarrow> 'e my_swaps \<Rightarrow> v2_context \<Rightarrow> 'e my_swaps \<times> v2_context" where
  "v2_on_finished ops env m db ctx =
     (case ve_store env of
        Inl _ \<Rightarrow> (db, ctx)
      | Inr _ \<Rightarrow> (mark_swap_v2_finished (vo_id ops m) db, v2_clean_up_context env (vo_id ops m) ctx))"

section \<open>A node\<close>

text \<open>
  The table of a node, its memory, the machine that runs (if any) with the state whose handler
  is next, whether this process has already started the swap, and the calls so far. A process
  kick-starts a stored swap once.
\<close>

record ('m, 'e) v2_node =
  vn_db :: "'e my_swaps"
  vn_ctx :: v2_context
  vn_running :: "('m \<times> 'e v2_state) option"
  vn_started :: bool
  vn_calls :: "v2_call list"

definition empty_v2_context :: v2_context where
  "empty_v2_context =
     \<lparr>vc_swaps = \<lparr>sc_running_swaps = [], sc_active_swaps_v2 = [], sc_locked_amounts_v2 = []\<rparr>,
      vc_swap_v2_msgs = []\<rparr>"

definition v2_node_new :: "('m, 'e) v2_node" where
  "v2_node_new = \<lparr>vn_db = [], vn_ctx = empty_v2_context, vn_running = None, vn_started = False, vn_calls = []\<rparr>"

text \<open>\<open>run\<close> from the initial state of a fresh machine, and \<open>swap_kickstart_handler\<close> of a stored one.\<close>

definition v2_start ::
  "('m, 'e) v2_machine_ops \<Rightarrow> v2_env \<Rightarrow> string + bool \<Rightarrow> 'm \<Rightarrow> 'e v2_state \<Rightarrow> ('m, 'e) v2_node \<Rightarrow> ('m, 'e) v2_node" where
  "v2_start ops env lock m s n =
     (case v2_on_start ops env lock m (vn_db n) (vn_ctx n) of
        Inl _ \<Rightarrow> n\<lparr>vn_started := True\<rparr>
      | Inr (db, ctx) \<Rightarrow> n\<lparr>vn_db := db, vn_ctx := ctx, vn_running := Some (m, s), vn_started := True\<rparr>)"

definition v2_kickstart ::
  "('m, 'e) v2_machine_ops \<Rightarrow> v2_env \<Rightarrow> string + bool \<Rightarrow> uuid \<Rightarrow> ('m, 'e) v2_node \<Rightarrow> ('m, 'e) v2_node" where
  "v2_kickstart ops env lock uuid n =
     (case bind_res (get_swap_repr uuid (vo_swap_type ops) (vn_db n)) (vo_recreate ops uuid) of
        Inl _ \<Rightarrow> n\<lparr>vn_started := True\<rparr>
      | Inr (m, e) \<Rightarrow>
          v2_start ops env lock m (V2Entered e) (n\<lparr>vn_ctx := vo_on_kickstart_event ops env m e (vn_ctx n)\<rparr>))"

text \<open>One round of the loop of \<open>run\<close>; a handler that does not return gives \<open>None\<close>.\<close>

definition v2_round ::
  "('m, 'e) v2_machine_ops \<Rightarrow> v2_env \<Rightarrow> 'm \<Rightarrow> 'e v2_state \<Rightarrow> ('m, 'e) v2_node \<Rightarrow> ('m, 'e) v2_node option" where
  "v2_round ops env m s n =
     (case vo_on_changed ops env m s of
        None \<Rightarrow> None
      | Some (next, calls) \<Rightarrow>
          (let n = n\<lparr>vn_calls := vn_calls n @ calls\<rparr> in
           case next of
             None \<Rightarrow>
               (case v2_on_finished ops env m (vn_db n) (vn_ctx n) of
                  (db, ctx) \<Rightarrow> Some (n\<lparr>vn_db := db, vn_ctx := ctx, vn_running := None\<rparr>))
           | Some e \<Rightarrow>
               (case v2_change_state ops env m e (vn_db n) (vn_ctx n) of
                  (ctx, Inl _) \<Rightarrow> Some (n\<lparr>vn_ctx := ctx, vn_running := None\<rparr>)
                | (ctx, Inr db) \<Rightarrow>
                    Some (n\<lparr>vn_db := db, vn_ctx := ctx, vn_running := Some (m, V2Entered e)\<rparr>))))"

text \<open>The process stops, in a handler after some of its calls or between two rounds.\<close>

definition v2_crash :: "v2_call list \<Rightarrow> ('m, 'e) v2_node \<Rightarrow> ('m, 'e) v2_node" where
  "v2_crash calls n =
     n\<lparr>vn_ctx := empty_v2_context, vn_running := None, vn_started := False, vn_calls := vn_calls n @ calls\<rparr>"

text \<open>
  The nodes that the swap of machine \<open>m0\<close> may reach, in environments that satisfy \<open>world\<close>.
\<close>

inductive v2_reach ::
  "('m, 'e) v2_machine_ops \<Rightarrow> (v2_env \<Rightarrow> bool) \<Rightarrow> 'm \<Rightarrow> ('m, 'e) v2_node \<Rightarrow> bool"
  for ops :: "('m, 'e) v2_machine_ops" and world :: "v2_env \<Rightarrow> bool" and m0 :: 'm where
  reach_new: "v2_reach ops world m0 v2_node_new"
| reach_start: "v2_reach ops world m0 n \<Longrightarrow> vn_running n = None \<Longrightarrow> \<not> vn_started n \<Longrightarrow> world env
    \<Longrightarrow> v2_reach ops world m0 (v2_start ops env lock m0 V2Initialize n)"
| reach_kickstart: "v2_reach ops world m0 n \<Longrightarrow> vn_running n = None \<Longrightarrow> \<not> vn_started n \<Longrightarrow> world env
    \<Longrightarrow> vo_id ops m0 \<in> set (get_unfinished_swap_uuids (vo_swap_type ops) (vn_db n))
    \<Longrightarrow> v2_reach ops world m0 (v2_kickstart ops env lock (vo_id ops m0) n)"
| reach_round: "v2_reach ops world m0 n \<Longrightarrow> vn_running n = Some (m, s) \<Longrightarrow> world env
    \<Longrightarrow> v2_round ops env m s n = Some n' \<Longrightarrow> v2_reach ops world m0 n'"
| reach_stop: "v2_reach ops world m0 n \<Longrightarrow> vn_running n = None \<Longrightarrow> v2_reach ops world m0 (v2_crash [] n)"
| reach_crash: "v2_reach ops world m0 n \<Longrightarrow> vn_running n = Some (m, s) \<Longrightarrow> world env
    \<Longrightarrow> vo_on_changed ops env m s = Some (next, calls) \<Longrightarrow> v2_reach ops world m0 (v2_crash (take k calls) n)"

text \<open>
  What does not change from one environment of a run to the next: the two coins by their tickers,
  their transaction format and the hash functions.
\<close>

definition v2_world :: "v2_env \<Rightarrow> v2_env \<Rightarrow> bool" where
  "v2_world env0 env \<longleftrightarrow>
     ve_hashes env = ve_hashes env0
     \<and> coin_ticker (ve_maker_coin env) = coin_ticker (ve_maker_coin env0)
     \<and> coin_ticker (ve_taker_coin env) = coin_ticker (ve_taker_coin env0)
     \<and> po_parse_tx (ve_maker_ops env) = po_parse_tx (ve_maker_ops env0)
     \<and> po_parse_tx (ve_taker_ops env) = po_parse_tx (ve_taker_ops env0)"

text \<open>The loop of \<open>run\<close>, one environment for each round; \<open>None\<close> when the rounds do not suffice.\<close>

fun v2_run ::
  "('m, 'e) v2_machine_ops \<Rightarrow> (nat \<Rightarrow> v2_env) \<Rightarrow> nat \<Rightarrow> nat \<Rightarrow> ('m, 'e) v2_node \<Rightarrow> ('m, 'e) v2_node option" where
  "v2_run ops envs fuel i n =
     (case vn_running n of
        None \<Rightarrow> Some n
      | Some (m, s) \<Rightarrow>
          (case fuel of
             0 \<Rightarrow> None
           | Suc fuel \<Rightarrow>
               (case v2_round ops (envs i) m s n of
                  None \<Rightarrow> None
                | Some n' \<Rightarrow> v2_run ops envs fuel (Suc i) n')))"

declare v2_run.simps [simp del]

lemma v2_run_reach:
  assumes "v2_reach ops world m0 n" "\<And>i. world (envs i)" "v2_run ops envs fuel i n = Some n'"
  shows "v2_reach ops world m0 n'"
  using assms(1,3)
proof (induction fuel arbitrary: i n)
  case 0
  then show ?case by (auto simp: v2_run.simps[of _ _ 0] split: option.splits)
next
  case (Suc fuel)
  show ?case
  proof (cases "vn_running n")
    case None
    then show ?thesis using Suc.prems by (simp add: v2_run.simps)
  next
    case (Some ms)
    obtain m s where run: "vn_running n = Some (m, s)" using Some by (cases ms) simp
    obtain n'' where round: "v2_round ops (envs i) m s n = Some n''"
        and rest: "v2_run ops envs fuel (Suc i) n'' = Some n'"
      using Suc.prems(2) run by (auto simp: v2_run.simps[of _ _ "Suc fuel"] split: option.splits)
    show ?thesis
      using Suc.IH[OF reach_round[OF Suc.prems(1) run assms(2) round] rest] .
  qed
qed

section \<open>A logic for the calls of a handler\<close>

declare map_err_Inr_iff [simp]

lemma map_err_Inl_iff: "map_err f r = Inl e \<longleftrightarrow> (\<exists>e'. r = Inl e' \<and> e = f e')"
  by (cases r) (auto simp: map_err_def)

text \<open>
  \<open>log_from J L cs\<close>: each call of \<open>cs\<close>, made after the log \<open>L\<close>, is justified by the log before it.
\<close>

fun log_from :: "(v2_call list \<Rightarrow> v2_call \<Rightarrow> bool) \<Rightarrow> v2_call list \<Rightarrow> v2_call list \<Rightarrow> bool" where
  "log_from J L [] = True"
| "log_from J L (c # cs) = (J L c \<and> log_from J (L @ [c]) cs)"

lemma log_from_append: "log_from J L (cs @ ds) \<longleftrightarrow> log_from J L cs \<and> log_from J (L @ cs) ds"
  by (induction cs arbitrary: L) auto

lemma log_from_take: "log_from J L cs \<Longrightarrow> log_from J L (take k cs)"
  by (metis append_take_drop_id log_from_append)

lemma log_from_nth: "log_from J [] cs \<longleftrightarrow> (\<forall>i < length cs. J (take i cs) (cs ! i))"
proof (induction cs rule: rev_induct)
  case (snoc c cs)
  then show ?case
    by (auto simp: log_from_append less_Suc_eq nth_append)
qed simp

text \<open>A computation after the log \<open>L\<close> makes justified calls only and its value satisfies \<open>Q\<close>.\<close>

definition v2_ok ::
  "(v2_call list \<Rightarrow> v2_call \<Rightarrow> bool) \<Rightarrow> v2_call list \<Rightarrow> 'a v2_try \<Rightarrow> (v2_call list \<Rightarrow> 'a \<Rightarrow> bool) \<Rightarrow> bool" where
  "v2_ok J L m Q \<longleftrightarrow> log_from J L (fst m) \<and> (case snd m of Inl _ \<Rightarrow> True | Inr x \<Rightarrow> Q (L @ fst m) x)"

named_theorems v2_ok_intros

lemma v2_ok_bind [v2_ok_intros]:
  assumes "v2_ok J L m (\<lambda>L' x. v2_ok J L' (f x) Q)"
  shows "v2_ok J L (v2_bind m f) Q"
  using assms by (auto simp: v2_ok_def v2_bind_def log_from_append split: sum.splits)

lemma v2_ok_return [v2_ok_intros]: "Q L x \<Longrightarrow> v2_ok J L (v2_return x) Q"
  by (simp add: v2_ok_def v2_return_def)

lemma v2_ok_ask [v2_ok_intros]: "(\<And>x. r = Inr x \<Longrightarrow> Q L x) \<Longrightarrow> v2_ok J L (v2_ask reason r) Q"
  by (auto simp: v2_ok_def v2_ask_def split: sum.splits)

lemma v2_ok_require [v2_ok_intros]: "(b \<Longrightarrow> Q L ()) \<Longrightarrow> v2_ok J L (v2_require b reason) Q"
  by (simp add: v2_ok_def v2_require_def)

lemma v2_ok_check [v2_ok_intros]:
  "(\<And>x. r = Inr x \<Longrightarrow> J L c) \<Longrightarrow> (\<And>x. r = Inr x \<Longrightarrow> Q (L @ [c]) x) \<Longrightarrow> v2_ok J L (v2_check c reason r) Q"
  by (auto simp: v2_ok_def v2_check_def split: sum.splits)

lemma v2_ok_send [v2_ok_intros]:
  "J L (c r) \<Longrightarrow> (\<And>x. r = Inr x \<Longrightarrow> Q (L @ [c (Inr x)]) x) \<Longrightarrow> v2_ok J L (v2_send c reason r) Q"
  by (auto simp: v2_ok_def v2_send_def split: sum.splits)

lemma v2_ok_calls [v2_ok_intros]: "log_from J L cs \<Longrightarrow> Q (L @ cs) x \<Longrightarrow> v2_ok J L (cs, Inr x) Q"
  by (simp add: v2_ok_def)

lemma v2_ok_fail [v2_ok_intros]: "v2_ok J L ([], Inl e) Q"
  by (simp add: v2_ok_def)

lemma v2_ok_if [v2_ok_intros]:
  "(b \<Longrightarrow> v2_ok J L m Q) \<Longrightarrow> (\<not> b \<Longrightarrow> v2_ok J L m' Q) \<Longrightarrow> v2_ok J L (if b then m else m') Q"
  by simp

text \<open>Without a demand on the calls, a computation inside a handler may be passed over.\<close>

lemma v2_ok_any: "(\<And>L x. Q L x) \<Longrightarrow> v2_ok (\<lambda>_ _. True) L m Q"
proof -
  have "log_from (\<lambda>_ _. True) L cs" for L cs by (induction cs arbitrary: L) simp_all
  then show "(\<And>L x. Q L x) \<Longrightarrow> v2_ok (\<lambda>_ _. True) L m Q" by (auto simp: v2_ok_def split: sum.splits)
qed

lemma v2_next_value:
  "v2_ok (\<lambda>_ _. True) [] m (\<lambda>_. P) \<Longrightarrow> (\<And>reason. P (failed reason)) \<Longrightarrow> P (fst (v2_next failed m))"
  by (auto simp: v2_ok_def v2_next_def split: sum.splits)

text \<open>From the computation to the outcome of the handler.\<close>

lemma apfst_Some_eq: "apfst Some out = (nx, calls) \<longleftrightarrow> nx = Some (fst out) \<and> calls = snd out"
  by (cases out) auto

lemma v2_ok_next:
  assumes "v2_ok J L m (\<lambda>L' e. S L' e)" "\<And>cs reason. S (L @ cs) (failed reason)"
  shows "log_from J L (snd (v2_next failed m)) \<and> S (L @ snd (v2_next failed m)) (fst (v2_next failed m))"
  using assms by (auto simp: v2_ok_def v2_next_def split: sum.splits)

section \<open>The interface of a side\<close>

text \<open>
  The laws of a side. \<open>same m0 m\<close> relates the machine of a swap with one restored from its row;
  \<open>J m0 L c\<close> says that the call \<open>c\<close> is justified after the log \<open>L\<close>, and \<open>S m0 L s\<close> that the log
  supports the state \<open>s\<close>.
\<close>

locale v2_side =
  fixes ops :: "('m, 'e) v2_machine_ops" and world :: "v2_env \<Rightarrow> bool" and m0 :: 'm
    and same :: "'m \<Rightarrow> bool" and J :: "v2_call list \<Rightarrow> v2_call \<Rightarrow> bool"
    and S :: "v2_call list \<Rightarrow> 'e v2_state \<Rightarrow> bool"
    and row_of :: "'e swap_v2_row \<Rightarrow> bool"
  assumes same_refl: "same m0"
    and same_id: "same m \<Longrightarrow> vo_id ops m = vo_id ops m0"
    and initial: "S L V2Initialize"
    and log_grows: "S L s \<Longrightarrow> S (L @ cs) s"
    and handler: "world env \<Longrightarrow> same m \<Longrightarrow> S L s \<Longrightarrow> vo_on_changed ops env m s = Some (next, calls)
      \<Longrightarrow> log_from J L calls \<and> (\<forall>e. next = Some e \<longrightarrow> S (L @ calls) (V2Entered e))"
    and inserted: "world env \<Longrightarrow> same m \<Longrightarrow> vo_insert ops env m db = Inr db'
      \<Longrightarrow> hm_get db (vo_id ops m0) = None
      \<Longrightarrow> \<exists>row. db' = hm_insert (vo_id ops m0) row db \<and> row_of row \<and> sr_events row = []"
    and row_events: "row_of row \<Longrightarrow> row_of (row\<lparr>sr_events := es\<rparr>)"
    and row_finished: "row_of row \<Longrightarrow> row_of (row\<lparr>sr_is_finished := f\<rparr>)"
    and restored: "row_of row \<Longrightarrow> hm_get db (vo_id ops m0) = Some row
      \<Longrightarrow> bind_res (get_swap_repr (vo_id ops m0) (vo_swap_type ops) db) (vo_recreate ops (vo_id ops m0)) = Inr (m, e)
      \<Longrightarrow> same m \<and> sr_events row \<noteq> [] \<and> e = last (sr_events row)"
begin

definition v2_inv :: "('m, 'e) v2_node \<Rightarrow> bool" where
  "v2_inv n \<longleftrightarrow>
     log_from J [] (vn_calls n)
     \<and> (\<forall>m s. vn_running n = Some (m, s) \<longrightarrow> same m \<and> S (vn_calls n) s)
     \<and> (\<forall>row. hm_get (vn_db n) (vo_id ops m0) = Some row \<longrightarrow>
          row_of row \<and> (sr_events row \<noteq> [] \<longrightarrow> S (vn_calls n) (V2Entered (last (sr_events row)))))"

lemma start_inv:
  assumes "v2_inv n" "world env" "same m" "S (vn_calls n) s"
  shows "v2_inv (v2_start ops env lock m s n)"
proof (cases "v2_on_start ops env lock m (vn_db n) (vn_ctx n)")
  case (Inr p)
  then obtain db ctx where p: "v2_on_start ops env lock m (vn_db n) (vn_ctx n) = Inr (db, ctx)"
    by (cases p) auto
  have "db = vn_db n \<or> (\<exists>row. db = hm_insert (vo_id ops m0) row (vn_db n) \<and> row_of row \<and> sr_events row = [])"
    using p inserted[OF assms(2,3)]
    by (auto simp: v2_on_start_def bind_res_Inr_iff has_swap_v2_record_def same_id[OF assms(3)]
        split: sum.splits if_splits option.splits)
  then show ?thesis
    using assms(1,3,4) p by (auto simp: v2_inv_def v2_start_def hm_simps)
qed (use assms in \<open>simp add: v2_inv_def v2_start_def\<close>)

lemma kickstart_inv:
  assumes "v2_inv n" "world env" "vo_id ops m0 \<in> set (get_unfinished_swap_uuids (vo_swap_type ops) (vn_db n))"
  shows "v2_inv (v2_kickstart ops env lock (vo_id ops m0) n)"
proof (cases "bind_res (get_swap_repr (vo_id ops m0) (vo_swap_type ops) (vn_db n)) (vo_recreate ops (vo_id ops m0))")
  case (Inr p)
  obtain m e where p: "p = (m, e)" by force
  obtain row where row: "hm_get (vn_db n) (vo_id ops m0) = Some row"
    using Inr by (auto simp: bind_res_Inr_iff get_swap_repr_def split: option.splits)
  have "row_of row" using assms(1) row by (simp add: v2_inv_def)
  then have r: "same m" "sr_events row \<noteq> []" "e = last (sr_events row)"
    using restored[OF _ row] Inr p by auto
  then have "S (vn_calls n) (V2Entered e)" using assms(1) row by (simp add: v2_inv_def)
  moreover have "v2_inv (n\<lparr>vn_ctx := c\<rparr>)" for c using assms(1) by (simp add: v2_inv_def)
  ultimately show ?thesis
    using start_inv[OF _ assms(2) r(1)] Inr p by (simp add: v2_kickstart_def)
qed (use assms in \<open>simp add: v2_inv_def v2_kickstart_def\<close>)

lemma calls_inv:
  assumes "v2_inv n" "log_from J (vn_calls n) cs"
  shows "v2_inv (n\<lparr>vn_calls := vn_calls n @ cs\<rparr>)"
  using assms log_grows by (auto simp: v2_inv_def log_from_append)

lemma round_inv:
  assumes "v2_inv n" "world env" "vn_running n = Some (m, s)" "v2_round ops env m s n = Some n'"
  shows "v2_inv n'"
proof -
  obtain nx calls where h: "vo_on_changed ops env m s = Some (nx, calls)"
    using assms(4) by (auto simp: v2_round_def split: option.splits)
  have m: "same m" "S (vn_calls n) s" using assms(1,3) by (auto simp: v2_inv_def)
  note ok = handler[OF assms(2) m h]
  have inv: "v2_inv (n\<lparr>vn_calls := vn_calls n @ calls\<rparr>)"
    using calls_inv[OF assms(1)] ok by blast
  show ?thesis
  proof (cases nx)
    case None
    then show ?thesis
      using assms(4) h inv row_finished
      by (auto simp: v2_round_def Let_def v2_on_finished_def v2_inv_def mark_swap_v2_finished_def hm_simps
          same_id[OF m(1)] split: prod.splits sum.splits option.splits if_splits)
  next
    case (Some e)
    then show ?thesis
      using assms(4) h inv ok m(1) row_events
      by (auto simp: v2_round_def Let_def v2_change_state_def v2_inv_def append_swap_v2_event_def hm_simps
          same_id[OF m(1)] bind_res_Inr_iff split: prod.splits sum.splits option.splits if_splits)
  qed
qed

lemma crash_inv:
  assumes "v2_inv n" "log_from J (vn_calls n) cs"
  shows "v2_inv (v2_crash cs n)"
  using calls_inv[OF assms] by (simp add: v2_inv_def v2_crash_def)

lemma reach_inv: "v2_reach ops world m0 n \<Longrightarrow> v2_inv n"
proof (induction rule: v2_reach.induct)
  case reach_new
  then show ?case by (simp add: v2_inv_def v2_node_new_def hm_simps)
next
  case (reach_start n env lock)
  then show ?case using start_inv same_refl initial by blast
next
  case (reach_kickstart n env lock)
  then show ?case using kickstart_inv by blast
next
  case (reach_round n m s env n')
  then show ?case using round_inv by blast
next
  case (reach_stop n)
  then show ?case by (simp add: crash_inv)
next
  case (reach_crash n m s env nx calls k)
  then have "same m" "S (vn_calls n) s" by (auto simp: v2_inv_def)
  then have "log_from J (vn_calls n) calls"
    using handler[OF reach_crash(3)] reach_crash(4) by blast
  then show ?case using crash_inv reach_crash.IH log_from_take by blast
qed

theorem calls_justified:
  "v2_reach ops world m0 n \<Longrightarrow> i < length (vn_calls n) \<Longrightarrow> J (take i (vn_calls n)) (vn_calls n ! i)"
  using reach_inv[of n] by (auto simp: v2_inv_def log_from_nth)

end

section \<open>The end of a run\<close>

text \<open>
  The row of a running machine carries its state: the last event is the one of the state.
\<close>

definition v2_row_in_step :: "('m, 'e) v2_machine_ops \<Rightarrow> 'm \<Rightarrow> 'e v2_state \<Rightarrow> ('m, 'e) v2_node \<Rightarrow> bool" where
  "v2_row_in_step ops m s n \<longleftrightarrow>
     (\<exists>row. hm_get (vn_db n) (vo_id ops m) = Some row
        \<and> (\<forall>e. s = V2Entered e \<longrightarrow> sr_events row \<noteq> [] \<and> last (sr_events row) = e))"

text \<open>
  A machine whose states are ranked: each handler returns in the environments \<open>live\<close> describes,
  moves to a state of smaller rank, and keeps the property \<open>K\<close> of log and state.
\<close>

locale v2_ranked =
  fixes ops :: "('m, 'e) v2_machine_ops" and m :: 'm and rank :: "'e v2_state \<Rightarrow> nat"
    and live :: "v2_env \<Rightarrow> bool" and last_state :: "'e v2_state \<Rightarrow> bool" and K :: "v2_call list \<Rightarrow> 'e v2_state \<Rightarrow> bool"
  assumes returns: "live env \<Longrightarrow> vo_on_changed ops env m s \<noteq> None"
    and rank_pos: "0 < rank s"
    and rank_decreases: "vo_on_changed ops env m s = Some (Some e, cs) \<Longrightarrow> rank (V2Entered e) < rank s"
    and finishes: "vo_on_changed ops env m s = Some (None, cs) \<Longrightarrow> last_state s \<and> cs = []"
    and keeps: "K L s \<Longrightarrow> vo_on_changed ops env m s = Some (Some e, cs) \<Longrightarrow> K (L @ cs) (V2Entered e)"
begin

lemma round_returns:
  assumes "live env" "ve_store env = Inr ()" "v2_row_in_step ops m s n" "K (vn_calls n) s"
  shows "(\<exists>e n'. v2_round ops env m s n = Some n' \<and> vn_running n' = Some (m, V2Entered e)
            \<and> rank (V2Entered e) < rank s \<and> v2_row_in_step ops m (V2Entered e) n' \<and> K (vn_calls n') (V2Entered e))
       \<or> (\<exists>n'. v2_round ops env m s n = Some n' \<and> vn_running n' = None \<and> last_state s
            \<and> vn_calls n' = vn_calls n
            \<and> vn_db n' = mark_swap_v2_finished (vo_id ops m) (vn_db n)
            \<and> vn_ctx n' = v2_clean_up_context env (vo_id ops m) (vn_ctx n))"
proof -
  obtain nx cs where h: "vo_on_changed ops env m s = Some (nx, cs)"
    using returns[OF assms(1)] by fastforce
  show ?thesis
  proof (cases nx)
    case None
    then show ?thesis
      using h assms(2) finishes[of env s cs] by (simp add: v2_round_def v2_on_finished_def Let_def)
  next
    case (Some e)
    then have h': "vo_on_changed ops env m s = Some (Some e, cs)" using h by simp
    then show ?thesis
      using assms(2,3) rank_decreases[OF h'] keeps[OF assms(4) h']
      by (auto simp: v2_round_def v2_change_state_def Let_def map_err_def append_swap_v2_event_def
          v2_row_in_step_def hm_simps)
  qed
qed

theorem run_ends:
  assumes "\<And>i. live (envs i)" "\<And>i. ve_store (envs i) = Inr ()"
    "vn_running n = Some (m, s)" "v2_row_in_step ops m s n" "K (vn_calls n) s" "rank s \<le> fuel"
  shows "\<exists>n' s' row. v2_run ops envs fuel i n = Some n' \<and> vn_running n' = None
    \<and> last_state s' \<and> K (vn_calls n') s' \<and> v2_row_in_step ops m s' n'
    \<and> hm_get (vn_db n') (vo_id ops m) = Some row \<and> sr_is_finished row
    \<and> (\<exists>env ctx. env \<in> range envs \<and> vn_ctx n' = v2_clean_up_context env (vo_id ops m) ctx)"
  using assms(3-6)
proof (induction fuel arbitrary: n s i)
  case (Suc fuel)
  consider (step) e n' where "v2_round ops (envs i) m s n = Some n'" "vn_running n' = Some (m, V2Entered e)"
      "rank (V2Entered e) < rank s" "v2_row_in_step ops m (V2Entered e) n'" "K (vn_calls n') (V2Entered e)"
    | (stop) n' where "v2_round ops (envs i) m s n = Some n'" "vn_running n' = None" "last_state s"
      "vn_calls n' = vn_calls n" "vn_db n' = mark_swap_v2_finished (vo_id ops m) (vn_db n)"
      "vn_ctx n' = v2_clean_up_context (envs i) (vo_id ops m) (vn_ctx n)"
    using round_returns[OF assms(1,2) Suc.prems(2,3)] by blast
  then show ?case
  proof cases
    case step
    then have "rank (V2Entered e) \<le> fuel"
      using Suc.prems(4) by linarith
    then show ?thesis
      using Suc.IH[OF step(2,4,5)] step(1) Suc.prems(1) by (simp add: v2_run.simps[of _ _ "Suc fuel"])
  next
    case stop
    then show ?thesis
      using Suc.prems by (auto simp: v2_run.simps v2_row_in_step_def mark_swap_v2_finished_def hm_simps) blast+
  qed
qed (metis le_zero_eq less_irrefl rank_pos)

end

end
