(* ===== verification/MakerSwapV2.thy ===== *)
theory MakerSwapV2
  imports SwapV2Run
begin

text \<open>
  The maker's side of the second swap protocol (\<open>maker_swap_v2.rs\<close>): the events, the state machine,
  its states with the handler \<open>on_changed\<close> of each, the transitions the code declares, the row
  that is kept of a swap, and its restoration. A storable state has the fields of the event with
  its name, and \<open>get_event\<close> copies them, so a state other than \<open>Initialize\<close> is its event here.
\<close>

section \<open>Events and states\<close>

datatype (plugins only: code size) maker_v2_event =
    MvInitialized u64 u64 mm_number mm_number
  | MvWaitingForTakerFunding u64 u64 stored_maker_negotiation_data mm_number
  | MvTakerFundingReceived u64 u64 stored_maker_negotiation_data bytes mm_number
  | MvMakerPaymentSentFundingSpendGenerated u64 u64 stored_maker_negotiation_data bytes bytes stored_tx_preimage
  | MvMakerPaymentRefundRequired u64 u64 stored_maker_negotiation_data bytes abort_reason
  | MvMakerPaymentRefunded bytes bytes abort_reason
  | MvTakerPaymentReceived u64 u64 stored_maker_negotiation_data bytes bytes
  | MvTakerPaymentReceivedPreimageSkipped u64 u64 stored_maker_negotiation_data bytes bytes
  | MvTakerPaymentSpent u64 u64 bytes bytes bytes stored_maker_negotiation_data
  | MvAborted abort_reason
  | MvCompleted

text \<open>The transitions declared by \<open>TransitionFrom\<close>.\<close>

definition maker_v2_transition :: "maker_v2_event v2_state \<Rightarrow> maker_v2_event \<Rightarrow> bool" where
  "maker_v2_transition state next =
     (case state of
        V2Initialize \<Rightarrow>
          (case next of MvInitialized _ _ _ _ \<Rightarrow> True | MvAborted _ \<Rightarrow> True | _ \<Rightarrow> False)
      | V2Entered (MvInitialized _ _ _ _) \<Rightarrow>
          (case next of MvWaitingForTakerFunding _ _ _ _ \<Rightarrow> True | MvAborted _ \<Rightarrow> True | _ \<Rightarrow> False)
      | V2Entered (MvWaitingForTakerFunding _ _ _ _) \<Rightarrow>
          (case next of MvTakerFundingReceived _ _ _ _ _ \<Rightarrow> True | MvAborted _ \<Rightarrow> True | _ \<Rightarrow> False)
      | V2Entered (MvTakerFundingReceived _ _ _ _ _) \<Rightarrow>
          (case next of MvMakerPaymentSentFundingSpendGenerated _ _ _ _ _ _ \<Rightarrow> True | MvAborted _ \<Rightarrow> True | _ \<Rightarrow> False)
      | V2Entered (MvMakerPaymentSentFundingSpendGenerated _ _ _ _ _ _) \<Rightarrow>
          (case next of MvTakerPaymentReceived _ _ _ _ _ \<Rightarrow> True
             | MvTakerPaymentReceivedPreimageSkipped _ _ _ _ _ \<Rightarrow> True
             | MvMakerPaymentRefundRequired _ _ _ _ _ \<Rightarrow> True | _ \<Rightarrow> False)
      | V2Entered (MvTakerPaymentReceived _ _ _ _ _) \<Rightarrow>
          (case next of MvTakerPaymentSpent _ _ _ _ _ _ \<Rightarrow> True
             | MvMakerPaymentRefundRequired _ _ _ _ _ \<Rightarrow> True | _ \<Rightarrow> False)
      | V2Entered (MvTakerPaymentReceivedPreimageSkipped _ _ _ _ _) \<Rightarrow>
          (case next of MvTakerPaymentSpent _ _ _ _ _ _ \<Rightarrow> True
             | MvMakerPaymentRefundRequired _ _ _ _ _ \<Rightarrow> True | _ \<Rightarrow> False)
      | V2Entered (MvTakerPaymentSpent _ _ _ _ _ _) \<Rightarrow>
          (case next of MvCompleted \<Rightarrow> True | MvMakerPaymentRefundRequired _ _ _ _ _ \<Rightarrow> True | _ \<Rightarrow> False)
      | V2Entered (MvMakerPaymentRefundRequired _ _ _ _ _) \<Rightarrow>
          (case next of MvMakerPaymentRefunded _ _ _ \<Rightarrow> True | MvAborted _ \<Rightarrow> True | _ \<Rightarrow> False)
      | _ \<Rightarrow> False)"

record maker_v2 =
  m2_maker_volume :: mm_number
  m2_secret :: bytes
  m2_secret_hash_algo :: secret_hash_algo
  m2_started_at :: u64
  m2_lock_duration :: u64
  m2_taker_volume :: mm_number
  m2_taker_premium :: mm_number
  m2_conf_settings :: swap_confirmations_settings
  m2_uuid :: uuid
  m2_p2p_keypair :: "bytes option"
  m2_taker_p2p_pubkey :: bytes
  m2_require_taker_funding_confirm :: bool
  m2_require_taker_payment_spend_confirm :: bool
  m2_swap_version :: u8

definition m2_taker_payment_conf_timeout :: "maker_v2 \<Rightarrow> u64" where
  "m2_taker_payment_conf_timeout sm = m2_started_at sm + m2_lock_duration sm * 2 div 3"

definition m2_maker_payment_locktime :: "maker_v2 \<Rightarrow> u64" where
  "m2_maker_payment_locktime sm = m2_started_at sm + 2 * m2_lock_duration sm"

definition m2_secret_hash :: "v2_env \<Rightarrow> maker_v2 \<Rightarrow> bytes" where
  "m2_secret_hash env sm = hash_secret (ve_hashes env) (m2_secret_hash_algo sm) (m2_secret sm)"

definition m2_unique_data :: "v2_env \<Rightarrow> maker_v2 \<Rightarrow> bytes" where
  "m2_unique_data env sm = m2_secret_hash env sm"

type_synonym maker_v2_outcome = "maker_v2_event \<times> v2_call list"

section \<open>From the start to the taker's funding\<close>

definition m2_initialize :: "v2_env \<Rightarrow> maker_v2 \<Rightarrow> maker_v2_outcome" where
  "m2_initialize env sm =
     v2_next MvAborted
       (v2_bind (v2_ask (\<lambda>_. InternalReason ''Failed to get maker coin block'')
          (po_current_block (ve_maker_ops env))) (\<lambda>maker_coin_start_block.
        v2_bind (v2_ask (\<lambda>_. InternalReason ''Failed to get taker coin block'')
          (po_current_block (ve_taker_ops env))) (\<lambda>taker_coin_start_block.
        v2_bind (v2_ask (\<lambda>_. InternalReason ''Failed to get maker payment fee'')
          (map_err (\<lambda>_. []) (coin_sender_trade_fee (ve_maker_coin env)
             (Exact (ve_to_decimal env (m2_maker_volume sm))) StartSwap))) (\<lambda>maker_payment_trade_fee.
        v2_bind (v2_ask (\<lambda>_. InternalReason ''Failed to get taker payment spend fee'')
          (map_err (\<lambda>_. []) (coin_receiver_trade_fee (ve_taker_coin env) StartSwap)))
            (\<lambda>taker_payment_spend_trade_fee.
        v2_bind (v2_ask (\<lambda>_. InternalReason ''Failed to get spendable balance'')
          (map_err (\<lambda>_. []) (coin_spendable_balance (ve_maker_coin env)))) (\<lambda>spendable.
        v2_bind (v2_require
          (\<not> spendable < ve_to_decimal env (m2_maker_volume sm)
                          + ve_to_decimal env (tf_amount maker_payment_trade_fee))
          (InternalReason ''Insufficient balance'')) (\<lambda>_.
          v2_return (MvInitialized maker_coin_start_block taker_coin_start_block
            (tf_amount maker_payment_trade_fee) (tf_amount taker_payment_spend_trade_fee)))))))))"

definition m2_negotiation_msg :: "v2_env \<Rightarrow> maker_v2 \<Rightarrow> maker_negotiation v2_try" where
  "m2_negotiation_msg env sm =
     v2_bind (v2_ask (\<lambda>_. InternalReason ''Failed to derive maker-coin V2 HTLC pubkey'')
       (po_derive_htlc_pubkey (ve_maker_ops env) (m2_unique_data env sm))) (\<lambda>maker_coin_htlc_pub.
     v2_bind (v2_ask (\<lambda>_. InternalReason ''Failed to derive taker-coin V2 HTLC pubkey'')
       (po_derive_htlc_pubkey (ve_taker_ops env) (m2_unique_data env sm))) (\<lambda>taker_coin_htlc_pub.
     v2_bind (v2_ask (\<lambda>_. InternalReason ''Failed to select taker-coin V2 address'')
       (po_my_addr (ve_taker_ops env))) (\<lambda>taker_coin_address.
       v2_return
         \<lparr>mng_started_at = m2_started_at sm, mng_payment_locktime = m2_maker_payment_locktime sm,
          mng_secret_hash = m2_secret_hash env sm, mng_maker_coin_htlc_pub = maker_coin_htlc_pub,
          mng_taker_coin_htlc_pub = taker_coin_htlc_pub,
          mng_maker_coin_swap_contract = po_swap_contract_address (ve_maker_ops env),
          mng_taker_coin_swap_contract = po_swap_contract_address (ve_taker_ops env),
          mng_taker_coin_address = taker_coin_address\<rparr>)))"

definition m2_check_negotiation ::
  "v2_env \<Rightarrow> maker_v2 \<Rightarrow> taker_negotiation_action option \<Rightarrow> stored_maker_negotiation_data v2_try" where
  "m2_check_negotiation env sm action =
     v2_bind (case action of
         Some (NegotiationContinue d) \<Rightarrow> v2_return d
       | Some (NegotiationAbort reason) \<Rightarrow> ([], Inl (TakerAborted reason))
       | None \<Rightarrow> ([], Inl (NegotiationFailed ''Empty taker negotiation action''))) (\<lambda>d.
     v2_bind (v2_require (\<not> max_started_at_diff < u64_abs_diff (m2_started_at sm) (tng_started_at d))
       (NegotiationFailed ''started_at difference too large'')) (\<lambda>_.
     v2_bind (v2_require (tng_payment_locktime d = tng_started_at d + m2_lock_duration sm)
       (NegotiationFailed ''Unexpected taker payment locktime'')) (\<lambda>_.
     v2_bind (v2_require (tng_funding_locktime d = tng_started_at d + 3 * m2_lock_duration sm)
       (NegotiationFailed ''Unexpected taker funding locktime'')) (\<lambda>_.
     v2_bind (v2_ask (\<lambda>_. NegotiationFailed ''Invalid taker coin HTLC pubkey'')
       (po_parse_pubkey (ve_taker_ops env) (tng_taker_coin_htlc_pub d))) (\<lambda>_.
     v2_bind (v2_ask (\<lambda>_. NegotiationFailed ''Invalid taker's maker-coin HTLC pubkey'')
       (po_parse_pubkey (ve_maker_ops env) (tng_maker_coin_htlc_pub d))) (\<lambda>_.
       v2_return
         \<lparr>smn_taker_secret_hash = tng_taker_secret_hash d,
          smn_taker_coin_htlc_pub = tng_taker_coin_htlc_pub d,
          smn_maker_coin_htlc_pub = tng_maker_coin_htlc_pub d,
          smn_taker_coin_swap_contract = tng_taker_coin_swap_contract d,
          smn_maker_coin_swap_contract = tng_maker_coin_swap_contract d,
          smn_taker_payment_locktime = tng_payment_locktime d,
          smn_taker_funding_locktime = tng_funding_locktime d\<rparr>))))))"

definition m2_initialized :: "v2_env \<Rightarrow> maker_v2 \<Rightarrow> u64 \<Rightarrow> u64 \<Rightarrow> mm_number \<Rightarrow> maker_v2_outcome" where
  "m2_initialized env sm mb tb fee =
     v2_next MvAborted
       (v2_bind (m2_negotiation_msg env sm) (\<lambda>msg.
        v2_bind ([SentMessage (MakerNegotiationMsg msg)], Inr ()) (\<lambda>_.
        v2_bind (v2_ask (\<lambda>_. NegotiationTimeout) (ve_taker_negotiation env)) (\<lambda>action.
        v2_bind (m2_check_negotiation env sm action) (\<lambda>nd.
          v2_return (MvWaitingForTakerFunding mb tb nd fee))))))"

definition m2_waiting_for_taker_funding ::
  "v2_env \<Rightarrow> maker_v2 \<Rightarrow> u64 \<Rightarrow> u64 \<Rightarrow> stored_maker_negotiation_data \<Rightarrow> mm_number \<Rightarrow> maker_v2_outcome" where
  "m2_waiting_for_taker_funding env sm mb tb nd fee =
     v2_next MvAborted
       (v2_bind ([SentMessage (MakerNegotiatedMsg \<lparr>mgd_negotiated = True, mgd_reason = None\<rparr>)], Inr ()) (\<lambda>_.
        v2_bind (v2_ask (\<lambda>_. NegotiationFailed ''Did not receive taker funding info'') (ve_taker_funding env))
          (\<lambda>tx_bytes.
        v2_bind (v2_ask (\<lambda>_. FailedToValidateTx ''Failed to parse taker funding transaction'')
          (po_parse_tx (ve_taker_ops env) tx_bytes)) (\<lambda>_.
          v2_return (MvTakerFundingReceived mb tb nd tx_bytes fee)))))"

section \<open>The maker payment\<close>

definition m2_dex_fee :: "v2_env \<Rightarrow> maker_v2 \<Rightarrow> stored_maker_negotiation_data \<Rightarrow> dex_fee" where
  "m2_dex_fee env sm nd =
     compute_dex_fee_with_taker_pubkey (ve_net env) (ve_taker_coin env) (coin_ticker (ve_maker_coin env))
       (m2_taker_volume sm) (smn_taker_coin_htlc_pub nd)"

definition m2_funding_args ::
  "v2_env \<Rightarrow> maker_v2 \<Rightarrow> stored_maker_negotiation_data \<Rightarrow> transaction_identifier \<Rightarrow> bytes \<Rightarrow> validate_taker_funding_args" where
  "m2_funding_args env sm nd taker_funding taker_htlc_pub =
     \<lparr>vtf_funding_tx = taker_funding, vtf_funding_time_lock = smn_taker_funding_locktime nd,
      vtf_payment_time_lock = smn_taker_payment_locktime nd,
      vtf_taker_secret_hash = smn_taker_secret_hash nd, vtf_maker_secret_hash = m2_secret_hash env sm,
      vtf_taker_pub = taker_htlc_pub, vtf_dex_fee = m2_dex_fee env sm nd,
      vtf_premium_amount = ve_to_decimal env (m2_taker_premium sm),
      vtf_trading_amount = ve_to_decimal env (m2_taker_volume sm),
      vtf_swap_unique_data = m2_unique_data env sm\<rparr>"

definition m2_funding_spend_args ::
  "v2_env \<Rightarrow> maker_v2 \<Rightarrow> stored_maker_negotiation_data \<Rightarrow> transaction_identifier \<Rightarrow> bytes \<Rightarrow> bytes
    \<Rightarrow> gen_taker_funding_spend_args" where
  "m2_funding_spend_args env sm nd taker_funding maker_pub taker_pub =
     \<lparr>gfs_funding_tx = taker_funding, gfs_maker_pub = maker_pub, gfs_taker_pub = taker_pub,
      gfs_funding_time_lock = smn_taker_funding_locktime nd,
      gfs_taker_secret_hash = smn_taker_secret_hash nd,
      gfs_taker_payment_time_lock = smn_taker_payment_locktime nd,
      gfs_maker_secret_hash = m2_secret_hash env sm\<rparr>"

definition m2_payment_args ::
  "v2_env \<Rightarrow> maker_v2 \<Rightarrow> stored_maker_negotiation_data \<Rightarrow> bytes \<Rightarrow> send_maker_payment_args" where
  "m2_payment_args env sm nd taker_pub =
     \<lparr>smp_time_lock = m2_maker_payment_locktime sm, smp_taker_secret_hash = smn_taker_secret_hash nd,
      smp_maker_secret_hash = m2_secret_hash env sm, smp_amount = ve_to_decimal env (m2_maker_volume sm),
      smp_taker_pub = taker_pub, smp_swap_unique_data = m2_unique_data env sm\<rparr>"

definition m2_gate :: "maker_v2 \<Rightarrow> bytes \<Rightarrow> confirm_args" where
  "m2_gate sm tx =
     \<lparr>ca_tx = tx, ca_confirmations = confirmation_gate_confs (cs_taker_coin_confs (m2_conf_settings sm)),
      ca_requires_nota = cs_taker_coin_nota (m2_conf_settings sm), ca_wait_until = m2_maker_payment_locktime sm\<rparr>"

definition m2_confirm_taker_tx :: "v2_env \<Rightarrow> confirm_args \<Rightarrow> string \<Rightarrow> unit v2_try" where
  "m2_confirm_taker_tx env args what =
     v2_check (ConfirmedTx (coin_ticker (ve_taker_coin env)) args) (\<lambda>_. ConfirmationTimeout what)
       (po_wait_for_confirmations (ve_taker_ops env) args)"

definition m2_taker_funding_received ::
  "v2_env \<Rightarrow> maker_v2 \<Rightarrow> u64 \<Rightarrow> u64 \<Rightarrow> stored_maker_negotiation_data \<Rightarrow> bytes \<Rightarrow> maker_v2_outcome" where
  "m2_taker_funding_received env sm mb tb nd funding =
     v2_next MvAborted
       (v2_bind (v2_ask (\<lambda>_. FailedToValidateTx ''Failed to parse taker funding'')
          (po_parse_tx (ve_taker_ops env) funding)) (\<lambda>taker_funding.
        v2_bind (v2_ask (\<lambda>_. InternalReason ''Failed to parse taker HTLC pub'')
          (po_parse_pubkey (ve_taker_ops env) (smn_taker_coin_htlc_pub nd))) (\<lambda>taker_htlc_pub.
        v2_bind (v2_check (ValidatedTakerFunding (m2_funding_args env sm nd taker_funding taker_htlc_pub))
          (\<lambda>_. FailedToValidateTx ''Taker funding validation failed'')
          (to_validate_taker_funding (ve_taker_ops env) (m2_funding_args env sm nd taker_funding taker_htlc_pub))) (\<lambda>_.
        v2_bind (if m2_require_taker_funding_confirm sm
                 then m2_confirm_taker_tx env (m2_gate sm (tx_hex taker_funding))
                        ''Taker funding not confirmed in time''
                 else v2_return ()) (\<lambda>_.
        v2_bind (v2_ask (\<lambda>_. InternalReason ''Failed to derive maker taker-coin V2 HTLC pubkey'')
          (po_derive_htlc_pubkey (ve_taker_ops env) (m2_unique_data env sm))) (\<lambda>maker_taker_coin_pub.
        v2_bind (v2_ask (\<lambda>_. InternalReason ''Failed to generate funding spend preimage'')
          (to_gen_taker_funding_spend_preimage (ve_taker_ops env)
             (m2_funding_spend_args env sm nd taker_funding maker_taker_coin_pub taker_htlc_pub)
             (m2_unique_data env sm))) (\<lambda>preimage_result.
        v2_bind (v2_ask (\<lambda>_. InternalReason ''Failed to parse taker's maker-coin pub'')
          (po_parse_pubkey (ve_maker_ops env) (smn_maker_coin_htlc_pub nd))) (\<lambda>maker_coin_taker_pub.
        v2_bind (v2_send (SendMakerPaymentTx (m2_payment_args env sm nd maker_coin_taker_pub))
          (\<lambda>_. FailedToSendTx ''Maker payment send failed'')
          (mo_send_maker_payment (ve_maker_ops env) (m2_payment_args env sm nd maker_coin_taker_pub))) (\<lambda>maker_payment.
          v2_return (MvMakerPaymentSentFundingSpendGenerated mb tb nd (tx_hex maker_payment) funding
            \<lparr>stp_preimage = tps_preimage preimage_result,
             stp_signature = tps_signature preimage_result\<rparr>))))))))))"

section \<open>The taker payment\<close>

text \<open>
  The polling loop: its result is the transaction that moved the funding into the taker payment,
  or the reason for a refund. Round \<open>i\<close> sees the clock and the chain at that round.
\<close>

partial_function (option) m2_funding_poll ::
  "(nat \<Rightarrow> u64) \<Rightarrow> (nat \<Rightarrow> search_for_funding_spend_err + funding_tx_spend option) \<Rightarrow> u64 \<Rightarrow> nat
    \<Rightarrow> (abort_reason + transaction_identifier) option" where
  "m2_funding_poll now_ms search wait_until i =
     (if wait_until < now_ms i div 1000
      then Some (Inl (FundingSpendError ''Taker funding not spent in time''))
      else case search i of
             Inr (Some (TransferredToTakerPayment taker_payment)) \<Rightarrow> Some (Inr taker_payment)
           | Inr (Some (RefundedTimelock _)) \<Rightarrow>
               Some (Inl (FundingSpendError ''Taker funding reclaimed via timelock''))
           | Inr (Some (RefundedSecret _ _)) \<Rightarrow>
               Some (Inl (FundingSpendError ''Taker funding reclaimed via secret''))
           | Inr None \<Rightarrow> m2_funding_poll now_ms search wait_until (Suc i)
           | Inl (SearchRpc _) \<Rightarrow> m2_funding_poll now_ms search wait_until (Suc i)
           | Inl (SearchInvalid _) \<Rightarrow> Some (Inl (FundingSpendError ''Irrecoverable search error'')))"

declare m2_funding_poll.simps [code]

definition m2_payment_info :: "bytes \<Rightarrow> stored_tx_preimage \<Rightarrow> maker_payment_info" where
  "m2_payment_info mp pre =
     \<lparr>mpi_tx_bytes = mp, mpi_funding_preimage_sig = stp_signature pre,
      mpi_funding_preimage_tx = stp_preimage pre\<rparr>"

definition m2_maker_payment_sent ::
  "v2_env \<Rightarrow> maker_v2 \<Rightarrow> u64 \<Rightarrow> u64 \<Rightarrow> stored_maker_negotiation_data \<Rightarrow> bytes \<Rightarrow> bytes \<Rightarrow> stored_tx_preimage
    \<Rightarrow> maker_v2_outcome option" where
  "m2_maker_payment_sent env sm mb tb nd mp funding pre =
     (let failed = MvMakerPaymentRefundRequired mb tb nd mp;
          sent = SentMessage (MakerPaymentInfoMsg (m2_payment_info mp pre)) in
      case po_parse_tx (ve_taker_ops env) funding of
        Inl _ \<Rightarrow> Some (failed (InternalReason ''Failed to re-parse taker funding''), [sent])
      | Inr taker_funding \<Rightarrow>
          (case m2_funding_poll (ve_now_ms env)
                  (\<lambda>i. to_search_for_taker_funding_spend (ve_taker_ops env) i taker_funding tb (smn_taker_secret_hash nd))
                  (m2_started_at sm + m2_lock_duration sm * 2 div 3) 0 of
             None \<Rightarrow> None
           | Some (Inl reason) \<Rightarrow> Some (failed reason, [sent])
           | Some (Inr taker_payment) \<Rightarrow>
               Some (if to_skip_taker_payment_spend_preimage (ve_taker_ops env)
                     then MvTakerPaymentReceivedPreimageSkipped mb tb nd mp (tx_hex taker_payment)
                     else MvTakerPaymentReceived mb tb nd mp (tx_hex taker_payment),
                     [sent, FoundFundingSpend taker_funding taker_payment])))"

definition m2_confirm_payment_args :: "maker_v2 \<Rightarrow> bytes \<Rightarrow> confirm_args" where
  "m2_confirm_payment_args sm tp =
     \<lparr>ca_tx = tp, ca_confirmations = cs_taker_coin_confs (m2_conf_settings sm),
      ca_requires_nota = cs_taker_coin_nota (m2_conf_settings sm),
      ca_wait_until = m2_taker_payment_conf_timeout sm\<rparr>"

definition m2_payment_spend_args ::
  "v2_env \<Rightarrow> maker_v2 \<Rightarrow> stored_maker_negotiation_data \<Rightarrow> transaction_identifier \<Rightarrow> bytes \<Rightarrow> string \<Rightarrow> bytes
    \<Rightarrow> gen_taker_payment_spend_args" where
  "m2_payment_spend_args env sm nd tx maker_pub maker_addr taker_pub =
     \<lparr>gps_taker_tx = tx, gps_time_lock = smn_taker_payment_locktime nd,
      gps_maker_secret_hash = m2_secret_hash env sm, gps_maker_pub = maker_pub,
      gps_maker_address = maker_addr, gps_taker_pub = taker_pub, gps_dex_fee = m2_dex_fee env sm nd,
      gps_premium_amount = ve_to_decimal env (m2_taker_premium sm),
      gps_trading_amount = ve_to_decimal env (m2_taker_volume sm)\<rparr>"

text \<open>The steps from the parsing of the taker payment to the arguments of its spending.\<close>

definition m2_spend_args_try ::
  "v2_env \<Rightarrow> maker_v2 \<Rightarrow> stored_maker_negotiation_data \<Rightarrow> bytes \<Rightarrow> string
    \<Rightarrow> gen_taker_payment_spend_args v2_try" where
  "m2_spend_args_try env sm nd tp bad_pub =
     v2_bind (v2_ask (\<lambda>_. InternalReason ''Failed to re-parse taker payment'')
       (po_parse_tx (ve_taker_ops env) tp)) (\<lambda>tx.
     v2_bind (v2_ask (\<lambda>_. InternalReason ''Failed to derive taker-coin V2 HTLC pubkey'')
       (po_derive_htlc_pubkey (ve_taker_ops env) (m2_unique_data env sm))) (\<lambda>maker_pub.
     v2_bind (v2_ask (\<lambda>_. InternalReason ''Failed to select taker-coin V2 address'')
       (po_my_addr (ve_taker_ops env))) (\<lambda>maker_addr.
     v2_bind (v2_ask (\<lambda>_. InternalReason bad_pub)
       (po_parse_pubkey (ve_taker_ops env) (smn_taker_coin_htlc_pub nd))) (\<lambda>taker_pub.
       v2_return (m2_payment_spend_args env sm nd tx maker_pub maker_addr taker_pub)))))"

definition m2_taker_payment_received ::
  "v2_env \<Rightarrow> maker_v2 \<Rightarrow> u64 \<Rightarrow> u64 \<Rightarrow> stored_maker_negotiation_data \<Rightarrow> bytes \<Rightarrow> bytes \<Rightarrow> maker_v2_outcome" where
  "m2_taker_payment_received env sm mb tb nd mp tp =
     v2_next (MvMakerPaymentRefundRequired mb tb nd mp)
       (v2_bind (m2_confirm_taker_tx env (m2_confirm_payment_args sm tp) ''Taker payment not confirmed in time'') (\<lambda>_.
        v2_bind (v2_ask (\<lambda>_. NegotiationFailed ''Did not receive taker payment spend preimage'')
          (ve_taker_payment_spend_preimage env)) (\<lambda>(signature, preimage).
        v2_bind (v2_ask (\<lambda>_. InternalReason ''Failed to parse taker preimage'')
          (po_parse_preimage (ve_taker_ops env) preimage)) (\<lambda>tx_preimage.
        v2_bind (v2_ask (\<lambda>_. InternalReason ''Failed to parse taker signature'')
          (po_parse_signature (ve_taker_ops env) signature)) (\<lambda>sig.
        v2_bind (m2_spend_args_try env sm nd tp ''Failed to parse taker HTLC pub'') (\<lambda>args.
        let pre = \<lparr>tps_preimage = tx_preimage, tps_signature = sig\<rparr> in
        v2_bind (v2_check (ValidatedPaymentSpend args pre)
          (\<lambda>_. FailedToValidateTx ''Taker payment spend preimage invalid'')
          (to_validate_taker_payment_spend_preimage (ve_taker_ops env) args pre)) (\<lambda>_.
        v2_bind (v2_send (SpendTakerPaymentTx (Some pre) args (m2_secret sm))
          (\<lambda>_. FailedToSendTx ''Failed to spend taker payment'')
          (to_sign_and_broadcast_taker_payment_spend (ve_taker_ops env) (Some pre) args (m2_secret sm)
             (m2_unique_data env sm))) (\<lambda>spend.
          v2_return (MvTakerPaymentSpent mb tb mp tp (tx_hex spend) nd)))))))))"

definition m2_preimage_skipped ::
  "v2_env \<Rightarrow> maker_v2 \<Rightarrow> u64 \<Rightarrow> u64 \<Rightarrow> stored_maker_negotiation_data \<Rightarrow> bytes \<Rightarrow> bytes \<Rightarrow> maker_v2_outcome" where
  "m2_preimage_skipped env sm mb tb nd mp tp =
     v2_next (MvMakerPaymentRefundRequired mb tb nd mp)
       (v2_bind (m2_confirm_taker_tx env (m2_confirm_payment_args sm tp) ''Taker payment not confirmed in time'') (\<lambda>_.
        v2_bind (m2_spend_args_try env sm nd tp ''Failed to parse taker pub'') (\<lambda>args.
        v2_bind (v2_send (SpendTakerPaymentTx None args (m2_secret sm))
          (\<lambda>_. FailedToSendTx ''Failed to spend taker payment'')
          (to_sign_and_broadcast_taker_payment_spend (ve_taker_ops env) None args (m2_secret sm) [])) (\<lambda>spend.
          v2_return (MvTakerPaymentSpent mb tb mp tp (tx_hex spend) nd)))))"

definition m2_taker_payment_spent ::
  "v2_env \<Rightarrow> maker_v2 \<Rightarrow> u64 \<Rightarrow> u64 \<Rightarrow> bytes \<Rightarrow> bytes \<Rightarrow> stored_maker_negotiation_data \<Rightarrow> maker_v2_outcome" where
  "m2_taker_payment_spent env sm mb tb mp spend nd =
     v2_next (MvMakerPaymentRefundRequired mb tb nd mp)
       (v2_bind (if m2_require_taker_payment_spend_confirm sm
                 then m2_confirm_taker_tx env (m2_gate sm spend) ''Taker payment spend not confirmed in time''
                 else v2_return ()) (\<lambda>_.
          v2_return MvCompleted))"

section \<open>Refund and last states\<close>

definition m2_refund_args ::
  "v2_env \<Rightarrow> maker_v2 \<Rightarrow> stored_maker_negotiation_data \<Rightarrow> bytes \<Rightarrow> refund_maker_payment_timelock_args" where
  "m2_refund_args env sm nd mp =
     \<lparr>rmt_payment_tx = mp, rmt_time_lock = m2_maker_payment_locktime sm,
      rmt_taker_pub = smn_maker_coin_htlc_pub nd,
      rmt_tx_type = MakerPaymentV2Tx (m2_secret_hash env sm) (smn_taker_secret_hash nd),
      rmt_swap_unique_data = m2_unique_data env sm, rmt_amount = ve_to_decimal env (m2_maker_volume sm)\<rparr>"

definition m2_refund_required ::
  "v2_env \<Rightarrow> maker_v2 \<Rightarrow> stored_maker_negotiation_data \<Rightarrow> bytes \<Rightarrow> abort_reason \<Rightarrow> maker_v2_outcome option" where
  "m2_refund_required env sm nd mp reason =
     (case can_refund_loop
             (\<lambda>i. po_can_refund_htlc (ve_maker_ops env) i (m2_maker_payment_locktime sm)) 0 of
        None \<Rightarrow> None
      | Some _ \<Rightarrow> Some (v2_next MvAborted
          (v2_bind ([RefundAllowed (coin_ticker (ve_maker_coin env)) (m2_maker_payment_locktime sm)], Inr ()) (\<lambda>_.
           v2_bind (v2_send (RefundMakerPaymentTx (m2_refund_args env sm nd mp))
             (\<lambda>_. InternalReason ''Maker payment refund failed'')
             (mo_refund_maker_payment_timelock (ve_maker_ops env) (m2_refund_args env sm nd mp))) (\<lambda>refund_tx.
             v2_return (MvMakerPaymentRefunded mp (tx_hex refund_tx) reason))))))"

text \<open>
  The handler of a state: \<open>None\<close> when it never returns, otherwise the event of the next state
  (none in a last state) and the calls.
\<close>

fun maker_v2_on_changed ::
  "v2_env \<Rightarrow> maker_v2 \<Rightarrow> maker_v2_event v2_state \<Rightarrow> (maker_v2_event option \<times> v2_call list) option" where
  "maker_v2_on_changed env sm V2Initialize = Some (apfst Some (m2_initialize env sm))"
| "maker_v2_on_changed env sm (V2Entered (MvInitialized mb tb fee _)) =
     Some (apfst Some (m2_initialized env sm mb tb fee))"
| "maker_v2_on_changed env sm (V2Entered (MvWaitingForTakerFunding mb tb nd fee)) =
     Some (apfst Some (m2_waiting_for_taker_funding env sm mb tb nd fee))"
| "maker_v2_on_changed env sm (V2Entered (MvTakerFundingReceived mb tb nd funding _)) =
     Some (apfst Some (m2_taker_funding_received env sm mb tb nd funding))"
| "maker_v2_on_changed env sm (V2Entered (MvMakerPaymentSentFundingSpendGenerated mb tb nd mp funding pre)) =
     map_option (apfst Some) (m2_maker_payment_sent env sm mb tb nd mp funding pre)"
| "maker_v2_on_changed env sm (V2Entered (MvTakerPaymentReceived mb tb nd mp tp)) =
     Some (apfst Some (m2_taker_payment_received env sm mb tb nd mp tp))"
| "maker_v2_on_changed env sm (V2Entered (MvTakerPaymentReceivedPreimageSkipped mb tb nd mp tp)) =
     Some (apfst Some (m2_preimage_skipped env sm mb tb nd mp tp))"
| "maker_v2_on_changed env sm (V2Entered (MvTakerPaymentSpent mb tb mp _ spend nd)) =
     Some (apfst Some (m2_taker_payment_spent env sm mb tb mp spend nd))"
| "maker_v2_on_changed env sm (V2Entered (MvMakerPaymentRefundRequired _ _ nd mp reason)) =
     map_option (apfst Some) (m2_refund_required env sm nd mp reason)"
| "maker_v2_on_changed env sm (V2Entered (MvMakerPaymentRefunded _ _ _)) = Some (None, [])"
| "maker_v2_on_changed env sm (V2Entered (MvAborted _)) = Some (None, [])"
| "maker_v2_on_changed env sm (V2Entered MvCompleted) = Some (None, [])"

section \<open>Storage and context\<close>

definition maker_v2_to_db_repr :: "v2_env \<Rightarrow> maker_v2 \<Rightarrow> maker_v2_event swap_v2_db_repr" where
  "maker_v2_to_db_repr env sm =
     \<lparr>dr_maker_coin = coin_ticker (ve_maker_coin env), dr_maker_volume = m2_maker_volume sm,
      dr_secret = m2_secret sm, dr_secret_hash = m2_secret_hash env sm,
      dr_secret_hash_algo = m2_secret_hash_algo sm, dr_started_at = m2_started_at sm,
      dr_lock_duration = m2_lock_duration sm, dr_taker_coin = coin_ticker (ve_taker_coin env),
      dr_taker_volume = m2_taker_volume sm, dr_taker_premium = m2_taker_premium sm,
      dr_dex_fee_amount = 0, dr_dex_fee_burn = 0, dr_conf_settings = m2_conf_settings sm,
      dr_uuid = m2_uuid sm, dr_p2p_keypair = m2_p2p_keypair sm, dr_events = [],
      dr_other_p2p_pub = m2_taker_p2p_pubkey sm, dr_swap_version = m2_swap_version sm\<rparr>"

definition maker_v2_recreate ::
  "(bytes \<Rightarrow> bool) \<Rightarrow> uuid \<Rightarrow> maker_v2_event swap_v2_db_repr \<Rightarrow> string + maker_v2 \<times> maker_v2_event" where
  "maker_v2_recreate valid_private uuid repr =
     (if dr_events repr = [] then Inl ''NoEvents''
      else bind_res
        (case last (dr_events repr) of
           MvAborted _ \<Rightarrow> Inl ''Cannot recreate from Aborted''
         | MvCompleted \<Rightarrow> Inl ''Cannot recreate from Completed''
         | e \<Rightarrow> Inr e)
        (\<lambda>current_state. Inr
          (\<lparr>m2_maker_volume = dr_maker_volume repr, m2_secret = dr_secret repr,
            m2_secret_hash_algo = dr_secret_hash_algo repr, m2_started_at = dr_started_at repr,
            m2_lock_duration = dr_lock_duration repr, m2_taker_volume = dr_taker_volume repr,
            m2_taker_premium = dr_taker_premium repr, m2_conf_settings = dr_conf_settings repr,
            m2_uuid = uuid, m2_p2p_keypair = restore_keypair valid_private (dr_p2p_keypair repr),
            m2_taker_p2p_pubkey = dr_other_p2p_pub repr, m2_require_taker_funding_confirm = False,
            m2_require_taker_payment_spend_confirm = True, m2_swap_version = dr_swap_version repr\<rparr>,
           current_state)))"

text \<open>\<open>None\<close> is the panic of \<open>expect\<close> on the key of the taker.\<close>

definition maker_v2_init_additional_context ::
  "v2_wire \<Rightarrow> v2_env \<Rightarrow> maker_v2 \<Rightarrow> v2_context \<Rightarrow> v2_context option" where
  "maker_v2_init_additional_context w env sm ctx =
     (case vw_pubkey_from_slice w (m2_taker_p2p_pubkey sm) of
        Inl _ \<Rightarrow> None
      | Inr accept_from \<Rightarrow>
          Some (init_v2_msg_store (m2_uuid sm) accept_from
            (ctx\<lparr>vc_swaps := add_active_swap_v2
               \<lparr>av_uuid = m2_uuid sm, av_maker_coin = coin_ticker (ve_maker_coin env),
                av_taker_coin = coin_ticker (ve_taker_coin env), av_swap_type = maker_swap_v2_type\<rparr>
               (vc_swaps ctx)\<rparr>)))"

definition maker_v2_locked :: "v2_env \<Rightarrow> maker_v2 \<Rightarrow> mm_number \<Rightarrow> locked_amount_v2_info" where
  "maker_v2_locked env sm fee =
     \<lparr>lv_swap_uuid = m2_uuid sm,
      lv_locked_amount =
        \<lparr>la_coin = coin_ticker (ve_maker_coin env), la_amount = m2_maker_volume sm,
         la_trade_fee = Some \<lparr>tf_coin = coin_ticker (ve_maker_coin env), tf_amount = fee,
           tf_paid_from_trading_vol = False\<rparr>\<rparr>\<rparr>"

definition maker_v2_on_event :: "v2_env \<Rightarrow> maker_v2 \<Rightarrow> maker_v2_event \<Rightarrow> v2_context \<Rightarrow> v2_context" where
  "maker_v2_on_event env sm e ctx =
     (case e of
        MvInitialized _ _ fee _ \<Rightarrow>
          push_locked_v2 (coin_ticker (ve_maker_coin env)) (maker_v2_locked env sm fee) ctx
      | MvMakerPaymentSentFundingSpendGenerated _ _ _ _ _ _ \<Rightarrow>
          retain_locked_v2 (coin_ticker (ve_maker_coin env)) (m2_uuid sm) ctx
      | _ \<Rightarrow> ctx)"

definition maker_v2_on_kickstart_event :: "v2_env \<Rightarrow> maker_v2 \<Rightarrow> maker_v2_event \<Rightarrow> v2_context \<Rightarrow> v2_context" where
  "maker_v2_on_kickstart_event env sm e ctx =
     (let lock = (\<lambda>fee. push_locked_v2 (coin_ticker (ve_maker_coin env)) (maker_v2_locked env sm fee) ctx) in
      case e of
        MvInitialized _ _ fee _ \<Rightarrow> lock fee
      | MvWaitingForTakerFunding _ _ _ fee \<Rightarrow> lock fee
      | MvTakerFundingReceived _ _ _ _ fee \<Rightarrow> lock fee
      | _ \<Rightarrow> ctx)"

definition maker_v2_ops :: "v2_wire \<Rightarrow> (bytes \<Rightarrow> bool) \<Rightarrow> (maker_v2, maker_v2_event) v2_machine_ops" where
  "maker_v2_ops w valid_private =
     \<lparr>vo_id = m2_uuid, vo_swap_type = maker_swap_v2_type,
      vo_insert = (\<lambda>env m. insert_swap_v2_maker (ve_to_decimal env) (m2_uuid m) (maker_v2_to_db_repr env m)),
      vo_recreate = maker_v2_recreate valid_private, vo_on_changed = maker_v2_on_changed,
      vo_init_additional_context = maker_v2_init_additional_context w,
      vo_on_event = maker_v2_on_event, vo_on_kickstart_event = maker_v2_on_kickstart_event\<rparr>"

end
