(* ===== verification/MakerSwapV2Safety.thy ===== *)
theory MakerSwapV2Safety
  imports MakerSwapV2
begin

text \<open>
  Safety of the maker's side of the second swap protocol over every run of the theory
  \<open>SwapV2Run\<close>, with failing storage, stops in the middle of a handler and kick-starts: which
  checks stand behind the maker payment, behind the revealed secret and behind the refund.
\<close>

section \<open>What supports a call and a state\<close>

text \<open>A machine restored from the row of \<open>m0\<close> has the same identity, times, secret and settings.\<close>

definition m2_same :: "maker_v2 \<Rightarrow> maker_v2 \<Rightarrow> bool" where
  "m2_same m0 m \<longleftrightarrow>
     m2_uuid m = m2_uuid m0 \<and> m2_started_at m = m2_started_at m0 \<and> m2_lock_duration m = m2_lock_duration m0
     \<and> m2_secret m = m2_secret m0 \<and> m2_secret_hash_algo m = m2_secret_hash_algo m0
     \<and> m2_conf_settings m = m2_conf_settings m0"

text \<open>Lock times of the taker that the negotiation accepts.\<close>

definition m2_locktimes_ok :: "maker_v2 \<Rightarrow> u64 \<Rightarrow> u64 \<Rightarrow> bool" where
  "m2_locktimes_ok m0 payment_lock funding_lock \<longleftrightarrow>
     (\<exists>t. u64_abs_diff (m2_started_at m0) t \<le> max_started_at_diff
        \<and> payment_lock = t + m2_lock_duration m0 \<and> funding_lock = t + 3 * m2_lock_duration m0)"

text \<open>
  The payment \<open>a\<close> of the maker answers a validated funding \<open>v\<close> of the taker: both are locked to
  the same two secrets, and the lock times are those of the negotiation.
\<close>

definition m2_answers :: "v2_env \<Rightarrow> maker_v2 \<Rightarrow> validate_taker_funding_args \<Rightarrow> send_maker_payment_args \<Rightarrow> bool" where
  "m2_answers env0 m0 v a \<longleftrightarrow>
     smp_time_lock a = m2_maker_payment_locktime m0
     \<and> smp_maker_secret_hash a = m2_secret_hash env0 m0
     \<and> vtf_maker_secret_hash v = m2_secret_hash env0 m0
     \<and> vtf_taker_secret_hash v = smp_taker_secret_hash a
     \<and> m2_locktimes_ok m0 (vtf_payment_time_lock v) (vtf_funding_time_lock v)"

definition m2_call_ok :: "v2_env \<Rightarrow> maker_v2 \<Rightarrow> v2_call list \<Rightarrow> v2_call \<Rightarrow> bool" where
  "m2_call_ok env0 m0 L c =
     (case c of
        SendMakerPaymentTx a _ \<Rightarrow> \<exists>v. ValidatedTakerFunding v \<in> set L \<and> m2_answers env0 m0 v a
      | SpendTakerPaymentTx pre args secret _ \<Rightarrow>
          secret = m2_secret m0
          \<and> (\<exists>v a tx payment.
               ValidatedTakerFunding v \<in> set L \<and> SendMakerPaymentTx a (Inr tx) \<in> set L \<and> m2_answers env0 m0 v a
               \<and> FoundFundingSpend (vtf_funding_tx v) payment \<in> set L
               \<and> ConfirmedTx (coin_ticker (ve_taker_coin env0)) (m2_confirm_payment_args m0 (tx_hex payment)) \<in> set L
               \<and> po_parse_tx (ve_taker_ops env0) (tx_hex payment) = Inr (gps_taker_tx args)
               \<and> gps_time_lock args = vtf_payment_time_lock v
               \<and> gps_maker_secret_hash args = m2_secret_hash env0 m0)
          \<and> (\<forall>p. pre = Some p \<longrightarrow> ValidatedPaymentSpend args p \<in> set L)
      | RefundMakerPaymentTx r _ \<Rightarrow>
          RefundAllowed (coin_ticker (ve_maker_coin env0)) (rmt_time_lock r) \<in> set L
          \<and> (\<exists>v a tx. ValidatedTakerFunding v \<in> set L \<and> SendMakerPaymentTx a (Inr tx) \<in> set L \<and> m2_answers env0 m0 v a
               \<and> rmt_payment_tx r = tx_hex tx \<and> rmt_time_lock r = smp_time_lock a
               \<and> rmt_tx_type r = MakerPaymentV2Tx (smp_maker_secret_hash a) (smp_taker_secret_hash a))
      | _ \<Rightarrow> True)"

definition m2_nd_ok :: "maker_v2 \<Rightarrow> stored_maker_negotiation_data \<Rightarrow> bool" where
  "m2_nd_ok m0 nd = m2_locktimes_ok m0 (smn_taker_payment_locktime nd) (smn_taker_funding_locktime nd)"

definition m2_paid ::
  "v2_env \<Rightarrow> maker_v2 \<Rightarrow> v2_call list \<Rightarrow> stored_maker_negotiation_data \<Rightarrow> bytes \<Rightarrow> bytes \<Rightarrow> bool" where
  "m2_paid env0 m0 L nd mp funding \<longleftrightarrow>
     (\<exists>v a tx. ValidatedTakerFunding v \<in> set L \<and> SendMakerPaymentTx a (Inr tx) \<in> set L \<and> m2_answers env0 m0 v a
        \<and> tx_hex tx = mp \<and> po_parse_tx (ve_taker_ops env0) funding = Inr (vtf_funding_tx v)
        \<and> smp_taker_secret_hash a = smn_taker_secret_hash nd
        \<and> vtf_payment_time_lock v = smn_taker_payment_locktime nd)"

definition m2_moved ::
  "v2_env \<Rightarrow> maker_v2 \<Rightarrow> v2_call list \<Rightarrow> stored_maker_negotiation_data \<Rightarrow> bytes \<Rightarrow> bytes \<Rightarrow> bool" where
  "m2_moved env0 m0 L nd mp tp \<longleftrightarrow>
     (\<exists>funding funding_tx payment. m2_paid env0 m0 L nd mp funding
        \<and> po_parse_tx (ve_taker_ops env0) funding = Inr funding_tx
        \<and> FoundFundingSpend funding_tx payment \<in> set L \<and> tx_hex payment = tp)"

definition m2_state_ok :: "v2_env \<Rightarrow> maker_v2 \<Rightarrow> v2_call list \<Rightarrow> maker_v2_event v2_state \<Rightarrow> bool" where
  "m2_state_ok env0 m0 L s =
     (case s of
        V2Entered (MvWaitingForTakerFunding _ _ nd _) \<Rightarrow> m2_nd_ok m0 nd
      | V2Entered (MvTakerFundingReceived _ _ nd _ _) \<Rightarrow> m2_nd_ok m0 nd
      | V2Entered (MvMakerPaymentSentFundingSpendGenerated _ _ nd mp funding _) \<Rightarrow> m2_paid env0 m0 L nd mp funding
      | V2Entered (MvTakerPaymentReceived _ _ nd mp tp) \<Rightarrow> m2_moved env0 m0 L nd mp tp
      | V2Entered (MvTakerPaymentReceivedPreimageSkipped _ _ nd mp tp) \<Rightarrow> m2_moved env0 m0 L nd mp tp
      | V2Entered (MvTakerPaymentSpent _ _ mp tp _ nd) \<Rightarrow> m2_moved env0 m0 L nd mp tp
      | V2Entered (MvMakerPaymentRefundRequired _ _ nd mp _) \<Rightarrow> \<exists>funding. m2_paid env0 m0 L nd mp funding
      | _ \<Rightarrow> True)"

text \<open>The row of the swap carries what \<open>m2_same\<close> compares.\<close>

definition m2_row_of :: "maker_v2 \<Rightarrow> maker_v2_event swap_v2_row \<Rightarrow> bool" where
  "m2_row_of m0 row \<longleftrightarrow>
     sr_started_at row = m2_started_at m0 \<and> sr_lock_duration row = m2_lock_duration m0
     \<and> sr_secret row = m2_secret m0
     \<and> sr_secret_hash_algo row = secret_hash_algo_to_i64 (m2_secret_hash_algo m0)
     \<and> sr_maker_coin_confs row = cs_maker_coin_confs (m2_conf_settings m0)
     \<and> sr_maker_coin_nota row = bool_to_i64 (cs_maker_coin_nota (m2_conf_settings m0))
     \<and> sr_taker_coin_confs row = cs_taker_coin_confs (m2_conf_settings m0)
     \<and> sr_taker_coin_nota row = bool_to_i64 (cs_taker_coin_nota (m2_conf_settings m0))"

section \<open>The handlers\<close>

lemma m2_paid_grows [intro]: "m2_paid env0 m0 L nd mp f \<Longrightarrow> m2_paid env0 m0 (L @ cs) nd mp f"
  by (auto simp: m2_paid_def)

lemma m2_moved_grows [intro]: "m2_moved env0 m0 L nd mp tp \<Longrightarrow> m2_moved env0 m0 (L @ cs) nd mp tp"
  unfolding m2_moved_def by (metis UnI1 m2_paid_grows set_append)

lemma m2_state_ok_grows: "m2_state_ok env0 m0 L s \<Longrightarrow> m2_state_ok env0 m0 (L @ cs) s"
  by (auto simp: m2_state_ok_def split: v2_state.splits maker_v2_event.splits)

lemma m2_moved_paid: "m2_moved env0 m0 L nd mp tp \<Longrightarrow> \<exists>funding. m2_paid env0 m0 L nd mp funding"
  by (auto simp: m2_moved_def)

lemma m2_same_hash:
  "v2_world env0 env \<Longrightarrow> m2_same m0 m \<Longrightarrow> m2_secret_hash env m = m2_secret_hash env0 m0"
  by (simp add: m2_secret_hash_def v2_world_def m2_same_def)

lemma m2_same_locktime: "m2_same m0 m \<Longrightarrow> m2_maker_payment_locktime m = m2_maker_payment_locktime m0"
  by (simp add: m2_maker_payment_locktime_def m2_same_def)

lemma m2_same_confirm: "m2_same m0 m \<Longrightarrow> m2_confirm_payment_args m tp = m2_confirm_payment_args m0 tp"
  by (simp add: m2_confirm_payment_args_def m2_taker_payment_conf_timeout_def m2_same_def)

lemmas m2_same_simps = m2_same_hash m2_same_locktime m2_same_confirm

text \<open>The outcome of a handler is supported by the log.\<close>

definition m2_outcome_ok :: "v2_env \<Rightarrow> maker_v2 \<Rightarrow> v2_call list \<Rightarrow> maker_v2_outcome \<Rightarrow> bool" where
  "m2_outcome_ok env0 m0 L out \<longleftrightarrow>
     log_from (m2_call_ok env0 m0) L (snd out) \<and> m2_state_ok env0 m0 (L @ snd out) (V2Entered (fst out))"

lemma m2_outcome_okI:
  assumes "v2_ok (m2_call_ok env0 m0) L m (\<lambda>L' e. m2_state_ok env0 m0 L' (V2Entered e))"
    "\<And>cs reason. m2_state_ok env0 m0 (L @ cs) (V2Entered (failed reason))"
  shows "m2_outcome_ok env0 m0 L (v2_next failed m)"
  using v2_ok_next[of "m2_call_ok env0 m0" L m "\<lambda>L' e. m2_state_ok env0 m0 L' (V2Entered e)" failed] assms
  by (simp add: m2_outcome_ok_def)

lemma m2_negotiation_checked:
  assumes "m2_same m0 m" "\<And>nd. m2_nd_ok m0 nd \<Longrightarrow> Q L nd"
  shows "v2_ok (m2_call_ok env0 m0) L (m2_check_negotiation env m action) Q"
  unfolding m2_check_negotiation_def
  using assms
  by (auto intro!: v2_ok_intros simp: m2_nd_ok_def m2_locktimes_ok_def m2_same_def not_less
      split: option.splits taker_negotiation_action.splits)

lemma m2_initialize_ok: "m2_outcome_ok env0 m0 L (m2_initialize env m)"
  unfolding m2_initialize_def
  by (intro m2_outcome_okI v2_ok_intros) (simp_all add: m2_state_ok_def)

lemma m2_initialized_ok:
  assumes "m2_same m0 m"
  shows "m2_outcome_ok env0 m0 L (m2_initialized env m mb tb fee)"
  unfolding m2_initialized_def m2_negotiation_msg_def
  by (intro m2_outcome_okI v2_ok_intros m2_negotiation_checked[OF assms])
    (simp_all add: m2_state_ok_def m2_call_ok_def)

lemma m2_waiting_ok:
  assumes "m2_nd_ok m0 nd"
  shows "m2_outcome_ok env0 m0 L (m2_waiting_for_taker_funding env m mb tb nd fee)"
  unfolding m2_waiting_for_taker_funding_def
  by (intro m2_outcome_okI v2_ok_intros) (simp_all add: m2_state_ok_def m2_call_ok_def assms)

lemma m2_funding_answered:
  assumes "v2_world env0 env" "m2_same m0 m" "m2_nd_ok m0 nd"
  shows "m2_answers env0 m0 (m2_funding_args env m nd f p) (m2_payment_args env m nd q)"
  using assms by (simp add: m2_answers_def m2_funding_args_def m2_payment_args_def m2_same_simps m2_nd_ok_def)

lemma m2_send_ok:
  assumes "v2_world env0 env" "m2_same m0 m" "m2_nd_ok m0 nd"
    "ValidatedTakerFunding (m2_funding_args env m nd f p) \<in> set L"
  shows "m2_call_ok env0 m0 L (SendMakerPaymentTx (m2_payment_args env m nd q) r)"
  using assms(4) m2_funding_answered[OF assms(1-3)] by (auto simp: m2_call_ok_def)

lemma m2_paidI:
  assumes "v2_world env0 env" "m2_same m0 m" "m2_nd_ok m0 nd"
    "ValidatedTakerFunding (m2_funding_args env m nd f p) \<in> set L"
    "SendMakerPaymentTx (m2_payment_args env m nd q) (Inr tx) \<in> set L"
    "po_parse_tx (ve_taker_ops env) funding = Inr f"
  shows "m2_paid env0 m0 L nd (tx_hex tx) funding"
  unfolding m2_paid_def
  using assms m2_funding_answered[OF assms(1-3), of f p q]
  by (intro exI[of _ "m2_funding_args env m nd f p"] exI[of _ "m2_payment_args env m nd q"] exI[of _ tx])
    (simp add: m2_funding_args_def m2_payment_args_def v2_world_def)

lemma m2_taker_funding_received_ok:
  assumes "v2_world env0 env" "m2_same m0 m" "m2_nd_ok m0 nd"
  shows "m2_outcome_ok env0 m0 L (m2_taker_funding_received env m mb tb nd funding)"
  unfolding m2_taker_funding_received_def m2_confirm_taker_tx_def
  by (intro m2_outcome_okI v2_ok_intros)
    (auto simp: m2_state_ok_def intro: m2_send_ok[OF assms] m2_paidI[OF assms], (simp add: m2_call_ok_def)+)

lemma m2_maker_payment_sent_ok:
  assumes "v2_world env0 env" "m2_paid env0 m0 L nd mp funding"
    "m2_maker_payment_sent env m mb tb nd mp funding pre = Some out"
  shows "m2_outcome_ok env0 m0 L out"
proof -
  have moved: "m2_moved env0 m0 (L @ [c, FoundFundingSpend f tp]) nd mp (tx_hex tp)"
    if "po_parse_tx (ve_taker_ops env) funding = Inr f" for c f tp
    using that assms(1) m2_paid_grows[OF assms(2)] by (fastforce simp: m2_moved_def v2_world_def)
  have "\<exists>funding. m2_paid env0 m0 (L @ cs) nd mp funding" for cs
    using assms(2) by blast
  then show ?thesis
    using assms(3) moved
    by (auto simp: m2_maker_payment_sent_def Let_def m2_outcome_ok_def m2_call_ok_def m2_state_ok_def
        split: sum.splits option.splits if_splits)
qed

lemma m2_spend_args_ok:
  assumes "v2_world env0 env" "m2_same m0 m"
    "\<And>tx mpub addr tpub. po_parse_tx (ve_taker_ops env0) tp = Inr tx
      \<Longrightarrow> Q L (m2_payment_spend_args env m nd tx mpub addr tpub)"
  shows "v2_ok J L (m2_spend_args_try env m nd tp what) Q"
  unfolding m2_spend_args_try_def
  using assms by (intro v2_ok_intros) (simp_all add: v2_world_def)

lemma m2_spend_ok:
  assumes "v2_world env0 env" "m2_same m0 m" "m2_moved env0 m0 L nd mp tp"
    "po_parse_tx (ve_taker_ops env0) tp = Inr tx"
    "ConfirmedTx (coin_ticker (ve_taker_coin env)) (m2_confirm_payment_args m tp) \<in> set L"
    "\<And>p. pre = Some p \<Longrightarrow> ValidatedPaymentSpend (m2_payment_spend_args env m nd tx mpub addr tpub) p \<in> set L"
  shows "m2_call_ok env0 m0 L
    (SpendTakerPaymentTx pre (m2_payment_spend_args env m nd tx mpub addr tpub) (m2_secret m) r)"
proof -
  obtain funding f payment where moved: "m2_paid env0 m0 L nd mp funding"
    "po_parse_tx (ve_taker_ops env0) funding = Inr f" "FoundFundingSpend f payment \<in> set L" "tx_hex payment = tp"
    using assms(3) by (auto simp: m2_moved_def)
  then obtain v a t where "ValidatedTakerFunding v \<in> set L" "SendMakerPaymentTx a (Inr t) \<in> set L"
    "m2_answers env0 m0 v a" "f = vtf_funding_tx v" "vtf_payment_time_lock v = smn_taker_payment_locktime nd"
    by (auto simp: m2_paid_def)
  moreover have "ConfirmedTx (coin_ticker (ve_taker_coin env0)) (m2_confirm_payment_args m0 (tx_hex payment)) \<in> set L"
    using assms(1,5) moved(4) m2_same_confirm[OF assms(2)] by (simp add: v2_world_def)
  ultimately show ?thesis
    using assms(2,4,6) moved m2_same_hash[OF assms(1,2)]
    by (simp add: m2_call_ok_def m2_payment_spend_args_def m2_same_def) metis
qed

lemma m2_refund_state_grows:
  "m2_moved env0 m0 L nd mp tp \<Longrightarrow> m2_state_ok env0 m0 (L @ cs) (V2Entered (MvMakerPaymentRefundRequired mb tb nd mp r))"
  by (auto simp: m2_state_ok_def dest: m2_moved_paid)

lemma m2_taker_payment_received_ok:
  assumes "v2_world env0 env" "m2_same m0 m" "m2_moved env0 m0 L nd mp tp"
  shows "m2_outcome_ok env0 m0 L (m2_taker_payment_received env m mb tb nd mp tp)"
  unfolding m2_taker_payment_received_def m2_confirm_taker_tx_def Let_def split_def
  by (intro m2_outcome_okI m2_refund_state_grows[OF assms(3)] v2_ok_intros m2_spend_args_ok[OF assms(1,2)])
    (auto simp: m2_state_ok_def assms(3) intro!: m2_spend_ok[OF assms(1,2) m2_moved_grows[OF assms(3)]], (simp add: m2_call_ok_def)+)

lemma m2_preimage_skipped_ok:
  assumes "v2_world env0 env" "m2_same m0 m" "m2_moved env0 m0 L nd mp tp"
  shows "m2_outcome_ok env0 m0 L (m2_preimage_skipped env m mb tb nd mp tp)"
  unfolding m2_preimage_skipped_def m2_confirm_taker_tx_def
  by (intro m2_outcome_okI m2_refund_state_grows[OF assms(3)] v2_ok_intros m2_spend_args_ok[OF assms(1,2)])
    (auto simp: m2_state_ok_def assms(3) intro!: m2_spend_ok[OF assms(1,2) m2_moved_grows[OF assms(3)]], (simp add: m2_call_ok_def)+)

lemma m2_taker_payment_spent_ok:
  assumes "m2_moved env0 m0 L nd mp tp"
  shows "m2_outcome_ok env0 m0 L (m2_taker_payment_spent env m mb tb mp spend nd)"
  unfolding m2_taker_payment_spent_def m2_confirm_taker_tx_def
  by (intro m2_outcome_okI m2_refund_state_grows[OF assms] v2_ok_intros) (simp_all add: m2_call_ok_def m2_state_ok_def)

lemma m2_refund_required_ok:
  assumes "v2_world env0 env" "m2_same m0 m" "m2_paid env0 m0 L nd mp funding"
    "m2_refund_required env m nd mp reason = Some out"
  shows "m2_outcome_ok env0 m0 L out"
proof -
  have refund: "m2_call_ok env0 m0 (L @ [RefundAllowed (coin_ticker (ve_maker_coin env)) (m2_maker_payment_locktime m)])
      (RefundMakerPaymentTx (m2_refund_args env m nd mp) r)" for r
    using assms m2_same_hash[OF assms(1,2)] m2_same_locktime[OF assms(2)]
    by (fastforce simp: m2_call_ok_def m2_paid_def m2_refund_args_def v2_world_def m2_answers_def)
  show ?thesis
    using assms(4) unfolding m2_refund_required_def
    by (auto split: option.splits intro!: m2_outcome_okI v2_ok_intros refund
        simp: m2_state_ok_def, simp add: m2_call_ok_def)
qed

lemma m2_handler_ok:
  assumes "v2_world env0 env" "m2_same m0 m" "m2_state_ok env0 m0 L s"
    "maker_v2_on_changed env m s = Some (next, calls)"
  shows "log_from (m2_call_ok env0 m0) L calls
    \<and> (\<forall>e. next = Some e \<longrightarrow> m2_state_ok env0 m0 (L @ calls) (V2Entered e))"
proof -
  have "(next = None \<and> calls = []) \<or> (\<exists>e. next = Some e \<and> m2_outcome_ok env0 m0 L (e, calls))"
    using assms(3,4)
    by (cases "(env, m, s)" rule: maker_v2_on_changed.cases)
      (auto simp: m2_state_ok_def apfst_Some_eq m2_initialize_ok m2_initialized_ok[OF assms(2)] m2_waiting_ok
        m2_taker_funding_received_ok[OF assms(1,2)] m2_taker_payment_received_ok[OF assms(1,2)]
        m2_preimage_skipped_ok[OF assms(1,2)]
        intro: m2_maker_payment_sent_ok[OF assms(1)] m2_taker_payment_spent_ok m2_refund_required_ok[OF assms(1,2)])
  then show ?thesis by (auto simp: m2_outcome_ok_def)
qed

section \<open>Every run\<close>

text \<open>A secret is an \<open>H256\<close>, thus of 32 bytes.\<close>

definition m2_h256 :: "maker_v2 \<Rightarrow> maker_v2" where
  "m2_h256 m = m\<lparr>m2_secret := secret_arr (m2_secret m)\<rparr>"

lemma m2_h256_id: "length (m2_secret m) = 32 \<Longrightarrow> m2_h256 m = m"
  by (simp add: m2_h256_def)

lemma m2_row_inserted:
  assumes "m2_same m0 m" "insert_swap_v2_maker d (m2_uuid m) (maker_v2_to_db_repr env m) db = Inr db'"
  shows "\<exists>row. db' = hm_insert (m2_uuid m0) row db \<and> m2_row_of m0 row \<and> sr_events row = []"
  using assms
  by (auto simp: insert_swap_v2_maker_def insert_swap_v2_row_def m2_row_of_def new_swap_v2_row_def
      maker_v2_to_db_repr_def m2_same_def split: if_splits)

lemma m2_row_restored:
  assumes "m2_row_of m0 row" "length (m2_secret m0) = 32" "hm_get db (m2_uuid m0) = Some row"
    "bind_res (get_swap_repr (m2_uuid m0) maker_swap_v2_type db) (maker_v2_recreate vp (m2_uuid m0)) = Inr (m, e)"
  shows "m2_same m0 m \<and> sr_events row \<noteq> [] \<and> e = last (sr_events row)"
  using assms
  by (auto simp: bind_res_Inr_iff get_swap_repr_def maker_v2_recreate_def m2_same_def m2_row_of_def
      split: if_splits maker_v2_event.splits)

interpretation m2: v2_side "maker_v2_ops w vp" "v2_world env0" "m2_h256 m0" "m2_same (m2_h256 m0)"
    "m2_call_ok env0 (m2_h256 m0)" "m2_state_ok env0 (m2_h256 m0)" "m2_row_of (m2_h256 m0)"
  for w vp env0 m0
proof (unfold_locales, goal_cases)
  case (6 env m db db')
  then show ?case using m2_row_inserted by (simp add: maker_v2_ops_def)
next
  case (9 row db m e)
  then show ?case using m2_row_restored[OF 9(1)] by (simp add: maker_v2_ops_def m2_h256_def)
next
  case (5 env m L s nx calls)
  then show ?case using m2_handler_ok by (simp add: maker_v2_ops_def)
qed (simp_all add: maker_v2_ops_def m2_same_def m2_row_of_def m2_state_ok_grows, simp add: m2_state_ok_def)

section \<open>What a run shows\<close>

lemma m2_run_justified:
  assumes "v2_reach (maker_v2_ops w vp) (v2_world env0) m0 n" "length (m2_secret m0) = 32" "i < length (vn_calls n)"
  shows "m2_call_ok env0 m0 (take i (vn_calls n)) (vn_calls n ! i)"
  using m2.calls_justified[of w vp env0 m0 n i] assms by (simp add: m2_h256_id)

text \<open>
  C16: The maker of the second protocol reveals its secret only for a taker payment that it found
  on the chain and saw confirmed. In every run, with failing storage, stops in the middle of a
  handler and kick-starts, a transaction that spends the taker payment comes after: the validation
  of the taker funding, a maker payment that was sent and is locked to the same two secrets, the
  finding of the transaction that moved this very funding, and its confirmations with the
  settings of the swap. Where the taker sends a preimage, it was validated for the same arguments.
\<close>

theorem maker_v2_secret_revealed_safely:
  assumes "v2_reach (maker_v2_ops w vp) (v2_world env0) m0 n" "length (m2_secret m0) = 32"
    "i < length (vn_calls n)" "vn_calls n ! i = SpendTakerPaymentTx pre args secret r"
  shows "secret = m2_secret m0
    \<and> (\<exists>v a tx payment.
         {ValidatedTakerFunding v, SendMakerPaymentTx a (Inr tx), FoundFundingSpend (vtf_funding_tx v) payment,
          ConfirmedTx (coin_ticker (ve_taker_coin env0)) (m2_confirm_payment_args m0 (tx_hex payment))}
           \<subseteq> set (take i (vn_calls n))
         \<and> vtf_maker_secret_hash v = m2_secret_hash env0 m0 \<and> smp_maker_secret_hash a = m2_secret_hash env0 m0
         \<and> vtf_taker_secret_hash v = smp_taker_secret_hash a
         \<and> po_parse_tx (ve_taker_ops env0) (tx_hex payment) = Inr (gps_taker_tx args)
         \<and> gps_time_lock args = vtf_payment_time_lock v
         \<and> gps_maker_secret_hash args = m2_secret_hash env0 m0)
    \<and> (case pre of None \<Rightarrow> True | Some p \<Rightarrow> ValidatedPaymentSpend args p \<in> set (take i (vn_calls n)))"
proof -
  have ok: "m2_call_ok env0 m0 (take i (vn_calls n)) (SpendTakerPaymentTx pre args secret r)"
    using m2_run_justified[OF assms(1-3)] assms(4) by simp
  then obtain v a tx payment where
    "ValidatedTakerFunding v \<in> set (take i (vn_calls n))" "SendMakerPaymentTx a (Inr tx) \<in> set (take i (vn_calls n))"
    "m2_answers env0 m0 v a" "FoundFundingSpend (vtf_funding_tx v) payment \<in> set (take i (vn_calls n))"
    "ConfirmedTx (coin_ticker (ve_taker_coin env0)) (m2_confirm_payment_args m0 (tx_hex payment)) \<in> set (take i (vn_calls n))"
    "po_parse_tx (ve_taker_ops env0) (tx_hex payment) = Inr (gps_taker_tx args)"
    "gps_time_lock args = vtf_payment_time_lock v" "gps_maker_secret_hash args = m2_secret_hash env0 m0"
    unfolding m2_call_ok_def by auto
  then have "\<exists>v a tx payment.
         {ValidatedTakerFunding v, SendMakerPaymentTx a (Inr tx), FoundFundingSpend (vtf_funding_tx v) payment,
          ConfirmedTx (coin_ticker (ve_taker_coin env0)) (m2_confirm_payment_args m0 (tx_hex payment))}
           \<subseteq> set (take i (vn_calls n))
         \<and> vtf_maker_secret_hash v = m2_secret_hash env0 m0 \<and> smp_maker_secret_hash a = m2_secret_hash env0 m0
         \<and> vtf_taker_secret_hash v = smp_taker_secret_hash a
         \<and> po_parse_tx (ve_taker_ops env0) (tx_hex payment) = Inr (gps_taker_tx args)
         \<and> gps_time_lock args = vtf_payment_time_lock v
         \<and> gps_maker_secret_hash args = m2_secret_hash env0 m0"
    by (intro exI[of _ v] exI[of _ a] exI[of _ tx] exI[of _ payment]) (simp add: m2_answers_def)
  then show ?thesis using ok by (simp add: m2_call_ok_def split: option.splits)
qed

lemma u64_abs_diff_le:
  assumes "u64_abs_diff s t \<le> 60"
  shows "unat t \<le> unat s + 60 \<and> unat s \<le> unat t + 60"
  using assms by (auto simp: u64_abs_diff_def word_le_nat_alt word_less_nat_alt unat_sub split: if_splits)

lemma m2_locktimes_margin:
  assumes "m2_locktimes_ok m0 p f" "unat (m2_started_at m0) + 3 * unat (m2_lock_duration m0) + 60 < 2 ^ 64"
  shows "unat p + unat (m2_lock_duration m0) \<le> unat (m2_maker_payment_locktime m0) + 60
    \<and> unat (m2_maker_payment_locktime m0) \<le> unat p + unat (m2_lock_duration m0) + 60
    \<and> unat f = unat p + 2 * unat (m2_lock_duration m0)"
proof -
  obtain t where t: "u64_abs_diff (m2_started_at m0) t \<le> 60" "p = t + m2_lock_duration m0"
    "f = t + 3 * m2_lock_duration m0"
    using assms(1) by (auto simp: m2_locktimes_ok_def max_started_at_diff_def)
  note d = u64_abs_diff_le[OF t(1)]
  have "unat p = unat t + unat (m2_lock_duration m0)" "unat f = unat t + 3 * unat (m2_lock_duration m0)"
    "unat (m2_maker_payment_locktime m0) = unat (m2_started_at m0) + 2 * unat (m2_lock_duration m0)"
    using assms(2) d t(2,3) by (simp_all add: m2_maker_payment_locktime_def unat_word_ariths)
  then show ?thesis using d by linarith
qed

text \<open>
  C18: The maker of the second protocol pays only against a funding that it validated, and with
  enough time. In every run a maker payment comes after the validation of a taker funding that is
  locked to the same two secrets; the maker payment is locked for twice the agreed duration after
  the maker's start, the taker payment ends one duration before that, up to the tolerated minute
  between the two clocks, and the funding is locked two durations longer than the taker payment.
\<close>

theorem maker_v2_payment_backed:
  assumes "v2_reach (maker_v2_ops w vp) (v2_world env0) m0 n" "length (m2_secret m0) = 32"
    "i < length (vn_calls n)" "vn_calls n ! i = SendMakerPaymentTx a r"
    "unat (m2_started_at m0) + 3 * unat (m2_lock_duration m0) + 60 < 2 ^ 64"
  shows "\<exists>v. ValidatedTakerFunding v \<in> set (take i (vn_calls n))
    \<and> smp_maker_secret_hash a = m2_secret_hash env0 m0 \<and> vtf_maker_secret_hash v = m2_secret_hash env0 m0
    \<and> smp_taker_secret_hash a = vtf_taker_secret_hash v
    \<and> smp_time_lock a = m2_maker_payment_locktime m0
    \<and> unat (vtf_payment_time_lock v) + unat (m2_lock_duration m0) \<le> unat (smp_time_lock a) + 60
    \<and> unat (smp_time_lock a) \<le> unat (vtf_payment_time_lock v) + unat (m2_lock_duration m0) + 60
    \<and> unat (vtf_funding_time_lock v) = unat (vtf_payment_time_lock v) + 2 * unat (m2_lock_duration m0)"
proof -
  have "m2_call_ok env0 m0 (take i (vn_calls n)) (SendMakerPaymentTx a r)"
    using m2_run_justified[OF assms(1-3)] assms(4) by simp
  then obtain v where v: "ValidatedTakerFunding v \<in> set (take i (vn_calls n))" "m2_answers env0 m0 v a"
    by (auto simp: m2_call_ok_def)
  then show ?thesis
    using m2_locktimes_margin[OF _ assms(5), of "vtf_payment_time_lock v" "vtf_funding_time_lock v"]
    by (intro exI[of _ v]) (simp add: m2_answers_def)
qed

text \<open>A refund of the maker is of a payment that it sent, with its lock time, after the coin allowed it.\<close>

theorem maker_v2_refunds_own_payment:
  assumes "v2_reach (maker_v2_ops w vp) (v2_world env0) m0 n" "length (m2_secret m0) = 32"
    "i < length (vn_calls n)" "vn_calls n ! i = RefundMakerPaymentTx a r"
  shows "RefundAllowed (coin_ticker (ve_maker_coin env0)) (rmt_time_lock a) \<in> set (take i (vn_calls n))
    \<and> rmt_time_lock a = m2_maker_payment_locktime m0
    \<and> (\<exists>b tx. SendMakerPaymentTx b (Inr tx) \<in> set (take i (vn_calls n)) \<and> rmt_payment_tx a = tx_hex tx)"
proof -
  have "m2_call_ok env0 m0 (take i (vn_calls n)) (RefundMakerPaymentTx a r)"
    using m2_run_justified[OF assms(1-3)] assms(4) by simp
  then show ?thesis by (auto simp: m2_call_ok_def m2_answers_def)
qed

end
