(* ===== verification/MakerSwapV2Life.thy ===== *)
theory MakerSwapV2Life
  imports MakerSwapV2Safety
begin

text \<open>
  The life of a maker swap of the second protocol: its handlers follow the declared transitions,
  a run ends in a last state, the amount of the swap is kept out of the spendable balance as long
  as the payment is not sent, and a kick-start restores the machine and its state.
\<close>

section \<open>The end of a run\<close>

text \<open>The clock passes the limit of the polling loop and the refund becomes possible.\<close>

definition maker_v2_live :: "maker_v2 \<Rightarrow> v2_env \<Rightarrow> bool" where
  "maker_v2_live m env \<longleftrightarrow>
     (\<exists>j. m2_started_at m + m2_lock_duration m * 2 div 3 < ve_now_ms env j div 1000)
     \<and> (\<exists>j. po_can_refund_htlc (ve_maker_ops env) j (m2_maker_payment_locktime m) = Inr CanRefundNow)"

fun m2_rank :: "maker_v2_event v2_state \<Rightarrow> nat" where
  "m2_rank V2Initialize = 9"
| "m2_rank (V2Entered e) =
     (case e of
        MvInitialized _ _ _ _ \<Rightarrow> 8
      | MvWaitingForTakerFunding _ _ _ _ \<Rightarrow> 7
      | MvTakerFundingReceived _ _ _ _ _ \<Rightarrow> 6
      | MvMakerPaymentSentFundingSpendGenerated _ _ _ _ _ _ \<Rightarrow> 5
      | MvTakerPaymentReceived _ _ _ _ _ \<Rightarrow> 4
      | MvTakerPaymentReceivedPreimageSkipped _ _ _ _ _ \<Rightarrow> 4
      | MvTakerPaymentSpent _ _ _ _ _ _ \<Rightarrow> 3
      | MvMakerPaymentRefundRequired _ _ _ _ _ \<Rightarrow> 2
      | _ \<Rightarrow> 1)"

text \<open>The states in which a maker payment may be on the chain.\<close>

definition m2_at_stake :: "maker_v2_event v2_state \<Rightarrow> bool" where
  "m2_at_stake s =
     (case s of
        V2Initialize \<Rightarrow> False
      | V2Entered (MvInitialized _ _ _ _) \<Rightarrow> False
      | V2Entered (MvWaitingForTakerFunding _ _ _ _) \<Rightarrow> False
      | V2Entered (MvTakerFundingReceived _ _ _ _ _) \<Rightarrow> False
      | V2Entered (MvAborted _) \<Rightarrow> False
      | _ \<Rightarrow> True)"

text \<open>Where the payment was at stake, an abort follows a refund that was tried and refused.\<close>

definition m2_abort_ok :: "bool \<Rightarrow> v2_call list \<Rightarrow> maker_v2_event v2_state \<Rightarrow> bool" where
  "m2_abort_ok stake L s \<longleftrightarrow>
     (stake \<longrightarrow> m2_at_stake s \<or> (\<exists>r. s = V2Entered (MvAborted r)) \<and> (\<exists>a err. RefundMakerPaymentTx a (Inl err) \<in> set L))"

lemma m2_funding_poll_returns:
  assumes "wait_until < now_ms k div 1000" "i \<le> k"
  shows "\<exists>r. m2_funding_poll now_ms search wait_until i = Some r"
  using assms(2)
proof (induction "k - i" arbitrary: i)
  case 0
  then show ?case using assms(1) by (subst m2_funding_poll.simps) simp
next
  case (Suc d)
  then have "\<exists>r. m2_funding_poll now_ms search wait_until (Suc i) = Some r" by simp
  then show ?case
    by (subst m2_funding_poll.simps)
      (auto split: sum.splits option.splits funding_tx_spend.splits search_for_funding_spend_err.splits)
qed

lemma maker_v2_returns:
  assumes "maker_v2_live m env"
  shows "maker_v2_on_changed env m s \<noteq> None"
proof -
  have poll: "m2_funding_poll (ve_now_ms env) search (m2_started_at m + m2_lock_duration m * 2 div 3) 0 \<noteq> None" for search
    using assms m2_funding_poll_returns[of _ _ _ 0 search] by (fastforce simp: maker_v2_live_def)
  have refund: "can_refund_loop (\<lambda>j. po_can_refund_htlc (ve_maker_ops env) j (m2_maker_payment_locktime m)) 0 \<noteq> None"
    using assms can_refund_loop_returns[of "\<lambda>j. po_can_refund_htlc (ve_maker_ops env) j (m2_maker_payment_locktime m)" _ 0]
    by (fastforce simp: maker_v2_live_def)
  have "m2_maker_payment_sent env m mb tb nd mp funding pre \<noteq> None" for mb tb nd mp funding pre
    by (simp add: poll m2_maker_payment_sent_def Let_def split: option.splits sum.splits)
  moreover have "m2_refund_required env m nd mp r \<noteq> None" for nd mp r
    using refund by (auto simp: m2_refund_required_def split: option.splits)
  ultimately show ?thesis
    by (cases "(env, m, s)" rule: maker_v2_on_changed.cases) simp_all
qed

text \<open>The events that a handler may lead to.\<close>

lemma m2_initialize_shape: "maker_v2_transition V2Initialize (fst (m2_initialize env m))"
  unfolding m2_initialize_def
  by (rule v2_next_value, (rule v2_ok_bind, rule v2_ok_any)+, rule v2_ok_return) (simp_all add: maker_v2_transition_def)

lemma m2_initialized_shape:
  "case fst (m2_initialized env m mb tb fee) of
     MvWaitingForTakerFunding _ _ _ f \<Rightarrow> f = fee | MvAborted _ \<Rightarrow> True | _ \<Rightarrow> False"
  unfolding m2_initialized_def
  by (rule v2_next_value, (rule v2_ok_bind, rule v2_ok_any)+, rule v2_ok_return) simp_all

lemma m2_waiting_shape:
  "case fst (m2_waiting_for_taker_funding env m mb tb nd fee) of
     MvTakerFundingReceived _ _ _ _ f \<Rightarrow> f = fee | MvAborted _ \<Rightarrow> True | _ \<Rightarrow> False"
  unfolding m2_waiting_for_taker_funding_def
  by (rule v2_next_value, (rule v2_ok_bind, rule v2_ok_any)+, rule v2_ok_return) simp_all

lemma m2_funding_received_shape:
  "maker_v2_transition (V2Entered (MvTakerFundingReceived a b c d f)) (fst (m2_taker_funding_received env m mb tb nd funding))"
  unfolding m2_taker_funding_received_def
  by (rule v2_next_value, (rule v2_ok_bind, rule v2_ok_any)+, rule v2_ok_return) (simp_all add: maker_v2_transition_def)

lemma m2_payment_sent_shape:
  "m2_maker_payment_sent env m mb tb nd mp funding pre = Some out
    \<Longrightarrow> maker_v2_transition (V2Entered (MvMakerPaymentSentFundingSpendGenerated a b c d f g)) (fst out)"
  by (auto simp: m2_maker_payment_sent_def Let_def maker_v2_transition_def split: option.splits sum.splits)

lemma m2_payment_received_shape:
  "maker_v2_transition (V2Entered (MvTakerPaymentReceived a b c d f)) (fst (m2_taker_payment_received env m mb tb nd mp tp))"
  unfolding m2_taker_payment_received_def Let_def split_def
  by (rule v2_next_value, (rule v2_ok_bind, rule v2_ok_any)+, rule v2_ok_return) (simp_all add: maker_v2_transition_def)

lemma m2_preimage_skipped_shape:
  "maker_v2_transition (V2Entered (MvTakerPaymentReceivedPreimageSkipped a b c d f))
     (fst (m2_preimage_skipped env m mb tb nd mp tp))"
  unfolding m2_preimage_skipped_def
  by (rule v2_next_value, (rule v2_ok_bind, rule v2_ok_any)+, rule v2_ok_return) (simp_all add: maker_v2_transition_def)

lemma m2_payment_spent_shape:
  "maker_v2_transition (V2Entered (MvTakerPaymentSpent a b c d f g)) (fst (m2_taker_payment_spent env m mb tb mp spend nd))"
  unfolding m2_taker_payment_spent_def
  by (rule v2_next_value, (rule v2_ok_bind, rule v2_ok_any)+, rule v2_ok_return) (simp_all add: maker_v2_transition_def)

lemma m2_refund_shape:
  assumes "m2_refund_required env m nd mp reason = Some out"
  shows "case fst out of MvMakerPaymentRefunded _ _ _ \<Rightarrow> True
      | MvAborted _ \<Rightarrow> \<exists>a err. RefundMakerPaymentTx a (Inl err) \<in> set (snd out) | _ \<Rightarrow> False"
  using assms by (auto simp: m2_refund_required_def v2_try_defs map_err_Inl_iff split: option.splits sum.splits)

lemma m2_follows_transitions:
  assumes "maker_v2_on_changed env m s = Some (Some e, cs)"
  shows "maker_v2_transition s e"
proof -
  have "maker_v2_transition (V2Entered (MvInitialized a b c d)) (fst (m2_initialized env m mb tb fee))"
    "maker_v2_transition (V2Entered (MvWaitingForTakerFunding a b nd c)) (fst (m2_waiting_for_taker_funding env m mb tb nd' fee))"
    for a b c d mb tb fee nd nd'
    using m2_initialized_shape[of fee env m mb tb] m2_waiting_shape[of fee env m mb tb nd']
    by (auto simp: maker_v2_transition_def split: maker_v2_event.splits)
  moreover have "maker_v2_transition (V2Entered (MvMakerPaymentRefundRequired a b c d f)) (fst out)"
    if "m2_refund_required env m nd mp reason = Some out" for a b c d f nd mp reason out
    using m2_refund_shape[OF that] by (auto simp: maker_v2_transition_def split: maker_v2_event.splits)
  ultimately show ?thesis
    using assms m2_initialize_shape[of env m]
    by (cases "(env, m, s)" rule: maker_v2_on_changed.cases)
      (auto simp: apfst_Some_eq m2_funding_received_shape m2_payment_received_shape m2_preimage_skipped_shape
        m2_payment_spent_shape dest: m2_payment_sent_shape)
qed

lemma m2_rank_transition: "maker_v2_transition s e \<Longrightarrow> m2_rank (V2Entered e) < m2_rank s"
  by (auto simp: maker_v2_transition_def split: v2_state.splits maker_v2_event.splits)

definition m2_last_state :: "maker_v2_event v2_state \<Rightarrow> bool" where
  "m2_last_state s =
     (case s of
        V2Entered (MvMakerPaymentRefunded _ _ _) \<Rightarrow> True
      | V2Entered (MvAborted _) \<Rightarrow> True
      | V2Entered MvCompleted \<Rightarrow> True
      | _ \<Rightarrow> False)"

lemma m2_finishes: "maker_v2_on_changed env m s = Some (None, cs) \<Longrightarrow> m2_last_state s \<and> cs = []"
  by (cases "(env, m, s)" rule: maker_v2_on_changed.cases) (auto simp: apfst_Some_eq m2_last_state_def)

lemma m2_keeps_abort_ok:
  assumes "m2_abort_ok stake L s" "maker_v2_on_changed env m s = Some (Some e, cs)"
  shows "m2_abort_ok stake (L @ cs) (V2Entered e)"
proof (cases "\<exists>a b nd mp r. s = V2Entered (MvMakerPaymentRefundRequired a b nd mp r)")
  case True
  then obtain a b nd mp r where s: "s = V2Entered (MvMakerPaymentRefundRequired a b nd mp r)" by blast
  then have "m2_refund_required env m nd mp r = Some (e, cs)" using assms(2) by simp
  from m2_refund_shape[OF this] show ?thesis
    by (auto simp: m2_abort_ok_def m2_at_stake_def split: maker_v2_event.splits)
next
  case False
  then show ?thesis
    using assms(1) m2_follows_transitions[OF assms(2)] m2_finishes
    by (auto simp: m2_abort_ok_def m2_at_stake_def maker_v2_transition_def
        split: v2_state.splits maker_v2_event.splits)
qed

interpretation m2r: v2_ranked "maker_v2_ops w vp" m m2_rank "maker_v2_live m" m2_last_state "m2_abort_ok stake"
  for w vp m stake
proof (unfold_locales, goal_cases)
  case (2 s)
  then show ?case by (cases s) (auto split: maker_v2_event.splits)
qed (simp_all add: maker_v2_ops_def maker_v2_returns m2_rank_transition[OF m2_follows_transitions] m2_finishes
    m2_keeps_abort_ok del: m2_rank.simps)

text \<open>
  C21: A run of the maker's machine of the second protocol ends. From any state, with a clock that
  passes, a coin that allows the refund at some time and a storage that works, at most nine rounds
  lead to a last state: the swap is completed, the maker payment is refunded, or the swap is
  aborted, and after the maker payment was sent an abort means that a refund was tried and
  refused. The row is marked as finished and nothing of the swap stays locked.
\<close>

theorem maker_v2_run_ends:
  assumes "\<And>i. maker_v2_live m (envs i)" "\<And>i. ve_store (envs i) = Inr ()"
    "\<And>i. coin_ticker (ve_maker_coin (envs i)) = coin"
    "vn_running n = Some (m, s)" "v2_row_in_step (maker_v2_ops w vp) m s n"
  shows "\<exists>n' row. v2_run (maker_v2_ops w vp) envs 9 0 n = Some n' \<and> vn_running n' = None
    \<and> hm_get (vn_db n') (m2_uuid m) = Some row \<and> sr_is_finished row
    \<and> (case last (sr_events row) of
         MvCompleted \<Rightarrow> True
       | MvMakerPaymentRefunded _ _ _ \<Rightarrow> True
       | MvAborted _ \<Rightarrow> m2_at_stake s \<longrightarrow> (\<exists>a err. RefundMakerPaymentTx a (Inl err) \<in> set (vn_calls n'))
       | _ \<Rightarrow> False)
    \<and> locked_v2_of (vn_ctx n') coin (m2_uuid m) = []"
proof -
  have rank: "m2_rank s \<le> 9" by (cases s) (auto split: maker_v2_event.splits)
  have id: "vo_id (maker_v2_ops w vp) m = m2_uuid m" by (simp add: maker_v2_ops_def)
  have "m2_abort_ok (m2_at_stake s) (vn_calls n) s" by (simp add: m2_abort_ok_def)
  from m2r.run_ends[where envs = envs and i = 0, OF assms(1,2,4,5) this rank] obtain n' s' row env ctx where r:
    "v2_run (maker_v2_ops w vp) envs 9 0 n = Some n'" "vn_running n' = None"
    "m2_last_state s'" "m2_abort_ok (m2_at_stake s) (vn_calls n') s'" "v2_row_in_step (maker_v2_ops w vp) m s' n'"
    "hm_get (vn_db n') (m2_uuid m) = Some row" "sr_is_finished row"
    "env \<in> range envs" "vn_ctx n' = v2_clean_up_context env (m2_uuid m) ctx"
    unfolding id by blast
  have "s' = V2Entered (last (sr_events row))"
    using r(3,5,6) id by (auto simp: v2_row_in_step_def m2_last_state_def split: v2_state.splits)
  then have "case last (sr_events row) of
         MvCompleted \<Rightarrow> True
       | MvMakerPaymentRefunded _ _ _ \<Rightarrow> True
       | MvAborted _ \<Rightarrow> m2_at_stake s \<longrightarrow> (\<exists>a err. RefundMakerPaymentTx a (Inl err) \<in> set (vn_calls n'))
       | _ \<Rightarrow> False"
    using r(3,4) by (auto simp: m2_last_state_def m2_abort_ok_def m2_at_stake_def split: maker_v2_event.splits)
  moreover have "locked_v2_of (vn_ctx n') coin (m2_uuid m) = []"
    using r(8,9) assms(3) by (auto simp: v2_clean_up_context_def Let_def)
  ultimately show ?thesis using r by blast
qed

section \<open>The locked amount\<close>

text \<open>What the context keeps locked in a state; the entry of an aborted swap goes when it finishes.\<close>

definition m2_lock_ok :: "v2_env \<Rightarrow> maker_v2 \<Rightarrow> maker_v2_event v2_state \<Rightarrow> locked_amount_v2_info list \<Rightarrow> bool" where
  "m2_lock_ok env0 m s locked =
     (case s of
        V2Entered (MvInitialized _ _ fee _) \<Rightarrow> locked = [maker_v2_locked env0 m fee]
      | V2Entered (MvWaitingForTakerFunding _ _ _ fee) \<Rightarrow> locked = [maker_v2_locked env0 m fee]
      | V2Entered (MvTakerFundingReceived _ _ _ _ fee) \<Rightarrow> locked = [maker_v2_locked env0 m fee]
      | V2Entered (MvAborted _) \<Rightarrow> True
      | _ \<Rightarrow> locked = [])"

definition m2_locked :: "v2_env \<Rightarrow> maker_v2 \<Rightarrow> v2_context \<Rightarrow> locked_amount_v2_info list" where
  "m2_locked env0 m ctx = locked_v2_of ctx (coin_ticker (ve_maker_coin env0)) (m2_uuid m)"

lemma m2_locked_init:
  "maker_v2_init_additional_context w env m' ctx = Some ctx' \<Longrightarrow> m2_locked env0 m ctx' = m2_locked env0 m ctx"
  by (auto simp: maker_v2_init_additional_context_def m2_locked_def locked_v2_of_def init_v2_msg_store_def
      add_active_swap_v2_def split: sum.splits)

lemma m2_lock_kickstart:
  assumes "v2_world env0 env" "m2_locked env0 m ctx = []"
  shows "m2_lock_ok env0 m (V2Entered e) (m2_locked env0 m (maker_v2_on_kickstart_event env m e ctx))"
  using assms
  by (auto simp: m2_lock_ok_def m2_locked_def maker_v2_on_kickstart_event_def maker_v2_locked_def v2_world_def
      split: maker_v2_event.splits)

lemma m2_lock_round:
  assumes "v2_world env0 env" "m2_lock_ok env0 m s (m2_locked env0 m ctx)"
    "maker_v2_on_changed env m s = Some (Some e, cs)"
  shows "m2_lock_ok env0 m (V2Entered e) (m2_locked env0 m (maker_v2_on_event env m e ctx))"
proof -
  have tk: "coin_ticker (ve_maker_coin env) = coin_ticker (ve_maker_coin env0)"
    using assms(1) by (simp add: v2_world_def)
  have locked: "m2_locked env0 m (maker_v2_on_event env m e ctx) =
      (case e of
         MvInitialized _ _ fee _ \<Rightarrow> m2_locked env0 m ctx @ [maker_v2_locked env0 m fee]
       | MvMakerPaymentSentFundingSpendGenerated _ _ _ _ _ _ \<Rightarrow> []
       | _ \<Rightarrow> m2_locked env0 m ctx)"
    by (simp add: m2_locked_def maker_v2_on_event_def maker_v2_locked_def tk split: maker_v2_event.splits)
  have fee: "f = fee" if "fst (m2_initialized env m mb tb fee) = MvWaitingForTakerFunding a b c f
      \<or> fst (m2_waiting_for_taker_funding env m mb tb nd fee) = MvTakerFundingReceived a b c d f" for a b c d f mb tb nd fee
    using that m2_initialized_shape[of fee env m mb tb] m2_waiting_shape[of fee env m mb tb nd] by auto
  show ?thesis
    using assms(2,3) m2_follows_transitions[OF assms(3)]
    unfolding locked
    by (cases "(env, m, s)" rule: maker_v2_on_changed.cases)
      (auto simp: m2_lock_ok_def apfst_Some_eq maker_v2_transition_def split: maker_v2_event.splits dest!: fee[OF disjI1] fee[OF disjI2])
qed

text \<open>
  In every node that a swap reaches: a process that has not started the swap has nothing of it
  locked, and a running machine has locked what its state asks for.
\<close>

definition m2_lock_inv :: "v2_env \<Rightarrow> maker_v2 \<Rightarrow> (maker_v2, maker_v2_event) v2_node \<Rightarrow> bool" where
  "m2_lock_inv env0 m0 n \<longleftrightarrow>
     (\<not> vn_started n \<longrightarrow> vn_running n = None \<and> m2_locked env0 m0 (vn_ctx n) = [])
     \<and> (\<forall>m s. vn_running n = Some (m, s) \<longrightarrow> m2_uuid m = m2_uuid m0 \<and> m2_lock_ok env0 m s (m2_locked env0 m (vn_ctx n)))"

lemma m2_locked_uuid: "m2_uuid m = m2_uuid m0 \<Longrightarrow> m2_locked env0 m ctx = m2_locked env0 m0 ctx"
  by (simp add: m2_locked_def)

lemma m2_lock_start:
  assumes "m2_uuid m = m2_uuid m0" "m2_lock_ok env0 m s (m2_locked env0 m (vn_ctx n))" "vn_running n = None"
  shows "m2_lock_inv env0 m0 (v2_start (maker_v2_ops w vp) env lock m s n)"
proof (cases "v2_on_start (maker_v2_ops w vp) env lock m (vn_db n) (vn_ctx n)")
  case (Inr p)
  then have "m2_locked env0 m (snd p) = m2_locked env0 m (vn_ctx n)"
    by (auto simp: v2_on_start_def bind_res_Inr_iff maker_v2_ops_def m2_locked_init split: option.splits)
  then show ?thesis
    using Inr assms by (cases p) (simp add: v2_start_def m2_lock_inv_def)
qed (use assms in \<open>simp add: v2_start_def m2_lock_inv_def\<close>)

lemma m2_lock_inv_reach:
  assumes "v2_reach (maker_v2_ops w vp) (v2_world env0) m0 n"
  shows "m2_lock_inv env0 m0 n"
  using assms
proof (induction rule: v2_reach.induct)
  case reach_new
  then show ?case
    by (simp add: m2_lock_inv_def v2_node_new_def empty_v2_context_def m2_locked_def locked_v2_of_def hm_members_def hm_simps)
next
  case (reach_start n env lock)
  then show ?case
    using m2_lock_start[of m0 m0 env0 V2Initialize n] by (simp add: m2_lock_inv_def m2_lock_ok_def)
next
  case (reach_kickstart n env lock)
  show ?case
  proof (cases "bind_res (get_swap_repr (m2_uuid m0) maker_swap_v2_type (vn_db n)) (maker_v2_recreate vp (m2_uuid m0))")
    case (Inr p)
    obtain m e where p: "p = (m, e)" by force
    then have m: "m2_uuid m = m2_uuid m0"
      using Inr by (auto simp: bind_res_Inr_iff maker_v2_recreate_def split: if_splits)
    then have "m2_lock_ok env0 m (V2Entered e) (m2_locked env0 m (maker_v2_on_kickstart_event env m e (vn_ctx n)))"
      using reach_kickstart m2_locked_uuid[OF m] by (intro m2_lock_kickstart) (simp_all add: m2_lock_inv_def)
    then show ?thesis
      using m2_lock_start[OF m, of env0 "V2Entered e" "n\<lparr>vn_ctx := maker_v2_on_kickstart_event env m e (vn_ctx n)\<rparr>"]
        reach_kickstart.hyps(2) Inr p
      by (simp add: v2_kickstart_def) (simp add: maker_v2_ops_def)
  qed (use reach_kickstart in \<open>simp add: v2_kickstart_def m2_lock_inv_def maker_v2_ops_def\<close>)
next
  case (reach_round n m s env n')
  then show ?case
    using m2_lock_round[of env0 env m s "vn_ctx n"]
    by (auto simp: v2_round_def Let_def m2_lock_inv_def v2_change_state_def maker_v2_ops_def v2_on_finished_def
        split: option.splits prod.splits sum.splits)
qed (simp_all add: m2_lock_inv_def v2_crash_def empty_v2_context_def m2_locked_def locked_v2_of_def hm_members_def hm_simps)

text \<open>
  C22: While a maker swap of the second protocol runs, through failures and restarts, the amount
  that is locked of the maker coin exceeds what it would be without the swap by exactly the
  volume of the swap and the fee of its payment until the payment is sent, and by nothing
  afterwards.
\<close>

theorem maker_v2_funds_locked:
  assumes "v2_reach (maker_v2_ops w vp) (v2_world env0) m0 n" "vn_running n = Some (m, V2Entered e)"
    "\<And>r. e \<noteq> MvAborted r"
  shows "get_locked_amount (vc_swaps (vn_ctx n)) (coin_ticker (ve_maker_coin env0)) =
    get_locked_amount (vc_swaps (retain_locked_v2 (coin_ticker (ve_maker_coin env0)) (m2_uuid m0) (vn_ctx n)))
      (coin_ticker (ve_maker_coin env0))
    + (case e of
         MvInitialized _ _ fee _ \<Rightarrow> m2_maker_volume m + fee
       | MvWaitingForTakerFunding _ _ _ fee \<Rightarrow> m2_maker_volume m + fee
       | MvTakerFundingReceived _ _ _ _ fee \<Rightarrow> m2_maker_volume m + fee
       | _ \<Rightarrow> 0)"
proof -
  let ?coin = "coin_ticker (ve_maker_coin env0)"
  have inv: "m2_uuid m = m2_uuid m0" "m2_lock_ok env0 m (V2Entered e) (m2_locked env0 m (vn_ctx n))"
    using m2_lock_inv_reach[OF assms(1)] assms(2) by (auto simp: m2_lock_inv_def)
  have one: "add_locked_v2 ?coin (maker_v2_locked env0 m fee) 0 = m2_maker_volume m + fee" for fee
    by (simp add: add_locked_v2_def maker_v2_locked_def)
  show ?thesis
    unfolding get_locked_amount_split[of "vn_ctx n" ?coin "m2_uuid m0"]
    using inv assms(3) one by (auto simp: m2_lock_ok_def m2_locked_def split: maker_v2_event.splits)
qed

section \<open>Kick-start\<close>

definition m2_storable :: "v2_env \<Rightarrow> (bytes \<Rightarrow> bool) \<Rightarrow> maker_v2 \<Rightarrow> bool" where
  "m2_storable env valid_private m \<longleftrightarrow>
     length (m2_secret m) = 32
     \<and> (\<forall>k. m2_p2p_keypair m = Some k \<longrightarrow> length k = 32 \<and> (\<exists>b \<in> set k. b \<noteq> 0) \<and> valid_private k)
     \<and> ve_to_decimal env (m2_maker_volume m) = m2_maker_volume m
     \<and> ve_to_decimal env (m2_taker_volume m) = m2_taker_volume m
     \<and> ve_to_decimal env (m2_taker_premium m) = m2_taker_premium m"

text \<open>
  C23: A maker swap survives a restart. When the swap is stored with its events, the table returns
  it, the machine that is created again is the one that was stored, with the two confirmation
  switches set to their fixed values, and it goes on in the state of the last event, unless that
  event is an end of the swap. The amounts must be decimal numbers, since the table holds
  decimals.
\<close>

theorem maker_v2_restart_restores:
  assumes "m2_storable env valid_private m" "hm_get db (m2_uuid m) = None" "es \<noteq> []"
    "last es \<noteq> MvCompleted" "\<And>r. last es \<noteq> MvAborted r"
  shows "\<exists>db1 db2.
      insert_swap_v2_maker (ve_to_decimal env) (m2_uuid m) (maker_v2_to_db_repr env m) db = Inr db1
    \<and> store_events (m2_uuid m) es db1 = Inr db2
    \<and> m2_uuid m \<in> set (get_unfinished_swap_uuids maker_swap_v2_type db2)
    \<and> bind_res (get_swap_repr (m2_uuid m) maker_swap_v2_type db2) (maker_v2_recreate valid_private (m2_uuid m)) =
        Inr (m\<lparr>m2_require_taker_funding_confirm := False, m2_require_taker_payment_spend_confirm := True\<rparr>, last es)"
proof -
  let ?row = "new_swap_v2_row (ve_to_decimal env) maker_swap_v2_type (coin_ticker (ve_maker_coin env))
    (coin_ticker (ve_taker_coin env)) (maker_v2_to_db_repr env m)"
  let ?db1 = "hm_insert (m2_uuid m) ?row db"
  have ins: "insert_swap_v2_maker (ve_to_decimal env) (m2_uuid m) (maker_v2_to_db_repr env m) db = Inr ?db1"
    using assms(2) by (simp add: insert_swap_v2_maker_def insert_swap_v2_row_def maker_v2_to_db_repr_def)
  obtain db2 where db2: "store_events (m2_uuid m) es ?db1 = Inr db2"
    "hm_get db2 (m2_uuid m) = Some (?row\<lparr>sr_events := es\<rparr>)"
    using store_events_row[of ?db1 "m2_uuid m" ?row es] by (auto simp: hm_simps new_swap_v2_row_def)
  have unfinished: "m2_uuid m \<in> set (get_unfinished_swap_uuids maker_swap_v2_type db2)"
    using hm_get_SomeD[OF db2(2)]
    by (force simp: get_unfinished_swap_uuids_def new_swap_v2_row_def)
  have "bind_res (get_swap_repr (m2_uuid m) maker_swap_v2_type db2) (maker_v2_recreate valid_private (m2_uuid m)) =
      Inr (m\<lparr>m2_require_taker_funding_confirm := False, m2_require_taker_payment_spend_confirm := True\<rparr>, last es)"
  proof -
    have "storable_repr (ve_to_decimal env) (maker_v2_to_db_repr env m)"
      using assms(1) by (simp add: storable_repr_def m2_storable_def maker_v2_to_db_repr_def)
    from get_swap_repr_row[OF this, where db = db2 and swap_type = maker_swap_v2_type and es = es]
    have "get_swap_repr (m2_uuid m) maker_swap_v2_type db2 =
        Inr ((maker_v2_to_db_repr env m)\<lparr>dr_events := es, dr_dex_fee_amount := ve_to_decimal env 0,
          dr_dex_fee_burn := ve_to_decimal env 0\<rparr>)"
      using db2(2) by (simp add: maker_v2_to_db_repr_def)
    moreover have "restore_keypair valid_private (m2_p2p_keypair m) = m2_p2p_keypair m"
      using assms(1) by (auto simp: restore_keypair_def m2_storable_def split: option.splits)
    moreover have "(case last es of
           MvAborted _ \<Rightarrow> Inl ''Cannot recreate from Aborted''
         | MvCompleted \<Rightarrow> Inl ''Cannot recreate from Completed''
         | e \<Rightarrow> Inr e) = Inr (last es)"
      using assms(4,5) by (auto split: maker_v2_event.splits)
    ultimately show ?thesis
      using assms(3) by (cases m) (simp add: maker_v2_recreate_def maker_v2_to_db_repr_def)
  qed
  then show ?thesis using ins db2(1) unfinished by blast
qed

end
