(* ===== verification/TakerSwapV2.thy ===== *)
theory TakerSwapV2
  imports SwapV2Run
begin

text \<open>
  The taker's side of the second swap protocol (\<open>taker_swap_v2.rs\<close>), in the form of the theory
  \<open>MakerSwapV2\<close>: the events, the transitions, the machine, the handler of each state, and the
  operations on storage and context.
\<close>

section \<open>Events and states\<close>

datatype (plugins only: code size) taker_v2_event =
    TvInitialized u64 u64 mm_number mm_number
  | TvNegotiated u64 u64 stored_taker_negotiation_data mm_number mm_number
  | TvTakerFundingSent u64 u64 stored_taker_negotiation_data bytes
  | TvTakerFundingRefundRequired u64 u64 stored_taker_negotiation_data bytes abort_reason
  | TvMakerPaymentAndFundingSpendPreimgReceived u64 u64 stored_taker_negotiation_data bytes stored_tx_preimage bytes
  | TvMakerPaymentConfirmed u64 u64 stored_taker_negotiation_data bytes stored_tx_preimage bytes
  | TvTakerPaymentSent u64 u64 stored_taker_negotiation_data bytes bytes
  | TvTakerPaymentSentPreimageSendingSkipped u64 u64 stored_taker_negotiation_data bytes bytes
  | TvTakerPaymentRefundRequired bytes stored_taker_negotiation_data abort_reason
  | TvTakerPaymentSpent u64 u64 bytes bytes stored_taker_negotiation_data
  | TvMakerPaymentSpent u64 u64 bytes stored_taker_negotiation_data
  | TvTakerFundingRefunded bytes bytes abort_reason
  | TvTakerPaymentRefunded bytes bytes abort_reason
  | TvAborted abort_reason
  | TvCompleted

definition taker_v2_transition :: "taker_v2_event v2_state \<Rightarrow> taker_v2_event \<Rightarrow> bool" where
  "taker_v2_transition state next =
     (case state of
        V2Initialize \<Rightarrow>
          (case next of TvInitialized _ _ _ _ \<Rightarrow> True | TvAborted _ \<Rightarrow> True | _ \<Rightarrow> False)
      | V2Entered (TvInitialized _ _ _ _) \<Rightarrow>
          (case next of TvNegotiated _ _ _ _ _ \<Rightarrow> True | TvAborted _ \<Rightarrow> True | _ \<Rightarrow> False)
      | V2Entered (TvNegotiated _ _ _ _ _) \<Rightarrow>
          (case next of TvTakerFundingSent _ _ _ _ \<Rightarrow> True | TvAborted _ \<Rightarrow> True | _ \<Rightarrow> False)
      | V2Entered (TvTakerFundingSent _ _ _ _) \<Rightarrow>
          (case next of TvMakerPaymentAndFundingSpendPreimgReceived _ _ _ _ _ _ \<Rightarrow> True
             | TvTakerFundingRefundRequired _ _ _ _ _ \<Rightarrow> True | _ \<Rightarrow> False)
      | V2Entered (TvMakerPaymentAndFundingSpendPreimgReceived _ _ _ _ _ _) \<Rightarrow>
          (case next of TvMakerPaymentConfirmed _ _ _ _ _ _ \<Rightarrow> True
             | TvTakerPaymentSent _ _ _ _ _ \<Rightarrow> True
             | TvTakerPaymentSentPreimageSendingSkipped _ _ _ _ _ \<Rightarrow> True
             | TvTakerFundingRefundRequired _ _ _ _ _ \<Rightarrow> True | _ \<Rightarrow> False)
      | V2Entered (TvMakerPaymentConfirmed _ _ _ _ _ _) \<Rightarrow>
          (case next of TvTakerPaymentSent _ _ _ _ _ \<Rightarrow> True
             | TvTakerPaymentSentPreimageSendingSkipped _ _ _ _ _ \<Rightarrow> True
             | TvTakerFundingRefundRequired _ _ _ _ _ \<Rightarrow> True
             | TvTakerPaymentRefundRequired _ _ _ \<Rightarrow> True | _ \<Rightarrow> False)
      | V2Entered (TvTakerPaymentSent _ _ _ _ _) \<Rightarrow>
          (case next of TvTakerPaymentSpent _ _ _ _ _ \<Rightarrow> True | TvTakerPaymentRefundRequired _ _ _ \<Rightarrow> True | _ \<Rightarrow> False)
      | V2Entered (TvTakerPaymentSentPreimageSendingSkipped _ _ _ _ _) \<Rightarrow>
          (case next of TvTakerPaymentSpent _ _ _ _ _ \<Rightarrow> True | TvTakerPaymentRefundRequired _ _ _ \<Rightarrow> True | _ \<Rightarrow> False)
      | V2Entered (TvTakerPaymentSpent _ _ _ _ _) \<Rightarrow>
          (case next of TvMakerPaymentSpent _ _ _ _ \<Rightarrow> True | TvAborted _ \<Rightarrow> True | _ \<Rightarrow> False)
      | V2Entered (TvMakerPaymentSpent _ _ _ _) \<Rightarrow>
          (case next of TvCompleted \<Rightarrow> True | TvTakerPaymentRefundRequired _ _ _ \<Rightarrow> True | _ \<Rightarrow> False)
      | V2Entered (TvTakerFundingRefundRequired _ _ _ _ _) \<Rightarrow>
          (case next of TvTakerFundingRefunded _ _ _ \<Rightarrow> True | TvAborted _ \<Rightarrow> True | _ \<Rightarrow> False)
      | V2Entered (TvTakerPaymentRefundRequired _ _ _) \<Rightarrow>
          (case next of TvTakerPaymentRefunded _ _ _ \<Rightarrow> True | TvAborted _ \<Rightarrow> True | _ \<Rightarrow> False)
      | _ \<Rightarrow> False)"

record taker_v2 =
  t2_started_at :: u64
  t2_lock_duration :: u64
  t2_maker_volume :: mm_number
  t2_taker_volume :: mm_number
  t2_taker_premium :: mm_number
  t2_secret_hash_algo :: secret_hash_algo
  t2_conf_settings :: swap_confirmations_settings
  t2_uuid :: uuid
  t2_p2p_keypair :: "bytes option"
  t2_taker_secret :: bytes
  t2_maker_p2p_pubkey :: bytes
  t2_require_maker_payment_confirm :: bool
  t2_require_maker_payment_spend_confirm :: bool
  t2_swap_version :: u8

definition t2_maker_payment_conf_timeout :: "taker_v2 \<Rightarrow> u64" where
  "t2_maker_payment_conf_timeout sm = t2_started_at sm + t2_lock_duration sm div 3"

definition t2_taker_funding_locktime :: "taker_v2 \<Rightarrow> u64" where
  "t2_taker_funding_locktime sm = t2_started_at sm + 3 * t2_lock_duration sm"

definition t2_taker_payment_locktime :: "taker_v2 \<Rightarrow> u64" where
  "t2_taker_payment_locktime sm = t2_started_at sm + t2_lock_duration sm"

definition t2_unique_data :: "taker_v2 \<Rightarrow> bytes" where
  "t2_unique_data sm = uuid_bytes (t2_uuid sm)"

definition t2_taker_secret_hash :: "v2_env \<Rightarrow> taker_v2 \<Rightarrow> bytes" where
  "t2_taker_secret_hash env sm = hash_secret (ve_hashes env) (t2_secret_hash_algo sm) (t2_taker_secret sm)"

type_synonym taker_v2_outcome = "taker_v2_event \<times> v2_call list"

section \<open>From the start to the funding\<close>

definition t2_initialize :: "v2_env \<Rightarrow> taker_v2 \<Rightarrow> taker_v2_outcome" where
  "t2_initialize env sm =
     v2_next TvAborted
       (v2_bind (v2_ask (\<lambda>_. InternalReason ''Failed to get maker coin block'')
          (po_current_block (ve_maker_ops env))) (\<lambda>maker_coin_start_block.
        v2_bind (v2_ask (\<lambda>_. InternalReason ''Failed to get taker coin block'')
          (po_current_block (ve_taker_ops env))) (\<lambda>taker_coin_start_block.
        v2_bind (v2_ask (\<lambda>_. InternalReason ''Failed to get taker payment fee'')
          (map_err (\<lambda>_. []) (coin_sender_trade_fee (ve_taker_coin env)
             (Exact (ve_to_decimal env (t2_taker_volume sm))) StartSwap))) (\<lambda>taker_payment_trade_fee.
        v2_bind (v2_ask (\<lambda>_. InternalReason ''Failed to get maker payment spend fee'')
          (map_err (\<lambda>_. []) (coin_receiver_trade_fee (ve_maker_coin env) StartSwap)))
            (\<lambda>maker_payment_spend_trade_fee.
        v2_bind (v2_ask (\<lambda>_. InternalReason ''Failed to get spendable balance'')
          (map_err (\<lambda>_. []) (coin_spendable_balance (ve_taker_coin env)))) (\<lambda>spendable.
        v2_bind (v2_require
          (\<not> spendable < ve_to_decimal env (t2_taker_volume sm) + ve_to_decimal env (t2_taker_premium sm)
                          + ve_to_decimal env (tf_amount taker_payment_trade_fee))
          (InternalReason ''Insufficient balance'')) (\<lambda>_.
          v2_return (TvInitialized maker_coin_start_block taker_coin_start_block
            (tf_amount taker_payment_trade_fee) (tf_amount maker_payment_spend_trade_fee)))))))))"

definition t2_check_negotiation :: "v2_env \<Rightarrow> taker_v2 \<Rightarrow> maker_negotiation \<Rightarrow> unit v2_try" where
  "t2_check_negotiation env sm mn =
     v2_bind (v2_require (\<not> max_started_at_diff < u64_abs_diff (t2_started_at sm) (mng_started_at mn))
       (NegotiationFailed ''started_at difference too large'')) (\<lambda>_.
     v2_bind (v2_require (length (mng_secret_hash mn) = 20 \<or> length (mng_secret_hash mn) = 32)
       (NegotiationFailed ''Invalid maker secret hash length'')) (\<lambda>_.
     v2_bind (v2_require (mng_payment_locktime mn = t2_started_at sm + 2 * t2_lock_duration sm)
       (NegotiationFailed ''Unexpected maker payment locktime'')) (\<lambda>_.
     v2_bind (v2_ask (\<lambda>_. NegotiationFailed ''Invalid maker's maker-coin HTLC pubkey'')
       (po_parse_pubkey (ve_maker_ops env) (mng_maker_coin_htlc_pub mn))) (\<lambda>_.
     v2_bind (v2_ask (\<lambda>_. NegotiationFailed ''Invalid maker's taker-coin HTLC pubkey'')
       (po_parse_pubkey (ve_taker_ops env) (mng_taker_coin_htlc_pub mn))) (\<lambda>_.
       v2_return ())))))"

definition t2_negotiation_msg :: "v2_env \<Rightarrow> taker_v2 \<Rightarrow> taker_negotiation_v2_data v2_try" where
  "t2_negotiation_msg env sm =
     v2_bind (v2_ask (\<lambda>_. InternalReason ''Failed to derive maker-coin V2 HTLC pubkey'')
       (po_derive_htlc_pubkey (ve_maker_ops env) (t2_unique_data sm))) (\<lambda>maker_coin_htlc_pub.
     v2_bind (v2_ask (\<lambda>_. InternalReason ''Failed to derive taker-coin V2 HTLC pubkey'')
       (po_derive_htlc_pubkey (ve_taker_ops env) (t2_unique_data sm))) (\<lambda>taker_coin_htlc_pub.
       v2_return
         \<lparr>tng_started_at = t2_started_at sm, tng_funding_locktime = t2_taker_funding_locktime sm,
          tng_payment_locktime = t2_taker_payment_locktime sm,
          tng_taker_secret_hash = t2_taker_secret_hash env sm,
          tng_maker_coin_htlc_pub = maker_coin_htlc_pub, tng_taker_coin_htlc_pub = taker_coin_htlc_pub,
          tng_maker_coin_swap_contract = po_swap_contract_address (ve_maker_ops env),
          tng_taker_coin_swap_contract = po_swap_contract_address (ve_taker_ops env)\<rparr>))"

definition t2_stored_negotiation :: "maker_negotiation \<Rightarrow> stored_taker_negotiation_data" where
  "t2_stored_negotiation mn =
     \<lparr>stn_maker_secret_hash = mng_secret_hash mn, stn_maker_coin_htlc_pub = mng_maker_coin_htlc_pub mn,
      stn_taker_coin_htlc_pub = mng_taker_coin_htlc_pub mn,
      stn_maker_coin_swap_contract = mng_maker_coin_swap_contract mn,
      stn_taker_coin_swap_contract = mng_taker_coin_swap_contract mn,
      stn_maker_payment_locktime = mng_payment_locktime mn,
      stn_taker_coin_address = mng_taker_coin_address mn\<rparr>"

definition t2_initialized ::
  "v2_env \<Rightarrow> taker_v2 \<Rightarrow> u64 \<Rightarrow> u64 \<Rightarrow> mm_number \<Rightarrow> mm_number \<Rightarrow> taker_v2_outcome" where
  "t2_initialized env sm mb tb fee spend_fee =
     v2_next TvAborted
       (v2_bind (v2_ask (\<lambda>_. NegotiationTimeout) (ve_maker_negotiation env)) (\<lambda>mn.
        v2_bind (t2_check_negotiation env sm mn) (\<lambda>_.
        v2_bind (t2_negotiation_msg env sm) (\<lambda>msg.
        v2_bind ([SentMessage (TakerNegotiationMsg (Some (NegotiationContinue msg)))], Inr ()) (\<lambda>_.
        v2_bind (v2_ask (\<lambda>_. NegotiationTimeout) (ve_maker_negotiated env)) (\<lambda>negotiated.
        v2_bind (v2_require (mgd_negotiated negotiated)
          (MakerAborted (case mgd_reason negotiated of Some r \<Rightarrow> r | None \<Rightarrow> ''unknown''))) (\<lambda>_.
          v2_return (TvNegotiated mb tb (t2_stored_negotiation mn) fee spend_fee))))))))"

definition t2_dex_fee :: "v2_env \<Rightarrow> taker_v2 \<Rightarrow> bytes \<Rightarrow> dex_fee" where
  "t2_dex_fee env sm taker_coin_htlc_pub =
     compute_dex_fee_with_taker_pubkey (ve_net env) (ve_taker_coin env) (coin_ticker (ve_maker_coin env))
       (t2_taker_volume sm) taker_coin_htlc_pub"

definition t2_funding_args ::
  "v2_env \<Rightarrow> taker_v2 \<Rightarrow> stored_taker_negotiation_data \<Rightarrow> bytes \<Rightarrow> send_taker_funding_args" where
  "t2_funding_args env sm nd taker_coin_htlc_pub =
     \<lparr>stf_funding_time_lock = t2_taker_funding_locktime sm,
      stf_payment_time_lock = t2_taker_payment_locktime sm,
      stf_taker_secret_hash = t2_taker_secret_hash env sm,
      stf_maker_secret_hash = stn_maker_secret_hash nd, stf_maker_pub = stn_taker_coin_htlc_pub nd,
      stf_dex_fee = t2_dex_fee env sm taker_coin_htlc_pub,
      stf_premium_amount = ve_to_decimal env (t2_taker_premium sm),
      stf_trading_amount = ve_to_decimal env (t2_taker_volume sm),
      stf_swap_unique_data = t2_unique_data sm\<rparr>"

definition t2_negotiated ::
  "v2_env \<Rightarrow> taker_v2 \<Rightarrow> u64 \<Rightarrow> u64 \<Rightarrow> stored_taker_negotiation_data \<Rightarrow> taker_v2_outcome" where
  "t2_negotiated env sm mb tb nd =
     v2_next TvAborted
       (v2_bind (v2_ask (\<lambda>_. InternalReason ''Failed to derive taker-coin V2 HTLC pubkey'')
          (po_derive_htlc_pubkey (ve_taker_ops env) (t2_unique_data sm))) (\<lambda>pub.
        v2_bind (v2_send (SendTakerFundingTx (t2_funding_args env sm nd pub))
          (\<lambda>_. FailedToSendPayment ''Failed to send taker funding'')
          (to_send_taker_funding (ve_taker_ops env) (t2_funding_args env sm nd pub))) (\<lambda>funding_tx.
        v2_bind ([SentMessage (TakerFundingInfoMsg (tx_hex funding_tx))], Inr ()) (\<lambda>_.
          v2_return (TvTakerFundingSent mb tb nd (tx_hex funding_tx))))))"

definition t2_taker_funding_sent ::
  "v2_env \<Rightarrow> taker_v2 \<Rightarrow> u64 \<Rightarrow> u64 \<Rightarrow> stored_taker_negotiation_data \<Rightarrow> bytes \<Rightarrow> taker_v2_outcome" where
  "t2_taker_funding_sent env sm mb tb nd funding =
     v2_next (TvTakerFundingRefundRequired mb tb nd funding)
       (v2_bind (v2_ask DidNotReceiveMakerPayment (ve_maker_payment env)) (\<lambda>info.
        v2_bind (v2_ask FailedToParseMakerPayment (po_parse_tx (ve_maker_ops env) (mpi_tx_bytes info))) (\<lambda>_.
        v2_bind (v2_ask FailedToParseFundingSpendPreimg
          (po_parse_preimage (ve_taker_ops env) (mpi_funding_preimage_tx info))) (\<lambda>_.
        v2_bind (v2_ask FailedToParseFundingSpendSig
          (po_parse_signature (ve_taker_ops env) (mpi_funding_preimage_sig info))) (\<lambda>_.
          v2_return (TvMakerPaymentAndFundingSpendPreimgReceived mb tb nd funding
            \<lparr>stp_preimage = mpi_funding_preimage_tx info, stp_signature = mpi_funding_preimage_sig info\<rparr>
            (mpi_tx_bytes info)))))))"

section \<open>The taker payment\<close>

definition t2_validate_args ::
  "v2_env \<Rightarrow> taker_v2 \<Rightarrow> stored_taker_negotiation_data \<Rightarrow> transaction_identifier \<Rightarrow> bytes
    \<Rightarrow> validate_maker_payment_args" where
  "t2_validate_args env sm nd maker_payment_tx maker_pub =
     \<lparr>vmp_maker_payment_tx = maker_payment_tx, vmp_time_lock = stn_maker_payment_locktime nd,
      vmp_taker_secret_hash = t2_taker_secret_hash env sm, vmp_maker_secret_hash = stn_maker_secret_hash nd,
      vmp_amount = ve_to_decimal env (t2_maker_volume sm), vmp_maker_pub = maker_pub,
      vmp_swap_unique_data = t2_unique_data sm\<rparr>"

definition t2_funding_spend_args ::
  "v2_env \<Rightarrow> taker_v2 \<Rightarrow> stored_taker_negotiation_data \<Rightarrow> transaction_identifier \<Rightarrow> bytes \<Rightarrow> bytes
    \<Rightarrow> gen_taker_funding_spend_args" where
  "t2_funding_spend_args env sm nd funding_tx maker_pub taker_pub =
     \<lparr>gfs_funding_tx = funding_tx, gfs_maker_pub = maker_pub, gfs_taker_pub = taker_pub,
      gfs_funding_time_lock = t2_taker_funding_locktime sm,
      gfs_taker_secret_hash = t2_taker_secret_hash env sm,
      gfs_taker_payment_time_lock = t2_taker_payment_locktime sm,
      gfs_maker_secret_hash = stn_maker_secret_hash nd\<rparr>"

definition t2_gate :: "taker_v2 \<Rightarrow> bytes \<Rightarrow> u64 \<Rightarrow> confirm_args" where
  "t2_gate sm tx wait_until =
     \<lparr>ca_tx = tx, ca_confirmations = confirmation_gate_confs (cs_maker_coin_confs (t2_conf_settings sm)),
      ca_requires_nota = cs_maker_coin_nota (t2_conf_settings sm), ca_wait_until = wait_until\<rparr>"

definition t2_confirm_maker_tx :: "v2_env \<Rightarrow> confirm_args \<Rightarrow> (string \<Rightarrow> abort_reason) \<Rightarrow> unit v2_try" where
  "t2_confirm_maker_tx env args reason =
     v2_check (ConfirmedTx (coin_ticker (ve_maker_coin env)) args) reason
       (po_wait_for_confirmations (ve_maker_ops env) args)"

text \<open>The taker's own key on the taker coin, as derived and parsed again.\<close>

definition t2_own_pub :: "v2_env \<Rightarrow> taker_v2 \<Rightarrow> bytes v2_try" where
  "t2_own_pub env sm =
     v2_bind (v2_ask (\<lambda>_. InternalReason ''Failed to derive own taker-coin V2 HTLC pubkey'')
       (po_derive_htlc_pubkey (ve_taker_ops env) (t2_unique_data sm))) (\<lambda>bytes.
     v2_ask (\<lambda>_. InternalReason ''Failed to parse own taker-coin pubkey'')
       (po_parse_pubkey (ve_taker_ops env) bytes))"

definition t2_parse_preimage ::
  "v2_env \<Rightarrow> stored_tx_preimage \<Rightarrow> (string \<Rightarrow> abort_reason) \<Rightarrow> (string \<Rightarrow> abort_reason) \<Rightarrow> tx_preimage_with_sig v2_try" where
  "t2_parse_preimage env pre bad_preimage bad_signature =
     v2_bind (v2_ask bad_preimage (po_parse_preimage (ve_taker_ops env) (stp_preimage pre))) (\<lambda>preimage.
     v2_bind (v2_ask bad_signature (po_parse_signature (ve_taker_ops env) (stp_signature pre))) (\<lambda>signature.
       v2_return \<lparr>tps_preimage = preimage, tps_signature = signature\<rparr>))"

definition t2_send_payment ::
  "v2_env \<Rightarrow> taker_v2 \<Rightarrow> u64 \<Rightarrow> u64 \<Rightarrow> stored_taker_negotiation_data \<Rightarrow> bytes \<Rightarrow> tx_preimage_with_sig
    \<Rightarrow> gen_taker_funding_spend_args \<Rightarrow> taker_v2_event v2_try" where
  "t2_send_payment env sm mb tb nd mp pre args =
     v2_bind (v2_send (SendTakerPaymentTx pre args) (\<lambda>_. FailedToSendPayment ''Failed to send taker payment'')
       (to_sign_and_send_taker_funding_spend (ve_taker_ops env) pre args (t2_unique_data sm))) (\<lambda>tx.
       v2_return
         (if to_skip_taker_payment_spend_preimage (ve_taker_ops env)
          then TvTakerPaymentSentPreimageSendingSkipped mb tb nd (tx_hex tx) mp
          else TvTakerPaymentSent mb tb nd (tx_hex tx) mp))"

definition t2_maker_payment_received ::
  "v2_env \<Rightarrow> taker_v2 \<Rightarrow> u64 \<Rightarrow> u64 \<Rightarrow> stored_taker_negotiation_data \<Rightarrow> bytes \<Rightarrow> stored_tx_preimage \<Rightarrow> bytes
    \<Rightarrow> taker_v2_outcome" where
  "t2_maker_payment_received env sm mb tb nd funding spre mp =
     v2_next (TvTakerFundingRefundRequired mb tb nd funding)
       (v2_bind (v2_ask FailedToParseMakerPayment (po_parse_tx (ve_maker_ops env) mp)) (\<lambda>maker_payment_tx.
        v2_bind (v2_ask (\<lambda>_. InternalReason ''Failed to parse own funding tx'')
          (po_parse_tx (ve_taker_ops env) funding)) (\<lambda>funding_tx.
        v2_bind (v2_ask (\<lambda>_. InternalReason ''Failed to parse maker's maker-coin pubkey'')
          (po_parse_pubkey (ve_maker_ops env) (stn_maker_coin_htlc_pub nd))) (\<lambda>maker_maker_coin_pub.
        v2_bind (v2_ask (\<lambda>_. InternalReason ''Failed to parse maker's taker-coin pubkey'')
          (po_parse_pubkey (ve_taker_ops env) (stn_taker_coin_htlc_pub nd))) (\<lambda>maker_taker_coin_pub.
        v2_bind (v2_check (ValidatedMakerPayment (t2_validate_args env sm nd maker_payment_tx maker_maker_coin_pub))
          MakerPaymentValidationFailed
          (mo_validate_maker_payment (ve_maker_ops env)
             (t2_validate_args env sm nd maker_payment_tx maker_maker_coin_pub))) (\<lambda>_.
        v2_bind (t2_own_pub env sm) (\<lambda>taker_taker_coin_pub.
        v2_bind (t2_parse_preimage env spre FailedToParseFundingSpendPreimg FailedToParseFundingSpendSig) (\<lambda>pre.
        let args = t2_funding_spend_args env sm nd funding_tx maker_taker_coin_pub taker_taker_coin_pub in
        v2_bind (v2_check (ValidatedFundingSpend args pre) FundingSpendPreimageValidationFailed
          (to_validate_taker_funding_spend_preimage (ve_taker_ops env) args pre)) (\<lambda>_.
        v2_bind (if t2_require_maker_payment_confirm sm
                 then t2_confirm_maker_tx env
                        (t2_gate sm (tx_hex maker_payment_tx) (t2_maker_payment_conf_timeout sm))
                        MakerPaymentNotConfirmedInTime
                 else v2_return ()) (\<lambda>_.
          t2_send_payment env sm mb tb nd mp pre args))))))))))"

definition t2_maker_payment_confirmed ::
  "v2_env \<Rightarrow> taker_v2 \<Rightarrow> u64 \<Rightarrow> u64 \<Rightarrow> stored_taker_negotiation_data \<Rightarrow> bytes \<Rightarrow> stored_tx_preimage \<Rightarrow> bytes
    \<Rightarrow> taker_v2_outcome" where
  "t2_maker_payment_confirmed env sm mb tb nd funding spre mp =
     v2_next (TvTakerFundingRefundRequired mb tb nd funding)
       (v2_bind (v2_ask (\<lambda>_. InternalReason ''Failed to parse own funding tx'')
          (po_parse_tx (ve_taker_ops env) funding)) (\<lambda>funding_tx.
        v2_bind (v2_ask (\<lambda>_. InternalReason ''Failed to parse maker's taker-coin pubkey'')
          (po_parse_pubkey (ve_taker_ops env) (stn_taker_coin_htlc_pub nd))) (\<lambda>maker_taker_coin_pub.
        v2_bind (t2_own_pub env sm) (\<lambda>taker_taker_coin_pub.
        v2_bind (t2_parse_preimage env spre (\<lambda>_. InternalReason ''Failed to parse preimage'')
          (\<lambda>_. InternalReason ''Failed to parse signature'')) (\<lambda>pre.
          t2_send_payment env sm mb tb nd mp pre
            (t2_funding_spend_args env sm nd funding_tx maker_taker_coin_pub taker_taker_coin_pub))))))"

definition t2_payment_spend_args ::
  "v2_env \<Rightarrow> taker_v2 \<Rightarrow> stored_taker_negotiation_data \<Rightarrow> transaction_identifier \<Rightarrow> bytes \<Rightarrow> string \<Rightarrow> bytes \<Rightarrow> bytes
    \<Rightarrow> gen_taker_payment_spend_args" where
  "t2_payment_spend_args env sm nd tx maker_pub maker_address taker_pub taker_pub_bytes =
     \<lparr>gps_taker_tx = tx, gps_time_lock = t2_taker_payment_locktime sm,
      gps_maker_secret_hash = stn_maker_secret_hash nd, gps_maker_pub = maker_pub,
      gps_maker_address = maker_address, gps_taker_pub = taker_pub,
      gps_dex_fee = t2_dex_fee env sm taker_pub_bytes,
      gps_premium_amount = ve_to_decimal env (t2_taker_premium sm),
      gps_trading_amount = ve_to_decimal env (t2_taker_volume sm)\<rparr>"

text \<open>The wait for the maker's spending of the taker payment, which ends both handlers.\<close>

definition t2_find_spend ::
  "v2_env \<Rightarrow> taker_v2 \<Rightarrow> u64 \<Rightarrow> u64 \<Rightarrow> stored_taker_negotiation_data \<Rightarrow> bytes \<Rightarrow> transaction_identifier
    \<Rightarrow> taker_v2_event v2_try" where
  "t2_find_spend env sm mb tb nd mp tx =
     (case to_find_taker_payment_spend_tx (ve_taker_ops env) tx mb (t2_taker_payment_locktime sm) of
        Inl e \<Rightarrow> ([], Inl (MakerDidNotSpendInTime e))
      | Inr spend \<Rightarrow> ([FoundPaymentSpend tx spend], Inr (TvTakerPaymentSpent mb tb (tx_hex spend) mp nd)))"

definition t2_taker_payment_sent ::
  "v2_env \<Rightarrow> taker_v2 \<Rightarrow> u64 \<Rightarrow> u64 \<Rightarrow> stored_taker_negotiation_data \<Rightarrow> bytes \<Rightarrow> bytes \<Rightarrow> taker_v2_outcome" where
  "t2_taker_payment_sent env sm mb tb nd tp mp =
     v2_next (TvTakerPaymentRefundRequired tp nd)
       (v2_bind (v2_ask (\<lambda>_. InternalReason ''Failed to parse own payment tx'')
          (po_parse_tx (ve_taker_ops env) tp)) (\<lambda>tx.
        v2_bind (v2_ask (\<lambda>_. InternalReason ''Failed to parse maker's taker-coin pubkey'')
          (po_parse_pubkey (ve_taker_ops env) (stn_taker_coin_htlc_pub nd))) (\<lambda>maker_pub.
        v2_bind (t2_own_pub env sm) (\<lambda>taker_pub.
        v2_bind (v2_ask (\<lambda>_. InternalReason ''Failed to select taker-coin V2 address'')
          (po_my_addr (ve_taker_ops env))) (\<lambda>maker_address.
        v2_bind (v2_ask (\<lambda>_. InternalReason ''Failed to derive own taker-coin V2 HTLC pubkey'')
          (po_derive_htlc_pubkey (ve_taker_ops env) (t2_unique_data sm))) (\<lambda>taker_pub_bytes.
        v2_bind (v2_ask FailedToGenerateSpendPreimage
          (to_gen_taker_payment_spend_preimage (ve_taker_ops env)
             (t2_payment_spend_args env sm nd tx maker_pub maker_address taker_pub taker_pub_bytes)
             (t2_unique_data sm))) (\<lambda>result.
        v2_bind ([SentMessage (TakerPaymentSpendPreimageMsg (tps_signature result) (tps_preimage result))], Inr ()) (\<lambda>_.
          t2_find_spend env sm mb tb nd mp tx))))))))"

definition t2_preimage_sending_skipped ::
  "v2_env \<Rightarrow> taker_v2 \<Rightarrow> u64 \<Rightarrow> u64 \<Rightarrow> stored_taker_negotiation_data \<Rightarrow> bytes \<Rightarrow> bytes \<Rightarrow> taker_v2_outcome" where
  "t2_preimage_sending_skipped env sm mb tb nd tp mp =
     v2_next (TvTakerPaymentRefundRequired tp nd)
       (v2_bind (v2_ask (\<lambda>_. InternalReason ''Failed to parse own payment tx'')
          (po_parse_tx (ve_taker_ops env) tp)) (\<lambda>tx.
          t2_find_spend env sm mb tb nd mp tx))"

section \<open>The maker payment\<close>

definition t2_spend_args ::
  "v2_env \<Rightarrow> taker_v2 \<Rightarrow> stored_taker_negotiation_data \<Rightarrow> transaction_identifier \<Rightarrow> bytes \<Rightarrow> bytes
    \<Rightarrow> spend_maker_payment_args" where
  "t2_spend_args env sm nd maker_payment_tx maker_secret maker_pub =
     \<lparr>spm_maker_payment_tx = maker_payment_tx, spm_time_lock = stn_maker_payment_locktime nd,
      spm_taker_secret_hash = t2_taker_secret_hash env sm, spm_maker_secret_hash = stn_maker_secret_hash nd,
      spm_maker_secret = maker_secret, spm_maker_pub = maker_pub, spm_swap_unique_data = t2_unique_data sm,
      spm_amount = ve_to_decimal env (t2_maker_volume sm)\<rparr>"

definition t2_taker_payment_spent ::
  "v2_env \<Rightarrow> taker_v2 \<Rightarrow> u64 \<Rightarrow> u64 \<Rightarrow> bytes \<Rightarrow> bytes \<Rightarrow> stored_taker_negotiation_data \<Rightarrow> taker_v2_outcome" where
  "t2_taker_payment_spent env sm mb tb spend mp nd =
     v2_next TvAborted
       (v2_bind (v2_ask (\<lambda>_. InternalReason ''Failed to parse taker payment spend tx'')
          (po_parse_tx (ve_taker_ops env) spend)) (\<lambda>spend_tx.
        v2_bind (case to_extract_secret (ve_taker_ops env) (stn_maker_secret_hash nd) spend_tx of
            Inl e \<Rightarrow> ([], Inl (CouldNotExtractSecret e))
          | Inr secret \<Rightarrow> ([ExtractedSecret (stn_maker_secret_hash nd) spend_tx secret], Inr secret)) (\<lambda>maker_secret.
        v2_bind (v2_ask (\<lambda>_. InternalReason ''Failed to parse maker payment tx'')
          (po_parse_tx (ve_maker_ops env) mp)) (\<lambda>maker_payment_tx.
        v2_bind (v2_ask (\<lambda>_. InternalReason ''Failed to parse maker's maker-coin pubkey'')
          (po_parse_pubkey (ve_maker_ops env) (stn_maker_coin_htlc_pub nd))) (\<lambda>maker_pub.
        v2_bind (v2_send (SpendMakerPaymentTx (t2_spend_args env sm nd maker_payment_tx maker_secret maker_pub))
          FailedToSpendMakerPayment
          (mo_spend_maker_payment (ve_maker_ops env)
             (t2_spend_args env sm nd maker_payment_tx maker_secret maker_pub))) (\<lambda>tx.
          v2_return (TvMakerPaymentSpent mb tb (tx_hex tx) nd)))))))"

definition t2_maker_payment_spent ::
  "v2_env \<Rightarrow> taker_v2 \<Rightarrow> bytes \<Rightarrow> stored_taker_negotiation_data \<Rightarrow> taker_v2_outcome" where
  "t2_maker_payment_spent env sm spend nd =
     v2_next (TvTakerPaymentRefundRequired [] nd)
       (v2_bind (if t2_require_maker_payment_spend_confirm sm
                 then t2_confirm_maker_tx env (t2_gate sm spend (t2_taker_payment_locktime sm))
                        MakerPaymentSpendNotConfirmedInTime
                 else v2_return ()) (\<lambda>_.
          v2_return TvCompleted))"

section \<open>Refunds\<close>

definition t2_refund_funding_args ::
  "v2_env \<Rightarrow> taker_v2 \<Rightarrow> stored_taker_negotiation_data \<Rightarrow> transaction_identifier \<Rightarrow> bytes \<Rightarrow> bytes
    \<Rightarrow> refund_funding_secret_args" where
  "t2_refund_funding_args env sm nd funding_tx maker_pub taker_coin_htlc_pub =
     \<lparr>rfs_funding_tx = funding_tx, rfs_funding_time_lock = t2_taker_funding_locktime sm,
      rfs_payment_time_lock = t2_taker_payment_locktime sm, rfs_maker_pubkey = maker_pub,
      rfs_taker_secret = t2_taker_secret sm, rfs_taker_secret_hash = t2_taker_secret_hash env sm,
      rfs_maker_secret_hash = stn_maker_secret_hash nd, rfs_dex_fee = t2_dex_fee env sm taker_coin_htlc_pub,
      rfs_premium_amount = ve_to_decimal env (t2_taker_premium sm),
      rfs_trading_amount = ve_to_decimal env (t2_taker_volume sm),
      rfs_swap_unique_data = t2_unique_data sm\<rparr>"

definition t2_funding_refund_required ::
  "v2_env \<Rightarrow> taker_v2 \<Rightarrow> stored_taker_negotiation_data \<Rightarrow> bytes \<Rightarrow> abort_reason \<Rightarrow> taker_v2_outcome" where
  "t2_funding_refund_required env sm nd funding reason =
     v2_next TvAborted
       (v2_bind (v2_ask (\<lambda>_. InternalReason ''Failed to parse own funding tx for refund'')
          (po_parse_tx (ve_taker_ops env) funding)) (\<lambda>funding_tx.
        v2_bind (v2_ask (\<lambda>_. InternalReason ''Failed to parse maker's taker-coin pubkey'')
          (po_parse_pubkey (ve_taker_ops env) (stn_taker_coin_htlc_pub nd))) (\<lambda>maker_pub.
        v2_bind (v2_ask (\<lambda>_. InternalReason ''Failed to derive taker-coin V2 HTLC pubkey'')
          (po_derive_htlc_pubkey (ve_taker_ops env) (t2_unique_data sm))) (\<lambda>pub.
        v2_bind (v2_send (RefundTakerFundingTx (t2_refund_funding_args env sm nd funding_tx maker_pub pub))
          TakerFundingRefundFailed
          (to_refund_taker_funding_secret (ve_taker_ops env)
             (t2_refund_funding_args env sm nd funding_tx maker_pub pub))) (\<lambda>tx.
          v2_return (TvTakerFundingRefunded funding (tx_hex tx) reason))))))"

definition t2_refund_payment_args ::
  "v2_env \<Rightarrow> taker_v2 \<Rightarrow> stored_taker_negotiation_data \<Rightarrow> bytes \<Rightarrow> bytes \<Rightarrow> refund_taker_payment_args" where
  "t2_refund_payment_args env sm nd tp taker_coin_htlc_pub =
     \<lparr>rtp_payment_tx = tp, rtp_time_lock = t2_taker_payment_locktime sm,
      rtp_maker_pub = stn_taker_coin_htlc_pub nd,
      rtp_tx_type = TakerPaymentV2Tx (stn_maker_secret_hash nd) (t2_taker_secret_hash env sm),
      rtp_swap_unique_data = t2_unique_data sm, rtp_dex_fee = t2_dex_fee env sm taker_coin_htlc_pub,
      rtp_premium_amount = ve_to_decimal env (t2_taker_premium sm),
      rtp_trading_amount = ve_to_decimal env (t2_taker_volume sm)\<rparr>"

definition t2_payment_refund_required ::
  "v2_env \<Rightarrow> taker_v2 \<Rightarrow> bytes \<Rightarrow> stored_taker_negotiation_data \<Rightarrow> abort_reason \<Rightarrow> taker_v2_outcome option" where
  "t2_payment_refund_required env sm tp nd reason =
     (case can_refund_loop
             (\<lambda>i. po_can_refund_htlc (ve_taker_ops env) i (t2_taker_payment_locktime sm)) 0 of
        None \<Rightarrow> None
      | Some _ \<Rightarrow> Some (v2_next TvAborted
          (v2_bind ([RefundAllowed (coin_ticker (ve_taker_coin env)) (t2_taker_payment_locktime sm)], Inr ()) (\<lambda>_.
           v2_bind (v2_ask (\<lambda>_. InternalReason ''Failed to derive taker-coin V2 HTLC pubkey'')
             (po_derive_htlc_pubkey (ve_taker_ops env) (t2_unique_data sm))) (\<lambda>pub.
           v2_bind (v2_send (RefundTakerPaymentTx (t2_refund_payment_args env sm nd tp pub))
             TakerPaymentRefundFailed
             (to_refund_combined_taker_payment (ve_taker_ops env) (t2_refund_payment_args env sm nd tp pub))) (\<lambda>tx.
             v2_return (TvTakerPaymentRefunded tp (tx_hex tx) reason)))))))"

fun taker_v2_on_changed ::
  "v2_env \<Rightarrow> taker_v2 \<Rightarrow> taker_v2_event v2_state \<Rightarrow> (taker_v2_event option \<times> v2_call list) option" where
  "taker_v2_on_changed env sm V2Initialize = Some (apfst Some (t2_initialize env sm))"
| "taker_v2_on_changed env sm (V2Entered (TvInitialized mb tb fee spend_fee)) =
     Some (apfst Some (t2_initialized env sm mb tb fee spend_fee))"
| "taker_v2_on_changed env sm (V2Entered (TvNegotiated mb tb nd _ _)) =
     Some (apfst Some (t2_negotiated env sm mb tb nd))"
| "taker_v2_on_changed env sm (V2Entered (TvTakerFundingSent mb tb nd funding)) =
     Some (apfst Some (t2_taker_funding_sent env sm mb tb nd funding))"
| "taker_v2_on_changed env sm (V2Entered (TvMakerPaymentAndFundingSpendPreimgReceived mb tb nd funding pre mp)) =
     Some (apfst Some (t2_maker_payment_received env sm mb tb nd funding pre mp))"
| "taker_v2_on_changed env sm (V2Entered (TvMakerPaymentConfirmed mb tb nd funding pre mp)) =
     Some (apfst Some (t2_maker_payment_confirmed env sm mb tb nd funding pre mp))"
| "taker_v2_on_changed env sm (V2Entered (TvTakerPaymentSent mb tb nd tp mp)) =
     Some (apfst Some (t2_taker_payment_sent env sm mb tb nd tp mp))"
| "taker_v2_on_changed env sm (V2Entered (TvTakerPaymentSentPreimageSendingSkipped mb tb nd tp mp)) =
     Some (apfst Some (t2_preimage_sending_skipped env sm mb tb nd tp mp))"
| "taker_v2_on_changed env sm (V2Entered (TvTakerPaymentSpent mb tb spend mp nd)) =
     Some (apfst Some (t2_taker_payment_spent env sm mb tb spend mp nd))"
| "taker_v2_on_changed env sm (V2Entered (TvMakerPaymentSpent _ _ spend nd)) =
     Some (apfst Some (t2_maker_payment_spent env sm spend nd))"
| "taker_v2_on_changed env sm (V2Entered (TvTakerFundingRefundRequired _ _ nd funding reason)) =
     Some (apfst Some (t2_funding_refund_required env sm nd funding reason))"
| "taker_v2_on_changed env sm (V2Entered (TvTakerPaymentRefundRequired tp nd reason)) =
     map_option (apfst Some) (t2_payment_refund_required env sm tp nd reason)"
| "taker_v2_on_changed env sm (V2Entered (TvTakerFundingRefunded _ _ _)) = Some (None, [])"
| "taker_v2_on_changed env sm (V2Entered (TvTakerPaymentRefunded _ _ _)) = Some (None, [])"
| "taker_v2_on_changed env sm (V2Entered (TvAborted _)) = Some (None, [])"
| "taker_v2_on_changed env sm (V2Entered TvCompleted) = Some (None, [])"

section \<open>Storage and context\<close>

definition taker_v2_to_db_repr :: "v2_env \<Rightarrow> taker_v2 \<Rightarrow> taker_v2_event swap_v2_db_repr" where
  "taker_v2_to_db_repr env sm =
     \<lparr>dr_maker_coin = coin_ticker (ve_maker_coin env), dr_maker_volume = t2_maker_volume sm,
      dr_secret = t2_taker_secret sm, dr_secret_hash = t2_taker_secret_hash env sm,
      dr_secret_hash_algo = t2_secret_hash_algo sm, dr_started_at = t2_started_at sm,
      dr_lock_duration = t2_lock_duration sm, dr_taker_coin = coin_ticker (ve_taker_coin env),
      dr_taker_volume = t2_taker_volume sm, dr_taker_premium = t2_taker_premium sm,
      dr_dex_fee_amount = 0, dr_dex_fee_burn = 0, dr_conf_settings = t2_conf_settings sm,
      dr_uuid = t2_uuid sm, dr_p2p_keypair = t2_p2p_keypair sm, dr_events = [],
      dr_other_p2p_pub = t2_maker_p2p_pubkey sm, dr_swap_version = t2_swap_version sm\<rparr>"

definition taker_v2_recreate ::
  "(bytes \<Rightarrow> bool) \<Rightarrow> uuid \<Rightarrow> taker_v2_event swap_v2_db_repr \<Rightarrow> string + taker_v2 \<times> taker_v2_event" where
  "taker_v2_recreate valid_private uuid repr =
     (if dr_events repr = [] then Inl ''NoEvents''
      else bind_res
        (case last (dr_events repr) of
           TvTakerFundingRefunded _ _ _ \<Rightarrow> Inl ''Cannot recreate from TakerFundingRefunded''
         | TvTakerPaymentRefunded _ _ _ \<Rightarrow> Inl ''Cannot recreate from TakerPaymentRefunded''
         | TvAborted _ \<Rightarrow> Inl ''Cannot recreate from Aborted''
         | TvCompleted \<Rightarrow> Inl ''Cannot recreate from Completed''
         | e \<Rightarrow> Inr e)
        (\<lambda>current_state. Inr
          (\<lparr>t2_started_at = dr_started_at repr, t2_lock_duration = dr_lock_duration repr,
            t2_maker_volume = dr_maker_volume repr, t2_taker_volume = dr_taker_volume repr,
            t2_taker_premium = dr_taker_premium repr, t2_secret_hash_algo = dr_secret_hash_algo repr,
            t2_conf_settings = dr_conf_settings repr, t2_uuid = uuid,
            t2_p2p_keypair = restore_keypair valid_private (dr_p2p_keypair repr),
            t2_taker_secret = dr_secret repr, t2_maker_p2p_pubkey = dr_other_p2p_pub repr,
            t2_require_maker_payment_confirm = True, t2_require_maker_payment_spend_confirm = True,
            t2_swap_version = dr_swap_version repr\<rparr>,
           current_state)))"

definition taker_v2_init_additional_context ::
  "v2_wire \<Rightarrow> v2_env \<Rightarrow> taker_v2 \<Rightarrow> v2_context \<Rightarrow> v2_context option" where
  "taker_v2_init_additional_context w env sm ctx =
     (case vw_pubkey_from_slice w (t2_maker_p2p_pubkey sm) of
        Inl _ \<Rightarrow> None
      | Inr accept_from \<Rightarrow>
          Some (init_v2_msg_store (t2_uuid sm) accept_from
            (ctx\<lparr>vc_swaps := add_active_swap_v2
               \<lparr>av_uuid = t2_uuid sm, av_maker_coin = coin_ticker (ve_maker_coin env),
                av_taker_coin = coin_ticker (ve_taker_coin env), av_swap_type = taker_swap_v2_type\<rparr>
               (vc_swaps ctx)\<rparr>)))"

definition taker_v2_locked :: "v2_env \<Rightarrow> taker_v2 \<Rightarrow> mm_number \<Rightarrow> locked_amount_v2_info" where
  "taker_v2_locked env sm fee =
     \<lparr>lv_swap_uuid = t2_uuid sm,
      lv_locked_amount =
        \<lparr>la_coin = coin_ticker (ve_taker_coin env), la_amount = t2_taker_volume sm + t2_taker_premium sm,
         la_trade_fee = Some \<lparr>tf_coin = coin_ticker (ve_taker_coin env), tf_amount = fee,
           tf_paid_from_trading_vol = False\<rparr>\<rparr>\<rparr>"

definition taker_v2_on_event :: "v2_env \<Rightarrow> taker_v2 \<Rightarrow> taker_v2_event \<Rightarrow> v2_context \<Rightarrow> v2_context" where
  "taker_v2_on_event env sm e ctx =
     (case e of
        TvInitialized _ _ fee _ \<Rightarrow>
          push_locked_v2 (coin_ticker (ve_taker_coin env)) (taker_v2_locked env sm fee) ctx
      | TvTakerFundingSent _ _ _ _ \<Rightarrow>
          retain_locked_v2 (coin_ticker (ve_taker_coin env)) (t2_uuid sm) ctx
      | _ \<Rightarrow> ctx)"

definition taker_v2_on_kickstart_event :: "v2_env \<Rightarrow> taker_v2 \<Rightarrow> taker_v2_event \<Rightarrow> v2_context \<Rightarrow> v2_context" where
  "taker_v2_on_kickstart_event env sm e ctx =
     (let lock = (\<lambda>fee. push_locked_v2 (coin_ticker (ve_taker_coin env)) (taker_v2_locked env sm fee) ctx) in
      case e of
        TvInitialized _ _ fee _ \<Rightarrow> lock fee
      | TvNegotiated _ _ _ fee _ \<Rightarrow> lock fee
      | _ \<Rightarrow> ctx)"

definition taker_v2_ops :: "v2_wire \<Rightarrow> (bytes \<Rightarrow> bool) \<Rightarrow> (taker_v2, taker_v2_event) v2_machine_ops" where
  "taker_v2_ops w valid_private =
     \<lparr>vo_id = t2_uuid, vo_swap_type = taker_swap_v2_type,
      vo_insert = (\<lambda>env m. insert_swap_v2_taker (ve_to_decimal env) (t2_uuid m) (taker_v2_to_db_repr env m)),
      vo_recreate = taker_v2_recreate valid_private, vo_on_changed = taker_v2_on_changed,
      vo_init_additional_context = taker_v2_init_additional_context w,
      vo_on_event = taker_v2_on_event, vo_on_kickstart_event = taker_v2_on_kickstart_event\<rparr>"

end
