(* ===== verification/TakerSwapV2Safety.thy ===== *)
theory TakerSwapV2Safety
  imports TakerSwapV2
begin

text \<open>
  Safety of the taker's side of the second swap protocol over every run of the theory
  \<open>SwapV2Run\<close>: which checks stand behind the funding, the taker payment, the spending of the
  maker payment and the two refunds.
\<close>

section \<open>What supports a call and a state\<close>

definition t2_same :: "taker_v2 \<Rightarrow> taker_v2 \<Rightarrow> bool" where
  "t2_same m0 m \<longleftrightarrow>
     t2_uuid m = t2_uuid m0 \<and> t2_started_at m = t2_started_at m0 \<and> t2_lock_duration m = t2_lock_duration m0
     \<and> t2_taker_secret m = t2_taker_secret m0 \<and> t2_secret_hash_algo m = t2_secret_hash_algo m0
     \<and> t2_conf_settings m = t2_conf_settings m0
     \<and> (t2_require_maker_payment_confirm m0 \<longrightarrow> t2_require_maker_payment_confirm m)"

text \<open>The negotiation fixes the maker's hash and the lock time of the maker payment.\<close>

definition t2_nd_ok :: "taker_v2 \<Rightarrow> stored_taker_negotiation_data \<Rightarrow> bool" where
  "t2_nd_ok m0 nd \<longleftrightarrow>
     stn_maker_payment_locktime nd = t2_started_at m0 + 2 * t2_lock_duration m0
     \<and> length (stn_maker_secret_hash nd) \<in> {20, 32}"

text \<open>The funding \<open>a\<close> is locked to the two secrets, with the taker's own lock times.\<close>

definition t2_funds :: "v2_env \<Rightarrow> taker_v2 \<Rightarrow> send_taker_funding_args \<Rightarrow> bool" where
  "t2_funds env0 m0 a \<longleftrightarrow>
     stf_funding_time_lock a = t2_taker_funding_locktime m0
     \<and> stf_payment_time_lock a = t2_taker_payment_locktime m0
     \<and> stf_taker_secret_hash a = t2_taker_secret_hash env0 m0
     \<and> length (stf_maker_secret_hash a) \<in> {20, 32}"

text \<open>
  The maker payment \<open>v\<close> was validated for the swap of the funding \<open>a\<close>, and confirmed where the
  machine asks for it.
\<close>

definition t2_payment_checked :: "v2_env \<Rightarrow> taker_v2 \<Rightarrow> v2_call list \<Rightarrow> send_taker_funding_args \<Rightarrow> validate_maker_payment_args \<Rightarrow> bool" where
  "t2_payment_checked env0 m0 L a v \<longleftrightarrow>
     ValidatedMakerPayment v \<in> set L
     \<and> vmp_time_lock v = t2_started_at m0 + 2 * t2_lock_duration m0
     \<and> vmp_taker_secret_hash v = t2_taker_secret_hash env0 m0
     \<and> vmp_maker_secret_hash v = stf_maker_secret_hash a
     \<and> (t2_require_maker_payment_confirm m0 \<longrightarrow>
          ConfirmedTx (coin_ticker (ve_maker_coin env0))
            (t2_gate m0 (tx_hex (vmp_maker_payment_tx v)) (t2_maker_payment_conf_timeout m0)) \<in> set L)"

definition t2_call_ok :: "v2_env \<Rightarrow> taker_v2 \<Rightarrow> v2_call list \<Rightarrow> v2_call \<Rightarrow> bool" where
  "t2_call_ok env0 m0 L c =
     (case c of
        SendTakerFundingTx a _ \<Rightarrow> t2_funds env0 m0 a
      | SendTakerPaymentTx pre args _ \<Rightarrow>
          ValidatedFundingSpend args pre \<in> set L
          \<and> (\<exists>a f v. SendTakerFundingTx a (Inr f) \<in> set L \<and> t2_funds env0 m0 a
               \<and> po_parse_tx (ve_taker_ops env0) (tx_hex f) = Inr (gfs_funding_tx args)
               \<and> gfs_maker_secret_hash args = stf_maker_secret_hash a
               \<and> gfs_taker_payment_time_lock args = stf_payment_time_lock a
               \<and> t2_payment_checked env0 m0 L a v)
      | SpendMakerPaymentTx args _ \<Rightarrow>
          (\<exists>a v pre fargs tp tx spend spend'.
             SendTakerFundingTx a (Inr tx) \<in> set L \<and> t2_payment_checked env0 m0 L a v
             \<and> SendTakerPaymentTx pre fargs (Inr tp) \<in> set L
             \<and> gfs_maker_secret_hash fargs = spm_maker_secret_hash args
             \<and> spm_maker_secret_hash args = stf_maker_secret_hash a
             \<and> spm_maker_payment_tx args = vmp_maker_payment_tx v \<and> spm_time_lock args = vmp_time_lock v
             \<and> (\<exists>tp'. po_parse_tx (ve_taker_ops env0) (tx_hex tp) = Inr tp' \<and> FoundPaymentSpend tp' spend \<in> set L)
             \<and> po_parse_tx (ve_taker_ops env0) (tx_hex spend) = Inr spend'
             \<and> ExtractedSecret (spm_maker_secret_hash args) spend' (spm_maker_secret args) \<in> set L)
      | RefundTakerFundingTx r _ \<Rightarrow>
          rfs_taker_secret r = t2_taker_secret m0
          \<and> (\<exists>a f. SendTakerFundingTx a (Inr f) \<in> set L \<and> t2_funds env0 m0 a
               \<and> po_parse_tx (ve_taker_ops env0) (tx_hex f) = Inr (rfs_funding_tx r)
               \<and> rfs_maker_secret_hash r = stf_maker_secret_hash a \<and> rfs_taker_secret_hash r = stf_taker_secret_hash a)
      | RefundTakerPaymentTx r _ \<Rightarrow>
          RefundAllowed (coin_ticker (ve_taker_coin env0)) (rtp_time_lock r) \<in> set L
          \<and> rtp_time_lock r = t2_taker_payment_locktime m0
          \<and> (\<exists>pre args tx. SendTakerPaymentTx pre args (Inr tx) \<in> set L
               \<and> gfs_taker_payment_time_lock args = rtp_time_lock r
               \<and> rtp_tx_type r = TakerPaymentV2Tx (gfs_maker_secret_hash args) (t2_taker_secret_hash env0 m0)
               \<and> (rtp_payment_tx r = tx_hex tx
                   \<or> (rtp_payment_tx r = [] \<and> (\<exists>s t. SpendMakerPaymentTx s (Inr t) \<in> set L))))
      | _ \<Rightarrow> True)"

definition t2_funded :: "v2_env \<Rightarrow> taker_v2 \<Rightarrow> v2_call list \<Rightarrow> stored_taker_negotiation_data \<Rightarrow> send_taker_funding_args \<Rightarrow> bytes \<Rightarrow> bool" where
  "t2_funded env0 m0 L nd a funding \<longleftrightarrow>
     t2_nd_ok m0 nd \<and> t2_funds env0 m0 a \<and> stf_maker_secret_hash a = stn_maker_secret_hash nd
     \<and> (\<exists>f. SendTakerFundingTx a (Inr f) \<in> set L \<and> tx_hex f = funding)"

definition t2_paid ::
  "v2_env \<Rightarrow> taker_v2 \<Rightarrow> v2_call list \<Rightarrow> stored_taker_negotiation_data \<Rightarrow> bytes \<Rightarrow> bytes \<Rightarrow> bool" where
  "t2_paid env0 m0 L nd tp mp \<longleftrightarrow>
     (\<exists>a funding v pre args tx. t2_funded env0 m0 L nd a funding \<and> t2_payment_checked env0 m0 L a v
        \<and> po_parse_tx (ve_maker_ops env0) mp = Inr (vmp_maker_payment_tx v)
        \<and> SendTakerPaymentTx pre args (Inr tx) \<in> set L \<and> tx_hex tx = tp
        \<and> gfs_maker_secret_hash args = stn_maker_secret_hash nd
        \<and> gfs_taker_payment_time_lock args = t2_taker_payment_locktime m0)"

definition t2_state_ok :: "v2_env \<Rightarrow> taker_v2 \<Rightarrow> v2_call list \<Rightarrow> taker_v2_event v2_state \<Rightarrow> bool" where
  "t2_state_ok env0 m0 L s =
     (case s of
        V2Entered (TvNegotiated _ _ nd _ _) \<Rightarrow> t2_nd_ok m0 nd
      | V2Entered (TvTakerFundingSent _ _ nd funding) \<Rightarrow> \<exists>a. t2_funded env0 m0 L nd a funding
      | V2Entered (TvMakerPaymentAndFundingSpendPreimgReceived _ _ nd funding _ _) \<Rightarrow>
          \<exists>a. t2_funded env0 m0 L nd a funding
      | V2Entered (TvTakerFundingRefundRequired _ _ nd funding _) \<Rightarrow> \<exists>a. t2_funded env0 m0 L nd a funding
      | V2Entered (TvMakerPaymentConfirmed _ _ _ _ _ _) \<Rightarrow> False
      | V2Entered (TvTakerPaymentSent _ _ nd tp mp) \<Rightarrow> t2_paid env0 m0 L nd tp mp
      | V2Entered (TvTakerPaymentSentPreimageSendingSkipped _ _ nd tp mp) \<Rightarrow> t2_paid env0 m0 L nd tp mp
      | V2Entered (TvTakerPaymentSpent _ _ spend mp nd) \<Rightarrow>
          \<exists>tp tp' spend_tx. t2_paid env0 m0 L nd tp mp \<and> po_parse_tx (ve_taker_ops env0) tp = Inr tp'
            \<and> FoundPaymentSpend tp' spend_tx \<in> set L \<and> tx_hex spend_tx = spend
      | V2Entered (TvMakerPaymentSpent _ _ _ nd) \<Rightarrow>
          \<exists>tp mp s t. t2_paid env0 m0 L nd tp mp \<and> SpendMakerPaymentTx s (Inr t) \<in> set L
      | V2Entered (TvTakerPaymentRefundRequired tp nd _) \<Rightarrow>
          (\<exists>mp. t2_paid env0 m0 L nd tp mp)
          \<or> (tp = [] \<and> (\<exists>tp mp s t. t2_paid env0 m0 L nd tp mp \<and> SpendMakerPaymentTx s (Inr t) \<in> set L))
      | _ \<Rightarrow> True)"

definition t2_row_of :: "taker_v2 \<Rightarrow> taker_v2_event swap_v2_row \<Rightarrow> bool" where
  "t2_row_of m0 row \<longleftrightarrow>
     sr_started_at row = t2_started_at m0 \<and> sr_lock_duration row = t2_lock_duration m0
     \<and> sr_secret row = t2_taker_secret m0
     \<and> sr_secret_hash_algo row = secret_hash_algo_to_i64 (t2_secret_hash_algo m0)
     \<and> sr_maker_coin_confs row = cs_maker_coin_confs (t2_conf_settings m0)
     \<and> sr_maker_coin_nota row = bool_to_i64 (cs_maker_coin_nota (t2_conf_settings m0))
     \<and> sr_taker_coin_confs row = cs_taker_coin_confs (t2_conf_settings m0)
     \<and> sr_taker_coin_nota row = bool_to_i64 (cs_taker_coin_nota (t2_conf_settings m0))"

section \<open>The handlers\<close>

lemma t2_checked_grows: "t2_payment_checked env0 m0 L a v \<Longrightarrow> t2_payment_checked env0 m0 (L @ cs) a v"
  by (auto simp: t2_payment_checked_def)

lemma t2_funded_grows: "t2_funded env0 m0 L nd a f \<Longrightarrow> t2_funded env0 m0 (L @ cs) nd a f"
  by (auto simp: t2_funded_def)

lemma t2_paid_grows: "t2_paid env0 m0 L nd tp mp \<Longrightarrow> t2_paid env0 m0 (L @ cs) nd tp mp"
  unfolding t2_paid_def by (metis UnI1 set_append t2_checked_grows t2_funded_grows)

lemma t2_state_ok_grows: "t2_state_ok env0 m0 L s \<Longrightarrow> t2_state_ok env0 m0 (L @ cs) s"
  unfolding t2_state_ok_def
  by (auto split: v2_state.splits taker_v2_event.splits intro: t2_funded_grows t2_paid_grows
      dest: t2_funded_grows[of _ _ _ _ _ _ cs] t2_paid_grows[of _ _ _ _ _ _ cs])

lemma t2_same_simps:
  "v2_world env0 env \<Longrightarrow> t2_same m0 m \<Longrightarrow> t2_taker_secret_hash env m = t2_taker_secret_hash env0 m0"
  "t2_same m0 m \<Longrightarrow> t2_taker_funding_locktime m = t2_taker_funding_locktime m0"
  "t2_same m0 m \<Longrightarrow> t2_taker_payment_locktime m = t2_taker_payment_locktime m0"
  "t2_same m0 m \<Longrightarrow> t2_maker_payment_conf_timeout m = t2_maker_payment_conf_timeout m0"
  "t2_same m0 m \<Longrightarrow> t2_gate m tx w = t2_gate m0 tx w"
  by (simp_all add: t2_taker_secret_hash_def v2_world_def t2_same_def t2_taker_funding_locktime_def
      t2_taker_payment_locktime_def t2_maker_payment_conf_timeout_def t2_gate_def)

definition t2_outcome_ok :: "v2_env \<Rightarrow> taker_v2 \<Rightarrow> v2_call list \<Rightarrow> taker_v2_outcome \<Rightarrow> bool" where
  "t2_outcome_ok env0 m0 L out \<longleftrightarrow>
     log_from (t2_call_ok env0 m0) L (snd out) \<and> t2_state_ok env0 m0 (L @ snd out) (V2Entered (fst out))"

lemma t2_outcome_okI:
  assumes "v2_ok (t2_call_ok env0 m0) L m (\<lambda>L' e. t2_state_ok env0 m0 L' (V2Entered e))"
    "\<And>cs reason. t2_state_ok env0 m0 (L @ cs) (V2Entered (failed reason))"
  shows "t2_outcome_ok env0 m0 L (v2_next failed m)"
  using v2_ok_next[of "t2_call_ok env0 m0" L m "\<lambda>L' e. t2_state_ok env0 m0 L' (V2Entered e)" failed] assms
  by (simp add: t2_outcome_ok_def)

lemma t2_initialize_ok: "t2_outcome_ok env0 m0 L (t2_initialize env m)"
  unfolding t2_initialize_def
  by (intro t2_outcome_okI v2_ok_intros) (simp_all add: t2_state_ok_def)

lemma t2_initialized_ok:
  assumes "t2_same m0 m"
  shows "t2_outcome_ok env0 m0 L (t2_initialized env m mb tb fee sfee)"
  unfolding t2_initialized_def t2_negotiation_msg_def t2_check_negotiation_def
  using assms
  by (intro t2_outcome_okI v2_ok_intros)
    (simp_all add: t2_state_ok_def t2_call_ok_def t2_nd_ok_def t2_stored_negotiation_def t2_same_def)

lemma t2_negotiated_ok:
  assumes "v2_world env0 env" "t2_same m0 m" "t2_nd_ok m0 nd"
  shows "t2_outcome_ok env0 m0 L (t2_negotiated env m mb tb nd)"
proof -
  have f: "t2_funds env0 m0 (t2_funding_args env m nd pub)" for pub
    using assms by (simp add: t2_funds_def t2_funding_args_def t2_same_simps t2_nd_ok_def)
  have "t2_funded env0 m0 (L @ [SendTakerFundingTx (t2_funding_args env m nd pub) (Inr x), c]) nd
      (t2_funding_args env m nd pub) (tx_hex x)" for pub x c
    using f assms(3) by (auto simp: t2_funded_def t2_funding_args_def)
  then show ?thesis
    unfolding t2_negotiated_def
    by (intro t2_outcome_okI v2_ok_intros) (auto simp: t2_state_ok_def t2_call_ok_def f)
qed

lemma t2_funding_refund_grows:
  "t2_funded env0 m0 L nd a f \<Longrightarrow> t2_state_ok env0 m0 (L @ cs) (V2Entered (TvTakerFundingRefundRequired mb tb nd f r))"
  by (auto simp: t2_state_ok_def intro: t2_funded_grows)

lemma t2_taker_funding_sent_ok:
  assumes "t2_funded env0 m0 L nd a funding"
  shows "t2_outcome_ok env0 m0 L (t2_taker_funding_sent env m mb tb nd funding)"
  unfolding t2_taker_funding_sent_def
  by (intro t2_outcome_okI t2_funding_refund_grows[OF assms] v2_ok_intros) (use assms in \<open>auto simp: t2_state_ok_def\<close>)

lemma t2_checkedI:
  assumes "v2_world env0 env" "t2_same m0 m" "t2_funded env0 m0 L nd a funding"
    "ValidatedMakerPayment (t2_validate_args env m nd tx pub) \<in> set L"
    "t2_require_maker_payment_confirm m \<Longrightarrow> ConfirmedTx (coin_ticker (ve_maker_coin env))
       (t2_gate m (tx_hex tx) (t2_maker_payment_conf_timeout m)) \<in> set L"
  shows "t2_payment_checked env0 m0 L a (t2_validate_args env m nd tx pub)"
  using assms t2_same_simps(1)[OF assms(1,2)] t2_same_simps(4,5)[OF assms(2)]
  by (auto simp: t2_payment_checked_def t2_validate_args_def t2_funded_def t2_nd_ok_def t2_same_def v2_world_def)

lemma t2_send_payment_ok:
  assumes "v2_world env0 env" "t2_same m0 m" "t2_funded env0 m0 L nd a funding"
    "po_parse_tx (ve_taker_ops env) funding = Inr f" "po_parse_tx (ve_maker_ops env) mp = Inr tx"
    "args = t2_funding_spend_args env m nd f mpub tpub"
    "t2_payment_checked env0 m0 L a (t2_validate_args env m nd tx pub)"
    "ValidatedFundingSpend args pre \<in> set L"
  shows "v2_ok (t2_call_ok env0 m0) L (t2_send_payment env m mb tb nd mp pre args)
    (\<lambda>L' e. t2_state_ok env0 m0 L' (V2Entered e))"
proof -
  have args: "gfs_maker_secret_hash args = stf_maker_secret_hash a" "gfs_maker_secret_hash args = stn_maker_secret_hash nd"
    "gfs_taker_payment_time_lock args = t2_taker_payment_locktime m0" "gfs_funding_tx args = f"
    using assms by (auto simp: t2_funding_spend_args_def t2_funded_def t2_same_simps)
  have "t2_call_ok env0 m0 L (SendTakerPaymentTx pre args r)" for r
    using assms(1,3,4,7,8) args by (fastforce simp: t2_call_ok_def t2_funded_def t2_funds_def v2_world_def)
  moreover have "t2_paid env0 m0 (L @ [SendTakerPaymentTx pre args (Inr x)]) nd (tx_hex x) mp" for x
    unfolding t2_paid_def
    using assms(1,5) args t2_funded_grows[OF assms(3)] t2_checked_grows[OF assms(7)]
    by (intro exI[of _ a] exI[of _ funding] exI[of _ "t2_validate_args env m nd tx pub"] exI[of _ pre]
        exI[of _ args] exI[of _ x]) (auto simp: t2_validate_args_def v2_world_def)
  ultimately show ?thesis
    unfolding t2_send_payment_def by (intro v2_ok_intros) (auto simp: t2_state_ok_def)
qed

lemma t2_maker_payment_received_ok:
  assumes "v2_world env0 env" "t2_same m0 m" "t2_funded env0 m0 L nd a funding"
  shows "t2_outcome_ok env0 m0 L (t2_maker_payment_received env m mb tb nd funding spre mp)"
  unfolding t2_maker_payment_received_def t2_own_pub_def t2_parse_preimage_def t2_confirm_maker_tx_def Let_def
  by (intro t2_outcome_okI t2_funding_refund_grows[OF assms(3)] v2_ok_intros;
      (simp add: t2_call_ok_def; fail)?;
      rule t2_send_payment_ok[OF assms(1,2)];
      auto intro!: t2_checkedI[OF assms(1,2)] t2_funded_grows[OF assms(3)])

lemma t2_payment_refund_grows:
  "t2_paid env0 m0 L nd tp mp \<Longrightarrow> t2_state_ok env0 m0 (L @ cs) (V2Entered (TvTakerPaymentRefundRequired tp nd r))"
  by (auto simp: t2_state_ok_def intro: t2_paid_grows)

lemma t2_find_spend_ok:
  assumes "v2_world env0 env" "t2_paid env0 m0 L nd tp mp" "po_parse_tx (ve_taker_ops env) tp = Inr tx"
  shows "v2_ok (t2_call_ok env0 m0) (L @ cs) (t2_find_spend env m mb tb nd mp tx)
    (\<lambda>L' e. t2_state_ok env0 m0 L' (V2Entered e))"
proof -
  have "t2_state_ok env0 m0 (L @ cs @ [FoundPaymentSpend tx s]) (V2Entered (TvTakerPaymentSpent mb tb (tx_hex s) mp nd))" for s
    using assms(1,3) t2_paid_grows[OF assms(2), of "cs @ [FoundPaymentSpend tx s]"]
    by (fastforce simp: t2_state_ok_def v2_world_def)
  then show ?thesis
    by (auto simp: v2_ok_def t2_find_spend_def t2_call_ok_def split: sum.splits)
qed

lemma t2_taker_payment_sent_ok:
  assumes "v2_world env0 env" "t2_paid env0 m0 L nd tp mp"
  shows "t2_outcome_ok env0 m0 L (t2_taker_payment_sent env m mb tb nd tp mp)"
  unfolding t2_taker_payment_sent_def t2_own_pub_def
  by (intro t2_outcome_okI t2_payment_refund_grows[OF assms(2)] v2_ok_intros t2_find_spend_ok[OF assms])
    (simp_all add: t2_call_ok_def)

lemma t2_preimage_sending_skipped_ok:
  assumes "v2_world env0 env" "t2_paid env0 m0 L nd tp mp"
  shows "t2_outcome_ok env0 m0 L (t2_preimage_sending_skipped env m mb tb nd tp mp)"
  unfolding t2_preimage_sending_skipped_def
  using t2_find_spend_ok[OF assms, of _ "[]"]
  by (intro t2_outcome_okI t2_payment_refund_grows[OF assms(2)] v2_ok_intros) simp_all

lemma t2_spend_ok:
  assumes "v2_world env0 env" "t2_paid env0 m0 L nd tp mp"
    "po_parse_tx (ve_taker_ops env0) tp = Inr tp'" "FoundPaymentSpend tp' spend \<in> set L"
    "po_parse_tx (ve_taker_ops env) (tx_hex spend) = Inr spend'"
    "ExtractedSecret (stn_maker_secret_hash nd) spend' secret \<in> set L"
    "po_parse_tx (ve_maker_ops env) mp = Inr mptx"
  shows "t2_call_ok env0 m0 L (SpendMakerPaymentTx (t2_spend_args env m nd mptx secret pub) r)"
proof -
  obtain a funding v pre args tx where p: "t2_funded env0 m0 L nd a funding" "t2_payment_checked env0 m0 L a v"
    "po_parse_tx (ve_maker_ops env0) mp = Inr (vmp_maker_payment_tx v)"
    "SendTakerPaymentTx pre args (Inr tx) \<in> set L" "tx_hex tx = tp" "gfs_maker_secret_hash args = stn_maker_secret_hash nd"
    using assms(2) by (auto simp: t2_paid_def)
  then obtain f where "SendTakerFundingTx a (Inr f) \<in> set L" "stf_maker_secret_hash a = stn_maker_secret_hash nd"
    "stn_maker_payment_locktime nd = vmp_time_lock v"
    by (auto simp: t2_funded_def t2_nd_ok_def t2_payment_checked_def)
  moreover have "mptx = vmp_maker_payment_tx v" "po_parse_tx (ve_taker_ops env0) (tx_hex spend) = Inr spend'"
    using assms(1,5,7) p(3) by (simp_all add: v2_world_def)
  ultimately show ?thesis
    using p assms(3,4,6) by (simp add: t2_call_ok_def t2_spend_args_def) metis
qed

lemma t2_taker_payment_spent_ok:
  assumes "v2_world env0 env" "t2_paid env0 m0 L nd tp mp" "po_parse_tx (ve_taker_ops env0) tp = Inr tp'"
    "FoundPaymentSpend tp' spend_tx \<in> set L" "tx_hex spend_tx = spend"
  shows "t2_outcome_ok env0 m0 L (t2_taker_payment_spent env m mb tb spend mp nd)"
proof -
  have extr: "v2_ok (t2_call_ok env0 m0) L
      (case to_extract_secret (ve_taker_ops env) h tx of
         Inl e \<Rightarrow> ([], Inl (CouldNotExtractSecret e))
       | Inr secret \<Rightarrow> ([ExtractedSecret h tx secret], Inr secret)) Q"
    if "\<And>secret. Q (L @ [ExtractedSecret h tx secret]) secret" for h tx Q
    using that by (auto simp: v2_ok_def t2_call_ok_def split: sum.splits)
  have spent: "t2_state_ok env0 m0 (L @ [c, SpendMakerPaymentTx s (Inr t)]) (V2Entered (TvMakerPaymentSpent mb tb x nd))"
    for c s t x
    using t2_paid_grows[OF assms(2), of "[c, SpendMakerPaymentTx s (Inr t)]"]
    by (fastforce simp: t2_state_ok_def)
  show ?thesis
    unfolding t2_taker_payment_spent_def
    by (intro t2_outcome_okI v2_ok_intros extr;
        (rule t2_spend_ok[OF assms(1) t2_paid_grows[OF assms(2)] assms(3)])?)
      (use assms(4,5) spent in \<open>auto simp: t2_state_ok_def\<close>)
qed

lemma t2_maker_payment_spent_ok:
  assumes "t2_paid env0 m0 L nd tp mp" "SpendMakerPaymentTx s (Inr t) \<in> set L"
  shows "t2_outcome_ok env0 m0 L (t2_maker_payment_spent env m spend nd)"
proof -
  have "t2_state_ok env0 m0 (L @ cs) (V2Entered (TvTakerPaymentRefundRequired [] nd r))" for cs r
    using assms(2) t2_paid_grows[OF assms(1), of cs] by (fastforce simp: t2_state_ok_def)
  then show ?thesis
    unfolding t2_maker_payment_spent_def t2_confirm_maker_tx_def
    by (intro t2_outcome_okI v2_ok_intros) (simp_all add: t2_call_ok_def t2_state_ok_def)
qed

lemma t2_funding_refund_required_ok:
  assumes "v2_world env0 env" "t2_same m0 m" "t2_funded env0 m0 L nd a funding"
  shows "t2_outcome_ok env0 m0 L (t2_funding_refund_required env m nd funding reason)"
proof -
  have "t2_call_ok env0 m0 L (RefundTakerFundingTx (t2_refund_funding_args env m nd f mpub pub) r)"
    if "po_parse_tx (ve_taker_ops env) funding = Inr f" for f mpub pub r
    using that assms t2_same_simps(1)[OF assms(1,2)]
    by (fastforce simp: t2_call_ok_def t2_refund_funding_args_def t2_funded_def t2_funds_def v2_world_def t2_same_def)
  then show ?thesis
    unfolding t2_funding_refund_required_def
    by (intro t2_outcome_okI v2_ok_intros) (simp_all add: t2_state_ok_def)
qed

lemma t2_refund_call_ok:
  assumes "v2_world env0 env" "t2_same m0 m"
    "t2_state_ok env0 m0 L (V2Entered (TvTakerPaymentRefundRequired tp nd reason))"
    "RefundAllowed (coin_ticker (ve_taker_coin env)) (t2_taker_payment_locktime m) \<in> set L"
  shows "t2_call_ok env0 m0 L (RefundTakerPaymentTx (t2_refund_payment_args env m nd tp pub) r)"
  using assms t2_same_simps(1)[OF assms(1,2)] t2_same_simps(3)[OF assms(2)]
  by (fastforce simp: t2_call_ok_def t2_state_ok_def t2_refund_payment_args_def t2_paid_def v2_world_def)

lemma t2_payment_refund_required_ok:
  assumes "v2_world env0 env" "t2_same m0 m"
    "t2_state_ok env0 m0 L (V2Entered (TvTakerPaymentRefundRequired tp nd reason))"
    "t2_payment_refund_required env m tp nd reason = Some out"
  shows "t2_outcome_ok env0 m0 L out"
proof -
  let ?m = "v2_bind ([RefundAllowed (coin_ticker (ve_taker_coin env)) (t2_taker_payment_locktime m)], Inr ()) (\<lambda>_.
     v2_bind (v2_ask (\<lambda>_. InternalReason ''Failed to derive taker-coin V2 HTLC pubkey'')
       (po_derive_htlc_pubkey (ve_taker_ops env) (t2_unique_data m))) (\<lambda>pub.
     v2_bind (v2_send (RefundTakerPaymentTx (t2_refund_payment_args env m nd tp pub)) TakerPaymentRefundFailed
       (to_refund_combined_taker_payment (ve_taker_ops env) (t2_refund_payment_args env m nd tp pub))) (\<lambda>tx.
       v2_return (TvTakerPaymentRefunded tp (tx_hex tx) reason))))"
  have "out = v2_next TvAborted ?m"
    using assms(4) by (auto simp: t2_payment_refund_required_def split: option.splits)
  moreover have "t2_outcome_ok env0 m0 L (v2_next TvAborted ?m)"
    by (intro t2_outcome_okI v2_ok_intros t2_refund_call_ok[OF assms(1,2) t2_state_ok_grows[OF assms(3)]])
      (simp_all add: t2_call_ok_def, simp_all add: t2_state_ok_def)
  ultimately show ?thesis by simp
qed

lemma t2_handler_ok:
  assumes "v2_world env0 env" "t2_same m0 m" "t2_state_ok env0 m0 L s"
    "taker_v2_on_changed env m s = Some (next, calls)"
  shows "log_from (t2_call_ok env0 m0) L calls
    \<and> (\<forall>e. next = Some e \<longrightarrow> t2_state_ok env0 m0 (L @ calls) (V2Entered e))"
proof -
  have refund: "t2_outcome_ok env0 m0 L (e, calls)"
    if "s = V2Entered (TvTakerPaymentRefundRequired tp nd r)"
      "t2_payment_refund_required env m tp nd r = Some (e, calls)" for tp nd r e
    using t2_payment_refund_required_ok[OF assms(1,2)] that assms(3) by blast
  have "(next = None \<and> calls = []) \<or> (\<exists>e. next = Some e \<and> t2_outcome_ok env0 m0 L (e, calls))"
    using assms(3,4) refund
    by (cases "(env, m, s)" rule: taker_v2_on_changed.cases)
      (auto simp: t2_state_ok_def apfst_Some_eq t2_initialize_ok t2_initialized_ok[OF assms(2)]
        t2_negotiated_ok[OF assms(1,2)] t2_taker_payment_sent_ok[OF assms(1)]
        t2_preimage_sending_skipped_ok[OF assms(1)]
        intro: t2_taker_funding_sent_ok t2_maker_payment_received_ok[OF assms(1,2)]
          t2_taker_payment_spent_ok[OF assms(1)] t2_maker_payment_spent_ok
          t2_funding_refund_required_ok[OF assms(1,2)])
  then show ?thesis by (auto simp: t2_outcome_ok_def)
qed

section \<open>Every run\<close>

text \<open>A secret is an \<open>H256\<close>, thus of 32 bytes.\<close>

definition t2_h256 :: "taker_v2 \<Rightarrow> taker_v2" where
  "t2_h256 m = m\<lparr>t2_taker_secret := secret_arr (t2_taker_secret m)\<rparr>"

lemma t2_h256_id: "length (t2_taker_secret m) = 32 \<Longrightarrow> t2_h256 m = m"
  by (simp add: t2_h256_def)

lemma t2_row_inserted:
  assumes "t2_same m0 m" "insert_swap_v2_taker d (t2_uuid m) (taker_v2_to_db_repr env m) db = Inr db'"
  shows "\<exists>row. db' = hm_insert (t2_uuid m0) row db \<and> t2_row_of m0 row \<and> sr_events row = []"
  using assms
  by (auto simp: insert_swap_v2_taker_def insert_swap_v2_row_def t2_row_of_def new_swap_v2_row_def
      taker_v2_to_db_repr_def t2_same_def split: if_splits)

lemma t2_row_restored:
  assumes "t2_row_of m0 row" "length (t2_taker_secret m0) = 32" "hm_get db (t2_uuid m0) = Some row"
    "bind_res (get_swap_repr (t2_uuid m0) taker_swap_v2_type db) (taker_v2_recreate vp (t2_uuid m0)) = Inr (m, e)"
  shows "t2_same m0 m \<and> sr_events row \<noteq> [] \<and> e = last (sr_events row)"
  using assms
  by (auto simp: bind_res_Inr_iff get_swap_repr_def taker_v2_recreate_def t2_same_def t2_row_of_def
      split: if_splits taker_v2_event.splits)

interpretation t2: v2_side "taker_v2_ops w vp" "v2_world env0" "t2_h256 m0" "t2_same (t2_h256 m0)"
    "t2_call_ok env0 (t2_h256 m0)" "t2_state_ok env0 (t2_h256 m0)" "t2_row_of (t2_h256 m0)"
  for w vp env0 m0
proof (unfold_locales, goal_cases)
  case (6 env m db db')
  then show ?case using t2_row_inserted by (simp add: taker_v2_ops_def)
next
  case (9 row db m e)
  then show ?case using t2_row_restored[OF 9(1)] by (simp add: taker_v2_ops_def t2_h256_def)
next
  case (5 env m L s nx calls)
  then show ?case using t2_handler_ok by (simp add: taker_v2_ops_def)
qed (simp_all add: taker_v2_ops_def t2_same_def t2_row_of_def t2_state_ok_grows, simp add: t2_state_ok_def)

section \<open>What a run shows\<close>

lemma t2_run_justified:
  assumes "v2_reach (taker_v2_ops w vp) (v2_world env0) m0 n" "length (t2_taker_secret m0) = 32" "i < length (vn_calls n)"
  shows "t2_call_ok env0 m0 (take i (vn_calls n)) (vn_calls n ! i)"
  using t2.calls_justified[of w vp env0 m0 n i] assms by (simp add: t2_h256_id)

text \<open>
  C17: The taker of the second protocol turns its funding into the taker payment only against a
  checked maker payment. In every run, with failing storage, stops and kick-starts, the taker
  payment spends a funding that the taker sent, with arguments and a preimage that were validated,
  after a maker payment was validated that is locked to the same maker secret and to the taker's
  secret, until twice the agreed duration after the start, and that is confirmed where the swap
  asks for it.
\<close>

theorem taker_v2_payment_backed:
  assumes "v2_reach (taker_v2_ops w vp) (v2_world env0) m0 n" "length (t2_taker_secret m0) = 32"
    "i < length (vn_calls n)" "vn_calls n ! i = SendTakerPaymentTx pre args r"
  shows "ValidatedFundingSpend args pre \<in> set (take i (vn_calls n))
    \<and> (\<exists>a f v. SendTakerFundingTx a (Inr f) \<in> set (take i (vn_calls n))
         \<and> po_parse_tx (ve_taker_ops env0) (tx_hex f) = Inr (gfs_funding_tx args)
         \<and> ValidatedMakerPayment v \<in> set (take i (vn_calls n))
         \<and> vmp_maker_secret_hash v = gfs_maker_secret_hash args \<and> stf_maker_secret_hash a = gfs_maker_secret_hash args
         \<and> vmp_taker_secret_hash v = t2_taker_secret_hash env0 m0
         \<and> vmp_time_lock v = t2_started_at m0 + 2 * t2_lock_duration m0
         \<and> gfs_taker_payment_time_lock args = t2_started_at m0 + t2_lock_duration m0
         \<and> (t2_require_maker_payment_confirm m0 \<longrightarrow>
              ConfirmedTx (coin_ticker (ve_maker_coin env0))
                (t2_gate m0 (tx_hex (vmp_maker_payment_tx v)) (t2_maker_payment_conf_timeout m0))
                \<in> set (take i (vn_calls n))))"
proof -
  have "t2_call_ok env0 m0 (take i (vn_calls n)) (SendTakerPaymentTx pre args r)"
    using t2_run_justified[OF assms(1-3)] assms(4) by simp
  then obtain a f v where "ValidatedFundingSpend args pre \<in> set (take i (vn_calls n))"
    "SendTakerFundingTx a (Inr f) \<in> set (take i (vn_calls n))" "t2_funds env0 m0 a"
    "po_parse_tx (ve_taker_ops env0) (tx_hex f) = Inr (gfs_funding_tx args)"
    "gfs_maker_secret_hash args = stf_maker_secret_hash a"
    "gfs_taker_payment_time_lock args = stf_payment_time_lock a"
    "t2_payment_checked env0 m0 (take i (vn_calls n)) a v"
    unfolding t2_call_ok_def by auto
  then show ?thesis
    by (intro conjI exI[of _ a] exI[of _ f] exI[of _ v])
      (simp_all add: t2_funds_def t2_payment_checked_def t2_taker_payment_locktime_def)
qed

text \<open>
  C19: The taker of the second protocol takes the maker payment with the secret that the maker
  revealed. In every run the spending of the maker payment concerns a maker payment that was
  validated with the same lock time and the same hash, comes after a taker payment that was sent,
  and uses a secret that was extracted, for this hash, from a transaction found to spend that
  taker payment.
\<close>

theorem taker_v2_spends_with_revealed_secret:
  assumes "v2_reach (taker_v2_ops w vp) (v2_world env0) m0 n" "length (t2_taker_secret m0) = 32"
    "i < length (vn_calls n)" "vn_calls n ! i = SpendMakerPaymentTx args r"
  shows "\<exists>v pre fargs tp tp' spend spend'.
    {ValidatedMakerPayment v, SendTakerPaymentTx pre fargs (Inr tp), FoundPaymentSpend tp' spend,
     ExtractedSecret (spm_maker_secret_hash args) spend' (spm_maker_secret args)} \<subseteq> set (take i (vn_calls n))
    \<and> spm_maker_payment_tx args = vmp_maker_payment_tx v \<and> spm_time_lock args = vmp_time_lock v
    \<and> spm_maker_secret_hash args = vmp_maker_secret_hash v \<and> gfs_maker_secret_hash fargs = vmp_maker_secret_hash v
    \<and> po_parse_tx (ve_taker_ops env0) (tx_hex tp) = Inr tp'
    \<and> po_parse_tx (ve_taker_ops env0) (tx_hex spend) = Inr spend'"
proof -
  have "t2_call_ok env0 m0 (take i (vn_calls n)) (SpendMakerPaymentTx args r)"
    using t2_run_justified[OF assms(1-3)] assms(4) by simp
  then obtain a v pre fargs tp tp' spend spend' where
    "t2_payment_checked env0 m0 (take i (vn_calls n)) a v" "SendTakerPaymentTx pre fargs (Inr tp) \<in> set (take i (vn_calls n))"
    "gfs_maker_secret_hash fargs = spm_maker_secret_hash args" "spm_maker_secret_hash args = stf_maker_secret_hash a"
    "spm_maker_payment_tx args = vmp_maker_payment_tx v" "spm_time_lock args = vmp_time_lock v"
    "po_parse_tx (ve_taker_ops env0) (tx_hex tp) = Inr tp'" "FoundPaymentSpend tp' spend \<in> set (take i (vn_calls n))"
    "po_parse_tx (ve_taker_ops env0) (tx_hex spend) = Inr spend'"
    "ExtractedSecret (spm_maker_secret_hash args) spend' (spm_maker_secret args) \<in> set (take i (vn_calls n))"
    unfolding t2_call_ok_def by auto
  then show ?thesis
    by (intro exI[of _ v] exI[of _ pre] exI[of _ fargs] exI[of _ tp] exI[of _ tp'] exI[of _ spend] exI[of _ spend'])
      (simp add: t2_payment_checked_def)
qed

text \<open>
  A refund of the funding is of a funding that the taker sent. A refund of the taker payment waits
  until the coin allows it, and it names the payment that was sent, except after the maker payment
  was spent, where the handler passes an empty transaction.
\<close>

theorem taker_v2_refunds_own_transactions:
  assumes "v2_reach (taker_v2_ops w vp) (v2_world env0) m0 n" "length (t2_taker_secret m0) = 32" "i < length (vn_calls n)"
  shows "(\<forall>a r. vn_calls n ! i = RefundTakerFundingTx a r \<longrightarrow>
        (\<exists>b f. SendTakerFundingTx b (Inr f) \<in> set (take i (vn_calls n))
           \<and> po_parse_tx (ve_taker_ops env0) (tx_hex f) = Inr (rfs_funding_tx a)))
    \<and> (\<forall>a r. vn_calls n ! i = RefundTakerPaymentTx a r \<longrightarrow>
        RefundAllowed (coin_ticker (ve_taker_coin env0)) (rtp_time_lock a) \<in> set (take i (vn_calls n))
        \<and> (\<exists>pre fargs tx. SendTakerPaymentTx pre fargs (Inr tx) \<in> set (take i (vn_calls n))
             \<and> (rtp_payment_tx a = tx_hex tx
                \<or> rtp_payment_tx a = [] \<and> (\<exists>s t. SpendMakerPaymentTx s (Inr t) \<in> set (take i (vn_calls n))))))"
  using t2_run_justified[OF assms] unfolding t2_call_ok_def by (auto; blast)

end
