(* ===== verification/TakerSwapV2Life.thy ===== *)
theory TakerSwapV2Life
  imports TakerSwapV2Safety
begin

text \<open>
  The life of a taker swap of the second protocol, in the form of the theory \<open>MakerSwapV2Life\<close>:
  transitions, the end of a run, the locked amount and the kick-start.
\<close>

section \<open>The end of a run\<close>

definition taker_v2_live :: "taker_v2 \<Rightarrow> v2_env \<Rightarrow> bool" where
  "taker_v2_live m env \<longleftrightarrow>
     (\<exists>j. po_can_refund_htlc (ve_taker_ops env) j (t2_taker_payment_locktime m) = Inr CanRefundNow)"

fun t2_rank :: "taker_v2_event v2_state \<Rightarrow> nat" where
  "t2_rank V2Initialize = 11"
| "t2_rank (V2Entered e) =
     (case e of
        TvInitialized _ _ _ _ \<Rightarrow> 10
      | TvNegotiated _ _ _ _ _ \<Rightarrow> 9
      | TvTakerFundingSent _ _ _ _ \<Rightarrow> 8
      | TvMakerPaymentAndFundingSpendPreimgReceived _ _ _ _ _ _ \<Rightarrow> 7
      | TvMakerPaymentConfirmed _ _ _ _ _ _ \<Rightarrow> 6
      | TvTakerPaymentSent _ _ _ _ _ \<Rightarrow> 5
      | TvTakerPaymentSentPreimageSendingSkipped _ _ _ _ _ \<Rightarrow> 5
      | TvTakerPaymentSpent _ _ _ _ _ \<Rightarrow> 4
      | TvMakerPaymentSpent _ _ _ _ \<Rightarrow> 3
      | TvTakerFundingRefundRequired _ _ _ _ _ \<Rightarrow> 2
      | TvTakerPaymentRefundRequired _ _ _ \<Rightarrow> 2
      | _ \<Rightarrow> 1)"

lemma taker_v2_returns:
  assumes "taker_v2_live m env"
  shows "taker_v2_on_changed env m s \<noteq> None"
proof -
  have refund: "can_refund_loop (\<lambda>j. po_can_refund_htlc (ve_taker_ops env) j (t2_taker_payment_locktime m)) 0 \<noteq> None"
    using assms can_refund_loop_returns[of "\<lambda>j. po_can_refund_htlc (ve_taker_ops env) j (t2_taker_payment_locktime m)" _ 0]
    by (fastforce simp: taker_v2_live_def)
  have "t2_payment_refund_required env m tp nd r \<noteq> None" for tp nd r
    using refund by (auto simp: t2_payment_refund_required_def split: option.splits)
  then show ?thesis
    by (cases "(env, m, s)" rule: taker_v2_on_changed.cases) simp_all
qed

text \<open>The events that a handler may lead to.\<close>

lemma t2_initialize_shape: "taker_v2_transition V2Initialize (fst (t2_initialize env m))"
  unfolding t2_initialize_def
  by (rule v2_next_value, (rule v2_ok_bind, rule v2_ok_any)+, rule v2_ok_return) (simp_all add: taker_v2_transition_def)

lemma t2_initialized_shape:
  "case fst (t2_initialized env m mb tb fee sfee) of
     TvNegotiated _ _ _ f _ \<Rightarrow> f = fee | TvAborted _ \<Rightarrow> True | _ \<Rightarrow> False"
  unfolding t2_initialized_def
  by (rule v2_next_value, (rule v2_ok_bind, rule v2_ok_any)+, rule v2_ok_return) simp_all

lemma t2_negotiated_shape:
  "taker_v2_transition (V2Entered (TvNegotiated a b c d f)) (fst (t2_negotiated env m mb tb nd))"
  unfolding t2_negotiated_def
  by (rule v2_next_value, (rule v2_ok_bind, rule v2_ok_any)+, rule v2_ok_return) (simp_all add: taker_v2_transition_def)

lemma t2_funding_sent_shape:
  "taker_v2_transition (V2Entered (TvTakerFundingSent a b c d)) (fst (t2_taker_funding_sent env m mb tb nd funding))"
  unfolding t2_taker_funding_sent_def
  by (rule v2_next_value, (rule v2_ok_bind, rule v2_ok_any)+, rule v2_ok_return) (simp_all add: taker_v2_transition_def)

lemma t2_payment_received_shape:
  "taker_v2_transition (V2Entered (TvMakerPaymentAndFundingSpendPreimgReceived a b c d f g))
     (fst (t2_maker_payment_received env m mb tb nd funding spre mp))"
  unfolding t2_maker_payment_received_def t2_send_payment_def Let_def
  by (rule v2_next_value, (rule v2_ok_bind, rule v2_ok_any)+, rule v2_ok_return) (simp_all add: taker_v2_transition_def)

lemma t2_payment_confirmed_shape:
  "taker_v2_transition (V2Entered (TvMakerPaymentConfirmed a b c d f g))
     (fst (t2_maker_payment_confirmed env m mb tb nd funding spre mp))"
  unfolding t2_maker_payment_confirmed_def t2_send_payment_def
  by (rule v2_next_value, (rule v2_ok_bind, rule v2_ok_any)+, rule v2_ok_return) (simp_all add: taker_v2_transition_def)

lemma t2_find_spend_shape:
  "v2_ok (\<lambda>_ _. True) L (t2_find_spend env m mb tb nd mp tx) (\<lambda>_ e. \<exists>a b c d f. e = TvTakerPaymentSpent a b c d f)"
  by (auto simp: v2_ok_def t2_find_spend_def split: sum.splits)

lemma v2_ok_weaken: "v2_ok J L m Q \<Longrightarrow> (\<And>L x. Q L x \<Longrightarrow> Q' L x) \<Longrightarrow> v2_ok J L m Q'"
  by (auto simp: v2_ok_def split: sum.splits)

lemma t2_payment_sent_shape:
  "taker_v2_transition (V2Entered (TvTakerPaymentSent a b c d f)) (fst (t2_taker_payment_sent env m mb tb nd tp mp))"
  unfolding t2_taker_payment_sent_def
  by (rule v2_next_value, (rule v2_ok_bind, rule v2_ok_any)+, rule v2_ok_weaken[OF t2_find_spend_shape])
    (auto simp: taker_v2_transition_def)

lemma t2_sending_skipped_shape:
  "taker_v2_transition (V2Entered (TvTakerPaymentSentPreimageSendingSkipped a b c d f))
     (fst (t2_preimage_sending_skipped env m mb tb nd tp mp))"
  unfolding t2_preimage_sending_skipped_def
  by (rule v2_next_value, (rule v2_ok_bind, rule v2_ok_any)+, rule v2_ok_weaken[OF t2_find_spend_shape])
    (auto simp: taker_v2_transition_def)

lemma t2_payment_spent_shape:
  "taker_v2_transition (V2Entered (TvTakerPaymentSpent a b c d f)) (fst (t2_taker_payment_spent env m mb tb spend mp nd))"
  unfolding t2_taker_payment_spent_def
  by (rule v2_next_value, (rule v2_ok_bind, rule v2_ok_any)+, rule v2_ok_return) (simp_all add: taker_v2_transition_def)

lemma t2_maker_payment_spent_shape:
  "taker_v2_transition (V2Entered (TvMakerPaymentSpent a b c d)) (fst (t2_maker_payment_spent env m spend nd))"
  unfolding t2_maker_payment_spent_def
  by (rule v2_next_value, (rule v2_ok_bind, rule v2_ok_any)+, rule v2_ok_return) (simp_all add: taker_v2_transition_def)

lemma t2_funding_refund_shape:
  "taker_v2_transition (V2Entered (TvTakerFundingRefundRequired a b c d f)) (fst (t2_funding_refund_required env m nd funding r))"
  unfolding t2_funding_refund_required_def
  by (rule v2_next_value, (rule v2_ok_bind, rule v2_ok_any)+, rule v2_ok_return) (simp_all add: taker_v2_transition_def)

lemma t2_payment_refund_shape:
  assumes "t2_payment_refund_required env m tp nd r = Some out"
  shows "taker_v2_transition (V2Entered (TvTakerPaymentRefundRequired a b c)) (fst out)"
  using assms
  by (auto simp: t2_payment_refund_required_def v2_try_defs taker_v2_transition_def split: option.splits sum.splits)

lemma t2_follows_transitions:
  assumes "taker_v2_on_changed env m s = Some (Some e, cs)"
  shows "taker_v2_transition s e"
proof -
  have "taker_v2_transition (V2Entered (TvInitialized a b c d)) (fst (t2_initialized env m mb tb fee sfee))"
    for a b c d mb tb fee sfee
    using t2_initialized_shape[of fee env m mb tb sfee]
    by (auto simp: taker_v2_transition_def split: taker_v2_event.splits)
  then show ?thesis
    using assms t2_initialize_shape[of env m]
    by (cases "(env, m, s)" rule: taker_v2_on_changed.cases)
      (auto simp: apfst_Some_eq t2_negotiated_shape t2_funding_sent_shape t2_payment_received_shape
        t2_payment_confirmed_shape t2_payment_sent_shape t2_sending_skipped_shape t2_payment_spent_shape
        t2_maker_payment_spent_shape t2_funding_refund_shape dest: t2_payment_refund_shape)
qed

lemma t2_rank_transition: "taker_v2_transition s e \<Longrightarrow> t2_rank (V2Entered e) < t2_rank s"
  by (auto simp: taker_v2_transition_def split: v2_state.splits taker_v2_event.splits)

definition t2_last_state :: "taker_v2_event v2_state \<Rightarrow> bool" where
  "t2_last_state s =
     (case s of
        V2Entered (TvTakerFundingRefunded _ _ _) \<Rightarrow> True
      | V2Entered (TvTakerPaymentRefunded _ _ _) \<Rightarrow> True
      | V2Entered (TvAborted _) \<Rightarrow> True
      | V2Entered TvCompleted \<Rightarrow> True
      | _ \<Rightarrow> False)"

lemma t2_finishes: "taker_v2_on_changed env m s = Some (None, cs) \<Longrightarrow> t2_last_state s \<and> cs = []"
  by (cases "(env, m, s)" rule: taker_v2_on_changed.cases) (auto simp: apfst_Some_eq t2_last_state_def)

interpretation t2r: v2_ranked "taker_v2_ops w vp" m t2_rank "taker_v2_live m" t2_last_state "\<lambda>_ _. True"
  for w vp m
proof (unfold_locales, goal_cases)
  case (2 s)
  then show ?case by (cases s) (auto split: taker_v2_event.splits)
qed (simp_all add: taker_v2_ops_def taker_v2_returns t2_rank_transition[OF t2_follows_transitions] t2_finishes
    del: t2_rank.simps)

text \<open>
  A run of the taker's machine of the second protocol ends. From any state, with a coin that
  allows the refund at some time and a storage that works, at most eleven rounds lead to a last
  state: completed, funding refunded, payment refunded or aborted. The row is marked as finished
  and nothing of the swap stays locked.
\<close>

theorem taker_v2_run_ends:
  assumes "\<And>i. taker_v2_live m (envs i)" "\<And>i. ve_store (envs i) = Inr ()"
    "\<And>i. coin_ticker (ve_taker_coin (envs i)) = coin"
    "vn_running n = Some (m, s)" "v2_row_in_step (taker_v2_ops w vp) m s n"
  shows "\<exists>n' row. v2_run (taker_v2_ops w vp) envs 11 0 n = Some n' \<and> vn_running n' = None
    \<and> hm_get (vn_db n') (t2_uuid m) = Some row \<and> sr_is_finished row
    \<and> (case last (sr_events row) of
         TvCompleted \<Rightarrow> True
       | TvTakerFundingRefunded _ _ _ \<Rightarrow> True
       | TvTakerPaymentRefunded _ _ _ \<Rightarrow> True
       | TvAborted _ \<Rightarrow> True
       | _ \<Rightarrow> False)
    \<and> locked_v2_of (vn_ctx n') coin (t2_uuid m) = []"
proof -
  have rank: "t2_rank s \<le> 11" by (cases s) (auto split: taker_v2_event.splits)
  have id: "vo_id (taker_v2_ops w vp) m = t2_uuid m" by (simp add: taker_v2_ops_def)
  from t2r.run_ends[where envs = envs and i = 0, OF assms(1,2,4,5) TrueI rank] obtain n' s' row env ctx where r:
    "v2_run (taker_v2_ops w vp) envs 11 0 n = Some n'" "vn_running n' = None"
    "t2_last_state s'" "v2_row_in_step (taker_v2_ops w vp) m s' n'"
    "hm_get (vn_db n') (t2_uuid m) = Some row" "sr_is_finished row"
    "env \<in> range envs" "vn_ctx n' = v2_clean_up_context env (t2_uuid m) ctx"
    unfolding id by blast
  have "s' = V2Entered (last (sr_events row))"
    using r(3-5) id by (auto simp: v2_row_in_step_def t2_last_state_def split: v2_state.splits)
  then have "case last (sr_events row) of TvCompleted \<Rightarrow> True | TvTakerFundingRefunded _ _ _ \<Rightarrow> True
       | TvTakerPaymentRefunded _ _ _ \<Rightarrow> True | TvAborted _ \<Rightarrow> True | _ \<Rightarrow> False"
    using r(3) by (auto simp: t2_last_state_def split: taker_v2_event.splits)
  moreover have "locked_v2_of (vn_ctx n') coin (t2_uuid m) = []"
    using r(7,8) assms(3) by (auto simp: v2_clean_up_context_def Let_def)
  ultimately show ?thesis using r by blast
qed

section \<open>Kick-start\<close>

definition t2_storable :: "v2_env \<Rightarrow> (bytes \<Rightarrow> bool) \<Rightarrow> taker_v2 \<Rightarrow> bool" where
  "t2_storable env valid_private m \<longleftrightarrow>
     length (t2_taker_secret m) = 32
     \<and> (\<forall>k. t2_p2p_keypair m = Some k \<longrightarrow> length k = 32 \<and> (\<exists>b \<in> set k. b \<noteq> 0) \<and> valid_private k)
     \<and> ve_to_decimal env (t2_maker_volume m) = t2_maker_volume m
     \<and> ve_to_decimal env (t2_taker_volume m) = t2_taker_volume m
     \<and> ve_to_decimal env (t2_taker_premium m) = t2_taker_premium m"

theorem taker_v2_restart_restores:
  assumes "t2_storable env valid_private m" "hm_get db (t2_uuid m) = None" "es \<noteq> []"
    "\<not> t2_last_state (V2Entered (last es))"
  shows "\<exists>db1 db2.
      insert_swap_v2_taker (ve_to_decimal env) (t2_uuid m) (taker_v2_to_db_repr env m) db = Inr db1
    \<and> store_events (t2_uuid m) es db1 = Inr db2
    \<and> t2_uuid m \<in> set (get_unfinished_swap_uuids taker_swap_v2_type db2)
    \<and> bind_res (get_swap_repr (t2_uuid m) taker_swap_v2_type db2) (taker_v2_recreate valid_private (t2_uuid m)) =
        Inr (m\<lparr>t2_require_maker_payment_confirm := True, t2_require_maker_payment_spend_confirm := True\<rparr>, last es)"
proof -
  let ?row = "new_swap_v2_row (ve_to_decimal env) taker_swap_v2_type (coin_ticker (ve_taker_coin env))
    (coin_ticker (ve_maker_coin env)) (taker_v2_to_db_repr env m)"
  let ?db1 = "hm_insert (t2_uuid m) ?row db"
  have ins: "insert_swap_v2_taker (ve_to_decimal env) (t2_uuid m) (taker_v2_to_db_repr env m) db = Inr ?db1"
    using assms(2) by (simp add: insert_swap_v2_taker_def insert_swap_v2_row_def taker_v2_to_db_repr_def)
  obtain db2 where db2: "store_events (t2_uuid m) es ?db1 = Inr db2"
    "hm_get db2 (t2_uuid m) = Some (?row\<lparr>sr_events := es\<rparr>)"
    using store_events_row[of ?db1 "t2_uuid m" ?row es] by (auto simp: hm_simps new_swap_v2_row_def)
  have unfinished: "t2_uuid m \<in> set (get_unfinished_swap_uuids taker_swap_v2_type db2)"
    using hm_get_SomeD[OF db2(2)] by (force simp: get_unfinished_swap_uuids_def new_swap_v2_row_def)
  have "storable_repr (ve_to_decimal env) (taker_v2_to_db_repr env m)"
    using assms(1) by (simp add: storable_repr_def t2_storable_def taker_v2_to_db_repr_def)
  from get_swap_repr_row[OF this, where db = db2 and swap_type = taker_swap_v2_type and es = es]
  have "get_swap_repr (t2_uuid m) taker_swap_v2_type db2 =
      Inr ((taker_v2_to_db_repr env m)\<lparr>dr_events := es, dr_dex_fee_amount := ve_to_decimal env 0,
        dr_dex_fee_burn := ve_to_decimal env 0\<rparr>)"
    using db2(2) by (simp add: taker_v2_to_db_repr_def maker_swap_v2_type_def taker_swap_v2_type_def)
  moreover have "restore_keypair valid_private (t2_p2p_keypair m) = t2_p2p_keypair m"
    using assms(1) by (auto simp: restore_keypair_def t2_storable_def split: option.splits)
  moreover have "(case last es of
           TvTakerFundingRefunded _ _ _ \<Rightarrow> Inl ''Cannot recreate from TakerFundingRefunded''
         | TvTakerPaymentRefunded _ _ _ \<Rightarrow> Inl ''Cannot recreate from TakerPaymentRefunded''
         | TvAborted _ \<Rightarrow> Inl ''Cannot recreate from Aborted''
         | TvCompleted \<Rightarrow> Inl ''Cannot recreate from Completed''
         | e \<Rightarrow> Inr e) = Inr (last es)"
    using assms(4) by (auto simp: t2_last_state_def split: taker_v2_event.splits)
  ultimately have "bind_res (get_swap_repr (t2_uuid m) taker_swap_v2_type db2) (taker_v2_recreate valid_private (t2_uuid m)) =
      Inr (m\<lparr>t2_require_maker_payment_confirm := True, t2_require_maker_payment_spend_confirm := True\<rparr>, last es)"
    using assms(3) by (cases m) (simp add: taker_v2_recreate_def taker_v2_to_db_repr_def)
  then show ?thesis using ins db2(1) unfinished by blast
qed

end
