(* ===== verification/SwapV2Agreement.thy ===== *)
theory SwapV2Agreement
  imports MakerSwapV2Life TakerSwapV2Life
begin

text \<open>
  The two sides of the second swap protocol together: what an honest maker and an honest taker
  store after their negotiation, and that the arguments with which one side checks a transaction
  are those with which the other side made it.
\<close>

section \<open>The arguments of the two sides\<close>

text \<open>The maker's check of the funding looks for what the taker sent.\<close>

definition v2_funding_matches :: "send_taker_funding_args \<Rightarrow> validate_taker_funding_args \<Rightarrow> bool" where
  "v2_funding_matches s v \<longleftrightarrow>
     stf_funding_time_lock s = vtf_funding_time_lock v \<and> stf_payment_time_lock s = vtf_payment_time_lock v
     \<and> stf_taker_secret_hash s = vtf_taker_secret_hash v \<and> stf_maker_secret_hash s = vtf_maker_secret_hash v
     \<and> stf_dex_fee s = vtf_dex_fee v \<and> stf_premium_amount s = vtf_premium_amount v
     \<and> stf_trading_amount s = vtf_trading_amount v"

text \<open>The taker's check of the maker payment looks for what the maker sent.\<close>

definition v2_payment_matches :: "send_maker_payment_args \<Rightarrow> validate_maker_payment_args \<Rightarrow> bool" where
  "v2_payment_matches s v \<longleftrightarrow>
     smp_time_lock s = vmp_time_lock v \<and> smp_taker_secret_hash s = vmp_taker_secret_hash v
     \<and> smp_maker_secret_hash s = vmp_maker_secret_hash v \<and> smp_amount s = vmp_amount v"

text \<open>Two machines of one swap on two nodes with the same network, coins and arithmetic.\<close>

definition v2_counterparts :: "v2_env \<Rightarrow> maker_v2 \<Rightarrow> v2_env \<Rightarrow> taker_v2 \<Rightarrow> bool" where
  "v2_counterparts env_m sm env_t st \<longleftrightarrow>
     m2_lock_duration sm = t2_lock_duration st
     \<and> m2_maker_volume sm = t2_maker_volume st \<and> m2_taker_volume sm = t2_taker_volume st
     \<and> m2_taker_premium sm = t2_taker_premium st
     \<and> ve_net env_m = ve_net env_t \<and> ve_to_decimal env_m = ve_to_decimal env_t
     \<and> ve_taker_coin env_m = ve_taker_coin env_t
     \<and> coin_ticker (ve_maker_coin env_m) = coin_ticker (ve_maker_coin env_t)"

text \<open>The messages of one side reach the other, and each side reads the keys of the other.\<close>

definition v2_exchange :: "v2_env \<Rightarrow> v2_env \<Rightarrow> maker_negotiation \<Rightarrow> taker_negotiation_v2_data \<Rightarrow> bool" where
  "v2_exchange env_m env_t mn tn \<longleftrightarrow>
     ve_maker_negotiation env_t = Inr mn
     \<and> ve_taker_negotiation env_m = Inr (Some (NegotiationContinue tn))
     \<and> ve_maker_negotiated env_t = Inr \<lparr>mgd_negotiated = True, mgd_reason = None\<rparr>
     \<and> (\<exists>k. po_parse_pubkey (ve_maker_ops env_t) (mng_maker_coin_htlc_pub mn) = Inr k)
     \<and> (\<exists>k. po_parse_pubkey (ve_taker_ops env_t) (mng_taker_coin_htlc_pub mn) = Inr k)
     \<and> (\<exists>k. po_parse_pubkey (ve_taker_ops env_m) (tng_taker_coin_htlc_pub tn) = Inr k)
     \<and> (\<exists>k. po_parse_pubkey (ve_maker_ops env_m) (tng_maker_coin_htlc_pub tn) = Inr k)"

section \<open>The negotiation\<close>

lemma m2_negotiation_fields:
  assumes "snd (m2_negotiation_msg env sm) = Inr mn"
  shows "mng_started_at mn = m2_started_at sm" "mng_payment_locktime mn = m2_maker_payment_locktime sm"
    "mng_secret_hash mn = m2_secret_hash env sm" "fst (m2_negotiation_msg env sm) = []"
  using assms by (auto simp: m2_negotiation_msg_def v2_try_defs split: sum.splits)

lemma t2_negotiation_fields:
  assumes "snd (t2_negotiation_msg env st) = Inr tn"
  shows "tng_started_at tn = t2_started_at st" "tng_payment_locktime tn = t2_taker_payment_locktime st"
    "tng_funding_locktime tn = t2_taker_funding_locktime st"
    "tng_taker_secret_hash tn = t2_taker_secret_hash env st" "fst (t2_negotiation_msg env st) = []"
  using assms by (auto simp: t2_negotiation_msg_def v2_try_defs split: sum.splits)

lemma t2_check_iff:
  assumes "v2_exchange env_m env_t mn tn"
  shows "snd (t2_check_negotiation env_t st mn) = Inr () \<longleftrightarrow>
    u64_abs_diff (t2_started_at st) (mng_started_at mn) \<le> max_started_at_diff
    \<and> length (mng_secret_hash mn) \<in> {20, 32}
    \<and> mng_payment_locktime mn = t2_started_at st + 2 * t2_lock_duration st"
  using assms
  by (auto simp: t2_check_negotiation_def v2_try_defs v2_exchange_def map_err_def not_less split: sum.splits)

definition m2_stored_negotiation :: "taker_negotiation_v2_data \<Rightarrow> stored_maker_negotiation_data" where
  "m2_stored_negotiation d =
     \<lparr>smn_taker_secret_hash = tng_taker_secret_hash d, smn_taker_coin_htlc_pub = tng_taker_coin_htlc_pub d,
      smn_maker_coin_htlc_pub = tng_maker_coin_htlc_pub d,
      smn_taker_coin_swap_contract = tng_taker_coin_swap_contract d,
      smn_maker_coin_swap_contract = tng_maker_coin_swap_contract d,
      smn_taker_payment_locktime = tng_payment_locktime d, smn_taker_funding_locktime = tng_funding_locktime d\<rparr>"

lemma m2_check_honest:
  assumes "v2_exchange env_m env_t mn tn" "snd (t2_negotiation_msg env_t st) = Inr tn"
    "m2_lock_duration sm = t2_lock_duration st" "m2_started_at sm = t2_started_at st"
  shows "m2_check_negotiation env_m sm (Some (NegotiationContinue tn)) = ([], Inr (m2_stored_negotiation tn))"
  using assms t2_negotiation_fields[OF assms(2)]
  by (auto simp: m2_check_negotiation_def v2_try_defs v2_exchange_def map_err_def u64_abs_diff_def
      t2_taker_payment_locktime_def t2_taker_funding_locktime_def m2_stored_negotiation_def max_started_at_diff_def)

lemma m2_initialized_honest:
  assumes "v2_exchange env_m env_t mn tn" "snd (m2_negotiation_msg env_m sm) = Inr mn"
    "snd (t2_negotiation_msg env_t st) = Inr tn"
    "m2_lock_duration sm = t2_lock_duration st" "m2_started_at sm = t2_started_at st"
  shows "fst (m2_initialized env_m sm mb tb fee) = MvWaitingForTakerFunding mb tb (m2_stored_negotiation tn) fee"
  using assms m2_check_honest[OF assms(1,3,4,5)]
  by (simp add: m2_initialized_def v2_next_def v2_bind_def v2_ask_def v2_return_def v2_exchange_def map_err_def)

lemma t2_initialized_outcome:
  assumes "v2_exchange env_m env_t mn tn" "snd (t2_negotiation_msg env_t st) = Inr tn"
  shows "fst (t2_initialized env_t st mb tb fee sfee) =
    (case snd (t2_check_negotiation env_t st mn) of
       Inl reason \<Rightarrow> TvAborted reason
     | Inr _ \<Rightarrow> TvNegotiated mb tb (t2_stored_negotiation mn) fee sfee)"
  using assms
  by (simp add: t2_initialized_def v2_next_def v2_bind_def v2_ask_def v2_return_def v2_require_def v2_exchange_def
      map_err_def split: sum.splits)

lemma v2_arguments_match:
  assumes "v2_counterparts env_m sm env_t st" "snd (m2_negotiation_msg env_m sm) = Inr mn"
    "snd (t2_negotiation_msg env_t st) = Inr tn"
  shows "v2_funding_matches (t2_funding_args env_t st (t2_stored_negotiation mn) (tng_taker_coin_htlc_pub tn))
      (m2_funding_args env_m sm (m2_stored_negotiation tn) f p)"
    and "v2_payment_matches (m2_payment_args env_m sm (m2_stored_negotiation tn) q)
      (t2_validate_args env_t st (t2_stored_negotiation mn) mp_tx mp_pub)"
    and "m2_funding_spend_args env_m sm (m2_stored_negotiation tn) f mpub tpub
      = t2_funding_spend_args env_t st (t2_stored_negotiation mn) f mpub tpub"
  using assms(1) m2_negotiation_fields[OF assms(2)] t2_negotiation_fields[OF assms(3)]
  by (simp_all add: v2_counterparts_def v2_funding_matches_def v2_payment_matches_def t2_funding_args_def
      m2_funding_args_def m2_payment_args_def t2_validate_args_def m2_funding_spend_args_def t2_funding_spend_args_def
      m2_stored_negotiation_def t2_stored_negotiation_def t2_dex_fee_def m2_dex_fee_def)


end
