(* ===== verification/SwapV2Example.thy ===== *)
theory SwapV2Example
  imports SwapV2Agreement SwapDemo
begin

text \<open>
  A concrete swap of the second protocol: two coins whose calls succeed, a maker and a taker with
  the same start time, and their runs from the first state to the last. It witnesses that the
  hypotheses of the theorems on the second protocol can hold.
\<close>

section \<open>The world\<close>

definition demo_parse_ops :: parse_ops_v2 where
  "demo_parse_ops =
     \<lparr>po_parse_pubkey = Inr, po_parse_tx = (\<lambda>bs. Inr \<lparr>tx_hex = bs, tx_hash = bs @ bs\<rparr>),
      po_parse_preimage = Inr, po_parse_signature = Inr, po_derive_htlc_pubkey = (\<lambda>u. Inr (2 # take 4 u)),
      po_my_addr = Inr ''addr'', po_swap_contract_address = None, po_current_block = Inr 100,
      po_wait_for_confirmations = (\<lambda>_. Inr ()),
      po_can_refund_htlc = (\<lambda>n _. if n = 0 then Inr (HaveToWait 5) else Inr CanRefundNow)\<rparr>"

definition demo_maker_ops :: maker_ops_v2 where
  "demo_maker_ops =
     parse_ops_v2.extend demo_parse_ops
       (maker_ops_v2.fields (\<lambda>_. Inr (demo_tx 2)) (\<lambda>_. Inr ()) (\<lambda>_. Inr (demo_tx 6)) (\<lambda>_. Inr (demo_tx 5)))"

definition demo_taker_ops :: taker_ops_v2 where
  "demo_taker_ops =
     parse_ops_v2.extend demo_parse_ops
       (taker_ops_v2.fields (\<lambda>_. Inr (demo_tx 1)) (\<lambda>_. Inr ()) (\<lambda>_. Inr (demo_tx 7))
         (\<lambda>n _ _ _. if n = 0 then Inr None else Inr (Some (TransferredToTakerPayment \<lparr>tx_hex = [3], tx_hash = [3, 3]\<rparr>)))
         (\<lambda>_ _. Inr \<lparr>tps_preimage = [10], tps_signature = [11]\<rparr>) (\<lambda>_ _. Inr ()) (\<lambda>_ _ _. Inr (demo_tx 3))
         (\<lambda>_. Inr (demo_tx 8)) False (\<lambda>_ _. Inr \<lparr>tps_preimage = [12], tps_signature = [13]\<rparr>) (\<lambda>_ _. Inr ())
         (\<lambda>_ _ _ _. Inr (demo_tx 4)) (\<lambda>_ _ _. Inr (demo_tx 4)) (\<lambda>_ _. Inr (replicate 32 9)))"

definition demo_hashes :: secret_hashes where
  "demo_hashes = \<lparr>sh_dhash160 = take 20, sh_sha256 = id\<rparr>"

definition demo_maker_v2 :: maker_v2 where
  "demo_maker_v2 =
     \<lparr>m2_maker_volume = 1, m2_secret = replicate 32 9, m2_secret_hash_algo = AlgoSHA256,
      m2_started_at = 1700000000, m2_lock_duration = 7800, m2_taker_volume = 10, m2_taker_premium = 0,
      m2_conf_settings = demo_conf_settings, m2_uuid = 7, m2_p2p_keypair = Some (replicate 32 1),
      m2_taker_p2p_pubkey = [2], m2_require_taker_funding_confirm = True,
      m2_require_taker_payment_spend_confirm = True, m2_swap_version = 2\<rparr>"

definition demo_taker_v2 :: taker_v2 where
  "demo_taker_v2 =
     \<lparr>t2_started_at = 1700000000, t2_lock_duration = 7800, t2_maker_volume = 1, t2_taker_volume = 10,
      t2_taker_premium = 0, t2_secret_hash_algo = AlgoSHA256, t2_conf_settings = demo_conf_settings,
      t2_uuid = 7, t2_p2p_keypair = Some (replicate 32 2), t2_taker_secret = replicate 32 8,
      t2_maker_p2p_pubkey = [1], t2_require_maker_payment_confirm = True,
      t2_require_maker_payment_spend_confirm = True, t2_swap_version = 2\<rparr>"

definition demo_maker_negotiation :: maker_negotiation where
  "demo_maker_negotiation =
     \<lparr>mng_started_at = 1700000000, mng_payment_locktime = 1700015600, mng_secret_hash = replicate 32 9,
      mng_maker_coin_htlc_pub = [2, 9, 9, 9, 9], mng_taker_coin_htlc_pub = [2, 9, 9, 9, 9],
      mng_maker_coin_swap_contract = None, mng_taker_coin_swap_contract = None,
      mng_taker_coin_address = ''addr''\<rparr>"

definition demo_taker_negotiation :: taker_negotiation_v2_data where
  "demo_taker_negotiation =
     \<lparr>tng_started_at = 1700000000, tng_funding_locktime = 1700023400, tng_payment_locktime = 1700007800,
      tng_taker_secret_hash = replicate 32 8, tng_maker_coin_htlc_pub = [2, 0, 0, 0, 0],
      tng_taker_coin_htlc_pub = [2, 0, 0, 0, 0], tng_maker_coin_swap_contract = None,
      tng_taker_coin_swap_contract = None\<rparr>"

definition demo_v2_env :: v2_env where
  "demo_v2_env =
     \<lparr>ve_now_ms = (\<lambda>i. (1700000000 + 3600 * word_of_nat i) * 1000), ve_net = netid_8762,
      ve_maker_coin = flat_fee_coin ''LTC'' 100 (1 / 100), ve_taker_coin = flat_fee_coin ''DOGE'' 1000 1,
      ve_maker_ops = demo_maker_ops, ve_taker_ops = demo_taker_ops, ve_hashes = demo_hashes,
      ve_to_decimal = id, ve_maker_negotiation = Inr demo_maker_negotiation,
      ve_taker_negotiation = Inr (Some (NegotiationContinue demo_taker_negotiation)),
      ve_maker_negotiated = Inr \<lparr>mgd_negotiated = True, mgd_reason = None\<rparr>, ve_taker_funding = Inr [1],
      ve_maker_payment = Inr \<lparr>mpi_tx_bytes = [2], mpi_funding_preimage_sig = [11], mpi_funding_preimage_tx = [10]\<rparr>,
      ve_taker_payment_spend_preimage = Inr ([13], [12]), ve_store = Inr ()\<rparr>"

text \<open>A wire on which a signature is the key itself and a message is its content.\<close>

definition demo_wire :: v2_wire where
  "demo_wire =
     \<lparr>vw_uuid_from_str = (\<lambda>_. Inr 7), vw_uuid_from_slice = (\<lambda>_. Inr 7),
      vw_encode_signed = (\<lambda>s. hd (sgm_from s) # sgm_payload s),
      vw_decode_signed = (\<lambda>b. case b of
          [] \<Rightarrow> Inl ''empty''
        | k # payload \<Rightarrow> Inr \<lparr>sgm_from = [k], sgm_signature = [k], sgm_payload = payload\<rparr>),
      vw_encode_message = (\<lambda>_ m. case m of Some (TakerFundingInfoMsg tx) \<Rightarrow> tx | _ \<Rightarrow> []),
      vw_decode_message = (\<lambda>payload. Inr ([], Some (TakerFundingInfoMsg payload))),
      vw_pubkey_from_slice = Inr, vw_signature_from_compact = Inr, vw_sha256 = id,
      vw_sign = (\<lambda>k _. k), vw_public = id, vw_verify = (\<lambda>_ sig key. sig = key)\<rparr>"

section \<open>The two runs\<close>

definition demo_maker_machine_ops :: "(maker_v2, maker_v2_event) v2_machine_ops" where
  "demo_maker_machine_ops = maker_v2_ops demo_wire (\<lambda>_. True)"

definition demo_maker_v2_started :: "(maker_v2, maker_v2_event) v2_node" where
  "demo_maker_v2_started = v2_start demo_maker_machine_ops demo_v2_env (Inr True) demo_maker_v2 V2Initialize v2_node_new"

definition demo_maker_node :: "(maker_v2, maker_v2_event) v2_node" where
  "demo_maker_node =
     (case v2_run demo_maker_machine_ops (\<lambda>_. demo_v2_env) 9 0 demo_maker_v2_started of Some n \<Rightarrow> n | None \<Rightarrow> v2_node_new)"

definition demo_maker_first :: "(maker_v2, maker_v2_event) v2_node" where
  "demo_maker_first =
     (case v2_round demo_maker_machine_ops demo_v2_env demo_maker_v2 V2Initialize demo_maker_v2_started of
        Some n \<Rightarrow> n | None \<Rightarrow> v2_node_new)"

definition demo_taker_machine_ops :: "(taker_v2, taker_v2_event) v2_machine_ops" where
  "demo_taker_machine_ops = taker_v2_ops demo_wire (\<lambda>_. True)"

definition demo_taker_v2_started :: "(taker_v2, taker_v2_event) v2_node" where
  "demo_taker_v2_started = v2_start demo_taker_machine_ops demo_v2_env (Inr True) demo_taker_v2 V2Initialize v2_node_new"

definition demo_taker_node :: "(taker_v2, taker_v2_event) v2_node" where
  "demo_taker_node =
     (case v2_run demo_taker_machine_ops (\<lambda>_. demo_v2_env) 11 0 demo_taker_v2_started of Some n \<Rightarrow> n | None \<Rightarrow> v2_node_new)"

text \<open>The transactions of the theorems among the calls of a run.\<close>

fun call_kind :: "v2_call \<Rightarrow> nat" where
  "call_kind (SendMakerPaymentTx _ _) = 1"
| "call_kind (SpendTakerPaymentTx _ _ _ _) = 2"
| "call_kind (SendTakerPaymentTx _ _ _) = 3"
| "call_kind (SpendMakerPaymentTx _ _) = 4"
| "call_kind _ = 0"

lemma demo_maker_kinds: "map call_kind (vn_calls demo_maker_node) = [0, 0, 0, 0, 1, 0, 0, 0, 0, 2, 0]"
  by code_simp

lemma demo_taker_kinds: "map call_kind (vn_calls demo_taker_node) = [0, 0, 0, 0, 0, 0, 3, 0, 0, 0, 4, 0]"
  by code_simp

lemma kinds_nth: "map call_kind cs = ks \<Longrightarrow> i < length ks \<Longrightarrow> i < length cs \<and> call_kind (cs ! i) = ks ! i"
  by auto

lemma call_kind_cases:
  "call_kind c = 1 \<Longrightarrow> \<exists>a r. c = SendMakerPaymentTx a r"
  "call_kind c = 2 \<Longrightarrow> \<exists>p a s r. c = SpendTakerPaymentTx p a s r"
  "call_kind c = 3 \<Longrightarrow> \<exists>p a r. c = SendTakerPaymentTx p a r"
  "call_kind c = 4 \<Longrightarrow> \<exists>a r. c = SpendMakerPaymentTx a r"
  by (cases c; simp)+

lemma demo_world: "v2_world demo_v2_env demo_v2_env"
  by (simp add: v2_world_def)

lemma v2_node_new_idle: "vn_running v2_node_new = None" "\<not> vn_started v2_node_new" "vn_calls v2_node_new = []"
  by (simp_all add: v2_node_new_def)

lemma demo_maker_v2_started_reach:
  "v2_reach (maker_v2_ops demo_wire (\<lambda>_. True)) (v2_world demo_v2_env) demo_maker_v2 demo_maker_v2_started"
  unfolding demo_maker_v2_started_def demo_maker_machine_ops_def
  by (rule reach_start) (simp_all add: reach_new v2_node_new_idle demo_world)

lemma demo_maker_node_reach:
  "v2_reach (maker_v2_ops demo_wire (\<lambda>_. True)) (v2_world demo_v2_env) demo_maker_v2 demo_maker_node"
proof -
  have "vn_calls demo_maker_node \<noteq> []" using demo_maker_kinds by auto
  then have "v2_run demo_maker_machine_ops (\<lambda>_. demo_v2_env) 9 0 demo_maker_v2_started = Some demo_maker_node"
    by (auto simp: demo_maker_node_def v2_node_new_idle split: option.splits)
  from v2_run_reach[OF demo_maker_v2_started_reach demo_world this[unfolded demo_maker_machine_ops_def]]
  show ?thesis .
qed

lemma demo_taker_v2_started_reach:
  "v2_reach (taker_v2_ops demo_wire (\<lambda>_. True)) (v2_world demo_v2_env) demo_taker_v2 demo_taker_v2_started"
  unfolding demo_taker_v2_started_def demo_taker_machine_ops_def
  by (rule reach_start) (simp_all add: reach_new v2_node_new_idle demo_world)

lemma demo_taker_node_reach:
  "v2_reach (taker_v2_ops demo_wire (\<lambda>_. True)) (v2_world demo_v2_env) demo_taker_v2 demo_taker_node"
proof -
  have "vn_calls demo_taker_node \<noteq> []" using demo_taker_kinds by auto
  then have "v2_run demo_taker_machine_ops (\<lambda>_. demo_v2_env) 11 0 demo_taker_v2_started = Some demo_taker_node"
    by (auto simp: demo_taker_node_def v2_node_new_idle split: option.splits)
  from v2_run_reach[OF demo_taker_v2_started_reach demo_world this[unfolded demo_taker_machine_ops_def]]
  show ?thesis .
qed

section \<open>The witnesses of the safety theorems\<close>

theorem maker_v2_secret_revealed_safely_witness:
  "case vn_calls demo_maker_node ! 9 of
     SpendTakerPaymentTx pre args secret r \<Rightarrow>
       secret = replicate 32 9
       \<and> (\<exists>v a tx payment.
            {ValidatedTakerFunding v, SendMakerPaymentTx a (Inr tx), FoundFundingSpend (vtf_funding_tx v) payment,
             ConfirmedTx ''DOGE'' (m2_confirm_payment_args demo_maker_v2 (tx_hex payment))}
              \<subseteq> set (take 9 (vn_calls demo_maker_node))
            \<and> vtf_maker_secret_hash v = gps_maker_secret_hash args)
   | _ \<Rightarrow> False"
proof -
  have i: "9 < length (vn_calls demo_maker_node)" "call_kind (vn_calls demo_maker_node ! 9) = 2"
    using kinds_nth[OF demo_maker_kinds, of 9] by simp_all
  obtain p a s r where c: "vn_calls demo_maker_node ! 9 = SpendTakerPaymentTx p a s r"
    using call_kind_cases(2)[OF i(2)] by blast
  have s: "length (m2_secret demo_maker_v2) = 32" "m2_secret demo_maker_v2 = replicate 32 9"
    and t: "coin_ticker (ve_taker_coin demo_v2_env) = ''DOGE''"
    by (simp_all add: demo_maker_v2_def demo_v2_env_def flat_fee_coin_def Let_def)
  show ?thesis
    using maker_v2_secret_revealed_safely[OF demo_maker_node_reach s(1) i(1) c] unfolding c s(2) t
    by (simp only: v2_call.simps) metis
qed

theorem maker_v2_payment_backed_witness:
  "case vn_calls demo_maker_node ! 4 of
     SendMakerPaymentTx a r \<Rightarrow>
       (\<exists>v. ValidatedTakerFunding v \<in> set (take 4 (vn_calls demo_maker_node))
          \<and> smp_taker_secret_hash a = vtf_taker_secret_hash v
          \<and> unat (smp_time_lock a) \<le> unat (vtf_payment_time_lock v) + 7860)
   | _ \<Rightarrow> False"
proof -
  have i: "4 < length (vn_calls demo_maker_node)" "call_kind (vn_calls demo_maker_node ! 4) = 1"
    using kinds_nth[OF demo_maker_kinds, of 4] by simp_all
  obtain a r where c: "vn_calls demo_maker_node ! 4 = SendMakerPaymentTx a r"
    using call_kind_cases(1)[OF i(2)] by blast
  have s: "length (m2_secret demo_maker_v2) = 32"
    and t: "unat (m2_started_at demo_maker_v2) = 1700000000" "unat (m2_lock_duration demo_maker_v2) = 7800"
    by (simp_all add: demo_maker_v2_def)
  show ?thesis
    using maker_v2_payment_backed[OF demo_maker_node_reach s i(1) c] unfolding c t by auto
qed

theorem taker_v2_payment_backed_witness:
  "case vn_calls demo_taker_node ! 6 of
     SendTakerPaymentTx pre args r \<Rightarrow>
       ValidatedFundingSpend args pre \<in> set (take 6 (vn_calls demo_taker_node))
       \<and> (\<exists>a f v.
            {SendTakerFundingTx a (Inr f), ValidatedMakerPayment v,
             ConfirmedTx ''LTC'' (t2_gate demo_taker_v2 (tx_hex (vmp_maker_payment_tx v))
               (t2_maker_payment_conf_timeout demo_taker_v2))} \<subseteq> set (take 6 (vn_calls demo_taker_node))
            \<and> vmp_maker_secret_hash v = gfs_maker_secret_hash args)
   | _ \<Rightarrow> False"
proof -
  have i: "6 < length (vn_calls demo_taker_node)" "call_kind (vn_calls demo_taker_node ! 6) = 3"
    using kinds_nth[OF demo_taker_kinds, of 6] by simp_all
  obtain p a r where c: "vn_calls demo_taker_node ! 6 = SendTakerPaymentTx p a r"
    using call_kind_cases(3)[OF i(2)] by blast
  have s: "length (t2_taker_secret demo_taker_v2) = 32" and q: "t2_require_maker_payment_confirm demo_taker_v2 = True"
    and t: "coin_ticker (ve_maker_coin demo_v2_env) = ''LTC''"
    by (simp_all add: demo_taker_v2_def demo_v2_env_def flat_fee_coin_def Let_def)
  show ?thesis
    using taker_v2_payment_backed[OF demo_taker_node_reach s i(1) c] unfolding c t q by auto
qed

theorem taker_v2_spends_with_revealed_secret_witness:
  "case vn_calls demo_taker_node ! 10 of
     SpendMakerPaymentTx args r \<Rightarrow>
       (\<exists>v pre fargs tp tp' spend spend'.
          {ValidatedMakerPayment v, SendTakerPaymentTx pre fargs (Inr tp), FoundPaymentSpend tp' spend,
           ExtractedSecret (spm_maker_secret_hash args) spend' (spm_maker_secret args)}
            \<subseteq> set (take 10 (vn_calls demo_taker_node))
          \<and> spm_maker_secret_hash args = vmp_maker_secret_hash v)
   | _ \<Rightarrow> False"
proof -
  have i: "10 < length (vn_calls demo_taker_node)" "call_kind (vn_calls demo_taker_node ! 10) = 4"
    using kinds_nth[OF demo_taker_kinds, of 10] by simp_all
  obtain a r where c: "vn_calls demo_taker_node ! 10 = SpendMakerPaymentTx a r"
    using call_kind_cases(4)[OF i(2)] by blast
  have s: "length (t2_taker_secret demo_taker_v2) = 32" by (simp add: demo_taker_v2_def)
  show ?thesis
    using taker_v2_spends_with_revealed_secret[OF demo_taker_node_reach s i(1) c] unfolding c by auto
qed

section \<open>The witnesses of the theorems on the life of a swap\<close>

lemma demo_clock: "ve_now_ms demo_v2_env 2 div 1000 = 1700007200"
  by (simp add: demo_v2_env_def)

lemma demo_maker_v2_started_runs:
  "vn_running demo_maker_v2_started = Some (demo_maker_v2, V2Initialize)"
  "v2_row_in_step (maker_v2_ops demo_wire (\<lambda>_. True)) demo_maker_v2 V2Initialize demo_maker_v2_started"
proof -
  show "vn_running demo_maker_v2_started = Some (demo_maker_v2, V2Initialize)"
    by code_simp
  have "\<not> Option.is_none (hm_get (vn_db demo_maker_v2_started) (m2_uuid demo_maker_v2))"
    by code_simp
  then show "v2_row_in_step (maker_v2_ops demo_wire (\<lambda>_. True)) demo_maker_v2 V2Initialize demo_maker_v2_started"
    by (auto simp: v2_row_in_step_def maker_v2_ops_def Option.is_none_def)
qed

theorem maker_v2_run_ends_witness:
  "\<exists>n' row. v2_run (maker_v2_ops demo_wire (\<lambda>_. True)) (\<lambda>_. demo_v2_env) 9 0 demo_maker_v2_started = Some n'
    \<and> hm_get (vn_db n') 7 = Some row \<and> sr_is_finished row \<and> locked_v2_of (vn_ctx n') ''LTC'' 7 = []"
proof -
  have live: "maker_v2_live demo_maker_v2 demo_v2_env"
    unfolding maker_v2_live_def
    by (intro conjI exI[of _ 2]) (simp_all add: demo_clock, simp_all add: demo_maker_v2_def demo_v2_env_def
        demo_maker_ops_def demo_parse_ops_def maker_ops_v2.defs parse_ops_v2.defs)
  have e: "ve_store demo_v2_env = Inr ()" "coin_ticker (ve_maker_coin demo_v2_env) = ''LTC''" "m2_uuid demo_maker_v2 = 7"
    by (simp_all add: demo_v2_env_def flat_fee_coin_def Let_def demo_maker_v2_def)
  show ?thesis
    using maker_v2_run_ends[where envs = "\<lambda>_. demo_v2_env", OF live e(1,2) demo_maker_v2_started_runs] unfolding e(3)
    by blast
qed

lemma demo_taker_v2_started_runs:
  "vn_running demo_taker_v2_started = Some (demo_taker_v2, V2Initialize)"
  "v2_row_in_step (taker_v2_ops demo_wire (\<lambda>_. True)) demo_taker_v2 V2Initialize demo_taker_v2_started"
proof -
  show "vn_running demo_taker_v2_started = Some (demo_taker_v2, V2Initialize)"
    by code_simp
  have "\<not> Option.is_none (hm_get (vn_db demo_taker_v2_started) (t2_uuid demo_taker_v2))"
    by code_simp
  then show "v2_row_in_step (taker_v2_ops demo_wire (\<lambda>_. True)) demo_taker_v2 V2Initialize demo_taker_v2_started"
    by (auto simp: v2_row_in_step_def taker_v2_ops_def Option.is_none_def)
qed

theorem taker_v2_run_ends_witness:
  "\<exists>n' row. v2_run (taker_v2_ops demo_wire (\<lambda>_. True)) (\<lambda>_. demo_v2_env) 11 0 demo_taker_v2_started = Some n'
    \<and> hm_get (vn_db n') 7 = Some row \<and> sr_is_finished row \<and> locked_v2_of (vn_ctx n') ''DOGE'' 7 = []"
proof -
  have live: "taker_v2_live demo_taker_v2 demo_v2_env"
    unfolding taker_v2_live_def
    by (intro conjI exI[of _ 2]) (simp_all add: demo_taker_v2_def demo_v2_env_def
        demo_taker_ops_def demo_parse_ops_def taker_ops_v2.defs parse_ops_v2.defs)
  have e: "ve_store demo_v2_env = Inr ()" "coin_ticker (ve_taker_coin demo_v2_env) = ''DOGE''" "t2_uuid demo_taker_v2 = 7"
    by (simp_all add: demo_v2_env_def flat_fee_coin_def Let_def demo_taker_v2_def)
  show ?thesis
    using taker_v2_run_ends[where envs = "\<lambda>_. demo_v2_env", OF live e(1,2) demo_taker_v2_started_runs] unfolding e(3)
    by blast
qed

lemma demo_maker_first_runs:
  "v2_round demo_maker_machine_ops demo_v2_env demo_maker_v2 V2Initialize demo_maker_v2_started = Some demo_maker_first"
  "vn_running demo_maker_first = Some (demo_maker_v2, V2Entered (MvInitialized 100 100 (1 / 100) 1))"
proof -
  show run: "vn_running demo_maker_first = Some (demo_maker_v2, V2Entered (MvInitialized 100 100 (1 / 100) 1))"
    by code_simp
  show "v2_round demo_maker_machine_ops demo_v2_env demo_maker_v2 V2Initialize demo_maker_v2_started = Some demo_maker_first"
    using run by (auto simp: demo_maker_first_def v2_node_new_idle split: option.splits)
qed

theorem maker_v2_funds_locked_witness:
  "get_locked_amount (vc_swaps (vn_ctx demo_maker_first)) ''LTC'' =
     get_locked_amount (vc_swaps (retain_locked_v2 ''LTC'' 7 (vn_ctx demo_maker_first))) ''LTC'' + (1 + 1 / 100)"
proof -
  have reach: "v2_reach (maker_v2_ops demo_wire (\<lambda>_. True)) (v2_world demo_v2_env) demo_maker_v2 demo_maker_first"
    by (rule reach_round[OF demo_maker_v2_started_reach demo_maker_v2_started_runs(1) demo_world
          demo_maker_first_runs(1)[unfolded demo_maker_machine_ops_def]])
  have e: "coin_ticker (ve_maker_coin demo_v2_env) = ''LTC''" "m2_uuid demo_maker_v2 = 7" "m2_maker_volume demo_maker_v2 = 1"
    by (simp_all add: demo_v2_env_def flat_fee_coin_def Let_def demo_maker_v2_def)
  show ?thesis
    using maker_v2_funds_locked[OF reach demo_maker_first_runs(2)] by (simp add: e)
qed

theorem maker_v2_restart_restores_witness:
  "\<exists>db1 db2.
      insert_swap_v2_maker id 7 (maker_v2_to_db_repr demo_v2_env demo_maker_v2) [] = Inr db1
    \<and> store_events 7 [MvInitialized 100 100 (1 / 100) 1] db1 = Inr db2
    \<and> 7 \<in> set (get_unfinished_swap_uuids maker_swap_v2_type db2)
    \<and> bind_res (get_swap_repr 7 maker_swap_v2_type db2) (maker_v2_recreate (\<lambda>_. True) 7) =
        Inr (demo_maker_v2\<lparr>m2_require_taker_funding_confirm := False\<rparr>, MvInitialized 100 100 (1 / 100) 1)"
proof -
  have s: "m2_storable demo_v2_env (\<lambda>_. True) demo_maker_v2"
    by (simp add: m2_storable_def demo_maker_v2_def demo_v2_env_def)
  have e: "m2_uuid demo_maker_v2 = 7" "ve_to_decimal demo_v2_env = id"
    "demo_maker_v2\<lparr>m2_require_taker_funding_confirm := False, m2_require_taker_payment_spend_confirm := True\<rparr>
       = demo_maker_v2\<lparr>m2_require_taker_funding_confirm := False\<rparr>"
    by (simp_all add: demo_maker_v2_def demo_v2_env_def)
  show ?thesis
    using maker_v2_restart_restores[OF s, where db = "[]" and es = "[MvInitialized 100 100 (1 / 100) 1]"]
    by (simp add: e hm_get_def)
qed

section \<open>The witnesses for negotiation and messages\<close>

lemma demo_v2_negotiation:
  "snd (m2_negotiation_msg demo_v2_env demo_maker_v2) = Inr demo_maker_negotiation"
  "snd (t2_negotiation_msg demo_v2_env demo_taker_v2) = Inr demo_taker_negotiation"
  by code_simp+


definition demo_raw :: bytes where
  "demo_raw = broadcast_swap_v2_message demo_wire [2] 7 (TakerFundingInfoMsg [1])"

definition demo_message_context :: v2_context where
  "demo_message_context =
     (case process_swap_v2_msg demo_wire ''7'' demo_raw (init_v2_msg_store 7 [2] empty_v2_context) of
        Inr ctx \<Rightarrow> ctx | Inl _ \<Rightarrow> empty_v2_context)"

theorem v2_messages_authentic_witness:
  "case recv_swap_v2_msg TakerFundingSlot 7 1700000000 60 (\<lambda>_. (demo_message_context, 1700000001)) of
     Some (Inr (m, ctx')) \<Rightarrow>
       m = TakerFundingInfoMsg [1] \<and> signed_by demo_wire [2] 7 m demo_raw
       \<and> v2_store_reach demo_wire 7 [2] [demo_raw] ctx'
   | _ \<Rightarrow> False"
proof -
  have open_raw: "open_v2_msg demo_wire [2] 7 demo_raw = Inr (TakerFundingInfoMsg [1])"
    by code_simp
  have p: "process_swap_v2_msg demo_wire ''7'' demo_raw (init_v2_msg_store 7 [2] empty_v2_context) = Inr demo_message_context"
    and s: "Option.bind (hm_get (vc_swap_v2_msgs demo_message_context) 7) (take_v2_msg TakerFundingSlot)
              = Some (TakerFundingInfoMsg [1], v2_msg_store_new [2])"
    using open_raw by (simp_all add: demo_message_context_def process_swap_v2_msg_def init_v2_msg_store_def
        v2_msg_store_new_def hm_simps demo_wire_def)
  have reach: "v2_store_reach demo_wire 7 [2] [demo_raw] demo_message_context"
    using v2_store_reach.Receive[OF v2_store_reach.Init p] by simp
  obtain ctx' where r: "recv_swap_v2_msg TakerFundingSlot 7 1700000000 60 (\<lambda>_. (demo_message_context, 1700000001))
      = Some (Inr (TakerFundingInfoMsg [1], ctx'))"
    using s by (simp add: recv_swap_v2_msg_def recv_v2_loop.simps[of _ _ _ _ 0])
  show ?thesis
    using v2_messages_authentic[where raws = "\<lambda>_. [demo_raw]", OF _ r] reach r by simp
qed

end
