(* ===== verification/Codec.thy ===== *)
theory Codec
  imports Prelude
begin

text \<open>
  The binary codec of the UTXO coins (crate \<open>kdf_codec\<close>): the look-ahead reader, little-endian
  integers, compact integers, length-prefixed buffers and lists.

  A serializer is the list of bytes it appends to a stream. A decoder maps the bytes that are left
  to an error or to a value and the rest. Decoding is the inverse of serialization for every type of
  the codec; this is the law of the locale \<open>codec\<close>, whose interpretations are the types.

  An allocation of more than \<open>isize::MAX\<close> bytes panics; allocations below this bound are taken to
  succeed, and \<open>usize\<close> has 64 bits.
\<close>

section \<open>The reader\<close>

datatype (plugins only: code size) codec_error = MalformedData | UnexpectedEnd | UnreadData | CustomError string

datatype (plugins only: code size) decode_fault = Failed codec_error | Panicked

type_synonym 'a decoder = "bytes \<Rightarrow> decode_fault + ('a \<times> bytes)"

text \<open>
  \<open>Reader\<close> keeps one byte of look-ahead for \<open>is_finished\<close>. Its \<open>read\<close> splices the byte in front of
  the buffer; \<open>read_exact\<close> of the standard library repeats \<open>read\<close> until the slice is full.
\<close>

record look_ahead_reader =
  la_buffer :: bytes
  la_peeked :: "u8 option"

definition la_read :: "nat \<Rightarrow> look_ahead_reader \<Rightarrow> bytes \<times> look_ahead_reader" where
  "la_read n r =
     (case la_peeked r of
        None \<Rightarrow> (take n (la_buffer r), r\<lparr>la_buffer := drop n (la_buffer r)\<rparr>)
      | Some p \<Rightarrow>
          if n = 0 then ([], r)
          else (p # take (n - 1) (la_buffer r), r\<lparr>la_peeked := None, la_buffer := drop (n - 1) (la_buffer r)\<rparr>))"

function la_read_slice :: "nat \<Rightarrow> look_ahead_reader \<Rightarrow> decode_fault + (bytes \<times> look_ahead_reader)" where
  "la_read_slice n r =
     (if n = 0 then Inr ([], r)
      else if fst (la_read n r) = [] then Inl (Failed UnexpectedEnd)
      else case la_read_slice (n - length (fst (la_read n r))) (snd (la_read n r)) of
             Inl e \<Rightarrow> Inl e
           | Inr (rest, r') \<Rightarrow> Inr (fst (la_read n r) @ rest, r'))"
  by pat_completeness auto

termination la_read_slice
  by (relation "measure fst") auto

declare la_read_slice.simps [simp del]

definition la_is_finished :: "look_ahead_reader \<Rightarrow> bool \<times> look_ahead_reader" where
  "la_is_finished r =
     (if la_peeked r \<noteq> None then (False, r)
      else case la_read_slice 1 r of
             Inr (probe, r') \<Rightarrow> (False, r'\<lparr>la_peeked := Some (hd probe)\<rparr>)
           | Inl _ \<Rightarrow> (True, r))"

text \<open>The bytes that are left, and the reader as a function of them.\<close>

definition la_bytes :: "look_ahead_reader \<Rightarrow> bytes" where
  "la_bytes r = (case la_peeked r of None \<Rightarrow> [] | Some p \<Rightarrow> [p]) @ la_buffer r"

definition read_slice :: "nat \<Rightarrow> bytes decoder" where
  "read_slice n bs = (if n \<le> length bs then Inr (take n bs, drop n bs) else Inl (Failed UnexpectedEnd))"

definition is_finished :: "bytes \<Rightarrow> bool" where
  "is_finished bs = (bs = [])"

lemma la_read_bytes:
  "fst (la_read n r) @ la_bytes (snd (la_read n r)) = la_bytes r"
  "length (fst (la_read n r)) \<le> n"
  "fst (la_read n r) = [] \<longleftrightarrow> n = 0 \<or> la_bytes r = []"
  by (auto simp: la_read_def la_bytes_def min_def split: option.splits)

lemma la_read_slice_refines:
  "(case la_read_slice n r of Inl e \<Rightarrow> Inl e | Inr (bs, r') \<Rightarrow> Inr (bs, la_bytes r')) = read_slice n (la_bytes r)"
proof (induction n r rule: la_read_slice.induct)
  case (1 n r)
  let ?bs = "fst (la_read n r)" and ?r = "snd (la_read n r)"
  show ?case
  proof (cases "n = 0 \<or> ?bs = []")
    case True
    then show ?thesis
      using la_read_bytes(3)[of n r] by (subst la_read_slice.simps) (auto simp: read_slice_def)
  next
    case False
    then have IH: "(case la_read_slice (n - length ?bs) ?r of Inl e \<Rightarrow> Inl e | Inr (bs, r') \<Rightarrow> Inr (bs, la_bytes r')) =
        read_slice (n - length ?bs) (la_bytes ?r)"
      using 1 by simp
    have split: "la_bytes r = ?bs @ la_bytes ?r" "length ?bs \<le> n" using la_read_bytes[of n r] by simp_all
    show ?thesis
      using False IH split(2)
      by (subst la_read_slice.simps, subst split(1))
        (auto simp: read_slice_def split: sum.splits if_splits)
  qed
qed

section \<open>Integers\<close>

fun le_nat :: "bytes \<Rightarrow> nat" where
  "le_nat [] = 0"
| "le_nat (b # bs) = unat b + 256 * le_nat bs"

fun le_bytes :: "nat \<Rightarrow> nat \<Rightarrow> bytes" where
  "le_bytes 0 n = []"
| "le_bytes (Suc k) n = of_nat (n mod 256) # le_bytes k (n div 256)"

lemma length_le_bytes [simp]: "length (le_bytes k n) = k"
  by (induction k arbitrary: n) auto

lemma le_nat_le_bytes: "le_nat (le_bytes k n) = n mod 256 ^ k"
proof (induction k arbitrary: n)
  case (Suc k)
  have "unat (of_nat (n mod 256) :: 8 word) = n mod 256" by (simp add: unat_of_nat)
  then have "le_nat (le_bytes (Suc k) n) = n mod 256 + 256 * (n div 256 mod 256 ^ k)" using Suc by simp
  also have "\<dots> = n mod 256 ^ Suc k" by (simp add: mod_mult2_eq)
  finally show ?case .
qed simp

lemma le_nat_less: "le_nat bs < 256 ^ length bs"
proof (induction bs)
  case (Cons b bs)
  have "unat b < 256" using unsigned_less[of b] by simp
  then show ?case using Cons by simp
qed simp

definition put_word :: "nat \<Rightarrow> 'a::len word \<Rightarrow> bytes" where
  "put_word n w = le_bytes n (unat w)"

definition get_word :: "nat \<Rightarrow> 'a::len word decoder" where
  "get_word n bs = bind_res (read_slice n bs) (\<lambda>(b, r). Inr (of_nat (le_nat b), r))"

abbreviation put_u8 :: "u8 \<Rightarrow> bytes" where "put_u8 \<equiv> put_word 1"
abbreviation put_u16 :: "u16 \<Rightarrow> bytes" where "put_u16 \<equiv> put_word 2"
abbreviation put_u32 :: "u32 \<Rightarrow> bytes" where "put_u32 \<equiv> put_word 4"
abbreviation put_u64 :: "u64 \<Rightarrow> bytes" where "put_u64 \<equiv> put_word 8"
abbreviation get_u8 :: "u8 decoder" where "get_u8 \<equiv> get_word 1"
abbreviation get_u16 :: "u16 decoder" where "get_u16 \<equiv> get_word 2"
abbreviation get_u32 :: "u32 decoder" where "get_u32 \<equiv> get_word 4"
abbreviation get_u64 :: "u64 decoder" where "get_u64 \<equiv> get_word 8"

definition put_bool :: "bool \<Rightarrow> bytes" where
  "put_bool b = put_u8 (if b then 1 else 0)"

definition get_bool :: "bool decoder" where
  "get_bool bs = bind_res (get_u8 bs) (\<lambda>(b, r).
     if b = 0 then Inr (False, r) else if b = 1 then Inr (True, r) else Inl (Failed MalformedData))"

lemma read_slice_append [simp]: "length b = n \<Longrightarrow> read_slice n (b @ r) = Inr (b, r)"
  by (simp add: read_slice_def)

lemma get_put_word:
  fixes w :: "'a::len word"
  assumes "LENGTH('a) \<le> 8 * n"
  shows "get_word n (put_word n w @ r) = Inr (w, r)"
proof -
  have "unat w < 2 ^ LENGTH('a)" by (rule unsigned_less)
  also have "\<dots> \<le> 2 ^ (8 * n)" using assms by (intro power_increasing) auto
  finally have "unat w < 256 ^ n" by (simp add: power_mult)
  then show ?thesis by (simp add: get_word_def put_word_def le_nat_le_bytes)
qed

lemma length_put_word [simp]: "length (put_word n w) = n"
  by (simp add: put_word_def)

section \<open>Compact integers\<close>

type_synonym compact_integer = u64

definition serialized_length :: "compact_integer \<Rightarrow> nat" where
  "serialized_length v = (if v \<le> 0xfc then 1 else if v \<le> 0xffff then 3 else if v \<le> 0xffffffff then 5 else 9)"

definition data_length :: "u8 \<Rightarrow> nat" where
  "data_length flag = (if flag = 0xfd then 2 else if flag = 0xfe then 4 else if flag = 0xff then 8 else 0)"

definition put_compact :: "compact_integer \<Rightarrow> bytes" where
  "put_compact v =
     (if v \<le> 0xfc then put_u8 (ucast v)
      else if v \<le> 0xffff then put_u8 0xfd @ put_u16 (ucast v)
      else if v \<le> 0xffffffff then put_u8 0xfe @ put_u32 (ucast v)
      else put_u8 0xff @ put_u64 v)"

definition get_compact :: "compact_integer decoder" where
  "get_compact bs = bind_res (get_u8 bs) (\<lambda>(flag, r).
     if flag \<le> 0xfc then Inr (ucast flag, r)
     else if flag = 0xfd then bind_res (get_u16 r) (\<lambda>(v, r). Inr (ucast v, r))
     else if flag = 0xfe then bind_res (get_u32 r) (\<lambda>(v, r). Inr (ucast v, r))
     else get_u64 r)"

datatype (plugins only: code size) compact_integer_error = ParseError string

definition parse_compact_int :: "bytes \<Rightarrow> compact_integer_error + compact_integer" where
  "parse_compact_int buf =
     (if buf = [] then Inl (ParseError ''Empty buffer!'')
      else let payload_len = data_length (buf ! 0) in
        if payload_len = 0 then Inr (ucast (buf ! 0))
        else if length buf < 1 + payload_len then Inl (ParseError ''Insufficient bytes!'')
        else Inr (of_nat (le_nat (take payload_len (drop 1 buf) @ replicate (8 - payload_len) 0))))"

lemma unat_ucast_small:
  fixes v :: u64
  assumes "unat v < 2 ^ LENGTH('b::len)"
  shows "unat (ucast v :: 'b word) = unat v"
  using assms by (simp add: unsigned_ucast_eq take_bit_nat_eq_self)

lemma ucast_small_word:
  fixes v :: u64
  assumes "unat v < 2 ^ LENGTH('b::len)"
  shows "ucast (ucast v :: 'b word) = v"
proof -
  have "unat (ucast (ucast v :: 'b word) :: u64) = take_bit LENGTH(64) (unat (ucast v :: 'b word))"
    by (rule unsigned_ucast_eq)
  moreover have "unat v < 2 ^ LENGTH(64)" by (rule unsigned_less)
  ultimately show ?thesis
    using unat_ucast_small[OF assms] by (intro word_unat_eq_iff[THEN iffD2]) (simp add: take_bit_nat_eq_self)
qed

lemma get_put_compact: "get_compact (put_compact v @ r) = Inr (v, r)"
proof -
  consider "v \<le> 0xfc" | "0xfc < v" "v \<le> 0xffff" | "0xffff < v" "v \<le> 0xffffffff" | "0xffffffff < v"
    by force
  then show ?thesis
  proof cases
    case 1
    then have u: "unat v \<le> 252" by (simp add: word_le_nat_alt)
    then have "(ucast v :: u8) \<le> 0xfc" by (simp add: word_le_nat_alt unat_ucast_small)
    then show ?thesis using 1 u by (simp add: put_compact_def get_compact_def get_put_word ucast_small_word)
  next
    case 2
    then have "unat v < 2 ^ LENGTH(16)" "\<not> v \<le> 0xfc" by (auto simp: word_le_nat_alt word_less_nat_alt)
    then show ?thesis using 2 by (simp add: put_compact_def get_compact_def get_put_word ucast_small_word)
  next
    case 3
    then have "unat v < 2 ^ LENGTH(32)" "\<not> v \<le> 0xfc" "\<not> v \<le> 0xffff" by (auto simp: word_le_nat_alt word_less_nat_alt)
    then show ?thesis using 3 by (simp add: put_compact_def get_compact_def get_put_word ucast_small_word)
  next
    case 4
    then have "\<not> v \<le> 0xfc" "\<not> v \<le> 0xffff" "\<not> v \<le> 0xffffffff" by (auto simp: word_le_nat_alt word_less_nat_alt)
    then show ?thesis by (simp add: put_compact_def get_compact_def get_put_word)
  qed
qed

lemma length_put_compact: "length (put_compact v) = serialized_length v"
  by (simp add: put_compact_def serialized_length_def)

text \<open>The parser on slices reads the same values as the reader, also from longer encodings than needed.\<close>

lemma le_nat_zeros: "le_nat (bs @ replicate k 0) = le_nat bs"
proof (induction bs)
  case Nil
  show ?case by (induction k) simp_all
qed simp

lemma ucast_of_nat_small:
  assumes "n < 2 ^ LENGTH('b::len)" "LENGTH('b) \<le> 64"
  shows "ucast (of_nat n :: 'b word) = (of_nat n :: u64)"
proof -
  have "n < 2 ^ 64" using assms by (meson less_le_trans one_le_numeral power_increasing)
  then have "unat (ucast (of_nat n :: 'b word) :: u64) = n"
    using assms(1) by (simp only: unsigned_ucast_eq unat_of_nat) (simp add: take_bit_nat_eq_self)
  then show ?thesis using \<open>n < 2 ^ 64\<close> by (intro word_unat_eq_iff[THEN iffD2]) (simp add: unat_of_nat)
qed

lemma get_u8_Cons [simp]: "get_word (Suc 0) (b # r) = Inr (b :: u8, r)"
  by (simp add: get_word_def read_slice_def)

lemma get_word_payload:
  assumes "LENGTH('b::len) = 8 * n" "LENGTH('b) \<le> 64"
  shows "bind_res (get_word n r) (\<lambda>(v :: 'b word, r). Inr (ucast v :: u64, r)) =
    (if length r < n then Inl (Failed UnexpectedEnd) else Inr (of_nat (le_nat (take n r)), drop n r))"
proof (cases "length r < n")
  case False
  then have "le_nat (take n r) < 256 ^ n" using le_nat_less[of "take n r"] by simp
  then have "le_nat (take n r) < 2 ^ LENGTH('b)" using assms(1) by (simp add: power_mult)
  then show ?thesis using False assms(2) by (simp add: get_word_def read_slice_def ucast_of_nat_small)
qed (simp add: get_word_def read_slice_def)

lemma unat_numeral_byte:
  "unat (0xfc :: u8) = 252" "unat (0xfd :: u8) = 253" "unat (0xfe :: u8) = 254" "unat (0xff :: u8) = 255"
  by simp_all

lemma parse_compact_int_reads:
  "parse_compact_int bs = Inr v \<longleftrightarrow> (\<exists>r. get_compact bs = Inr (v, r))"
proof (cases bs)
  case (Cons b r)
  have g8: "get_u64 r = (if length r < 8 then Inl (Failed UnexpectedEnd) else Inr (of_nat (le_nat (take 8 r)), drop 8 r))"
    by (simp add: get_word_def read_slice_def)
  have "unat b < 2 ^ LENGTH(8)" by (rule unsigned_less)
  then have "unat b \<le> 252 \<or> unat b = 253 \<or> unat b = 254 \<or> unat b = 255" by (simp, linarith)
  then have "b \<le> 0xfc \<or> b = 0xfd \<or> b = 0xfe \<or> b = 0xff"
    unfolding word_le_nat_alt word_unat_eq_iff unat_numeral_byte .
  then consider "b \<le> 0xfc" | "b = 0xfd" | "b = 0xfe" | "b = 0xff" by blast
  then show ?thesis
  proof cases
    case 1
    then have "b \<noteq> 0xfd" "b \<noteq> 0xfe" "b \<noteq> 0xff" unfolding word_le_nat_alt word_unat_eq_iff unat_numeral_byte by linarith+
    then show ?thesis using Cons 1 by (simp add: parse_compact_int_def get_compact_def data_length_def)
  next
    case 2
    have "get_compact bs = (if length r < 2 then Inl (Failed UnexpectedEnd) else Inr (of_nat (le_nat (take 2 r)), drop 2 r))"
      using get_word_payload[where 'b=16, of 2 r] by (simp add: get_compact_def Cons 2)
    then show ?thesis by (simp add: parse_compact_int_def data_length_def Cons 2 le_nat_zeros)
  next
    case 3
    have "get_compact bs = (if length r < 4 then Inl (Failed UnexpectedEnd) else Inr (of_nat (le_nat (take 4 r)), drop 4 r))"
      using get_word_payload[where 'b=32, of 4 r] by (simp add: get_compact_def Cons 3)
    then show ?thesis by (simp add: parse_compact_int_def data_length_def Cons 3 le_nat_zeros)
  next
    case 4
    then show ?thesis by (simp add: get_compact_def g8 parse_compact_int_def data_length_def Cons 4)
  qed
qed (simp add: parse_compact_int_def get_compact_def get_word_def read_slice_def)

section \<open>Buffers, hashes and lists\<close>

lemma unat_drop_bit: "unat (drop_bit k (c :: 'a::len word)) = unat c div 2 ^ k"
  unfolding unat_drop_bit_eq by (rule drop_bit_eq_div)

lemma unat_of_nat64: "n < 2 ^ 64 \<Longrightarrow> unat (of_nat n :: u64) = n"
  by (simp add: unat_of_nat)

definition bytes_decode_limit :: u64 where
  "bytes_decode_limit = 65536"

definition put_bytes :: "bytes \<Rightarrow> bytes" where
  "put_bytes b = put_compact (of_nat (length b)) @ b"

definition get_bytes :: "bytes decoder" where
  "get_bytes bs = bind_res (get_compact bs) (\<lambda>(len, r).
     if bytes_decode_limit < len then Inl (Failed MalformedData) else read_slice (unat len) r)"

definition put_hash :: "bytes \<Rightarrow> bytes" where
  "put_hash h = h"

definition get_hash :: "nat \<Rightarrow> bytes decoder" where
  "get_hash n = read_slice n"

fun get_n :: "'a decoder \<Rightarrow> nat \<Rightarrow> 'a list decoder" where
  "get_n d 0 bs = Inr ([], bs)"
| "get_n d (Suc n) bs = bind_res (d bs) (\<lambda>(x, r). bind_res (get_n d n r) (\<lambda>(xs, r). Inr (x # xs, r)))"

definition put_list :: "('a \<Rightarrow> bytes) \<Rightarrow> 'a list \<Rightarrow> bytes" where
  "put_list put xs = put_compact (of_nat (length xs)) @ concat (map put xs)"

definition isize_max :: nat where
  "isize_max = 2 ^ 63 - 1"

definition get_list :: "nat \<Rightarrow> 'a decoder \<Rightarrow> 'a list decoder" where
  "get_list elem_size d bs = bind_res (get_compact bs) (\<lambda>(len, r).
     if isize_max < elem_size * unat len then Inl Panicked else get_n d (unat len) r)"

definition get_list_max :: "nat \<Rightarrow> 'a decoder \<Rightarrow> 'a list decoder" where
  "get_list_max limit d bs = bind_res (get_compact bs) (\<lambda>(len, r).
     if limit < unat len then Inl (Failed MalformedData) else get_n d (unat len) r)"

definition serialized_list_size :: "('a \<Rightarrow> nat) \<Rightarrow> 'a list \<Rightarrow> nat" where
  "serialized_list_size item_size xs = serialized_length (of_nat (length xs)) + sum_list (map item_size xs)"

definition deserialize :: "'a decoder \<Rightarrow> bytes \<Rightarrow> decode_fault + 'a" where
  "deserialize d bs = bind_res (d bs) (\<lambda>(x, r). if is_finished r then Inr x else Inl (Failed UnreadData))"

section \<open>The law of the codec\<close>

locale codec =
  fixes put :: "'a \<Rightarrow> bytes" and get :: "'a decoder" and ok :: "'a \<Rightarrow> bool"
  assumes get_put: "ok x \<Longrightarrow> get (put x @ r) = Inr (x, r)"
begin

lemma put_prefix_free:
  assumes "ok x" "ok y" "put x @ r = put y @ s"
  shows "x = y \<and> r = s"
proof -
  have "get (put x @ r) = Inr (x, r)" by (rule get_put[OF assms(1)])
  moreover have "get (put x @ r) = Inr (y, s)" unfolding assms(3) by (rule get_put[OF assms(2)])
  ultimately show ?thesis by simp
qed

lemma put_inj:
  assumes "ok x" "ok y" "put x = put y"
  shows "x = y"
  using put_prefix_free[OF assms(1,2), of "[]" "[]"] assms(3) by argo

lemma get_n_put: "list_all ok xs \<Longrightarrow> get_n get (length xs) (concat (map put xs) @ r) = Inr (xs, r)"
  by (induction xs) (simp_all add: get_put)

lemma get_list_max_put:
  assumes "list_all ok xs" "length xs \<le> limit" "length xs < 2 ^ 64"
  shows "get_list_max limit get (put_list put xs @ r) = Inr (xs, r)"
  using assms by (simp add: get_list_max_def put_list_def get_put_compact get_n_put unat_of_nat64)

lemma get_list_put:
  assumes "list_all ok xs" "elem_size * length xs \<le> isize_max" "length xs < 2 ^ 64"
  shows "get_list elem_size get (put_list put xs @ r) = Inr (xs, r)"
  using assms by (simp add: get_list_def put_list_def get_put_compact get_n_put unat_of_nat64)

lemma deserialize_put: "ok x \<Longrightarrow> deserialize get (put x) = Inr x"
  using get_put[of x "[]"] by (simp add: deserialize_def is_finished_def)

end

text \<open>A type whose size on the wire is computed without serializing it.\<close>

locale sized_codec = codec put get ok
  for put :: "'a \<Rightarrow> bytes" and get :: "'a decoder" and ok :: "'a \<Rightarrow> bool" +
  fixes serialized_size :: "'a \<Rightarrow> nat"
  assumes length_put: "length (put x) = serialized_size x"
begin

lemma length_put_list: "length (put_list put xs) = serialized_list_size serialized_size xs"
proof -
  have "length (concat (map put xs)) = sum_list (map serialized_size xs)"
    by (induction xs) (simp_all add: length_put)
  then show ?thesis by (simp add: put_list_def serialized_list_size_def length_put_compact)
qed

end

definition bytes_ok :: "bytes \<Rightarrow> bool" where
  "bytes_ok b = (length b \<le> 65536)"

lemma get_put_bytes:
  assumes "bytes_ok b"
  shows "get_bytes (put_bytes b @ r) = Inr (b, r)"
proof -
  have len: "unat (of_nat (length b) :: u64) = length b"
    using assms by (intro unat_of_nat64) (simp add: bytes_ok_def)
  then have "\<not> bytes_decode_limit < (of_nat (length b) :: u64)"
    using assms unfolding word_less_nat_alt bytes_ok_def bytes_decode_limit_def len by simp
  then show ?thesis by (simp add: get_bytes_def put_bytes_def get_put_compact len)
qed

interpretation u8c: sized_codec put_u8 get_u8 "\<lambda>_. True" "\<lambda>_. 1"
  by unfold_locales (simp_all add: get_put_word)

interpretation u16c: sized_codec put_u16 get_u16 "\<lambda>_. True" "\<lambda>_. 2"
  by unfold_locales (simp_all add: get_put_word)

interpretation u32c: sized_codec put_u32 get_u32 "\<lambda>_. True" "\<lambda>_. 4"
  by unfold_locales (simp_all add: get_put_word)

interpretation u64c: sized_codec put_u64 get_u64 "\<lambda>_. True" "\<lambda>_. 8"
  by unfold_locales (simp_all add: get_put_word)

interpretation boolc: sized_codec put_bool get_bool "\<lambda>_. True" "\<lambda>_. 1"
  by unfold_locales (simp_all add: put_bool_def get_bool_def get_put_word)

interpretation compactc: sized_codec put_compact get_compact "\<lambda>_. True" serialized_length
  by unfold_locales (simp_all add: get_put_compact length_put_compact)

interpretation bytesc: sized_codec put_bytes get_bytes bytes_ok "\<lambda>b. serialized_length (of_nat (length b)) + length b"
  by unfold_locales (simp_all only: get_put_bytes, simp add: put_bytes_def length_put_compact)

interpretation hashc: codec put_hash "get_hash n" "\<lambda>h. length h = n"
  by unfold_locales (simp add: put_hash_def get_hash_def)

lemmas get_put_simps = get_put_word get_put_compact get_put_bytes hashc.get_put

end
