(* ===== verification/Merkle.thy ===== *)
theory Merkle
  imports Codec
begin

text \<open>
  Merkle trees of a block (\<open>kdf_chain/src/merkle.rs\<close>) and the proofs of inclusion that the client
  checks (\<open>kdf_spv_validation/src/helpers_validation.rs\<close>). SHA-256 is an argument.

  The branch of a leaf, as a server sends it, is accepted for every tree and leaf. A proof of the
  right length for a hash that is not the leaf at the claimed position collides with the way from the
  leaf to the root, unless it has exactly one node: a proof of one node is never looked at.
\<close>

section \<open>The tree\<close>

definition dhash256 :: "(bytes \<Rightarrow> h256) \<Rightarrow> bytes \<Rightarrow> h256" where
  "dhash256 sha256 input = sha256 (sha256 input)"

definition merkle_node_hash :: "(bytes \<Rightarrow> h256) \<Rightarrow> h256 \<Rightarrow> h256 \<Rightarrow> h256" where
  "merkle_node_hash sha256 left right = dhash256 sha256 (left @ right)"

text \<open>The inner loop of \<open>merkle_root\<close>, which pairs a row, and the outer one. An empty input indexes out of bounds.\<close>

fun merkle_next :: "(bytes \<Rightarrow> h256) \<Rightarrow> h256 list \<Rightarrow> h256 list" where
  "merkle_next sha256 [] = []"
| "merkle_next sha256 [left] = [merkle_node_hash sha256 left left]"
| "merkle_next sha256 (left # right # current) = merkle_node_hash sha256 left right # merkle_next sha256 current"

lemma length_merkle_next [simp]: "length (merkle_next sha256 row) = (length row + 1) div 2"
  by (induction sha256 row rule: merkle_next.induct) auto

function merkle_root :: "(bytes \<Rightarrow> h256) \<Rightarrow> h256 list \<Rightarrow> h256 option" where
  "merkle_root sha256 current =
     (if 1 < length current then merkle_root sha256 (merkle_next sha256 current)
      else if current = [] then None else Some (current ! 0))"
  by pat_completeness auto

termination merkle_root
  by (relation "measure (length \<circ> snd)") auto

declare merkle_root.simps [simp del]

section \<open>The check of a proof\<close>

datatype (plugins only: code size) spv_error =
  ReadOverrun | BadCompactInt | MalformattedOutput | UnableToGetTarget | UnableToGetHeader | WrongLengthHeader
  | UnexpectedDifficultyChange | InsufficientWork | InvalidChain | WrongDigest | WrongMerkleRoot | WrongPrevHash
  | InvalidVin | InvalidVout | BadMerkleProof | UnableToGetMerkle | InvalidHeight | SpvTimeout

definition merkle_array_new :: "bytes \<Rightarrow> spv_error + bytes" where
  "merkle_array_new bs = (if length bs mod 32 = 0 then Inr bs else Inl BadMerkleProof)"

definition merkle_array_len :: "bytes \<Rightarrow> nat" where
  "merkle_array_len a = length a div 32"

definition merkle_array_index :: "bytes \<Rightarrow> nat \<Rightarrow> spv_error + h256" where
  "merkle_array_index a index =
     (let to_index = (index + 1) * 32 in
      if length a < to_index then Inl BadMerkleProof
      else Inr (take (to_index - index * 32) (drop (index * 32) a)))"

definition hash256 :: "(bytes \<Rightarrow> h256) \<Rightarrow> bytes list \<Rightarrow> h256" where
  "hash256 sha256 preimages = sha256 (sha256 (concat preimages))"

definition hash256_merkle_step :: "(bytes \<Rightarrow> h256) \<Rightarrow> bytes \<Rightarrow> bytes \<Rightarrow> h256" where
  "hash256_merkle_step sha256 a b = hash256 sha256 [a, b]"

fun merkle_climb :: "(bytes \<Rightarrow> h256) \<Rightarrow> bytes \<Rightarrow> nat list \<Rightarrow> u64 \<Rightarrow> h256 \<Rightarrow> spv_error + h256" where
  "merkle_climb sha256 nodes [] idx current = Inr current"
| "merkle_climb sha256 nodes (i # is) idx current =
     bind_res (merkle_array_index nodes i) (\<lambda>node.
       let current = (if idx mod 2 = 1 then hash256_merkle_step sha256 node current
                      else hash256_merkle_step sha256 current node)
       in merkle_climb sha256 nodes is (drop_bit 1 idx) current)"

definition verify_hash256_merkle :: "(bytes \<Rightarrow> h256) \<Rightarrow> h256 \<Rightarrow> h256 \<Rightarrow> bytes \<Rightarrow> u64 \<Rightarrow> spv_error + unit" where
  "verify_hash256_merkle sha256 txid mroot nodes index =
     (let proof_len = merkle_array_len nodes in
      if proof_len = 0 \<and> txid = mroot \<or> proof_len = 1 then Inr ()
      else bind_res (merkle_climb sha256 nodes [0..<proof_len] index txid) (\<lambda>current.
        if current \<noteq> mroot then Inl BadMerkleProof else Inr ()))"

definition merkle_prove :: "(bytes \<Rightarrow> h256) \<Rightarrow> h256 \<Rightarrow> h256 \<Rightarrow> h256 list \<Rightarrow> u64 \<Rightarrow> spv_error + unit" where
  "merkle_prove sha256 txid mroot nodes index =
     (if txid = mroot \<and> index = 0 \<and> nodes = [] then Inr ()
      else bind_res (merkle_array_new (concat nodes)) (\<lambda>a. verify_hash256_merkle sha256 txid mroot a index))"

section \<open>The check in terms of the nodes\<close>

fun climb :: "(bytes \<Rightarrow> h256) \<Rightarrow> h256 list \<Rightarrow> nat \<Rightarrow> h256 \<Rightarrow> h256" where
  "climb sha256 [] i current = current"
| "climb sha256 (node # nodes) i current =
     climb sha256 nodes (i div 2)
       (if odd i then merkle_node_hash sha256 node current else merkle_node_hash sha256 current node)"

definition hashes :: "h256 list \<Rightarrow> bool" where
  "hashes hs = list_all (\<lambda>h. length h = 32) hs"

lemma length_concat_hashes: "hashes hs \<Longrightarrow> length (concat hs) = 32 * length hs"
  by (induction hs) (auto simp: hashes_def)

lemma merkle_array_index_nth:
  "hashes hs \<Longrightarrow> i < length hs \<Longrightarrow> merkle_array_index (concat hs) i = Inr (hs ! i)"
proof (induction hs arbitrary: i)
  case (Cons h hs)
  then show ?case
    by (cases i) (auto simp: merkle_array_index_def Let_def hashes_def length_concat_hashes[unfolded hashes_def] split: if_splits)
qed simp

lemma hash256_merkle_step_node: "hash256_merkle_step sha256 a b = merkle_node_hash sha256 a b"
  by (simp add: hash256_merkle_step_def hash256_def merkle_node_hash_def dhash256_def)

lemma idx_odd: "(idx :: u64) mod 2 = 1 \<longleftrightarrow> odd (unat idx)"
  by (simp add: even_iff_mod_2_eq_zero odd_iff_mod_2_eq_one word_unat_eq_iff unat_mod)

lemma merkle_climb_nodes:
  assumes "hashes (pre @ nodes)"
  shows "merkle_climb sha256 (concat (pre @ nodes)) [length pre..<length pre + length nodes] idx current =
    Inr (climb sha256 nodes (unat idx) current)"
  using assms
proof (induction nodes arbitrary: pre idx current)
  case (Cons node nodes)
  have half: "unat (drop_bit 1 idx) = unat idx div 2" by (simp add: unat_drop_bit)
  have "merkle_array_index (concat (pre @ node # nodes)) (length pre) = Inr node"
    using merkle_array_index_nth[OF Cons.prems, of "length pre"] by simp
  then show ?case
    using Cons.IH[of "pre @ [node]"] Cons.prems
    by (simp add: upt_conv_Cons hash256_merkle_step_node idx_odd Let_def half[simplified] del: drop_bit_Suc upt_Suc)
qed simp

lemma merkle_prove_climb:
  assumes "hashes nodes"
  shows "merkle_prove sha256 txid mroot nodes index =
    (if length nodes = 1 \<or> climb sha256 nodes (unat index) txid = mroot then Inr () else Inl BadMerkleProof)"
  using assms merkle_climb_nodes[of "[]" nodes sha256 index txid]
  by (auto simp: merkle_prove_def merkle_array_new_def verify_hash256_merkle_def merkle_array_len_def
      length_concat_hashes Let_def)


section \<open>Honest proofs are accepted\<close>

text \<open>The branch of a leaf: its sibling in every row, a hash at the end of an odd row being its own.\<close>

definition sibling :: "h256 list \<Rightarrow> nat \<Rightarrow> h256" where
  "sibling row i = (let j = (if odd i then i - 1 else i + 1) in if j < length row then row ! j else row ! i)"

function branch_of :: "(bytes \<Rightarrow> h256) \<Rightarrow> h256 list \<Rightarrow> nat \<Rightarrow> h256 list" where
  "branch_of sha256 row i =
     (if 1 < length row then sibling row i # branch_of sha256 (merkle_next sha256 row) (i div 2) else [])"
  by pat_completeness auto

termination branch_of
  by (relation "measure (\<lambda>(sha256, row, i). length row)") auto

declare branch_of.simps [simp del]

lemma sibling_Suc_Suc [simp]: "sibling (l # r # row) (Suc (Suc i)) = sibling row i"
  by (cases i) (simp_all add: sibling_def)

lemma merkle_next_nth:
  "i < length row \<Longrightarrow> merkle_next sha256 row ! (i div 2) =
    (if odd i then merkle_node_hash sha256 (sibling row i) (row ! i) else merkle_node_hash sha256 (row ! i) (sibling row i))"
proof (induction sha256 row arbitrary: i rule: merkle_next.induct)
  case (3 sha256 left right current)
  consider "i = 0" | "i = 1" | j where "i = Suc (Suc j)" by (cases i; cases "i - 1") auto
  then show ?case
  proof cases
    case 3
    then have "j < length current" using "3.prems" by simp
    from "3.IH"[OF this] show ?thesis using 3 by simp
  qed (simp_all add: sibling_def)
qed (simp_all add: sibling_def)

lemma climb_branch:
  "i < length row \<Longrightarrow> merkle_root sha256 row = Some (climb sha256 (branch_of sha256 row i) i (row ! i))"
proof (induction sha256 row i rule: branch_of.induct)
  case (1 sha256 row i)
  show ?case
  proof (cases "1 < length row")
    case True
    then have "i div 2 < length (merkle_next sha256 row)" using 1(2) by auto
    then show ?thesis
      using 1 True merkle_next_nth[of i row sha256]
      by (subst merkle_root.simps, subst branch_of.simps) (simp split: if_splits)
  next
    case False
    then have "length row = 1" "i = 0" using 1(2) by auto
    then show ?thesis by (subst merkle_root.simps, subst branch_of.simps) auto
  qed
qed


lemma hashes_merkle_next:
  assumes "\<And>x. length (sha256 x) = 32"
  shows "hashes (merkle_next sha256 row)"
  using assms by (induction sha256 row rule: merkle_next.induct) (simp_all add: hashes_def merkle_node_hash_def dhash256_def)

lemma hashes_branch_of:
  assumes "\<And>x. length (sha256 x) = 32" "hashes row" "i < length row"
  shows "hashes (branch_of sha256 row i)"
  using assms
proof (induction sha256 row i rule: branch_of.induct)
  case (1 sha256 row i)
  have "length (sibling row i) = 32" using 1(3,4) by (auto simp: sibling_def Let_def hashes_def list_all_length)
  moreover have "hashes (branch_of sha256 (merkle_next sha256 row) (i div 2))" if "1 < length row"
    using 1 that hashes_merkle_next by auto
  ultimately show ?case by (subst branch_of.simps) (auto simp: hashes_def)
qed

lemma merkle_prove_honest:
  assumes "\<And>x. length (sha256 x) = 32" "hashes leaves" "i < length leaves" "length leaves < 2 ^ 64"
    and "merkle_root sha256 leaves = Some mroot"
  shows "merkle_prove sha256 (leaves ! i) mroot (branch_of sha256 leaves i) (of_nat i) = Inr ()"
  using merkle_prove_climb[OF hashes_branch_of[OF assms(1-3)]] climb_branch[OF assms(3)] assms(3-5)
  by (simp add: unat_of_nat64)

section \<open>Accepted proofs\<close>

text \<open>The inputs that are hashed on the way up, and two ways up with a collision at one of the steps.\<close>

fun climb_inputs :: "(bytes \<Rightarrow> h256) \<Rightarrow> h256 list \<Rightarrow> nat \<Rightarrow> h256 \<Rightarrow> bytes list" where
  "climb_inputs sha256 [] i current = []"
| "climb_inputs sha256 (node # nodes) i current =
     (let input = (if odd i then node @ current else current @ node)
      in input # climb_inputs sha256 nodes (i div 2) (dhash256 sha256 input))"

definition collide :: "(bytes \<Rightarrow> h256) \<Rightarrow> bytes list \<Rightarrow> bytes list \<Rightarrow> bool" where
  "collide sha256 xs ys = list_ex (\<lambda>(x, y). x \<noteq> y \<and> dhash256 sha256 x = dhash256 sha256 y) (zip xs ys)"

lemma climb_inj:
  assumes "\<And>x. length (sha256 x) = 32" "hashes nodes" "hashes nodes'" "length nodes = length nodes'"
    and "length a = 32" "length b = 32" "climb sha256 nodes i a = climb sha256 nodes' i b"
  shows "a = b \<or> collide sha256 (climb_inputs sha256 nodes i a) (climb_inputs sha256 nodes' i b)"
  using assms(2-)
proof (induction nodes nodes' arbitrary: a b i rule: list_induct2')
  case (4 x xs y ys)
  let ?u = "if odd i then x @ a else a @ x" and ?v = "if odd i then y @ b else b @ y"
  have up: "length (dhash256 sha256 ?u) = 32" "length (dhash256 sha256 ?v) = 32" "hashes xs" "hashes ys" "length xs = length ys"
    "climb sha256 xs (i div 2) (dhash256 sha256 ?u) = climb sha256 ys (i div 2) (dhash256 sha256 ?v)"
    using "4.prems" assms(1) by (simp_all add: hashes_def dhash256_def merkle_node_hash_def split: if_splits)
  have "a = b" if "?u = ?v" using that "4.prems" by (simp add: hashes_def split: if_splits)
  then show ?case using "4.IH"[OF up(3-5,1,2,6)] by (auto simp: collide_def Let_def)
qed simp_all

lemma merkle_prove_binds:
  assumes "\<And>x. length (sha256 x) = 32" "hashes leaves" "i < length leaves" "length leaves < 2 ^ 64"
    and "merkle_root sha256 leaves = Some mroot"
    and "hashes nodes" "length nodes = length (branch_of sha256 leaves i)" "length nodes \<noteq> 1" "length txid = 32"
    and "merkle_prove sha256 txid mroot nodes (of_nat i) = Inr ()"
  shows "txid = leaves ! i
    \<or> collide sha256 (climb_inputs sha256 nodes i txid) (climb_inputs sha256 (branch_of sha256 leaves i) i (leaves ! i))"
proof -
  have "climb sha256 nodes i txid = climb sha256 (branch_of sha256 leaves i) i (leaves ! i)"
    using merkle_prove_climb[OF assms(6)] climb_branch[OF assms(3)] assms(3-5,8,10) by (simp add: unat_of_nat64 split: if_splits)
  then show ?thesis
    using climb_inj[OF assms(1)] assms hashes_branch_of[OF assms(1-3)] by (simp add: hashes_def list_all_length)
qed

text \<open>
  A proof of one node, that is one for a block of two transactions, is accepted for every
  transaction and root: the shortcut for short proofs does not look at the node.
\<close>

lemma single_node_proof_accepted:
  "length node = 32 \<Longrightarrow> merkle_prove sha256 txid mroot [node] index = Inr ()"
  by (simp add: merkle_prove_climb hashes_def)

end
