(* ===== verification/Transactions.thy ===== *)
theory Transactions
  imports Codec
begin

text \<open>
  Transactions of the UTXO coins (\<open>kdf_chain/src/transaction.rs\<close>): one record for the Bitcoin,
  Zcash and proof-of-stake layouts, its serialization with and without witnesses, and the decoder
  that tries the layouts in turn. Signed fields (\<open>version\<close>, \<open>value_balance\<close>) are words that are read
  with \<open>sint\<close>. The hash functions are arguments.
\<close>

unbundle bit_operations_syntax

section \<open>Data\<close>

record out_point =
  op_hash :: h256
  op_index :: u32

record transaction_input =
  ti_previous_output :: out_point
  ti_script_sig :: bytes
  ti_sequence :: u32
  ti_script_witness :: "bytes list"

record transaction_output =
  out_value :: u64
  out_script_pubkey :: bytes

record shielded_spend =
  ss_cv :: h256
  ss_anchor :: h256
  ss_nullifier :: h256
  ss_rk :: h256
  ss_zkproof :: bytes
  ss_spend_auth_sig :: bytes

record shielded_output =
  so_cv :: h256
  so_cmu :: h256
  so_ephemeral_key :: h256
  so_enc_cipher_text :: bytes
  so_out_cipher_text :: bytes
  so_zkproof :: bytes

datatype (plugins only: code size) join_split_proof = PHGR bytes | Groth bytes

record join_split =
  js_v_pub_old :: bytes
  js_v_pub_new :: bytes
  js_anchor :: h256
  js_nullifiers :: "h256 \<times> h256"
  js_commitments :: "h256 \<times> h256"
  js_ephemeral_key :: h256
  js_random_seed :: h256
  js_macs :: "h256 \<times> h256"
  js_zkproof :: join_split_proof
  js_ciphertexts :: "bytes \<times> bytes"

datatype (plugins only: code size) tx_hash_algo = DSHA256 | SHA256

record transaction =
  tx_version :: u32
  tx_n_time :: "u32 option"
  tx_overwintered :: bool
  tx_version_group_id :: u32
  tx_inputs :: "transaction_input list"
  tx_outputs :: "transaction_output list"
  tx_lock_time :: u32
  tx_expiry_height :: u32
  tx_shielded_spends :: "shielded_spend list"
  tx_shielded_outputs :: "shielded_output list"
  tx_join_splits :: "join_split list"
  tx_value_balance :: u64
  tx_join_split_pubkey :: h256
  tx_join_split_sig :: bytes
  tx_binding_sig :: bytes
  tx_zcash :: bool
  tx_str_d_zeel :: "bytes option"
  tx_tx_hash_algo :: tx_hash_algo

definition sequence_final :: u32 where
  "sequence_final = 0xffffffff"

definition locktime_threshold :: u32 where
  "locktime_threshold = 500000000"

definition out_point_null :: out_point where
  "out_point_null = \<lparr>op_hash = replicate 32 0, op_index = - 1\<rparr>"

definition out_point_is_null :: "out_point \<Rightarrow> bool" where
  "out_point_is_null p = (list_all (\<lambda>b. b = 0) (op_hash p) \<and> op_index p = - 1)"

definition input_coinbase :: "bytes \<Rightarrow> transaction_input" where
  "input_coinbase script_sig =
     \<lparr>ti_previous_output = out_point_null, ti_script_sig = script_sig, ti_sequence = sequence_final,
      ti_script_witness = []\<rparr>"

definition input_is_final :: "transaction_input \<Rightarrow> bool" where
  "input_is_final i = (ti_sequence i = sequence_final)"

definition input_has_witness :: "transaction_input \<Rightarrow> bool" where
  "input_has_witness i = (ti_script_witness i \<noteq> [])"

definition transaction_output_default :: transaction_output where
  "transaction_output_default = \<lparr>out_value = - 1, out_script_pubkey = []\<rparr>"

section \<open>Properties of a transaction\<close>

definition tx_is_empty :: "transaction \<Rightarrow> bool" where
  "tx_is_empty t = (tx_inputs t = [] \<or> tx_outputs t = [])"

definition tx_is_null :: "transaction \<Rightarrow> bool" where
  "tx_is_null t = list_ex (\<lambda>i. out_point_is_null (ti_previous_output i)) (tx_inputs t)"

definition tx_is_coinbase :: "transaction \<Rightarrow> bool" where
  "tx_is_coinbase t =
     (length (tx_inputs t) = 1 \<and> out_point_is_null (ti_previous_output (tx_inputs t ! 0)))"

definition tx_is_final :: "transaction \<Rightarrow> bool" where
  "tx_is_final t = (tx_lock_time t = 0 \<or> list_all input_is_final (tx_inputs t))"

definition tx_is_final_in_block :: "transaction \<Rightarrow> u32 \<Rightarrow> u32 \<Rightarrow> bool" where
  "tx_is_final_in_block t block_height block_time =
     (if tx_lock_time t = 0 then True
      else let max_lock_time = (if tx_lock_time t < locktime_threshold then block_height else block_time)
           in if tx_lock_time t < max_lock_time then True else list_all input_is_final (tx_inputs t))"

definition tx_has_witness :: "transaction \<Rightarrow> bool" where
  "tx_has_witness t = list_ex input_has_witness (tx_inputs t)"

fun total_spends_loop :: "u64 \<Rightarrow> transaction_output list \<Rightarrow> u64" where
  "total_spends_loop acc [] = acc"
| "total_spends_loop acc (out # outs) =
     (if - 1 - acc < out_value out then - 1 else total_spends_loop (acc + out_value out) outs)"

definition tx_total_spends :: "transaction \<Rightarrow> u64" where
  "tx_total_spends t = total_spends_loop 0 (tx_outputs t)"

section \<open>Serialization\<close>

definition serialize_transaction_witness :: u32 where
  "serialize_transaction_witness = 0x40000000"

definition include_transaction_witness :: "u32 \<Rightarrow> bool" where
  "include_transaction_witness flags = (flags AND serialize_transaction_witness \<noteq> 0)"

definition put_out_point :: "out_point \<Rightarrow> bytes" where
  "put_out_point p = put_hash (op_hash p) @ put_u32 (op_index p)"

definition put_input :: "transaction_input \<Rightarrow> bytes" where
  "put_input i = put_out_point (ti_previous_output i) @ put_bytes (ti_script_sig i) @ put_u32 (ti_sequence i)"

definition put_output :: "transaction_output \<Rightarrow> bytes" where
  "put_output out = put_u64 (out_value out) @ put_bytes (out_script_pubkey out)"

definition put_shielded_spend :: "shielded_spend \<Rightarrow> bytes" where
  "put_shielded_spend s = put_hash (ss_cv s) @ put_hash (ss_anchor s) @ put_hash (ss_nullifier s)
     @ put_hash (ss_rk s) @ put_hash (ss_zkproof s) @ put_hash (ss_spend_auth_sig s)"

definition put_shielded_output :: "shielded_output \<Rightarrow> bytes" where
  "put_shielded_output s = put_hash (so_cv s) @ put_hash (so_cmu s) @ put_hash (so_ephemeral_key s)
     @ put_hash (so_enc_cipher_text s) @ put_hash (so_out_cipher_text s) @ put_hash (so_zkproof s)"

fun put_join_split_proof :: "join_split_proof \<Rightarrow> bytes" where
  "put_join_split_proof (PHGR p) = put_hash p"
| "put_join_split_proof (Groth p) = put_hash p"

definition put_join_split :: "join_split \<Rightarrow> bytes" where
  "put_join_split j = put_hash (js_v_pub_old j) @ put_hash (js_v_pub_new j) @ put_hash (js_anchor j)
     @ put_hash (fst (js_nullifiers j)) @ put_hash (snd (js_nullifiers j))
     @ put_hash (fst (js_commitments j)) @ put_hash (snd (js_commitments j))
     @ put_hash (js_ephemeral_key j) @ put_hash (js_random_seed j)
     @ put_hash (fst (js_macs j)) @ put_hash (snd (js_macs j)) @ put_join_split_proof (js_zkproof j)
     @ put_hash (fst (js_ciphertexts j)) @ put_hash (snd (js_ciphertexts j))"

definition put_transaction :: "u32 \<Rightarrow> transaction \<Rightarrow> bytes" where
  "put_transaction flags t =
     (if include_transaction_witness flags \<and> tx_has_witness t
      then put_u32 (tx_version t) @ put_u8 0 @ put_u8 1
        @ put_list put_input (tx_inputs t) @ put_list put_output (tx_outputs t)
        @ concat (map (\<lambda>i. put_list put_bytes (ti_script_witness i)) (tx_inputs t))
        @ put_u32 (tx_lock_time t)
      else put_u32 (if tx_overwintered t then tx_version t OR push_bit 31 1 else tx_version t)
        @ (if tx_overwintered t then put_u32 (tx_version_group_id t) else [])
        @ (case tx_n_time t of Some n \<Rightarrow> put_u32 n | None \<Rightarrow> [])
        @ put_list put_input (tx_inputs t) @ put_list put_output (tx_outputs t) @ put_u32 (tx_lock_time t)
        @ (if tx_overwintered t \<and> sint (tx_version t) \<ge> 3
           then put_u32 (tx_expiry_height t)
             @ (if sint (tx_version t) \<ge> 4
                then put_u64 (tx_value_balance t) @ put_list put_shielded_spend (tx_shielded_spends t)
                  @ put_list put_shielded_output (tx_shielded_outputs t)
                else [])
           else [])
        @ (if tx_zcash t
           then (if tx_version t = 2 \<or> tx_overwintered t
                 then put_list put_join_split (tx_join_splits t)
                   @ (if tx_join_splits t \<noteq> []
                      then put_hash (tx_join_split_pubkey t) @ put_hash (tx_join_split_sig t) else [])
                 else [])
             @ (if sint (tx_version t) \<ge> 4 \<and> tx_overwintered t
                   \<and> \<not> (tx_shielded_outputs t = [] \<and> tx_shielded_spends t = [])
                then put_hash (tx_binding_sig t) else [])
           else [])
        @ (case tx_str_d_zeel t of Some s \<Rightarrow> put_compact (of_nat (length s)) @ s | None \<Rightarrow> []))"

definition tx_hash_of :: "(bytes \<Rightarrow> h256) \<Rightarrow> (bytes \<Rightarrow> h256) \<Rightarrow> transaction \<Rightarrow> h256" where
  "tx_hash_of dhash256 sha256 t =
     (case tx_tx_hash_algo t of DSHA256 \<Rightarrow> dhash256 (put_transaction 0 t) | SHA256 \<Rightarrow> sha256 (put_transaction 0 t))"

definition tx_witness_hash :: "(bytes \<Rightarrow> h256) \<Rightarrow> transaction \<Rightarrow> h256" where
  "tx_witness_hash dhash256 t = dhash256 (put_transaction serialize_transaction_witness t)"

section \<open>Decoding\<close>

definition get_out_point :: "out_point decoder" where
  "get_out_point bs =
     bind_res (get_hash 32 bs) (\<lambda>(h, r). bind_res (get_u32 r) (\<lambda>(i, r). Inr (\<lparr>op_hash = h, op_index = i\<rparr>, r)))"

definition get_input :: "transaction_input decoder" where
  "get_input bs =
     bind_res (get_out_point bs) (\<lambda>(p, r). bind_res (get_bytes r) (\<lambda>(s, r). bind_res (get_u32 r) (\<lambda>(q, r).
       Inr (\<lparr>ti_previous_output = p, ti_script_sig = s, ti_sequence = q, ti_script_witness = []\<rparr>, r))))"

definition get_output :: "transaction_output decoder" where
  "get_output bs =
     bind_res (get_u64 bs) (\<lambda>(v, r). bind_res (get_bytes r) (\<lambda>(s, r).
       Inr (\<lparr>out_value = v, out_script_pubkey = s\<rparr>, r)))"

definition get_shielded_spend :: "shielded_spend decoder" where
  "get_shielded_spend bs =
     bind_res (get_hash 32 bs) (\<lambda>(cv, r). bind_res (get_hash 32 r) (\<lambda>(an, r). bind_res (get_hash 32 r) (\<lambda>(nu, r).
     bind_res (get_hash 32 r) (\<lambda>(rk, r). bind_res (get_hash 192 r) (\<lambda>(zk, r). bind_res (get_hash 64 r) (\<lambda>(sig, r).
       Inr (\<lparr>ss_cv = cv, ss_anchor = an, ss_nullifier = nu, ss_rk = rk, ss_zkproof = zk,
            ss_spend_auth_sig = sig\<rparr>, r)))))))"

definition get_shielded_output :: "shielded_output decoder" where
  "get_shielded_output bs =
     bind_res (get_hash 32 bs) (\<lambda>(cv, r). bind_res (get_hash 32 r) (\<lambda>(cmu, r). bind_res (get_hash 32 r) (\<lambda>(ek, r).
     bind_res (get_hash 580 r) (\<lambda>(enc, r). bind_res (get_hash 80 r) (\<lambda>(out, r). bind_res (get_hash 192 r) (\<lambda>(zk, r).
       Inr (\<lparr>so_cv = cv, so_cmu = cmu, so_ephemeral_key = ek, so_enc_cipher_text = enc,
            so_out_cipher_text = out, so_zkproof = zk\<rparr>, r)))))))"

definition get_pair :: "nat \<Rightarrow> (bytes \<times> bytes) decoder" where
  "get_pair n bs = bind_res (get_hash n bs) (\<lambda>(a, r). bind_res (get_hash n r) (\<lambda>(b, r). Inr ((a, b), r)))"

definition get_join_split :: "bool \<Rightarrow> join_split decoder" where
  "get_join_split use_groth bs =
     bind_res (get_hash 8 bs) (\<lambda>(vo, r). bind_res (get_hash 8 r) (\<lambda>(vn, r). bind_res (get_hash 32 r) (\<lambda>(an, r).
     bind_res (get_pair 32 r) (\<lambda>(nu, r). bind_res (get_pair 32 r) (\<lambda>(cm, r). bind_res (get_hash 32 r) (\<lambda>(ek, r).
     bind_res (get_hash 32 r) (\<lambda>(seed, r). bind_res (get_pair 32 r) (\<lambda>(macs, r).
     bind_res (if use_groth then bind_res (get_hash 192 r) (\<lambda>(p, r). Inr (Groth p, r))
               else bind_res (get_hash 296 r) (\<lambda>(p, r). Inr (PHGR p, r))) (\<lambda>(zk, r).
     bind_res (get_pair 601 r) (\<lambda>(ct, r).
       Inr (\<lparr>js_v_pub_old = vo, js_v_pub_new = vn, js_anchor = an, js_nullifiers = nu, js_commitments = cm,
            js_ephemeral_key = ek, js_random_seed = seed, js_macs = macs, js_zkproof = zk,
            js_ciphertexts = ct\<rparr>, r)))))))))))"

text \<open>The check of \<open>std::str::from_utf8\<close>.\<close>

definition utf8_cont :: "u8 \<Rightarrow> bool" where
  "utf8_cont b = (0x80 \<le> b \<and> b \<le> 0xbf)"

fun utf8_valid :: "bytes \<Rightarrow> bool" where
  "utf8_valid [] = True"
| "utf8_valid (a # bs) =
     (if a < 0x80 then utf8_valid bs
      else case bs of
        [] \<Rightarrow> False
      | b # cs \<Rightarrow>
          if 0xc2 \<le> a \<and> a \<le> 0xdf then utf8_cont b \<and> utf8_valid cs
          else case cs of
            [] \<Rightarrow> False
          | c # ds \<Rightarrow>
              if 0xe0 \<le> a \<and> a \<le> 0xef
              then (if a = 0xe0 then 0xa0 \<le> b \<and> b \<le> 0xbf
                    else if a = 0xed then 0x80 \<le> b \<and> b \<le> 0x9f else utf8_cont b)
                \<and> utf8_cont c \<and> utf8_valid ds
              else case ds of
                [] \<Rightarrow> False
              | d # es \<Rightarrow>
                  0xf0 \<le> a \<and> a \<le> 0xf4
                  \<and> (if a = 0xf0 then 0x90 \<le> b \<and> b \<le> 0xbf
                     else if a = 0xf4 then 0x80 \<le> b \<and> b \<le> 0x8f else utf8_cont b)
                  \<and> utf8_cont c \<and> utf8_cont d \<and> utf8_valid es)"

datatype (plugins only: code size) tx_type = StandardWithWitness | TxZcash | PosWithNTime

definition max_list_size :: nat where
  "max_list_size = 8192"

fun get_witnesses :: "transaction_input list \<Rightarrow> transaction_input list decoder" where
  "get_witnesses [] bs = Inr ([], bs)"
| "get_witnesses (i # is) bs = bind_res (get_list_max max_list_size get_bytes bs) (\<lambda>(w, r).
     bind_res (get_witnesses is r) (\<lambda>(is', r). Inr (i\<lparr>ti_script_witness := w\<rparr> # is', r)))"

text \<open>
  The parts of \<open>deserialize_tx\<close>: the inputs, outputs and witnesses; the Sapling section; the join
  splits with the binding signature; the trailer of NavCoin.
\<close>

definition get_tx_in_out ::
  "tx_type \<Rightarrow> bool \<Rightarrow> (transaction_input list \<times> transaction_output list) decoder" where
  "get_tx_in_out ty overwintered bs =
     bind_res (get_list_max max_list_size get_input bs) (\<lambda>(inputs, r).
     bind_res (if inputs = [] \<and> \<not> overwintered \<and> ty = StandardWithWitness
               then bind_res (get_u8 r) (\<lambda>(flag, r).
                 if flag \<noteq> 1 then Inl (Failed MalformedData)
                 else bind_res (get_list_max max_list_size get_input r) (\<lambda>(inputs, r). Inr ((inputs, True), r)))
               else Inr ((inputs, False), r)) (\<lambda>((inputs, read_witness), r).
     bind_res (get_list_max max_list_size get_output r) (\<lambda>(outputs, r).
       if outputs = [] \<and> ty = StandardWithWitness then Inl (Failed (CustomError ''Transaction has no output''))
       else bind_res (if read_witness then get_witnesses inputs r else Inr (inputs, r)) (\<lambda>(inputs, r).
         Inr ((inputs, outputs), r)))))"

definition get_tx_sapling ::
  "bool \<Rightarrow> u32 \<Rightarrow> (u32 \<times> u64 \<times> shielded_spend list \<times> shielded_output list) decoder" where
  "get_tx_sapling overwintered version bs =
     (if overwintered \<and> sint version \<ge> 3
      then bind_res (get_u32 bs) (\<lambda>(expiry, r).
        if sint version \<ge> 4
        then bind_res (get_u64 r) (\<lambda>(balance, r).
             bind_res (get_list_max max_list_size get_shielded_spend r) (\<lambda>(spends, r).
             bind_res (get_list_max max_list_size get_shielded_output r) (\<lambda>(outs, r).
               Inr ((expiry, balance, spends, outs), r))))
        else Inr ((expiry, 0, [], []), r))
      else Inr ((0, 0, [], []), bs))"

definition get_tx_join_splits ::
  "bool \<Rightarrow> bool \<Rightarrow> u32 \<Rightarrow> bool \<Rightarrow> (join_split list \<times> h256 \<times> bytes \<times> bytes) decoder" where
  "get_tx_join_splits zcash overwintered version shielded bs =
     (if zcash
      then bind_res
        (if version = 2 \<or> overwintered
         then bind_res (get_compact bs) (\<lambda>(len, r).
           if 0 < unat len
           then if max_list_size < unat len then Inl (Failed MalformedData)
                else bind_res (get_n (get_join_split (sint version > 2)) (unat len) r) (\<lambda>(js, r).
                     bind_res (get_hash 32 r) (\<lambda>(pk, r).
                     bind_res (get_hash 64 r) (\<lambda>(sig, r). Inr ((js, pk, sig), r))))
           else Inr (([], replicate 32 0, replicate 64 0), r))
         else Inr (([], replicate 32 0, replicate 64 0), bs)) (\<lambda>((js, pk, sig), r).
        if overwintered \<and> sint version \<ge> 4 \<and> shielded
        then bind_res (get_hash 64 r) (\<lambda>(binding, r). Inr ((js, pk, sig, binding), r))
        else Inr ((js, pk, sig, replicate 64 0), r))
      else Inr (([], replicate 32 0, replicate 64 0, replicate 64 0), bs))"

definition get_tx_str_d_zeel :: "tx_type \<Rightarrow> bytes option decoder" where
  "get_tx_str_d_zeel ty bs =
     (if ty = PosWithNTime \<and> \<not> is_finished bs
      then bind_res (get_compact bs) (\<lambda>(len, r).
        if isize_max < unat len then Inl Panicked
        else bind_res (read_slice (unat len) r) (\<lambda>(s, r).
          if utf8_valid s then Inr (Some s, r) else Inl (Failed MalformedData)))
      else Inr (None, bs))"

definition deserialize_tx :: "tx_type \<Rightarrow> transaction decoder" where
  "deserialize_tx ty bs =
     bind_res (get_u32 bs) (\<lambda>(header, r).
     let overwintered = (signed_drop_bit 31 header \<noteq> 0);
         version = (if overwintered then header AND 0x7fffffff else header) in
     bind_res (if overwintered then get_u32 r else Inr (0, r)) (\<lambda>(group, r).
     bind_res (if ty = PosWithNTime then bind_res (get_u32 r) (\<lambda>(n, r). Inr (Some n, r)) else Inr (None, r)) (\<lambda>(n_time, r).
     bind_res (get_tx_in_out ty overwintered r) (\<lambda>((inputs, outputs), r).
     bind_res (get_u32 r) (\<lambda>(lock_time, r).
     bind_res (get_tx_sapling overwintered version r) (\<lambda>((expiry, balance, spends, outs), r).
     let zcash = (overwintered \<or> ty = TxZcash) in
     bind_res (get_tx_join_splits zcash overwintered version (\<not> (spends = [] \<and> outs = [])) r) (\<lambda>((js, pk, sig, binding), r).
     bind_res (get_tx_str_d_zeel ty r) (\<lambda>(zeel, r).
       Inr (\<lparr>tx_version = version, tx_n_time = n_time, tx_overwintered = overwintered, tx_version_group_id = group,
            tx_inputs = inputs, tx_outputs = outputs, tx_lock_time = lock_time, tx_expiry_height = expiry,
            tx_shielded_spends = spends, tx_shielded_outputs = outs, tx_join_splits = js,
            tx_value_balance = balance, tx_join_split_pubkey = pk, tx_join_split_sig = sig,
            tx_binding_sig = binding, tx_zcash = zcash, tx_str_d_zeel = zeel, tx_tx_hash_algo = DSHA256\<rparr>, r)))))))))"

text \<open>
  \<open>Deserializable for Transaction\<close> takes all bytes that are left and tries the three layouts, an
  error leading to the next one; none of them has to consume all bytes.
\<close>

definition get_transaction :: "transaction decoder" where
  "get_transaction bs =
     (case deserialize_tx StandardWithWitness bs of
        Inr (t, _) \<Rightarrow> Inr (t, [])
      | Inl Panicked \<Rightarrow> Inl Panicked
      | Inl (Failed _) \<Rightarrow>
          (case deserialize_tx PosWithNTime bs of
             Inr (t, _) \<Rightarrow> Inr (t, [])
           | Inl Panicked \<Rightarrow> Inl Panicked
           | Inl (Failed _) \<Rightarrow> bind_res (deserialize_tx TxZcash bs) (\<lambda>(t, _). Inr (t, []))))"

end
