(* ===== verification/TransactionCodec.thy ===== *)
theory TransactionCodec
  imports Transactions
begin

text \<open>
  Decoding inverts serialization for every part of a transaction and for whole transactions in each
  layout, and what the order in which the layouts are tried means for the bytes of a transaction.
\<close>

section \<open>Parts of a transaction\<close>

definition out_point_ok :: "out_point \<Rightarrow> bool" where
  "out_point_ok p = (length (op_hash p) = 32)"

definition input_ok :: "transaction_input \<Rightarrow> bool" where
  "input_ok i = (out_point_ok (ti_previous_output i) \<and> bytes_ok (ti_script_sig i) \<and> ti_script_witness i = [])"

definition output_ok :: "transaction_output \<Rightarrow> bool" where
  "output_ok out = bytes_ok (out_script_pubkey out)"

definition shielded_spend_ok :: "shielded_spend \<Rightarrow> bool" where
  "shielded_spend_ok s = (length (ss_cv s) = 32 \<and> length (ss_anchor s) = 32 \<and> length (ss_nullifier s) = 32
     \<and> length (ss_rk s) = 32 \<and> length (ss_zkproof s) = 192 \<and> length (ss_spend_auth_sig s) = 64)"

definition shielded_output_ok :: "shielded_output \<Rightarrow> bool" where
  "shielded_output_ok s = (length (so_cv s) = 32 \<and> length (so_cmu s) = 32 \<and> length (so_ephemeral_key s) = 32
     \<and> length (so_enc_cipher_text s) = 580 \<and> length (so_out_cipher_text s) = 80 \<and> length (so_zkproof s) = 192)"

definition pair_ok :: "nat \<Rightarrow> bytes \<times> bytes \<Rightarrow> bool" where
  "pair_ok n p = (length (fst p) = n \<and> length (snd p) = n)"

definition join_split_ok :: "bool \<Rightarrow> join_split \<Rightarrow> bool" where
  "join_split_ok use_groth j = (length (js_v_pub_old j) = 8 \<and> length (js_v_pub_new j) = 8
     \<and> length (js_anchor j) = 32 \<and> pair_ok 32 (js_nullifiers j) \<and> pair_ok 32 (js_commitments j)
     \<and> length (js_ephemeral_key j) = 32 \<and> length (js_random_seed j) = 32 \<and> pair_ok 32 (js_macs j)
     \<and> (case js_zkproof j of Groth p \<Rightarrow> use_groth \<and> length p = 192 | PHGR p \<Rightarrow> \<not> use_groth \<and> length p = 296)
     \<and> pair_ok 601 (js_ciphertexts j))"

interpretation out_pointc: codec put_out_point get_out_point out_point_ok
  by unfold_locales (simp add: put_out_point_def get_out_point_def out_point_ok_def get_put_simps)

interpretation inputc: codec put_input get_input input_ok
  by unfold_locales (simp add: put_input_def get_input_def input_ok_def get_put_simps out_pointc.get_put)

interpretation outputc: sized_codec put_output get_output output_ok
  "\<lambda>out. 8 + (serialized_length (of_nat (length (out_script_pubkey out))) + length (out_script_pubkey out))"
  by unfold_locales
    (simp_all add: put_output_def get_output_def output_ok_def get_put_simps bytesc.length_put)

interpretation shielded_spendc: codec put_shielded_spend get_shielded_spend shielded_spend_ok
  by unfold_locales (simp add: put_shielded_spend_def get_shielded_spend_def shielded_spend_ok_def get_put_simps)

interpretation shielded_outputc: codec put_shielded_output get_shielded_output shielded_output_ok
  by unfold_locales (simp add: put_shielded_output_def get_shielded_output_def shielded_output_ok_def get_put_simps)

lemma get_put_pair:
  "pair_ok n p \<Longrightarrow> get_pair n (put_hash (fst p) @ put_hash (snd p) @ r) = Inr (p, r)"
  by (simp add: get_pair_def pair_ok_def get_put_simps)

interpretation join_splitc: codec put_join_split "get_join_split g" "join_split_ok g"
proof
  fix j r
  assume "join_split_ok g j"
  then show "get_join_split g (put_join_split j @ r) = Inr (j, r)"
    by (cases "js_zkproof j")
      (simp_all add: put_join_split_def get_join_split_def join_split_ok_def get_put_simps get_put_pair)
qed

section \<open>Inputs, outputs and witnesses\<close>

abbreviation strip_witness :: "transaction_input \<Rightarrow> transaction_input" where
  "strip_witness i \<equiv> i\<lparr>ti_script_witness := []\<rparr>"

lemma put_inputs_strip: "put_list put_input is = put_list put_input (map strip_witness is)"
proof -
  have "put_input (strip_witness i) = put_input i" for i by (simp add: put_input_def)
  then show ?thesis by (simp add: put_list_def comp_def)
qed

definition witness_ok :: "bytes list \<Rightarrow> bool" where
  "witness_ok w = (length w \<le> max_list_size \<and> list_all bytes_ok w)"

lemma get_witnesses_put:
  assumes "list_all (\<lambda>i. witness_ok (ti_script_witness i)) is"
  shows "get_witnesses (map strip_witness is)
    (concat (map (\<lambda>i. put_list put_bytes (ti_script_witness i)) is) @ r) = Inr (is, r)"
  using assms
proof (induction "is")
  case (Cons i "is")
  then have "get_list_max max_list_size get_bytes (put_list put_bytes (ti_script_witness i) @ s) =
      Inr (ti_script_witness i, s)" for s
    by (intro bytesc.get_list_max_put) (auto simp: witness_ok_def max_list_size_def)
  then show ?case using Cons by simp
qed simp

definition inputs_ok :: "transaction_input list \<Rightarrow> bool" where
  "inputs_ok is = (length is \<le> max_list_size \<and> list_all (\<lambda>i. input_ok (strip_witness i)
     \<and> witness_ok (ti_script_witness i)) is)"

definition outputs_ok :: "transaction_output list \<Rightarrow> bool" where
  "outputs_ok outs = (length outs \<le> max_list_size \<and> list_all output_ok outs)"

lemma get_inputs_put:
  assumes "inputs_ok is"
  shows "get_list_max max_list_size get_input (put_list put_input is @ r) = Inr (map strip_witness is, r)"
  unfolding put_inputs_strip[of "is"]
  using assms by (intro inputc.get_list_max_put) (auto simp: inputs_ok_def max_list_size_def list_all_iff)

lemma get_outputs_put:
  assumes "outputs_ok outs"
  shows "get_list_max max_list_size get_output (put_list put_output outs @ r) = Inr (outs, r)"
  using assms by (intro outputc.get_list_max_put) (auto simp: outputs_ok_def max_list_size_def)

lemma no_witness_strip: "\<not> list_ex input_has_witness is \<Longrightarrow> map strip_witness is = is"
  by (induction "is") (auto simp: input_has_witness_def)

lemma get_tx_in_out_put:
  assumes "inputs_ok is" "outputs_ok outs" "\<not> list_ex input_has_witness is"
    and "ty = StandardWithWitness \<Longrightarrow> outs \<noteq> [] \<and> (is \<noteq> [] \<or> overwintered)"
  shows "get_tx_in_out ty overwintered (put_list put_input is @ put_list put_output outs @ r) = Inr ((is, outs), r)"
  using assms by (auto simp: get_tx_in_out_def get_inputs_put get_outputs_put no_witness_strip)

lemma put_list_Nil: "put_list put [] = put_u8 0"
  by (simp add: put_list_def put_compact_def)

lemma get_tx_in_out_witness:
  assumes "inputs_ok is" "outputs_ok outs" "outs \<noteq> []"
  shows "get_tx_in_out StandardWithWitness False (put_u8 0 @ put_u8 1 @ put_list put_input is @ put_list put_output outs
    @ concat (map (\<lambda>i. put_list put_bytes (ti_script_witness i)) is) @ r) = Inr ((is, outs), r)"
proof -
  have "get_list_max max_list_size get_input (put_u8 0 @ s) = Inr ([], s)" for s
    using get_inputs_put[of "[]" s] by (simp add: inputs_ok_def put_list_Nil)
  moreover have "list_all (\<lambda>i. witness_ok (ti_script_witness i)) is"
    using assms(1) by (auto simp: inputs_ok_def list_all_iff)
  ultimately show ?thesis
    using assms by (simp add: get_tx_in_out_def get_inputs_put get_outputs_put get_witnesses_put get_put_word)
qed

section \<open>Whole transactions\<close>

text \<open>
  The transactions of a layout: the fields that the layout does not carry have the values the
  decoder fills in, and a witness needs the flag and the standard layout.
\<close>

definition tx_shielded_ok :: "transaction \<Rightarrow> bool" where
  "tx_shielded_ok t =
     (if tx_overwintered t \<and> sint (tx_version t) \<ge> 3
      then sint (tx_version t) \<ge> 4
           \<and> length (tx_shielded_spends t) \<le> max_list_size \<and> list_all shielded_spend_ok (tx_shielded_spends t)
           \<and> length (tx_shielded_outputs t) \<le> max_list_size \<and> list_all shielded_output_ok (tx_shielded_outputs t)
         \<or> tx_value_balance t = 0 \<and> tx_shielded_spends t = [] \<and> tx_shielded_outputs t = []
           \<and> sint (tx_version t) < 4
      else tx_expiry_height t = 0 \<and> tx_value_balance t = 0 \<and> tx_shielded_spends t = [] \<and> tx_shielded_outputs t = [])"

definition tx_join_splits_ok :: "transaction \<Rightarrow> bool" where
  "tx_join_splits_ok t =
     (length (tx_join_splits t) \<le> max_list_size \<and> list_all (join_split_ok (sint (tx_version t) > 2)) (tx_join_splits t)
      \<and> length (tx_join_split_pubkey t) = 32 \<and> length (tx_join_split_sig t) = 64 \<and> length (tx_binding_sig t) = 64
      \<and> (tx_join_splits t \<noteq> [] \<longrightarrow> tx_zcash t \<and> (tx_version t = 2 \<or> tx_overwintered t))
      \<and> (tx_join_splits t = [] \<longrightarrow> tx_join_split_pubkey t = replicate 32 0 \<and> tx_join_split_sig t = replicate 64 0)
      \<and> (tx_binding_sig t = replicate 64 0
         \<or> tx_overwintered t \<and> sint (tx_version t) \<ge> 4 \<and> \<not> (tx_shielded_spends t = [] \<and> tx_shielded_outputs t = [])))"

definition tx_ok :: "tx_type \<Rightarrow> u32 \<Rightarrow> transaction \<Rightarrow> bool" where
  "tx_ok ty flags t =
     (\<not> bit (tx_version t) 31
      \<and> (tx_overwintered t \<or> tx_version_group_id t = 0)
      \<and> (tx_n_time t \<noteq> None \<longleftrightarrow> ty = PosWithNTime)
      \<and> inputs_ok (tx_inputs t) \<and> outputs_ok (tx_outputs t)
      \<and> (ty = StandardWithWitness \<longrightarrow> tx_outputs t \<noteq> [] \<and> (tx_inputs t \<noteq> [] \<or> tx_overwintered t))
      \<and> (tx_has_witness t \<longrightarrow> ty = StandardWithWitness \<and> include_transaction_witness flags \<and> \<not> tx_overwintered t)
      \<and> tx_shielded_ok t \<and> tx_join_splits_ok t
      \<and> (tx_zcash t \<longleftrightarrow> tx_overwintered t \<or> ty = TxZcash)
      \<and> (case tx_str_d_zeel t of None \<Rightarrow> True
         | Some s \<Rightarrow> ty = PosWithNTime \<and> length s \<le> isize_max \<and> utf8_valid s)
      \<and> tx_tx_hash_algo t = DSHA256)"

lemma get_tx_sapling_put:
  assumes "tx_shielded_ok t"
  shows "get_tx_sapling (tx_overwintered t) (tx_version t)
      ((if tx_overwintered t \<and> sint (tx_version t) \<ge> 3
        then put_u32 (tx_expiry_height t)
          @ (if sint (tx_version t) \<ge> 4
             then put_u64 (tx_value_balance t) @ put_list put_shielded_spend (tx_shielded_spends t)
               @ put_list put_shielded_output (tx_shielded_outputs t)
             else [])
        else []) @ r) =
    Inr ((tx_expiry_height t, tx_value_balance t, tx_shielded_spends t, tx_shielded_outputs t), r)"
proof (cases "tx_overwintered t \<and> sint (tx_version t) \<ge> 4")
  case True
  then have "get_list_max max_list_size get_shielded_spend (put_list put_shielded_spend (tx_shielded_spends t) @ s) =
      Inr (tx_shielded_spends t, s)" for s
    using assms by (intro shielded_spendc.get_list_max_put) (auto simp: tx_shielded_ok_def max_list_size_def)
  moreover have "get_list_max max_list_size get_shielded_output (put_list put_shielded_output (tx_shielded_outputs t) @ s) =
      Inr (tx_shielded_outputs t, s)" for s
    using assms True by (intro shielded_outputc.get_list_max_put) (auto simp: tx_shielded_ok_def max_list_size_def)
  ultimately show ?thesis using True by (simp add: get_tx_sapling_def get_put_word)
next
  case False
  then show ?thesis using assms by (auto simp: get_tx_sapling_def get_put_word tx_shielded_ok_def split: if_splits)
qed

lemma get_tx_join_splits_put:
  assumes ok: "tx_join_splits_ok t" and z: "tx_overwintered t \<Longrightarrow> tx_zcash t"
  shows "get_tx_join_splits (tx_zcash t) (tx_overwintered t) (tx_version t)
      (\<not> (tx_shielded_spends t = [] \<and> tx_shielded_outputs t = []))
      ((if tx_zcash t
        then (if tx_version t = 2 \<or> tx_overwintered t
              then put_list put_join_split (tx_join_splits t)
                @ (if tx_join_splits t \<noteq> []
                   then put_hash (tx_join_split_pubkey t) @ put_hash (tx_join_split_sig t) else [])
              else [])
          @ (if sint (tx_version t) \<ge> 4 \<and> tx_overwintered t
                \<and> \<not> (tx_shielded_outputs t = [] \<and> tx_shielded_spends t = [])
             then put_hash (tx_binding_sig t) else [])
        else []) @ r) =
    Inr ((tx_join_splits t, tx_join_split_pubkey t, tx_join_split_sig t, tx_binding_sig t), r)"
proof -
  let ?n = "length (tx_join_splits t)"
  have n: "unat (of_nat ?n :: u64) = ?n"
    using ok by (intro unat_of_nat64) (simp add: tx_join_splits_ok_def max_list_size_def)
  have js: "get_n (get_join_split (2 < sint (tx_version t))) ?n (concat (map put_join_split (tx_join_splits t)) @ s) =
      Inr (tx_join_splits t, s)" for s
    using ok by (intro join_splitc.get_n_put) (simp add: tx_join_splits_ok_def)
  have len: "length (tx_join_split_pubkey t) = 32" "length (tx_join_split_sig t) = 64" "length (tx_binding_sig t) = 64"
      "?n \<le> max_list_size"
    using ok by (simp_all add: tx_join_splits_ok_def)
  show ?thesis
  proof (cases "tx_join_splits t = []")
    case True
    then show ?thesis
      using ok z len by (auto simp: get_tx_join_splits_def put_list_def get_put_compact hashc.get_put tx_join_splits_ok_def)
  next
    case False
    then have "tx_zcash t" "tx_version t = 2 \<or> tx_overwintered t" using ok by (auto simp: tx_join_splits_ok_def)
    moreover have "get_compact (put_compact (of_nat ?n) @ s) = Inr (of_nat ?n, s)" for s by (rule get_put_compact)
    ultimately show ?thesis
      using ok len n js False
      by (auto simp: get_tx_join_splits_def put_list_def hashc.get_put tx_join_splits_ok_def not_le)
  qed
qed

lemma header_bit:
  fixes w :: u32
  shows "signed_drop_bit 31 w \<noteq> 0 \<longleftrightarrow> bit w 31"
proof -
  have "signed_drop_bit 31 w = (if bit w 31 then - 1 else 0)"
    by (rule bit_word_eqI) (auto simp: bit_signed_drop_bit_iff bit_minus_1_iff Suc_le_eq)
  then show ?thesis by simp
qed

lemma header_version:
  fixes v :: u32
  assumes "\<not> bit v 31"
  shows "(v OR push_bit 31 1) AND 0x7fffffff = v"
proof -
  have "(0x7fffffff :: u32) = mask 31" by (simp add: mask_eq_exp_minus_1)
  moreover have "(v OR push_bit 31 1) AND mask 31 = v"
  proof (rule bit_word_eqI)
    fix n
    assume "n < LENGTH(32)"
    then consider "n < 31" | "n = 31" by force
    then show "bit ((v OR push_bit 31 1) AND mask 31) n \<longleftrightarrow> bit v n"
      using assms unfolding bit_and_iff bit_or_iff bit_mask_iff bit_push_bit_iff by cases simp_all
  qed
  ultimately show ?thesis by simp
qed

lemma get_tx_str_d_zeel_put:
  assumes "case z of None \<Rightarrow> ty \<noteq> PosWithNTime \<or> r = []
    | Some s \<Rightarrow> ty = PosWithNTime \<and> length s \<le> isize_max \<and> utf8_valid s"
  shows "get_tx_str_d_zeel ty ((case z of Some s \<Rightarrow> put_compact (of_nat (length s)) @ s | None \<Rightarrow> []) @ r) = Inr (z, r)"
proof (cases z)
  case None
  then show ?thesis using assms by (auto simp: get_tx_str_d_zeel_def is_finished_def)
next
  case (Some s)
  have "put_compact v \<noteq> []" for v
    using length_put_compact[of v] by (auto simp: serialized_length_def split: if_splits)
  moreover have "unat (of_nat (length s) :: u64) = length s"
    using assms Some by (intro unat_of_nat64) (simp add: isize_max_def)
  ultimately show ?thesis
    using assms Some by (simp add: get_tx_str_d_zeel_def is_finished_def get_put_compact)
qed

lemma deserialize_tx_witness:
  assumes ok: "tx_ok StandardWithWitness flags t" and w: "tx_has_witness t"
  shows "deserialize_tx StandardWithWitness (put_transaction flags t @ r) = Inr (t, r)"
proof -
  have f: "include_transaction_witness flags" "\<not> tx_overwintered t" "\<not> bit (tx_version t) 31" "tx_version_group_id t = 0"
      "tx_n_time t = None" "tx_outputs t \<noteq> []" "\<not> tx_zcash t" "tx_str_d_zeel t = None" "tx_tx_hash_algo t = DSHA256"
      "inputs_ok (tx_inputs t)" "outputs_ok (tx_outputs t)"
    using ok w by (auto simp: tx_ok_def split: option.splits)
  have s: "tx_expiry_height t = 0" "tx_value_balance t = 0" "tx_shielded_spends t = []" "tx_shielded_outputs t = []"
      "tx_join_splits t = []" "tx_join_split_pubkey t = replicate 32 0" "tx_join_split_sig t = replicate 64 0"
      "tx_binding_sig t = replicate 64 0"
    using ok f(2,7) by (auto simp: tx_ok_def tx_shielded_ok_def tx_join_splits_ok_def)
  show ?thesis
    using w f s
    by (simp add: deserialize_tx_def put_transaction_def get_put_word header_bit get_tx_in_out_witness
        get_tx_sapling_def get_tx_join_splits_def get_tx_str_d_zeel_def Let_def del: One_nat_def)
qed

lemma deserialize_tx_plain:
  assumes ok: "tx_ok ty flags t" and w: "\<not> tx_has_witness t" and r: "ty = PosWithNTime \<Longrightarrow> r = []"
  shows "deserialize_tx ty (put_transaction flags t @ r) = Inr (t, r)"
proof -
  let ?h = "if tx_overwintered t then tx_version t OR push_bit 31 1 else tx_version t"
  have bit: "\<not> bit (tx_version t) 31" using ok by (simp add: tx_ok_def)
  then have over: "signed_drop_bit 31 ?h \<noteq> 0 \<longleftrightarrow> tx_overwintered t"
    unfolding header_bit by (cases "tx_overwintered t") (simp_all only: if_True if_False bit_or_iff bit_push_bit_iff, simp_all)
  have version: "(if tx_overwintered t then ?h AND 0x7fffffff else ?h) = tx_version t"
    using header_version[OF bit] by simp
  have group: "(if tx_overwintered t then get_u32 ((if tx_overwintered t then put_u32 (tx_version_group_id t) else []) @ s)
      else Inr (0, (if tx_overwintered t then put_u32 (tx_version_group_id t) else []) @ s)) = Inr (tx_version_group_id t, s)" for s
    using ok by (auto simp: tx_ok_def get_put_word)
  have n_time: "(if ty = PosWithNTime then
        bind_res (get_u32 ((case tx_n_time t of Some n \<Rightarrow> put_u32 n | None \<Rightarrow> []) @ s)) (\<lambda>(n, r). Inr (Some n, r))
      else Inr (None, (case tx_n_time t of Some n \<Rightarrow> put_u32 n | None \<Rightarrow> []) @ s)) = Inr (tx_n_time t, s)" for s
    using ok by (cases "tx_n_time t") (auto simp: tx_ok_def get_put_word)
  have io: "get_tx_in_out ty (tx_overwintered t) (put_list put_input (tx_inputs t) @ put_list put_output (tx_outputs t) @ s) =
      Inr ((tx_inputs t, tx_outputs t), s)" for s
    using ok w by (intro get_tx_in_out_put) (auto simp: tx_ok_def tx_has_witness_def)
  have zcash: "tx_zcash t \<longleftrightarrow> tx_overwintered t \<or> ty = TxZcash" using ok by (simp add: tx_ok_def)
  have zeel: "get_tx_str_d_zeel ty ((case tx_str_d_zeel t of Some s \<Rightarrow> put_compact (of_nat (length s)) @ s | None \<Rightarrow> []) @ r) =
      Inr (tx_str_d_zeel t, r)"
    using ok r by (intro get_tx_str_d_zeel_put) (auto simp: tx_ok_def split: option.splits)
  have parts: "tx_shielded_ok t" "tx_join_splits_ok t" "tx_overwintered t \<Longrightarrow> tx_zcash t" "tx_tx_hash_algo t = DSHA256"
    using ok by (auto simp: tx_ok_def)
  show ?thesis
    unfolding deserialize_tx_def put_transaction_def
    using w
    by (simp only: simp_thms if_False append_assoc u32c.get_put[OF TrueI] bind_res_simps prod.case Let_def
        over version group n_time io get_tx_sapling_put[OF parts(1)] zcash[symmetric]
        get_tx_join_splits_put[OF parts(2,3)] zeel parts(4)[symmetric]) simp
qed

lemma deserialize_tx_put:
  assumes "tx_ok ty flags t" "ty = PosWithNTime \<Longrightarrow> r = []"
  shows "deserialize_tx ty (put_transaction flags t @ r) = Inr (t, r)"
proof (cases "tx_has_witness t")
  case True
  then have "ty = StandardWithWitness" using assms(1) by (auto simp: tx_ok_def)
  then show ?thesis using True assms(1) deserialize_tx_witness by blast
qed (use assms deserialize_tx_plain in blast)


definition demo_segwit_tx :: transaction where
  "demo_segwit_tx =
     \<lparr>tx_version = 2, tx_n_time = None, tx_overwintered = False, tx_version_group_id = 0,
      tx_inputs = [\<lparr>ti_previous_output = \<lparr>op_hash = replicate 32 7, op_index = 1\<rparr>, ti_script_sig = [],
        ti_sequence = sequence_final, ti_script_witness = [[1, 2], [3]]\<rparr>],
      tx_outputs = [\<lparr>out_value = 5000, out_script_pubkey = [0x6a]\<rparr>], tx_lock_time = 0, tx_expiry_height = 0,
      tx_shielded_spends = [], tx_shielded_outputs = [], tx_join_splits = [], tx_value_balance = 0,
      tx_join_split_pubkey = replicate 32 0, tx_join_split_sig = replicate 64 0, tx_binding_sig = replicate 64 0,
      tx_zcash = False, tx_str_d_zeel = None, tx_tx_hash_algo = DSHA256\<rparr>"

lemma demo_segwit_tx_ok: "tx_ok StandardWithWitness serialize_transaction_witness demo_segwit_tx"
  by (simp add: tx_ok_def demo_segwit_tx_def inputs_ok_def outputs_ok_def input_ok_def output_ok_def out_point_ok_def
      witness_ok_def bytes_ok_def max_list_size_def tx_has_witness_def input_has_witness_def tx_shielded_ok_def
      tx_join_splits_ok_def include_transaction_witness_def serialize_transaction_witness_def)


text \<open>Two transactions of one layout with the same bytes are the same.\<close>

lemma put_transaction_inj:
  assumes "tx_ok ty flags t" "tx_ok ty flags u" "put_transaction flags t = put_transaction flags u"
  shows "t = u"
proof -
  have "deserialize_tx ty (put_transaction flags t) = Inr (t, [])"
    using deserialize_tx_put[OF assms(1), of "[]"] by simp
  moreover have "deserialize_tx ty (put_transaction flags u) = Inr (u, [])"
    using deserialize_tx_put[OF assms(2), of "[]"] by simp
  ultimately show ?thesis unfolding assms(3) by simp
qed

text \<open>The length of the NavCoin trailer is allocated before it is read, so a few bytes make the decoder panic.\<close>

lemma get_transaction_panics:
  "get_transaction ([1, 0, 0, 0] @ [0, 0, 0, 0] @ [0, 0] @ [0, 0, 0, 0] @ [0xff, 0xff, 0xff, 0xff, 0xff, 0xff, 0xff, 0xff, 0xff]) =
    Inl Panicked"
  by (simp add: get_transaction_def deserialize_tx_def get_tx_in_out_def get_list_max_def get_compact_def get_word_def
      read_slice_def get_tx_sapling_def get_tx_join_splits_def get_tx_str_d_zeel_def is_finished_def isize_max_def Let_def)

text \<open>The transaction id does not depend on the witnesses.\<close>

lemma tx_hash_ignores_witness:
  "tx_hash_of dhash256 sha256 (t\<lparr>tx_inputs := map strip_witness (tx_inputs t)\<rparr>) = tx_hash_of dhash256 sha256 t"
proof -
  have "put_transaction 0 (t\<lparr>tx_inputs := map strip_witness (tx_inputs t)\<rparr>) = put_transaction 0 t"
    by (simp add: put_transaction_def include_transaction_witness_def flip: put_inputs_strip)
  then show ?thesis by (cases "tx_tx_hash_algo t") (simp_all add: tx_hash_of_def)
qed

text \<open>The sum of the outputs saturates.\<close>

lemma total_spends_saturates:
  "unat (tx_total_spends t) = min (2 ^ 64 - 1) (sum_list (map (\<lambda>out. unat (out_value out)) (tx_outputs t)))"
proof -
  have "unat (total_spends_loop acc outs) = min (2 ^ 64 - 1) (unat acc + sum_list (map (\<lambda>out. unat (out_value out)) outs))"
    for acc outs
  proof (induction outs arbitrary: acc)
    case Nil
    have "unat acc < 2 ^ LENGTH(64)" by (rule unsigned_less)
    then show ?case by simp
  next
    case (Cons out outs)
    have max: "unat (- 1 :: u64) = 2 ^ 64 - 1" by (simp add: unsigned_minus_1_eq_mask mask_eq_exp_minus_1)
    have "acc \<le> - 1" and acc: "unat acc < 2 ^ LENGTH(64)" by (simp, rule unsigned_less)
    then have diff: "unat (- 1 - acc) = 2 ^ 64 - 1 - unat acc" using max by (simp add: unat_sub)
    show ?case
    proof (cases "- 1 - acc < out_value out")
      case True
      then have "2 ^ 64 - 1 - unat acc < unat (out_value out)" using diff by (simp add: word_less_nat_alt)
      then show ?thesis using True max by simp
    next
      case False
      then have "unat acc + unat (out_value out) < 2 ^ LENGTH(64)"
        using diff acc by (simp add: word_less_nat_alt)
      then have "unat (acc + out_value out) = unat acc + unat (out_value out)" by (rule unat_add_lem[THEN iffD1])
      then show ?thesis using False Cons.IH by simp
    qed
  qed
  then show ?thesis by (simp add: tx_total_spends_def)
qed

end
