(* ===== verification/BlockHeaders.thy ===== *)
theory BlockHeaders
  imports TransactionCodec
begin

text \<open>
  Block headers of the UTXO coins (\<open>kdf_chain/src/header.rs\<close>, \<open>raw_header.rs\<close>): the 80 bytes of
  Bitcoin with the extensions of the other chains, which depend on the version and for Qtum on the
  coin variant of the reader. A merge-mined header contains the header of its parent chain; the
  decoder recurses into it, and the bound on the nesting is an argument, the depth at which the
  stack is exhausted.
\<close>

section \<open>Data\<close>

definition aux_pow_version_doge :: u32 where "aux_pow_version_doge = 6422788"
definition aux_pow_version_sys :: u32 where "aux_pow_version_sys = 537919744"
definition mtp_pow_version :: u32 where "mtp_pow_version = 0x20001000"
definition prog_pow_switch_time :: u32 where "prog_pow_switch_time = 1635228000"
definition qtum_block_header_version :: u32 where "qtum_block_header_version = 536870912"
definition kawpow_version :: u32 where "kawpow_version = 805306368"
definition verus_version_bit :: u32 where "verus_version_bit = 0x00010000"

lemmas header_versions = aux_pow_version_doge_def aux_pow_version_sys_def mtp_pow_version_def
  qtum_block_header_version_def kawpow_version_def verus_version_bit_def

datatype (plugins only: code size) coin_variant = StandardCoin | Qtum

datatype (plugins only: code size) block_header_nonce = NonceU32 u32 | NonceH256 h256

datatype (plugins only: code size) block_header_bits = BitsCompact u32 | BitsU32 u32

record merkle_branch =
  mb_branch_hashes :: "h256 list"
  mb_branch_side_mask :: u32

record prog_pow =
  pp_n_height :: u32
  pp_n_nonce_64 :: u64
  pp_mix_hash :: h256

record mtp_pow =
  mtp_n_version_mtp :: u32
  mtp_mtp_hash_value :: h256
  mtp_reserved_0 :: h256
  mtp_reserved_1 :: h256

datatype (plugins only: code size) block_header =
  BlockHeader
    (bh_version: u32)
    (bh_previous_header_hash: h256)
    (bh_merkle_root_hash: h256)
    (bh_hash_final_sapling_root: "h256 option")
    (bh_time: u32)
    (bh_bits: block_header_bits)
    (bh_nonce: block_header_nonce)
    (bh_solution: "bytes option")
    (bh_aux_pow: "aux_pow option")
    (bh_prog_pow: "prog_pow option")
    (bh_mtp_pow: "mtp_pow option")
    (bh_is_verus: bool)
    (bh_hash_state_root: "h256 option")
    (bh_hash_utxo_root: "h256 option")
    (bh_prevout_stake: "out_point option")
    (bh_vch_block_sig_dlgt: "bytes option")
    (bh_n_height: "u32 option")
    (bh_n_nonce_u64: "u64 option")
    (bh_mix_hash: "h256 option")
and aux_pow =
  AuxPow
    (ap_coinbase_tx: transaction)
    (ap_parent_block_hash: h256)
    (ap_coinbase_branch: merkle_branch)
    (ap_blockchain_branch: merkle_branch)
    (ap_parent_block_header: block_header)

definition is_prog_pow :: "u32 \<Rightarrow> u32 \<Rightarrow> bool" where
  "is_prog_pow version time = (version = mtp_pow_version \<and> prog_pow_switch_time \<le> time)"

section \<open>Serialization\<close>

fun put_nonce :: "block_header_nonce \<Rightarrow> bytes" where
  "put_nonce (NonceU32 n) = put_u32 n"
| "put_nonce (NonceH256 h) = put_hash h"

fun put_bits :: "block_header_bits \<Rightarrow> bytes" where
  "put_bits (BitsCompact c) = put_u32 c"
| "put_bits (BitsU32 n) = put_u32 n"

definition put_merkle_branch :: "merkle_branch \<Rightarrow> bytes" where
  "put_merkle_branch b = put_list put_hash (mb_branch_hashes b) @ put_u32 (mb_branch_side_mask b)"

definition put_prog_pow :: "prog_pow \<Rightarrow> bytes" where
  "put_prog_pow p = put_u32 (pp_n_height p) @ put_u64 (pp_n_nonce_64 p) @ put_hash (pp_mix_hash p)"

definition put_mtp_pow :: "mtp_pow \<Rightarrow> bytes" where
  "put_mtp_pow p = put_u32 (mtp_n_version_mtp p) @ put_hash (mtp_mtp_hash_value p)
     @ put_hash (mtp_reserved_0 p) @ put_hash (mtp_reserved_1 p)"

definition put_opt :: "('a \<Rightarrow> bytes) \<Rightarrow> 'a option \<Rightarrow> bytes" where
  "put_opt put x = (case x of Some v \<Rightarrow> put v | None \<Rightarrow> [])"

fun put_header :: "block_header \<Rightarrow> bytes" and put_aux_pow :: "aux_pow \<Rightarrow> bytes" where
  "put_header (BlockHeader version previous merkle_root sapling_root time bits nonce solution aux prog mtp verus
      state_root utxo_root prevout sig height nonce64 mix) =
     put_u32 (if verus then version XOR verus_version_bit else version)
     @ put_hash previous @ put_hash merkle_root @ put_opt put_hash sapling_root @ put_u32 time @ put_bits bits
     @ (if \<not> is_prog_pow version time \<and> version \<noteq> kawpow_version then put_nonce nonce else [])
     @ put_opt (put_list put_u8) solution
     @ (case aux of Some p \<Rightarrow> put_aux_pow p | None \<Rightarrow> [])
     @ put_opt put_prog_pow prog @ put_opt put_mtp_pow mtp @ put_opt put_hash state_root @ put_opt put_hash utxo_root
     @ put_opt put_out_point prevout @ put_opt (put_list put_u8) sig @ put_opt put_u32 height
     @ put_opt put_u64 nonce64 @ put_opt put_hash mix"
| "put_aux_pow (AuxPow coinbase_tx parent_hash coinbase_branch blockchain_branch parent_header) =
     put_transaction 0 coinbase_tx @ put_hash parent_hash @ put_merkle_branch coinbase_branch
     @ put_merkle_branch blockchain_branch @ put_header parent_header"

section \<open>Decoding\<close>

definition get_merkle_branch :: "merkle_branch decoder" where
  "get_merkle_branch bs = bind_res (get_list 32 (get_hash 32) bs) (\<lambda>(hs, r). bind_res (get_u32 r) (\<lambda>(m, r).
     Inr (\<lparr>mb_branch_hashes = hs, mb_branch_side_mask = m\<rparr>, r)))"

definition get_prog_pow :: "prog_pow decoder" where
  "get_prog_pow bs = bind_res (get_u32 bs) (\<lambda>(h, r). bind_res (get_u64 r) (\<lambda>(n, r). bind_res (get_hash 32 r) (\<lambda>(m, r).
     Inr (\<lparr>pp_n_height = h, pp_n_nonce_64 = n, pp_mix_hash = m\<rparr>, r))))"

definition get_mtp_pow :: "mtp_pow decoder" where
  "get_mtp_pow bs = bind_res (get_u32 bs) (\<lambda>(v, r). bind_res (get_hash 32 r) (\<lambda>(h, r).
     bind_res (get_hash 32 r) (\<lambda>(r0, r). bind_res (get_hash 32 r) (\<lambda>(r1, r).
       Inr (\<lparr>mtp_n_version_mtp = v, mtp_mtp_hash_value = h, mtp_reserved_0 = r0, mtp_reserved_1 = r1\<rparr>, r)))))"

definition get_opt :: "bool \<Rightarrow> 'a decoder \<Rightarrow> 'a option decoder" where
  "get_opt present d bs = (if present then bind_res (d bs) (\<lambda>(x, r). Inr (Some x, r)) else Inr (None, bs))"

definition get_bits :: "u32 \<Rightarrow> block_header_bits decoder" where
  "get_bits version bs = bind_res (get_u32 bs) (\<lambda>(n, r). Inr (if version = 4 then BitsU32 n else BitsCompact n, r))"

definition get_nonce :: "u32 \<Rightarrow> u32 \<Rightarrow> block_header_nonce decoder" where
  "get_nonce version time bs =
     (if version = 4 then bind_res (get_hash 32 bs) (\<lambda>(h, r). Inr (NonceH256 h, r))
      else if version = kawpow_version \<or> is_prog_pow version time then Inr (NonceU32 0, bs)
      else bind_res (get_u32 bs) (\<lambda>(n, r). Inr (NonceU32 n, r)))"

definition get_aux_pow :: "block_header decoder \<Rightarrow> aux_pow decoder" where
  "get_aux_pow get_parent bs =
     bind_res (deserialize_tx StandardWithWitness bs) (\<lambda>(tx, r). bind_res (get_hash 32 r) (\<lambda>(ph, r).
     bind_res (get_merkle_branch r) (\<lambda>(cb, r). bind_res (get_merkle_branch r) (\<lambda>(bb, r).
     bind_res (get_parent r) (\<lambda>(header, r). Inr (AuxPow tx ph cb bb header, r))))))"

fun get_header :: "nat \<Rightarrow> coin_variant \<Rightarrow> block_header decoder" where
  "get_header 0 variant bs = Inl Panicked"
| "get_header (Suc depth) variant bs =
     bind_res (get_u32 bs) (\<lambda>(wire_version, r).
     let is_verus = (wire_version XOR verus_version_bit = 4);
         version = (if is_verus then wire_version XOR verus_version_bit else wire_version) in
     bind_res (get_hash 32 r) (\<lambda>(previous, r).
     bind_res (get_hash 32 r) (\<lambda>(merkle_root, r).
     bind_res (get_opt (version = 4) (get_hash 32) r) (\<lambda>(sapling_root, r).
     bind_res (get_u32 r) (\<lambda>(time, r).
     bind_res (get_bits version r) (\<lambda>(bits, r).
     bind_res (get_nonce version time r) (\<lambda>(nonce, r).
     bind_res (get_opt (version = 4) (get_list 1 get_u8) r) (\<lambda>(solution, r).
     bind_res (get_opt (version = aux_pow_version_doge \<or> version = aux_pow_version_sys)
       (get_aux_pow (get_header depth variant)) r) (\<lambda>(aux, r).
     bind_res (get_opt (is_prog_pow version time) get_prog_pow r) (\<lambda>(prog, r).
     bind_res (get_opt (version = mtp_pow_version \<and> time < prog_pow_switch_time \<and> prog = None) get_mtp_pow r) (\<lambda>(mtp, r).
     let stake = (version = qtum_block_header_version \<and> variant = Qtum) in
     bind_res (get_opt stake (get_hash 32) r) (\<lambda>(state_root, r).
     bind_res (get_opt stake (get_hash 32) r) (\<lambda>(utxo_root, r).
     bind_res (get_opt stake get_out_point r) (\<lambda>(prevout, r).
     bind_res (get_opt stake (get_list 1 get_u8) r) (\<lambda>(sig, r).
     bind_res (get_opt (version = kawpow_version) get_u32 r) (\<lambda>(height, r).
     bind_res (get_opt (version = kawpow_version) get_u64 r) (\<lambda>(nonce64, r).
     bind_res (get_opt (version = kawpow_version) (get_hash 32) r) (\<lambda>(mix, r).
       Inr (BlockHeader version previous merkle_root sapling_root time bits nonce solution aux prog mtp is_verus
              state_root utxo_root prevout sig height nonce64 mix, r)))))))))))))))))))"

definition header_hash :: "(bytes \<Rightarrow> h256) \<Rightarrow> block_header \<Rightarrow> h256" where
  "header_hash dhash256 h = dhash256 (put_header h)"

section \<open>Raw headers\<close>

type_synonym raw_block_header = bytes

datatype (plugins only: code size) raw_header_error = RawWrongLengthHeader nat

definition min_raw_header_size :: nat where
  "min_raw_header_size = 80"

definition raw_header_new :: "bytes \<Rightarrow> raw_header_error + raw_block_header" where
  "raw_header_new bs = (if length bs < min_raw_header_size then Inl (RawWrongLengthHeader min_raw_header_size) else Inr bs)"

definition raw_digest :: "(bytes \<Rightarrow> h256) \<Rightarrow> raw_block_header \<Rightarrow> h256" where
  "raw_digest dhash256 raw = dhash256 raw"

definition raw_extract_merkle_root :: "raw_block_header \<Rightarrow> h256" where
  "raw_extract_merkle_root raw = take 32 (drop 36 raw)"

definition raw_parent :: "raw_block_header \<Rightarrow> h256" where
  "raw_parent raw = take 32 (drop 4 raw)"

section \<open>Decoding inverts serialization\<close>

definition opt_ok :: "bool \<Rightarrow> ('a \<Rightarrow> bool) \<Rightarrow> 'a option \<Rightarrow> bool" where
  "opt_ok present ok x = (case x of None \<Rightarrow> \<not> present | Some v \<Rightarrow> present \<and> ok v)"

context codec
begin

lemma get_opt_put: "opt_ok present ok x \<Longrightarrow> get_opt present get (put_opt put x @ r) = Inr (x, r)"
  by (cases x) (simp_all add: opt_ok_def get_opt_def put_opt_def get_put)

end

interpretation byte_listc: codec "put_list put_u8" "get_list 1 get_u8" "\<lambda>s. length s \<le> isize_max"
  by unfold_locales (rule u8c.get_list_put, simp_all add: isize_max_def list_all_iff)

definition merkle_branch_ok :: "merkle_branch \<Rightarrow> bool" where
  "merkle_branch_ok b = (list_all (\<lambda>h. length h = 32) (mb_branch_hashes b) \<and> 32 * length (mb_branch_hashes b) \<le> isize_max)"

interpretation merkle_branchc: codec put_merkle_branch get_merkle_branch merkle_branch_ok
proof
  fix b r
  assume ok: "merkle_branch_ok b"
  then have "get_list 32 (get_hash 32) (put_list put_hash (mb_branch_hashes b) @ s) = Inr (mb_branch_hashes b, s)" for s
    by (intro hashc.get_list_put) (simp_all add: merkle_branch_ok_def isize_max_def)
  then show "get_merkle_branch (put_merkle_branch b @ r) = Inr (b, r)"
    by (simp add: get_merkle_branch_def put_merkle_branch_def get_put_word)
qed

interpretation prog_powc: codec put_prog_pow get_prog_pow "\<lambda>p. length (pp_mix_hash p) = 32"
  by unfold_locales (simp add: put_prog_pow_def get_prog_pow_def get_put_simps)

interpretation mtp_powc: codec put_mtp_pow get_mtp_pow
  "\<lambda>p. length (mtp_mtp_hash_value p) = 32 \<and> length (mtp_reserved_0 p) = 32 \<and> length (mtp_reserved_1 p) = 32"
  by unfold_locales (simp add: put_mtp_pow_def get_mtp_pow_def get_put_simps)

text \<open>
  A header whose fields are those its version has, with at most the given number of nested headers.
\<close>

fun bits_ok :: "u32 \<Rightarrow> block_header_bits \<Rightarrow> bool" where
  "bits_ok version (BitsCompact _) = (version \<noteq> 4)"
| "bits_ok version (BitsU32 _) = (version = 4)"

fun nonce_ok :: "u32 \<Rightarrow> u32 \<Rightarrow> block_header_nonce \<Rightarrow> bool" where
  "nonce_ok version time (NonceH256 h) = (version = 4 \<and> length h = 32)"
| "nonce_ok version time (NonceU32 n) =
     (version \<noteq> 4 \<and> (version = kawpow_version \<or> is_prog_pow version time \<longrightarrow> n = 0))"

definition aux_pow_ok :: "(block_header \<Rightarrow> bool) \<Rightarrow> aux_pow \<Rightarrow> bool" where
  "aux_pow_ok parent_ok p =
     (tx_ok StandardWithWitness 0 (ap_coinbase_tx p) \<and> length (ap_parent_block_hash p) = 32
      \<and> merkle_branch_ok (ap_coinbase_branch p) \<and> merkle_branch_ok (ap_blockchain_branch p)
      \<and> parent_ok (ap_parent_block_header p))"

fun header_ok :: "coin_variant \<Rightarrow> nat \<Rightarrow> block_header \<Rightarrow> bool" where
  "header_ok variant 0 h = False"
| "header_ok variant (Suc depth) h =
     ((if bh_is_verus h then bh_version h = 4 else bh_version h XOR verus_version_bit \<noteq> 4)
      \<and> length (bh_previous_header_hash h) = 32 \<and> length (bh_merkle_root_hash h) = 32
      \<and> opt_ok (bh_version h = 4) (\<lambda>x. length x = 32) (bh_hash_final_sapling_root h)
      \<and> bits_ok (bh_version h) (bh_bits h) \<and> nonce_ok (bh_version h) (bh_time h) (bh_nonce h)
      \<and> opt_ok (bh_version h = 4) (\<lambda>x. length x \<le> isize_max) (bh_solution h)
      \<and> opt_ok (bh_version h = aux_pow_version_doge \<or> bh_version h = aux_pow_version_sys)
          (aux_pow_ok (header_ok variant depth)) (bh_aux_pow h)
      \<and> opt_ok (is_prog_pow (bh_version h) (bh_time h)) (\<lambda>p. length (pp_mix_hash p) = 32) (bh_prog_pow h)
      \<and> opt_ok (bh_version h = mtp_pow_version \<and> bh_time h < prog_pow_switch_time)
          (\<lambda>p. length (mtp_mtp_hash_value p) = 32 \<and> length (mtp_reserved_0 p) = 32 \<and> length (mtp_reserved_1 p) = 32)
          (bh_mtp_pow h)
      \<and> (let stake = (bh_version h = qtum_block_header_version \<and> variant = Qtum) in
         opt_ok stake (\<lambda>x. length x = 32) (bh_hash_state_root h)
         \<and> opt_ok stake (\<lambda>x. length x = 32) (bh_hash_utxo_root h)
         \<and> opt_ok stake out_point_ok (bh_prevout_stake h)
         \<and> opt_ok stake (\<lambda>x. length x \<le> isize_max) (bh_vch_block_sig_dlgt h))
      \<and> opt_ok (bh_version h = kawpow_version) (\<lambda>_. True) (bh_n_height h)
      \<and> opt_ok (bh_version h = kawpow_version) (\<lambda>_. True) (bh_n_nonce_u64 h)
      \<and> opt_ok (bh_version h = kawpow_version) (\<lambda>x. length x = 32) (bh_mix_hash h))"

lemma get_bits_put: "bits_ok version b \<Longrightarrow> get_bits version (put_bits b @ r) = Inr (b, r)"
  by (cases b) (simp_all add: get_bits_def get_put_word)

lemma get_nonce_put:
  "nonce_ok version time n \<Longrightarrow> get_nonce version time
    ((if \<not> is_prog_pow version time \<and> version \<noteq> kawpow_version then put_nonce n else []) @ r) = Inr (n, r)"
  by (cases n) (auto simp: get_nonce_def get_put_simps kawpow_version_def is_prog_pow_def mtp_pow_version_def)

lemma aux_pow_codec:
  assumes "\<And>h r. parent_ok h \<Longrightarrow> get_parent (put_header h @ r) = Inr (h, r)"
  shows "codec put_aux_pow (get_aux_pow get_parent) (aux_pow_ok parent_ok)"
proof
  fix p r
  assume "aux_pow_ok parent_ok p"
  then show "get_aux_pow get_parent (put_aux_pow p @ r) = Inr (p, r)"
    by (cases p) (simp add: get_aux_pow_def aux_pow_ok_def deserialize_tx_put[where ty = StandardWithWitness, simplified] hashc.get_put merkle_branchc.get_put assms)
qed

lemma header_codec: "header_ok variant depth h \<Longrightarrow> get_header depth variant (put_header h @ r) = Inr (h, r)"
proof (induction depth arbitrary: h r)
  case (Suc depth)
  note ok = Suc.prems[unfolded header_ok.simps Let_def]
  have aux: "get_opt c (get_aux_pow (get_header depth variant))
      ((case x of Some p \<Rightarrow> put_aux_pow p | None \<Rightarrow> []) @ s) = Inr (x, s)"
    if "opt_ok c (aux_pow_ok (header_ok variant depth)) x" for c x s
    using codec.get_opt_put[OF aux_pow_codec, OF _ that] Suc.IH by (simp add: put_opt_def)
  obtain version previous root sapling time bits nonce solution aux_pow prog mtp verus state utxo prevout sig height nonce64 mix
    where h: "h = BlockHeader version previous root sapling time bits nonce solution aux_pow prog mtp verus
      state utxo prevout sig height nonce64 mix" by (cases h)
  have prog: "prog \<noteq> None \<longleftrightarrow> is_prog_pow version time" using ok h by (cases prog) (auto simp: opt_ok_def)
  then have mtp: "(version = mtp_pow_version \<and> time < prog_pow_switch_time \<and> prog = None) =
      (version = mtp_pow_version \<and> time < prog_pow_switch_time)" by (auto simp: is_prog_pow_def)
  have wire: "((if verus then version XOR verus_version_bit else version) XOR verus_version_bit = 4) = verus"
      "(if verus then (if verus then version XOR verus_version_bit else version) XOR verus_version_bit
        else (if verus then version XOR verus_version_bit else version)) = version"
    using ok h by (auto simp: xor.assoc)
  show ?case
    using ok unfolding h block_header.sel
    by (simp only: put_header.simps get_header.simps append_assoc u32c.get_put[OF TrueI] bind_res_simps prod.case Let_def
        wire hashc.get_put hashc.get_opt_put get_bits_put get_nonce_put byte_listc.get_opt_put aux
        prog_powc.get_opt_put mtp mtp_powc.get_opt_put out_pointc.get_opt_put u32c.get_opt_put u64c.get_opt_put)
qed simp

text \<open>The raw bytes of a header carry its parent hash and merkle root where \<open>RawBlockHeader\<close> reads them.\<close>

lemma raw_header_fields:
  assumes "header_ok variant depth h"
  shows "raw_header_new (put_header h) = Inr (put_header h)" "raw_parent (put_header h) = bh_previous_header_hash h"
    "raw_extract_merkle_root (put_header h) = bh_merkle_root_hash h"
proof -
  obtain d where "depth = Suc d" using assms by (cases depth) auto
  then have len: "length (bh_previous_header_hash h) = 32" "length (bh_merkle_root_hash h) = 32"
      and nonce: "nonce_ok (bh_version h) (bh_time h) (bh_nonce h)"
      and prog: "opt_ok (is_prog_pow (bh_version h) (bh_time h)) (\<lambda>p. length (pp_mix_hash p) = 32) (bh_prog_pow h)"
      and kaw: "opt_ok (bh_version h = kawpow_version) (\<lambda>_. True) (bh_n_height h)"
    using assms by simp_all
  let ?version = "if bh_is_verus h then bh_version h XOR verus_version_bit else bh_version h"
  have v: "put_header h = put_u32 ?version @ bh_previous_header_hash h @ bh_merkle_root_hash h
      @ put_opt put_hash (bh_hash_final_sapling_root h) @ put_u32 (bh_time h) @ put_bits (bh_bits h)
      @ (if \<not> is_prog_pow (bh_version h) (bh_time h) \<and> bh_version h \<noteq> kawpow_version then put_nonce (bh_nonce h) else [])
      @ put_opt (put_list put_u8) (bh_solution h) @ (case bh_aux_pow h of Some p \<Rightarrow> put_aux_pow p | None \<Rightarrow> [])
      @ put_opt put_prog_pow (bh_prog_pow h) @ put_opt put_mtp_pow (bh_mtp_pow h)
      @ put_opt put_hash (bh_hash_state_root h) @ put_opt put_hash (bh_hash_utxo_root h)
      @ put_opt put_out_point (bh_prevout_stake h) @ put_opt (put_list put_u8) (bh_vch_block_sig_dlgt h)
      @ put_opt put_u32 (bh_n_height h) @ put_opt put_u64 (bh_n_nonce_u64 h) @ put_opt put_hash (bh_mix_hash h)"
    by (cases h) (simp add: put_hash_def cong: if_cong)
  have "length (put_bits (bh_bits h)) = 4" by (cases "bh_bits h") simp_all
  moreover have "4 \<le> length (put_nonce (bh_nonce h))" using nonce by (cases "bh_nonce h") (simp_all add: put_hash_def)
  moreover have "is_prog_pow (bh_version h) (bh_time h) \<Longrightarrow> 4 \<le> length (put_opt put_prog_pow (bh_prog_pow h))"
    using prog by (cases "bh_prog_pow h") (simp_all add: opt_ok_def put_opt_def put_prog_pow_def)
  moreover have "bh_version h = kawpow_version \<Longrightarrow> 4 \<le> length (put_opt put_u32 (bh_n_height h))"
    using kaw by (cases "bh_n_height h") (simp_all add: opt_ok_def put_opt_def)
  ultimately have "80 \<le> length (put_header h)" unfolding v using len by (auto simp: put_hash_def)
  then show "raw_header_new (put_header h) = Inr (put_header h)" by (simp add: raw_header_new_def min_raw_header_size_def)
  show "raw_parent (put_header h) = bh_previous_header_hash h" unfolding v using len by (simp add: raw_parent_def)
  show "raw_extract_merkle_root (put_header h) = bh_merkle_root_hash h"
    unfolding v using len by (simp add: raw_extract_merkle_root_def)
qed

text \<open>
  C38: Decoding a serialized block header gives it back on every chain, merge-mined headers with
  their parents included, as long as the nesting fits the stack, and the raw bytes of the header
  have at least the minimal length and show the parent hash and the merkle root of the header.
\<close>

theorem block_header_roundtrip:
  assumes "header_ok variant depth h"
  shows "get_header depth variant (put_header h @ r) = Inr (h, r)
    \<and> raw_header_new (put_header h) = Inr (put_header h)
    \<and> raw_parent (put_header h) = bh_previous_header_hash h
    \<and> raw_extract_merkle_root (put_header h) = bh_merkle_root_hash h"
  using header_codec[OF assms] raw_header_fields[OF assms] by simp

definition demo_parent_header :: block_header where
  "demo_parent_header =
     BlockHeader 1 (replicate 32 1) (replicate 32 2) None 1600000000 (BitsCompact 0x1d00ffff) (NonceU32 7) None None None None
       False None None None None None None None"

definition demo_header :: block_header where
  "demo_header =
     BlockHeader aux_pow_version_doge (replicate 32 3) (replicate 32 4) None 1600000100 (BitsCompact 0x1d00ffff) (NonceU32 0)
       None
       (Some (AuxPow (demo_segwit_tx\<lparr>tx_inputs := map strip_witness (tx_inputs demo_segwit_tx)\<rparr>) (replicate 32 5)
         \<lparr>mb_branch_hashes = [replicate 32 6], mb_branch_side_mask = 0\<rparr>
         \<lparr>mb_branch_hashes = [], mb_branch_side_mask = 0\<rparr> demo_parent_header))
       None None False None None None None None None None"

lemma demo_header_ok: "header_ok StandardCoin (Suc (Suc 0)) demo_header"
proof -
  have "tx_ok StandardWithWitness 0 (demo_segwit_tx\<lparr>tx_inputs := map strip_witness (tx_inputs demo_segwit_tx)\<rparr>)"
    using demo_segwit_tx_ok
    by (simp add: tx_ok_def demo_segwit_tx_def inputs_ok_def witness_ok_def tx_has_witness_def input_has_witness_def
        tx_shielded_ok_def tx_join_splits_ok_def)
  then show ?thesis
    by (simp add: demo_header_def demo_parent_header_def opt_ok_def aux_pow_ok_def merkle_branch_ok_def
        header_versions prog_pow_switch_time_def is_prog_pow_def isize_max_def Let_def)
qed

theorem block_header_roundtrip_witness:
  "get_header (Suc (Suc 0)) StandardCoin (put_header demo_header @ [1]) = Inr (demo_header, [1])"
  using block_header_roundtrip[OF demo_header_ok] by simp

end
