(* ===== verification/CompactTarget.thy ===== *)
theory CompactTarget
  imports Codec "HOL-Library.Log_Nat"
begin

text \<open>
  Proof-of-work targets in compact form (\<open>kdf_primitives/src/compact.rs\<close>): the \<open>nBits\<close> field of a
  header packs the length in bytes and three leading bytes of a 256-bit target. Encoding keeps
  the leading bytes of a target, and decoding never rejects what was encoded.
\<close>

unbundle bit_operations_syntax

type_synonym u256 = "256 word"

definition compact_to_u256 :: "u32 \<Rightarrow> u256 + u256" where
  "compact_to_u256 c =
     (let exponent = unat (drop_bit 24 c);
          mantissa = c AND 0x007fffff;
          mantissa = (if exponent \<le> 3 then drop_bit (8 * (3 - exponent)) mantissa else mantissa);
          target = (if exponent \<le> 3 then ucast mantissa else push_bit (8 * (exponent - 3)) (ucast mantissa));
          negative = (mantissa \<noteq> 0 \<and> c AND 0x00800000 \<noteq> 0);
          overflow = (mantissa \<noteq> 0 \<and> 34 < exponent \<or> 0xff < mantissa \<and> 33 < exponent
            \<or> 0xffff < mantissa \<and> 32 < exponent)
      in if negative \<or> overflow then Inl target else Inr target)"

definition u256_bits :: "u256 \<Rightarrow> nat" where
  "u256_bits v = floorlog 2 (unat v)"

definition compact_from_u256 :: "u256 \<Rightarrow> u32" where
  "compact_from_u256 v =
     (let size = (u256_bits v + 7) div 8;
          mantissa = (if size \<le> 3 then ucast (push_bit (8 * (3 - size)) (ucast v :: u64) :: u64)
                      else ucast (drop_bit (8 * (size - 3)) v)) :: u32;
          (mantissa, size) = (if mantissa AND 0x00800000 \<noteq> 0 then (drop_bit 8 mantissa, size + 1) else (mantissa, size))
      in mantissa OR push_bit 24 (of_nat size))"

definition compact_max_value :: u32 where
  "compact_max_value = compact_from_u256 (- 1)"

text \<open>The conversion into a number drops the diagnosis.\<close>

definition u256_from_compact :: "u32 \<Rightarrow> u256" where
  "u256_from_compact c = (case compact_to_u256 c of Inl t \<Rightarrow> t | Inr t \<Rightarrow> t)"

section \<open>The encoding in numbers\<close>

definition byte_size :: "nat \<Rightarrow> nat" where
  "byte_size v = (floorlog 2 v + 7) div 8"

lemma byte_size_bounds:
  assumes "0 < v"
  shows "256 ^ (byte_size v - 1) \<le> v" "v < 256 ^ byte_size v" "0 < byte_size v"
proof -
  let ?b = "floorlog 2 v"
  have b: "2 ^ (?b - 1) \<le> v" "v < 2 ^ ?b" "0 < ?b" using floorlog_bounds[of v 2] assms by (auto simp: floorlog_def)
  have le: "8 * (byte_size v - 1) \<le> ?b - 1" "?b \<le> 8 * byte_size v" using b(3) by (auto simp: byte_size_def)
  have "(256 :: nat) ^ (byte_size v - 1) = 2 ^ (8 * (byte_size v - 1))" by (simp add: power_mult)
  also have "\<dots> \<le> 2 ^ (?b - 1)" using le(1) by (intro power_increasing) auto
  finally show "256 ^ (byte_size v - 1) \<le> v" using b(1) by simp
  have "v < 2 ^ (8 * byte_size v)" using b(2) le(2) by (meson less_le_trans one_le_numeral power_increasing)
  then show "v < 256 ^ byte_size v" by (simp add: power_mult)
  show "0 < byte_size v" using b(3) by (simp add: byte_size_def)
qed

lemma byte_size_le: "v < 256 ^ n \<Longrightarrow> byte_size v \<le> n"
proof (cases "v = 0")
  case False
  assume "v < 256 ^ n"
  moreover have "(256 :: nat) ^ (byte_size v - 1) \<le> v" using byte_size_bounds(1)[of v] False by simp
  ultimately have "(256 :: nat) ^ (byte_size v - 1) < 256 ^ n" by (rule le_less_trans[rotated])
  then have "byte_size v - 1 < n" by (rule power_less_imp_less_exp[rotated]) simp
  then show ?thesis by simp
qed (simp add: byte_size_def floorlog_def)

text \<open>The number that the encoding of a target stands for: its leading bytes.\<close>

definition lead_bytes :: "nat \<Rightarrow> nat" where
  "lead_bytes v = (if byte_size v \<le> 3 then v * 256 ^ (3 - byte_size v) else v div 256 ^ (byte_size v - 3))"

lemma lead_bytes_less: "lead_bytes v < 2 ^ 24"
proof (cases "v = 0")
  case False
  then have v: "v < 256 ^ byte_size v" using byte_size_bounds by simp
  show ?thesis
  proof (cases "byte_size v \<le> 3")
    case True
    then have "v * 256 ^ (3 - byte_size v) < 256 ^ byte_size v * 256 ^ (3 - byte_size v)" using v by simp
    then show ?thesis using True by (simp add: lead_bytes_def flip: power_add)
  next
    case f: False
    then have "(256 :: nat) ^ byte_size v = 256 ^ 3 * 256 ^ (byte_size v - 3)" by (metis le_add_diff_inverse nat_le_linear power_add)
    then have "v < 256 ^ 3 * 256 ^ (byte_size v - 3)" using v by simp
    then have "v div 256 ^ (byte_size v - 3) < 256 ^ 3" by (simp add: less_mult_imp_div_less)
    then show ?thesis using f by (simp add: lead_bytes_def)
  qed
qed (simp add: lead_bytes_def)

section \<open>Words\<close>

lemma compact_fields:
  fixes c :: u32
  assumes "unat c = m + 2 ^ 24 * e" "m < 2 ^ 23"
  shows "unat (drop_bit 24 c) = e" "unat (c AND 0x007fffff) = m" "c AND 0x00800000 = 0"
proof -
  show "unat (drop_bit 24 c) = e" using assms by (simp add: unat_drop_bit)
  have "c AND 0x007fffff = take_bit 23 c" by (simp add: take_bit_eq_mask mask_eq_exp_minus_1)
  then have "unat (c AND 0x007fffff) = take_bit 23 (unat c)" by (simp add: unsigned_take_bit_eq)
  also have "\<dots> = (m + 2 ^ 23 * (2 * e)) mod 2 ^ 23" using assms(1) by (simp add: take_bit_eq_mod)
  also have "\<dots> = m" using assms(2) by (simp only: mod_mult_self2 mod_less)
  finally show "unat (c AND 0x007fffff) = m" .
  have "unat c = m + 2 ^ 23 * (2 * e)" using assms(1) by simp
  then have "even (unat c div 2 ^ 23)" using assms(2) by (simp only: div_mult_self2 div_less) simp
  then have "\<not> bit (unat c) 23" by (simp add: bit_iff_odd)
  then have "\<not> bit c 23" by (auto simp: bit_unsigned_iff dest: bit_imp_le_length)
  then show "c AND 0x00800000 = 0" by (simp add: and_exp_eq_0_iff_not_bit[of c 23, simplified])
qed


lemma compact_to_u256_nat:
  fixes c :: u32
  assumes c: "unat c = m + 2 ^ 24 * e" "m < 2 ^ 23"
    and fits: "m = 0 \<or> e \<le> 32 \<or> m \<le> 0xffff \<and> e \<le> 33"
  shows "\<exists>t. compact_to_u256 c = Inr t \<and> unat t = (if e \<le> 3 then m div 256 ^ (3 - e) else m * 256 ^ (e - 3))"
proof (cases "e \<le> 3")
  case True
  let ?m = "drop_bit (8 * (3 - e)) (c AND 0x007fffff)"
  have "unat (ucast ?m :: u256) = unat ?m"
    by (simp only: unsigned_ucast_eq, rule take_bit_nat_eq_self, rule less_le_trans[OF unsigned_less]) simp
  also have "\<dots> = m div 256 ^ (3 - e)" by (simp only: unat_drop_bit compact_fields[OF c] power_mult) simp
  finally have "unat (ucast ?m :: u256) = m div 256 ^ (3 - e)" .
  moreover have "compact_to_u256 c = Inr (ucast ?m)"
    using True compact_fields[OF c] by (simp add: compact_to_u256_def Let_def)
  ultimately show ?thesis using True by auto
next
  case False
  let ?m = "c AND 0x007fffff"
  let ?t = "push_bit (8 * (e - 3)) (ucast ?m) :: u256"
  have "m * 256 ^ (e - 3) < 2 ^ 256"
  proof (cases "m = 0")
    case m: False
    show ?thesis
    proof (cases "e \<le> 32")
      case True
      have "m * 256 ^ (e - 3) < 2 ^ 23 * 256 ^ (e - 3)" using c(2) by simp
      also have "\<dots> \<le> 2 ^ 23 * 256 ^ 29" using True by (intro mult_le_mono2 power_increasing) auto
      finally show ?thesis by simp
    next
      case 33: False
      then have "m < 2 ^ 16" "e = 33" using fits m by auto
      then show ?thesis by simp
    qed
  qed simp
  moreover have "unat (ucast ?m :: u256) = m"
    by (simp only: unsigned_ucast_eq compact_fields[OF c], rule take_bit_nat_eq_self, use c(2) in simp)
  moreover have "unat ?t = take_bit 256 (push_bit (8 * (e - 3)) (unat (ucast ?m :: u256)))"
    by (simp only: unsigned_push_bit_eq) simp
  ultimately have "unat ?t = m * 256 ^ (e - 3)"
    by (simp add: push_bit_eq_mult take_bit_nat_eq_self power_mult)
  moreover have "compact_to_u256 c = Inr ?t"
    using False fits compact_fields[OF c]
    by (auto simp: compact_to_u256_def Let_def word_less_nat_alt unat_eq_0)
  ultimately show ?thesis using False by auto
qed


lemma unat_u256_size: "byte_size (unat (v :: u256)) \<le> 32"
proof (rule byte_size_le)
  have "unat v < 2 ^ LENGTH(256)" by (rule unsigned_less)
  then show "unat v < 256 ^ 32" by simp
qed

lemma lead_bytes_word:
  fixes v :: u256
  defines "s \<equiv> byte_size (unat v)"
  shows "unat (if s \<le> 3 then ucast (push_bit (8 * (3 - s)) (ucast v :: u64) :: u64)
               else ucast (drop_bit (8 * (s - 3)) v) :: u32) = lead_bytes (unat v)"
proof (cases "s \<le> 3")
  case True
  have less: "unat v * 256 ^ (3 - s) < 2 ^ 24" using lead_bytes_less[of "unat v"] True by (simp add: lead_bytes_def s_def)
  have "unat v * 1 \<le> unat v * 256 ^ (3 - s)" by (rule mult_le_mono2) simp
  then have "unat v < 2 ^ 24" using less by linarith
  then have "unat (ucast v :: u64) = unat v" by (simp add: unsigned_ucast_eq take_bit_nat_eq_self)
  then have "unat (push_bit (8 * (3 - s)) (ucast v :: u64) :: u64) = unat v * 256 ^ (3 - s)"
    using less unfolding unsigned_push_bit_eq by (simp add: push_bit_eq_mult take_bit_nat_eq_self power_mult)
  then show ?thesis using True less by (simp add: unsigned_ucast_eq take_bit_nat_eq_self lead_bytes_def s_def)
next
  case False
  then have "unat (drop_bit (8 * (s - 3)) v) = lead_bytes (unat v)"
    by (simp only: unat_drop_bit power_mult) (simp add: lead_bytes_def s_def)
  then show ?thesis using False lead_bytes_less[of "unat v"] by (simp add: unsigned_ucast_eq take_bit_nat_eq_self)
qed

lemma sign_bit_iff:
  fixes m :: u32
  assumes "unat m < 2 ^ 24"
  shows "m AND 0x00800000 \<noteq> 0 \<longleftrightarrow> 2 ^ 23 \<le> unat m"
proof -
  have "m AND 0x00800000 \<noteq> 0 \<longleftrightarrow> bit m 23" by (simp add: and_exp_eq_0_iff_not_bit[of m 23, simplified])
  also have "\<dots> \<longleftrightarrow> bit (unat m) 23" by (auto simp: bit_unsigned_iff dest: bit_imp_le_length)
  also have "\<dots> \<longleftrightarrow> 2 ^ 23 \<le> unat m"
  proof -
    have "unat m div 2 ^ 23 < 2" using assms by (simp add: less_mult_imp_div_less)
    then have "odd (unat m div 2 ^ 23) \<longleftrightarrow> unat m div 2 ^ 23 \<noteq> 0" by (auto simp: less_2_cases_iff)
    then show ?thesis by (simp add: bit_iff_odd div_eq_0_iff not_less)
  qed
  finally show ?thesis .
qed

lemma unat_compact_word:
  fixes m :: u32
  assumes "unat m < 2 ^ 24" "n < 256"
  shows "unat (m OR push_bit 24 (of_nat n)) = unat m + 2 ^ 24 * n"
proof -
  have size: "unat (push_bit 24 (of_nat n) :: u32) = 2 ^ 24 * n"
    using assms(2) unfolding unsigned_push_bit_eq by (simp add: push_bit_eq_mult unsigned_of_nat take_bit_nat_eq_self)
  have "m = take_bit 24 m" using assms(1) by (simp add: word_unat_eq_iff unsigned_take_bit_eq take_bit_nat_eq_self)
  then have "bit m k \<Longrightarrow> k < 24" for k by (metis bit_take_bit_iff)
  then have "m AND push_bit 24 (of_nat n) = 0"
    by (intro bit_word_eqI) (use leD in \<open>auto simp only: bit_and_iff bit_push_bit_iff bit_0_eq bot_apply bot_bool_def\<close>)
  then have "m OR push_bit 24 (of_nat n) = m + push_bit 24 (of_nat n)" by (rule disjunctive_add_eq_or[symmetric])
  moreover have "unat m + 2 ^ 24 * n < 2 ^ 32" using assms by simp
  ultimately show ?thesis using size by (simp add: unat_add_lem[THEN iffD1])
qed


lemma compact_from_u256_nat:
  fixes v :: u256
  defines "l \<equiv> lead_bytes (unat v)" and "s \<equiv> byte_size (unat v)"
  shows "unat (compact_from_u256 v) =
    (if l < 2 ^ 23 then l + 2 ^ 24 * s else l div 256 + 2 ^ 24 * (s + 1))"
proof -
  let ?m = "if s \<le> 3 then ucast (push_bit (8 * (3 - s)) (ucast v :: u64) :: u64)
            else ucast (drop_bit (8 * (s - 3)) v) :: u32"
  have m: "unat ?m = l" using lead_bytes_word[of v] by (simp only: l_def s_def)
  have l: "l < 2 ^ 24" and s: "s \<le> 32" using lead_bytes_less unat_u256_size by (auto simp only: l_def s_def)
  have bit: "?m AND 0x00800000 \<noteq> 0 \<longleftrightarrow> 2 ^ 23 \<le> l" using sign_bit_iff[of ?m] m l by simp
  have split: "compact_from_u256 v =
    (if 2 ^ 23 \<le> l then drop_bit 8 ?m OR push_bit 24 (of_nat (s + 1)) else ?m OR push_bit 24 (of_nat s))"
    unfolding compact_from_u256_def Let_def u256_bits_def byte_size_def[symmetric] s_def[symmetric] bit
    by (cases "2 ^ 23 \<le> l") (simp_all only: if_True if_False prod.case)
  have "unat (drop_bit 8 ?m) = l div 256" by (simp only: unat_drop_bit m) simp
  then show ?thesis
    using split unat_compact_word[of ?m s] unat_compact_word[of "drop_bit 8 ?m" "s + 1"] m l s by (simp only: not_le if_distrib) auto
qed


section \<open>Precision\<close>

lemma round_down:
  fixes v b :: nat
  assumes "k * b \<le> v" "0 < b"
  shows "v div b * b \<le> v" "(v - v div b * b) * k \<le> v"
proof -
  have "v - v div b * b = v mod b" by (simp add: minus_div_mult_eq_mod)
  then have "(v - v div b * b) * k \<le> b * k" using assms(2) by (metis mod_less_divisor less_imp_le mult_le_mono1)
  also have "\<dots> \<le> v" using assms(1) by (simp add: mult.commute)
  finally show "(v - v div b * b) * k \<le> v" .
qed simp

lemma decode_lead_bytes:
  fixes v :: nat
  defines "l \<equiv> lead_bytes v" and "s \<equiv> byte_size v"
  assumes t: "t = (if l < 2 ^ 23 then (if s \<le> 3 then l div 256 ^ (3 - s) else l * 256 ^ (s - 3))
    else (if s + 1 \<le> 3 then l div 256 div 256 ^ (3 - (s + 1)) else l div 256 * 256 ^ (s + 1 - 3)))"
  shows "t \<le> v \<and> (v - t) * 2 ^ 15 \<le> v"
proof (cases "v = 0")
  case False
  note size = byte_size_bounds[of v, folded s_def]
  show ?thesis
  proof (cases "l < 2 ^ 23")
    case small: True
    show ?thesis
    proof (cases "s \<le> 3")
      case True
      then have "t = v" using t small by (simp add: l_def lead_bytes_def s_def)
      then show ?thesis by simp
    next
      case s: False
      then have t: "t = v div 256 ^ (s - 3) * 256 ^ (s - 3)" using t small by (simp add: l_def lead_bytes_def s_def)
      have "s - 1 = 2 + (s - 3)" using s by simp
      then have "(256 :: nat) ^ (s - 1) = 2 ^ 16 * 256 ^ (s - 3)" by (simp only: power_add) simp
      then have "2 ^ 15 * 256 ^ (s - 3) \<le> v" using size(1) False by simp
      then show ?thesis unfolding t by (intro conjI round_down) auto
    qed
  next
    case big: False
    show ?thesis
    proof (cases "s < 3")
      case True
      then have "(256 :: nat) ^ (3 - s) = 256 * 256 ^ (2 - s)" by (simp add: Suc_diff_Suc numeral_3_eq_3 flip: power_Suc)
      then have "t = v" using t big True by (simp add: l_def lead_bytes_def s_def)
      then show ?thesis by simp
    next
      case s: False
      have b: "(256 :: nat) ^ (s - 2) = 256 ^ (s - 3) * 256" using s by (simp add: Suc_diff_Suc numeral_3_eq_3 flip: power_Suc2)
      have l: "l = v div 256 ^ (s - 3)" using s by (simp add: l_def lead_bytes_def s_def)
      then have t: "t = v div 256 ^ (s - 2) * 256 ^ (s - 2)" using t big s by (simp add: b div_mult2_eq)
      have "2 ^ 23 * 256 ^ (s - 3) \<le> l * 256 ^ (s - 3)" using big by simp
      also have "\<dots> \<le> v" by (simp add: l)
      finally have "2 ^ 15 * 256 ^ (s - 2) \<le> v" by (simp add: b)
      then show ?thesis unfolding t by (intro conjI round_down) auto
    qed
  qed
qed (use t in \<open>simp add: l_def lead_bytes_def\<close>)

text \<open>
  Decoding the compact form of a target never reports an error, never yields a larger target
  than the one encoded, and loses less than one part in 32768 of it.
\<close>

theorem compact_target_rounds_down:
  "\<exists>t. compact_to_u256 (compact_from_u256 v) = Inr t \<and> t \<le> v \<and> (unat v - unat t) * 2 ^ 15 \<le> unat v"
proof -
  let ?l = "lead_bytes (unat v)" and ?s = "byte_size (unat v)"
  have l: "?l < 2 ^ 24" and s: "?s \<le> 32" by (rule lead_bytes_less unat_u256_size)+
  have "?l div 256 < 2 ^ 16" using l by (simp add: less_mult_imp_div_less)
  then have "\<exists>t. compact_to_u256 (compact_from_u256 v) = Inr t \<and> unat t =
    (if ?l < 2 ^ 23 then (if ?s \<le> 3 then ?l div 256 ^ (3 - ?s) else ?l * 256 ^ (?s - 3))
     else (if ?s + 1 \<le> 3 then ?l div 256 div 256 ^ (3 - (?s + 1)) else ?l div 256 * 256 ^ (?s + 1 - 3)))"
    using compact_to_u256_nat[of "compact_from_u256 v" ?l ?s] compact_to_u256_nat[of "compact_from_u256 v" "?l div 256" "?s + 1"]
      compact_from_u256_nat[of v] l s by (cases "?l < 2 ^ 23") auto
  then show ?thesis using decode_lead_bytes by (auto simp: word_le_nat_alt)
qed

end
