(* ===== verification/Spv.thy ===== *)
theory Spv
  imports Merkle BlockHeaders CompactTarget
begin

text \<open>
  Simplified payment verification: the checks on serialized inputs and outputs, on chains of
  headers and on whole proofs (\<open>kdf_spv_validation/src/helpers_validation.rs\<close>, \<open>spv_proof.rs\<close>), and
  the client that collects a proof from a server and checks it
  (\<open>coins/utxo/utxo_common/utxo_common_spv.rs\<close>). The server is a function from each round of the
  retry loop to its answers.
\<close>

section \<open>Inputs and outputs\<close>

definition determine_input_length :: "bytes \<Rightarrow> spv_error + u64" where
  "determine_input_length tx_in =
     (if length tx_in < 37 then Inl ReadOverrun
      else case parse_compact_int (drop 36 tx_in) of
             Inl _ \<Rightarrow> Inl BadCompactInt
           | Inr n \<Rightarrow> Inr (40 + of_nat (serialized_length n) + n))"

definition determine_output_length :: "bytes \<Rightarrow> spv_error + u64" where
  "determine_output_length tx_out =
     (if length tx_out < 9 then Inl MalformattedOutput
      else case parse_compact_int (drop 8 tx_out) of
             Inl _ \<Rightarrow> Inl BadCompactInt
           | Inr n \<Rightarrow> Inr (8 + of_nat (serialized_length n) + n))"

fun skip_items :: "(bytes \<Rightarrow> spv_error + u64) \<Rightarrow> bytes \<Rightarrow> nat \<Rightarrow> u64 \<Rightarrow> u64 option" where
  "skip_items item_length data 0 offset = Some offset"
| "skip_items item_length data (Suc n) offset =
     (if length data \<le> unat offset then None
      else case item_length (drop (unat offset) data) of
             Inl _ \<Rightarrow> None
           | Inr v \<Rightarrow> skip_items item_length data n (offset + v))"

definition validate_items :: "(bytes \<Rightarrow> spv_error + u64) \<Rightarrow> bytes \<Rightarrow> bool" where
  "validate_items item_length data =
     (case parse_compact_int data of
        Inl _ \<Rightarrow> False
      | Inr n \<Rightarrow>
          if n = 0 then False
          else case skip_items item_length data (unat n) (of_nat (serialized_length n)) of
                 None \<Rightarrow> False
               | Some offset \<Rightarrow> unat offset = length data)"

definition validate_vin :: "bytes \<Rightarrow> bool" where
  "validate_vin vin = validate_items determine_input_length vin"

definition validate_vout :: "bytes \<Rightarrow> bool" where
  "validate_vout vout = validate_items determine_output_length vout"

section \<open>Chains of headers\<close>

definition header_target :: "block_header \<Rightarrow> u256 + u256" where
  "header_target h = (case bh_bits h of BitsCompact c \<Rightarrow> compact_to_u256 c | BitsU32 nb \<Rightarrow> Inr (ucast nb))"

definition validate_header_work :: "h256 \<Rightarrow> u256 \<Rightarrow> bool" where
  "validate_header_work digest target = (digest \<noteq> replicate 32 0 \<and> of_nat (le_nat digest) < target)"

fun validate_headers_from ::
  "(bytes \<Rightarrow> h256) \<Rightarrow> bool \<Rightarrow> bool \<Rightarrow> bool \<Rightarrow> h256 \<Rightarrow> u256 \<Rightarrow> block_header list \<Rightarrow> spv_error + unit" where
  "validate_headers_from sha256 difficulty_check constant_difficulty first previous_hash target [] = Inr ()"
| "validate_headers_from sha256 difficulty_check constant_difficulty first previous_hash target (header # headers) =
     (let raw_header = put_header header in
      case header_target header of
        Inl _ \<Rightarrow> Inl UnableToGetTarget
      | Inr cur_target \<Rightarrow>
          let target = (if first then cur_target else target) in
          if (\<not> constant_difficulty \<and> difficulty_check) \<and> cur_target \<noteq> target then Inl UnexpectedDifficultyChange
          else if \<not> first \<and> raw_parent raw_header \<noteq> previous_hash then Inl InvalidChain
          else if difficulty_check \<and> \<not> validate_header_work (raw_digest (dhash256 sha256) raw_header) target
          then Inl InsufficientWork
          else validate_headers_from sha256 difficulty_check constant_difficulty False
                 (raw_digest (dhash256 sha256) raw_header) target headers)"

definition validate_headers :: "(bytes \<Rightarrow> h256) \<Rightarrow> block_header list \<Rightarrow> bool \<Rightarrow> bool \<Rightarrow> spv_error + unit" where
  "validate_headers sha256 headers difficulty_check constant_difficulty =
     validate_headers_from sha256 difficulty_check constant_difficulty True (replicate 32 0) 0 headers"

section \<open>Proofs\<close>

record spv_proof =
  spv_tx_id :: h256
  spv_vin :: bytes
  spv_vout :: bytes
  spv_index :: u64
  spv_confirming_header :: block_header
  spv_raw_header :: raw_block_header
  spv_intermediate_nodes :: "h256 list"

definition validate_block_header :: "(bytes \<Rightarrow> h256) \<Rightarrow> spv_proof \<Rightarrow> spv_error + unit" where
  "validate_block_header sha256 p =
     (if header_hash (dhash256 sha256) (spv_confirming_header p) \<noteq> raw_digest (dhash256 sha256) (spv_raw_header p)
      then Inl WrongDigest
      else if bh_merkle_root_hash (spv_confirming_header p) \<noteq> raw_extract_merkle_root (spv_raw_header p)
      then Inl WrongMerkleRoot
      else if bh_previous_header_hash (spv_confirming_header p) \<noteq> raw_parent (spv_raw_header p)
      then Inl WrongPrevHash
      else Inr ())"

definition spv_validate :: "(bytes \<Rightarrow> h256) \<Rightarrow> spv_proof \<Rightarrow> spv_error + unit" where
  "spv_validate sha256 p =
     (if \<not> validate_vin (spv_vin p) then Inl InvalidVin
      else if \<not> validate_vout (spv_vout p) then Inl InvalidVout
      else bind_res (validate_block_header sha256 p) (\<lambda>_.
        merkle_prove sha256 (spv_tx_id p) (bh_merkle_root_hash (spv_confirming_header p))
          (spv_intermediate_nodes p) (spv_index p)))"


section \<open>Serialized lists pass the checks\<close>

lemma parse_put_compact: "parse_compact_int (put_compact n @ r) = Inr n"
  using parse_compact_int_reads get_put_compact by blast

lemma serialized_length_bounds: "1 \<le> serialized_length n" "serialized_length n \<le> 9"
  by (auto simp: serialized_length_def)

lemma bytes_ok_length: "bytes_ok b \<Longrightarrow> length b < 2 ^ 17"
  by (simp add: bytes_ok_def)

lemma determine_input_length_put:
  assumes "input_ok (strip_witness i)"
  shows "determine_input_length (put_input i @ r) = Inr (of_nat (length (put_input i)))"
    "0 < length (put_input i)" "length (put_input i) < 2 ^ 18"
proof -
  have hash: "length (op_hash (ti_previous_output i)) = 32" and script: "length (ti_script_sig i) < 2 ^ 17"
    using assms bytes_ok_length by (auto simp: input_ok_def out_point_ok_def)
  let ?n = "of_nat (length (ti_script_sig i)) :: u64"
  have split: "put_input i @ r = (op_hash (ti_previous_output i) @ put_u32 (op_index (ti_previous_output i)))
      @ put_compact ?n @ ti_script_sig i @ put_u32 (ti_sequence i) @ r"
    by (simp add: put_input_def put_out_point_def put_hash_def put_bytes_def)
  have len: "length (put_input i) = 40 + serialized_length ?n + length (ti_script_sig i)"
    using hash by (simp add: put_input_def put_out_point_def put_hash_def put_bytes_def length_put_compact)
  have "drop 36 (put_input i @ r) = put_compact ?n @ ti_script_sig i @ put_u32 (ti_sequence i) @ r"
    unfolding split using hash by simp
  then show "determine_input_length (put_input i @ r) = Inr (of_nat (length (put_input i)))"
    using len serialized_length_bounds[of ?n] by (simp add: determine_input_length_def parse_put_compact)
  show "0 < length (put_input i)" "length (put_input i) < 2 ^ 18"
    using len script serialized_length_bounds[of ?n] by simp_all
qed

lemma determine_output_length_put:
  assumes "output_ok out"
  shows "determine_output_length (put_output out @ r) = Inr (of_nat (length (put_output out)))"
    "0 < length (put_output out)" "length (put_output out) < 2 ^ 18"
proof -
  have script: "length (out_script_pubkey out) < 2 ^ 17" using assms bytes_ok_length by (auto simp: output_ok_def)
  let ?n = "of_nat (length (out_script_pubkey out)) :: u64"
  have len: "length (put_output out) = 8 + serialized_length ?n + length (out_script_pubkey out)"
    by (simp add: put_output_def put_bytes_def length_put_compact)
  have "drop 8 (put_output out @ r) = put_compact ?n @ out_script_pubkey out @ r"
    by (simp add: put_output_def put_bytes_def)
  then show "determine_output_length (put_output out @ r) = Inr (of_nat (length (put_output out)))"
    using len serialized_length_bounds[of ?n] by (simp add: determine_output_length_def parse_put_compact)
  show "0 < length (put_output out)" "length (put_output out) < 2 ^ 18"
    using len script serialized_length_bounds[of ?n] by simp_all
qed

lemma skip_items_put:
  assumes "\<And>x r. x \<in> set xs \<Longrightarrow> item_length (put x @ r) = Inr (of_nat (length (put x)))"
    "\<And>x. x \<in> set xs \<Longrightarrow> 0 < length (put x)"
    and "length (pre @ concat (map put xs)) < 2 ^ 64"
  shows "skip_items item_length (pre @ concat (map put xs)) (length xs) (of_nat (length pre)) =
    Some (of_nat (length (pre @ concat (map put xs))))"
  using assms
proof (induction xs arbitrary: pre)
  case (Cons x xs)
  then have "unat (of_nat (length pre) :: u64) = length pre" by (intro unat_of_nat64) simp
  moreover have "skip_items item_length ((pre @ put x) @ concat (map put xs)) (length xs) (of_nat (length (pre @ put x))) =
      Some (of_nat (length ((pre @ put x) @ concat (map put xs))))"
    using Cons by (intro Cons.IH) auto
  ultimately show ?case using Cons.prems(1,2)[of x] by simp
qed simp

lemma validate_items_put:
  assumes "\<And>x r. x \<in> set xs \<Longrightarrow> item_length (put x @ r) = Inr (of_nat (length (put x)))"
    "\<And>x. x \<in> set xs \<Longrightarrow> 0 < length (put x)" "\<And>x. x \<in> set xs \<Longrightarrow> length (put x) < 2 ^ 18"
    and "xs \<noteq> []" "length xs \<le> max_list_size"
  shows "validate_items item_length (put_list put xs)"
proof -
  let ?n = "of_nat (length xs) :: u64"
  have n: "unat ?n = length xs" using assms(5) by (intro unat_of_nat64) (simp add: max_list_size_def)
  have "length (concat (map put xs)) \<le> length xs * 2 ^ 18"
    using assms(3) by (induction xs) (simp_all add: less_imp_le add_mono)
  also have "\<dots> \<le> 8192 * 2 ^ 18" using assms(5) by (simp add: max_list_size_def)
  finally have len: "length (put_list put xs) < 2 ^ 64"
    using serialized_length_bounds(2)[of ?n] by (simp add: put_list_def length_put_compact)
  have "skip_items item_length (put_list put xs) (unat ?n) (of_nat (serialized_length ?n)) =
      Some (of_nat (length (put_list put xs)))"
    using skip_items_put[of xs item_length put "put_compact ?n"] assms(1,2) len n
    by (simp add: put_list_def length_put_compact)
  moreover have "?n \<noteq> 0" using n assms(4) by auto
  ultimately show ?thesis
    using unat_of_nat64[OF len] by (simp add: validate_items_def put_list_def parse_put_compact)
qed

lemma validate_vin_put: "inputs_ok is \<Longrightarrow> is \<noteq> [] \<Longrightarrow> validate_vin (put_list put_input is)"
  unfolding validate_vin_def
  by (rule validate_items_put) (simp_all only: inputs_ok_def list_all_iff determine_input_length_put simp_thms)

lemma validate_vout_put: "outputs_ok outs \<Longrightarrow> outs \<noteq> [] \<Longrightarrow> validate_vout (put_list put_output outs)"
  unfolding validate_vout_def
  by (rule validate_items_put) (simp_all only: outputs_ok_def list_all_iff determine_output_length_put simp_thms)

end
