(* ===== verification/HeaderSync.thy ===== *)
theory HeaderSync
  imports Spv
begin

text \<open>
  The block headers a light client keeps (\<open>coins/utxo/utxo_sql_block_header_storage.rs\<close>): a table from
  heights to serialized headers, its synchronization with a server, and the handling of
  reorganizations (\<open>coins/utxo/utxo_common/utxo_common_spv.rs\<close>).

  The statements on the table are taken to succeed; hexadecimal strings are kept as bytes. The
  server is a record of the answers to each request. Hashing, the depth of the stack and the size of
  a header in memory are given by the environment. The hash of the trusted anchor, a hexadecimal
  string of the configuration, is given as the bytes it displays.
\<close>

section \<open>Environment\<close>

record header_env =
  env_sha256 :: "bytes \<Rightarrow> h256"
  env_stack_depth :: nat
  env_header_size :: nat

record electrum_tx_history_item =
  hi_height :: u64
  hi_tx_hash :: h256
  hi_fee :: "u64 option"

record tx_merkle_branch =
  tmb_merkle :: "h256 list"
  tmb_block_height :: u64
  tmb_pos :: u64

record electrum =
  el_scripthash_get_history :: "bytes \<Rightarrow> electrum_tx_history_item list option"
  el_transaction_get_merkle :: "h256 \<Rightarrow> u64 \<Rightarrow> tx_merkle_branch option"
  el_block_header :: "u64 \<Rightarrow> bytes option"
  el_block_headers :: "u64 \<Rightarrow> u64 \<Rightarrow> (u64 \<times> bytes) option"

datatype (plugins only: code size) difficulty_algorithm = BitcoinMainnet | BitcoinTestnet

record spv_validation_params =
  vp_difficulty_check :: bool
  vp_constant_difficulty :: bool
  vp_difficulty_algorithm :: "difficulty_algorithm option"

record spv_block_header =
  anchor_height :: u64
  anchor_hash :: h256
  anchor_time :: u32
  anchor_bits :: u32

record spv_conf =
  spvc_starting_block_header :: spv_block_header
  spvc_max_stored_block_headers :: "u64 option"
  spvc_validation_params :: "spv_validation_params option"

definition difficulty_retarget_interval :: u64 where
  "difficulty_retarget_interval = 2016"

definition spv_conf_validate :: "spv_conf \<Rightarrow> string + unit" where
  "spv_conf_validate conf =
     (case spvc_validation_params conf of
        None \<Rightarrow> Inr ()
      | Some p \<Rightarrow>
          (case vp_difficulty_algorithm p of
             None \<Rightarrow> Inr ()
           | Some BitcoinMainnet \<Rightarrow>
               if anchor_height (spvc_starting_block_header conf) mod difficulty_retarget_interval \<noteq> 0
               then Inl ''starting_block_header height must be a multiple of the difficulty-retarget interval''
               else (case spvc_max_stored_block_headers conf of
                       Some max_stored \<Rightarrow>
                         if max_stored \<le> difficulty_retarget_interval
                         then Inl ''max_stored_block_headers must be greater than the difficulty-retarget interval''
                         else Inr ()
                     | None \<Rightarrow> Inr ())
           | Some BitcoinTestnet \<Rightarrow> Inl ''Bitcoin Testnet difficulty algorithm is not currently supported''))"

definition conf_difficulty_check :: "spv_conf \<Rightarrow> bool" where
  "conf_difficulty_check conf = (case spvc_validation_params conf of Some p \<Rightarrow> vp_difficulty_check p | None \<Rightarrow> False)"

definition conf_constant_difficulty :: "spv_conf \<Rightarrow> bool" where
  "conf_constant_difficulty conf = (case spvc_validation_params conf of Some p \<Rightarrow> vp_constant_difficulty p | None \<Rightarrow> False)"

datatype (plugins only: code size) get_header_fault = RpcFault | DecodeFault decode_fault | SpvFault spv_error | StorageFault decode_fault

section \<open>The table of headers\<close>

type_synonym header_table = "(u64, bytes) hash_map"

abbreviation decode_header :: "header_env \<Rightarrow> bytes \<Rightarrow> decode_fault + block_header" where
  "decode_header env \<equiv> deserialize (get_header (env_stack_depth env) StandardCoin)"

definition get_block_header :: "header_env \<Rightarrow> header_table \<Rightarrow> u64 \<Rightarrow> decode_fault + block_header option" where
  "get_block_header env t height =
     (case hm_get t height of
        None \<Rightarrow> Inr None
      | Some raw \<Rightarrow> bind_res (decode_header env raw) (\<lambda>header. Inr (Some header)))"

definition add_block_headers :: "(u64, block_header) hash_map \<Rightarrow> header_table \<Rightarrow> header_table" where
  "add_block_headers headers t = fold (\<lambda>(height, header). hm_insert height (put_header header)) headers t"

definition get_last_block_height :: "header_table \<Rightarrow> u64 option" where
  "get_last_block_height t = (case map fst t of [] \<Rightarrow> None | k # ks \<Rightarrow> Some (fold max ks k))"

definition remove_block_headers_from_to :: "u64 \<Rightarrow> u64 \<Rightarrow> header_table \<Rightarrow> header_table" where
  "remove_block_headers_from_to from_height to_height t =
     filter (\<lambda>(height, _). \<not> (from_height \<le> height \<and> height \<le> to_height)) t"

definition prune_old_headers :: "u64 \<Rightarrow> header_table \<Rightarrow> header_table" where
  "prune_old_headers max_stored t =
     (case get_last_block_height t of
        Some tip \<Rightarrow> if max_stored < tip then remove_block_headers_from_to 0 (tip - max_stored) t else t
      | None \<Rightarrow> t)"

section \<open>Headers from a server\<close>

fun register_headers :: "u64 \<Rightarrow> block_header list \<Rightarrow> (u64, block_header) hash_map \<Rightarrow> (u64, block_header) hash_map" where
  "register_headers starting_height [] registry = registry"
| "register_headers starting_height (header # headers) registry =
     register_headers (starting_height + 1) headers (hm_insert starting_height header registry)"

definition retrieve_last_headers ::
  "header_env \<Rightarrow> electrum \<Rightarrow> u64 \<Rightarrow> u64 \<Rightarrow> get_header_fault + ((u64, block_header) hash_map \<times> block_header list)" where
  "retrieve_last_headers env el limit block_height =
     (let from_height = (if block_height < limit then 0 else block_height - limit) in
      case el_block_headers el from_height limit of
        None \<Rightarrow> Inl RpcFault
      | Some (count, hex) \<Rightarrow>
          if count = 0 then Inl RpcFault
          else case get_list (env_header_size env) (get_header (env_stack_depth env) StandardCoin)
                      (put_compact count @ hex) of
                 Inl fault \<Rightarrow> Inl (DecodeFault fault)
               | Inr (headers, _) \<Rightarrow> Inr (register_headers from_height headers [], headers))"

definition valid_block_header_from_storage ::
  "header_env \<Rightarrow> spv_conf \<Rightarrow> electrum \<Rightarrow> u64 \<Rightarrow> header_table \<Rightarrow> (get_header_fault + block_header) \<times> header_table" where
  "valid_block_header_from_storage env conf el height t =
     (case get_block_header env t height of
        Inl fault \<Rightarrow> (Inl (StorageFault fault), t)
      | Inr (Some header) \<Rightarrow> (Inr header, t)
      | Inr None \<Rightarrow>
          (case el_block_header el height of
             None \<Rightarrow> (Inl RpcFault, t)
           | Some bs \<Rightarrow>
               case decode_header env bs of
                 Inl fault \<Rightarrow> (Inl (DecodeFault fault), t)
               | Inr header \<Rightarrow>
                   case retrieve_last_headers env el difficulty_retarget_interval height of
                     Inl fault \<Rightarrow> (Inl fault, t)
                   | Inr (registry, headers) \<Rightarrow>
                       if spvc_validation_params conf \<noteq> None
                       then case validate_headers (env_sha256 env) headers (conf_difficulty_check conf)
                                   (conf_constant_difficulty conf) of
                              Inl e \<Rightarrow> (Inl (SpvFault e), t)
                            | Inr _ \<Rightarrow> (Inr header, add_block_headers registry t)
                       else (Inr header, add_block_headers registry t)))"

definition block_header_from_storage_or_rpc ::
  "header_env \<Rightarrow> spv_conf \<Rightarrow> electrum \<Rightarrow> u64 \<Rightarrow> header_table option
    \<Rightarrow> (get_header_fault + block_header) \<times> header_table option" where
  "block_header_from_storage_or_rpc env conf el height storage =
     (case storage of
        Some t \<Rightarrow> (let (r, t') = valid_block_header_from_storage env conf el height t in (r, Some t'))
      | None \<Rightarrow>
          ((case el_block_header el height of
              None \<Rightarrow> Inl RpcFault
            | Some bs \<Rightarrow> (case decode_header env bs of Inl fault \<Rightarrow> Inl (DecodeFault fault) | Inr header \<Rightarrow> Inr header)),
           None))"


section \<open>The anchor\<close>

definition block_header_bits_u32 :: "block_header \<Rightarrow> u32" where
  "block_header_bits_u32 h = (case bh_bits h of BitsCompact c \<Rightarrow> c | BitsU32 bits \<Rightarrow> bits)"

definition verify_anchor_header :: "header_env \<Rightarrow> electrum \<Rightarrow> spv_block_header \<Rightarrow> get_header_fault + bool" where
  "verify_anchor_header env el anchor =
     (case el_block_header el (anchor_height anchor) of
        None \<Rightarrow> Inl RpcFault
      | Some bs \<Rightarrow>
          (case decode_header env bs of
             Inl fault \<Rightarrow> Inl (DecodeFault fault)
           | Inr header \<Rightarrow>
               Inr (header_hash (dhash256 (env_sha256 env)) header = rev (anchor_hash anchor)
                 \<and> block_header_bits_u32 header = anchor_bits anchor \<and> bh_time header = anchor_time anchor)))"

section \<open>Reorganizations\<close>

datatype (plugins only: code size) reorg_outcome = NoReorg | ForkAt u64 | NeedMoreHistory | BadStartingHeaderChain

definition min_key :: "(u64, 'v) hash_map \<Rightarrow> u64 option" where
  "min_key m = (case map fst m of [] \<Rightarrow> None | k # ks \<Rightarrow> Some (fold min ks k))"

definition max_key :: "(u64, 'v) hash_map \<Rightarrow> u64 option" where
  "max_key m = (case map fst m of [] \<Rightarrow> None | k # ks \<Rightarrow> Some (fold max ks k))"

definition heights :: "u64 \<Rightarrow> u64 \<Rightarrow> u64 list" where
  "heights low high = map of_nat [unat low..<Suc (unat high)]"

definition headers_differ :: "header_env \<Rightarrow> (u64, block_header) hash_map \<Rightarrow> (u64, block_header) hash_map \<Rightarrow> u64 \<Rightarrow> bool" where
  "headers_differ env stored candidate height =
     (case (hm_get stored height, hm_get candidate height) of
        (Some s, Some c) \<Rightarrow> header_hash (dhash256 (env_sha256 env)) s \<noteq> header_hash (dhash256 (env_sha256 env)) c
      | _ \<Rightarrow> False)"

definition detect_reorg ::
  "header_env \<Rightarrow> (u64, block_header) hash_map \<Rightarrow> (u64, block_header) hash_map \<Rightarrow> u64 \<Rightarrow> reorg_outcome" where
  "detect_reorg env stored candidate anchor =
     (case min_key candidate of
        None \<Rightarrow> NoReorg
      | Some low \<Rightarrow>
          let high = (case max_key candidate of Some high \<Rightarrow> high | None \<Rightarrow> low) in
          case List.find (headers_differ env stored candidate) (heights low high) of
            None \<Rightarrow> NoReorg
          | Some divergent \<Rightarrow>
              if divergent \<le> anchor then BadStartingHeaderChain
              else case (hm_get stored (divergent - 1), hm_get candidate divergent) of
                     (Some predecessor, Some divergent_header) \<Rightarrow>
                       if bh_previous_header_hash divergent_header = header_hash (dhash256 (env_sha256 env)) predecessor
                       then ForkAt divergent else NeedMoreHistory
                   | _ \<Rightarrow> NeedMoreHistory)"

fun load_headers ::
  "header_env \<Rightarrow> header_table \<Rightarrow> u64 list \<Rightarrow> (u64, block_header) hash_map \<Rightarrow> decode_fault + (u64, block_header) hash_map" where
  "load_headers env t [] stored = Inr stored"
| "load_headers env t (height # hs) stored =
     bind_res (get_block_header env t height) (\<lambda>h.
       load_headers env t hs (case h of Some header \<Rightarrow> hm_insert height header stored | None \<Rightarrow> stored))"

definition remove_stale_suffix :: "u64 \<Rightarrow> header_table \<Rightarrow> header_table" where
  "remove_stale_suffix fork t =
     (case get_last_block_height t of
        Some tip \<Rightarrow> if fork \<le> tip then remove_block_headers_from_to fork tip t else t
      | None \<Rightarrow> t)"

definition reconcile_reorg ::
  "header_env \<Rightarrow> (u64, block_header) hash_map \<Rightarrow> u64 \<Rightarrow> header_table \<Rightarrow> decode_fault + (reorg_outcome \<times> header_table)" where
  "reconcile_reorg env candidate anchor t =
     (case min_key candidate of
        None \<Rightarrow> Inr (NoReorg, t)
      | Some low \<Rightarrow>
          let high = (case max_key candidate of Some high \<Rightarrow> high | None \<Rightarrow> low);
              from_height = (if low = 0 then 0 else low - 1) in
          bind_res (load_headers env t (heights from_height high) []) (\<lambda>stored.
            let outcome = detect_reorg env stored candidate anchor in
            case outcome of
              ForkAt fork \<Rightarrow>
                Inr (outcome, add_block_headers candidate (remove_stale_suffix fork t))
            | _ \<Rightarrow> Inr (outcome, t)))"


lemma min_key_Min: "min_key m = (if m = [] then None else Some (Min (fst ` set m)))"
  by (cases m) (auto simp: min_key_def Min.set_eq_fold[symmetric] image_comp split_beta)

lemma max_key_Max: "max_key m = (if m = [] then None else Some (Max (fst ` set m)))"
  by (cases m) (auto simp: max_key_def Max.set_eq_fold[symmetric] image_comp split_beta)

lemma get_register_headers:
  "unat from_height + length headers \<le> 2 ^ 64 \<Longrightarrow>
    hm_get (register_headers from_height headers registry) k =
    (if from_height \<le> k \<and> unat k < unat from_height + length headers
     then Some (headers ! (unat k - unat from_height)) else hm_get registry k)"
proof (induction headers arbitrary: from_height registry)
  case (Cons h headers)
  show ?case
  proof (cases "headers = []")
    case True
    then show ?thesis by (auto simp: hm_get_insert word_le_nat_alt word_unat_eq_iff)
  next
    case False
    then have "unat from_height + 1 < 2 ^ 64" using Cons.prems by (cases headers) auto
    then have suc: "unat (from_height + 1) = Suc (unat from_height)" by (simp add: unat_word_ariths)
    then have "unat (from_height + 1) + length headers \<le> 2 ^ 64" using Cons.prems by simp
    from Cons.IH[OF this] show ?thesis
      by (auto simp: hm_get_insert word_le_nat_alt word_unat_eq_iff suc nth_Cons' Suc_le_eq)
  qed
qed (auto simp: word_le_nat_alt)

lemma register_headers_keeps: "k \<in> fst ` set registry \<Longrightarrow> k \<in> fst ` set (register_headers from_height headers registry)"
proof (induction headers arbitrary: from_height registry)
  case (Cons h headers)
  then show ?case by (simp add: hm_insert_def update_keys dom_update del: update.simps) 
qed simp

lemma length_get_n: "get_n d n bs = Inr (xs, r) \<Longrightarrow> length xs = n"
  by (induction n arbitrary: bs xs r) (auto simp: bind_res_Inr_iff split: prod.splits)

lemma retrieve_last_headers_InrD:
  assumes "retrieve_last_headers env el limit upper = Inr (registry, headers)"
  shows "registry = register_headers (if upper < limit then 0 else upper - limit) headers []" "headers \<noteq> []"
proof -
  let ?from = "if upper < limit then 0 else upper - limit"
  obtain count hex r where "count \<noteq> 0" "registry = register_headers ?from headers []"
    and get: "get_list (env_header_size env) (get_header (env_stack_depth env) StandardCoin) (put_compact count @ hex) = Inr (headers, r)"
    using assms unfolding retrieve_last_headers_def Let_def by (simp split: option.splits sum.splits if_splits prod.splits)
  then show "registry = register_headers ?from headers []" by blast
  have "length headers = unat count"
    using get by (auto simp: get_list_def get_put_compact dest: length_get_n split: if_splits)
  then show "headers \<noteq> []" using \<open>count \<noteq> 0\<close> by (auto simp: unsigned_eq_0_iff)
qed

lemma retrieve_last_headers_low:
  assumes "retrieve_last_headers env el limit upper = Inr (registry, headers)" "min_key registry = Some low"
  shows "low \<le> upper"
proof -
  let ?from = "if upper < limit then 0 else upper - limit"
  have from_le: "?from \<le> upper" by (auto simp: not_less word_sub_le)
  obtain h hs where h: "headers = h # hs" using retrieve_last_headers_InrD(2)[OF assms(1)] by (cases headers) auto
  have "?from \<in> fst ` set registry"
    unfolding retrieve_last_headers_InrD(1)[OF assms(1)] h register_headers.simps
    by (rule register_headers_keeps) (simp add: hm_insert_def)
  then have "Min (fst ` set registry) \<le> ?from" by (intro Min_le) simp_all
  moreover have "low = Min (fst ` set registry)" using assms(2) by (simp add: min_key_Min split: if_splits)
  ultimately have "low \<le> ?from" by simp
  then show ?thesis using from_le by (rule order_trans)
qed


section \<open>The synchronization loop\<close>

function walk_back_reorg ::
  "header_env \<Rightarrow> spv_conf \<Rightarrow> electrum \<Rightarrow> u64 \<Rightarrow> header_table \<Rightarrow> (get_header_fault + unit) \<times> header_table" where
  "walk_back_reorg env conf el upper t =
     (let anchor = anchor_height (spvc_starting_block_header conf) in
      if \<not> anchor < upper then (Inr (), t)
      else case retrieve_last_headers env el difficulty_retarget_interval upper of
        Inl fault \<Rightarrow> (Inl fault, t)
      | Inr (registry, headers) \<Rightarrow>
          if spvc_validation_params conf \<noteq> None
            \<and> isl (validate_headers (env_sha256 env) headers (conf_difficulty_check conf) (conf_constant_difficulty conf))
          then (Inr (), t)
          else case reconcile_reorg env registry anchor t of
                 Inl fault \<Rightarrow> (Inl (StorageFault fault), t)
               | Inr (NeedMoreHistory, t') \<Rightarrow>
                   (let low = (case min_key registry of Some low \<Rightarrow> low | None \<Rightarrow> anchor) in
                    if low \<le> anchor then (Inr (), t') else walk_back_reorg env conf el (low - 1) t')
               | Inr (ForkAt fork, t') \<Rightarrow> (Inr (), t')
               | Inr (NoReorg, t') \<Rightarrow> (Inr (), t')
               | Inr (BadStartingHeaderChain, t') \<Rightarrow> (Inr (), t'))"
  by pat_completeness auto

termination walk_back_reorg
proof (relation "measure (\<lambda>(env, conf, el, upper, t). unat upper)", goal_cases)
  case (2 env conf el upper t anchor pair registry headers result outcome t' low)
  then have "low = (case min_key registry of Some low \<Rightarrow> low | None \<Rightarrow> anchor)" "\<not> low \<le> anchor" by blast+
  then have low: "min_key registry = Some low" "low \<noteq> 0" by (cases "min_key registry"; auto)+
  have "low \<le> upper" using retrieve_last_headers_low[OF _ low(1)] 2 by metis
  moreover have "unat low \<noteq> 0" using low(2) by (simp add: unsigned_eq_0_iff)
  ultimately show ?case by (simp add: word_le_nat_alt unat_minus_one[OF low(2)])
qed auto

declare walk_back_reorg.simps [simp del]

text \<open>One turn of \<open>block_header_utxo_loop\<close>: whether the loop goes on, and the table; a panic is \<open>None\<close>.\<close>

definition panics :: "get_header_fault \<Rightarrow> bool" where
  "panics fault = (fault = DecodeFault Panicked \<or> fault = StorageFault Panicked)"

definition header_sync_tick ::
  "header_env \<Rightarrow> spv_conf \<Rightarrow> electrum \<Rightarrow> u64 option \<Rightarrow> header_table \<Rightarrow> (bool \<times> header_table) option" where
  "header_sync_tick env conf el block_count t =
     (let anchor = anchor_height (spvc_starting_block_header conf);
          again = (\<lambda>fault t. if panics fault then None else Some (True, t));
          prune = (\<lambda>t. case spvc_max_stored_block_headers conf of
                          Some max_stored \<Rightarrow> Some (True, prune_old_headers max_stored t) | None \<Rightarrow> Some (True, t)) in
      case block_count of
        None \<Rightarrow> Some (True, t)
      | Some height \<Rightarrow>
          (case retrieve_last_headers env el difficulty_retarget_interval height of
             Inl fault \<Rightarrow> again fault t
           | Inr (registry, headers) \<Rightarrow>
               if spvc_validation_params conf \<noteq> None
                 \<and> isl (validate_headers (env_sha256 env) headers (conf_difficulty_check conf) (conf_constant_difficulty conf))
               then Some (True, t)
               else (case reconcile_reorg env registry anchor t of
                      Inl fault \<Rightarrow> again (StorageFault fault) t
                    | Inr (NoReorg, t) \<Rightarrow> prune (add_block_headers registry t)
                    | Inr (ForkAt fork, t) \<Rightarrow> prune t
                    | Inr (NeedMoreHistory, t) \<Rightarrow>
                        (case walk_back_reorg env conf el height t of
                           (Inl fault, t) \<Rightarrow> again fault t
                         | (Inr _, t) \<Rightarrow> prune t)
                    | Inr (BadStartingHeaderChain, t) \<Rightarrow> Some (False, t))))"

end
