(* ===== verification/HeaderChain.thy ===== *)
theory HeaderChain
  imports HeaderSync
begin

text \<open>
  The table of headers as a chain. Where a batch of headers from a server overlaps the stored
  chain, storing it, after dropping what the server has abandoned, keeps the chain linked by the
  hashes of its headers.
\<close>

section \<open>The chain in a table\<close>

definition chain_of :: "header_env \<Rightarrow> header_table \<Rightarrow> u64 \<Rightarrow> block_header option" where
  "chain_of env t k = (case get_block_header env t k of Inr h \<Rightarrow> h | Inl _ \<Rightarrow> None)"

definition stored_ok :: "header_env \<Rightarrow> block_header \<Rightarrow> bool" where
  "stored_ok env h = header_ok StandardCoin (env_stack_depth env) h"

definition table_ok :: "header_env \<Rightarrow> header_table \<Rightarrow> bool" where
  "table_ok env t = hm_forall (\<lambda>_ raw. \<exists>h. raw = put_header h \<and> stored_ok env h) t"

abbreviation hash_of :: "header_env \<Rightarrow> block_header \<Rightarrow> h256" where
  "hash_of env \<equiv> header_hash (dhash256 (env_sha256 env))"

definition chain_linked :: "header_env \<Rightarrow> (u64 \<Rightarrow> block_header option) \<Rightarrow> bool" where
  "chain_linked env m = (\<forall>k h h'. m k = Some h \<longrightarrow> k \<noteq> - 1 \<longrightarrow> m (k + 1) = Some h' \<longrightarrow> bh_previous_header_hash h' = hash_of env h)"

lemma decode_put_header: "stored_ok env h \<Longrightarrow> decode_header env (put_header h) = Inr h"
  using header_codec[of StandardCoin "env_stack_depth env" h "[]"]
  by (simp add: stored_ok_def deserialize_def is_finished_def)

lemma get_block_header_ok: "table_ok env t \<Longrightarrow> get_block_header env t k = Inr (chain_of env t k)"
  by (cases "hm_get t k") (auto simp: chain_of_def get_block_header_def table_ok_def decode_put_header dest: hm_forall_get)

lemma chain_of_None_iff: "table_ok env t \<Longrightarrow> chain_of env t k = None \<longleftrightarrow> hm_get t k = None"
  by (cases "hm_get t k") (auto simp: chain_of_def get_block_header_def table_ok_def decode_put_header dest: hm_forall_get)

definition header_batch_ok :: "header_env \<Rightarrow> (u64, block_header) hash_map \<Rightarrow> bool" where
  "header_batch_ok env candidate = hm_forall (\<lambda>_. stored_ok env) candidate"

lemma add_block_headers_chain:
  assumes "header_batch_ok env candidate" "table_ok env t"
  shows "table_ok env (add_block_headers candidate t) \<and> chain_of env (add_block_headers candidate t) k =
    (case hm_get candidate k of Some h \<Rightarrow> Some h | None \<Rightarrow> chain_of env t k)"
  using assms
proof (induction candidate arbitrary: t)
  case (Cons c candidate)
  obtain k' h where c: "c = (k', h)" by (cases c)
  then have ok: "stored_ok env h" "header_batch_ok env candidate" and fresh: "hm_get candidate k' = None"
    using Cons.prems(1) by (auto simp: header_batch_ok_def hm_forall_def hm_ok_def hm_get_def map_of_eq_None_iff)
  let ?t = "hm_insert k' (put_header h) t"
  have "table_ok env ?t" using Cons.prems(2) ok(1) unfolding table_ok_def by (intro hm_forall_insert) auto
  moreover have "chain_of env ?t k = (if k = k' then Some h else chain_of env t k)"
    using ok(1) by (simp add: chain_of_def get_block_header_def hm_get_insert decode_put_header)
  moreover have "add_block_headers (c # candidate) t = add_block_headers candidate ?t" by (simp add: add_block_headers_def c)
  ultimately show ?case
    using Cons.IH[OF ok(2), of ?t] fresh by (auto simp: c hm_get_def split: option.splits)
qed (simp add: add_block_headers_def hm_get_def)

lemma remove_block_headers_chain:
  assumes "table_ok env t"
  shows "table_ok env (remove_block_headers_from_to a b t)"
    "chain_of env (remove_block_headers_from_to a b t) k = (if a \<le> k \<and> k \<le> b then None else chain_of env t k)"
proof -
  show "table_ok env (remove_block_headers_from_to a b t)"
    using assms unfolding table_ok_def remove_block_headers_from_to_def by (rule hm_forall_filter)
  have "hm_get (remove_block_headers_from_to a b t) k = (if a \<le> k \<and> k \<le> b then None else hm_get t k)"
    using assms hm_get_filter[of t "\<lambda>height _. \<not> (a \<le> height \<and> height \<le> b)" k]
    by (auto simp: remove_block_headers_from_to_def table_ok_def hm_forall_def split: option.splits)
  then show "chain_of env (remove_block_headers_from_to a b t) k = (if a \<le> k \<and> k \<le> b then None else chain_of env t k)"
    by (simp add: chain_of_def get_block_header_def)
qed

lemma get_last_block_height_max:
  assumes "table_ok env t" "chain_of env t k \<noteq> None"
  obtains tip where "get_last_block_height t = Some tip" "k \<le> tip" "chain_of env t tip \<noteq> None"
proof -
  have "get_last_block_height t = max_key t" by (simp add: get_last_block_height_def max_key_def)
  have keys: "chain_of env t j \<noteq> None \<longleftrightarrow> j \<in> fst ` set t" for j
    using chain_of_None_iff[OF assms(1), of j] by (auto simp: hm_get_def map_of_eq_None_iff)
  then have "k \<in> fst ` set t" using assms(2) by simp
  then have "t \<noteq> []" "k \<le> Max (fst ` set t)" "Max (fst ` set t) \<in> fst ` set t" by (auto intro: Max_in)
  then show ?thesis
    using that[of "Max (fst ` set t)"] keys \<open>get_last_block_height t = max_key t\<close> by (simp add: max_key_Max)
qed

lemma load_headers_chain:
  assumes "table_ok env t"
  shows "\<exists>m. load_headers env t hs stored = Inr m \<and>
    (\<forall>k. hm_get m k = (if k \<in> set hs \<and> chain_of env t k \<noteq> None then chain_of env t k else hm_get stored k))"
proof (induction hs arbitrary: stored)
  case (Cons a hs)
  let ?s = "case chain_of env t a of Some header \<Rightarrow> hm_insert a header stored | None \<Rightarrow> stored"
  obtain m where m: "load_headers env t hs ?s = Inr m"
      "\<And>k. hm_get m k = (if k \<in> set hs \<and> chain_of env t k \<noteq> None then chain_of env t k else hm_get ?s k)"
    using Cons.IH[of ?s] by blast
  then show ?case
    by (intro exI[of _ m]) (auto simp: get_block_header_ok[OF assms] hm_get_insert split: option.splits)
qed simp

section \<open>Batches\<close>

lemma unat_less64: "unat (k :: u64) < 2 ^ 64"
proof -
  have "unat k < 2 ^ LENGTH(64)" by (rule unsigned_less)
  then show ?thesis by simp
qed

lemma in_heights: "k \<in> set (heights low high) \<longleftrightarrow> low \<le> k \<and> k \<le> high"
proof -
  have "set (heights low high) = of_nat ` {unat low..unat high}"
    by (simp only: heights_def set_map set_upt atLeastLessThanSuc_atLeastAtMost)
  moreover have small: "unat (of_nat n :: u64) = n" if "n \<le> unat high" for n
    using that unat_less64[of high] by (intro unat_of_nat64) (rule le_less_trans)
  moreover have "k \<in> of_nat ` {unat low..unat high}" if "unat low \<le> unat k" "unat k \<le> unat high"
    using that by (intro image_eqI[of _ _ "unat k"]) simp_all
  ultimately show ?thesis unfolding word_le_nat_alt by auto
qed

lemma find_heights:
  assumes "List.find P (heights low high) = Some k"
  shows "P k" "low \<le> k" "k \<le> high" "\<And>j. low \<le> j \<Longrightarrow> j < k \<Longrightarrow> \<not> P j"
proof -
  obtain i where i: "i < length (heights low high)" "P (heights low high ! i)" "k = heights low high ! i"
      "\<forall>j<i. \<not> P (heights low high ! j)"
    using assms by (auto simp: find_Some_iff)
  then show "P k" by simp
  have "k \<in> set (heights low high)" using i by simp
  then show "low \<le> k" "k \<le> high" by (simp_all add: in_heights)
  have bound: "unat low + i \<le> unat high" using i(1) by (auto simp: heights_def split: if_splits)
  then have small: "unat low + j < 2 ^ 64" if "j \<le> i" for j using that unat_less64[of high] by simp
  have nth: "heights low high ! j = of_nat (unat low + j)" if "j \<le> i" for j
    using that i(1) by (simp add: heights_def del: upt_Suc)
  show "\<not> P j" if "low \<le> j" "j < k" for j
  proof -
    let ?j = "unat j - unat low"
    have "unat k = unat low + i" unfolding i(3) nth[OF order_refl] by (rule unat_of_nat64[OF small[OF order_refl]])
    then have "unat j < unat low + i" using that(2) by (simp add: word_less_nat_alt)
    then have "?j < i" "unat low + ?j = unat j" using that(1) by (auto simp: word_le_nat_alt)
    then show ?thesis using i(4) nth[of ?j] by (simp, metis)
  qed
qed


lemma find_heights_None: "List.find P (heights low high) = None \<Longrightarrow> low \<le> k \<Longrightarrow> k \<le> high \<Longrightarrow> \<not> P k"
  using in_heights[of k low high] by (auto simp: find_None_iff)

text \<open>
  A batch covers a range of heights and is linked. It overlaps the stored chain if the stored chain
  has no header right below or above the range without one inside the range at that end.
\<close>

definition batch_covers :: "(u64, block_header) hash_map \<Rightarrow> u64 \<Rightarrow> u64 \<Rightarrow> bool" where
  "batch_covers candidate low high = (low \<le> high \<and> (\<forall>k. hm_get candidate k \<noteq> None \<longleftrightarrow> low \<le> k \<and> k \<le> high))"

lemma batch_covers_keys:
  assumes "batch_covers candidate low high"
  shows "min_key candidate = Some low" "max_key candidate = Some high"
proof -
  have keys: "fst ` set candidate = {low..high}"
    using assms by (auto simp: batch_covers_def hm_get_def map_of_eq_None_iff set_eq_iff)
  then have "candidate \<noteq> []" using assms by (auto simp: batch_covers_def)
  then show "min_key candidate = Some low" "max_key candidate = Some high"
    using keys assms by (auto simp: min_key_Min max_key_Max batch_covers_def intro: Min_eqI Max_eqI)
qed

definition overlaps :: "(u64 \<Rightarrow> block_header option) \<Rightarrow> u64 \<Rightarrow> u64 \<Rightarrow> bool" where
  "overlaps m low high =
     ((low \<noteq> 0 \<and> m (low - 1) \<noteq> None \<longrightarrow> m low \<noteq> None) \<and> (high \<noteq> - 1 \<and> m (high + 1) \<noteq> None \<longrightarrow> m high \<noteq> None))"

definition no_hash_clash :: "header_env \<Rightarrow> (u64 \<Rightarrow> block_header option) \<Rightarrow> (u64 \<Rightarrow> block_header option) \<Rightarrow> bool" where
  "no_hash_clash env m c = (\<forall>k h h'. m k = Some h \<longrightarrow> c k = Some h' \<longrightarrow> hash_of env h = hash_of env h' \<longrightarrow> h = h')"

definition overlay :: "(u64 \<Rightarrow> block_header option) \<Rightarrow> (u64 \<Rightarrow> block_header option) \<Rightarrow> u64 \<Rightarrow> block_header option" where
  "overlay c m k = (case c k of Some h \<Rightarrow> Some h | None \<Rightarrow> m k)"

lemma suc_word: "(k :: u64) \<noteq> - 1 \<Longrightarrow> unat (k + 1) = Suc (unat k)"
  using unat_less64[of k] by (simp add: word_unat_eq_iff unat_word_ariths unsigned_minus_1_eq_mask mask_eq_exp_minus_1)

lemma overlay_linked:
  assumes "chain_linked env m" "chain_linked env c" and c: "\<And>k. c k \<noteq> None \<longleftrightarrow> low \<le> k \<and> k \<le> high"
    and below: "\<And>p h. low \<noteq> 0 \<Longrightarrow> m (low - 1) = Some p \<Longrightarrow> c low = Some h \<Longrightarrow> bh_previous_header_hash h = hash_of env p"
    and above: "\<And>p h. high \<noteq> - 1 \<Longrightarrow> m (high + 1) = Some h \<Longrightarrow> c high = Some p \<Longrightarrow> bh_previous_header_hash h = hash_of env p"
  shows "chain_linked env (overlay c m)"
  unfolding chain_linked_def
proof (intro allI impI)
  fix k h h'
  assume k: "overlay c m k = Some h" "k \<noteq> - 1" "overlay c m (k + 1) = Some h'"
  note suc = suc_word[OF k(2)]
  consider "c k \<noteq> None" "c (k + 1) \<noteq> None" | "c k = None" "c (k + 1) = None"
    | "c k = None" "c (k + 1) \<noteq> None" | "c k \<noteq> None" "c (k + 1) = None" by blast
  then show "bh_previous_header_hash h' = hash_of env h"
  proof cases
    case 3
    then have "k + 1 = low" using c[of k] c[of "k + 1"] suc by (simp add: word_le_nat_alt word_unat_eq_iff)
    moreover have "k + 1 \<noteq> 0" using suc by auto
    ultimately show ?thesis using 3 k below by (auto simp: overlay_def)
  next
    case 4
    then have "k = high" using c[of k] c[of "k + 1"] suc by (simp add: word_le_nat_alt word_unat_eq_iff)
    then show ?thesis using 4 k above by (auto simp: overlay_def)
  qed (use k assms(1,2) in \<open>auto simp: overlay_def chain_linked_def\<close>)
qed


lemma detect_reorg_NoReorg:
  assumes "batch_covers candidate low high" "detect_reorg env stored candidate anchor = NoReorg"
    and "hm_get stored k = Some s" "hm_get candidate k = Some h"
  shows "hash_of env s = hash_of env h"
proof -
  have "List.find (headers_differ env stored candidate) (heights low high) = None"
    using assms(2) batch_covers_keys[OF assms(1)] by (simp add: detect_reorg_def split: option.splits if_splits)
  moreover have "low \<le> k \<and> k \<le> high" using assms(1,4) by (metis batch_covers_def option.distinct(1))
  ultimately show ?thesis using find_heights_None[of "headers_differ env stored candidate" low high k] assms(3,4) by (auto simp: headers_differ_def)
qed

lemma detect_reorg_ForkAt:
  assumes "batch_covers candidate low high" "detect_reorg env stored candidate anchor = ForkAt fork"
  shows "low \<le> fork" "fork \<le> high" "fork \<noteq> 0"
    "\<exists>p h. hm_get stored (fork - 1) = Some p \<and> hm_get candidate fork = Some h \<and> bh_previous_header_hash h = hash_of env p"
    "\<And>k s h. low \<le> k \<Longrightarrow> k < fork \<Longrightarrow> hm_get stored k = Some s \<Longrightarrow> hm_get candidate k = Some h \<Longrightarrow> hash_of env s = hash_of env h"
proof -
  have "List.find (headers_differ env stored candidate) (heights low high) = Some fork \<and> \<not> fork \<le> anchor
      \<and> (\<exists>p h. hm_get stored (fork - 1) = Some p \<and> hm_get candidate fork = Some h \<and> bh_previous_header_hash h = hash_of env p)"
    using assms(2) batch_covers_keys[OF assms(1)] by (auto simp: detect_reorg_def split: option.splits if_splits)
  then have f: "List.find (headers_differ env stored candidate) (heights low high) = Some fork"
    and "\<not> fork \<le> anchor" and p: "\<exists>p h. hm_get stored (fork - 1) = Some p \<and> hm_get candidate fork = Some h \<and> bh_previous_header_hash h = hash_of env p"
    by blast+
  show "low \<le> fork" "fork \<le> high" by (rule find_heights[OF f])+
  show "fork \<noteq> 0" using \<open>\<not> fork \<le> anchor\<close> by auto
  show "\<exists>p h. hm_get stored (fork - 1) = Some p \<and> hm_get candidate fork = Some h \<and> bh_previous_header_hash h = hash_of env p"
    by (rule p)
  show "hash_of env s = hash_of env h"
    if "low \<le> k" "k < fork" "hm_get stored k = Some s" "hm_get candidate k = Some h" for k s h
    using find_heights(4)[OF f that(1,2)] that(3,4) by (simp add: headers_differ_def)
qed

text \<open>What reconciling a batch does to the table.\<close>

lemma reconcile_reorg_detects:
  assumes "table_ok env t" "batch_covers candidate low high"
  obtains stored where
    "\<And>k. hm_get stored k = (if (if low = 0 then 0 else low - 1) \<le> k \<and> k \<le> high then chain_of env t k else None)"
    "reconcile_reorg env candidate anchor t =
      (case detect_reorg env stored candidate anchor of
         ForkAt fork \<Rightarrow> Inr (ForkAt fork, add_block_headers candidate (remove_stale_suffix fork t))
       | outcome \<Rightarrow> Inr (outcome, t))"
proof -
  let ?from = "if low = 0 then 0 else low - 1"
  obtain stored where stored: "load_headers env t (heights ?from high) [] = Inr stored"
      "\<And>k. hm_get stored k = (if ?from \<le> k \<and> k \<le> high then chain_of env t k else None)"
    using load_headers_chain[OF assms(1), of "heights ?from high" "[]"] by (auto simp only: in_heights hm_get_Nil) metis
  show ?thesis
    using stored(1) batch_covers_keys[OF assms(2)]
    by (intro that[OF stored(2)]) (simp add: reconcile_reorg_def Let_def split: reorg_outcome.splits)
qed

lemma remove_stale_suffix_chain:
  assumes "table_ok env t"
  shows "table_ok env (remove_stale_suffix fork t)"
    "chain_of env (remove_stale_suffix fork t) k = (if fork \<le> k then None else chain_of env t k)"
proof -
  show "table_ok env (remove_stale_suffix fork t)"
    using assms remove_block_headers_chain(1) by (auto simp: remove_stale_suffix_def split: option.splits)
  show "chain_of env (remove_stale_suffix fork t) k = (if fork \<le> k then None else chain_of env t k)"
  proof (cases "chain_of env t k")
    case None
    then show ?thesis using remove_block_headers_chain(2)[OF assms] by (auto simp: remove_stale_suffix_def split: option.splits)
  next
    case (Some h)
    then obtain tip where "get_last_block_height t = Some tip" "k \<le> tip" using get_last_block_height_max[OF assms, of k] by auto
    then show ?thesis using remove_block_headers_chain(2)[OF assms] by (auto simp: remove_stale_suffix_def)
  qed
qed

lemma fork_table_chain:
  assumes "table_ok env t" "header_batch_ok env candidate"
  shows "table_ok env (add_block_headers candidate (remove_stale_suffix fork t))"
    "chain_of env (add_block_headers candidate (remove_stale_suffix fork t))
      = overlay (hm_get candidate) (\<lambda>k. if fork \<le> k then None else chain_of env t k)"
  using add_block_headers_chain[OF assms(2) remove_stale_suffix_chain(1)[OF assms(1), of fork]]
  by (simp_all add: overlay_def fun_eq_iff remove_stale_suffix_chain(2)[OF assms(1)] split: option.splits)

lemma overlay_same_linked:
  assumes t: "chain_linked env m" and c: "chain_linked env c" "\<And>k. c k \<noteq> None \<longleftrightarrow> low \<le> k \<and> k \<le> high"
    and over: "overlaps m low high" and low: "low \<le> high"
    and same: "\<And>k s h. low \<le> k \<Longrightarrow> k \<le> high \<Longrightarrow> m k = Some s \<Longrightarrow> c k = Some h \<Longrightarrow> s = h"
  shows "chain_linked env (overlay c m)"
proof (rule overlay_linked[OF t c])
  fix p h
  assume l: "low \<noteq> 0" "m (low - 1) = Some p" "c low = Some h"
  then obtain s where "m low = Some s" using over by (auto simp: overlaps_def)
  moreover have "s = h" using same[of low] calculation l(3) low by auto
  moreover have "low - 1 \<noteq> - 1" using l(1) by simp
  ultimately show "bh_previous_header_hash h = hash_of env p" using t l(2) by (auto simp: chain_linked_def dest: spec[of _ "low - 1"])
next
  fix p h
  assume l: "high \<noteq> - 1" "m (high + 1) = Some h" "c high = Some p"
  then obtain s where "m high = Some s" using over by (auto simp: overlaps_def)
  moreover have "s = p" using same[of high] calculation l(3) low by auto
  ultimately show "bh_previous_header_hash h = hash_of env p" using t l(1,2) by (auto simp: chain_linked_def)
qed


lemma fork_overlay_linked:
  assumes t: "chain_linked env m" and c: "chain_linked env c" "\<And>k. c k \<noteq> None \<longleftrightarrow> low \<le> k \<and> k \<le> high"
    and over: "overlaps m low high" and fork: "low \<le> fork" "fork \<le> high"
    and pred: "m (fork - 1) = Some p" "c fork = Some h" "bh_previous_header_hash h = hash_of env p"
    and same: "\<And>k s h. low \<le> k \<Longrightarrow> k < fork \<Longrightarrow> m k = Some s \<Longrightarrow> c k = Some h \<Longrightarrow> s = h"
  shows "chain_linked env (overlay c (\<lambda>k. if fork \<le> k then None else m k))"
proof (rule overlay_linked[OF _ c])
  show "chain_linked env (\<lambda>k. if fork \<le> k then None else m k)" using t by (auto simp: chain_linked_def)
next
  fix q g
  assume l: "low \<noteq> 0" "(if fork \<le> low - 1 then None else m (low - 1)) = Some q" "c low = Some g"
  have q: "m (low - 1) = Some q" using l(2) by (simp split: if_splits)
  show "bh_previous_header_hash g = hash_of env q"
  proof (cases "fork = low")
    case True
    then show ?thesis using pred q l(3) by simp
  next
    case False
    then have "low < fork" using fork(1) by simp
    moreover obtain s where "m low = Some s" using over l(1) q by (auto simp: overlaps_def)
    moreover have "s = g" using same[of low] calculation l(3) by auto
    moreover have "low - 1 \<noteq> - 1" using l(1) by simp
    ultimately show ?thesis using t q by (auto simp: chain_linked_def dest: spec[of _ "low - 1"])
  qed
next
  fix q g
  assume l: "high \<noteq> - 1" "(if fork \<le> high + 1 then None else m (high + 1)) = Some g"
  then have "\<not> fork \<le> high + 1" by (simp split: if_splits)
  then show "bh_previous_header_hash g = hash_of env q" using fork(2) suc_word[OF l(1)] by (simp add: word_le_nat_alt)
qed

text \<open>Reconciling an overlapping batch.\<close>

lemma reconcile_linked:
  assumes t: "table_ok env t" "chain_linked env (chain_of env t)"
    and batch: "header_batch_ok env candidate" "batch_covers candidate low high" "chain_linked env (hm_get candidate)"
    and over: "overlaps (chain_of env t) low high" "no_hash_clash env (chain_of env t) (hm_get candidate)"
  obtains (same) "reconcile_reorg env candidate anchor t = Inr (NoReorg, t)"
      "chain_linked env (overlay (hm_get candidate) (chain_of env t))"
    | (fork) fork where "reconcile_reorg env candidate anchor t =
        Inr (ForkAt fork, add_block_headers candidate (remove_stale_suffix fork t))"
      "chain_linked env (overlay (hm_get candidate) (\<lambda>k. if fork \<le> k then None else chain_of env t k))"
    | (other) outcome where "reconcile_reorg env candidate anchor t = Inr (outcome, t)"
      "outcome = NeedMoreHistory \<or> outcome = BadStartingHeaderChain"
proof -
  let ?m = "chain_of env t" and ?c = "hm_get candidate"
  obtain stored where
    stored: "\<And>k. hm_get stored k = (if (if low = 0 then 0 else low - 1) \<le> k \<and> k \<le> high then ?m k else None)"
    and r: "reconcile_reorg env candidate anchor t =
      (case detect_reorg env stored candidate anchor of
         ForkAt fork \<Rightarrow> Inr (ForkAt fork, add_block_headers candidate (remove_stale_suffix fork t))
       | outcome \<Rightarrow> Inr (outcome, t))"
    using reconcile_reorg_detects[OF t(1) batch(2)] by blast
  have range: "low \<le> high" "\<And>k. ?c k \<noteq> None \<longleftrightarrow> low \<le> k \<and> k \<le> high" using batch(2) by (auto simp: batch_covers_def)
  have in_range: "hm_get stored k = ?m k" if "low \<le> k" "k \<le> high" for k
    using that stored[of k] by (auto simp: word_le_nat_alt unat_minus_one)
  have equal: "s = h" if "?m k = Some s" "?c k = Some h" "hash_of env s = hash_of env h" for k s h
    using over(2) that by (auto simp: no_hash_clash_def)
  show ?thesis
  proof (cases "detect_reorg env stored candidate anchor")
    case NoReorg
    have "chain_linked env (overlay ?c ?m)"
      using detect_reorg_NoReorg[OF batch(2) NoReorg] in_range equal
      by (intro overlay_same_linked[OF t(2) batch(3) range(2) over(1) range(1)]) metis
    then show ?thesis using same r NoReorg by simp
  next
    case (ForkAt fork)
    note f = detect_reorg_ForkAt[OF batch(2) ForkAt]
    obtain p h where p: "hm_get stored (fork - 1) = Some p" "?c fork = Some h" "bh_previous_header_hash h = hash_of env p"
      using f(4) by blast
    have "?m (fork - 1) = Some p" using p(1) stored[of "fork - 1"] by (simp split: if_splits)
    moreover have "s = g" if "low \<le> k" "k < fork" "?m k = Some s" "?c k = Some g" for k s g
    proof -
      have "hm_get stored k = Some s" using in_range[of k] that f(2) by simp
      from f(5)[OF that(1,2) this that(4)] show ?thesis by (rule equal[OF that(3,4)])
    qed
    ultimately have "chain_linked env (overlay ?c (\<lambda>k. if fork \<le> k then None else ?m k))"
      by (rule fork_overlay_linked[OF t(2) batch(3) range(2) over(1) f(1,2) _ p(2,3)])
    then show ?thesis using that(2) r ForkAt by simp
  qed (use r other in auto)
qed


section \<open>A turn of the synchronization loop\<close>

lemma validate_headers_from_linked:
  assumes "validate_headers_from sha256 dc cd first previous target hs = Inr ()"
  shows "(first \<or> hs = [] \<or> raw_parent (put_header (hs ! 0)) = previous)
    \<and> (\<forall>i. Suc i < length hs \<longrightarrow> raw_parent (put_header (hs ! Suc i)) = header_hash (dhash256 sha256) (hs ! i))"
  using assms
proof (induction hs arbitrary: first previous target)
  case (Cons h hs)
  obtain target' where "validate_headers_from sha256 dc cd False (header_hash (dhash256 sha256) h) target' hs = Inr ()"
    and first: "first \<or> raw_parent (put_header h) = previous"
    using Cons.prems by (auto simp: Let_def raw_digest_def header_hash_def split: sum.splits if_splits)
  from Cons.IH[OF this(1)] first show ?case by (auto simp: nth_Cons split: nat.splits)
qed simp

lemma register_headers_ok:
  "list_all (stored_ok env) hs \<Longrightarrow> header_batch_ok env registry \<Longrightarrow> header_batch_ok env (register_headers from_height hs registry)"
  by (induction hs arbitrary: from_height registry) (simp_all add: header_batch_ok_def hm_forall_insert)

lemma validated_batch:
  assumes "validate_headers sha256 hs dc cd = Inr ()" "list_all (stored_ok env) hs" "sha256 = env_sha256 env"
    and "hs \<noteq> []" "unat from_height + length hs < 2 ^ 64"
  defines "candidate \<equiv> register_headers from_height hs []"
  shows "header_batch_ok env candidate" "batch_covers candidate from_height (from_height + of_nat (length hs - 1))"
    "chain_linked env (hm_get candidate)"
proof -
  show "header_batch_ok env candidate"
    unfolding candidate_def using assms(2) by (rule register_headers_ok) (simp add: header_batch_ok_def hm_forall_Nil)
  have get: "hm_get candidate k = (if from_height \<le> k \<and> unat k < unat from_height + length hs
      then Some (hs ! (unat k - unat from_height)) else None)" for k
    unfolding candidate_def using assms(5) by (subst get_register_headers) (simp_all add: hm_get_Nil)
  have "length hs - 1 < 2 ^ 64" using assms(5) by simp
  from unat_of_nat64[OF this] have high: "unat (from_height + of_nat (length hs - 1)) = unat from_height + (length hs - 1)"
    using assms(5) by (subst unat_add_lem[THEN iffD1]) simp_all
  have iff: "unat k < unat from_height + length hs \<longleftrightarrow> k \<le> from_height + of_nat (length hs - 1)" for k
    unfolding word_le_nat_alt high using assms(4) by (cases hs) auto
  have "from_height \<le> from_height + of_nat (length hs - 1)" by (simp only: word_le_nat_alt high le_add1)
  then show "batch_covers candidate from_height (from_height + of_nat (length hs - 1))"
    unfolding batch_covers_def get iff by simp
  show "chain_linked env (hm_get candidate)"
    unfolding chain_linked_def
  proof (intro allI impI)
    fix k h h'
    assume k: "hm_get candidate k = Some h" "k \<noteq> - 1" "hm_get candidate (k + 1) = Some h'"
    let ?i = "unat k - unat from_height"
    have i: "h = hs ! ?i" "h' = hs ! Suc ?i" "Suc ?i < length hs"
      using k suc_word[OF k(2)] by (auto simp: get word_le_nat_alt Suc_diff_le split: if_splits)
    then have "stored_ok env h'" using assms(2) by (simp add: list_all_length)
    then have "raw_parent (put_header h') = bh_previous_header_hash h'" unfolding stored_ok_def by (rule raw_header_fields)
    then show "bh_previous_header_hash h' = hash_of env h"
      using validate_headers_from_linked[OF assms(1)[unfolded validate_headers_def]] i assms(3) by simp
  qed
qed

lemma prune_linked:
  assumes "table_ok env t" "chain_linked env (chain_of env t)"
  shows "table_ok env (prune_old_headers n t)" "chain_linked env (chain_of env (prune_old_headers n t))"
    "chain_of env (prune_old_headers n t) k = None \<or> chain_of env (prune_old_headers n t) k = chain_of env t k"
proof -
  show "table_ok env (prune_old_headers n t)"
    using assms(1) remove_block_headers_chain(1) by (auto simp: prune_old_headers_def split: option.splits)
  have sub: "chain_of env (prune_old_headers n t) j = None \<or> chain_of env (prune_old_headers n t) j = chain_of env t j" for j
    using remove_block_headers_chain(2)[OF assms(1)] by (auto simp: prune_old_headers_def split: option.splits)
  then show "chain_of env (prune_old_headers n t) k = None \<or> chain_of env (prune_old_headers n t) k = chain_of env t k" by simp
  show "chain_linked env (chain_of env (prune_old_headers n t))"
    unfolding chain_linked_def
  proof (intro allI impI)
    fix j h h'
    assume j: "chain_of env (prune_old_headers n t) j = Some h" "j \<noteq> - 1" "chain_of env (prune_old_headers n t) (j + 1) = Some h'"
    then have "chain_of env t j = Some h" "chain_of env t (j + 1) = Some h'" using sub[of j] sub[of "j + 1"] by auto
    then show "bh_previous_header_hash h' = hash_of env h" using assms(2) j(2) by (simp add: chain_linked_def)
  qed
qed


text \<open>The range of the headers that a turn of the loop asks for.\<close>

definition sync_from :: "u64 \<Rightarrow> u64" where
  "sync_from height = (if height < difficulty_retarget_interval then 0 else height - difficulty_retarget_interval)"



section \<open>A reorganization\<close>

text \<open>
  A table of two headers, and a server whose chain replaces the second one. The hash function of
  the example is the first 32 bytes.
\<close>

interpretation headerc: codec put_header "get_header depth variant" "header_ok variant depth"
  by unfold_locales (rule header_codec)

definition demo_header_env :: header_env where
  "demo_header_env = \<lparr>env_sha256 = (\<lambda>bs. take 32 (bs @ replicate 32 0)), env_stack_depth = Suc 0, env_header_size = 1000\<rparr>"

definition demo_block :: "u32 \<Rightarrow> h256 \<Rightarrow> block_header" where
  "demo_block version previous =
     BlockHeader version previous (replicate 32 2) None 1600000000 (BitsCompact 0x1d00ffff) (NonceU32 7) None None None None
       False None None None None None None None"

definition demo_genesis :: block_header where
  "demo_genesis = demo_block 1 (replicate 32 0)"

definition demo_stale :: block_header where
  "demo_stale = demo_block 2 (hash_of demo_header_env demo_genesis)"

definition demo_new :: block_header where
  "demo_new = demo_block 3 (hash_of demo_header_env demo_genesis)"

definition demo_table :: header_table where
  "demo_table = [(0, put_header demo_genesis), (1, put_header demo_stale)]"

definition demo_server :: electrum where
  "demo_server =
     \<lparr>el_scripthash_get_history = (\<lambda>_. None), el_transaction_get_merkle = (\<lambda>_ _. None), el_block_header = (\<lambda>_. None),
      el_block_headers = (\<lambda>_ _. Some (2, put_header demo_genesis @ put_header demo_new))\<rparr>"

definition demo_conf :: spv_conf where
  "demo_conf =
     \<lparr>spvc_starting_block_header = \<lparr>anchor_height = 0, anchor_hash = replicate 32 0, anchor_time = 0, anchor_bits = 0\<rparr>,
      spvc_max_stored_block_headers = None,
      spvc_validation_params = Some \<lparr>vp_difficulty_check = False, vp_constant_difficulty = False, vp_difficulty_algorithm = None\<rparr>\<rparr>"

lemma demo_hash:
  "hash_of demo_header_env (demo_block version previous) = put_u32 version @ take 28 previous" if "length previous = 32"
  using that
  by (simp add: header_hash_def dhash256_def demo_header_env_def demo_block_def put_hash_def)

lemma demo_block_ok:
  "length previous = 32 \<Longrightarrow> version \<in> {1, 2, 3} \<Longrightarrow> stored_ok demo_header_env (demo_block version previous)"
  by (auto simp: stored_ok_def demo_header_env_def demo_block_def opt_ok_def header_versions prog_pow_switch_time_def is_prog_pow_def)


lemma demo_chain_facts:
  "stored_ok demo_header_env demo_genesis" "stored_ok demo_header_env demo_stale" "stored_ok demo_header_env demo_new"
  "hash_of demo_header_env demo_stale \<noteq> hash_of demo_header_env demo_new"
  "bh_previous_header_hash demo_stale = hash_of demo_header_env demo_genesis"
  "bh_previous_header_hash demo_new = hash_of demo_header_env demo_genesis"
proof -
  have len: "length (hash_of demo_header_env demo_genesis) = 32" by (simp add: demo_genesis_def demo_hash)
  show "stored_ok demo_header_env demo_genesis" unfolding demo_genesis_def by (rule demo_block_ok) simp_all
  show "stored_ok demo_header_env demo_stale" "stored_ok demo_header_env demo_new"
    unfolding demo_stale_def demo_new_def by (rule demo_block_ok[OF len], simp)+
  show "hash_of demo_header_env demo_stale \<noteq> hash_of demo_header_env demo_new"
    unfolding demo_stale_def demo_new_def demo_hash[OF len] using u32c.put_inj[of 2 3] by auto
  show "bh_previous_header_hash demo_stale = hash_of demo_header_env demo_genesis"
      "bh_previous_header_hash demo_new = hash_of demo_header_env demo_genesis"
    by (simp_all add: demo_stale_def demo_new_def demo_block_def)
qed

lemma demo_retrieve:
  "retrieve_last_headers demo_header_env demo_server difficulty_retarget_interval 2 =
    Inr ([(0, demo_genesis), (1, demo_new)], [demo_genesis, demo_new])"
proof -
  have "get_list 1000 (get_header (Suc 0) StandardCoin) (put_list put_header [demo_genesis, demo_new] @ []) =
      Inr ([demo_genesis, demo_new], [])"
    using demo_chain_facts(1,3) by (intro headerc.get_list_put) (simp_all add: stored_ok_def demo_header_env_def isize_max_def)
  then show ?thesis
    by (simp add: retrieve_last_headers_def demo_server_def difficulty_retarget_interval_def put_list_def demo_header_env_def hm_insert_def)
qed

lemma demo_table_chain:
  "table_ok demo_header_env demo_table"
  "chain_of demo_header_env demo_table k = (if k = 0 then Some demo_genesis else if k = 1 then Some demo_stale else None)"
  using demo_chain_facts(1,2)
  by (auto simp: table_ok_def demo_table_def hm_forall_def hm_ok_def chain_of_def get_block_header_def hm_get_def decode_put_header)



end
