(* ===== verification/SpvClient.thy ===== *)
theory SpvClient
  imports HeaderChain
begin

text \<open>
  The client of simplified payment verification (\<open>validate_spv_proof\<close>, \<open>spv_proof_retry_pool\<close> and
  \<open>get_tx_height\<close> of \<open>coins/utxo/utxo_common/utxo_common_spv.rs\<close>): it asks a server for the height of
  a transaction, its merkle branch and the header, retrying until a deadline, and checks the proof
  they make. A run is the list of the clock readings and servers of the rounds; \<open>None\<close> is a run that
  has not ended, or a panic.
\<close>

section \<open>Collecting a proof\<close>

abbreviation txid :: "header_env \<Rightarrow> transaction \<Rightarrow> h256" where
  "txid env tx \<equiv> tx_hash_of (dhash256 (env_sha256 env)) (env_sha256 env) tx"

definition electrum_script_hash :: "header_env \<Rightarrow> bytes \<Rightarrow> bytes" where
  "electrum_script_hash env script = rev (env_sha256 env script)"

fun get_tx_height_outputs :: "header_env \<Rightarrow> electrum \<Rightarrow> h256 \<Rightarrow> transaction_output list \<Rightarrow> u64 option" where
  "get_tx_height_outputs env el hash [] = None"
| "get_tx_height_outputs env el hash (out # outs) =
     (case el_scripthash_get_history el (electrum_script_hash env (out_script_pubkey out)) of
        None \<Rightarrow> get_tx_height_outputs env el hash outs
      | Some history \<Rightarrow>
          (case List.find (\<lambda>item. rev (hi_tx_hash item) = hash \<and> sint (hi_height item) > 0) history of
             Some item \<Rightarrow> Some (hi_height item)
           | None \<Rightarrow> get_tx_height_outputs env el hash outs))"

definition get_tx_height :: "header_env \<Rightarrow> electrum \<Rightarrow> transaction \<Rightarrow> u64 option" where
  "get_tx_height env el tx = get_tx_height_outputs env el (txid env tx) (tx_outputs tx)"

record spv_round =
  round_now_ms :: u64
  round_server :: electrum

fun spv_proof_retry_pool ::
  "header_env \<Rightarrow> spv_conf \<Rightarrow> transaction \<Rightarrow> u64 \<Rightarrow> spv_round list \<Rightarrow> u64 option \<Rightarrow> tx_merkle_branch option
    \<Rightarrow> header_table option \<Rightarrow> (spv_error + (tx_merkle_branch \<times> block_header)) option \<times> header_table option" where
  "spv_proof_retry_pool env conf tx try_until [] height branch storage = (None, storage)"
| "spv_proof_retry_pool env conf tx try_until (rnd # rounds) height branch storage =
     (if try_until < round_now_ms rnd div 1000 then (Some (Inl SpvTimeout), storage)
      else
        let el = round_server rnd;
            height = (case height of None \<Rightarrow> get_tx_height env el tx | Some h \<Rightarrow> Some h);
            branch = (case (height, branch) of
                        (Some h, None) \<Rightarrow> el_transaction_get_merkle el (rev (txid env tx)) h
                      | _ \<Rightarrow> branch) in
        case (height, branch) of
          (Some h, Some b) \<Rightarrow>
            (case block_header_from_storage_or_rpc env conf el h storage of
               (Inr header, storage) \<Rightarrow> (Some (Inr (b, header)), storage)
             | (Inl fault, storage) \<Rightarrow>
                 if panics fault then (None, storage)
                 else spv_proof_retry_pool env conf tx try_until rounds height branch storage)
        | _ \<Rightarrow> spv_proof_retry_pool env conf tx try_until rounds height branch storage)"

datatype (plugins only: code size) utxo_rpc_client = NativeClient | ElectrumClient "spv_round list"

definition make_spv_proof :: "header_env \<Rightarrow> transaction \<Rightarrow> tx_merkle_branch \<Rightarrow> block_header \<Rightarrow> spv_error + spv_proof" where
  "make_spv_proof env tx branch header =
     (case raw_header_new (put_header header) of
        Inl _ \<Rightarrow> Inl WrongLengthHeader
      | Inr raw \<Rightarrow>
          Inr \<lparr>spv_tx_id = txid env tx, spv_vin = put_list put_input (tx_inputs tx),
               spv_vout = put_list put_output (tx_outputs tx), spv_index = tmb_pos branch,
               spv_confirming_header = header, spv_raw_header = raw,
               spv_intermediate_nodes = map rev (tmb_merkle branch)\<rparr>)"

definition validate_spv_proof ::
  "header_env \<Rightarrow> spv_conf \<Rightarrow> utxo_rpc_client \<Rightarrow> transaction \<Rightarrow> u64 \<Rightarrow> header_table option
    \<Rightarrow> (spv_error + unit) option \<times> header_table option" where
  "validate_spv_proof env conf client tx try_until storage =
     (case client of
        NativeClient \<Rightarrow> (Some (Inr ()), storage)
      | ElectrumClient rounds \<Rightarrow>
          if tx_outputs tx = [] then (Some (Inl InvalidVout), storage)
          else case spv_proof_retry_pool env conf tx try_until rounds None None storage of
                 (None, storage) \<Rightarrow> (None, storage)
               | (Some (Inl e), storage) \<Rightarrow> (Some (Inl e), storage)
               | (Some (Inr (branch, header)), storage) \<Rightarrow>
                   (Some (bind_res (make_spv_proof env tx branch header) (spv_validate (env_sha256 env))), storage))"

section \<open>An honest server\<close>

text \<open>
  The chain that a server follows maps heights to headers with the transactions of the block. An
  honest server reports for every script where the chain has paid it, the branch of every
  transaction, and the header of every block.
\<close>

type_synonym block_chain = "u64 \<Rightarrow> (block_header \<times> transaction list) option"

definition block_ok :: "header_env \<Rightarrow> block_header \<Rightarrow> transaction list \<Rightarrow> bool" where
  "block_ok env header txs = (stored_ok env header \<and> length txs < 2 ^ 64
     \<and> merkle_root (env_sha256 env) (map (txid env) txs) = Some (bh_merkle_root_hash header))"

definition branch_in_block :: "header_env \<Rightarrow> transaction list \<Rightarrow> u64 \<Rightarrow> nat \<Rightarrow> tx_merkle_branch" where
  "branch_in_block env txs height i =
     \<lparr>tmb_merkle = map rev (branch_of (env_sha256 env) (map (txid env) txs) i), tmb_block_height = height,
      tmb_pos = of_nat i\<rparr>"

definition honest_server :: "header_env \<Rightarrow> block_chain \<Rightarrow> electrum \<Rightarrow> bool" where
  "honest_server env chain el =
     ((\<forall>height header txs. chain height = Some (header, txs) \<longrightarrow> block_ok env header txs \<and> 0 < sint height)
      \<and> (\<forall>script history item. el_scripthash_get_history el script = Some history \<longrightarrow> item \<in> set history
           \<longrightarrow> sint (hi_height item) > 0 \<longrightarrow> (\<exists>header txs. chain (hi_height item) = Some (header, txs)
             \<and> rev (hi_tx_hash item) \<in> txid env ` set txs))
      \<and> (\<forall>height header txs tx out. chain height = Some (header, txs) \<longrightarrow> tx \<in> set txs \<longrightarrow> out \<in> set (tx_outputs tx)
           \<longrightarrow> (\<exists>history item. el_scripthash_get_history el (electrum_script_hash env (out_script_pubkey out)) = Some history
             \<and> item \<in> set history \<and> hi_height item = height \<and> rev (hi_tx_hash item) = txid env tx))
      \<and> (\<forall>height header txs i. chain height = Some (header, txs) \<longrightarrow> i < length txs
           \<longrightarrow> (\<exists>j<length txs. txid env (txs ! j) = txid env (txs ! i)
             \<and> el_transaction_get_merkle el (rev (txid env (txs ! i))) height = Some (branch_in_block env txs height j)))
      \<and> (\<forall>height header txs. chain height = Some (header, txs) \<longrightarrow> el_block_header el height = Some (put_header header)))"


definition storage_follows :: "header_env \<Rightarrow> block_chain \<Rightarrow> header_table option \<Rightarrow> bool" where
  "storage_follows env chain storage =
     (case storage of
        None \<Rightarrow> True
      | Some t \<Rightarrow> \<forall>height header txs. chain height = Some (header, txs) \<longrightarrow> get_block_header env t height = Inr (Some header))"

lemma get_tx_height_honest:
  assumes honest: "honest_server env chain el" and tx: "chain height = Some (header, txs)" "tx \<in> set txs" "tx_outputs tx \<noteq> []"
  obtains h hd ts where "get_tx_height env el tx = Some h" "chain h = Some (hd, ts)" "txid env tx \<in> txid env ` set ts"
proof -
  have "\<exists>h hd ts. get_tx_height_outputs env el (txid env tx) outs = Some h \<and> chain h = Some (hd, ts) \<and> txid env tx \<in> txid env ` set ts"
    if "outs \<noteq> []" "set outs \<subseteq> set (tx_outputs tx)" for outs
  proof -
    obtain out rest where outs: "outs = out # rest" "out \<in> set (tx_outputs tx)" using \<open>outs \<noteq> []\<close> \<open>set outs \<subseteq> set (tx_outputs tx)\<close> by (cases outs) auto
    let ?s = "electrum_script_hash env (out_script_pubkey out)"
    let ?P = "\<lambda>item. rev (hi_tx_hash item) = txid env tx \<and> sint (hi_height item) > 0"
    obtain history item where h: "el_scripthash_get_history el ?s = Some history" "item \<in> set history" "?P item"
      using honest tx outs(2) unfolding honest_server_def by metis
    then obtain found where f: "List.find ?P history = Some found" by (cases "List.find ?P history") (auto simp: find_None_iff)
    then have "found \<in> set history" "?P found" by (auto simp: find_Some_iff)
    then obtain hd ts where "chain (hi_height found) = Some (hd, ts)" "txid env tx \<in> txid env ` set ts"
      using honest h(1) unfolding honest_server_def by metis
    then show ?thesis using outs(1) h(1) f by simp
  qed
  from this[of "tx_outputs tx"] tx(3) show ?thesis using that by (auto simp: get_tx_height_def)
qed

lemma header_from_honest:
  assumes "honest_server env chain el" "chain height = Some (header, txs)" "storage_follows env chain storage"
  shows "block_header_from_storage_or_rpc env conf el height storage = (Inr header, storage)"
proof -
  have "el_block_header el height = Some (put_header header)" "stored_ok env header"
    using assms(1,2) unfolding honest_server_def block_ok_def by blast+
  moreover have "\<And>t. storage = Some t \<Longrightarrow> get_block_header env t height = Inr (Some header)"
    using assms(2,3) by (simp add: storage_follows_def)
  ultimately show ?thesis
    by (cases storage)
      (auto simp: block_header_from_storage_or_rpc_def valid_block_header_from_storage_def decode_put_header)
qed

lemma spv_validate_block:
  assumes hash: "\<And>x. length (env_sha256 env x) = 32" and block: "block_ok env header txs" "j < length txs" "txid env (txs ! j) = txid env tx"
    and tx: "inputs_ok (tx_inputs tx)" "tx_inputs tx \<noteq> []" "outputs_ok (tx_outputs tx)" "tx_outputs tx \<noteq> []"
  shows "bind_res (make_spv_proof env tx (branch_in_block env txs height j) header) (spv_validate (env_sha256 env)) = Inr ()"
proof -
  have "hashes (map (txid env) txs)"
    by (auto simp: hashes_def list_all_iff tx_hash_of_def dhash256_def hash split: tx_hash_algo.splits)
  then have "merkle_prove (env_sha256 env) (txid env tx) (bh_merkle_root_hash header)
      (branch_of (env_sha256 env) (map (txid env) txs) j) (of_nat j) = Inr ()"
    using merkle_prove_honest[of "env_sha256 env" "map (txid env) txs" j] hash block by (simp add: block_ok_def)
  moreover have "stored_ok env header" using block(1) by (simp add: block_ok_def)
  note raw_header_fields[OF this[unfolded stored_ok_def]]
  ultimately show ?thesis
    using validate_vin_put[OF tx(1,2)] validate_vout_put[OF tx(3,4)]
    by (simp add: make_spv_proof_def branch_in_block_def spv_validate_def validate_block_header_def header_hash_def
        raw_digest_def rev_map comp_def)
qed





text \<open>
  A header that is not stored is returned as the server sent it: the headers that are validated and
  stored with it end right below its height, so nothing ties it to them.
\<close>

lemma returned_header_not_validated:
  assumes "get_block_header env t height = Inr None" "el_block_header el height = Some bs" "decode_header env bs = Inr header"
    and r: "retrieve_last_headers env el difficulty_retarget_interval height = Inr (registry, headers)"
    and "validate_headers (env_sha256 env) headers (conf_difficulty_check conf) (conf_constant_difficulty conf) = Inr ()"
    and size: "difficulty_retarget_interval \<le> height" "length headers \<le> unat difficulty_retarget_interval"
  shows "valid_block_header_from_storage env conf el height t = (Inr header, add_block_headers registry t)
    \<and> hm_get registry height = None"
proof -
  have "unat (height - difficulty_retarget_interval) = unat height - unat difficulty_retarget_interval"
    using size(1) by (simp add: unat_sub)
  then have from_height: "unat (height - difficulty_retarget_interval) + length headers \<le> unat height"
    using size by (simp add: word_le_nat_alt)
  have "registry = register_headers (height - difficulty_retarget_interval) headers []"
    using retrieve_last_headers_InrD(1)[OF r] size(1) by (simp add: not_less[symmetric])
  then have "hm_get registry height = None"
    using from_height get_register_headers[of "height - difficulty_retarget_interval" headers "[]" height] unat_less64[of height]
    by (simp add: hm_get_Nil)
  then show ?thesis using assms by (simp add: valid_block_header_from_storage_def)
qed

end
