(* ===== verification/SpvExample.thy ===== *)
theory SpvExample
  imports SpvClient
begin

text \<open>
  A server for a chain of one block with three transactions, and the proofs of inclusion it gives.
  The hash function is that of the example of a reorganization.
\<close>

section \<open>A server for one block\<close>

definition server_of :: "header_env \<Rightarrow> u64 \<Rightarrow> block_header \<Rightarrow> transaction list \<Rightarrow> electrum" where
  "server_of env height header txs =
     \<lparr>el_scripthash_get_history = (\<lambda>_. Some (map (\<lambda>tx. \<lparr>hi_height = height, hi_tx_hash = rev (txid env tx), hi_fee = None\<rparr>) txs)),
      el_transaction_get_merkle = (\<lambda>hash h.
        if h = height
        then map_option (branch_in_block env txs height) (List.find (\<lambda>i. rev (txid env (txs ! i)) = hash) [0..<length txs])
        else None),
      el_block_header = (\<lambda>h. if h = height then Some (put_header header) else None),
      el_block_headers = (\<lambda>_ _. None)\<rparr>"

lemma server_of_honest:
  assumes "block_ok env header txs" "0 < sint height"
  shows "honest_server env (\<lambda>h. if h = height then Some (header, txs) else None) (server_of env height header txs)"
proof -
  have "\<exists>j<length txs. txid env (txs ! j) = txid env (txs ! i)
      \<and> List.find (\<lambda>j. rev (txid env (txs ! j)) = rev (txid env (txs ! i))) [0..<length txs] = Some j" if "i < length txs" for i
  proof (cases "List.find (\<lambda>j. rev (txid env (txs ! j)) = rev (txid env (txs ! i))) [0..<length txs]")
    case None
    then show ?thesis using that by (auto simp: find_None_iff)
  next
    case (Some j)
    then have "j \<in> set [0..<length txs] \<and> rev (txid env (txs ! j)) = rev (txid env (txs ! i))" by (auto simp: find_Some_iff)
    then show ?thesis using Some by auto
  qed
  then have branch: "\<exists>j<length txs. txid env (txs ! j) = txid env (txs ! i)
      \<and> el_transaction_get_merkle (server_of env height header txs) (rev (txid env (txs ! i))) height
        = Some (branch_in_block env txs height j)" if "i < length txs" for i
    using that by (fastforce simp: server_of_def)
  have history: "hi_height item = height \<and> rev (hi_tx_hash item) \<in> txid env ` set txs"
    if "el_scripthash_get_history (server_of env height header txs) script = Some items" "item \<in> set items" for script items item
    using that by (auto simp: server_of_def)
  have listed: "\<exists>items item. el_scripthash_get_history (server_of env height header txs) script = Some items
      \<and> item \<in> set items \<and> hi_height item = height \<and> rev (hi_tx_hash item) = txid env tx" if "tx \<in> set txs" for script tx
    using that by (fastforce simp: server_of_def)
  have "el_block_header (server_of env height header txs) height = Some (put_header header)" by (simp add: server_of_def)
  then show ?thesis
    unfolding honest_server_def using assms branch history listed by (intro conjI allI impI) (force split: if_splits)+
qed

lemma length_merkle_root:
  assumes "\<And>x. length (sha256 x) = 32"
  shows "hashes leaves \<Longrightarrow> merkle_root sha256 leaves = Some r \<Longrightarrow> length r = 32"
  using assms
proof (induction sha256 leaves rule: merkle_root.induct)
  case (1 sha256 leaves)
  show ?case
  proof (cases "1 < length leaves")
    case True
    then have "merkle_root sha256 (merkle_next sha256 leaves) = Some r" using 1(3) by (simp add: merkle_root.simps[of _ leaves])
    then show ?thesis using 1(1)[OF True] 1(4) hashes_merkle_next[of sha256 leaves] by simp
  next
    case False
    then show ?thesis using 1(2,3) by (subst (asm) merkle_root.simps) (cases leaves; auto simp: hashes_def)
  qed
qed

section \<open>Three transactions\<close>

definition demo_payment_tx :: "u32 \<Rightarrow> transaction" where
  "demo_payment_tx lock_time = demo_segwit_tx\<lparr>tx_lock_time := lock_time\<rparr>"

definition demo_txs :: "transaction list" where
  "demo_txs = [demo_payment_tx 1, demo_payment_tx 2, demo_payment_tx 3]"

definition demo_txs_root :: h256 where
  "demo_txs_root = the (merkle_root (env_sha256 demo_header_env) (map (txid demo_header_env) demo_txs))"

definition demo_txs_header :: block_header where
  "demo_txs_header =
     BlockHeader 1 (replicate 32 0) demo_txs_root None 1600000000 (BitsCompact 0x1d00ffff) (NonceU32 7) None None None None
       False None None None None None None None"

lemma demo_sha256_length: "length (env_sha256 demo_header_env x) = 32"
  by (simp add: demo_header_env_def)

lemma demo_txs_hashes: "hashes (map (txid demo_header_env) demo_txs)"
  by (auto simp: hashes_def list_all_iff tx_hash_of_def dhash256_def demo_sha256_length split: tx_hash_algo.splits)

lemma demo_txs_block_ok: "block_ok demo_header_env demo_txs_header demo_txs"
proof -
  have "merkle_root (env_sha256 demo_header_env) (map (txid demo_header_env) demo_txs) = Some demo_txs_root"
    using climb_branch[of 0 "map (txid demo_header_env) demo_txs" "env_sha256 demo_header_env"]
    by (simp add: demo_txs_root_def demo_txs_def)
  moreover from this have "length demo_txs_root = 32"
    using length_merkle_root[OF demo_sha256_length demo_txs_hashes] by simp
  ultimately show ?thesis
    by (simp add: block_ok_def demo_txs_header_def demo_txs_def stored_ok_def demo_header_env_def opt_ok_def header_versions
        prog_pow_switch_time_def is_prog_pow_def)
qed


abbreviation demo_chain :: block_chain where
  "demo_chain \<equiv> \<lambda>h. if h = 700000 then Some (demo_txs_header, demo_txs) else None"

abbreviation demo_round :: spv_round where
  "demo_round \<equiv> \<lparr>round_now_ms = 1000, round_server = server_of demo_header_env 700000 demo_txs_header demo_txs\<rparr>"

lemma demo_tx_parts:
  "inputs_ok (tx_inputs (demo_payment_tx n))" "tx_inputs (demo_payment_tx n) \<noteq> []"
  "outputs_ok (tx_outputs (demo_payment_tx n))" "tx_outputs (demo_payment_tx n) \<noteq> []"
  by (simp_all add: demo_payment_tx_def demo_segwit_tx_def inputs_ok_def outputs_ok_def input_ok_def output_ok_def
      out_point_ok_def witness_ok_def bytes_ok_def max_list_size_def)


definition demo_spv_proof :: spv_proof where
  "demo_spv_proof =
     \<lparr>spv_tx_id = txid demo_header_env (demo_txs ! 2), spv_vin = put_list put_input (tx_inputs (demo_txs ! 2)),
      spv_vout = put_list put_output (tx_outputs (demo_txs ! 2)), spv_index = of_nat 2,
      spv_confirming_header = demo_txs_header, spv_raw_header = put_header demo_txs_header,
      spv_intermediate_nodes = branch_of (env_sha256 demo_header_env) (map (txid demo_header_env) demo_txs) 2\<rparr>"


end
