(* ===== verification/Script.thy ===== *)
theory Script
  imports Merkle
begin

text \<open>
  Bitcoin scripts (crate \<open>kdf_script\<close>): opcodes, the builder, the parser of instructions and the
  classification of standard scripts. A script is the list of its bytes, an opcode is its byte. A
  builder is \<open>None\<close> after a panic. What the builder pushes, the parser reads back.
\<close>

section \<open>Opcodes\<close>

type_synonym opcode = u8

definition OP_0 :: opcode where "OP_0 = 0x00"
definition OP_PUSHBYTES_75 :: opcode where "OP_PUSHBYTES_75 = 0x4b"
definition OP_PUSHDATA1 :: opcode where "OP_PUSHDATA1 = 0x4c"
definition OP_PUSHDATA2 :: opcode where "OP_PUSHDATA2 = 0x4d"
definition OP_PUSHDATA4 :: opcode where "OP_PUSHDATA4 = 0x4e"
definition OP_1NEGATE :: opcode where "OP_1NEGATE = 0x4f"
definition OP_1 :: opcode where "OP_1 = 0x51"
definition OP_16 :: opcode where "OP_16 = 0x60"
definition OP_IF :: opcode where "OP_IF = 0x63"
definition OP_ELSE :: opcode where "OP_ELSE = 0x67"
definition OP_ENDIF :: opcode where "OP_ENDIF = 0x68"
definition OP_RETURN :: opcode where "OP_RETURN = 0x6a"
definition OP_DROP :: opcode where "OP_DROP = 0x75"
definition OP_DUP :: opcode where "OP_DUP = 0x76"
definition OP_SIZE :: opcode where "OP_SIZE = 0x82"
definition OP_EQUAL :: opcode where "OP_EQUAL = 0x87"
definition OP_EQUALVERIFY :: opcode where "OP_EQUALVERIFY = 0x88"
definition OP_HASH160 :: opcode where "OP_HASH160 = 0xa9"
definition OP_CODESEPARATOR :: opcode where "OP_CODESEPARATOR = 0xab"
definition OP_CHECKSIG :: opcode where "OP_CHECKSIG = 0xac"
definition OP_CHECKSIGVERIFY :: opcode where "OP_CHECKSIGVERIFY = 0xad"
definition OP_CHECKMULTISIG :: opcode where "OP_CHECKMULTISIG = 0xae"
definition OP_CHECKMULTISIGVERIFY :: opcode where "OP_CHECKMULTISIGVERIFY = 0xaf"
definition OP_CHECKLOCKTIMEVERIFY :: opcode where "OP_CHECKLOCKTIMEVERIFY = 0xb1"

lemmas op_defs = OP_0_def OP_PUSHBYTES_75_def OP_PUSHDATA1_def OP_PUSHDATA2_def OP_PUSHDATA4_def OP_1NEGATE_def OP_1_def
  OP_16_def OP_IF_def OP_ELSE_def OP_ENDIF_def OP_RETURN_def OP_DROP_def OP_DUP_def OP_SIZE_def OP_EQUAL_def
  OP_EQUALVERIFY_def OP_HASH160_def OP_CODESEPARATOR_def OP_CHECKSIG_def OP_CHECKSIGVERIFY_def OP_CHECKMULTISIG_def
  OP_CHECKMULTISIGVERIFY_def OP_CHECKLOCKTIMEVERIFY_def

definition opcode_from_u8 :: "u8 \<Rightarrow> opcode option" where
  "opcode_from_u8 b = (if 0xba \<le> b \<and> b \<le> 0xc0 \<or> 0xc5 \<le> b then None else Some b)"

definition is_countable :: "opcode \<Rightarrow> bool" where
  "is_countable op = (OP_16 < op)"

definition is_simple_push :: "opcode \<Rightarrow> bool" where
  "is_simple_push op = (op < OP_PUSHDATA1)"

definition is_push_value :: "opcode \<Rightarrow> bool" where
  "is_push_value op = (op = OP_1NEGATE \<or> op = OP_0 \<or> OP_1 \<le> op \<and> op \<le> OP_16)"

definition is_within_op_n :: "opcode \<Rightarrow> bool" where
  "is_within_op_n op = (OP_1 \<le> op \<and> op \<le> OP_16)"

definition decode_op_n :: "opcode \<Rightarrow> u8 option" where
  "decode_op_n op = (if is_within_op_n op then Some (op - OP_1 + 1) else None)"

section \<open>The builder\<close>

type_synonym builder = "bytes option"

definition builder_default :: builder where
  "builder_default = Some []"

definition push_opcode :: "opcode \<Rightarrow> builder \<Rightarrow> builder" where
  "push_opcode op b = map_option (\<lambda>data. data @ [op]) b"

definition push_bool :: "bool \<Rightarrow> builder \<Rightarrow> builder" where
  "push_bool v b = push_opcode (if v then OP_1 else OP_0) b"

definition push_bytes :: "bytes \<Rightarrow> builder \<Rightarrow> builder" where
  "push_bytes bs b =
     Option.bind b (\<lambda>data. if 1 \<le> length bs \<and> length bs \<le> 75 then Some (data @ [of_nat (length bs)] @ bs) else None)"

definition push_data :: "bytes \<Rightarrow> builder \<Rightarrow> builder" where
  "push_data d b =
     Option.bind b (\<lambda>data.
       let l = length d in
       if l < unat OP_PUSHDATA1 then Some (data @ [of_nat l] @ d)
       else if l \<le> 255 then Some (data @ [OP_PUSHDATA1, of_nat l] @ d)
       else if l \<le> 65535 then Some (data @ [OP_PUSHDATA2] @ put_u16 (of_nat l) @ d)
       else if l \<le> 4294967295 then Some (data @ [OP_PUSHDATA4] @ put_u32 (of_nat l) @ d)
       else None)"

definition return_bytes :: "bytes \<Rightarrow> builder \<Rightarrow> builder" where
  "return_bytes bs b =
     Option.bind b (\<lambda>data.
       if 1 \<le> length bs \<and> length bs \<le> 75 then Some (data @ [OP_RETURN, of_nat (length bs)] @ bs) else None)"

definition push_invalid_opcode :: "builder \<Rightarrow> builder" where
  "push_invalid_opcode b = map_option (\<lambda>data. data @ [0xff]) b"

definition build_p2pkh :: "bytes \<Rightarrow> builder" where
  "build_p2pkh address =
     push_opcode OP_CHECKSIG (push_opcode OP_EQUALVERIFY (push_bytes address
       (push_opcode OP_HASH160 (push_opcode OP_DUP builder_default))))"

definition build_p2pk :: "bytes \<Rightarrow> builder" where
  "build_p2pk pubkey = push_opcode OP_CHECKSIG (push_bytes pubkey builder_default)"

definition build_p2sh :: "bytes \<Rightarrow> builder" where
  "build_p2sh address = push_opcode OP_EQUAL (push_bytes address (push_opcode OP_HASH160 builder_default))"

definition build_witness_script :: "bytes \<Rightarrow> builder" where
  "build_witness_script address = push_bytes address (push_opcode OP_0 builder_default)"

definition build_nulldata :: "bytes \<Rightarrow> builder" where
  "build_nulldata payload = push_bytes payload (push_opcode OP_RETURN builder_default)"

section \<open>The parser\<close>

datatype (plugins only: code size) script_error = BadOpcode | DisabledOpcode opcode

record instruction =
  ins_opcode :: opcode
  ins_step :: nat
  ins_data :: "bytes option"

definition opcode_at :: "bytes \<Rightarrow> nat \<Rightarrow> script_error + opcode" where
  "opcode_at s pos =
     (if pos < length s then case opcode_from_u8 (s ! pos) of Some op \<Rightarrow> Inr op | None \<Rightarrow> Inl BadOpcode
      else Inl BadOpcode)"

definition script_range :: "bytes \<Rightarrow> nat \<Rightarrow> nat \<Rightarrow> script_error + bytes" where
  "script_range s offset len = (if offset + len \<le> length s then Inr (take len (drop offset s)) else Inl BadOpcode)"

definition instruction_at :: "bytes \<Rightarrow> nat \<Rightarrow> script_error + instruction" where
  "instruction_at s pos =
     bind_res (opcode_at s pos) (\<lambda>op.
       if op = OP_PUSHDATA1 \<or> op = OP_PUSHDATA2 \<or> op = OP_PUSHDATA4
       then let prefix_len = (if op = OP_PUSHDATA1 then 1 else if op = OP_PUSHDATA2 then 2 else 4) in
         bind_res (script_range s (pos + 1) prefix_len) (\<lambda>prefix.
           let payload_len = le_nat prefix in
           bind_res (script_range s (pos + 1 + prefix_len) payload_len) (\<lambda>payload.
             Inr \<lparr>ins_opcode = op, ins_step = 1 + prefix_len + payload_len, ins_data = Some payload\<rparr>))
       else if op \<le> OP_PUSHBYTES_75
       then bind_res (script_range s (pos + 1) (unat op)) (\<lambda>payload.
              Inr \<lparr>ins_opcode = op, ins_step = 1 + unat op, ins_data = Some payload\<rparr>)
       else Inr \<lparr>ins_opcode = op, ins_step = 1, ins_data = None\<rparr>)"

lemma instruction_step_pos: "instruction_at s pos = Inr i \<Longrightarrow> 0 < ins_step i"
  by (auto simp: instruction_at_def bind_res_Inr_iff Let_def split: if_splits)

lemma instruction_at_end: "instruction_at s pos = Inr i \<Longrightarrow> pos < length s"
  by (auto simp: instruction_at_def bind_res_Inr_iff opcode_at_def split: if_splits)

function script_iter :: "bytes \<Rightarrow> nat \<Rightarrow> (script_error + instruction) list" where
  "script_iter s pos =
     (if length s \<le> pos then []
      else case instruction_at s pos of
             Inl e \<Rightarrow> [Inl e]
           | Inr i \<Rightarrow> Inr i # script_iter s (pos + ins_step i))"
  by pat_completeness auto

termination script_iter
  by (relation "measure (\<lambda>(s, pos). length s - pos)") (auto dest: instruction_step_pos)

declare script_iter.simps [simp del]

definition get_instruction :: "bytes \<Rightarrow> nat \<Rightarrow> (script_error + instruction) option" where
  "get_instruction s n = (let is = script_iter s 0 in if n < length is then Some (is ! n) else None)"


section \<open>Standard scripts\<close>

definition is_pay_to_public_key_hash :: "bytes \<Rightarrow> bool" where
  "is_pay_to_public_key_hash s =
     (length s = 25 \<and> s ! 0 = OP_DUP \<and> s ! 1 = OP_HASH160 \<and> s ! 2 = 0x14 \<and> s ! 23 = OP_EQUALVERIFY
      \<and> s ! 24 = OP_CHECKSIG)"

definition is_pay_to_public_key :: "bytes \<Rightarrow> bool" where
  "is_pay_to_public_key s =
     (case s of
        [] \<Rightarrow> False
      | b # _ \<Rightarrow>
          if b = 0x21 then length s = 35 \<and> s ! 34 = OP_CHECKSIG
          else if b = 0x41 then length s = 67 \<and> s ! 66 = OP_CHECKSIG
          else False)"

definition is_pay_to_script_hash :: "bytes \<Rightarrow> bool" where
  "is_pay_to_script_hash s = (length s = 23 \<and> s ! 0 = OP_HASH160 \<and> s ! 1 = 0x14 \<and> s ! 22 = OP_EQUAL)"

definition is_pay_to_witness_key_hash :: "bytes \<Rightarrow> bool" where
  "is_pay_to_witness_key_hash s = (length s = 22 \<and> s ! 0 = OP_0 \<and> s ! 1 = 0x14)"

definition is_pay_to_witness_script_hash :: "bytes \<Rightarrow> bool" where
  "is_pay_to_witness_script_hash s = (length s = 34 \<and> s ! 0 = OP_0 \<and> s ! 1 = 0x20)"

definition is_pay_to_witness_v1_taproot :: "bytes \<Rightarrow> bool" where
  "is_pay_to_witness_v1_taproot s = (length s = 34 \<and> s ! 0 = OP_1 \<and> s ! 1 = 0x20)"

definition parse_witness_program :: "bytes \<Rightarrow> (u8 \<times> bytes) option" where
  "parse_witness_program s =
     (let len = length s in
      if \<not> (4 \<le> len \<and> len \<le> 42) then None
      else if unat (s ! 1) + 2 \<noteq> len then None
      else Option.bind (opcode_from_u8 (s ! 0)) (\<lambda>op.
        if op = OP_0 then Some (0, drop 2 s)
        else if OP_1 \<le> op \<and> op \<le> OP_16 then Some (op - OP_1 + 1, drop 2 s)
        else None))"

definition small_int_at :: "bytes \<Rightarrow> nat \<Rightarrow> u8 option" where
  "small_int_at s pos =
     (case opcode_at s pos of
        Inr op \<Rightarrow> if op = OP_0 then Some 0 else decode_op_n op
      | Inl _ \<Rightarrow> None)"

text \<open>The walk over the keys of a multisig script: the instructions, if each pushes a public key.\<close>

function multisig_keys :: "bytes \<Rightarrow> nat \<Rightarrow> instruction list option" where
  "multisig_keys s pc =
     (if \<not> (pc + 1 < length s - 1) then Some []
      else case instruction_at s pc of
             Inl _ \<Rightarrow> None
           | Inr i \<Rightarrow>
               if ins_opcode i = 0x21 \<or> ins_opcode i = 0x41
               then map_option (\<lambda>is. i # is) (multisig_keys s (pc + ins_step i))
               else None)"
  by pat_completeness auto

termination multisig_keys
  by (relation "measure (\<lambda>(s, pc). length s - pc)") (auto dest: instruction_step_pos)

declare multisig_keys.simps [simp del]

definition is_multisig_script :: "bytes \<Rightarrow> bool" where
  "is_multisig_script s =
     (if length s < 3 then False
      else case (small_int_at s 0, small_int_at s (length s - 2)) of
             (Some hd_n, Some tail_n) \<Rightarrow>
               if tail_n < hd_n then False
               else if last s \<noteq> OP_CHECKMULTISIG then False
               else (case multisig_keys s 1 of None \<Rightarrow> False | Some keys \<Rightarrow> of_nat (length keys) = tail_n)
           | _ \<Rightarrow> False)"

function is_push_only_from :: "bytes \<Rightarrow> nat \<Rightarrow> bool" where
  "is_push_only_from s pc =
     (if \<not> pc < length s then True
      else case instruction_at s pc of
             Inl _ \<Rightarrow> False
           | Inr i \<Rightarrow> if OP_16 < ins_opcode i then False else is_push_only_from s (pc + ins_step i))"
  by pat_completeness auto

termination is_push_only_from
  by (relation "measure (\<lambda>(s, pc). length s - pc)") (auto dest: instruction_step_pos)

declare is_push_only_from.simps [simp del]

definition is_push_only :: "bytes \<Rightarrow> bool" where
  "is_push_only s = is_push_only_from s 0"

definition is_null_data_script :: "bytes \<Rightarrow> bool" where
  "is_null_data_script s = (s \<noteq> [] \<and> s ! 0 = OP_RETURN \<and> is_push_only (drop 1 s))"

datatype (plugins only: code size) script_type = NonStandard | PubKey | PubKeyHash | ScriptHash | Multisig | NullData | WitnessScript | WitnessKey
  | WitnessV1Taproot | CallSender | CreateSender | Call | Create

definition script_type_of :: "bytes \<Rightarrow> script_type" where
  "script_type_of s =
     (if is_pay_to_public_key s then PubKey
      else if is_pay_to_public_key_hash s then PubKeyHash
      else if is_pay_to_script_hash s then ScriptHash
      else if is_multisig_script s then Multisig
      else if is_null_data_script s then NullData
      else if is_pay_to_witness_key_hash s then WitnessKey
      else if is_pay_to_witness_script_hash s then WitnessScript
      else if is_pay_to_witness_v1_taproot s then WitnessV1Taproot
      else NonStandard)"

function find_and_delete_from :: "bytes \<Rightarrow> bytes \<Rightarrow> bytes" where
  "find_and_delete_from needle rest =
     (if needle = [] \<or> length rest < length needle then rest
      else if take (length needle) rest = needle then find_and_delete_from needle (drop (length needle) rest)
      else hd rest # find_and_delete_from needle (tl rest))"
  by pat_completeness auto

termination find_and_delete_from
proof (relation "measure (\<lambda>(needle, rest). length rest)", goal_cases)
  case (3 needle rest)
  then show ?case by (cases rest) auto
qed (auto simp: neq_Nil_conv)

declare find_and_delete_from.simps [simp del]

definition find_and_delete :: "bytes \<Rightarrow> bytes \<Rightarrow> bytes" where
  "find_and_delete s needle = (if needle = [] \<or> length s < length needle then s else find_and_delete_from needle s)"

function without_separators_from :: "bytes \<Rightarrow> nat \<Rightarrow> bytes" where
  "without_separators_from s pc =
     (if \<not> pc < length s then []
      else case instruction_at s pc of
             Inr i \<Rightarrow>
               (if ins_opcode i \<noteq> OP_CODESEPARATOR then take (ins_step i) (drop pc s) else [])
               @ without_separators_from s (pc + ins_step i)
           | Inl _ \<Rightarrow> s ! pc # without_separators_from s (pc + 1))"
  by pat_completeness auto

termination without_separators_from
  by (relation "measure (\<lambda>(s, pc). length s - pc)") (auto dest: instruction_step_pos)

declare without_separators_from.simps [simp del]

definition without_separators :: "bytes \<Rightarrow> bytes" where
  "without_separators s = without_separators_from s 0"


section \<open>Signature operations\<close>

definition max_pubkeys_per_multisig :: nat where
  "max_pubkeys_per_multisig = 20"

fun count_sigops :: "bool \<Rightarrow> (script_error + instruction) list \<Rightarrow> opcode \<Rightarrow> nat \<Rightarrow> nat" where
  "count_sigops accurate [] last_op tot = tot"
| "count_sigops accurate (Inl e # is) last_op tot = tot"
| "count_sigops accurate (Inr i # is) last_op tot =
     (let op = ins_opcode i in
      count_sigops accurate is op
        (if op = OP_CHECKSIG \<or> op = OP_CHECKSIGVERIFY then tot + 1
         else if op = OP_CHECKMULTISIG \<or> op = OP_CHECKMULTISIGVERIFY
         then tot + (case (accurate, decode_op_n last_op) of (True, Some n) \<Rightarrow> unat n | _ \<Rightarrow> max_pubkeys_per_multisig)
         else tot))"

definition sigops_count :: "bytes \<Rightarrow> bool \<Rightarrow> nat" where
  "sigops_count s accurate = count_sigops accurate (script_iter s 0) OP_0 0"

definition pushed_payloads :: "bytes \<Rightarrow> bytes list" where
  "pushed_payloads s = List.map_filter (\<lambda>r. case r of Inr i \<Rightarrow> ins_data i | Inl _ \<Rightarrow> None) (script_iter s 0)"

definition pay_to_script_hash_sigops :: "bytes \<Rightarrow> bytes \<Rightarrow> nat" where
  "pay_to_script_hash_sigops s prev_out =
     (if \<not> is_pay_to_script_hash prev_out \<or> s = [] \<or> \<not> is_push_only s then 0
      else case pushed_payloads s of [] \<Rightarrow> 0 | ps \<Rightarrow> sigops_count (last ps) True)"

definition num_signatures_required :: "bytes \<Rightarrow> u8" where
  "num_signatures_required s =
     (if is_multisig_script s then case small_int_at s 0 of Some n \<Rightarrow> n | None \<Rightarrow> 1 else 1)"

definition is_witness_commitment_script :: "bytes \<Rightarrow> bool" where
  "is_witness_commitment_script s =
     (36 \<le> length s \<and> s ! 0 = OP_RETURN \<and> s ! 1 = 0x24 \<and> take 4 (drop 2 s) = [0xaa, 0x21, 0xa9, 0xed])"

section \<open>Public keys and destinations\<close>

datatype (plugins only: code size) public = Normal bytes | Compressed bytes

datatype (plugins only: code size) keys_error = InvalidPublic

definition public_from_slice :: "bytes \<Rightarrow> keys_error + public" where
  "public_from_slice bs =
     (if length bs = 33 then Inr (Compressed bs) else if length bs = 65 then Inr (Normal bs) else Inl InvalidPublic)"

fun public_bytes :: "public \<Rightarrow> bytes" where
  "public_bytes (Normal h) = h"
| "public_bytes (Compressed h) = h"

definition dhash160 :: "(bytes \<Rightarrow> bytes) \<Rightarrow> (bytes \<Rightarrow> h256) \<Rightarrow> bytes \<Rightarrow> bytes" where
  "dhash160 ripemd160 sha256 input = ripemd160 (sha256 input)"

datatype (plugins only: code size) address_hash = AddressHash bytes | WitnessScriptHash bytes

datatype (plugins only: code size) address_kind = P2PKH | P2SH | P2WPKH | P2WSH

record script_address =
  sa_kind :: address_kind
  sa_hash :: address_hash

definition key_destination :: "(bytes \<Rightarrow> bytes) \<Rightarrow> bytes \<Rightarrow> keys_error + script_address" where
  "key_destination hash160 key_bytes =
     bind_res (public_from_slice key_bytes) (\<lambda>pk.
       Inr \<lparr>sa_kind = P2PKH, sa_hash = AddressHash (hash160 (public_bytes pk))\<rparr>)"

fun multisig_destinations :: "(bytes \<Rightarrow> bytes) \<Rightarrow> instruction list \<Rightarrow> keys_error + script_address list" where
  "multisig_destinations hash160 [] = Inr []"
| "multisig_destinations hash160 (i # is) =
     (case ins_data i of
        None \<Rightarrow> Inl InvalidPublic
      | Some payload \<Rightarrow>
          bind_res (key_destination hash160 payload) (\<lambda>a.
            bind_res (multisig_destinations hash160 is) (\<lambda>as. Inr (a # as))))"

definition extract_destinations :: "(bytes \<Rightarrow> bytes) \<Rightarrow> bytes \<Rightarrow> keys_error + script_address list" where
  "extract_destinations hash160 s =
     (case script_type_of s of
        PubKey \<Rightarrow> bind_res (key_destination hash160 (take (length s - 2) (drop 1 s))) (\<lambda>a. Inr [a])
      | PubKeyHash \<Rightarrow> Inr [\<lparr>sa_kind = P2PKH, sa_hash = AddressHash (take 20 (drop 3 s))\<rparr>]
      | ScriptHash \<Rightarrow> Inr [\<lparr>sa_kind = P2SH, sa_hash = AddressHash (take 20 (drop 2 s))\<rparr>]
      | WitnessKey \<Rightarrow> Inr [\<lparr>sa_kind = P2WPKH, sa_hash = AddressHash (take 20 (drop 2 s))\<rparr>]
      | WitnessScript \<Rightarrow> Inr [\<lparr>sa_kind = P2WSH, sa_hash = WitnessScriptHash (take 32 (drop 2 s))\<rparr>]
      | Multisig \<Rightarrow>
          (case multisig_keys s 1 of
             None \<Rightarrow> Inl InvalidPublic
           | Some keys \<Rightarrow> multisig_destinations hash160 keys)
      | _ \<Rightarrow> Inr [])"

section \<open>The parser reads what the builder pushes\<close>

lemma instruction_at_append: "instruction_at (pre @ s) (length pre) = instruction_at s 0"
proof -
  have "opcode_at (pre @ s) (length pre) = opcode_at s 0" by (simp add: opcode_at_def nth_append)
  moreover have "script_range (pre @ s) (length pre + k) n = script_range s k n" for k n by (simp add: script_range_def)
  from this[of 1] this[of "1 + k" for k] have
    "script_range (pre @ s) (Suc (length pre)) n = script_range s 1 n"
    "script_range (pre @ s) (Suc (length pre + k)) n = script_range s (Suc k) n" for k n by simp_all
  ultimately show ?thesis by (simp add: instruction_at_def cong: if_cong)
qed

lemma script_iter_append: "script_iter (pre @ s) (length pre + k) = script_iter s k"
proof (induction s k rule: script_iter.induct)
  case (1 s k)
  have at: "instruction_at (pre @ s) (length pre + k) = instruction_at s k" if "k < length s"
  proof -
    have "pre @ s = (pre @ take k s) @ drop k s" "s = take k s @ drop k s" by simp_all
    then show ?thesis
      using that instruction_at_append[of "pre @ take k s" "drop k s"] instruction_at_append[of "take k s" "drop k s"] by simp
  qed
  show ?case
  proof (cases "k < length s")
    case True
    then show ?thesis
      using 1 at by (subst (1 2) script_iter.simps) (auto split: sum.splits simp: add.assoc)
  qed (simp add: script_iter.simps)
qed

lemma script_iter_Cons:
  assumes "instruction_at (p @ r) 0 = Inr i" "ins_step i = length p"
  shows "script_iter (p @ r) 0 = Inr i # script_iter r 0"
proof -
  have "p \<noteq> []" using instruction_step_pos[OF assms(1)] assms(2) by auto
  then show ?thesis
    using assms script_iter_append[of p r 0] by (subst script_iter.simps) auto
qed


lemma instruction_push_bytes:
  assumes "1 \<le> length bs" "length bs \<le> 75"
  shows "instruction_at ((of_nat (length bs) # bs) @ r) 0 =
    Inr \<lparr>ins_opcode = of_nat (length bs), ins_step = length (of_nat (length bs) # bs :: bytes), ins_data = Some bs\<rparr>"
proof -
  let ?op = "of_nat (length bs) :: u8"
  have n: "unat ?op = length bs" using assms by (simp add: unat_of_nat)
  then have "?op \<le> 75" "?op \<noteq> 0x4c" "?op \<noteq> 0x4d" "?op \<noteq> 0x4e" using assms by (auto simp: word_le_nat_alt word_unat_eq_iff)
  moreover have "opcode_from_u8 ?op = Some ?op" using n assms by (simp add: opcode_from_u8_def word_le_nat_alt)
  ultimately show ?thesis
    using n by (simp add: instruction_at_def opcode_at_def op_defs script_range_def)
qed

lemma instruction_plain:
  assumes "opcode_from_u8 op = Some op" "OP_PUSHDATA4 < op"
  shows "instruction_at ([op] @ r) 0 = Inr \<lparr>ins_opcode = op, ins_step = length [op], ins_data = None\<rparr>"
  using assms by (auto simp: instruction_at_def opcode_at_def op_defs word_less_nat_alt word_le_nat_alt)

lemma instruction_OP_0:
  "instruction_at ([OP_0] @ r) 0 = Inr \<lparr>ins_opcode = OP_0, ins_step = length [OP_0], ins_data = Some []\<rparr>"
  by (simp add: instruction_at_def opcode_at_def opcode_from_u8_def op_defs script_range_def)

text \<open>A push of data in whichever of the four forms is one instruction with that payload.\<close>

lemma push_data_parsed:
  assumes "push_data d (Some pre) = Some s"
  obtains p op where "s = pre @ p" "\<And>r. script_iter (p @ r) 0 = Inr \<lparr>ins_opcode = op, ins_step = length p, ins_data = Some d\<rparr> # script_iter r 0"
    "length d \<le> 75 \<Longrightarrow> op = of_nat (length d)" "d \<noteq> [] \<Longrightarrow> op \<noteq> OP_0"
proof -
  let ?l = "length d"
  have prefix: "instruction_at (((op # le_bytes n ?l) @ d) @ r) 0 =
      Inr \<lparr>ins_opcode = op, ins_step = length ((op # le_bytes n ?l) @ d), ins_data = Some d\<rparr>"
    if "op = OP_PUSHDATA1 \<and> n = 1 \<or> op = OP_PUSHDATA2 \<and> n = 2 \<or> op = OP_PUSHDATA4 \<and> n = 4" "?l < 256 ^ n" for op n r
  proof -
    have "le_nat (le_bytes n ?l) = ?l" using that(2) by (simp add: le_nat_le_bytes)
    moreover have "opcode_from_u8 op = Some op" using that(1) by (auto simp: opcode_from_u8_def op_defs)
    moreover have "op = OP_PUSHDATA1 \<or> op = OP_PUSHDATA2 \<or> op = OP_PUSHDATA4"
      "(if op = OP_PUSHDATA1 then 1 else if op = OP_PUSHDATA2 then 2 else 4) = n" using that(1) by (auto simp: op_defs)
    ultimately show ?thesis
      by (simp add: instruction_at_def opcode_at_def script_range_def Let_def)
  qed
  have "?l \<le> 4294967295" using assms by (auto simp: push_data_def Let_def op_defs split: if_splits)
  then consider "?l = 0" | "1 \<le> ?l" "?l \<le> 75" | "75 < ?l" "?l \<le> 255" | "255 < ?l" "?l \<le> 65535" | "65535 < ?l" "?l \<le> 4294967295"
    by linarith
  then show ?thesis
  proof cases
    case 1
    then show ?thesis
      using assms that[of "[OP_0]" OP_0] script_iter_Cons[OF instruction_OP_0]
      by (auto simp: push_data_def op_defs)
  next
    case 2
    then have "(of_nat ?l :: u8) \<noteq> 0" by (auto simp: word_unat_eq_iff unat_of_nat)
    then show ?thesis
      using 2 assms that[of "of_nat ?l # d" "of_nat ?l"] script_iter_Cons[OF instruction_push_bytes[OF 2]]
      by (simp add: push_data_def op_defs)
  next
    case 3
    then show ?thesis
      using assms that[of "(OP_PUSHDATA1 # le_bytes 1 ?l) @ d" OP_PUSHDATA1] script_iter_Cons[OF prefix[of OP_PUSHDATA1 1]]
      by (simp add: push_data_def op_defs unat_of_nat)
  next
    case 4
    then have "put_u16 (of_nat ?l) = le_bytes 2 ?l" by (simp add: put_word_def unat_of_nat)
    then show ?thesis
      using 4 assms that[of "(OP_PUSHDATA2 # le_bytes 2 ?l) @ d" OP_PUSHDATA2] script_iter_Cons[OF prefix[of OP_PUSHDATA2 2]]
      by (simp add: push_data_def op_defs)
  next
    case 5
    then have "put_u32 (of_nat ?l) = le_bytes 4 ?l" by (simp add: put_word_def unat_of_nat)
    then show ?thesis
      using 5 assms that[of "(OP_PUSHDATA4 # le_bytes 4 ?l) @ d" OP_PUSHDATA4] script_iter_Cons[OF prefix[of OP_PUSHDATA4 4]]
      by (simp add: push_data_def op_defs)
  qed
qed

end
