(* ===== verification/Sighash.thy ===== *)
theory Sighash
  imports Script TransactionCodec
begin

text \<open>
  Signing of transactions (\<open>kdf_script/src/sign.rs\<close>, \<open>coins/utxo_signer/src/sign_common.rs\<close>,
  \<open>with_key_pair.rs\<close>): the digests of the legacy, segregated-witness and Sapling algorithms, and the
  inputs that spend the standard outputs. SHA-256, personalised BLAKE2b and ECDSA are arguments.
\<close>

section \<open>Data\<close>

datatype (plugins only: code size) signature_version = SigBase | SigWitnessV0 | SigForkId

datatype (plugins only: code size) sighash_base = SighashAll | SighashNone | SighashSingle

record sighash =
  sh_base :: sighash_base
  sh_anyone_can_pay :: bool
  sh_fork_id :: bool

fun sighash_base_u32 :: "sighash_base \<Rightarrow> u32" where
  "sighash_base_u32 SighashAll = 1"
| "sighash_base_u32 SighashNone = 2"
| "sighash_base_u32 SighashSingle = 3"

definition sighash_u32 :: "sighash \<Rightarrow> u32" where
  "sighash_u32 s =
     (let v = sighash_base_u32 (sh_base s);
          v = (if sh_anyone_can_pay s then v OR 0x80 else v)
      in if sh_fork_id s then v OR 0x40 else v)"

definition sighash_is_defined :: "signature_version \<Rightarrow> u32 \<Rightarrow> bool" where
  "sighash_is_defined version raw =
     (let mask = (if version = SigForkId then NOT (0x40 OR 0x80) else NOT 0x80) in raw AND mask \<in> {1, 2, 3})"

definition sighash_from_u32 :: "signature_version \<Rightarrow> u32 \<Rightarrow> sighash" where
  "sighash_from_u32 version raw =
     \<lparr>sh_base = (if raw AND 0x1f = 2 then SighashNone else if raw AND 0x1f = 3 then SighashSingle else SighashAll),
      sh_anyone_can_pay = (raw AND 0x80 \<noteq> 0),
      sh_fork_id = (version = SigForkId \<and> raw AND 0x40 \<noteq> 0)\<rparr>"

record unsigned_transaction_input =
  ui_previous_output :: out_point
  ui_sequence :: u32
  ui_amount :: u64
  ui_witness :: "bytes list"

record transaction_input_signer =
  sg_version :: u32
  sg_n_time :: "u32 option"
  sg_overwintered :: bool
  sg_version_group_id :: u32
  sg_consensus_branch_id :: u32
  sg_expiry_height :: u32
  sg_value_balance :: u64
  sg_inputs :: "unsigned_transaction_input list"
  sg_outputs :: "transaction_output list"
  sg_lock_time :: u32
  sg_join_splits :: "join_split list"
  sg_shielded_spends :: "shielded_spend list"
  sg_shielded_outputs :: "shielded_output list"
  sg_zcash :: bool
  sg_str_d_zeel :: "bytes option"
  sg_hash_algo :: tx_hash_algo

definition unsigned_from_input :: "transaction_input \<Rightarrow> unsigned_transaction_input" where
  "unsigned_from_input i =
     \<lparr>ui_previous_output = ti_previous_output i, ui_sequence = ti_sequence i, ui_amount = 0, ui_witness = ti_script_witness i\<rparr>"

definition signer_from_transaction :: "transaction \<Rightarrow> transaction_input_signer" where
  "signer_from_transaction t =
     \<lparr>sg_version = tx_version t, sg_n_time = tx_n_time t, sg_overwintered = tx_overwintered t,
      sg_version_group_id = tx_version_group_id t, sg_consensus_branch_id = 0, sg_expiry_height = tx_expiry_height t,
      sg_value_balance = tx_value_balance t, sg_inputs = map unsigned_from_input (tx_inputs t),
      sg_outputs = tx_outputs t, sg_lock_time = tx_lock_time t, sg_join_splits = tx_join_splits t,
      sg_shielded_spends = tx_shielded_spends t, sg_shielded_outputs = tx_shielded_outputs t, sg_zcash = tx_zcash t,
      sg_str_d_zeel = tx_str_d_zeel t, sg_hash_algo = tx_tx_hash_algo t\<rparr>"

definition transaction_from_signer :: "transaction_input_signer \<Rightarrow> transaction" where
  "transaction_from_signer s =
     \<lparr>tx_version = sg_version s, tx_n_time = sg_n_time s, tx_overwintered = sg_overwintered s,
      tx_version_group_id = sg_version_group_id s,
      tx_inputs = map (\<lambda>i. \<lparr>ti_previous_output = ui_previous_output i, ti_script_sig = [], ti_sequence = ui_sequence i,
        ti_script_witness = []\<rparr>) (sg_inputs s),
      tx_outputs = sg_outputs s, tx_lock_time = sg_lock_time s, tx_expiry_height = sg_expiry_height s,
      tx_shielded_spends = sg_shielded_spends s, tx_shielded_outputs = sg_shielded_outputs s,
      tx_join_splits = sg_join_splits s, tx_value_balance = sg_value_balance s, tx_join_split_pubkey = replicate 32 0,
      tx_join_split_sig = replicate 64 0, tx_binding_sig = replicate 64 0, tx_zcash = sg_zcash s,
      tx_str_d_zeel = sg_str_d_zeel s, tx_tx_hash_algo = sg_hash_algo s\<rparr>"

section \<open>Digests\<close>

record sign_env =
  se_sha256 :: "bytes \<Rightarrow> h256"
  se_ripemd160 :: "bytes \<Rightarrow> bytes"
  se_blake2b_personal :: "bytes \<Rightarrow> bytes \<Rightarrow> h256"
  se_sign :: "bytes \<Rightarrow> h256 \<Rightarrow> bytes option"
  se_secret_ok :: "bytes \<Rightarrow> bool"
  se_public :: "bytes \<Rightarrow> public"

abbreviation se_dhash256 :: "sign_env \<Rightarrow> bytes \<Rightarrow> h256" where
  "se_dhash256 env \<equiv> dhash256 (se_sha256 env)"

abbreviation se_dhash160 :: "sign_env \<Rightarrow> bytes \<Rightarrow> bytes" where
  "se_dhash160 env \<equiv> dhash160 (se_ripemd160 env) (se_sha256 env)"

definition h256_from_u8 :: "u8 \<Rightarrow> h256" where
  "h256_from_u8 v = v # replicate 31 0"

definition hash_prevouts :: "sign_env \<Rightarrow> sighash \<Rightarrow> unsigned_transaction_input list \<Rightarrow> h256" where
  "hash_prevouts env sh inputs =
     (if sh_anyone_can_pay sh then h256_from_u8 0
      else se_dhash256 env (concat (map (\<lambda>i. put_out_point (ui_previous_output i)) inputs)))"

definition hash_sequence :: "sign_env \<Rightarrow> sighash \<Rightarrow> unsigned_transaction_input list \<Rightarrow> h256" where
  "hash_sequence env sh inputs =
     (if sh_anyone_can_pay sh \<or> sh_base sh \<noteq> SighashAll then h256_from_u8 0
      else se_dhash256 env (concat (map (\<lambda>i. put_u32 (ui_sequence i)) inputs)))"

definition hash_outputs :: "sign_env \<Rightarrow> sighash \<Rightarrow> nat \<Rightarrow> transaction_output list \<Rightarrow> h256" where
  "hash_outputs env sh input_index outputs =
     (if sh_base sh = SighashAll then se_dhash256 env (concat (map put_output outputs))
      else if sh_base sh = SighashSingle \<and> input_index < length outputs
      then se_dhash256 env (put_output (outputs ! input_index))
      else h256_from_u8 0)"

text \<open>Indexing the inputs out of bounds panics.\<close>

definition witness_preimage ::
  "sign_env \<Rightarrow> transaction_input_signer \<Rightarrow> nat \<Rightarrow> u64 \<Rightarrow> bytes \<Rightarrow> u32 \<Rightarrow> sighash \<Rightarrow> bytes option" where
  "witness_preimage env s input_index input_amount script_pubkey sighashtype sh =
     (if input_index < length (sg_inputs s)
      then let i = sg_inputs s ! input_index in
        Some (put_u32 (sg_version s) @ hash_prevouts env sh (sg_inputs s) @ hash_sequence env sh (sg_inputs s)
          @ put_out_point (ui_previous_output i) @ put_list put_u8 script_pubkey @ put_u64 input_amount
          @ put_u32 (ui_sequence i) @ hash_outputs env sh input_index (sg_outputs s) @ put_u32 (sg_lock_time s)
          @ put_u32 sighashtype)
      else None)"

definition sighash_witness_v0 ::
  "sign_env \<Rightarrow> transaction_input_signer \<Rightarrow> nat \<Rightarrow> u64 \<Rightarrow> bytes \<Rightarrow> u32 \<Rightarrow> sighash \<Rightarrow> h256 option" where
  "sighash_witness_v0 env s input_index input_amount script_pubkey sighashtype sh =
     map_option (se_dhash256 env) (witness_preimage env s input_index input_amount script_pubkey sighashtype sh)"

definition sighash_fork_id ::
  "sign_env \<Rightarrow> transaction_input_signer \<Rightarrow> nat \<Rightarrow> u64 \<Rightarrow> bytes \<Rightarrow> u32 \<Rightarrow> sighash \<Rightarrow> h256 option" where
  "sighash_fork_id env s input_index input_amount script_pubkey sighashtype sh =
     (if length (sg_inputs s) \<le> input_index then Some (h256_from_u8 1)
      else if sh_base sh = SighashSingle \<and> length (sg_outputs s) \<le> input_index then Some (h256_from_u8 1)
      else sighash_witness_v0 env s input_index input_amount script_pubkey sighashtype sh)"


definition sighash_overwintered :: "sign_env \<Rightarrow> transaction_input_signer \<Rightarrow> nat \<Rightarrow> bytes \<Rightarrow> u32 \<Rightarrow> h256 option" where
  "sighash_overwintered env s input_index script_pubkey sighashtype =
     (if \<not> input_index < length (sg_inputs s) then None
      else
        let blake = se_blake2b_personal env;
            personal = map of_char ''ZcashSigHash'' @ (if sint (sg_version s) \<ge> 3 then put_u32 (sg_consensus_branch_id s) else []);
            header = (if sg_overwintered s then sg_version s OR push_bit 31 1 else sg_version s);
            i = sg_inputs s ! input_index in
        Some (blake
          (put_u32 header @ put_u32 (sg_version_group_id s)
           @ blake (concat (map (\<lambda>i. put_out_point (ui_previous_output i)) (sg_inputs s))) (map of_char ''ZcashPrevoutHash'')
           @ blake (concat (map (\<lambda>i. put_u32 (ui_sequence i)) (sg_inputs s))) (map of_char ''ZcashSequencHash'')
           @ blake (concat (map put_output (sg_outputs s))) (map of_char ''ZcashOutputsHash'')
           @ (if sg_join_splits s = [] then replicate 32 0
              else blake (concat (map put_join_split (sg_join_splits s))) (map of_char ''ZcashJSplitsHash''))
           @ (if sg_shielded_spends s = [] then replicate 32 0
              else blake (concat (map (\<lambda>sp. put_hash (ss_cv sp) @ put_hash (ss_anchor sp) @ put_hash (ss_nullifier sp)
                @ put_hash (ss_rk sp) @ put_hash (ss_zkproof sp)) (sg_shielded_spends s))) (map of_char ''ZcashSSpendsHash''))
           @ (if sg_shielded_outputs s = [] then replicate 32 0
              else blake (concat (map put_shielded_output (sg_shielded_outputs s))) (map of_char ''ZcashSOutputHash''))
           @ put_u32 (sg_lock_time s) @ put_u32 (sg_expiry_height s) @ put_u64 (sg_value_balance s) @ put_u32 sighashtype
           @ put_out_point (ui_previous_output i) @ put_bytes script_pubkey @ put_u64 (ui_amount i) @ put_u32 (ui_sequence i))
          personal))"

definition legacy_inputs :: "sighash \<Rightarrow> nat \<Rightarrow> bytes \<Rightarrow> unsigned_transaction_input list \<Rightarrow> transaction_input list" where
  "legacy_inputs sh input_index script inputs =
     (if sh_anyone_can_pay sh
      then let i = inputs ! input_index in
        [\<lparr>ti_previous_output = ui_previous_output i, ti_script_sig = script, ti_sequence = ui_sequence i,
          ti_script_witness = []\<rparr>]
      else map (\<lambda>(n, i).
        \<lparr>ti_previous_output = ui_previous_output i, ti_script_sig = (if n = input_index then script else []),
         ti_sequence = (if (sh_base sh = SighashSingle \<or> sh_base sh = SighashNone) \<and> n \<noteq> input_index then 0 else ui_sequence i),
         ti_script_witness = []\<rparr>) (enumerate 0 inputs))"

definition legacy_outputs :: "sighash \<Rightarrow> nat \<Rightarrow> transaction_output list \<Rightarrow> transaction_output list" where
  "legacy_outputs sh input_index outputs =
     (case sh_base sh of
        SighashAll \<Rightarrow> outputs
      | SighashNone \<Rightarrow> []
      | SighashSingle \<Rightarrow>
          map (\<lambda>(n, out). if n = input_index then out else transaction_output_default)
            (enumerate 0 (take (input_index + 1) outputs)))"

definition legacy_transaction :: "transaction_input_signer \<Rightarrow> sighash \<Rightarrow> nat \<Rightarrow> bytes \<Rightarrow> transaction" where
  "legacy_transaction s sh input_index script =
     \<lparr>tx_version = sg_version s, tx_n_time = sg_n_time s, tx_overwintered = False, tx_version_group_id = 0,
      tx_inputs = legacy_inputs sh input_index script (sg_inputs s),
      tx_outputs = legacy_outputs sh input_index (sg_outputs s), tx_lock_time = sg_lock_time s, tx_expiry_height = 0,
      tx_shielded_spends = [], tx_shielded_outputs = [], tx_join_splits = [], tx_value_balance = 0,
      tx_join_split_pubkey = replicate 32 0, tx_join_split_sig = replicate 64 0, tx_binding_sig = replicate 64 0,
      tx_zcash = sg_zcash s, tx_str_d_zeel = sg_str_d_zeel s, tx_tx_hash_algo = sg_hash_algo s\<rparr>"

definition sighash_legacy ::
  "sign_env \<Rightarrow> transaction_input_signer \<Rightarrow> nat \<Rightarrow> bytes \<Rightarrow> u32 \<Rightarrow> sighash \<Rightarrow> h256 option" where
  "sighash_legacy env s input_index script_pubkey sighashtype sh =
     (if length (sg_inputs s) \<le> input_index then Some (h256_from_u8 1)
      else if sh_base sh = SighashSingle \<and> length (sg_outputs s) \<le> input_index then Some (h256_from_u8 1)
      else if sint (sg_version s) \<ge> 3 \<and> sg_overwintered s
      then sighash_overwintered env s input_index script_pubkey sighashtype
      else
        let script = without_separators script_pubkey;
            preimage = put_transaction 0 (legacy_transaction s sh input_index script) @ put_u32 sighashtype in
        Some (case sg_hash_algo s of DSHA256 \<Rightarrow> se_dhash256 env preimage | SHA256 \<Rightarrow> se_sha256 env preimage))"

definition signature_hash ::
  "sign_env \<Rightarrow> transaction_input_signer \<Rightarrow> nat \<Rightarrow> u64 \<Rightarrow> bytes \<Rightarrow> signature_version \<Rightarrow> u32 \<Rightarrow> h256 option" where
  "signature_hash env s input_index input_amount script_pubkey sigversion sighashtype =
     (let sh = sighash_from_u32 sigversion sighashtype in
      if sigversion = SigForkId \<and> sh_fork_id sh
      then sighash_fork_id env s input_index input_amount script_pubkey sighashtype sh
      else if sigversion = SigWitnessV0
      then sighash_witness_v0 env s input_index input_amount script_pubkey sighashtype sh
      else sighash_legacy env s input_index script_pubkey sighashtype sh)"

section \<open>Signed inputs\<close>

datatype (plugins only: code size) sign_error = InputIndexOutOfBound nat nat | SignFailed | SignPanicked | MismatchScript bytes bytes

definition or_panic :: "'a option \<Rightarrow> sign_error + 'a" where
  "or_panic r = (case r of Some v \<Rightarrow> Inr v | None \<Rightarrow> Inl SignPanicked)"

definition signer_get_input :: "transaction_input_signer \<Rightarrow> nat \<Rightarrow> sign_error + unsigned_transaction_input" where
  "signer_get_input s index =
     (if index < length (sg_inputs s) then Inr (sg_inputs s ! index)
      else Inl (InputIndexOutOfBound (length (sg_inputs s)) index))"

definition signature_hash_to_sign ::
  "sign_env \<Rightarrow> transaction_input_signer \<Rightarrow> nat \<Rightarrow> bytes \<Rightarrow> signature_version \<Rightarrow> u32 \<Rightarrow> sign_error + h256" where
  "signature_hash_to_sign env s index output_script version fork_id =
     bind_res (signer_get_input s index) (\<lambda>i.
       or_panic (signature_hash env s index (ui_amount i) output_script version (1 OR fork_id)))"

definition calc_and_sign_sighash ::
  "sign_env \<Rightarrow> transaction_input_signer \<Rightarrow> nat \<Rightarrow> bytes \<Rightarrow> bytes \<Rightarrow> signature_version \<Rightarrow> u32 \<Rightarrow> sign_error + bytes" where
  "calc_and_sign_sighash env s index output_script key version fork_id =
     bind_res (signature_hash_to_sign env s index output_script version fork_id) (\<lambda>digest.
       case se_sign env key digest of Some signature \<Rightarrow> Inr signature | None \<Rightarrow> Inl SignFailed)"

definition script_sig :: "bytes \<Rightarrow> u32 \<Rightarrow> bytes" where
  "script_sig signature fork_id = signature @ [1 OR ucast fork_id]"

definition signed_with :: "unsigned_transaction_input \<Rightarrow> bytes \<Rightarrow> bytes list \<Rightarrow> transaction_input" where
  "signed_with i sig witness =
     \<lparr>ti_previous_output = ui_previous_output i, ti_script_sig = sig, ti_sequence = ui_sequence i,
      ti_script_witness = witness\<rparr>"

definition p2pk_spend_with_signature :: "unsigned_transaction_input \<Rightarrow> u32 \<Rightarrow> bytes \<Rightarrow> transaction_input option" where
  "p2pk_spend_with_signature i fork_id signature =
     map_option (\<lambda>sig. signed_with i sig []) (push_bytes (script_sig signature fork_id) builder_default)"

definition script_sig_with_pub :: "public \<Rightarrow> u32 \<Rightarrow> bytes \<Rightarrow> builder" where
  "script_sig_with_pub pk fork_id signature =
     push_data (public_bytes pk) (push_data (script_sig signature fork_id) builder_default)"

definition p2pkh_spend_with_signature ::
  "unsigned_transaction_input \<Rightarrow> public \<Rightarrow> u32 \<Rightarrow> bytes \<Rightarrow> transaction_input option" where
  "p2pkh_spend_with_signature i pk fork_id signature =
     map_option (\<lambda>sig. signed_with i sig []) (script_sig_with_pub pk fork_id signature)"

definition p2sh_spend_with_signature ::
  "unsigned_transaction_input \<Rightarrow> bytes \<Rightarrow> bytes \<Rightarrow> u32 \<Rightarrow> bytes \<Rightarrow> transaction_input option" where
  "p2sh_spend_with_signature i redeem_script script_data fork_id signature =
     Option.bind (push_data (script_sig signature fork_id) builder_default) (\<lambda>resulting_script.
       let resulting_script = (if script_data \<noteq> [] then resulting_script @ script_data else resulting_script) in
       map_option (\<lambda>redeem_part. signed_with i (resulting_script @ redeem_part) [])
         (push_data redeem_script builder_default))"

definition p2wpkh_spend_with_signature :: "unsigned_transaction_input \<Rightarrow> public \<Rightarrow> u32 \<Rightarrow> bytes \<Rightarrow> transaction_input" where
  "p2wpkh_spend_with_signature i pk fork_id signature =
     signed_with i [] [script_sig signature fork_id, public_bytes pk]"

definition p2sh_spend ::
  "sign_env \<Rightarrow> transaction_input_signer \<Rightarrow> nat \<Rightarrow> bytes \<Rightarrow> bytes \<Rightarrow> bytes \<Rightarrow> signature_version \<Rightarrow> u32
    \<Rightarrow> sign_error + transaction_input" where
  "p2sh_spend env s index key script_data redeem_script version fork_id =
     bind_res (signer_get_input s index) (\<lambda>i.
     bind_res (calc_and_sign_sighash env s index redeem_script key version fork_id) (\<lambda>signature.
       or_panic (p2sh_spend_with_signature i redeem_script script_data fork_id signature)))"

definition p2pk_spend ::
  "sign_env \<Rightarrow> transaction_input_signer \<Rightarrow> nat \<Rightarrow> bytes \<Rightarrow> signature_version \<Rightarrow> u32 \<Rightarrow> sign_error + transaction_input" where
  "p2pk_spend env s index key version fork_id =
     bind_res (signer_get_input s index) (\<lambda>i.
     bind_res (or_panic (build_p2pk (public_bytes (se_public env key)))) (\<lambda>script.
     bind_res (calc_and_sign_sighash env s index script key version fork_id) (\<lambda>signature.
       or_panic (p2pk_spend_with_signature i fork_id signature))))"

definition p2pkh_spend ::
  "sign_env \<Rightarrow> transaction_input_signer \<Rightarrow> nat \<Rightarrow> bytes \<Rightarrow> bytes \<Rightarrow> signature_version \<Rightarrow> u32
    \<Rightarrow> sign_error + transaction_input" where
  "p2pkh_spend env s index key prev_script version fork_id =
     bind_res (signer_get_input s index) (\<lambda>i.
     bind_res (or_panic (build_p2pkh (se_dhash160 env (public_bytes (se_public env key))))) (\<lambda>script.
       if script \<noteq> prev_script then Inl (MismatchScript script prev_script)
       else bind_res (calc_and_sign_sighash env s index script key version fork_id) (\<lambda>signature.
         or_panic (p2pkh_spend_with_signature i (se_public env key) fork_id signature))))"

definition p2wpkh_spend ::
  "sign_env \<Rightarrow> transaction_input_signer \<Rightarrow> nat \<Rightarrow> bytes \<Rightarrow> bytes \<Rightarrow> signature_version \<Rightarrow> u32
    \<Rightarrow> sign_error + transaction_input" where
  "p2wpkh_spend env s index key prev_script version fork_id =
     bind_res (signer_get_input s index) (\<lambda>i.
     bind_res (or_panic (build_p2pkh (se_dhash160 env (public_bytes (se_public env key))))) (\<lambda>script.
       if script \<noteq> prev_script then Inl (MismatchScript script prev_script)
       else bind_res (calc_and_sign_sighash env s index script key version fork_id) (\<lambda>signature.
         Inr (p2wpkh_spend_with_signature i (se_public env key) fork_id signature))))"

definition complete_tx :: "transaction_input_signer \<Rightarrow> transaction_input list \<Rightarrow> transaction" where
  "complete_tx s signed_inputs =
     \<lparr>tx_version = sg_version s, tx_n_time = sg_n_time s, tx_overwintered = sg_overwintered s,
      tx_version_group_id = sg_version_group_id s, tx_inputs = signed_inputs, tx_outputs = sg_outputs s,
      tx_lock_time = sg_lock_time s, tx_expiry_height = sg_expiry_height s, tx_shielded_spends = [],
      tx_shielded_outputs = [], tx_join_splits = [], tx_value_balance = 0, tx_join_split_pubkey = replicate 32 0,
      tx_join_split_sig = replicate 64 0, tx_binding_sig = replicate 64 0, tx_zcash = sg_zcash s,
      tx_str_d_zeel = sg_str_d_zeel s, tx_tx_hash_algo = sg_hash_algo s\<rparr>"

fun sign_inputs_from ::
  "sign_env \<Rightarrow> transaction_input_signer \<Rightarrow> bytes \<Rightarrow> bytes \<Rightarrow> signature_version \<Rightarrow> u32 \<Rightarrow> out_point list
    \<Rightarrow> nat \<Rightarrow> unsigned_transaction_input list \<Rightarrow> sign_error + transaction_input list" where
  "sign_inputs_from env s key prev_script version fork_id p2pk_outpoints i [] = Inr []"
| "sign_inputs_from env s key prev_script version fork_id p2pk_outpoints i (input # inputs) =
     bind_res
       (if ui_previous_output input \<in> set p2pk_outpoints then p2pk_spend env s i key version fork_id
        else if version = SigWitnessV0 then p2wpkh_spend env s i key prev_script version fork_id
        else p2pkh_spend env s i key prev_script version fork_id) (\<lambda>signed_input.
     bind_res (sign_inputs_from env s key prev_script version fork_id p2pk_outpoints (Suc i) inputs) (\<lambda>rest.
       Inr (signed_input # rest)))"

definition sign_tx_with_p2pk ::
  "sign_env \<Rightarrow> transaction_input_signer \<Rightarrow> bytes \<Rightarrow> bytes \<Rightarrow> signature_version \<Rightarrow> u32 \<Rightarrow> out_point list
    \<Rightarrow> sign_error + transaction" where
  "sign_tx_with_p2pk env s key prev_script version fork_id p2pk_outpoints =
     bind_res (sign_inputs_from env s key prev_script version fork_id p2pk_outpoints 0 (sg_inputs s)) (\<lambda>signed_inputs.
       Inr (complete_tx s signed_inputs))"

definition sign_tx :: "sign_env \<Rightarrow> transaction_input_signer \<Rightarrow> bytes \<Rightarrow> bytes \<Rightarrow> signature_version \<Rightarrow> u32 \<Rightarrow> sign_error + transaction" where
  "sign_tx env s key prev_script version fork_id = sign_tx_with_p2pk env s key prev_script version fork_id []"

text \<open>Signing changes neither what the inputs spend nor the outputs.\<close>

lemma sign_inputs_outpoints:
  "sign_inputs_from env s key prev version fork_id p2pk i ins = Inr tis
   \<Longrightarrow> \<forall>k < length ins. i + k < length (sg_inputs s) \<and> sg_inputs s ! (i + k) = ins ! k
   \<Longrightarrow> map (\<lambda>t. (ti_previous_output t, ti_sequence t)) tis = map (\<lambda>t. (ui_previous_output t, ui_sequence t)) ins"
proof (induction ins arbitrary: i tis)
  case Nil
  then show ?case by simp
next
  case (Cons input ins)
  have at: "i < length (sg_inputs s)" "sg_inputs s ! i = input"
    using Cons.prems(2) by force+
  have rest: "\<forall>k < length ins. Suc i + k < length (sg_inputs s) \<and> sg_inputs s ! (Suc i + k) = ins ! k"
    using Cons.prems(2) by force
  obtain t ts where split: "tis = t # ts" "sign_inputs_from env s key prev version fork_id p2pk (Suc i) ins = Inr ts"
    and one: "(if ui_previous_output input \<in> set p2pk then p2pk_spend env s i key version fork_id
        else if version = SigWitnessV0 then p2wpkh_spend env s i key prev version fork_id
        else p2pkh_spend env s i key prev version fork_id) = Inr t"
    using Cons.prems(1) unfolding sign_inputs_from.simps bind_res_Inr_iff by auto
  have "ti_previous_output t = ui_previous_output input \<and> ti_sequence t = ui_sequence input"
    using one at
    by (auto simp: p2pk_spend_def p2wpkh_spend_def p2pkh_spend_def signer_get_input_def bind_res_Inr_iff or_panic_def
        p2pk_spend_with_signature_def p2wpkh_spend_with_signature_def p2pkh_spend_with_signature_def signed_with_def
        split: if_splits sum.splits option.splits)
  then show ?case
    using Cons.IH[OF split(2) rest] split(1) by simp
qed

end
