(* ===== verification/UtxoSwap.thy ===== *)
theory UtxoSwap
  imports Sighash SpvClient DexFee
begin

text \<open>
  The hash time-locked payments of the UTXO coins
  (\<open>coins/utxo/utxo_common/utxo_common_swap.rs\<close>): the redeem script, the outputs of a payment, the
  spend with the secret and the refund, the search for either on the chain, the extraction of the
  secret, and the validation of a payment and of the dex fee. The answers of the servers, the clock,
  the hash functions and ECDSA are arguments; a panic is an error value.
\<close>

section \<open>Data\<close>

datatype (plugins only: code size) addr_format = StandardFormat | SegwitFormat | CashAddressFormat

record utxo_address =
  ad_hash :: bytes
  ad_format :: addr_format

datatype (plugins only: code size) actual_tx_fee = DynamicFee u64 | FixedPerKb u64

record utxo_coin =
  uc_env :: sign_env
  uc_ticker :: ticker
  uc_decimals :: nat
  uc_tx_hash_algo :: tx_hash_algo
  uc_tx_version :: u32
  uc_is_pos :: bool
  uc_overwintered :: bool
  uc_version_group_id :: u32
  uc_consensus_branch_id :: u32
  uc_zcash :: bool
  uc_signature_version :: signature_version
  uc_fork_id :: u32
  uc_enable_spv_proof :: bool
  uc_force_min_relay_fee :: bool
  uc_iguana_address :: "utxo_address option"
  uc_key_pair :: "bytes option"

record rpc_transaction =
  rt_hex :: bytes
  rt_height :: "u64 option"
  rt_confirmations :: u32

record utxo_rpc =
  rpc_now_ms :: u64
  rpc_get_tx_fee :: "actual_tx_fee option"
  rpc_get_relay_fee :: "rat option"
  rpc_get_block_count :: "u64 option"
  rpc_get_current_mtp :: "u32 option"
  rpc_get_verbose_transaction :: "h256 \<Rightarrow> rpc_transaction option"
  rpc_send_transaction :: "transaction \<Rightarrow> bool"

datatype (plugins only: code size) utxo_error =
    UtxoPanicked
  | UtxoRpcFailed
  | NumConversError rat nat
  | InvalidPubkey
  | InvalidSecretKey
  | UnexpectedDerivationMethod
  | DeserializeFailed decode_fault
  | SignTxFailed sign_error
  | BroadcastFailed transaction
  | SecretNotFound
  | WrongSpendScript transaction
  | WrongOutputScript bytes
  | TxMismatch
  | GetTxFailed
  | AmountMismatch transaction_output transaction_output
  | ScriptMismatch transaction_output transaction_output
  | OutputMismatch transaction_output transaction_output
  | MissingOutput nat
  | SpvFailed spv_error
  | BadScriptSig
  | BadWitness
  | WrongFeeSender
  | FeeConfirmedTooEarly
  | FeeScriptMismatch nat
  | FeeTooSmall nat

definition panic_none :: "'a option \<Rightarrow> utxo_error + 'a" where
  "panic_none r = (case r of Some v \<Rightarrow> Inr v | None \<Rightarrow> Inl UtxoPanicked)"

definition or_err :: "utxo_error \<Rightarrow> 'a option \<Rightarrow> utxo_error + 'a" where
  "or_err e r = (case r of Some v \<Rightarrow> Inr v | None \<Rightarrow> Inl e)"

definition public_of :: "bytes \<Rightarrow> utxo_error + public" where
  "public_of bs = (case public_from_slice bs of Inr pk \<Rightarrow> Inr pk | Inl _ \<Rightarrow> Inl InvalidPubkey)"

definition utxo_tx_of :: "bytes \<Rightarrow> utxo_error + transaction" where
  "utxo_tx_of bs =
     (case deserialize get_transaction bs of
        Inr t \<Rightarrow> Inr t
      | Inl Panicked \<Rightarrow> Inl UtxoPanicked
      | Inl (Failed e) \<Rightarrow> Inl (DeserializeFailed (Failed e)))"

abbreviation utxo_txid :: "utxo_coin \<Rightarrow> transaction \<Rightarrow> h256" where
  "utxo_txid c t \<equiv> tx_hash_of (se_dhash256 (uc_env c)) (se_sha256 (uc_env c)) t"

section \<open>Amounts, keys and scripts\<close>

definition sat_from_big_decimal :: "rat \<Rightarrow> nat \<Rightarrow> utxo_error + u64" where
  "sat_from_big_decimal amount decimals =
     (let v = amount * of_nat (unat ((10 :: u64) ^ decimals)) in
      if v < 0 \<or> 2 ^ 64 \<le> v then Inl (NumConversError amount decimals) else Inr (of_int \<lfloor>v\<rfloor>))"

definition key_pair_from_secret :: "sign_env \<Rightarrow> bytes \<Rightarrow> utxo_error + bytes" where
  "key_pair_from_secret env secret =
     (if length secret < 32 then Inl UtxoPanicked
      else if se_secret_ok env (take 32 secret) then Inr (take 32 secret) else Inl InvalidSecretKey)"

definition address_from_raw_pubkey :: "utxo_coin \<Rightarrow> addr_format \<Rightarrow> bytes \<Rightarrow> utxo_error + utxo_address" where
  "address_from_raw_pubkey c fmt pub_key =
     bind_res (public_of pub_key) (\<lambda>pk. Inr \<lparr>ad_hash = se_dhash160 (uc_env c) (public_bytes pk), ad_format = fmt\<rparr>)"

definition output_script :: "utxo_address \<Rightarrow> address_kind \<Rightarrow> builder" where
  "output_script address script_type =
     (if ad_format address = SegwitFormat then build_witness_script (ad_hash address)
      else case script_type of
             P2PKH \<Rightarrow> build_p2pkh (ad_hash address)
           | P2SH \<Rightarrow> build_p2sh (ad_hash address)
           | P2WPKH \<Rightarrow> build_witness_script (ad_hash address)
           | P2WSH \<Rightarrow> build_witness_script (ad_hash address))"

definition payment_script :: "u32 \<Rightarrow> bytes \<Rightarrow> public \<Rightarrow> public \<Rightarrow> builder" where
  "payment_script time_lock secret_hash pub_0 pub_1 =
     push_opcode OP_ENDIF
       (push_opcode OP_CHECKSIG
       (push_bytes (public_bytes pub_1)
       (push_opcode OP_EQUALVERIFY
       (push_bytes secret_hash
       (push_opcode OP_HASH160
       (push_opcode OP_EQUALVERIFY
       (push_bytes [32]
       (push_opcode OP_SIZE
       (push_opcode OP_ELSE
       (push_opcode OP_CHECKSIG
       (push_bytes (public_bytes pub_0)
       (push_opcode OP_DROP
       (push_opcode OP_CHECKLOCKTIMEVERIFY
       (push_bytes (put_u32 time_lock)
       (push_opcode OP_IF builder_default)))))))))))))))"

definition dex_fee_script :: "bytes \<Rightarrow> u32 \<Rightarrow> public \<Rightarrow> public \<Rightarrow> builder" where
  "dex_fee_script uuid time_lock watcher_pub sender_pub =
     push_opcode OP_ENDIF
       (push_opcode OP_CHECKSIG
       (push_bytes (public_bytes watcher_pub)
       (push_opcode OP_ELSE
       (push_opcode OP_CHECKSIG
       (push_bytes (public_bytes sender_pub)
       (push_opcode OP_DROP
       (push_opcode OP_CHECKLOCKTIMEVERIFY
       (push_bytes (put_u32 time_lock)
       (push_opcode OP_IF
       (push_opcode OP_DROP
       (push_bytes uuid builder_default)))))))))))"

definition p2sh_of :: "sign_env \<Rightarrow> bytes \<Rightarrow> utxo_error + bytes" where
  "p2sh_of env script = panic_none (build_p2sh (se_dhash160 env script))"

section \<open>Payments\<close>

definition generate_swap_payment_outputs ::
  "utxo_coin \<Rightarrow> u32 \<Rightarrow> bytes \<Rightarrow> bytes \<Rightarrow> bytes \<Rightarrow> rat \<Rightarrow> utxo_error + transaction_output list" where
  "generate_swap_payment_outputs c time_lock my_pub other_pub secret_hash amount =
     bind_res (public_of my_pub) (\<lambda>my_public.
     bind_res (public_of other_pub) (\<lambda>other_public.
     bind_res (panic_none (payment_script time_lock secret_hash my_public other_public)) (\<lambda>redeem_script.
     bind_res (sat_from_big_decimal amount (uc_decimals c)) (\<lambda>sat.
     bind_res (p2sh_of (uc_env c) redeem_script) (\<lambda>p2sh.
     bind_res (panic_none
       (let op_return = push_opcode OP_RETURN builder_default in
        if uc_ticker c = ''ARRR'' then push_data redeem_script op_return else push_bytes secret_hash op_return)) (\<lambda>op_return.
       Inr [\<lparr>out_value = sat, out_script_pubkey = p2sh\<rparr>, \<lparr>out_value = 0, out_script_pubkey = op_return\<rparr>]))))))"

definition get_htlc_spend_fee :: "utxo_coin \<Rightarrow> utxo_rpc \<Rightarrow> u64 \<Rightarrow> utxo_error + u64" where
  "get_htlc_spend_fee c rpc tx_size =
     bind_res (or_err UtxoRpcFailed (rpc_get_tx_fee rpc)) (\<lambda>coin_fee.
     let fee = (case coin_fee of
                  DynamicFee fee_per_kb \<Rightarrow> (fee_per_kb * tx_size) div 1000
                | FixedPerKb satoshis \<Rightarrow>
                    satoshis * (if tx_size mod 1000 = 0 then tx_size div 1000 else tx_size div 1000 + 1)) in
     if uc_force_min_relay_fee c
     then bind_res (or_err UtxoRpcFailed (rpc_get_relay_fee rpc)) (\<lambda>relay_fee.
          bind_res (sat_from_big_decimal relay_fee (uc_decimals c)) (\<lambda>relay_fee_sat.
            Inr (if fee < relay_fee_sat then relay_fee_sat else fee)))
     else Inr fee)"

definition p2sh_tx_locktime :: "utxo_coin \<Rightarrow> utxo_rpc \<Rightarrow> u32 \<Rightarrow> utxo_error + u32" where
  "p2sh_tx_locktime c rpc htlc_locktime =
     bind_res (if uc_ticker c = ''KMD'' then Inr (ucast (rpc_now_ms rpc div 1000) - 3600 + 2 * 777)
               else bind_res (or_err UtxoRpcFailed (rpc_get_current_mtp rpc)) (\<lambda>mtp. Inr (mtp - 1))) (\<lambda>lock_time.
       Inr (max lock_time htlc_locktime))"

datatype (plugins only: code size) utxo_refund_answer = CanRefundNow | HaveToWait u64

definition utxo_can_refund_htlc :: "utxo_coin \<Rightarrow> utxo_rpc \<Rightarrow> u64 \<Rightarrow> utxo_error + utxo_refund_answer" where
  "utxo_can_refund_htlc c rpc locktime =
     (let now = rpc_now_ms rpc div 1000 in
      if now < locktime then Inr (HaveToWait (max (locktime - now + 1) 3600))
      else bind_res (or_err UtxoRpcFailed (rpc_get_current_mtp rpc)) (\<lambda>mtp.
           bind_res (p2sh_tx_locktime c rpc (ucast locktime)) (\<lambda>locktime.
             if locktime < mtp then Inr CanRefundNow
             else Inr (HaveToWait (max (ucast (locktime - mtp + 1)) 3600)))))"

definition default_swap_vout :: nat where
  "default_swap_vout = 0"

definition default_swap_tx_spend_size :: u64 where
  "default_swap_tx_spend_size = 305"

definition spending_signer ::
  "utxo_coin \<Rightarrow> utxo_rpc \<Rightarrow> transaction \<Rightarrow> transaction_output \<Rightarrow> transaction_output list \<Rightarrow> u32 \<Rightarrow> u32 \<Rightarrow> transaction_input_signer" where
  "spending_signer c rpc prev first_output outputs seq lock_time =
     \<lparr>sg_version = uc_tx_version c,
      sg_n_time = (if uc_is_pos c then Some (ucast (rpc_now_ms rpc div 1000)) else None),
      sg_overwintered = uc_overwintered c, sg_version_group_id = uc_version_group_id c,
      sg_consensus_branch_id = uc_consensus_branch_id c, sg_expiry_height = 0, sg_value_balance = 0,
      sg_inputs = [\<lparr>ui_previous_output = \<lparr>op_hash = utxo_txid c prev, op_index = of_nat default_swap_vout\<rparr>,
        ui_sequence = seq, ui_amount = out_value first_output, ui_witness = []\<rparr>],
      sg_outputs = outputs, sg_lock_time = lock_time, sg_join_splits = [], sg_shielded_spends = [],
      sg_shielded_outputs = [], sg_zcash = uc_zcash c,
      sg_str_d_zeel = (if uc_ticker c = ''NAV'' then Some [] else None), sg_hash_algo = uc_tx_hash_algo c\<rparr>"

definition p2sh_spending_tx ::
  "utxo_coin \<Rightarrow> utxo_rpc \<Rightarrow> transaction \<Rightarrow> bytes \<Rightarrow> transaction_output list \<Rightarrow> bytes \<Rightarrow> u32 \<Rightarrow> u32 \<Rightarrow> bytes
    \<Rightarrow> utxo_error + transaction" where
  "p2sh_spending_tx c rpc prev redeem_script outputs script_data seq lock_time key =
     bind_res (p2sh_tx_locktime c rpc lock_time) (\<lambda>lock_time.
       case tx_outputs prev of
         [] \<Rightarrow> Inl UtxoPanicked
       | first_output # _ \<Rightarrow>
           let unsigned = spending_signer c rpc prev first_output outputs seq lock_time in
           (case p2sh_spend (uc_env c) unsigned default_swap_vout key script_data redeem_script
                   (uc_signature_version c) (uc_fork_id c) of
              Inl SignPanicked \<Rightarrow> Inl UtxoPanicked
            | Inl e \<Rightarrow> Inl (SignTxFailed e)
            | Inr signed_input \<Rightarrow> Inr (complete_tx unsigned [signed_input])))"

section \<open>Spends and refunds\<close>

definition previous_tx :: "utxo_coin \<Rightarrow> bytes \<Rightarrow> utxo_error + transaction" where
  "previous_tx c bs = bind_res (utxo_tx_of bs) (\<lambda>t. Inr (t\<lparr>tx_tx_hash_algo := uc_tx_hash_algo c\<rparr>))"

text \<open>The common end of the four functions below: the output to the own address, the signature and the broadcast.\<close>

definition send_htlc_spend ::
  "utxo_coin \<Rightarrow> utxo_rpc \<Rightarrow> utxo_address \<Rightarrow> transaction \<Rightarrow> bytes \<Rightarrow> bytes \<Rightarrow> u32 \<Rightarrow> u32 \<Rightarrow> bytes \<Rightarrow> utxo_error + transaction" where
  "send_htlc_spend c rpc my_address prev redeem_script script_data seq time_lock key =
     bind_res (get_htlc_spend_fee c rpc default_swap_tx_spend_size) (\<lambda>fee.
     bind_res (panic_none (output_script my_address P2PKH)) (\<lambda>script_pubkey.
       case tx_outputs prev of
         [] \<Rightarrow> Inl UtxoPanicked
       | first_output # _ \<Rightarrow>
           bind_res (p2sh_spending_tx c rpc prev redeem_script
             [\<lparr>out_value = out_value first_output - fee, out_script_pubkey = script_pubkey\<rparr>] script_data seq time_lock key) (\<lambda>t.
             if rpc_send_transaction rpc t then Inr t else Inl (BroadcastFailed t))))"

definition secret_script_data :: "bytes \<Rightarrow> builder" where
  "secret_script_data secret = push_opcode OP_0 (push_data secret builder_default)"

definition refund_script_data :: builder where
  "refund_script_data = push_opcode OP_1 builder_default"

definition send_maker_spends_taker_payment ::
  "utxo_coin \<Rightarrow> utxo_rpc \<Rightarrow> bytes \<Rightarrow> u32 \<Rightarrow> bytes \<Rightarrow> bytes \<Rightarrow> bytes \<Rightarrow> utxo_error + transaction" where
  "send_maker_spends_taker_payment c rpc taker_payment_tx time_lock taker_pub secret htlc_privkey =
     bind_res (key_pair_from_secret (uc_env c) htlc_privkey) (\<lambda>key.
     bind_res (or_err UnexpectedDerivationMethod (uc_iguana_address c)) (\<lambda>my_address.
     bind_res (previous_tx c taker_payment_tx) (\<lambda>prev.
     bind_res (panic_none (secret_script_data secret)) (\<lambda>script_data.
     bind_res (public_of taker_pub) (\<lambda>taker_public.
     bind_res (panic_none (payment_script time_lock (se_dhash160 (uc_env c) secret) taker_public (se_public (uc_env c) key))) (\<lambda>redeem.
       send_htlc_spend c rpc my_address prev redeem script_data sequence_final time_lock key))))))"

definition send_taker_spends_maker_payment ::
  "utxo_coin \<Rightarrow> utxo_rpc \<Rightarrow> bytes \<Rightarrow> u32 \<Rightarrow> bytes \<Rightarrow> bytes \<Rightarrow> bytes \<Rightarrow> utxo_error + transaction" where
  "send_taker_spends_maker_payment c rpc maker_payment_tx time_lock maker_pub secret htlc_privkey =
     bind_res (key_pair_from_secret (uc_env c) htlc_privkey) (\<lambda>key.
     bind_res (or_err UnexpectedDerivationMethod (uc_iguana_address c)) (\<lambda>my_address.
     bind_res (previous_tx c maker_payment_tx) (\<lambda>prev.
     bind_res (panic_none (secret_script_data secret)) (\<lambda>script_data.
     bind_res (public_of maker_pub) (\<lambda>maker_public.
     bind_res (panic_none (payment_script time_lock (se_dhash160 (uc_env c) secret) maker_public (se_public (uc_env c) key))) (\<lambda>redeem.
       send_htlc_spend c rpc my_address prev redeem script_data sequence_final time_lock key))))))"

definition send_taker_refunds_payment ::
  "utxo_coin \<Rightarrow> utxo_rpc \<Rightarrow> bytes \<Rightarrow> u32 \<Rightarrow> bytes \<Rightarrow> bytes \<Rightarrow> bytes \<Rightarrow> utxo_error + transaction" where
  "send_taker_refunds_payment c rpc taker_payment_tx time_lock maker_pub secret_hash htlc_privkey =
     bind_res (key_pair_from_secret (uc_env c) htlc_privkey) (\<lambda>key.
     bind_res (or_err UnexpectedDerivationMethod (uc_iguana_address c)) (\<lambda>my_address.
     bind_res (previous_tx c taker_payment_tx) (\<lambda>prev.
     bind_res (panic_none refund_script_data) (\<lambda>script_data.
     bind_res (public_of maker_pub) (\<lambda>maker_public.
     bind_res (panic_none (payment_script time_lock secret_hash (se_public (uc_env c) key) maker_public)) (\<lambda>redeem.
       send_htlc_spend c rpc my_address prev redeem script_data (sequence_final - 1) time_lock key))))))"

definition send_maker_refunds_payment ::
  "utxo_coin \<Rightarrow> utxo_rpc \<Rightarrow> bytes \<Rightarrow> u32 \<Rightarrow> bytes \<Rightarrow> bytes \<Rightarrow> bytes \<Rightarrow> utxo_error + transaction" where
  "send_maker_refunds_payment c rpc maker_payment_tx time_lock taker_pub secret_hash htlc_privkey =
     bind_res (key_pair_from_secret (uc_env c) htlc_privkey) (\<lambda>key.
     bind_res (or_err UnexpectedDerivationMethod (uc_iguana_address c)) (\<lambda>my_address.
     bind_res (previous_tx c maker_payment_tx) (\<lambda>prev.
     bind_res (panic_none refund_script_data) (\<lambda>script_data.
     bind_res (public_of taker_pub) (\<lambda>taker_public.
     bind_res (panic_none (payment_script time_lock secret_hash (se_public (uc_env c) key) taker_public)) (\<lambda>redeem.
       send_htlc_spend c rpc my_address prev redeem script_data (sequence_final - 1) time_lock key))))))"

section \<open>Searching the chain\<close>

record spend_server =
  sv_scripthash_get_history :: "bytes \<Rightarrow> electrum_tx_history_item list option"
  sv_get_transaction_bytes :: "h256 \<Rightarrow> bytes option"
  sv_get_block_hash :: "u64 \<Rightarrow> h256 option"
  sv_list_since_block :: "h256 \<Rightarrow> (h256 \<times> bool \<times> h256) list option"

datatype (plugins only: code size) spend_client = ElectrumSpendClient spend_server | NativeSpendClient spend_server

datatype (plugins only: code size) block_hash_or_height = BlockHash h256 | BlockHeight u64

record spent_output_info =
  so_spending_tx :: transaction
  so_input_index :: nat
  so_spent_in_block :: block_hash_or_height

definition spends_output :: "h256 \<Rightarrow> nat \<Rightarrow> transaction_input \<Rightarrow> bool" where
  "spends_output tx_hash vout i =
     (op_hash (ti_previous_output i) = tx_hash \<and> op_index (ti_previous_output i) = of_nat vout)"

fun spending_input :: "h256 \<Rightarrow> nat \<Rightarrow> nat \<Rightarrow> transaction_input list \<Rightarrow> nat option" where
  "spending_input tx_hash vout n [] = None"
| "spending_input tx_hash vout n (i # is) =
     (if spends_output tx_hash vout i then Some n else spending_input tx_hash vout (Suc n) is)"

fun find_spend_in ::
  "spend_server \<Rightarrow> h256 \<Rightarrow> nat \<Rightarrow> (h256 \<times> block_hash_or_height) list \<Rightarrow> utxo_error + spent_output_info option" where
  "find_spend_in sv tx_hash vout [] = Inr None"
| "find_spend_in sv tx_hash vout ((tx_id, block) # items) =
     bind_res (or_err UtxoRpcFailed (sv_get_transaction_bytes sv tx_id)) (\<lambda>bs.
     bind_res (utxo_tx_of bs) (\<lambda>t.
       case spending_input tx_hash vout 0 (tx_inputs t) of
         Some n \<Rightarrow> Inr (Some \<lparr>so_spending_tx = t, so_input_index = n, so_spent_in_block = block\<rparr>)
       | None \<Rightarrow> find_spend_in sv tx_hash vout items))"

definition electrum_find_output_spend ::
  "utxo_coin \<Rightarrow> spend_server \<Rightarrow> h256 \<Rightarrow> bytes \<Rightarrow> nat \<Rightarrow> utxo_error + spent_output_info option" where
  "electrum_find_output_spend c sv tx_hash script_pubkey vout =
     bind_res (or_err UtxoRpcFailed (sv_scripthash_get_history sv (rev (se_sha256 (uc_env c) script_pubkey)))) (\<lambda>history.
       if length history < 2 then Inr None
       else find_spend_in sv tx_hash vout (map (\<lambda>item. (hi_tx_hash item, BlockHeight (hi_height item))) history))"

definition native_find_output_spend ::
  "spend_server \<Rightarrow> h256 \<Rightarrow> nat \<Rightarrow> u64 \<Rightarrow> utxo_error + spent_output_info option" where
  "native_find_output_spend sv tx_hash vout from_block =
     bind_res (or_err UtxoRpcFailed (sv_get_block_hash sv from_block)) (\<lambda>from_block_hash.
     bind_res (or_err UtxoRpcFailed (sv_list_since_block sv from_block_hash)) (\<lambda>txs.
       find_spend_in sv tx_hash vout
         (map (\<lambda>(tx_id, _, block). (tx_id, BlockHash block)) (filter (\<lambda>(_, conflicting, _). \<not> conflicting) txs))))"

definition find_output_spend ::
  "utxo_coin \<Rightarrow> spend_client \<Rightarrow> h256 \<Rightarrow> bytes \<Rightarrow> nat \<Rightarrow> u64 \<Rightarrow> utxo_error + spent_output_info option" where
  "find_output_spend c client tx_hash script_pubkey vout from_block =
     (case client of
        ElectrumSpendClient sv \<Rightarrow> electrum_find_output_spend c sv tx_hash script_pubkey vout
      | NativeSpendClient sv \<Rightarrow> native_find_output_spend sv tx_hash vout from_block)"

datatype (plugins only: code size) utxo_found_spend = FoundSpent transaction | FoundRefunded transaction

definition has_opcode_at :: "bytes \<Rightarrow> nat \<Rightarrow> opcode \<Rightarrow> bool" where
  "has_opcode_at script n op = (case get_instruction script n of Some (Inr i) \<Rightarrow> ins_opcode i = op | _ \<Rightarrow> False)"

definition search_for_swap_output_spend ::
  "utxo_coin \<Rightarrow> spend_client \<Rightarrow> u32 \<Rightarrow> public \<Rightarrow> public \<Rightarrow> bytes \<Rightarrow> bytes \<Rightarrow> nat \<Rightarrow> u64
    \<Rightarrow> utxo_error + utxo_found_spend option" where
  "search_for_swap_output_spend c client time_lock first_pub second_pub secret_hash tx output_index search_from_block =
     bind_res (previous_tx c tx) (\<lambda>t.
     bind_res (panic_none (payment_script time_lock secret_hash first_pub second_pub)) (\<lambda>script.
     bind_res (p2sh_of (uc_env c) script) (\<lambda>expected_script_pubkey.
       if tx_outputs t = [] then Inl UtxoPanicked
       else if out_script_pubkey (tx_outputs t ! 0) \<noteq> expected_script_pubkey then Inl (WrongOutputScript expected_script_pubkey)
       else if length (tx_outputs t) \<le> output_index then Inl UtxoPanicked
       else bind_res (find_output_spend c client (utxo_txid c t) (out_script_pubkey (tx_outputs t ! output_index))
           output_index search_from_block) (\<lambda>spend.
         case spend of
           None \<Rightarrow> Inr None
         | Some info \<Rightarrow>
             let t = (so_spending_tx info)\<lparr>tx_tx_hash_algo := uc_tx_hash_algo c\<rparr> in
             (case tx_inputs t of
                [] \<Rightarrow> Inl UtxoPanicked
              | i # _ \<Rightarrow>
                  if has_opcode_at (ti_script_sig i) 2 OP_0 then Inr (Some (FoundSpent t))
                  else if has_opcode_at (ti_script_sig i) 1 OP_1 then Inr (Some (FoundRefunded t))
                  else Inl (WrongSpendScript t))))))"

definition search_for_swap_tx_spend_my ::
  "utxo_coin \<Rightarrow> spend_client \<Rightarrow> u32 \<Rightarrow> bytes \<Rightarrow> bytes \<Rightarrow> bytes \<Rightarrow> nat \<Rightarrow> u64 \<Rightarrow> utxo_error + utxo_found_spend option" where
  "search_for_swap_tx_spend_my c client time_lock other_pub secret_hash tx output_index search_from_block =
     bind_res (or_err UnexpectedDerivationMethod (uc_key_pair c)) (\<lambda>key.
     bind_res (public_of other_pub) (\<lambda>other_public.
       search_for_swap_output_spend c client time_lock (se_public (uc_env c) key) other_public secret_hash tx output_index
         search_from_block))"

definition search_for_swap_tx_spend_other ::
  "utxo_coin \<Rightarrow> spend_client \<Rightarrow> u32 \<Rightarrow> bytes \<Rightarrow> bytes \<Rightarrow> bytes \<Rightarrow> nat \<Rightarrow> u64 \<Rightarrow> utxo_error + utxo_found_spend option" where
  "search_for_swap_tx_spend_other c client time_lock other_pub secret_hash tx output_index search_from_block =
     bind_res (or_err UnexpectedDerivationMethod (uc_key_pair c)) (\<lambda>key.
     bind_res (public_of other_pub) (\<lambda>other_public.
       search_for_swap_output_spend c client time_lock other_public (se_public (uc_env c) key) secret_hash tx output_index
         search_from_block))"

definition OP_PUSHBYTES_32 :: opcode where
  "OP_PUSHBYTES_32 = 0x20"

fun extract_secret_from :: "sign_env \<Rightarrow> bytes \<Rightarrow> transaction_input list \<Rightarrow> utxo_error + bytes" where
  "extract_secret_from env secret_hash [] = Inl SecretNotFound"
| "extract_secret_from env secret_hash (input # inputs) =
     (case get_instruction (ti_script_sig input) 1 of
        Some (Inr instr) \<Rightarrow>
          (if ins_opcode instr \<noteq> OP_PUSHBYTES_32 then extract_secret_from env secret_hash inputs
           else case ins_data instr of
                  None \<Rightarrow> extract_secret_from env secret_hash inputs
                | Some secret \<Rightarrow>
                    if se_dhash160 env secret \<noteq> secret_hash then extract_secret_from env secret_hash inputs
                    else Inr secret)
      | Some (Inl e) \<Rightarrow> extract_secret_from env secret_hash inputs
      | None \<Rightarrow> extract_secret_from env secret_hash inputs)"

definition extract_secret :: "sign_env \<Rightarrow> bytes \<Rightarrow> bytes \<Rightarrow> utxo_error + bytes" where
  "extract_secret env secret_hash spend_tx =
     bind_res (utxo_tx_of spend_tx) (\<lambda>t. extract_secret_from env secret_hash (tx_inputs t))"

section \<open>Validation\<close>

record spv_context =
  sx_env :: header_env
  sx_conf :: spv_conf
  sx_client :: utxo_rpc_client
  sx_storage :: "header_table option"

definition check_payment_output :: "transaction \<Rightarrow> nat \<Rightarrow> transaction_output \<Rightarrow> utxo_error + unit" where
  "check_payment_output t output_index expected =
     (if length (tx_outputs t) \<le> output_index then Inl (MissingOutput output_index)
      else let actual = tx_outputs t ! output_index in
        if actual = expected then Inr ()
        else if out_value actual \<noteq> out_value expected \<and> out_script_pubkey actual = out_script_pubkey expected
        then Inl (AmountMismatch actual expected)
        else if out_script_pubkey actual \<noteq> out_script_pubkey expected then Inl (ScriptMismatch actual expected)
        else Inl (OutputMismatch actual expected))"

text \<open>
  The loop asks for the transaction until it gets an answer, which may take four requests;
  \<open>fetch\<close> is the server at the time of each of them. \<open>None\<close> is a verification that has not ended.
\<close>

function validate_payment_loop ::
  "utxo_coin \<Rightarrow> spv_context \<Rightarrow> (nat \<Rightarrow> h256 \<Rightarrow> bytes option) \<Rightarrow> transaction \<Rightarrow> nat \<Rightarrow> bytes \<Rightarrow> u64 \<Rightarrow> u64 \<Rightarrow> u64 \<Rightarrow> nat
    \<Rightarrow> (utxo_error + unit) option \<times> header_table option" where
  "validate_payment_loop c spv fetch t output_index expected_redeem amount try_spv_proof_until confirmations attempts =
     (case fetch attempts (rev (utxo_txid c t)) of
        None \<Rightarrow>
          if attempts > 2 then (Some (Inl GetTxFailed), sx_storage spv)
          else validate_payment_loop c spv fetch t output_index expected_redeem amount try_spv_proof_until confirmations
                 (attempts + 1)
      | Some tx_from_rpc \<Rightarrow>
          if put_transaction 0 t \<noteq> tx_from_rpc \<and> put_transaction serialize_transaction_witness t \<noteq> tx_from_rpc
          then (Some (Inl TxMismatch), sx_storage spv)
          else case bind_res (p2sh_of (uc_env c) expected_redeem) (\<lambda>script.
                 check_payment_output t output_index \<lparr>out_value = amount, out_script_pubkey = script\<rparr>) of
                 Inl e \<Rightarrow> (Some (Inl e), sx_storage spv)
               | Inr _ \<Rightarrow>
                   if \<not> uc_enable_spv_proof c \<or> confirmations = 0 then (Some (Inr ()), sx_storage spv)
                   else (case validate_spv_proof (sx_env spv) (sx_conf spv) (sx_client spv) t try_spv_proof_until
                             (sx_storage spv) of
                           (None, storage) \<Rightarrow> (None, storage)
                         | (Some (Inl e), storage) \<Rightarrow> (Some (Inl (SpvFailed e)), storage)
                         | (Some (Inr _), storage) \<Rightarrow> (Some (Inr ()), storage)))"
  by pat_completeness auto

termination validate_payment_loop
  by (relation "measure (\<lambda>(c, spv, fetch, t, output_index, expected_redeem, amount, until, confirmations, attempts). 3 - attempts)")
    auto

declare validate_payment_loop.simps [simp del]

definition validate_payment ::
  "utxo_coin \<Rightarrow> spv_context \<Rightarrow> (nat \<Rightarrow> h256 \<Rightarrow> bytes option) \<Rightarrow> transaction \<Rightarrow> nat \<Rightarrow> public \<Rightarrow> public \<Rightarrow> bytes \<Rightarrow> rat
    \<Rightarrow> u32 \<Rightarrow> u64 \<Rightarrow> u64 \<Rightarrow> (utxo_error + unit) option \<times> header_table option" where
  "validate_payment c spv fetch t output_index first_pub0 second_pub0 priv_bn_hash amount time_lock try_spv_proof_until
       confirmations =
     (case bind_res (sat_from_big_decimal amount (uc_decimals c)) (\<lambda>sat.
        bind_res (panic_none (payment_script time_lock priv_bn_hash first_pub0 second_pub0)) (\<lambda>redeem. Inr (sat, redeem))) of
        Inl e \<Rightarrow> (Some (Inl e), sx_storage spv)
      | Inr (sat, redeem) \<Rightarrow>
          validate_payment_loop c spv fetch t output_index redeem sat try_spv_proof_until confirmations 0)"

record utxo_payment_input =
  vp_payment_tx :: bytes
  vp_time_lock :: u32
  vp_taker_pub :: bytes
  vp_maker_pub :: bytes
  vp_secret_hash :: bytes
  vp_amount :: rat
  vp_swap_contract_address :: "bytes option"
  vp_try_spv_proof_until :: u64
  vp_confirmations :: u64

definition validate_maker_payment ::
  "utxo_coin \<Rightarrow> spv_context \<Rightarrow> (nat \<Rightarrow> h256 \<Rightarrow> bytes option) \<Rightarrow> utxo_payment_input
    \<Rightarrow> (utxo_error + unit) option \<times> header_table option" where
  "validate_maker_payment c spv fetch inp =
     (case bind_res (public_of (vp_taker_pub inp)) (\<lambda>my_public.
        bind_res (previous_tx c (vp_payment_tx inp)) (\<lambda>t.
        bind_res (public_of (vp_maker_pub inp)) (\<lambda>maker_public. Inr (my_public, t, maker_public)))) of
        Inl e \<Rightarrow> (Some (Inl e), sx_storage spv)
      | Inr (my_public, t, maker_public) \<Rightarrow>
          validate_payment c spv fetch t default_swap_vout maker_public my_public (vp_secret_hash inp) (vp_amount inp)
            (vp_time_lock inp) (vp_try_spv_proof_until inp) (vp_confirmations inp))"

definition validate_taker_payment ::
  "utxo_coin \<Rightarrow> spv_context \<Rightarrow> (nat \<Rightarrow> h256 \<Rightarrow> bytes option) \<Rightarrow> utxo_payment_input
    \<Rightarrow> (utxo_error + unit) option \<times> header_table option" where
  "validate_taker_payment c spv fetch inp =
     (case bind_res (public_of (vp_maker_pub inp)) (\<lambda>my_public.
        bind_res (previous_tx c (vp_payment_tx inp)) (\<lambda>t.
        bind_res (public_of (vp_taker_pub inp)) (\<lambda>taker_public. Inr (my_public, t, taker_public)))) of
        Inl e \<Rightarrow> (Some (Inl e), sx_storage spv)
      | Inr (my_public, t, taker_public) \<Rightarrow>
          validate_payment c spv fetch t default_swap_vout taker_public my_public (vp_secret_hash inp) (vp_amount inp)
            (vp_time_lock inp) (vp_try_spv_proof_until inp) (vp_confirmations inp))"

definition check_if_my_payment_sent ::
  "utxo_coin \<Rightarrow> spend_server \<Rightarrow> u32 \<Rightarrow> bytes \<Rightarrow> bytes \<Rightarrow> bytes \<Rightarrow> utxo_error + transaction option" where
  "check_if_my_payment_sent c sv time_lock my_pub other_pub secret_hash =
     bind_res (public_of my_pub) (\<lambda>my_public.
     bind_res (public_of other_pub) (\<lambda>other_public.
     bind_res (panic_none (payment_script time_lock secret_hash my_public other_public)) (\<lambda>script.
     bind_res (p2sh_of (uc_env c) script) (\<lambda>p2sh.
     bind_res (or_err UtxoRpcFailed (sv_scripthash_get_history sv (rev (se_sha256 (uc_env c) p2sh)))) (\<lambda>history.
       case history of
         [] \<Rightarrow> Inr None
       | item # _ \<Rightarrow>
           bind_res (or_err UtxoRpcFailed (sv_get_transaction_bytes sv (hi_tx_hash item))) (\<lambda>bs.
           bind_res (previous_tx c bs) (\<lambda>t. Inr (Some t))))))))"

section \<open>The dex fee\<close>

text \<open>
  \<open>to_decimal\<close> is the division that turns a rational amount into a decimal one, \<open>from_der\<close> and
  \<open>pubkey_from_slice\<close> are the parsers of secp256k1, the latter giving the compressed form.
\<close>

definition burn_script :: "utxo_coin \<Rightarrow> addr_format \<Rightarrow> dex_fee_burn_destination \<Rightarrow> utxo_error + bytes" where
  "burn_script c fmt dest =
     (case dest of
        KmdOpReturn \<Rightarrow> panic_none (push_opcode OP_RETURN builder_default)
      | PreBurnAccount burn_pubkey \<Rightarrow>
          bind_res (address_from_raw_pubkey c fmt burn_pubkey) (\<lambda>a. panic_none (build_p2pkh (ad_hash a))))"

definition generate_taker_fee_tx_outputs ::
  "(rat \<Rightarrow> rat) \<Rightarrow> utxo_coin \<Rightarrow> addr_format \<Rightarrow> dex_fee \<Rightarrow> utxo_address \<Rightarrow> utxo_error + transaction_output list" where
  "generate_taker_fee_tx_outputs to_decimal c fmt fee fee_address =
     (case fee of
        NoFee \<Rightarrow> Inr []
      | Standard amount \<Rightarrow>
          bind_res (sat_from_big_decimal (to_decimal amount) (uc_decimals c)) (\<lambda>sat.
          bind_res (panic_none (build_p2pkh (ad_hash fee_address))) (\<lambda>script.
            Inr [\<lparr>out_value = sat, out_script_pubkey = script\<rparr>]))
      | WithBurn fee_amt burn_amt burn_destination \<Rightarrow>
          bind_res (sat_from_big_decimal (to_decimal fee_amt) (uc_decimals c)) (\<lambda>fee_sat.
          bind_res (sat_from_big_decimal (to_decimal burn_amt) (uc_decimals c)) (\<lambda>burn_sat.
          bind_res (panic_none (build_p2pkh (ad_hash fee_address))) (\<lambda>script.
          bind_res (burn_script c fmt burn_destination) (\<lambda>burn.
            Inr [\<lparr>out_value = fee_sat, out_script_pubkey = script\<rparr>, \<lparr>out_value = burn_sat, out_script_pubkey = burn\<rparr>])))))"

definition taker_fee_outputs ::
  "(rat \<Rightarrow> rat) \<Rightarrow> utxo_coin \<Rightarrow> addr_format \<Rightarrow> dex_fee \<Rightarrow> bytes \<Rightarrow> utxo_error + transaction_output list" where
  "taker_fee_outputs to_decimal c fmt fee fee_pub_key =
     bind_res (address_from_raw_pubkey c fmt fee_pub_key) (\<lambda>fee_address.
       generate_taker_fee_tx_outputs to_decimal c fmt fee fee_address)"

definition pubkey_from_script_sig ::
  "(bytes \<Rightarrow> bool) \<Rightarrow> (bytes \<Rightarrow> bytes option) \<Rightarrow> bytes \<Rightarrow> utxo_error + bytes" where
  "pubkey_from_script_sig from_der pubkey_from_slice script =
     (case (get_instruction script 0, get_instruction script 1, get_instruction script 2) of
        (Some (Inr sig), second, third) \<Rightarrow>
          (if ins_opcode sig \<noteq> 70 \<and> ins_opcode sig \<noteq> 71 \<and> ins_opcode sig \<noteq> 72 then Inl BadScriptSig
           else case ins_data sig of
                  None \<Rightarrow> Inl BadScriptSig
                | Some bs \<Rightarrow>
                    if \<not> from_der (butlast bs) then Inl BadScriptSig
                    else case second of
                           Some (Inr key) \<Rightarrow>
                             (if ins_opcode key \<noteq> 33 then Inl BadScriptSig
                              else case Option.bind (ins_data key) pubkey_from_slice of
                                     None \<Rightarrow> Inl BadScriptSig
                                   | Some pk \<Rightarrow> if third \<noteq> None then Inl BadScriptSig else Inr pk)
                         | _ \<Rightarrow> Inl BadScriptSig)
      | _ \<Rightarrow> Inl BadScriptSig)"

definition pubkey_from_witness_script ::
  "(bytes \<Rightarrow> bool) \<Rightarrow> (bytes \<Rightarrow> bytes option) \<Rightarrow> bytes list \<Rightarrow> utxo_error + bytes" where
  "pubkey_from_witness_script from_der pubkey_from_slice witness =
     (case witness of
        [signature, key] \<Rightarrow>
          if signature = [] \<or> \<not> from_der (butlast signature) then Inl BadWitness
          else or_err BadWitness (pubkey_from_slice key)
      | _ \<Rightarrow> Inl BadWitness)"

fun inputs_signed_by_pub ::
  "(bytes \<Rightarrow> bool) \<Rightarrow> (bytes \<Rightarrow> bytes option) \<Rightarrow> bytes \<Rightarrow> transaction_input list \<Rightarrow> utxo_error + bool" where
  "inputs_signed_by_pub from_der pubkey_from_slice expected_pub [] = Inr True"
| "inputs_signed_by_pub from_der pubkey_from_slice expected_pub (i # is) =
     bind_res (if input_has_witness i then pubkey_from_witness_script from_der pubkey_from_slice (ti_script_witness i)
               else pubkey_from_script_sig from_der pubkey_from_slice (ti_script_sig i)) (\<lambda>pubkey.
       if pubkey \<noteq> expected_pub then Inr False
       else inputs_signed_by_pub from_der pubkey_from_slice expected_pub is)"

definition check_all_inputs_signed_by_pub ::
  "(bytes \<Rightarrow> bool) \<Rightarrow> (bytes \<Rightarrow> bytes option) \<Rightarrow> transaction \<Rightarrow> bytes \<Rightarrow> utxo_error + bool" where
  "check_all_inputs_signed_by_pub from_der pubkey_from_slice t expected_pub =
     inputs_signed_by_pub from_der pubkey_from_slice expected_pub (tx_inputs t)"

definition is_tx_confirmed_before_block :: "utxo_rpc \<Rightarrow> rpc_transaction \<Rightarrow> u64 \<Rightarrow> utxo_error + bool" where
  "is_tx_confirmed_before_block rpc t block_number =
     (case rt_height t of
        Some confirmed_at \<Rightarrow> Inr (confirmed_at \<le> block_number)
      | None \<Rightarrow>
          if rt_confirmations t > 0
          then bind_res (or_err UtxoRpcFailed (rpc_get_block_count rpc)) (\<lambda>current_block.
            Inr (current_block + 1 - ucast (rt_confirmations t) \<le> block_number))
          else Inr False)"

definition validate_fee_output :: "transaction \<Rightarrow> nat \<Rightarrow> bytes \<Rightarrow> u64 \<Rightarrow> utxo_error + unit" where
  "validate_fee_output t index expected_script expected_sat =
     (if length (tx_outputs t) \<le> index then Inl (MissingOutput index)
      else let out = tx_outputs t ! index in
        if out_script_pubkey out \<noteq> expected_script then Inl (FeeScriptMismatch index)
        else if out_value out < expected_sat then Inl (FeeTooSmall index)
        else Inr ())"

definition validate_dex_output :: "transaction \<Rightarrow> nat \<Rightarrow> utxo_address \<Rightarrow> u64 \<Rightarrow> utxo_error + unit" where
  "validate_dex_output t index expected_addr expected_sat =
     (if length (tx_outputs t) \<le> index then Inl (MissingOutput index)
      else bind_res (panic_none (build_p2pkh (ad_hash expected_addr))) (\<lambda>expected_script.
        validate_fee_output t index expected_script expected_sat))"

definition validate_burn_output :: "transaction \<Rightarrow> nat \<Rightarrow> bytes \<Rightarrow> u64 \<Rightarrow> utxo_error + unit" where
  "validate_burn_output t index expected_script expected_sat = validate_fee_output t index expected_script expected_sat"

definition validate_fee ::
  "(rat \<Rightarrow> rat) \<Rightarrow> (bytes \<Rightarrow> bool) \<Rightarrow> (bytes \<Rightarrow> bytes option) \<Rightarrow> utxo_coin \<Rightarrow> addr_format \<Rightarrow> utxo_rpc \<Rightarrow> transaction \<Rightarrow> nat \<Rightarrow> bytes
    \<Rightarrow> dex_fee \<Rightarrow> u64 \<Rightarrow> bytes \<Rightarrow> utxo_error + unit" where
  "validate_fee to_decimal from_der pubkey_from_slice c fmt rpc t output_index sender_pubkey fee min_block_number fee_addr =
     bind_res (address_from_raw_pubkey c fmt fee_addr) (\<lambda>address.
     bind_res (check_all_inputs_signed_by_pub from_der pubkey_from_slice t sender_pubkey) (\<lambda>signed_by_sender.
       if \<not> signed_by_sender then Inl WrongFeeSender
       else bind_res (or_err UtxoRpcFailed (rpc_get_verbose_transaction rpc (rev (utxo_txid c t)))) (\<lambda>tx_from_rpc.
         bind_res (is_tx_confirmed_before_block rpc tx_from_rpc min_block_number) (\<lambda>too_early.
           if too_early then Inl FeeConfirmedTooEarly
           else if rt_hex tx_from_rpc \<noteq> put_transaction 0 t
             \<and> rt_hex tx_from_rpc \<noteq> put_transaction serialize_transaction_witness t then Inl TxMismatch
           else case fee of
             NoFee \<Rightarrow> Inr ()
           | Standard amount \<Rightarrow>
               bind_res (sat_from_big_decimal (to_decimal amount) (uc_decimals c)) (\<lambda>expected_sat.
                 validate_dex_output t output_index address expected_sat)
           | WithBurn fee_amt burn_amt burn_destination \<Rightarrow>
               bind_res (sat_from_big_decimal (to_decimal fee_amt) (uc_decimals c)) (\<lambda>fee_sat.
               bind_res (validate_dex_output t output_index address fee_sat) (\<lambda>_.
               bind_res (sat_from_big_decimal (to_decimal burn_amt) (uc_decimals c)) (\<lambda>burn_sat.
               bind_res (burn_script c fmt burn_destination) (\<lambda>script.
                 validate_burn_output t (output_index + 1) script burn_sat))))))))"

end
