(* ===== verification/UtxoSwapSafety.thy ===== *)
theory UtxoSwapSafety
  imports UtxoSwap
begin

text \<open>
  What the hash time-locked payments guarantee: the redeem script determines the terms of the
  payment, a payment made for the terms passes the validation for them and no others, the spend
  reveals the secret and is told from a refund on the chain, a refund is sent with a lock time the
  network accepts, and the dex fee that is sent is the one that is validated.
\<close>

section \<open>The redeem script\<close>

abbreviation pushed :: "bytes \<Rightarrow> bytes" where
  "pushed bs \<equiv> of_nat (length bs) # bs"

abbreviation pushable :: "bytes \<Rightarrow> bool" where
  "pushable bs \<equiv> 1 \<le> length bs \<and> length bs \<le> 75"

lemma push_simps:
  "push_opcode op (Some d) = Some (d @ [op])"
  "push_opcode op None = None"
  "push_bytes bs None = None"
  "push_bytes bs (Some d) = (if pushable bs then Some (d @ pushed bs) else None)"
  by (simp_all add: push_opcode_def push_bytes_def)

lemma pushed_append_inj:
  assumes "length a \<le> 75" "length b \<le> 75"
  shows "pushed a @ r = pushed b @ r' \<longleftrightarrow> a = b \<and> r = r'"
proof -
  have "(of_nat (length a) :: u8) = of_nat (length b) \<longleftrightarrow> length a = length b"
    using assms by (simp add: word_unat_eq_iff unat_of_nat)
  then show ?thesis by auto
qed

definition htlc_terms_ok :: "bytes \<Rightarrow> public \<Rightarrow> public \<Rightarrow> bool" where
  "htlc_terms_ok secret_hash p q = (pushable secret_hash \<and> pushable (public_bytes p) \<and> pushable (public_bytes q))"

lemma payment_script_bytes:
  "payment_script lock sh p q =
     (if htlc_terms_ok sh p q
      then Some ([OP_IF] @ pushed (put_u32 lock) @ [OP_CHECKLOCKTIMEVERIFY, OP_DROP] @ pushed (public_bytes p)
        @ [OP_CHECKSIG, OP_ELSE, OP_SIZE, 1, 32, OP_EQUALVERIFY, OP_HASH160] @ pushed sh
        @ [OP_EQUALVERIFY] @ pushed (public_bytes q) @ [OP_CHECKSIG, OP_ENDIF])
      else None)"
  by (auto simp: payment_script_def htlc_terms_ok_def builder_default_def push_simps)

lemma put_u32_inj: "put_u32 v = put_u32 w \<Longrightarrow> v = w"
  using get_put_word[of 4 v "[]"] get_put_word[of 4 w "[]"] by simp

text \<open>The redeem script determines the lock time, the secret hash and both keys.\<close>

lemma payment_script_inj:
  assumes "payment_script lock sh p q = Some s" "payment_script lock' sh' p' q' = Some s"
  shows "lock = lock' \<and> sh = sh' \<and> public_bytes p = public_bytes p' \<and> public_bytes q = public_bytes q'"
proof -
  have ok: "htlc_terms_ok sh p q" "htlc_terms_ok sh' p' q'"
    using assms by (auto simp: payment_script_bytes split: if_splits)
  then have len: "length sh \<le> 75" "length sh' \<le> 75" "length (public_bytes p) \<le> 75" "length (public_bytes p') \<le> 75"
    "length (public_bytes q) \<le> 75" "length (public_bytes q') \<le> 75" by (simp_all add: htlc_terms_ok_def)
  have lock: "length (put_u32 lock) \<le> 75" "length (put_u32 lock') \<le> 75" by simp_all
  have "[OP_IF] @ pushed (put_u32 lock) @ [OP_CHECKLOCKTIMEVERIFY, OP_DROP] @ pushed (public_bytes p)
        @ [OP_CHECKSIG, OP_ELSE, OP_SIZE, 1, 32, OP_EQUALVERIFY, OP_HASH160] @ pushed sh
        @ [OP_EQUALVERIFY] @ pushed (public_bytes q) @ [OP_CHECKSIG, OP_ENDIF]
    = [OP_IF] @ pushed (put_u32 lock') @ [OP_CHECKLOCKTIMEVERIFY, OP_DROP] @ pushed (public_bytes p')
        @ [OP_CHECKSIG, OP_ELSE, OP_SIZE, 1, 32, OP_EQUALVERIFY, OP_HASH160] @ pushed sh'
        @ [OP_EQUALVERIFY] @ pushed (public_bytes q') @ [OP_CHECKSIG, OP_ENDIF]"
    using assms ok unfolding payment_script_bytes by (simp only: if_True option.inject)
  then have "put_u32 lock = put_u32 lock' \<and> public_bytes p = public_bytes p' \<and> sh = sh' \<and> public_bytes q = public_bytes q'"
    by (simp only: same_append_eq pushed_append_inj[OF lock] pushed_append_inj[OF len(1,2)] pushed_append_inj[OF len(3,4)]
        pushed_append_inj[OF len(5,6)])
  then show ?thesis using put_u32_inj by blast
qed

section \<open>Payments and their validation\<close>

lemma public_of_Inr: "public_of bs = Inr pk \<Longrightarrow> public_bytes pk = bs \<and> pushable bs"
  by (auto simp: public_of_def public_from_slice_def split: if_splits)

lemma panic_none_Inr: "panic_none r = Inr v \<longleftrightarrow> r = Some v"
  by (simp add: panic_none_def split: option.splits)

lemma or_err_Inr: "or_err e r = Inr v \<longleftrightarrow> r = Some v"
  by (simp add: or_err_def split: option.splits)

lemma p2sh_of_ok:
  assumes "\<And>x. length (se_ripemd160 env x) = 20"
  shows "p2sh_of env s = Inr ([OP_HASH160] @ pushed (se_dhash160 env s) @ [OP_EQUAL])"
  using assms by (simp add: p2sh_of_def build_p2sh_def builder_default_def push_simps panic_none_def dhash160_def)

definition spv_passed :: "utxo_coin \<Rightarrow> spv_context \<Rightarrow> transaction \<Rightarrow> utxo_payment_input \<Rightarrow> bool" where
  "spv_passed c spv t inp =
     (uc_enable_spv_proof c \<and> vp_confirmations inp \<noteq> 0 \<longrightarrow>
        fst (validate_spv_proof (sx_env spv) (sx_conf spv) (sx_client spv) t (vp_try_spv_proof_until inp) (sx_storage spv))
          = Some (Inr ()))"

text \<open>A transaction is served when the server answers one of the four requests with its bytes.\<close>

definition served :: "utxo_coin \<Rightarrow> (nat \<Rightarrow> h256 \<Rightarrow> bytes option) \<Rightarrow> transaction \<Rightarrow> bool" where
  "served c fetch t =
     (\<exists>n \<le> 3. fetch n (rev (utxo_txid c t)) \<in> {Some (put_transaction 0 t), Some (put_transaction serialize_transaction_witness t)}
        \<and> (\<forall>k < n. fetch k (rev (utxo_txid c t)) = None))"

lemma validate_payment_loop_served:
  assumes "fetch n (rev (utxo_txid c t)) = Some bs" "bs \<in> {put_transaction 0 t, put_transaction serialize_transaction_witness t}"
    "\<forall>k < n. k \<ge> a \<longrightarrow> fetch k (rev (utxo_txid c t)) = None" "a \<le> n" "n \<le> 3"
  shows "fst (validate_payment_loop c spv fetch t i redeem amount until conf a) = Some (Inr ()) \<longleftrightarrow>
    bind_res (p2sh_of (uc_env c) redeem) (\<lambda>s. check_payment_output t i \<lparr>out_value = amount, out_script_pubkey = s\<rparr>) = Inr ()
    \<and> (uc_enable_spv_proof c \<and> conf \<noteq> 0 \<longrightarrow>
        fst (validate_spv_proof (sx_env spv) (sx_conf spv) (sx_client spv) t until (sx_storage spv)) = Some (Inr ()))"
  using assms(3,4)
proof (induction "n - a" arbitrary: a)
  case 0
  then have "a = n" by simp
  then show ?case
    using assms(1,2) by (subst validate_payment_loop.simps) (auto split: sum.splits prod.splits option.splits)
next
  case (Suc m)
  then have "fetch a (rev (utxo_txid c t)) = None" "a \<le> 2" using assms(5) by auto
  moreover have "fst (validate_payment_loop c spv fetch t i redeem amount until conf (a + 1)) = Some (Inr ()) \<longleftrightarrow>
    bind_res (p2sh_of (uc_env c) redeem) (\<lambda>s. check_payment_output t i \<lparr>out_value = amount, out_script_pubkey = s\<rparr>) = Inr ()
    \<and> (uc_enable_spv_proof c \<and> conf \<noteq> 0 \<longrightarrow>
        fst (validate_spv_proof (sx_env spv) (sx_conf spv) (sx_client spv) t until (sx_storage spv)) = Some (Inr ()))"
    using Suc by (intro Suc.hyps(1)) auto
  ultimately show ?case by (subst validate_payment_loop.simps) simp
qed


lemma put_transaction_hash_algo: "put_transaction flags (t\<lparr>tx_tx_hash_algo := a\<rparr>) = put_transaction flags t"
  by (simp add: put_transaction_def tx_has_witness_def)

lemma utxo_tx_of_put: "tx_ok StandardWithWitness flags t \<Longrightarrow> utxo_tx_of (put_transaction flags t) = Inr t"
  using deserialize_tx_put[of StandardWithWitness flags t "[]"]
  by (simp add: utxo_tx_of_def deserialize_def get_transaction_def is_finished_def)

lemma previous_tx_put:
  "tx_ok StandardWithWitness flags t \<Longrightarrow> previous_tx c (put_transaction flags t) = Inr (t\<lparr>tx_tx_hash_algo := uc_tx_hash_algo c\<rparr>)"
  by (simp add: previous_tx_def utxo_tx_of_put)

definition redeem_of :: "u32 \<Rightarrow> bytes \<Rightarrow> bytes \<Rightarrow> bytes \<Rightarrow> bytes option" where
  "redeem_of lock secret_hash payer_pub payee_pub =
     (case (public_of payer_pub, public_of payee_pub) of
        (Inr p, Inr q) \<Rightarrow> payment_script lock secret_hash p q
      | _ \<Rightarrow> None)"

lemma redeem_of_inj:
  assumes "redeem_of lock sh p q = Some r" "redeem_of lock' sh' p' q' = Some r"
  shows "(lock, sh, p, q) = (lock', sh', p', q')"
proof -
  obtain a b a' b' where "public_of p = Inr a" "public_of q = Inr b" "public_of p' = Inr a'" "public_of q' = Inr b'"
    and s: "payment_script lock sh a b = Some r" "payment_script lock' sh' a' b' = Some r"
    using assms by (auto simp: redeem_of_def split: sum.splits)
  then have "public_bytes a = p" "public_bytes b = q" "public_bytes a' = p'" "public_bytes b' = q'"
    by (auto dest: public_of_Inr)
  then show ?thesis using payment_script_inj[OF s] by simp
qed

lemma payment_outputs:
  assumes hash: "\<And>x. length (se_ripemd160 (uc_env c) x) = 20"
    and "generate_swap_payment_outputs c lock p q sh amount = Inr outs"
  obtains r sat op_return where "redeem_of lock sh p q = Some r" "sat_from_big_decimal amount (uc_decimals c) = Inr sat"
    "outs = [\<lparr>out_value = sat, out_script_pubkey = [OP_HASH160] @ pushed (se_dhash160 (uc_env c) r) @ [OP_EQUAL]\<rparr>, op_return]"
  using assms(2)
  unfolding generate_swap_payment_outputs_def bind_res_Inr_iff panic_none_Inr p2sh_of_ok[OF hash]
  by (auto simp: redeem_of_def)

text \<open>
  What a validation of the terms \<open>(lock', sh', p', q', amount')\<close> says of a payment to the script \<open>r\<close>.
\<close>

lemma validate_payment_served:
  assumes hash: "\<And>x. length (se_ripemd160 (uc_env c) x) = 20" and "served c fetch t"
    and out: "tx_outputs t \<noteq> []"
      "tx_outputs t ! 0 = \<lparr>out_value = sat, out_script_pubkey = [OP_HASH160] @ pushed (se_dhash160 (uc_env c) r) @ [OP_EQUAL]\<rparr>"
  shows "fst (validate_payment c spv fetch t default_swap_vout p' q' sh' amount' lock' until conf) = Some (Inr ()) \<longleftrightarrow>
    sat_from_big_decimal amount' (uc_decimals c) = Inr sat
    \<and> (\<exists>r'. payment_script lock' sh' p' q' = Some r' \<and> se_dhash160 (uc_env c) r' = se_dhash160 (uc_env c) r)
    \<and> (uc_enable_spv_proof c \<and> conf \<noteq> 0 \<longrightarrow>
        fst (validate_spv_proof (sx_env spv) (sx_conf spv) (sx_client spv) t until (sx_storage spv)) = Some (Inr ()))"
proof -
  obtain n bs where n: "fetch n (rev (utxo_txid c t)) = Some bs"
    "bs \<in> {put_transaction 0 t, put_transaction serialize_transaction_witness t}"
    "\<forall>k < n. k \<ge> 0 \<longrightarrow> fetch k (rev (utxo_txid c t)) = None" "n \<le> 3"
    using assms(2) unfolding served_def by auto
  have len: "length (se_dhash160 (uc_env c) x) \<le> 75" for x by (simp add: dhash160_def hash)
  have "([OP_HASH160] @ pushed (se_dhash160 (uc_env c) x) @ [OP_EQUAL] = [OP_HASH160] @ pushed (se_dhash160 (uc_env c) y) @ [OP_EQUAL])
      \<longleftrightarrow> se_dhash160 (uc_env c) x = se_dhash160 (uc_env c) y" for x y
    by (simp only: same_append_eq pushed_append_inj[OF len len] simp_thms)
  then have check: "check_payment_output t 0 \<lparr>out_value = v, out_script_pubkey = [OP_HASH160] @ pushed (se_dhash160 (uc_env c) r') @ [OP_EQUAL]\<rparr> = Inr ()
      \<longleftrightarrow> v = sat \<and> se_dhash160 (uc_env c) r' = se_dhash160 (uc_env c) r" for v r'
    using out unfolding check_payment_output_def by (auto simp: Let_def)
  note loop = validate_payment_loop_served[where fetch = fetch and n = n and a = 0, OF n(1,2,3) le0 n(4)]
  show ?thesis
  proof (cases "sat_from_big_decimal amount' (uc_decimals c)")
    case (Inr v)
    then show ?thesis
      by (cases "payment_script lock' sh' p' q'")
        (auto simp: validate_payment_def panic_none_def default_swap_vout_def loop p2sh_of_ok[OF hash] check[unfolded append_Cons append_Nil])
  qed (simp add: validate_payment_def)
qed


text \<open>
  C25: A transaction whose first outputs are the ones the maker makes for the agreed terms passes
  the taker's validation exactly if the terms that the taker expects are the same (the lock time,
  the secret hash, both keys and the amount in satoshi), and the inclusion proof, where it is asked
  for, is good. The only other way is a collision of the hash on two different redeem scripts. The
  server may fail to deliver the transaction three times.
\<close>

theorem maker_payment_validated:
  assumes hash: "\<And>x. length (se_ripemd160 (uc_env c) x) = 20"
    and sent: "generate_swap_payment_outputs c lock maker_pub taker_pub secret_hash amount = Inr outs" "tx_outputs t = outs @ change"
    and tx: "tx_ok StandardWithWitness flags t" "vp_payment_tx inp = put_transaction flags t"
      "served c fetch (t\<lparr>tx_tx_hash_algo := uc_tx_hash_algo c\<rparr>)"
  shows "fst (validate_maker_payment c spv fetch inp) = Some (Inr ()) \<longleftrightarrow>
    spv_passed c spv (t\<lparr>tx_tx_hash_algo := uc_tx_hash_algo c\<rparr>) inp
    \<and> sat_from_big_decimal (vp_amount inp) (uc_decimals c) = sat_from_big_decimal amount (uc_decimals c)
    \<and> ((vp_time_lock inp, vp_secret_hash inp, vp_maker_pub inp, vp_taker_pub inp) = (lock, secret_hash, maker_pub, taker_pub)
       \<or> (\<exists>r r'. redeem_of lock secret_hash maker_pub taker_pub = Some r
            \<and> redeem_of (vp_time_lock inp) (vp_secret_hash inp) (vp_maker_pub inp) (vp_taker_pub inp) = Some r'
            \<and> r \<noteq> r' \<and> se_dhash160 (uc_env c) r = se_dhash160 (uc_env c) r'))"
proof -
  let ?t = "t\<lparr>tx_tx_hash_algo := uc_tx_hash_algo c\<rparr>"
  let ?hash = "se_dhash160 (uc_env c)"
  obtain r sat op_return where r: "redeem_of lock secret_hash maker_pub taker_pub = Some r"
    "sat_from_big_decimal amount (uc_decimals c) = Inr sat"
    "outs = [\<lparr>out_value = sat, out_script_pubkey = [OP_HASH160] @ pushed (?hash r) @ [OP_EQUAL]\<rparr>, op_return]"
    using payment_outputs[OF hash sent(1)] .
  have out: "tx_outputs ?t \<noteq> []" "tx_outputs ?t ! 0 = \<lparr>out_value = sat, out_script_pubkey = [OP_HASH160] @ pushed (?hash r) @ [OP_EQUAL]\<rparr>"
    using sent(2) r(3) by simp_all
  have "fst (validate_maker_payment c spv fetch inp) = Some (Inr ()) \<longleftrightarrow>
      (\<exists>r'. redeem_of (vp_time_lock inp) (vp_secret_hash inp) (vp_maker_pub inp) (vp_taker_pub inp) = Some r' \<and> ?hash r' = ?hash r)
      \<and> sat_from_big_decimal (vp_amount inp) (uc_decimals c) = Inr sat \<and> spv_passed c spv ?t inp"
    by (cases "public_of (vp_taker_pub inp)"; cases "public_of (vp_maker_pub inp)")
      (auto simp: validate_maker_payment_def tx(2) previous_tx_put[OF tx(1)] validate_payment_served[OF hash tx(3) out]
        redeem_of_def spv_passed_def)
  moreover have "(\<exists>r'. redeem_of lock' sh' p' q' = Some r' \<and> ?hash r' = ?hash r) \<longleftrightarrow>
      (lock', sh', p', q') = (lock, secret_hash, maker_pub, taker_pub)
      \<or> (\<exists>r'. redeem_of lock' sh' p' q' = Some r' \<and> r \<noteq> r' \<and> ?hash r = ?hash r')" for lock' sh' p' q'
    using r(1) redeem_of_inj[OF r(1), of lock' sh' p' q'] by (cases "redeem_of lock' sh' p' q'") auto
  ultimately show ?thesis using r(1,2) by auto
qed


section \<open>Spending transactions\<close>

definition standard_coin :: "utxo_coin \<Rightarrow> bool" where
  "standard_coin c = (\<not> uc_is_pos c \<and> uc_ticker c \<noteq> ''NAV'' \<and> uc_zcash c = uc_overwintered c
     \<and> \<not> bit (uc_tx_version c) 31 \<and> (uc_overwintered c \<or> uc_version_group_id c = 0))"

definition good_hashes :: "sign_env \<Rightarrow> bool" where
  "good_hashes env = ((\<forall>x. length (se_ripemd160 env x) = 20) \<and> (\<forall>x. length (se_sha256 env x) = 32))"

definition signs :: "sign_env \<Rightarrow> bytes \<Rightarrow> bool" where
  "signs env key = (\<forall>digest. \<exists>s. se_sign env key digest = Some s \<and> length s \<le> 72)"

lemma signature_hash_in_range: "i < length (sg_inputs s) \<Longrightarrow> \<exists>h. signature_hash env s i amount script version sighashtype = Some h"
  by (auto simp: signature_hash_def sighash_fork_id_def sighash_witness_v0_def witness_preimage_def sighash_legacy_def
      sighash_overwintered_def Let_def)

lemma push_data_ok: "length d \<le> 65535 \<Longrightarrow> \<exists>p. push_data d (Some pre) = Some (pre @ p) \<and> length p \<le> length d + 3"
  by (auto simp: push_data_def Let_def)

lemma p2sh_spend_ok:
  assumes "signs env key" "sg_inputs s = [u]" "length redeem \<le> 65535"
  obtains sig a b where "p2sh_spend env s 0 key script_data redeem version fork_id = Inr (signed_with u (a @ script_data @ b) [])"
    "push_data (script_sig sig fork_id) (Some []) = Some a" "push_data redeem (Some []) = Some b"
    "length a \<le> 76" "length b \<le> length redeem + 3"
proof -
  obtain h where h: "signature_hash env s 0 (ui_amount u) redeem version (1 OR fork_id) = Some h"
    using signature_hash_in_range[of 0 s env "ui_amount u" redeem version "1 OR fork_id"] assms(2) by auto
  obtain sig where sig: "se_sign env key h = Some sig" "length sig \<le> 72" using assms(1) by (auto simp: signs_def)
  have l: "length (script_sig sig fork_id) \<le> 73" using sig(2) by (simp add: script_sig_def)
  obtain a where a: "push_data (script_sig sig fork_id) (Some []) = Some a" "length a \<le> 76"
    using push_data_ok[of "script_sig sig fork_id" "[]"] l by auto
  obtain b where b: "push_data redeem (Some []) = Some b" "length b \<le> length redeem + 3"
    using push_data_ok[of redeem "[]"] assms(3) by auto
  have "p2sh_spend env s 0 key script_data redeem version fork_id = Inr (signed_with u (a @ script_data @ b) [])"
    using assms(2) h sig a b
    by (simp add: p2sh_spend_def signer_get_input_def calc_and_sign_sighash_def signature_hash_to_sign_def or_panic_def
        p2sh_spend_with_signature_def builder_default_def)
  then show ?thesis using that a b by blast
qed


text \<open>The transaction that spends a payment: its one input carries the signature, the data and the redeem script.\<close>

definition spends_htlc :: "utxo_coin \<Rightarrow> transaction \<Rightarrow> bytes \<Rightarrow> bytes \<Rightarrow> u32 \<Rightarrow> u32 \<Rightarrow> transaction \<Rightarrow> bool" where
  "spends_htlc c prev script_data redeem seq lock_time t =
     (\<exists>sig a b. push_data (script_sig sig (uc_fork_id c)) (Some []) = Some a \<and> push_data redeem (Some []) = Some b
        \<and> tx_inputs t = [\<lparr>ti_previous_output = \<lparr>op_hash = utxo_txid c prev, op_index = 0\<rparr>, ti_script_sig = a @ script_data @ b,
            ti_sequence = seq, ti_script_witness = []\<rparr>]
        \<and> tx_lock_time t = lock_time \<and> tx_tx_hash_algo t = uc_tx_hash_algo c
        \<and> (\<forall>flags. tx_ok StandardWithWitness flags (t\<lparr>tx_tx_hash_algo := DSHA256\<rparr>)))"

lemma p2sh_spending_tx_ok:
  assumes coin: "standard_coin c" "good_hashes (uc_env c)" "signs (uc_env c) key"
    and lock: "p2sh_tx_locktime c rpc lock = Inr lt" and prev: "tx_outputs prev \<noteq> []"
    and len: "length redeem \<le> 300" "length script_data \<le> 300" "length (out_script_pubkey out) \<le> 300"
  shows "\<exists>t. p2sh_spending_tx c rpc prev redeem [out] script_data seq lock key = Inr t
    \<and> spends_htlc c prev script_data redeem seq lt t"
proof -
  obtain first rest where first: "tx_outputs prev = first # rest" using prev by (cases "tx_outputs prev") auto
  let ?s = "spending_signer c rpc prev first [out] seq lt"
  let ?u = "\<lparr>ui_previous_output = \<lparr>op_hash = utxo_txid c prev, op_index = of_nat default_swap_vout\<rparr>, ui_sequence = seq,
    ui_amount = out_value first, ui_witness = []\<rparr>"
  have u: "sg_inputs ?s = [?u]" by (simp add: spending_signer_def)
  have "length redeem \<le> 65535" using len(1) by simp
  from p2sh_spend_ok[OF coin(3) u this, of script_data "uc_signature_version c" "uc_fork_id c"]
  obtain sig a b where
    spend: "p2sh_spend (uc_env c) ?s 0 key script_data redeem (uc_signature_version c) (uc_fork_id c) =
      Inr (signed_with ?u (a @ script_data @ b) [])"
    and push: "push_data (script_sig sig (uc_fork_id c)) (Some []) = Some a" "push_data redeem (Some []) = Some b"
    and l: "length a \<le> 76" "length b \<le> length redeem + 3" .
  let ?t = "complete_tx ?s [signed_with ?u (a @ script_data @ b) []]"
  have "length (utxo_txid c prev) = 32"
    using coin(2) by (auto simp: good_hashes_def tx_hash_of_def dhash256_def split: tx_hash_algo.splits)
  moreover have "bytes_ok (a @ script_data @ b)" "bytes_ok (out_script_pubkey out)" using l len by (simp_all add: bytes_ok_def)
  ultimately have io: "inputs_ok (tx_inputs ?t)" "outputs_ok (tx_outputs ?t)" "\<not> tx_has_witness ?t"
    by (simp_all add: complete_tx_def signed_with_def spending_signer_def inputs_ok_def input_ok_def out_point_ok_def witness_ok_def
        outputs_ok_def output_ok_def tx_has_witness_def input_has_witness_def max_list_size_def)
  have fields: "tx_version ?t = uc_tx_version c" "tx_overwintered ?t = uc_overwintered c"
    "tx_version_group_id ?t = uc_version_group_id c" "tx_n_time ?t = None" "tx_zcash ?t = uc_overwintered c"
    "tx_str_d_zeel ?t = None" "tx_inputs ?t \<noteq> []" "tx_outputs ?t \<noteq> []"
    using coin(1) by (simp_all add: complete_tx_def spending_signer_def standard_coin_def)
  have "tx_shielded_ok ?t" "tx_join_splits_ok ?t"
    by (simp_all add: complete_tx_def tx_shielded_ok_def tx_join_splits_ok_def max_list_size_def spending_signer_def) linarith
  then have "tx_shielded_ok (?t\<lparr>tx_tx_hash_algo := DSHA256\<rparr>)" "tx_join_splits_ok (?t\<lparr>tx_tx_hash_algo := DSHA256\<rparr>)"
    by (simp_all add: tx_shielded_ok_def tx_join_splits_ok_def)
  with io fields have "tx_ok StandardWithWitness flags (?t\<lparr>tx_tx_hash_algo := DSHA256\<rparr>)" for flags
    using coin(1) by (simp add: tx_ok_def tx_has_witness_def standard_coin_def)
  then have "spends_htlc c prev script_data redeem seq lt ?t"
    unfolding spends_htlc_def
    by (intro exI[of _ sig] exI[of _ a] exI[of _ b])
      (simp add: push complete_tx_def signed_with_def spending_signer_def default_swap_vout_def)
  moreover have "p2sh_spending_tx c rpc prev redeem [out] script_data seq lock key = Inr ?t"
    using lock first spend by (simp add: p2sh_spending_tx_def default_swap_vout_def Let_def)
  ultimately show ?thesis by blast
qed


text \<open>The instructions of the spend with the secret and of the refund.\<close>

lemma push_data_iter:
  assumes "push_data d (Some []) = Some a"
  obtains op where "\<And>r. script_iter (a @ r) 0 = Inr \<lparr>ins_opcode = op, ins_step = length a, ins_data = Some d\<rparr> # script_iter r 0"
    "length d \<le> 75 \<Longrightarrow> op = of_nat (length d)" "d \<noteq> [] \<Longrightarrow> op \<noteq> OP_0"
proof -
  obtain p op where "a = [] @ p" "\<And>r. script_iter (p @ r) 0 = Inr \<lparr>ins_opcode = op, ins_step = length p, ins_data = Some d\<rparr> # script_iter r 0"
    "length d \<le> 75 \<Longrightarrow> op = of_nat (length d)" "d \<noteq> [] \<Longrightarrow> op \<noteq> OP_0"
    by (rule push_data_parsed[OF assms]) (rule that)
  then show ?thesis using that[of op] by simp
qed

lemma secret_spend_instructions:
  assumes "push_data sig (Some []) = Some a" "secret_script_data secret = Some script_data" "length secret = 32"
  obtains x y z rest where "script_iter (a @ script_data @ b) 0 = Inr x # Inr y # Inr z # rest"
    "ins_opcode y = OP_PUSHBYTES_32" "ins_data y = Some secret" "ins_opcode z = OP_0"
proof -
  obtain op where a: "\<And>r. script_iter (a @ r) 0 = Inr \<lparr>ins_opcode = op, ins_step = length a, ins_data = Some sig\<rparr> # script_iter r 0"
    by (rule push_data_iter[OF assms(1)]) (rule that)
  obtain p where p: "push_data secret (Some []) = Some p" "script_data = p @ [OP_0]"
    using assms(2) by (auto simp: secret_script_data_def builder_default_def push_opcode_def)
  obtain op' where op': "\<And>r. script_iter (p @ r) 0 = Inr \<lparr>ins_opcode = op', ins_step = length p, ins_data = Some secret\<rparr> # script_iter r 0"
    "length secret \<le> 75 \<Longrightarrow> op' = of_nat (length secret)"
    by (rule push_data_iter[OF p(1)]) (rule that)
  have "script_iter (a @ script_data @ b) 0 = Inr \<lparr>ins_opcode = op, ins_step = length a, ins_data = Some sig\<rparr>
      # Inr \<lparr>ins_opcode = op', ins_step = length p, ins_data = Some secret\<rparr>
      # Inr \<lparr>ins_opcode = OP_0, ins_step = length [OP_0], ins_data = Some []\<rparr> # script_iter b 0"
    using script_iter_Cons[OF instruction_OP_0, of b] unfolding p(2) append_assoc a op'(1) by simp
  then show ?thesis using that op'(2) assms(3) by (simp add: OP_PUSHBYTES_32_def)
qed

lemma refund_instructions:
  assumes "push_data sig (Some []) = Some a" "push_data redeem (Some []) = Some b" "redeem \<noteq> []"
  obtains x y z where "script_iter (a @ [OP_1] @ b) 0 = [Inr x, Inr y, Inr z]" "ins_opcode y = OP_1" "ins_opcode z \<noteq> OP_0"
proof -
  obtain op where a: "\<And>r. script_iter (a @ r) 0 = Inr \<lparr>ins_opcode = op, ins_step = length a, ins_data = Some sig\<rparr> # script_iter r 0"
    by (rule push_data_iter[OF assms(1)]) (rule that)
  obtain op' where b: "\<And>r. script_iter (b @ r) 0 = Inr \<lparr>ins_opcode = op', ins_step = length b, ins_data = Some redeem\<rparr> # script_iter r 0"
    "redeem \<noteq> [] \<Longrightarrow> op' \<noteq> OP_0"
    by (rule push_data_iter[OF assms(2)]) (rule that)
  have one: "script_iter ([OP_1] @ r) 0 = Inr \<lparr>ins_opcode = OP_1, ins_step = length [OP_1], ins_data = None\<rparr> # script_iter r 0" for r
    by (intro script_iter_Cons instruction_plain) (simp_all add: op_defs opcode_from_u8_def)
  have "script_iter (a @ [OP_1] @ b) 0 = [Inr \<lparr>ins_opcode = op, ins_step = length a, ins_data = Some sig\<rparr>,
      Inr \<lparr>ins_opcode = OP_1, ins_step = length [OP_1], ins_data = None\<rparr>,
      Inr \<lparr>ins_opcode = op', ins_step = length b, ins_data = Some redeem\<rparr>]"
    using b(1)[of "[]"] unfolding a one by (simp add: script_iter.simps[of "[]"])
  then show ?thesis using that b(2) assms(3) by simp
qed


section \<open>The spend reveals the secret\<close>

text \<open>The transactions a client looks through, and that the given one is the first of them to spend the payment.\<close>

definition first_spend :: "spend_server \<Rightarrow> h256 \<Rightarrow> (h256 \<times> block_hash_or_height) list \<Rightarrow> bytes \<Rightarrow> bool" where
  "first_spend sv payment items spend =
     (\<exists>before tx_id block after. items = before @ (tx_id, block) # after \<and> sv_get_transaction_bytes sv tx_id = Some spend
        \<and> (\<forall>item \<in> set before. \<exists>bs t. sv_get_transaction_bytes sv (fst item) = Some bs \<and> utxo_tx_of bs = Inr t
             \<and> \<not> list_ex (spends_output payment 0) (tx_inputs t)))"

definition sees_spend :: "utxo_coin \<Rightarrow> spend_client \<Rightarrow> transaction \<Rightarrow> u64 \<Rightarrow> bytes \<Rightarrow> bool" where
  "sees_spend c client payment from_block spend =
     (case client of
        ElectrumSpendClient sv \<Rightarrow>
          (\<exists>history. sv_scripthash_get_history sv (rev (se_sha256 (uc_env c) (out_script_pubkey (tx_outputs payment ! 0)))) = Some history
             \<and> 2 \<le> length history
             \<and> first_spend sv (utxo_txid c payment) (map (\<lambda>item. (hi_tx_hash item, BlockHeight (hi_height item))) history) spend)
      | NativeSpendClient sv \<Rightarrow>
          (\<exists>h txs. sv_get_block_hash sv from_block = Some h \<and> sv_list_since_block sv h = Some txs
             \<and> first_spend sv (utxo_txid c payment)
                 (map (\<lambda>(tx_id, _, block). (tx_id, BlockHash block)) (filter (\<lambda>(_, conflicting, _). \<not> conflicting) txs)) spend))"

lemma spending_input_None: "\<not> list_ex (spends_output h v) is \<Longrightarrow> spending_input h v n is = None"
  by (induction "is" arbitrary: n) auto

lemma find_spend_in_first:
  assumes "first_spend sv h items spend" "utxo_tx_of spend = Inr t" "tx_inputs t = i # is" "spends_output h 0 i"
  shows "\<exists>info. find_spend_in sv h 0 items = Inr (Some info) \<and> so_spending_tx info = t"
proof -
  obtain before tx_id block after where items: "items = before @ (tx_id, block) # after"
    and bytes: "sv_get_transaction_bytes sv tx_id = Some spend"
    and before: "\<forall>item \<in> set before. \<exists>bs t. sv_get_transaction_bytes sv (fst item) = Some bs \<and> utxo_tx_of bs = Inr t
      \<and> \<not> list_ex (spends_output h 0) (tx_inputs t)"
    using assms(1) unfolding first_spend_def by blast
  show ?thesis unfolding items using before
  proof (induction before)
    case Nil
    then show ?case using assms(2-4) bytes by (simp add: or_err_def)
  next
    case (Cons item before)
    then show ?case by (cases item) (auto simp: or_err_def spending_input_None)
  qed
qed

lemma find_output_spend_seen:
  assumes "sees_spend c client p from_block spend" "utxo_tx_of spend = Inr t" "tx_inputs t = i # is" "spends_output (utxo_txid c p) 0 i"
  shows "\<exists>info. find_output_spend c client (utxo_txid c p) (out_script_pubkey (tx_outputs p ! 0)) 0 from_block = Inr (Some info)
    \<and> so_spending_tx info = t"
  using assms(1) find_spend_in_first[OF _ assms(2-4)]
  by (auto simp: sees_spend_def find_output_spend_def electrum_find_output_spend_def native_find_output_spend_def or_err_def
      split: spend_client.splits)


lemma payment_script_cong:
  "public_bytes p = public_bytes p' \<Longrightarrow> public_bytes q = public_bytes q' \<Longrightarrow> payment_script lock sh p q = payment_script lock sh p' q'"
  by (simp add: payment_script_bytes htlc_terms_ok_def)

lemma payment_script_length: "payment_script lock sh p q = Some r \<Longrightarrow> r \<noteq> [] \<and> length r \<le> 300"
  by (auto simp: payment_script_bytes htlc_terms_ok_def split: if_splits)

lemma redeem_of_public:
  assumes "redeem_of lock sh p q = Some r" "public_bytes a = p" "public_bytes b = q"
  shows "payment_script lock sh a b = Some r"
proof -
  obtain a' b' where "public_of p = Inr a'" "public_of q = Inr b'" "payment_script lock sh a' b' = Some r"
    using assms(1) by (auto simp: redeem_of_def split: sum.splits)
  then show ?thesis using payment_script_cong[of a a' b b' lock sh] assms(2,3) public_of_Inr by simp
qed

lemma redeem_of_Some: "redeem_of lock sh p q = Some r \<Longrightarrow> (\<exists>a. public_of p = Inr a) \<and> (\<exists>b. public_of q = Inr b)"
  by (auto simp: redeem_of_def split: sum.splits)

lemma spends_htlc_decoded:
  assumes "spends_htlc c prev script_data redeem seq lt t"
  shows "utxo_tx_of (put_transaction flags t) = Inr (t\<lparr>tx_tx_hash_algo := DSHA256\<rparr>)"
proof -
  have "tx_ok StandardWithWitness flags (t\<lparr>tx_tx_hash_algo := DSHA256\<rparr>)" using assms by (auto simp only: spends_htlc_def)
  then show ?thesis using utxo_tx_of_put put_transaction_hash_algo by metis
qed

definition able_to_spend :: "utxo_coin \<Rightarrow> utxo_rpc \<Rightarrow> u32 \<Rightarrow> bytes \<Rightarrow> bool" where
  "able_to_spend c rpc lock privkey =
     (32 \<le> length privkey \<and> se_secret_ok (uc_env c) (take 32 privkey) \<and> signs (uc_env c) (take 32 privkey)
      \<and> (\<exists>a. uc_iguana_address c = Some a \<and> pushable (ad_hash a))
      \<and> (\<exists>fee. get_htlc_spend_fee c rpc default_swap_tx_spend_size = Inr fee)
      \<and> (\<exists>lt. p2sh_tx_locktime c rpc lock = Inr lt) \<and> (\<forall>t. rpc_send_transaction rpc t))"

lemma send_htlc_spend_ok:
  assumes coin: "standard_coin c" "good_hashes (uc_env c)" "able_to_spend c rpc lock privkey" "uc_iguana_address c = Some a"
    and tx: "tx_outputs prev \<noteq> []" "length redeem \<le> 300" "length script_data \<le> 300"
  shows "\<exists>t lt. send_htlc_spend c rpc a prev redeem script_data seq lock (take 32 privkey) = Inr t
    \<and> p2sh_tx_locktime c rpc lock = Inr lt \<and> spends_htlc c prev script_data redeem seq lt t"
proof -
  obtain fee lt where able: "get_htlc_spend_fee c rpc default_swap_tx_spend_size = Inr fee" "p2sh_tx_locktime c rpc lock = Inr lt"
    "signs (uc_env c) (take 32 privkey)" "\<And>t. rpc_send_transaction rpc t" "pushable (ad_hash a)"
    using coin(3,4) by (auto simp: able_to_spend_def)
  obtain script where script: "output_script a P2PKH = Some script" "length script \<le> 300"
    using able(5) by (cases "ad_format a = SegwitFormat")
      (auto simp: output_script_def build_p2pkh_def build_witness_script_def builder_default_def push_simps)
  obtain first rest where first: "tx_outputs prev = first # rest" using tx(1) by (cases "tx_outputs prev") auto
  let ?out = "\<lparr>out_value = out_value first - fee, out_script_pubkey = script\<rparr>"
  obtain t where "p2sh_spending_tx c rpc prev redeem [?out] script_data seq lock (take 32 privkey) = Inr t"
    "spends_htlc c prev script_data redeem seq lt t"
    using p2sh_spending_tx_ok[OF coin(1,2) able(3,2) tx, of ?out] script(2) by auto
  then show ?thesis using able first script by (auto simp: send_htlc_spend_def panic_none_def)
qed

lemma search_finds_spend:
  assumes hash: "good_hashes (uc_env c)" and p: "tx_ok StandardWithWitness flags p" "tx_outputs p \<noteq> []"
      "out_script_pubkey (tx_outputs p ! 0) = [OP_HASH160] @ pushed (se_dhash160 (uc_env c) r) @ [OP_EQUAL]"
    and r: "payment_script lock sh a b = Some r"
    and seen: "sees_spend c client (p\<lparr>tx_tx_hash_algo := uc_tx_hash_algo c\<rparr>) from_block bs" "utxo_tx_of bs = Inr (t\<lparr>tx_tx_hash_algo := x\<rparr>)"
    and t: "tx_inputs t = [i]" "ti_previous_output i = \<lparr>op_hash = utxo_txid c (p\<lparr>tx_tx_hash_algo := uc_tx_hash_algo c\<rparr>), op_index = 0\<rparr>"
      "tx_tx_hash_algo t = uc_tx_hash_algo c"
  shows "search_for_swap_output_spend c client lock a b sh (put_transaction flags p) default_swap_vout from_block =
    (if has_opcode_at (ti_script_sig i) 2 OP_0 then Inr (Some (FoundSpent t))
     else if has_opcode_at (ti_script_sig i) 1 OP_1 then Inr (Some (FoundRefunded t))
     else Inl (WrongSpendScript t))"
proof -
  let ?p = "p\<lparr>tx_tx_hash_algo := uc_tx_hash_algo c\<rparr>"
  have "tx_inputs (t\<lparr>tx_tx_hash_algo := x\<rparr>) = i # []" "spends_output (utxo_txid c ?p) 0 i"
    using t(1,2) by (simp_all add: spends_output_def)
  from find_output_spend_seen[OF seen this] obtain info
    where info: "find_output_spend c client (utxo_txid c ?p) (out_script_pubkey (tx_outputs ?p ! 0)) 0 from_block = Inr (Some info)"
      "so_spending_tx info = t\<lparr>tx_tx_hash_algo := x\<rparr>" by blast
  have algo: "(so_spending_tx info)\<lparr>tx_tx_hash_algo := uc_tx_hash_algo c\<rparr> = t" "tx_inputs (so_spending_tx info) = [i]"
    using info(2) t(1,3) by simp_all
  have "p2sh_of (uc_env c) r = Inr (out_script_pubkey (tx_outputs p ! 0))"
    using hash p(3) by (simp add: p2sh_of_ok good_hashes_def)
  then show ?thesis
    using info(1) r p(2) algo t(1)
    by (simp add: search_for_swap_output_spend_def previous_tx_put[OF p(1)] panic_none_def default_swap_vout_def)
qed


lemma paid_htlc:
  assumes "good_hashes (uc_env c)" "generate_swap_payment_outputs c lock payer_pub payee_pub secret_hash amount = Inr outs"
    "tx_outputs p = outs @ change"
  obtains r pa pb where "public_of payer_pub = Inr pa" "public_of payee_pub = Inr pb"
    "\<And>a b. public_bytes a = payer_pub \<Longrightarrow> public_bytes b = payee_pub \<Longrightarrow> payment_script lock secret_hash a b = Some r"
    "tx_outputs p \<noteq> []" "out_script_pubkey (tx_outputs p ! 0) = [OP_HASH160] @ pushed (se_dhash160 (uc_env c) r) @ [OP_EQUAL]"
proof -
  have hash: "\<And>x. length (se_ripemd160 (uc_env c) x) = 20" using assms(1) by (simp add: good_hashes_def)
  obtain r sat op_return where r: "redeem_of lock secret_hash payer_pub payee_pub = Some r"
    and outs: "outs = [\<lparr>out_value = sat, out_script_pubkey = [OP_HASH160] @ pushed (se_dhash160 (uc_env c) r) @ [OP_EQUAL]\<rparr>, op_return]"
    using payment_outputs[OF hash assms(2)] by metis
  then show ?thesis using that[of _ _ r] redeem_of_Some[OF r] redeem_of_public[OF r] assms(3) by auto
qed

lemma push_secret_ok: "length secret = 32 \<Longrightarrow> \<exists>d. secret_script_data secret = Some d \<and> length d \<le> 300"
  using push_data_ok[of secret "[]"] by (auto simp: secret_script_data_def builder_default_def push_opcode_def)

lemma spend_extracts_secret:
  assumes "spends_htlc c prev d redeem seq lt t" "secret_script_data secret = Some d" "length secret = 32"
  shows "extract_secret env (se_dhash160 env secret) (put_transaction flags t) = Inr secret"
    "tx_inputs t = [i] \<Longrightarrow> has_opcode_at (ti_script_sig i) 2 OP_0"
proof -
  obtain sig a b where "push_data (script_sig sig (uc_fork_id c)) (Some []) = Some a"
    and t: "tx_inputs t = [\<lparr>ti_previous_output = \<lparr>op_hash = utxo_txid c prev, op_index = 0\<rparr>, ti_script_sig = a @ d @ b,
            ti_sequence = seq, ti_script_witness = []\<rparr>]"
    using assms(1) unfolding spends_htlc_def by blast
  from secret_spend_instructions[OF this(1) assms(2,3), of b] obtain x y z rest
    where iter: "script_iter (a @ d @ b) 0 = Inr x # Inr y # Inr z # rest" "ins_opcode y = OP_PUSHBYTES_32" "ins_data y = Some secret"
      "ins_opcode z = OP_0" .
  show "extract_secret env (se_dhash160 env secret) (put_transaction flags t) = Inr secret"
    using iter by (simp add: extract_secret_def spends_htlc_decoded[OF assms(1)] t get_instruction_def)
  show "has_opcode_at (ti_script_sig i) 2 OP_0" if "tx_inputs t = [i]"
    using that iter unfolding t by (auto simp: has_opcode_at_def get_instruction_def)
qed

text \<open>
  C26: Once the taker's payment for the agreed terms is there, the maker's spend of it succeeds if
  the fee and the median time can be had, and reveals the secret: the taker extracts it from the
  bytes of the spend, and finds the transaction on the chain, reported as spent, through either kind
  of client.
\<close>

theorem maker_spend_reveals_secret:
  assumes coin: "standard_coin c" "good_hashes (uc_env c)" "able_to_spend c rpc lock privkey"
    and secret: "length secret = 32" "secret_hash = se_dhash160 (uc_env c) secret"
    and maker: "public_bytes (se_public (uc_env c) (take 32 privkey)) = maker_pub"
    and payment: "generate_swap_payment_outputs c lock taker_pub maker_pub secret_hash amount = Inr outs"
      "tx_outputs p = outs @ change" "tx_ok StandardWithWitness flags p"
    and taker: "uc_env d = uc_env c" "uc_tx_hash_algo d = uc_tx_hash_algo c" "uc_key_pair d = Some taker_key"
      "public_bytes (se_public (uc_env c) taker_key) = taker_pub"
  shows "\<exists>spend. send_maker_spends_taker_payment c rpc (put_transaction flags p) lock taker_pub secret privkey = Inr spend
    \<and> extract_secret (uc_env d) secret_hash (put_transaction flags' spend) = Inr secret
    \<and> (sees_spend d client (p\<lparr>tx_tx_hash_algo := uc_tx_hash_algo d\<rparr>) from_block (put_transaction flags' spend) \<longrightarrow>
        search_for_swap_tx_spend_my d client lock maker_pub secret_hash (put_transaction flags p) default_swap_vout from_block =
          Inr (Some (FoundSpent spend)))"
proof -
  let ?key = "take 32 privkey" and ?p = "p\<lparr>tx_tx_hash_algo := uc_tx_hash_algo c\<rparr>"
  obtain r tp mp where pubs: "public_of taker_pub = Inr tp" "public_of maker_pub = Inr mp"
    and r: "\<And>a b. public_bytes a = taker_pub \<Longrightarrow> public_bytes b = maker_pub \<Longrightarrow> payment_script lock secret_hash a b = Some r"
    and p: "tx_outputs p \<noteq> []" "out_script_pubkey (tx_outputs p ! 0) = [OP_HASH160] @ pushed (se_dhash160 (uc_env c) r) @ [OP_EQUAL]"
    by (rule paid_htlc[OF coin(2) payment(1,2)]) (rule that)
  have script: "payment_script lock secret_hash tp (se_public (uc_env c) ?key) = Some r"
    "payment_script lock secret_hash (se_public (uc_env c) taker_key) mp = Some r"
    using r public_of_Inr pubs taker(4) maker by simp_all
  obtain sd where sd: "secret_script_data secret = Some sd" "length sd \<le> 300" using push_secret_ok[OF secret(1)] by auto
  obtain a where a: "uc_iguana_address c = Some a" using coin(3) by (auto simp: able_to_spend_def)
  have p0: "tx_outputs ?p \<noteq> []" using p(1) by simp
  obtain spend lt where spend: "send_htlc_spend c rpc a ?p r sd sequence_final lock ?key = Inr spend"
    "spends_htlc c ?p sd r sequence_final lt spend"
    using send_htlc_spend_ok[OF coin a p0, of r sd sequence_final] payment_script_length[OF script(1)] sd(2) by auto
  have sent: "send_maker_spends_taker_payment c rpc (put_transaction flags p) lock taker_pub secret privkey = Inr spend"
    using coin(3) a sd(1) pubs(1) script(1) spend(1)
    by (simp add: send_maker_spends_taker_payment_def key_pair_from_secret_def able_to_spend_def or_err_def panic_none_def
        previous_tx_put[OF payment(3)] secret(2))
  obtain i where i: "tx_inputs spend = [i]" "ti_previous_output i = \<lparr>op_hash = utxo_txid d ?p, op_index = 0\<rparr>"
    "tx_tx_hash_algo spend = uc_tx_hash_algo d"
    using spend(2) taker(1,2) by (auto simp: spends_htlc_def)
  have "search_for_swap_tx_spend_my d client lock maker_pub secret_hash (put_transaction flags p) default_swap_vout from_block =
      Inr (Some (FoundSpent spend))" if "sees_spend d client ?p from_block (put_transaction flags' spend)"
    using search_finds_spend[where c = d and flags = flags and p = p and r = r and lock = lock and sh = secret_hash
        and a = "se_public (uc_env c) taker_key" and b = mp and client = client and from_block = from_block
        and bs = "put_transaction flags' spend" and t = spend and x = DSHA256 and i = i] coin(2) payment(3) p script(2) that i taker
      spends_htlc_decoded[OF spend(2)] spend_extracts_secret(2)[OF spend(2) sd(1) secret(1) i(1)]
    by (simp add: search_for_swap_tx_spend_my_def or_err_def pubs(2))
  then show ?thesis using sent spend_extracts_secret(1)[OF spend(2) sd(1) secret(1)] taker(1,2) secret(2) by auto
qed


section \<open>Refunds\<close>

lemma refund_told_apart:
  assumes "spends_htlc c prev [OP_1] redeem seq lt t" "redeem \<noteq> []"
  shows "extract_secret env sh (put_transaction flags t) = Inl SecretNotFound"
    "tx_inputs t = [i] \<Longrightarrow> \<not> has_opcode_at (ti_script_sig i) 2 OP_0 \<and> has_opcode_at (ti_script_sig i) 1 OP_1"
proof -
  obtain sig a b where push: "push_data (script_sig sig (uc_fork_id c)) (Some []) = Some a" "push_data redeem (Some []) = Some b"
    and t: "tx_inputs t = [\<lparr>ti_previous_output = \<lparr>op_hash = utxo_txid c prev, op_index = 0\<rparr>, ti_script_sig = a @ [OP_1] @ b,
            ti_sequence = seq, ti_script_witness = []\<rparr>]"
    using assms(1) unfolding spends_htlc_def by blast
  from refund_instructions[OF push assms(2)] obtain x y z
    where iter: "script_iter (a @ [OP_1] @ b) 0 = [Inr x, Inr y, Inr z]" "ins_opcode y = OP_1" "ins_opcode z \<noteq> OP_0" .
  have "OP_1 \<noteq> OP_PUSHBYTES_32" by (simp add: op_defs OP_PUSHBYTES_32_def)
  then show "extract_secret env sh (put_transaction flags t) = Inl SecretNotFound"
    using iter by (simp add: extract_secret_def spends_htlc_decoded[OF assms(1)] t get_instruction_def)
  show "\<not> has_opcode_at (ti_script_sig i) 2 OP_0 \<and> has_opcode_at (ti_script_sig i) 1 OP_1" if "tx_inputs t = [i]"
    using that iter unfolding t by (auto simp: has_opcode_at_def get_instruction_def)
qed

lemma can_refund_locktime:
  assumes "utxo_can_refund_htlc c rpc (ucast lock) = Inr CanRefundNow" "p2sh_tx_locktime c rpc lock = Inr lt"
  obtains mtp where "rpc_get_current_mtp rpc = Some mtp" "lock \<le> lt" "lt < mtp"
proof -
  have "ucast (ucast lock :: u64) = lock" by (rule bit_word_eqI) (simp add: bit_simps)
  moreover have "lock \<le> lt" using assms(2) by (auto simp: p2sh_tx_locktime_def bind_res_Inr_iff)
  ultimately show ?thesis
    using assms that by (auto simp: utxo_can_refund_htlc_def Let_def bind_res_Inr_iff or_err_Inr split: if_splits)
qed

text \<open>
  C27: When the coin says that the taker's payment can be refunded, the refund that is then sent is
  one the network accepts: its lock time has reached that of the script and is below the median
  time past, so with a time stamp as lock time it is final in the next block, and its input is not
  final, as the lock time check of the script needs. The maker sees it on the chain as a refund, and
  no secret is extracted from it.
\<close>

theorem taker_refund_accepted:
  assumes coin: "standard_coin c" "good_hashes (uc_env c)" "able_to_spend c rpc lock privkey"
    and taker: "public_bytes (se_public (uc_env c) (take 32 privkey)) = taker_pub"
    and payment: "generate_swap_payment_outputs c lock taker_pub maker_pub secret_hash amount = Inr outs"
      "tx_outputs p = outs @ change" "tx_ok StandardWithWitness flags p"
    and can: "utxo_can_refund_htlc c rpc (ucast lock) = Inr CanRefundNow"
    and maker: "uc_env d = uc_env c" "uc_tx_hash_algo d = uc_tx_hash_algo c" "uc_key_pair d = Some maker_key"
      "public_bytes (se_public (uc_env c) maker_key) = maker_pub"
  shows "\<exists>refund. send_taker_refunds_payment c rpc (put_transaction flags p) lock maker_pub secret_hash privkey = Inr refund
    \<and> lock \<le> tx_lock_time refund \<and> \<not> list_ex input_is_final (tx_inputs refund)
    \<and> (\<forall>mtp block_time. rpc_get_current_mtp rpc = Some mtp \<and> mtp \<le> block_time \<and> locktime_threshold \<le> lock \<longrightarrow>
         tx_is_final_in_block refund height block_time)
    \<and> extract_secret (uc_env d) secret_hash (put_transaction flags' refund) = Inl SecretNotFound
    \<and> (sees_spend d client (p\<lparr>tx_tx_hash_algo := uc_tx_hash_algo d\<rparr>) from_block (put_transaction flags' refund) \<longrightarrow>
        search_for_swap_tx_spend_other d client lock taker_pub secret_hash (put_transaction flags p) default_swap_vout from_block =
          Inr (Some (FoundRefunded refund)))"
proof -
  let ?key = "take 32 privkey" and ?p = "p\<lparr>tx_tx_hash_algo := uc_tx_hash_algo c\<rparr>"
  obtain r tp mp where pubs: "public_of taker_pub = Inr tp" "public_of maker_pub = Inr mp"
    and r: "\<And>a b. public_bytes a = taker_pub \<Longrightarrow> public_bytes b = maker_pub \<Longrightarrow> payment_script lock secret_hash a b = Some r"
    and p: "tx_outputs p \<noteq> []" "out_script_pubkey (tx_outputs p ! 0) = [OP_HASH160] @ pushed (se_dhash160 (uc_env c) r) @ [OP_EQUAL]"
    by (rule paid_htlc[OF coin(2) payment(1,2)]) (rule that)
  have script: "payment_script lock secret_hash (se_public (uc_env c) ?key) mp = Some r"
    "payment_script lock secret_hash tp (se_public (uc_env c) maker_key) = Some r"
    using r public_of_Inr pubs taker maker(4) by simp_all
  obtain a where a: "uc_iguana_address c = Some a" using coin(3) by (auto simp: able_to_spend_def)
  have p0: "tx_outputs ?p \<noteq> []" using p(1) by simp
  obtain refund lt where refund: "send_htlc_spend c rpc a ?p r [OP_1] (sequence_final - 1) lock ?key = Inr refund"
    "p2sh_tx_locktime c rpc lock = Inr lt" "spends_htlc c ?p [OP_1] r (sequence_final - 1) lt refund"
    using send_htlc_spend_ok[OF coin a p0, of r "[OP_1]" "sequence_final - 1"] payment_script_length[OF script(1)] by auto
  have sent: "send_taker_refunds_payment c rpc (put_transaction flags p) lock maker_pub secret_hash privkey = Inr refund"
    using coin(3) a pubs(2) script(1) refund(1)
    by (simp add: send_taker_refunds_payment_def key_pair_from_secret_def able_to_spend_def or_err_def panic_none_def
        previous_tx_put[OF payment(3)] refund_script_data_def builder_default_def push_opcode_def)
  obtain i where i: "tx_inputs refund = [i]" "ti_previous_output i = \<lparr>op_hash = utxo_txid d ?p, op_index = 0\<rparr>"
    "tx_tx_hash_algo refund = uc_tx_hash_algo d" "ti_sequence i = sequence_final - 1" "tx_lock_time refund = lt"
    using refund(3) maker(1,2) by (auto simp: spends_htlc_def)
  note apart = refund_told_apart[OF refund(3) conjunct1[OF payment_script_length[OF script(1)]]]
  have "search_for_swap_tx_spend_other d client lock taker_pub secret_hash (put_transaction flags p) default_swap_vout from_block =
      Inr (Some (FoundRefunded refund))" if "sees_spend d client ?p from_block (put_transaction flags' refund)"
    using search_finds_spend[where c = d and flags = flags and p = p and r = r and lock = lock and sh = secret_hash
        and a = tp and b = "se_public (uc_env c) maker_key" and client = client and from_block = from_block
        and bs = "put_transaction flags' refund" and t = refund and x = DSHA256 and i = i] coin(2) payment(3) p script(2) that
      i maker spends_htlc_decoded[OF refund(3)] apart(2)[OF i(1)]
    by (simp add: search_for_swap_tx_spend_other_def or_err_def pubs(1))
  moreover obtain mtp where mtp: "rpc_get_current_mtp rpc = Some mtp" "lock \<le> lt" "lt < mtp"
    by (rule can_refund_locktime[OF can refund(2)])
  then have "tx_is_final_in_block refund height block_time" if "mtp \<le> block_time" "locktime_threshold \<le> lock" for block_time
    using that i(5) by (auto simp: tx_is_final_in_block_def Let_def)
  moreover have "\<not> list_ex input_is_final (tx_inputs refund)" using i by (simp add: input_is_final_def sequence_final_def)
  ultimately show ?thesis using sent apart(1) mtp i(5) maker(2) by auto
qed


section \<open>The dex fee\<close>

text \<open>The parsers of secp256k1 accept what the signer makes; the signatures have one of the three usual lengths.\<close>

definition parses_own :: "sign_env \<Rightarrow> (bytes \<Rightarrow> bool) \<Rightarrow> (bytes \<Rightarrow> bytes option) \<Rightarrow> bytes \<Rightarrow> bytes \<Rightarrow> bool" where
  "parses_own env from_der pubkey_from_slice key pub =
     (public_bytes (se_public env key) = pub \<and> length pub = 33 \<and> pubkey_from_slice pub = Some pub
      \<and> (\<forall>digest sig. se_sign env key digest = Some sig \<longrightarrow> from_der sig \<and> length sig \<in> {69, 70, 71}))"

lemma calc_and_sign_Inr:
  "calc_and_sign_sighash env s i script key version fork_id = Inr sig \<Longrightarrow> \<exists>h. se_sign env key h = Some sig"
  by (auto simp: calc_and_sign_sighash_def bind_res_Inr_iff split: option.splits)

lemma script_sig_with_pub_signed:
  assumes "script_sig_with_pub pk fork_id sig = Some script" "from_der sig" "length sig \<in> {69, 70, 71}"
    "length (public_bytes pk) = 33" "pubkey_from_slice (public_bytes pk) = Some pub"
  shows "pubkey_from_script_sig from_der pubkey_from_slice script = Inr pub"
proof -
  obtain a where a: "push_data (script_sig sig fork_id) (Some []) = Some a" "push_data (public_bytes pk) (Some a) = Some script"
    using assms(1) by (auto simp: script_sig_with_pub_def builder_default_def push_data_def Let_def split: if_splits)
  obtain op where op: "\<And>r. script_iter (a @ r) 0 = Inr \<lparr>ins_opcode = op, ins_step = length a, ins_data = Some (script_sig sig fork_id)\<rparr> # script_iter r 0"
    "length (script_sig sig fork_id) \<le> 75 \<Longrightarrow> op = of_nat (length (script_sig sig fork_id))"
    by (rule push_data_iter[OF a(1)]) (rule that)
  obtain b op' where b: "script = a @ b" "\<And>r. script_iter (b @ r) 0 = Inr \<lparr>ins_opcode = op', ins_step = length b, ins_data = Some (public_bytes pk)\<rparr> # script_iter r 0"
    "length (public_bytes pk) \<le> 75 \<Longrightarrow> op' = of_nat (length (public_bytes pk))"
    by (rule push_data_parsed[OF a(2)]) (rule that)
  have "script_iter script 0 = [Inr \<lparr>ins_opcode = op, ins_step = length a, ins_data = Some (script_sig sig fork_id)\<rparr>,
      Inr \<lparr>ins_opcode = op', ins_step = length b, ins_data = Some (public_bytes pk)\<rparr>]"
    using b(2)[of "[]"] unfolding b(1) op(1) by (simp add: script_iter.simps[of "[]"])
  moreover have "op = 70 \<or> op = 71 \<or> op = 72" using op(2) assms(3) by (auto simp: script_sig_def)
  moreover have "op' = 33" using b(3) assms(4) by simp
  moreover have "butlast (script_sig sig fork_id) = sig" by (simp add: script_sig_def)
  ultimately show ?thesis using assms(2,5) by (auto simp: pubkey_from_script_sig_def get_instruction_def)
qed

lemma sign_inputs_signed_by_pub:
  assumes own: "parses_own env from_der pubkey_from_slice key pub"
    and "sign_inputs_from env s key prev version fork_id [] i ins = Inr tis"
  shows "inputs_signed_by_pub from_der pubkey_from_slice pub tis = Inr True"
  using assms(2)
proof (induction ins arbitrary: i tis)
  case (Cons input ins)
  obtain t ts where split: "tis = t # ts" "sign_inputs_from env s key prev version fork_id [] (Suc i) ins = Inr ts"
    and one: "(if version = SigWitnessV0 then p2wpkh_spend env s i key prev version fork_id
        else p2pkh_spend env s i key prev version fork_id) = Inr t"
    using Cons.prems unfolding sign_inputs_from.simps bind_res_Inr_iff by auto
  obtain u sig h where sig: "se_sign env key h = Some sig"
    "t = p2wpkh_spend_with_signature u (se_public env key) fork_id sig
      \<or> p2pkh_spend_with_signature u (se_public env key) fork_id sig = Some t"
    using one calc_and_sign_Inr
    by (fastforce simp: p2wpkh_spend_def p2pkh_spend_def bind_res_Inr_iff or_panic_def split: if_splits option.splits)
  have good: "from_der sig" "length sig \<in> {69, 70, 71}" "length (public_bytes (se_public env key)) = 33"
    "pubkey_from_slice (public_bytes (se_public env key)) = Some pub"
    using own sig(1) unfolding parses_own_def by auto
  have "(if input_has_witness t then pubkey_from_witness_script from_der pubkey_from_slice (ti_script_witness t)
      else pubkey_from_script_sig from_der pubkey_from_slice (ti_script_sig t)) = Inr pub"
    using sig(2)
  proof
    assume "t = p2wpkh_spend_with_signature u (se_public env key) fork_id sig"
    then show ?thesis
      using good by (auto simp: p2wpkh_spend_with_signature_def signed_with_def input_has_witness_def pubkey_from_witness_script_def
          script_sig_def or_err_def)
  next
    assume "p2pkh_spend_with_signature u (se_public env key) fork_id sig = Some t"
    then show ?thesis
      using script_sig_with_pub_signed[where pk = "se_public env key" and sig = sig and from_der = from_der
        and pubkey_from_slice = pubkey_from_slice, OF _ good]
      by (auto simp: p2pkh_spend_with_signature_def signed_with_def input_has_witness_def)
  qed
  then show ?case using Cons.IH[OF split(2)] split(1) by simp
qed simp


lemma validate_fee_outputs:
  assumes outs: "generate_taker_fee_tx_outputs to_decimal c fmt fee address = Inr outs" "tx_outputs t = outs @ change"
  shows "(case fee of NoFee \<Rightarrow> Inr ()
     | Standard amount \<Rightarrow>
         bind_res (sat_from_big_decimal (to_decimal amount) (uc_decimals c)) (\<lambda>sat. validate_dex_output t 0 address sat)
     | WithBurn fee_amt burn_amt dest \<Rightarrow>
         bind_res (sat_from_big_decimal (to_decimal fee_amt) (uc_decimals c)) (\<lambda>fee_sat.
         bind_res (validate_dex_output t 0 address fee_sat) (\<lambda>_.
         bind_res (sat_from_big_decimal (to_decimal burn_amt) (uc_decimals c)) (\<lambda>burn_sat.
         bind_res (burn_script c fmt dest) (\<lambda>script. validate_burn_output t (0 + 1) script burn_sat))))) = Inr ()"
  using outs
  by (cases fee) (auto simp: generate_taker_fee_tx_outputs_def bind_res_Inr_iff panic_none_Inr validate_dex_output_def
      validate_burn_output_def validate_fee_output_def)


text \<open>A signature that is a byte shorter than usual, which ECDSA makes now and then, is refused.\<close>

lemma short_signature_refused:
  assumes "script_sig_with_pub pk fork_id sig = Some script" "length sig = 68"
  shows "pubkey_from_script_sig from_der pubkey_from_slice script = Inl BadScriptSig"
proof -
  obtain a where a: "push_data (script_sig sig fork_id) (Some []) = Some a" "push_data (public_bytes pk) (Some a) = Some script"
    using assms(1) by (auto simp: script_sig_with_pub_def builder_default_def push_data_def Let_def split: if_splits)
  obtain op where op: "\<And>r. script_iter (a @ r) 0 = Inr \<lparr>ins_opcode = op, ins_step = length a, ins_data = Some (script_sig sig fork_id)\<rparr> # script_iter r 0"
    "length (script_sig sig fork_id) \<le> 75 \<Longrightarrow> op = of_nat (length (script_sig sig fork_id))"
    by (rule push_data_iter[OF a(1)]) (rule that)
  obtain b where "script = a @ b" by (rule push_data_parsed[OF a(2)]) (rule that)
  then show ?thesis using op assms(2) by (auto simp: pubkey_from_script_sig_def get_instruction_def script_sig_def split: option.splits)
qed

end
