(* ===== verification/UtxoSwapExample.thy ===== *)
theory UtxoSwapExample
  imports UtxoSwapSafety
begin

text \<open>
  A payment, its validation, its spend and its refund on a concrete coin, and the dex fee: the
  hash functions keep the first bytes of their input.
\<close>

definition demo_sign_env :: sign_env where
  "demo_sign_env =
     \<lparr>se_sha256 = (\<lambda>x. take 32 (x @ replicate 32 0)), se_ripemd160 = (\<lambda>x. take 20 (x @ replicate 20 0)),
      se_blake2b_personal = (\<lambda>x p. replicate 32 0), se_sign = (\<lambda>k d. Some (replicate 70 1)),
      se_secret_ok = (\<lambda>k. True), se_public = (\<lambda>k. Compressed (k @ [2]))\<rparr>"

definition demo_maker_key :: bytes where "demo_maker_key = replicate 32 7"
definition demo_taker_key :: bytes where "demo_taker_key = replicate 32 8"
definition demo_maker_pub :: bytes where "demo_maker_pub = demo_maker_key @ [2]"
definition demo_taker_pub :: bytes where "demo_taker_pub = demo_taker_key @ [2]"
definition demo_htlc_secret :: bytes where "demo_htlc_secret = replicate 32 9"
definition demo_htlc_hash :: bytes where "demo_htlc_hash = replicate 20 9"

definition demo_utxo_coin :: "bytes \<Rightarrow> utxo_coin" where
  "demo_utxo_coin key =
     \<lparr>uc_env = demo_sign_env, uc_ticker = ''BTC'', uc_decimals = 8, uc_tx_hash_algo = DSHA256, uc_tx_version = 1,
      uc_is_pos = False, uc_overwintered = False, uc_version_group_id = 0, uc_consensus_branch_id = 0, uc_zcash = False,
      uc_signature_version = SigBase, uc_fork_id = 0, uc_enable_spv_proof = False, uc_force_min_relay_fee = False,
      uc_iguana_address = Some \<lparr>ad_hash = replicate 20 5, ad_format = StandardFormat\<rparr>, uc_key_pair = Some key\<rparr>"

definition demo_utxo_rpc :: utxo_rpc where
  "demo_utxo_rpc =
     \<lparr>rpc_now_ms = 1700010000000, rpc_get_tx_fee = Some (DynamicFee 1000), rpc_get_relay_fee = None,
      rpc_get_block_count = Some 100, rpc_get_current_mtp = Some 1700009000, rpc_get_verbose_transaction = (\<lambda>h. None),
      rpc_send_transaction = (\<lambda>t. True)\<rparr>"

definition demo_lock :: u32 where "demo_lock = 1700000000"

lemmas demo_htlc_defs = demo_sign_env_def demo_maker_key_def demo_taker_key_def demo_maker_pub_def demo_taker_pub_def
  demo_htlc_secret_def demo_htlc_hash_def

definition demo_tx_with :: "transaction_output list \<Rightarrow> transaction" where
  "demo_tx_with outs =
     \<lparr>tx_version = 1, tx_n_time = None, tx_overwintered = False, tx_version_group_id = 0,
      tx_inputs = [\<lparr>ti_previous_output = \<lparr>op_hash = replicate 32 7, op_index = 1\<rparr>, ti_script_sig = [],
        ti_sequence = sequence_final, ti_script_witness = []\<rparr>],
      tx_outputs = outs, tx_lock_time = 0, tx_expiry_height = 0,
      tx_shielded_spends = [], tx_shielded_outputs = [], tx_join_splits = [], tx_value_balance = 0,
      tx_join_split_pubkey = replicate 32 0, tx_join_split_sig = replicate 64 0, tx_binding_sig = replicate 64 0,
      tx_zcash = False, tx_str_d_zeel = None, tx_tx_hash_algo = DSHA256\<rparr>"

lemma demo_tx_with_ok: "outputs_ok outs \<Longrightarrow> outs \<noteq> [] \<Longrightarrow> tx_ok StandardWithWitness flags (demo_tx_with outs)"
  by (simp add: tx_ok_def demo_tx_with_def inputs_ok_def input_ok_def out_point_ok_def witness_ok_def bytes_ok_def
      max_list_size_def tx_has_witness_def input_has_witness_def tx_shielded_ok_def tx_join_splits_ok_def)

lemma demo_sat: "sat_from_big_decimal 1 8 = Inr 100000000" "sat_from_big_decimal 2 8 = Inr 200000000"
  by (simp_all add: sat_from_big_decimal_def Let_def)

lemma demo_good_hashes: "good_hashes demo_sign_env"
  by (simp add: good_hashes_def demo_sign_env_def min_def)

lemma demo_dhash160: "se_dhash160 demo_sign_env demo_htlc_secret = demo_htlc_hash"
  by (simp add: dhash160_def demo_htlc_defs)

lemma demo_terms_ok: "htlc_terms_ok demo_htlc_hash (Compressed demo_maker_pub) (Compressed demo_taker_pub)"
  "htlc_terms_ok demo_htlc_hash (Compressed demo_taker_pub) (Compressed demo_maker_pub)"
  by (simp_all add: htlc_terms_ok_def demo_htlc_defs)

lemma demo_public_of: "public_of demo_maker_pub = Inr (Compressed demo_maker_pub)"
  "public_of demo_taker_pub = Inr (Compressed demo_taker_pub)"
  by (simp_all add: public_of_def public_from_slice_def demo_htlc_defs)

lemma demo_payment:
  assumes "public_of p = Inr a" "public_of q = Inr b" "htlc_terms_ok demo_htlc_hash a b"
  shows "\<exists>outs. generate_swap_payment_outputs (demo_utxo_coin key) lock p q demo_htlc_hash 1 = Inr outs \<and> outputs_ok outs \<and> outs \<noteq> []"
proof -
  have hash: "length (se_ripemd160 demo_sign_env x) = 20" for x using demo_good_hashes by (simp add: good_hashes_def)
  then have l: "length (se_dhash160 demo_sign_env x) = 20" for x by (simp add: dhash160_def)
  have "pushable demo_htlc_hash" by (simp add: demo_htlc_hash_def)
  then show ?thesis
    using assms l
    by (simp add: generate_swap_payment_outputs_def demo_utxo_coin_def payment_script_bytes panic_none_def demo_sat p2sh_of_ok[OF hash]
        builder_default_def push_simps outputs_ok_def output_ok_def bytes_ok_def max_list_size_def demo_htlc_hash_def)
qed


text \<open>The maker's payment, delivered by the server at the second request, passes for its terms and not for another amount.\<close>

definition demo_payment_outs :: "transaction_output list" where
  "demo_payment_outs =
     (case generate_swap_payment_outputs (demo_utxo_coin demo_maker_key) demo_lock demo_maker_pub demo_taker_pub demo_htlc_hash 1 of
        Inr outs \<Rightarrow> outs | Inl e \<Rightarrow> [])"

definition demo_fetch :: "transaction \<Rightarrow> nat \<Rightarrow> h256 \<Rightarrow> bytes option" where
  "demo_fetch t n h = (if n = 0 then None else Some (put_transaction 0 t))"

definition demo_spv :: spv_context where
  "demo_spv = \<lparr>sx_env = demo_header_env, sx_conf = demo_conf, sx_client = NativeClient, sx_storage = None\<rparr>"

definition demo_validate_input :: "rat \<Rightarrow> transaction \<Rightarrow> utxo_payment_input" where
  "demo_validate_input amount t =
     \<lparr>vp_payment_tx = put_transaction 0 t, vp_time_lock = demo_lock, vp_taker_pub = demo_taker_pub, vp_maker_pub = demo_maker_pub,
      vp_secret_hash = demo_htlc_hash, vp_amount = amount, vp_swap_contract_address = None, vp_try_spv_proof_until = 0,
      vp_confirmations = 1\<rparr>"

lemma demo_payment_outs:
  "generate_swap_payment_outputs (demo_utxo_coin demo_maker_key) demo_lock demo_maker_pub demo_taker_pub demo_htlc_hash 1
     = Inr demo_payment_outs" "outputs_ok demo_payment_outs" "demo_payment_outs \<noteq> []"
  using demo_payment[OF demo_public_of demo_terms_ok(1), of demo_maker_key demo_lock] by (auto simp: demo_payment_outs_def)

theorem maker_payment_validated_witness:
  "fst (validate_maker_payment (demo_utxo_coin demo_taker_key) demo_spv (demo_fetch (demo_tx_with demo_payment_outs))
       (demo_validate_input 1 (demo_tx_with demo_payment_outs))) = Some (Inr ())
   \<and> fst (validate_maker_payment (demo_utxo_coin demo_taker_key) demo_spv (demo_fetch (demo_tx_with demo_payment_outs))
       (demo_validate_input 2 (demo_tx_with demo_payment_outs))) \<noteq> Some (Inr ())"
proof -
  let ?t = "demo_tx_with demo_payment_outs" and ?c = "demo_utxo_coin demo_taker_key"
  have hash: "length (se_ripemd160 (uc_env ?c) x) = 20" for x
    using demo_good_hashes by (simp add: demo_utxo_coin_def good_hashes_def)
  have gen: "generate_swap_payment_outputs ?c demo_lock demo_maker_pub demo_taker_pub demo_htlc_hash 1 = Inr demo_payment_outs"
    using demo_payment_outs(1) by (simp add: generate_swap_payment_outputs_def demo_utxo_coin_def)
  have outs: "tx_outputs ?t = demo_payment_outs @ []" by (simp add: demo_tx_with_def)
  have inp: "vp_payment_tx (demo_validate_input a ?t) = put_transaction 0 ?t" for a by (simp add: demo_validate_input_def)
  have served: "served ?c (demo_fetch ?t) (?t\<lparr>tx_tx_hash_algo := uc_tx_hash_algo ?c\<rparr>)"
    unfolding served_def by (rule exI[of _ 1]) (simp add: demo_fetch_def put_transaction_hash_algo)
  note ok = maker_payment_validated[OF hash gen outs demo_tx_with_ok[OF demo_payment_outs(2,3)] inp served, of demo_spv]
  show ?thesis
    by (simp add: ok spv_passed_def) (simp add: demo_validate_input_def demo_utxo_coin_def demo_sat)
qed


section \<open>Spend and refund\<close>

definition demo_item :: "u8 \<Rightarrow> electrum_tx_history_item" where
  "demo_item b = \<lparr>hi_height = 100, hi_tx_hash = [b], hi_fee = None\<rparr>"

definition demo_spend_client :: "transaction \<Rightarrow> transaction \<Rightarrow> spend_client" where
  "demo_spend_client payment spend =
     ElectrumSpendClient
       \<lparr>sv_scripthash_get_history = (\<lambda>h. Some [demo_item 1, demo_item 2]),
        sv_get_transaction_bytes = (\<lambda>h. Some (put_transaction 0 (if h = [1] then payment else spend))),
        sv_get_block_hash = (\<lambda>h. None), sv_list_since_block = (\<lambda>h. None)\<rparr>"

lemma demo_sees_spend:
  assumes "outputs_ok outs" "outs \<noteq> []"
  shows "sees_spend c (demo_spend_client (demo_tx_with outs) t) p from_block (put_transaction 0 t)"
proof -
  let ?sv = "\<lparr>sv_scripthash_get_history = (\<lambda>h. Some [demo_item 1, demo_item 2]),
        sv_get_transaction_bytes = (\<lambda>h. Some (put_transaction 0 (if h = [1] then demo_tx_with outs else t))),
        sv_get_block_hash = (\<lambda>h. None), sv_list_since_block = (\<lambda>h. None)\<rparr>"
  have "first_spend ?sv h [([1], BlockHeight 100), ([2], BlockHeight 100)] (put_transaction 0 t)" for h
    unfolding first_spend_def
    by (rule exI[of _ "[([1], BlockHeight 100)]"], rule exI[of _ "[2]"], rule exI[of _ "BlockHeight 100"], rule exI[of _ "[]"])
      (simp add: utxo_tx_of_put[OF demo_tx_with_ok[OF assms]], simp add: demo_tx_with_def spends_output_def)
  then show ?thesis by (simp add: sees_spend_def demo_spend_client_def demo_item_def)
qed

lemma demo_coin_ok: "standard_coin (demo_utxo_coin key)" "good_hashes (uc_env (demo_utxo_coin key))"
    "length key = 32 \<Longrightarrow> able_to_spend (demo_utxo_coin key') demo_utxo_rpc demo_lock key"
  using demo_good_hashes
  by (simp_all add: standard_coin_def demo_utxo_coin_def able_to_spend_def signs_def demo_sign_env_def get_htlc_spend_fee_def
      p2sh_tx_locktime_def demo_utxo_rpc_def or_err_def)

definition demo_taker_payment_outs :: "transaction_output list" where
  "demo_taker_payment_outs =
     (case generate_swap_payment_outputs (demo_utxo_coin demo_maker_key) demo_lock demo_taker_pub demo_maker_pub demo_htlc_hash 1 of
        Inr outs \<Rightarrow> outs | Inl e \<Rightarrow> [])"

lemma demo_taker_payment_outs:
  "generate_swap_payment_outputs (demo_utxo_coin key) demo_lock demo_taker_pub demo_maker_pub demo_htlc_hash 1
     = Inr demo_taker_payment_outs" "outputs_ok demo_taker_payment_outs" "demo_taker_payment_outs \<noteq> []"
proof -
  have "generate_swap_payment_outputs (demo_utxo_coin key) demo_lock demo_taker_pub demo_maker_pub demo_htlc_hash 1 =
      generate_swap_payment_outputs (demo_utxo_coin demo_maker_key) demo_lock demo_taker_pub demo_maker_pub demo_htlc_hash 1"
    by (simp add: generate_swap_payment_outputs_def demo_utxo_coin_def)
  then show "generate_swap_payment_outputs (demo_utxo_coin key) demo_lock demo_taker_pub demo_maker_pub demo_htlc_hash 1
     = Inr demo_taker_payment_outs" "outputs_ok demo_taker_payment_outs" "demo_taker_payment_outs \<noteq> []"
    using demo_payment[OF demo_public_of(2,1) demo_terms_ok(2), of demo_maker_key demo_lock]
    by (auto simp: demo_taker_payment_outs_def)
qed

abbreviation demo_taker_payment :: transaction where
  "demo_taker_payment \<equiv> demo_tx_with demo_taker_payment_outs"

lemma demo_keys: "public_bytes (se_public (uc_env (demo_utxo_coin k)) (take 32 demo_maker_key)) = demo_maker_pub"
  "public_bytes (se_public (uc_env (demo_utxo_coin k)) (take 32 demo_taker_key)) = demo_taker_pub"
  "length demo_maker_key = 32" "length demo_taker_key = 32" "length demo_htlc_secret = 32"
  by (simp_all add: demo_utxo_coin_def demo_htlc_defs)

lemma demo_paid: "tx_outputs demo_taker_payment = demo_taker_payment_outs @ []"
    "tx_ok StandardWithWitness 0 demo_taker_payment"
  using demo_tx_with_ok[OF demo_taker_payment_outs(2,3)] by (simp_all add: demo_tx_with_def)

theorem maker_spend_reveals_secret_witness:
  "\<exists>spend. send_maker_spends_taker_payment (demo_utxo_coin demo_maker_key) demo_utxo_rpc (put_transaction 0 demo_taker_payment)
       demo_lock demo_taker_pub demo_htlc_secret demo_maker_key = Inr spend
     \<and> extract_secret demo_sign_env demo_htlc_hash (put_transaction 0 spend) = Inr demo_htlc_secret
     \<and> search_for_swap_tx_spend_my (demo_utxo_coin demo_taker_key) (demo_spend_client demo_taker_payment spend) demo_lock
         demo_maker_pub demo_htlc_hash (put_transaction 0 demo_taker_payment) default_swap_vout 90 = Inr (Some (FoundSpent spend))"
proof -
  let ?c = "demo_utxo_coin demo_maker_key" and ?d = "demo_utxo_coin demo_taker_key"
  have hash: "demo_htlc_hash = se_dhash160 (uc_env ?c) demo_htlc_secret"
    using demo_dhash160 by (simp add: demo_utxo_coin_def)
  have same: "uc_env ?d = uc_env ?c" "uc_tx_hash_algo ?d = uc_tx_hash_algo ?c" "uc_key_pair ?d = Some demo_taker_key"
    "public_bytes (se_public (uc_env ?c) demo_taker_key) = demo_taker_pub" "uc_env ?d = demo_sign_env"
    by (simp_all add: demo_utxo_coin_def demo_htlc_defs)
  note reveals = maker_spend_reveals_secret[OF demo_coin_ok(1,2) demo_coin_ok(3)[OF demo_keys(3)] demo_keys(5) hash demo_keys(1)
      demo_taker_payment_outs(1) demo_paid same(1-4), where flags' = 0 and from_block = 90]
  obtain spend where spend: "send_maker_spends_taker_payment ?c demo_utxo_rpc (put_transaction 0 demo_taker_payment)
       demo_lock demo_taker_pub demo_htlc_secret demo_maker_key = Inr spend" using reveals by blast
  show ?thesis
    using reveals[of "demo_spend_client demo_taker_payment spend"] spend demo_sees_spend[OF demo_taker_payment_outs(2,3)] same(5)
    by (intro exI[of _ spend]) simp
qed

theorem taker_refund_accepted_witness:
  "\<exists>refund. send_taker_refunds_payment (demo_utxo_coin demo_taker_key) demo_utxo_rpc (put_transaction 0 demo_taker_payment)
       demo_lock demo_maker_pub demo_htlc_hash demo_taker_key = Inr refund
     \<and> demo_lock \<le> tx_lock_time refund \<and> \<not> list_ex input_is_final (tx_inputs refund)
     \<and> tx_is_final_in_block refund 800000 1700009500
     \<and> extract_secret demo_sign_env demo_htlc_hash (put_transaction 0 refund) = Inl SecretNotFound
     \<and> search_for_swap_tx_spend_other (demo_utxo_coin demo_maker_key) (demo_spend_client demo_taker_payment refund) demo_lock
         demo_taker_pub demo_htlc_hash (put_transaction 0 demo_taker_payment) default_swap_vout 90 = Inr (Some (FoundRefunded refund))"
proof -
  let ?c = "demo_utxo_coin demo_taker_key" and ?d = "demo_utxo_coin demo_maker_key"
  have can: "utxo_can_refund_htlc ?c demo_utxo_rpc (ucast demo_lock) = Inr CanRefundNow"
    by (simp add: utxo_can_refund_htlc_def demo_utxo_rpc_def demo_utxo_coin_def demo_lock_def p2sh_tx_locktime_def or_err_def Let_def
        word_less_nat_alt word_le_nat_alt max_def)
  have same: "uc_env ?d = uc_env ?c" "uc_tx_hash_algo ?d = uc_tx_hash_algo ?c" "uc_key_pair ?d = Some demo_maker_key"
    "public_bytes (se_public (uc_env ?c) demo_maker_key) = demo_maker_pub" "uc_env ?d = demo_sign_env"
    by (simp_all add: demo_utxo_coin_def demo_htlc_defs)
  note accepted = taker_refund_accepted[OF demo_coin_ok(1,2) demo_coin_ok(3)[OF demo_keys(4)] demo_keys(2)
      demo_taker_payment_outs(1) demo_paid can same(1-4), where flags' = 0 and from_block = 90 and height = 800000]
  obtain refund where refund: "send_taker_refunds_payment ?c demo_utxo_rpc (put_transaction 0 demo_taker_payment)
       demo_lock demo_maker_pub demo_htlc_hash demo_taker_key = Inr refund" using accepted by blast
  have time: "rpc_get_current_mtp demo_utxo_rpc = Some 1700009000" "(1700009000 :: u32) \<le> 1700009500" "locktime_threshold \<le> demo_lock"
    by (simp_all add: demo_utxo_rpc_def locktime_threshold_def demo_lock_def)
  show ?thesis
    using accepted[of "demo_spend_client demo_taker_payment refund"] refund demo_sees_spend[OF demo_taker_payment_outs(2,3)] same(5) time
    by (intro exI[of _ refund]) auto
qed


section \<open>The fee\<close>

definition demo_fee :: dex_fee where
  "demo_fee = WithBurn (3 / 4) (1 / 4) KmdOpReturn"

definition demo_fee_outs :: "transaction_output list" where
  "demo_fee_outs = [\<lparr>out_value = 75000000, out_script_pubkey = [OP_DUP, OP_HASH160] @ pushed (replicate 20 7) @ [OP_EQUALVERIFY, OP_CHECKSIG]\<rparr>,
     \<lparr>out_value = 25000000, out_script_pubkey = [OP_RETURN]\<rparr>]"

lemma demo_fee_outs:
  "taker_fee_outputs (\<lambda>x. x) (demo_utxo_coin demo_taker_key) StandardFormat demo_fee demo_maker_pub = Inr demo_fee_outs"
proof -
  have "address_from_raw_pubkey (demo_utxo_coin demo_taker_key) StandardFormat demo_maker_pub =
      Inr \<lparr>ad_hash = replicate 20 7, ad_format = StandardFormat\<rparr>"
    by (simp add: address_from_raw_pubkey_def demo_public_of) (simp add: demo_utxo_coin_def dhash160_def demo_htlc_defs)
  then show ?thesis
    by (simp add: taker_fee_outputs_def generate_taker_fee_tx_outputs_def demo_fee_def sat_from_big_decimal_def Let_def
        demo_utxo_coin_def build_p2pkh_def burn_script_def builder_default_def push_simps panic_none_def demo_fee_outs_def)
qed

definition demo_fee_signer :: transaction_input_signer where
  "demo_fee_signer =
     (signer_from_transaction (demo_tx_with demo_fee_outs))
       \<lparr>sg_inputs := [\<lparr>ui_previous_output = \<lparr>op_hash = replicate 32 7, op_index = 1\<rparr>, ui_sequence = sequence_final,
          ui_amount = 200000000, ui_witness = []\<rparr>]\<rparr>"

definition demo_taker_script :: bytes where
  "demo_taker_script = [OP_DUP, OP_HASH160] @ pushed (replicate 20 8) @ [OP_EQUALVERIFY, OP_CHECKSIG]"

definition demo_fee_tx :: transaction where
  "demo_fee_tx = (case sign_tx demo_sign_env demo_fee_signer demo_taker_key demo_taker_script SigBase 0 of Inr t \<Rightarrow> t | Inl e \<Rightarrow> demo_tx_with [])"

lemma demo_fee_signed: "sign_tx demo_sign_env demo_fee_signer demo_taker_key demo_taker_script SigBase 0 = Inr demo_fee_tx"
proof -
  let ?s = demo_fee_signer
  obtain u where u: "sg_inputs ?s = [u]" by (simp add: demo_fee_signer_def)
  have script: "build_p2pkh (se_dhash160 demo_sign_env (public_bytes (se_public demo_sign_env demo_taker_key))) = Some demo_taker_script"
    by (simp add: build_p2pkh_def builder_default_def push_simps dhash160_def demo_htlc_defs demo_taker_script_def)
  obtain h where h: "signature_hash demo_sign_env ?s 0 (ui_amount u) demo_taker_script SigBase 1 = Some h"
    using signature_hash_in_range[of 0 ?s demo_sign_env "ui_amount u" demo_taker_script SigBase 1] u by auto
  obtain a where a: "push_data (script_sig (replicate 70 1) 0) (Some []) = Some a"
    using push_data_ok[of "script_sig (replicate 70 1) 0" "[]"] by (auto simp: script_sig_def)
  have "\<exists>b. script_sig_with_pub (se_public demo_sign_env demo_taker_key) 0 (replicate 70 1) = Some b"
    using a push_data_ok[of "public_bytes (se_public demo_sign_env demo_taker_key)" a]
    by (auto simp: script_sig_with_pub_def builder_default_def demo_htlc_defs)
  then have "\<exists>t. sign_tx demo_sign_env ?s demo_taker_key demo_taker_script SigBase 0 = Inr t"
    using u h script
    by (auto simp: sign_tx_def sign_tx_with_p2pk_def p2pkh_spend_def signer_get_input_def or_panic_def calc_and_sign_sighash_def
        signature_hash_to_sign_def p2pkh_spend_with_signature_def demo_sign_env_def)
  then show ?thesis by (auto simp: demo_fee_tx_def)
qed

definition demo_fee_rpc :: utxo_rpc where
  "demo_fee_rpc = demo_utxo_rpc\<lparr>rpc_get_verbose_transaction :=
     (\<lambda>h. Some \<lparr>rt_hex = put_transaction 0 demo_fee_tx, rt_height = None, rt_confirmations = 1\<rparr>)\<rparr>"


end
