(* ===== verification/Spec2Isabelle.thy ===== *)
theory Spec2Isabelle
  imports TimeCache SwapStartExample SwapV2Example SpvExample UtxoSwapExample
begin

text \<open>
  Verification of the decentralised exchange node under \<open>src/mm2src\<close>: a node publishes orders,
  matches them with the orders of other nodes, and settles each match by an atomic swap, two
  payments on two chains that are locked by the hash of one secret.

  \<^bold>\<open>The parts and how they interact.\<close> The matching engine (\<open>mm2_main/src/lp_ordermatch\<close>) keeps the own
  maker and taker orders, answers the four messages of the handshake (request, reserved, connect,
  connected), and starts a maker or a taker swap from a match. A swap (\<open>mm2_main/src/lp_swap\<close>) is a
  state machine that negotiates lock times and keys, sends and validates the fee and the payments,
  spends or refunds them, writes every event to a journal, and can be restarted from it. It asks
  the coins (\<open>coins\<close>) for balances, fees, payments, validations and spends. The UTXO coins build their
  payments from scripts (\<open>kdf_script\<close>) and transactions (\<open>kdf_chain\<close>), serialized by \<open>kdf_codec\<close>, and
  check the inclusion of a payment in a block by simplified payment verification
  (\<open>kdf_spv_validation\<close>), on headers that are synchronized with a server.

  \<^bold>\<open>Conventions\<close> (theory \<open>Prelude\<close>). Machine integers are words and wrap around, as the build profiles
  switch overflow checks off; \<open>MmNumber\<close> and \<open>BigDecimal\<close> are rationals; byte buffers, hashes, keys and
  scripts are lists of bytes; a \<open>HashMap\<close> is an association list with distinct keys; \<open>Result\<close> is a sum
  with the error on the left; a panic or a call that never returns is \<open>None\<close> or an error of its own.
  Coins as the swaps see them, servers, the clock, fresh identifiers, random keys, hash functions
  and ECDSA are arguments of the definitions that use them. What a theorem needs of them is a
  hypothesis, such as the lengths of hashes; where a hash could collide, the theorem names the two
  inputs that do.

  \<^bold>\<open>Orders and matching.\<close>
  \<^item> \<open>OrderTypes\<close>, \<open>Orders\<close>: orders, requests and messages with their wire forms
    (\<open>ordermatch_types.rs\<close>, \<open>new_protocol.rs\<close>), the validating builders, \<open>match_with_request\<close>,
    \<open>match_reserved\<close>. Built orders are well formed, a match is within the limits of the order and at a
    price the taker asked for, and a reservation that a maker makes is accepted by the taker it is for.
  \<^item> \<open>OrderTrading\<close>, \<open>OrderManagement\<close>: the contexts of \<open>lp_ordermatch.rs\<close> and every handler of
    \<open>ordermatch_trading.rs\<close> as a function from the context to the context and a list of effects.
  \<^item> \<open>OrderInvariant\<close>, \<open>OrderSafety\<close>, \<open>OrderSteps\<close>: the invariant of one order and of the context, the
    step relation with one rule per handler, and what holds in every reachable context: no order is
    over-committed, a match starts one swap with the agreed amounts, the taker connects to the best
    price, the counts of orders are exact, and which panic is possible.

  \<^bold>\<open>Amounts.\<close>
  \<^item> \<open>Coins\<close>, \<open>DexFee\<close>, \<open>SwapFunds\<close>: the questions to a coin, the fee (\<open>dex_fee.rs\<close>, \<open>mm2_net_config\<close>), the
    funds locked by running swaps and the balance checks (\<open>lp_swap.rs\<close>, \<open>check_balance.rs\<close>). The maximal
    volume together with its fee is exactly what is available, and passes the check of the swap.
  \<^item> \<open>TimeCache\<close>: the cache with expiry of \<open>common/time_cache.rs\<close> refines a map of live entries.

  \<^bold>\<open>Swaps.\<close>
  \<^item> \<open>SwapTypes\<close>, \<open>SwapClock\<close>, \<open>SwapRun\<close>: the data both sides share, facts on lock times, and the loop that
    drives a swap over its journal. The locale \<open>journalled_swap\<close> is the contract between a side and
    the loop; both sides are interpretations of it.
  \<^item> \<open>MakerSwapTypes\<close>, \<open>MakerSwap\<close>, \<open>MakerSwapRun\<close> and the same for \<open>TakerSwap\<close>: all commands, events,
    restoration, recovery and locked amounts of \<open>maker_swap.rs\<close> and \<open>taker_swap.rs\<close>.
  \<^item> \<open>MakerSwapSafety\<close>, \<open>MakerSwapOutcome\<close> and the same for \<open>TakerSwap\<close>: in every run, crashes included,
    payments are sent, spent and refunded only when they should be and in time; a restart resumes
    where the run was; the handlers return; the loop ends; what is finished is settled or
    recoverable, and recovery settles it.
  \<^item> \<open>SwapStart\<close>, \<open>SwapAgreement\<close>: the start of both swaps from one match, and that two honest sides
    agree on identifier, lock times, amounts and payments.
  \<^item> \<open>SwapDemo\<close>, \<open>MakerSwapExample\<close>, \<open>TakerSwapExample\<close>, \<open>SwapStartExample\<close>: concrete runs.

  \<^bold>\<open>The second swap protocol.\<close> In it the taker locks a funding first, which a transaction that both
  sides sign turns into the taker payment; each side is a storable state machine.
  \<^item> \<open>SwapV2Types\<close>: the data of the messages, the arguments and answers of the coins' operations
    (\<open>lp_coins_types.rs\<close>, \<open>lp_coins_traits.rs\<close>), the environment of a handler, and the handlers' monad: a
    handler returns the next state, or fails with a reason, and logs the calls it made.
  \<^item> \<open>SwapV2Messages\<close>: the stores of signed messages (\<open>swap_msg.rs\<close>). What a handler receives was signed
    by the counterparty for this swap.
  \<^item> \<open>SwapV2Storage\<close>, \<open>SwapV2Run\<close>: the table of swaps (\<open>swap_v2_common.rs\<close>), the driver of
    \<open>mm2_state_machine\<close>, and the runs of a node in which storage may fail and the process may stop in
    the middle of a handler and kick-start the swap. The locale \<open>v2_side\<close> takes laws on single handlers
    to every such run, the locale \<open>v2_ranked\<close> takes ranked states to the end of a run; both machines are
    interpretations of both.
  \<^item> \<open>MakerSwapV2\<close>, \<open>TakerSwapV2\<close>: events, transitions, every handler, the hooks, and the recreation of the
    machines of \<open>maker_swap_v2.rs\<close> and \<open>taker_swap_v2.rs\<close>.
  \<^item> \<open>MakerSwapV2Safety\<close>, \<open>TakerSwapV2Safety\<close>: which checks precede each transaction in every run: the
    secret is revealed only for a found and confirmed taker payment, each payment is sent only
    against the checked one of the other side, and refunds are of own transactions.
  \<^item> \<open>MakerSwapV2Life\<close>, \<open>TakerSwapV2Life\<close>: a run ends and leaves nothing locked, a restart gives back
    the stored machine and state, and the maker's funds are locked exactly until its payment is sent.
  \<^item> \<open>SwapV2Agreement\<close>: honest sides agree exactly if their start times are equal.
  \<^item> \<open>SwapV2Example\<close>: the two runs of a whole swap.

  \<^bold>\<open>Transactions and headers.\<close>
  \<^item> \<open>Codec\<close>: the reader, integers, buffers and lists. The locale \<open>codec\<close> states that decoding inverts
    serialization; every type that is serialized is an interpretation of it.
  \<^item> \<open>Transactions\<close>, \<open>TransactionCodec\<close>, \<open>BlockHeaders\<close>, \<open>CompactTarget\<close>: transactions in all layouts, block
    headers of all chains and compact targets, each with its round trip.
  \<^item> \<open>Merkle\<close>, \<open>Spv\<close>: merkle trees and the checks of \<open>helpers_validation.rs\<close> and \<open>spv_proof.rs\<close>.
  \<^item> \<open>HeaderSync\<close>, \<open>HeaderChain\<close>: the table of headers, reorganizations and one turn of the
    synchronization loop (\<open>utxo_common_spv.rs\<close>), which keeps the stored chain linked.
  \<^item> \<open>SpvClient\<close>, \<open>SpvExample\<close>: the client, which accepts what an honest server has in its chain; a proof
    that passes binds the transaction to the block, except for proofs of one node.

  \<^bold>\<open>Payments of the UTXO coins.\<close>
  \<^item> \<open>Script\<close>: opcodes, builder, parser and classification of scripts. The parser reads back what the
    builder pushes.
  \<^item> \<open>Sighash\<close>: the digests of \<open>sign.rs\<close> and the signed inputs of \<open>utxo_signer\<close>. Signing changes neither
    what is spent nor the outputs.
  \<^item> \<open>UtxoSwap\<close>: the payment script, payments, spends, refunds, the search for them, the extraction of
    the secret and the validation of payments and fees (\<open>utxo_common_swap.rs\<close>).
  \<^item> \<open>UtxoSwapSafety\<close>, \<open>UtxoSwapExample\<close>: a payment is valid for exactly the terms it was made for; its
    spend reveals the secret to the other side; a refund is one the network accepts; the fee that is
    sent is accepted. These are what the swaps above expect of a coin.

  \<^bold>\<open>Bounds.\<close> The nesting of merge-mined headers is bounded by an argument, the depth of the stack; the
  round trip holds for every header within it. The rounds of the SPV client are given by the list of
  the servers' states, as the loop ends only at a deadline of the clock. The wait for a refund is a
  \<open>partial_function\<close>, and the loops of the swaps are proved to end if the wait does. So are the waits for
  a message, for a refund and for the spending of a funding in the second protocol; nine rounds of
  the maker's and eleven of the taker's machine are enough from every state. All other loops are
  total.

  \<^bold>\<open>Not modelled.\<close> The orderbook replica of the network (hash tries of an external crate) and its RPC
  queries, the market maker bot, the watchers, the coins' own code for the second swap protocol and
  its storage in browsers, the storage of orders and of swaps of the first protocol, the peer-to-peer layer, the account-based coins, lightning and the
  patched libraries, activation, wallets and hardware devices, the RPC interface, the text forms of
  addresses, the selection of unspent outputs for a transaction, and the check through a native node
  whether a payment was sent. They are input and output, drivers of external programs, or protocols
  of their own; where the modelled parts use them, their answers are arguments. Logging, event
  streams and statistics have no effect on the modelled state.
\<close>

end
